(* ===== verification/Prelude.thy ===== *)
theory Prelude
  imports
    Complex_Main
    "HOL-Library.AList"
    "HOL-Library.Char_ord"
    "HOL-Library.List_Lexorder"
begin

text \<open>
  Shared ground of the development: the Python values the components compute with
  (dictionaries in insertion order, floats with their special values, exceptions as
  values, JSON documents), the string functions of the standard library the sources
  call, and the generic lemmas the component theories use through the simplifier or
  through the collections declared here.

  Floats are exact rationals plus the two infinities and NaN. Rounding is not
  modelled; the IEEE comparisons with NaN and the infinities are, because the sources
  compare timestamps they read out of untrusted JSON. Text is a list of bytes: a
  Python string is represented by its UTF-8 encoding, and an HTTP header value by the
  Latin-1 bytes the server received.
\<close>

named_theorems dict_simps \<open>lookup, update and deletion in dictionaries\<close>
named_theorems str_simps \<open>prefixes, suffixes and splitting of strings\<close>

section \<open>Dictionaries\<close>

text \<open>
  A Python dictionary keeps insertion order, an assignment to an existing key keeps its
  place. \<^const>\<open>AList.update\<close> does exactly that on association lists with distinct keys.
\<close>

type_synonym ('k, 'v) dict = "('k \<times> 'v) list"

abbreviation dict_get :: "('k, 'v) dict \<Rightarrow> 'k \<Rightarrow> 'v option" where
  "dict_get d k \<equiv> map_of d k"

abbreviation dict_set :: "'k \<Rightarrow> 'v \<Rightarrow> ('k, 'v) dict \<Rightarrow> ('k, 'v) dict" where
  "dict_set k v d \<equiv> AList.update k v d"

abbreviation dict_del :: "'k \<Rightarrow> ('k, 'v) dict \<Rightarrow> ('k, 'v) dict" where
  "dict_del k d \<equiv> AList.delete k d"

abbreviation dict_keys :: "('k, 'v) dict \<Rightarrow> 'k list" where
  "dict_keys d \<equiv> map fst d"

abbreviation wf_dict :: "('k, 'v) dict \<Rightarrow> bool" where
  "wf_dict d \<equiv> distinct (dict_keys d)"

lemma map_of_dict_set [simp, dict_simps]:
  "dict_get (dict_set k v d) k' = (if k' = k then Some v else dict_get d k')"
  by (simp add: update_conv')

lemma map_of_dict_del [simp, dict_simps]:
  "dict_get (dict_del k d) k' = (if k' = k then None else dict_get d k')"
  by (simp add: delete_conv')

lemma wf_dict_set [intro, dict_simps]: "wf_dict d \<Longrightarrow> wf_dict (dict_set k v d)"
  by (rule distinct_update)

lemma wf_dict_del [intro, dict_simps]: "wf_dict d \<Longrightarrow> wf_dict (dict_del k d)"
  by (rule distinct_delete)

lemma wf_dict_filter [intro, dict_simps]: "wf_dict d \<Longrightarrow> wf_dict (filter P d)"
  by (rule distinct_map_filter)

lemma dict_keys_set: "set (dict_keys (dict_set k v d)) = insert k (set (dict_keys d))"
  by (induction d) auto

lemma dict_set_new: "dict_get d k = None \<Longrightarrow> dict_set k v d = d @ [(k, v)]"
  by (induction d) (auto split: if_splits)

lemma length_dict_set:
  "length (dict_set k v d) = (if dict_get d k = None then Suc (length d) else length d)"
  by (induction d) auto

lemma length_dict_del_le [simp]: "length (dict_del k d) \<le> length d"
  by (rule length_delete_le)

lemma map_of_filter_wf:
  "wf_dict d \<Longrightarrow>
   dict_get (filter (\<lambda>(k, v). P k v) d) k =
     (case dict_get d k of None \<Rightarrow> None | Some v \<Rightarrow> if P k v then Some v else None)"
proof (induction d)
  case Nil
  then show ?case by simp
next
  case (Cons kv d)
  obtain k' v' where kv: "kv = (k', v')" by (cases kv)
  show ?case
  proof (cases "k = k'")
    case True
    with Cons.prems kv have "dict_get d k = None"
      by (simp add: map_of_eq_None_iff)
    with Cons kv True show ?thesis by simp
  next
    case False
    with Cons kv show ?thesis by simp
  qed
qed

lemma in_keys_iff: "k \<in> set (dict_keys d) \<longleftrightarrow> dict_get d k \<noteq> None"
  by (simp add: map_of_eq_None_iff)

lemma dict_get_mem: "dict_get d k = Some v \<Longrightarrow> (k, v) \<in> set d"
  by (rule map_of_SomeD)

lemma mem_dict_get: "wf_dict d \<Longrightarrow> (k, v) \<in> set d \<longleftrightarrow> dict_get d k = Some v"
  by (metis map_of_SomeD map_of_is_SomeI)

section \<open>Floats\<close>

datatype pyfloat = Fin rat | PInf | NInf | NaN

fun fless :: "pyfloat \<Rightarrow> pyfloat \<Rightarrow> bool" where
  "fless (Fin a) (Fin b) = (a < b)"
| "fless (Fin a) PInf = True"
| "fless NInf (Fin b) = True"
| "fless NInf PInf = True"
| "fless _ _ = False"

fun fadd :: "pyfloat \<Rightarrow> pyfloat \<Rightarrow> pyfloat" where
  "fadd NaN _ = NaN"
| "fadd _ NaN = NaN"
| "fadd PInf NInf = NaN"
| "fadd NInf PInf = NaN"
| "fadd PInf _ = PInf"
| "fadd NInf _ = NInf"
| "fadd _ PInf = PInf"
| "fadd _ NInf = NInf"
| "fadd (Fin a) (Fin b) = Fin (a + b)"

fun fneg :: "pyfloat \<Rightarrow> pyfloat" where
  "fneg (Fin a) = Fin (- a)"
| "fneg PInf = NInf"
| "fneg NInf = PInf"
| "fneg NaN = NaN"

definition fsub :: "pyfloat \<Rightarrow> pyfloat \<Rightarrow> pyfloat" where
  "fsub a b = fadd a (fneg b)"

fun fabs :: "pyfloat \<Rightarrow> pyfloat" where
  "fabs (Fin a) = Fin \<bar>a\<bar>"
| "fabs PInf = PInf"
| "fabs NInf = PInf"
| "fabs NaN = NaN"

lemma fsub_simps [simp]:
  "fsub (Fin a) (Fin b) = Fin (a - b)"
  "fsub (Fin a) PInf = NInf"
  "fsub (Fin a) NInf = PInf"
  "fsub (Fin a) NaN = NaN"
  by (simp_all add: fsub_def)

lemma fless_NaN [simp]: "\<not> fless NaN b" "\<not> fless a NaN"
  by (cases b; simp) (cases a; simp)

lemma fless_trans: "fless a b \<Longrightarrow> fless b c \<Longrightarrow> fless a c"
  by (cases a; cases b; cases c) auto

lemma fless_Fin_mono: "fless a (Fin t) \<Longrightarrow> t \<le> t' \<Longrightarrow> fless a (Fin t')"
  by (cases a) auto

text \<open>
  Converting an integer to a float raises \<open>OverflowError\<close> when it rounds past the
  largest double.
\<close>

definition max_double_bound :: int where
  "max_double_bound = 2 ^ 1024 - 2 ^ 970"

definition float_of_int :: "int \<Rightarrow> pyfloat option" where
  "float_of_int n = (if \<bar>n\<bar> < max_double_bound then Some (Fin (of_int n)) else None)"

section \<open>Exceptions\<close>

datatype exc_kind =
  ValueError | RuntimeError | KeyError | TypeError | AttributeError | OverflowError
  | TimeoutError | OtherError

text \<open>
  A Python exception: its class, the \<open>code\<close> attribute the AITP SDK sets on its own
  refusals (absent on others), and its message.
\<close>

datatype pyexc = PyExc (exc_kind: exc_kind) (exc_code: "string option") (exc_msg: string)

text \<open>Sequencing of computations that may raise.\<close>

definition bindE :: "'e + 'x \<Rightarrow> ('x \<Rightarrow> 'e + 'y) \<Rightarrow> 'e + 'y" where
  "bindE m f = (case m of Inl e \<Rightarrow> Inl e | Inr x \<Rightarrow> f x)"

lemma bindE_simps [simp]: "bindE (Inl e) f = Inl e" "bindE (Inr x) f = f x"
  by (simp_all add: bindE_def)

lemma bindE_Inr_iff: "bindE m f = Inr y \<longleftrightarrow> (\<exists>x. m = Inr x \<and> f x = Inr y)"
  by (cases m) auto

section \<open>JSON documents\<close>

datatype json =
  JNull | JBool bool | JInt int | JFloat pyfloat | JStr string
  | JArr "json list" | JObj "(string \<times> json) list"

abbreviation is_dict :: "json \<Rightarrow> bool" where
  "is_dict j \<equiv> (case j of JObj _ \<Rightarrow> True | _ \<Rightarrow> False)"

abbreviation is_str :: "json \<Rightarrow> bool" where
  "is_str j \<equiv> (case j of JStr _ \<Rightarrow> True | _ \<Rightarrow> False)"

text \<open>Python truthiness of a decoded JSON value.\<close>

fun truthy :: "json \<Rightarrow> bool" where
  "truthy JNull = False"
| "truthy (JBool b) = b"
| "truthy (JInt n) = (n \<noteq> 0)"
| "truthy (JFloat x) = (x \<noteq> Fin 0)"
| "truthy (JStr s) = (s \<noteq> [])"
| "truthy (JArr xs) = (xs \<noteq> [])"
| "truthy (JObj kvs) = (kvs \<noteq> [])"

text \<open>Lists and dictionaries are unhashable: testing them against a set raises \<open>TypeError\<close>.\<close>

fun hashable :: "json \<Rightarrow> bool" where
  "hashable (JArr _) = False"
| "hashable (JObj _) = False"
| "hashable _ = True"

section \<open>Strings\<close>

fun starts_with :: "string \<Rightarrow> string \<Rightarrow> bool" where
  "starts_with [] s = True"
| "starts_with (p # ps) [] = False"
| "starts_with (p # ps) (c # s) = (p = c \<and> starts_with ps s)"

lemma starts_with_iff [str_simps]: "starts_with p s \<longleftrightarrow> (\<exists>r. s = p @ r)"
  by (induction p s rule: starts_with.induct) auto

lemma starts_with_append [simp, str_simps]: "starts_with p (p @ s)"
  by (simp add: starts_with_iff)

text \<open>\<open>s.split(c)\<close> for a one-character separator.\<close>

fun split_on :: "char \<Rightarrow> string \<Rightarrow> string list" where
  "split_on c [] = [[]]"
| "split_on c (x # xs) =
     (if x = c then [] # split_on c xs
      else (case split_on c xs of [] \<Rightarrow> [[x]] | y # ys \<Rightarrow> (x # y) # ys))"

lemma split_on_nonempty [simp]: "split_on c s \<noteq> []"
  by (induction s) (auto split: list.splits)

text \<open>\<open>s.partition(c)\<close> without the separator: the text before and after the first \<open>c\<close>.\<close>

definition partition_on :: "char \<Rightarrow> string \<Rightarrow> string \<times> string" where
  "partition_on c s = (takeWhile (\<lambda>x. x \<noteq> c) s, tl (dropWhile (\<lambda>x. x \<noteq> c) s))"

text \<open>\<open>s.rstrip("/")\<close>.\<close>

definition rstrip_slash :: "string \<Rightarrow> string" where
  "rstrip_slash s = rev (dropWhile (\<lambda>c. c = CHR ''/'') (rev s))"

fun str_nat_aux :: "nat \<Rightarrow> nat \<Rightarrow> string" where
  "str_nat_aux 0 n = []"
| "str_nat_aux (Suc f) n =
     (if n < 10 then [char_of (48 + n)]
      else str_nat_aux f (n div 10) @ [char_of (48 + n mod 10)])"

definition str_nat :: "nat \<Rightarrow> string" where
  "str_nat n = str_nat_aux (Suc n) n"

text \<open>\<open>str(n)\<close> of an integer.\<close>

definition str_int :: "int \<Rightarrow> string" where
  "str_int n = (if n < 0 then CHR ''-'' # str_nat (nat (- n)) else str_nat (nat n))"

end
