(* ===== verification/Expiring_Table.thy ===== *)
theory Expiring_Table
  imports Prelude
begin

text \<open>
  The interface two components of the agent base share: a dictionary whose entries carry
  a deadline, pruned against the clock before every use. The replay guard's deny list and
  the outstanding proof-of-possession challenges are both such tables; each provides its
  own \<open>prune\<close> and interprets the locale on it. The lemmas proved here are what the
  clients need: pruning only forgets entries that are past their deadline, an entry that
  is gone or expired does not come back by pruning, and what survives a late pruning
  survived every earlier one.

  Deadlines are Python numbers, so the comparison with the clock is the one Python makes
  between an \<open>int\<close> or a \<open>float\<close> and the float the clock returns.
\<close>

section \<open>Python numbers\<close>

datatype pynum = PInt int | PFlt pyfloat

text \<open>\<open>until < now\<close>: exact for an \<open>int\<close>, IEEE for a \<open>float\<close>.\<close>

fun num_before :: "pynum \<Rightarrow> rat \<Rightarrow> bool" where
  "num_before (PInt n) now = (of_int n < now)"
| "num_before (PFlt x) now = fless x (Fin now)"

text \<open>Arithmetic between a float and an \<open>int\<close> converts the \<open>int\<close>, which can overflow.\<close>

fun num_float :: "pynum \<Rightarrow> pyfloat option" where
  "num_float (PInt n) = float_of_int n"
| "num_float (PFlt x) = Some x"

fun num_add_int :: "pynum \<Rightarrow> int \<Rightarrow> pynum" where
  "num_add_int (PInt n) k = PInt (n + k)"
| "num_add_int (PFlt x) k = PFlt (fadd x (Fin (of_int k)))"

fun json_num :: "json \<Rightarrow> pynum option" where
  "json_num (JInt n) = Some (PInt n)"
| "json_num (JFloat x) = Some (PFlt x)"
| "json_num _ = None"

lemma num_before_mono: "num_before u t \<Longrightarrow> t \<le> t' \<Longrightarrow> num_before u t'"
  by (cases u) (auto intro: fless_Fin_mono)

section \<open>Removing a list of keys\<close>

text \<open>
  The sources collect the expired keys first and delete them one by one; on a dictionary
  with distinct keys that is a filter.
\<close>

lemma fold_dict_del:
  "fold dict_del ks d = filter (\<lambda>(k, v). k \<notin> set ks) d"
proof (induction ks arbitrary: d)
  case (Cons k ks)
  have "dict_del k d = filter (\<lambda>(k', v). k' \<noteq> k) d"
    by (simp add: AList.delete_eq case_prod_unfold eq_commute)
  with Cons show ?case by (simp add: case_prod_unfold conj_commute)
qed simp

lemma del_expired_filter:
  assumes "wf_dict d"
  shows "fold dict_del (map fst (filter (\<lambda>(k, v). P v) d)) d = filter (\<lambda>(k, v). \<not> P v) d"
  unfolding fold_dict_del
proof (rule filter_cong [OF refl], clarify)
  fix k v assume kv: "(k, v) \<in> set d"
  show "k \<notin> set (map fst (filter (\<lambda>(k, v). P v) d)) \<longleftrightarrow> \<not> P v"
  proof
    assume "k \<notin> set (map fst (filter (\<lambda>(k, v). P v) d))"
    with kv show "\<not> P v" by (auto simp: image_iff)
  next
    assume n: "\<not> P v"
    have "v' = v" if "(k, v') \<in> set d" for v'
      using that kv mem_dict_get [OF assms] by simp
    with n show "k \<notin> set (map fst (filter (\<lambda>(k, v). P v) d))" by auto
  qed
qed

section \<open>The interface\<close>

locale expiring_table =
  fixes prune :: "rat \<Rightarrow> ('k, 'v) dict \<Rightarrow> ('k, 'v) dict"
    and expired :: "'v \<Rightarrow> rat \<Rightarrow> bool"
  assumes prune_filter: "wf_dict d \<Longrightarrow> prune now d = filter (\<lambda>(k, v). \<not> expired v now) d"
    and expired_mono: "expired v t \<Longrightarrow> t \<le> t' \<Longrightarrow> expired v t'"
begin

lemma prune_wf: "wf_dict d \<Longrightarrow> wf_dict (prune now d)"
  by (simp add: prune_filter wf_dict_filter)

lemma prune_get:
  "wf_dict d \<Longrightarrow> dict_get (prune now d) k =
     (case dict_get d k of None \<Rightarrow> None | Some v \<Rightarrow> if expired v now then None else Some v)"
  by (simp add: prune_filter map_of_filter_wf split: option.split)

lemma prune_length: "wf_dict d \<Longrightarrow> length (prune now d) \<le> length d"
  by (simp add: prune_filter)

lemma prune_set: "wf_dict d \<Longrightarrow> set (prune now d) = {(k, v) \<in> set d. \<not> expired v now}"
  by (auto simp: prune_filter)

lemma prune_keeps: "wf_dict d \<Longrightarrow> dict_get d k = Some v \<Longrightarrow> \<not> expired v now \<Longrightarrow>
    dict_get (prune now d) k = Some v"
  by (simp add: prune_get)

lemma prune_fresh: "wf_dict d \<Longrightarrow> dict_get d k = None \<Longrightarrow> dict_get (prune now d) k = None"
  by (simp add: prune_get)

lemma prune_live: "wf_dict d \<Longrightarrow> dict_get (prune now d) k = Some v \<Longrightarrow>
    dict_get d k = Some v \<and> \<not> expired v now"
  by (auto simp: prune_get split: option.splits if_splits)

lemma prune_prune:
  assumes "wf_dict d" "t \<le> t'"
  shows "prune t' (prune t d) = prune t' d"
proof -
  have "filter (\<lambda>(k, v). \<not> expired v t') (filter (\<lambda>(k, v). \<not> expired v t) d)
        = filter (\<lambda>(k, v). \<not> expired v t') d"
    using expired_mono assms(2) by (auto intro: filter_cong)
  then show ?thesis using assms(1) by (simp add: prune_filter wf_dict_filter)
qed

lemma prune_all_permanent:
  "wf_dict d \<Longrightarrow> (\<And>k v. (k, v) \<in> set d \<Longrightarrow> \<not> expired v now) \<Longrightarrow> prune now d = d"
  by (auto simp: prune_filter filter_id_conv)

end

end
