(* ===== verification/Json_Text.thy ===== *)
theory Json_Text
  imports Prelude
begin

text \<open>
  \<open>json.loads\<close> of the Python standard library: the scanner the agents run over every
  request body, envelope and token payload. It accepts what Python accepts, including
  the non-standard literals \<open>NaN\<close>, \<open>Infinity\<close> and \<open>-Infinity\<close>; a repeated
  object key keeps its first place and its last value. The recursion is bounded by fuel;
  \<open>pvalue_fuel_enough\<close> shows that the fuel \<open>loads\<close> passes never runs out. Python's
  recursion limit and its limit on the number of digits are not modelled.
\<close>

section \<open>Characters\<close>

abbreviation quote_char :: char where "quote_char \<equiv> CHR 0x22"
abbreviation backslash_char :: char where "backslash_char \<equiv> CHR 0x5C"

definition is_ws :: "char \<Rightarrow> bool" where
  "is_ws c \<longleftrightarrow> c = CHR 0x20 \<or> c = CHR 0x09 \<or> c = CHR 0x0A \<or> c = CHR 0x0D"

definition is_digit :: "char \<Rightarrow> bool" where
  "is_digit c \<longleftrightarrow> 48 \<le> (of_char c :: nat) \<and> (of_char c :: nat) \<le> 57"

definition skip_ws :: "string \<Rightarrow> string" where
  "skip_ws s = dropWhile is_ws s"

definition hex_val :: "char \<Rightarrow> nat option" where
  "hex_val c =
     (let n = of_char c :: nat in
      if 48 \<le> n \<and> n \<le> 57 then Some (n - 48)
      else if 97 \<le> n \<and> n \<le> 102 then Some (n - 87)
      else if 65 \<le> n \<and> n \<le> 70 then Some (n - 55)
      else None)"

definition hex4 :: "char \<Rightarrow> char \<Rightarrow> char \<Rightarrow> char \<Rightarrow> nat option" where
  "hex4 a b c d =
     (case (hex_val a, hex_val b, hex_val c, hex_val d) of
        (Some w, Some x, Some y, Some z) \<Rightarrow> Some (w * 4096 + x * 256 + y * 16 + z)
      | _ \<Rightarrow> None)"

text \<open>The UTF-8 encoding of a code point; a lone surrogate is encoded in three bytes.\<close>

definition utf8_encode :: "nat \<Rightarrow> string" where
  "utf8_encode n =
     (if n < 128 then [char_of n]
      else if n < 2048 then [char_of (192 + n div 64), char_of (128 + n mod 64)]
      else if n < 65536 then
        [char_of (224 + n div 4096), char_of (128 + n div 64 mod 64), char_of (128 + n mod 64)]
      else
        [char_of (240 + n div 262144), char_of (128 + n div 4096 mod 64),
         char_of (128 + n div 64 mod 64), char_of (128 + n mod 64)])"

section \<open>Strings and numbers\<close>

definition simple_escape :: "char \<Rightarrow> char option" where
  "simple_escape c =
     (if c = quote_char \<or> c = backslash_char \<or> c = CHR ''/'' then Some c
      else if c = CHR ''b'' then Some (CHR 0x08)
      else if c = CHR ''f'' then Some (CHR 0x0C)
      else if c = CHR ''n'' then Some (CHR 0x0A)
      else if c = CHR ''r'' then Some (CHR 0x0D)
      else if c = CHR ''t'' then Some (CHR 0x09)
      else None)"

text \<open>\<open>uXXXX\<close> with the surrogate pair it may start: the bytes and the text after it.\<close>

fun parse_unicode :: "string \<Rightarrow> (nat \<times> string) option" where
  "parse_unicode (h1 # h2 # h3 # h4 # r) = map_option (\<lambda>u. (u, r)) (hex4 h1 h2 h3 h4)"
| "parse_unicode _ = None"

definition low_surrogate :: "string \<Rightarrow> (nat \<times> string) option" where
  "low_surrogate r =
     (case r of
        b # v # t \<Rightarrow>
          if b = backslash_char \<and> v = CHR ''u'' then
            (case parse_unicode t of
               Some (w, r') \<Rightarrow> if 56320 \<le> w \<and> w \<le> 57343 then Some (w, r') else None
             | None \<Rightarrow> None)
          else None
      | _ \<Rightarrow> None)"

text \<open>What follows a backslash: the decoded bytes and the rest.\<close>

definition parse_escape :: "string \<Rightarrow> (string \<times> string) option" where
  "parse_escape cs =
     (case cs of
        [] \<Rightarrow> None
      | e # es \<Rightarrow>
          if e = CHR ''u'' then
            (case parse_unicode es of
               None \<Rightarrow> None
             | Some (u, r) \<Rightarrow>
                 if 55296 \<le> u \<and> u \<le> 56319 then
                   (case low_surrogate r of
                      Some (w, r') \<Rightarrow>
                        Some (utf8_encode (65536 + (u - 55296) * 1024 + (w - 56320)), r')
                    | None \<Rightarrow> Some (utf8_encode u, r))
                 else Some (utf8_encode u, r))
          else map_option (\<lambda>d. ([d], es)) (simple_escape e))"

lemma parse_unicode_length: "parse_unicode s = Some (u, r) \<Longrightarrow> length r < length s"
  by (induction s rule: parse_unicode.induct) auto

lemma low_surrogate_length: "low_surrogate s = Some (u, r) \<Longrightarrow> length r < length s"
  by (auto simp: low_surrogate_def dest!: parse_unicode_length
        split: list.splits if_splits option.splits)

lemma parse_escape_length: "parse_escape s = Some (v, r) \<Longrightarrow> length r < length s"
  by (auto simp: parse_escape_def dest!: parse_unicode_length low_surrogate_length
        split: list.splits if_splits option.splits)

text \<open>The rest of a string literal after its opening quote: its value and what follows it.\<close>

function parse_str :: "string \<Rightarrow> (string \<times> string) option" where
  "parse_str [] = None"
| "parse_str (c # cs) =
     (if c = quote_char then Some ([], cs)
      else if c = backslash_char then
        (case parse_escape cs of
           None \<Rightarrow> None
         | Some (d, r) \<Rightarrow> map_option (apfst ((@) d)) (parse_str r))
      else if (of_char c :: nat) < 32 then None
      else map_option (apfst ((#) c)) (parse_str cs))"
  by pat_completeness auto
termination
  by (relation "measure length") (auto dest: parse_escape_length)

definition digits_val :: "string \<Rightarrow> int" where
  "digits_val ds = foldl (\<lambda>a c. a * 10 + (int (of_char c) - 48)) 0 ds"

text \<open>\<open>NUMBER_RE\<close>: integer part, optional fraction, optional exponent.\<close>

definition parse_int_part :: "string \<Rightarrow> (string \<times> string) option" where
  "parse_int_part s =
     (case s of
        [] \<Rightarrow> None
      | c # r \<Rightarrow>
          if c = CHR ''0'' then Some ([c], r)
          else if is_digit c then Some (takeWhile is_digit s, dropWhile is_digit s)
          else None)"

definition parse_frac :: "string \<Rightarrow> string \<times> string" where
  "parse_frac s =
     (case s of
        c # r \<Rightarrow>
          if c = CHR ''.'' \<and> takeWhile is_digit r \<noteq> []
          then (takeWhile is_digit r, dropWhile is_digit r) else ([], s)
      | [] \<Rightarrow> ([], s))"

definition parse_exp :: "string \<Rightarrow> int option \<times> string" where
  "parse_exp s =
     (case s of
        c # r \<Rightarrow>
          if c = CHR ''e'' \<or> c = CHR ''E'' then
            (let (neg, t) = (case r of
                 x # r' \<Rightarrow> if x = CHR ''-'' then (True, r')
                           else if x = CHR ''+'' then (False, r') else (False, r)
               | [] \<Rightarrow> (False, r));
                 ds = takeWhile is_digit t
             in if ds = [] then (None, s)
                else (Some (if neg then - digits_val ds else digits_val ds), dropWhile is_digit t))
          else (None, s)
      | [] \<Rightarrow> (None, s))"

definition pow10 :: "int \<Rightarrow> rat" where
  "pow10 e = (if 0 \<le> e then 10 ^ nat e else 1 / 10 ^ nat (- e))"

text \<open>A literal past the largest double reads as an infinity, as \<open>float("1e400")\<close> does.\<close>

definition round_literal :: "rat \<Rightarrow> pyfloat" where
  "round_literal r =
     (if of_int max_double_bound \<le> r then PInf
      else if r \<le> - of_int max_double_bound then NInf else Fin r)"

definition parse_number :: "string \<Rightarrow> (json \<times> string) option" where
  "parse_number s =
     (let (neg, t) = (case s of c # r \<Rightarrow> if c = CHR ''-'' then (True, r) else (False, s)
                              | [] \<Rightarrow> (False, s))
      in case parse_int_part t of
           None \<Rightarrow> None
         | Some (ds, r1) \<Rightarrow>
             (let (fs, r2) = parse_frac r1; (ex, r3) = parse_exp r2; sg = (if neg then - 1 else 1)
              in if fs = [] \<and> ex = None then Some (JInt (sg * digits_val ds), r3)
                 else Some (JFloat (round_literal (of_int sg * of_int (digits_val (ds @ fs)) *
                        pow10 ((case ex of None \<Rightarrow> 0 | Some e \<Rightarrow> e) - int (length fs)))), r3)))"

section \<open>Values\<close>

definition strip_lit :: "string \<Rightarrow> string \<Rightarrow> string option" where
  "strip_lit p s = (if starts_with p s then Some (drop (length p) s) else None)"

definition parse_atom :: "string \<Rightarrow> (json \<times> string) option" where
  "parse_atom s =
     (case strip_lit ''null'' s of Some r \<Rightarrow> Some (JNull, r) | None \<Rightarrow>
     (case strip_lit ''true'' s of Some r \<Rightarrow> Some (JBool True, r) | None \<Rightarrow>
     (case strip_lit ''false'' s of Some r \<Rightarrow> Some (JBool False, r) | None \<Rightarrow>
     (case parse_number s of Some r \<Rightarrow> Some r | None \<Rightarrow>
     (case strip_lit ''NaN'' s of Some r \<Rightarrow> Some (JFloat NaN, r) | None \<Rightarrow>
     (case strip_lit ''Infinity'' s of Some r \<Rightarrow> Some (JFloat PInf, r) | None \<Rightarrow>
     (case strip_lit ''-Infinity'' s of Some r \<Rightarrow> Some (JFloat NInf, r) | None \<Rightarrow> None)))))))"

fun pvalue :: "nat \<Rightarrow> string \<Rightarrow> (json \<times> string) option"
and parr :: "nat \<Rightarrow> json list \<Rightarrow> string \<Rightarrow> (json \<times> string) option"
and pobj :: "nat \<Rightarrow> (string \<times> json) list \<Rightarrow> string \<Rightarrow> (json \<times> string) option" where
  "pvalue 0 s = None"
| "pvalue (Suc f) s =
     (case s of
        [] \<Rightarrow> None
      | c # t \<Rightarrow>
          if c = quote_char then map_option (apfst JStr) (parse_str t)
          else if c = CHR ''{'' then
            (case skip_ws t of
               [] \<Rightarrow> None
             | d # r \<Rightarrow> if d = CHR ''}'' then Some (JObj [], r) else pobj f [] (d # r))
          else if c = CHR ''['' then
            (case skip_ws t of
               [] \<Rightarrow> None
             | d # r \<Rightarrow> if d = CHR '']'' then Some (JArr [], r) else parr f [] (d # r))
          else parse_atom s)"
| "parr 0 acc s = None"
| "parr (Suc f) acc s =
     (case pvalue f s of
        None \<Rightarrow> None
      | Some (v, r) \<Rightarrow>
          (case skip_ws r of
             [] \<Rightarrow> None
           | d # r' \<Rightarrow>
               if d = CHR '']'' then Some (JArr (acc @ [v]), r')
               else if d = CHR '','' then parr f (acc @ [v]) (skip_ws r')
               else None))"
| "pobj 0 acc s = None"
| "pobj (Suc f) acc s =
     (case s of
        [] \<Rightarrow> None
      | q # t \<Rightarrow>
          if q \<noteq> quote_char then None
          else
            (case parse_str t of
               None \<Rightarrow> None
             | Some (k, r) \<Rightarrow>
                 (case skip_ws r of
                    [] \<Rightarrow> None
                  | d # r1 \<Rightarrow>
                      if d \<noteq> CHR '':'' then None
                      else
                        (case pvalue f (skip_ws r1) of
                           None \<Rightarrow> None
                         | Some (v, r2) \<Rightarrow>
                             (case skip_ws r2 of
                                [] \<Rightarrow> None
                              | e # r3 \<Rightarrow>
                                  if e = CHR ''}'' then Some (JObj (dict_set k v acc), r3)
                                  else if e = CHR '','' then pobj f (dict_set k v acc) (skip_ws r3)
                                  else None)))))"

definition loads :: "string \<Rightarrow> json option" where
  "loads s =
     (case pvalue (2 * length s + 2) (skip_ws s) of
        Some (v, r) \<Rightarrow> if skip_ws r = [] then Some v else None
      | None \<Rightarrow> None)"

section \<open>The fuel is enough\<close>

lemma length_skip_ws [simp]: "length (skip_ws s) \<le> length s"
  by (simp add: skip_ws_def length_dropWhile_le)

lemma skip_ws_lengthD: "skip_ws s = x # r \<Longrightarrow> length r < length s"
  by (metis length_skip_ws length_Cons less_eq_Suc_le)

lemma parse_str_length: "parse_str s = Some (v, r) \<Longrightarrow> length r < length s"
proof (induction s arbitrary: v r rule: parse_str.induct)
  case 1
  then show ?case by simp
next
  case (2 c cs)
  consider "c = quote_char" | "c \<noteq> quote_char" "c = backslash_char"
    | "c \<noteq> quote_char" "c \<noteq> backslash_char" by blast
  then show ?case
  proof cases
    case 1
    with "2.prems" show ?thesis by simp
  next
    case esc: 2
    with "2.prems" obtain d q where dq: "parse_escape cs = Some (d, q)"
      by (auto split: option.splits)
    with esc "2.prems" obtain v' where "parse_str q = Some (v', r)" by auto
    with "2.IH"(1) esc dq have "length r < length q" by blast
    with parse_escape_length [OF dq] show ?thesis by simp
  next
    case 3
    with "2.prems" obtain v' where "\<not> (of_char c :: nat) < 32" "parse_str cs = Some (v', r)"
      by (auto split: if_splits)
    with "2.IH"(2) 3 show ?thesis by (simp add: less_SucI)
  qed
qed

lemma length_dropWhile_less: "xs \<noteq> [] \<Longrightarrow> P (hd xs) \<Longrightarrow> length (dropWhile P xs) < length xs"
  by (cases xs) (auto simp: le_imp_less_Suc length_dropWhile_le)

lemma parse_int_part_length: "parse_int_part s = Some (ds, r) \<Longrightarrow> length r < length s"
  by (auto simp: parse_int_part_def le_imp_less_Suc length_dropWhile_le split: list.splits if_splits)

lemma parse_frac_length: "parse_frac s = (fs, r) \<Longrightarrow> length r \<le> length s"
  by (auto simp: parse_frac_def le_SucI length_dropWhile_le split: list.splits if_splits)

lemma parse_exp_length: "parse_exp s = (e, r) \<Longrightarrow> length r \<le> length s"
  by (auto simp: parse_exp_def Let_def le_SucI length_dropWhile_le
        split: list.splits if_splits prod.splits)

lemma parse_number_length: "parse_number s = Some (v, r) \<Longrightarrow> length r < length s"
  by (auto simp: parse_number_def Let_def
        dest!: parse_int_part_length parse_frac_length parse_exp_length
        split: list.splits if_splits prod.splits option.splits)

lemma strip_lit_length: "strip_lit p s = Some r \<Longrightarrow> p \<noteq> [] \<Longrightarrow> length r < length s"
  by (auto simp: strip_lit_def starts_with_iff split: if_splits)

lemma parse_atom_length: "parse_atom s = Some (v, r) \<Longrightarrow> length r < length s"
  unfolding parse_atom_def
  by (auto dest!: strip_lit_length parse_number_length split: option.splits)

lemma parse_lengths:
  "pvalue f s = Some (v, r) \<Longrightarrow> length r < length s"
  "parr f acc s = Some (v, r) \<Longrightarrow> length r < length s"
  "pobj f obj s = Some (v, r) \<Longrightarrow> length r < length s"
proof (induction f s and f acc s and f obj s arbitrary: v r and v r and v r
       rule: pvalue_parr_pobj.induct)
  case (2 f s)
  then show ?case
    by (auto dest!: parse_str_length parse_atom_length skip_ws_lengthD
          split: list.splits if_splits) (force dest: skip_ws_lengthD)+
next
  case (4 f acc s)
  then obtain w q where wq: "pvalue f s = Some (w, q)" by (auto split: option.splits)
  have q: "length q < length s" by (rule "4.IH"(1) [OF wq])
  from "4.prems" wq obtain d q' where d: "skip_ws q = d # q'" by (auto split: list.splits)
  have q': "length (skip_ws q') < length q"
    by (rule le_less_trans [OF length_skip_ws skip_ws_lengthD [OF d]])
  have "length r < length (skip_ws q') \<or> r = q'"
    using "4.prems" "4.IH"(2) [OF wq refl d] by (auto simp: wq d split: if_splits)
  with q q' skip_ws_lengthD [OF d] show ?case by auto
next
  case (6 f acc s)
  then obtain t where t: "s = quote_char # t" by (auto split: list.splits if_splits)
  with "6.prems" obtain k q where k: "parse_str t = Some (k, q)" by (auto split: option.splits)
  with "6.prems" t obtain q1 where q1: "skip_ws q = CHR '':'' # q1"
    by (auto split: list.splits if_splits)
  with "6.prems" t k obtain w q2 where q2: "pvalue f (skip_ws q1) = Some (w, q2)"
    by (auto split: option.splits)
  with "6.prems" t k q1 obtain e q3 where q3: "skip_ws q2 = e # q3" by (auto split: list.splits)
  have a: "length q2 < length (skip_ws q1)" using "6.IH"(1) t k q1 q2 by blast
  have b: "length r < length (skip_ws q3) \<or> r = q3"
    using "6.prems" "6.IH"(2) t k q1 q2 q3 by (auto split: if_splits)
  have "length r \<le> length q3" using b length_skip_ws [of q3] by (elim disjE) (linarith, simp)
  also have "\<dots> < length q2" by (rule skip_ws_lengthD [OF q3])
  also have "\<dots> < length q1" using a length_skip_ws [of q1] by linarith
  also have "\<dots> < length q" by (rule skip_ws_lengthD [OF q1])
  also have "\<dots> < length t" by (rule parse_str_length [OF k])
  finally show ?case by (simp add: t)
qed auto

lemma fuel_step:
  "2 * length s < f \<Longrightarrow> pvalue (Suc f) s = pvalue f s"
  "2 * length s + 1 < f \<Longrightarrow> parr (Suc f) acc s = parr f acc s"
  "2 * length s + 1 < f \<Longrightarrow> pobj (Suc f) obj s = pobj f obj s"
proof (induction f s and f acc s and f obj s rule: pvalue_parr_pobj.induct)
  case (2 f s)
  show ?case
  proof (cases s)
    case (Cons c t)
    have "2 * length (d # r) + 1 < f" if "skip_ws t = d # r" for d r
      using that "2.prems" length_skip_ws [of t] by (simp add: Cons)
    then have
      "parr (Suc f) [] (d # r) = parr f [] (d # r) \<or> c \<noteq> CHR ''['' \<or> d = CHR '']''"
      "pobj (Suc f) [] (d # r) = pobj f [] (d # r) \<or> c \<noteq> CHR ''{'' \<or> d = CHR ''}''"
      if "skip_ws t = d # r" for d r
      using "2.IH" [OF Cons] that by (auto simp del: parr.simps pobj.simps)
    then show ?thesis
      by (auto simp: Cons simp del: parr.simps pobj.simps split: list.splits)
  qed simp
next
  case (4 f acc s)
  have v: "pvalue (Suc f) s = pvalue f s" by (rule "4.IH"(1)) (use "4.prems" in simp)
  have "parr (Suc f) (acc @ [w]) (skip_ws q') = parr f (acc @ [w]) (skip_ws q')"
    if "pvalue f s = Some (w, q)" "skip_ws q = CHR '','' # q'" for w q q'
  proof -
    have "length q' < length s"
      using parse_lengths(1) [OF that(1)] skip_ws_lengthD [OF that(2)] by simp
    then have "2 * length (skip_ws q') + 1 < f"
      using "4.prems" length_skip_ws [of q'] by linarith
    with "4.IH"(2) that show ?thesis by (auto simp del: parr.simps)
  qed
  then show ?case
    unfolding parr.simps(2) [of "Suc f" acc s] parr.simps(2) [of f acc s] v
    by (auto simp del: parr.simps pvalue.simps split: option.splits list.splits)
next
  case (6 f acc s)
  show ?case
  proof (cases "\<exists>t k q q1. s = quote_char # t \<and> parse_str t = Some (k, q) \<and> skip_ws q = CHR '':'' # q1")
    case False
    then show ?thesis
      unfolding pobj.simps(2) [of "Suc f" acc s] pobj.simps(2) [of f acc s]
      by (auto simp del: pobj.simps pvalue.simps split: option.splits list.splits)
  next
    case True
    then obtain t k q q1 where t: "s = quote_char # t" and k: "parse_str t = Some (k, q)"
      and q1: "skip_ws q = CHR '':'' # q1" by blast
    have l: "length (skip_ws q1) + 1 < length s"
      using parse_str_length [OF k] skip_ws_lengthD [OF q1] length_skip_ws [of q1] unfolding t
      by (simp del: length_skip_ws)
    have v: "pvalue (Suc f) (skip_ws q1) = pvalue f (skip_ws q1)"
      using "6.IH"(1) t k q1 l "6.prems" by (auto simp del: pvalue.simps)
    have "pobj (Suc f) (dict_set k w acc) (skip_ws q3) = pobj f (dict_set k w acc) (skip_ws q3)"
      if "pvalue f (skip_ws q1) = Some (w, q2)" "skip_ws q2 = CHR '','' # q3" for w q2 q3
    proof -
      have "length q3 < length s"
        using parse_lengths(1) [OF that(1)] skip_ws_lengthD [OF that(2)] l by linarith
      then have "2 * length (skip_ws q3) + 1 < f"
        using "6.prems" length_skip_ws [of q3] by linarith
      with "6.IH"(2) t k q1 that show ?thesis by (auto simp del: pobj.simps)
    qed
    then show ?thesis
      unfolding pobj.simps(2) [of "Suc f" acc s] pobj.simps(2) [of f acc s]
      by (auto simp: t k q1 v simp del: pobj.simps pvalue.simps split: option.splits list.splits)
  qed
qed auto

lemma pvalue_fuel_enough: "2 * length s < f \<Longrightarrow> pvalue (f + n) s = pvalue f s"
proof (induction n)
  case (Suc n)
  then have "pvalue (Suc (f + n)) s = pvalue (f + n) s" by (intro fuel_step(1)) simp
  with Suc show ?case by simp
qed simp

lemma loads_any_fuel:
  assumes "2 * length s < f"
  shows "loads s = (case pvalue f (skip_ws s) of
           Some (v, r) \<Rightarrow> if skip_ws r = [] then Some v else None | None \<Rightarrow> None)"
proof -
  have l: "2 * length (skip_ws s) < 2 * length s + 1" "2 * length (skip_ws s) < f"
    using assms length_skip_ws [of s] by linarith+
  have "pvalue f (skip_ws s) = pvalue (2 * length s + 1 + (f - (2 * length s + 1))) (skip_ws s)"
    using assms by simp
  also have "\<dots> = pvalue (2 * length s + 1 + 1) (skip_ws s)"
    by (simp only: pvalue_fuel_enough [OF l(1)])
  finally show ?thesis by (simp add: loads_def)
qed

end
