(* ===== verification/Replay_Guard.thy ===== *)
theory Replay_Guard
  imports Expiring_Table Json_Text
begin

text \<open>
  \<open>agents/base/handshake_replay.py\<close>: the deny list and the timestamp window every
  handshake envelope passes before the SDK sees it. The state is the guard object, the
  clock reading is an argument of the operation that takes it. The messages keep the
  source's text without the JSON decoder's own diagnostic.

  What is shown: an admitted envelope is not admitted again by any later check while the
  clock does not run backwards (\<open>replay_admitted_once\<close>); an admitted envelope names
  an identifier and lies inside the window; the table stays within its bound and holds
  only identifiers whose window is open, NaN timestamps apart; a NaN timestamp passes the
  window check and its entry is never pruned, so that entries of this kind can fill the
  table for good.
\<close>

section \<open>State and header\<close>

definition DEFAULT_TOLERANCE_SECS :: int where
  "DEFAULT_TOLERANCE_SECS = 300"

definition DEFAULT_MAX_ENTRIES :: int where
  "DEFAULT_MAX_ENTRIES = 100000"

datatype handshake_error =
  HandshakeRejected (hs_code: "string option") (hs_msg: string) (hs_status: int)
| HandshakeCrash pyexc

record replay_guard =
  rg_tolerance_secs :: int
  rg_max_entries :: int
  rg_seen :: "(string, pynum) dict"

definition replay_guard_init :: "int \<Rightarrow> int \<Rightarrow> replay_guard" where
  "replay_guard_init tol mx = \<lparr>rg_tolerance_secs = tol, rg_max_entries = mx, rg_seen = []\<rparr>"

definition read_header :: "string \<Rightarrow> handshake_error + (string \<times> pynum option)" where
  "read_header envelope_json =
     (case loads envelope_json of
        None \<Rightarrow> Inl (HandshakeRejected (Some ''INVALID_ENVELOPE'') ''envelope is not JSON'' 400)
      | Some (JObj envelope) \<Rightarrow>
          (case dict_get envelope ''message_id'' of
             Some (JStr message_id) \<Rightarrow>
               if message_id = [] then
                 Inl (HandshakeRejected (Some ''INVALID_ENVELOPE'') ''envelope has no message_id'' 400)
               else Inr (message_id, Option.bind (dict_get envelope ''timestamp'') json_num)
           | _ \<Rightarrow>
               Inl (HandshakeRejected (Some ''INVALID_ENVELOPE'') ''envelope has no message_id'' 400))
      | Some _ \<Rightarrow>
          Inl (HandshakeRejected (Some ''INVALID_ENVELOPE'') ''envelope is not a JSON object'' 400))"

section \<open>The check\<close>

definition rg_prune :: "rat \<Rightarrow> (string, pynum) dict \<Rightarrow> (string, pynum) dict" where
  "rg_prune now seen =
     (let expired = map fst (filter (\<lambda>(mid, until). num_before until now) seen)
      in fold dict_del expired seen)"

text \<open>\<open>abs(now - timestamp) > tolerance\<close>; \<open>None\<close> when the subtraction overflows.\<close>

definition outside_window :: "int \<Rightarrow> rat \<Rightarrow> pynum \<Rightarrow> bool option" where
  "outside_window tol now ts =
     map_option (\<lambda>x. fless (Fin (of_int tol)) (fabs (fsub (Fin now) x))) (num_float ts)"

definition timestamp_expired :: "int \<Rightarrow> handshake_error" where
  "timestamp_expired tol =
     HandshakeRejected (Some ''TIMESTAMP_EXPIRED'')
       (''envelope timestamp outside '' @ [CHR 0xC2, CHR 0xB1] @ str_int tol @ ''s'') 400"

definition admit ::
  "string \<Rightarrow> pynum option \<Rightarrow> rat \<Rightarrow> replay_guard \<Rightarrow> (handshake_error + unit) \<times> replay_guard" where
  "admit message_id timestamp now g0 =
     (let g = g0\<lparr>rg_seen := rg_prune now (rg_seen g0)\<rparr>; tol = rg_tolerance_secs g
      in if message_id \<in> set (dict_keys (rg_seen g)) then
           (Inl (HandshakeRejected (Some ''REPLAY_DETECTED'')
                  (''message_id already seen: '' @ message_id) 400), g)
         else
           (case timestamp of
              None \<Rightarrow> (Inl (timestamp_expired tol), g)
            | Some ts \<Rightarrow>
                (case outside_window tol now ts of
                   None \<Rightarrow>
                     (Inl (HandshakeCrash (PyExc OverflowError None
                             ''int too large to convert to float'')), g)
                 | Some True \<Rightarrow> (Inl (timestamp_expired tol), g)
                 | Some False \<Rightarrow>
                     if rg_max_entries g \<le> int (length (rg_seen g)) then
                       (Inl (HandshakeRejected None ''replay deny list is full'' 429), g)
                     else
                       (Inr (), g\<lparr>rg_seen := dict_set message_id (num_add_int ts tol) (rg_seen g)\<rparr>))))"

definition check :: "string \<Rightarrow> rat \<Rightarrow> replay_guard \<Rightarrow> (handshake_error + unit) \<times> replay_guard" where
  "check envelope_json now g =
     (case read_header envelope_json of
        Inl e \<Rightarrow> (Inl e, g)
      | Inr (message_id, timestamp) \<Rightarrow> admit message_id timestamp now g)"

text \<open>A sequence of checks, each at its clock reading.\<close>

fun run_checks :: "(rat \<times> string) list \<Rightarrow> replay_guard \<Rightarrow> replay_guard" where
  "run_checks [] g = g"
| "run_checks ((now, env) # es) g = run_checks es (snd (check env now g))"

definition admitted :: "string \<Rightarrow> rat \<Rightarrow> replay_guard \<Rightarrow> bool" where
  "admitted env now g \<longleftrightarrow> fst (check env now g) = Inr ()"

section \<open>The deny list as an expiring table\<close>

interpretation deny: expiring_table rg_prune num_before
proof
  show "rg_prune now d = filter (\<lambda>(k, v). \<not> num_before v now) d" if "wf_dict d" for now d
    using del_expired_filter [OF that, of "\<lambda>v. num_before v now"] by (simp add: rg_prune_def)
qed (rule num_before_mono)

text \<open>What a guard satisfies between checks, relative to the last clock reading.\<close>

definition in_window :: "int \<Rightarrow> rat \<Rightarrow> pynum \<Rightarrow> bool" where
  "in_window tol now u \<longleftrightarrow>
     (case u of
        PInt n \<Rightarrow> of_int n \<le> now + 2 * of_int tol
      | PFlt (Fin x) \<Rightarrow> x \<le> now + 2 * of_int tol
      | PFlt NaN \<Rightarrow> True
      | _ \<Rightarrow> False)"

definition guard_wf :: "replay_guard \<Rightarrow> bool" where
  "guard_wf g \<longleftrightarrow> wf_dict (rg_seen g) \<and> int (length (rg_seen g)) \<le> max 0 (rg_max_entries g)"

definition guard_inv :: "rat \<Rightarrow> replay_guard \<Rightarrow> bool" where
  "guard_inv now g \<longleftrightarrow>
     guard_wf g \<and> (\<forall>(mid, u) \<in> set (rg_seen g). in_window (rg_tolerance_secs g) now u)"

section \<open>One check\<close>

lemma admit_config [simp]:
  "rg_tolerance_secs (snd (admit m ts now g)) = rg_tolerance_secs g"
  "rg_max_entries (snd (admit m ts now g)) = rg_max_entries g"
  by (auto simp: admit_def Let_def split: option.splits bool.splits)

lemma check_config [simp]:
  "rg_tolerance_secs (snd (check e now g)) = rg_tolerance_secs g"
  "rg_max_entries (snd (check e now g)) = rg_max_entries g"
  by (auto simp: check_def split: sum.splits)

text \<open>The three possible tables after a check.\<close>

lemma admit_seen_cases:
  obtains (refused) "fst (admit m ts now g) \<noteq> Inr ()" "rg_seen (snd (admit m ts now g)) = rg_prune now (rg_seen g)"
  | (recorded) t where "ts = Some t" "fst (admit m ts now g) = Inr ()"
      "m \<notin> set (dict_keys (rg_prune now (rg_seen g)))"
      "outside_window (rg_tolerance_secs g) now t = Some False"
      "int (length (rg_prune now (rg_seen g))) < rg_max_entries g"
      "rg_seen (snd (admit m ts now g))
         = dict_set m (num_add_int t (rg_tolerance_secs g)) (rg_prune now (rg_seen g))"
proof (cases "fst (admit m ts now g) = Inr ()")
  case True
  then show ?thesis
    by (intro recorded [of "the ts"])
      (auto simp: admit_def Let_def split: if_splits option.splits bool.splits)
next
  case False
  then show ?thesis
    by (intro refused) (auto simp: admit_def Let_def split: if_splits option.splits bool.splits)
qed

lemma check_admit:
  "check e now g = (case read_header e of Inl x \<Rightarrow> (Inl x, g) | Inr (m, ts) \<Rightarrow> admit m ts now g)"
  by (simp add: check_def)

lemma admit_wf: "guard_wf g \<Longrightarrow> guard_wf (snd (admit m ts now g))"
proof (cases m ts now g rule: admit_seen_cases)
  case refused
  assume "guard_wf g"
  moreover from this have "length (rg_prune now (rg_seen g)) \<le> length (rg_seen g)"
    by (simp add: guard_wf_def deny.prune_length)
  ultimately show ?thesis by (simp add: guard_wf_def refused(2) deny.prune_wf)
next
  case (recorded t)
  assume "guard_wf g"
  moreover have "dict_get (rg_prune now (rg_seen g)) m = None"
    using recorded(3) by (simp add: map_of_eq_None_iff)
  ultimately show ?thesis
    using recorded(5,6) by (simp add: guard_wf_def deny.prune_wf wf_dict_set length_dict_set)
qed

lemma check_wf: "guard_wf g \<Longrightarrow> guard_wf (snd (check e now g))"
  by (auto simp: check_admit admit_wf split: sum.splits)

lemma in_window_mono: "in_window tol t u \<Longrightarrow> t \<le> t' \<Longrightarrow> in_window tol t' u"
  by (auto simp: in_window_def split: pynum.splits pyfloat.splits)

lemma in_window_recorded:
  "outside_window tol now t = Some False \<Longrightarrow> in_window tol now (num_add_int t tol)"
proof (cases t)
  case (PInt n)
  assume "outside_window tol now t = Some False"
  then have "\<bar>now - of_int n\<bar> \<le> of_int tol"
    by (simp add: PInt outside_window_def float_of_int_def split: if_splits)
  then show ?thesis by (simp add: PInt in_window_def)
next
  case (PFlt x)
  assume "outside_window tol now t = Some False"
  then show ?thesis
    by (cases x) (auto simp: PFlt outside_window_def in_window_def)
qed

lemma admit_inv:
  assumes "guard_inv t g" "t \<le> now"
  shows "guard_inv now (snd (admit m ts now g))"
proof -
  have wf: "guard_wf g" and win: "\<forall>(k, u) \<in> set (rg_seen g). in_window (rg_tolerance_secs g) t u"
    using assms(1) by (auto simp: guard_inv_def)
  have pr: "\<forall>(k, u) \<in> set (rg_prune now (rg_seen g)). in_window (rg_tolerance_secs g) now u"
    using win wf assms(2) by (auto simp: deny.prune_set guard_wf_def intro: in_window_mono)
  show ?thesis
  proof (cases m ts now g rule: admit_seen_cases)
    case refused
    with pr admit_wf [OF wf] show ?thesis by (simp add: guard_inv_def)
  next
    case (recorded u)
    have "dict_get (rg_prune now (rg_seen g)) m = None"
      using recorded(3) by (simp add: map_of_eq_None_iff)
    with pr admit_wf [OF wf] recorded(4,6) in_window_recorded show ?thesis
      by (auto simp: guard_inv_def dict_set_new)
  qed
qed

lemma guard_inv_later: "guard_inv t g \<Longrightarrow> t \<le> now \<Longrightarrow> guard_inv now g"
  by (auto simp: guard_inv_def intro: in_window_mono)

lemma check_inv: "guard_inv t g \<Longrightarrow> t \<le> now \<Longrightarrow> guard_inv now (snd (check e now g))"
  by (auto simp: check_admit admit_inv guard_inv_later split: sum.splits)

section \<open>Sequences of checks\<close>

text \<open>An identifier is held: its entry is there, or its deadline has passed.\<close>

definition held :: "string \<Rightarrow> pynum \<Rightarrow> rat \<Rightarrow> replay_guard \<Rightarrow> bool" where
  "held m u now g \<longleftrightarrow> dict_get (rg_seen g) m = Some u \<or> num_before u now"

lemma held_admit:
  assumes "guard_wf g" "held m u t g" "t \<le> now"
  shows "held m u now (snd (admit m' ts now g))"
proof (cases "num_before u now")
  case False
  with assms num_before_mono have "dict_get (rg_seen g) m = Some u"
    by (auto simp: held_def)
  with False assms(1) have p: "dict_get (rg_prune now (rg_seen g)) m = Some u"
    by (simp add: guard_wf_def deny.prune_keeps)
  show ?thesis
  proof (cases m' ts now g rule: admit_seen_cases)
    case refused
    with p show ?thesis by (simp add: held_def)
  next
    case (recorded x)
    moreover have "m \<noteq> m'" using p recorded(3) by (metis map_of_eq_None_iff option.distinct(1) set_map)
    ultimately show ?thesis using p by (simp add: held_def)
  qed
qed (simp add: held_def)

lemma held_check: "guard_wf g \<Longrightarrow> held m u t g \<Longrightarrow> t \<le> now \<Longrightarrow> held m u now (snd (check e now g))"
proof (cases "read_header e")
  case (Inl x)
  then show "held m u t g \<Longrightarrow> t \<le> now \<Longrightarrow> held m u now (snd (check e now g))"
    by (auto simp: check_def held_def intro: num_before_mono)
next
  case (Inr x)
  then show "guard_wf g \<Longrightarrow> held m u t g \<Longrightarrow> t \<le> now \<Longrightarrow> held m u now (snd (check e now g))"
    by (cases x) (simp add: check_def held_admit)
qed

lemma run_checks_config [simp]:
  "rg_tolerance_secs (run_checks es g) = rg_tolerance_secs g"
  "rg_max_entries (run_checks es g) = rg_max_entries g"
  by (induction es g rule: run_checks.induct) auto

lemma run_checks_wf: "guard_wf g \<Longrightarrow> guard_wf (run_checks es g)"
  by (induction es g rule: run_checks.induct) (auto simp: check_wf)

lemma held_run_checks:
  "guard_wf g \<Longrightarrow> held m u t g \<Longrightarrow> sorted (t # map fst es) \<Longrightarrow>
   held m u (last (t # map fst es)) (run_checks es g)"
proof (induction es g arbitrary: t rule: run_checks.induct)
  case (2 now env es g)
  then have "held m u now (snd (check env now g))" by (intro held_check [of _ _ _ t]) auto
  with 2 show ?case by (auto simp: check_wf)
qed simp

lemma held_later: "held m u t g \<Longrightarrow> t \<le> t' \<Longrightarrow> held m u t' g"
  by (auto simp: held_def intro: num_before_mono)

lemma expired_outside_window:
  "num_before (num_add_int ts tol) now \<Longrightarrow> outside_window tol now ts \<noteq> Some False"
proof (cases ts)
  case (PInt n)
  assume "num_before (num_add_int ts tol) now"
  then have "of_int tol < now - of_int n" by (simp add: PInt)
  then have "of_int tol < \<bar>now - of_int n\<bar>" by linarith
  then show ?thesis by (simp add: PInt outside_window_def float_of_int_def)
next
  case (PFlt x)
  assume "num_before (num_add_int ts tol) now"
  then show ?thesis by (cases x) (auto simp: PFlt outside_window_def)
qed

lemma admittedE:
  assumes "admitted env t g"
  obtains m ts where "read_header env = Inr (m, Some ts)"
    "outside_window (rg_tolerance_secs g) t ts = Some False"
    "m \<notin> set (dict_keys (rg_prune t (rg_seen g)))"
    "dict_get (rg_seen (snd (check env t g))) m = Some (num_add_int ts (rg_tolerance_secs g))"
proof -
  from assms obtain m ts where h: "read_header env = Inr (m, ts)" "fst (admit m ts t g) = Inr ()"
    by (auto simp: admitted_def check_def split: sum.splits)
  then show thesis
    by (cases m ts t g rule: admit_seen_cases) (auto simp: check_def intro: that)
qed

lemma read_header_status: "read_header e = Inl (HandshakeRejected c m st) \<Longrightarrow> st = 400"
  unfolding read_header_def by (auto split: option.splits json.splits if_splits)

lemma admit_status: "fst (admit i ts now g) = Inl (HandshakeRejected c m st) \<Longrightarrow> st = 400 \<or> st = 429"
  by (auto simp: admit_def timestamp_expired_def Let_def split: if_splits option.splits bool.splits)

lemma check_status: "fst (check e now g) = Inl (HandshakeRejected c m st) \<Longrightarrow> st = 400 \<or> st = 429"
  by (auto simp: check_def split: sum.splits dest: read_header_status admit_status)

lemma admitted_room:
  "admitted env now g \<Longrightarrow> int (length (rg_prune now (rg_seen g))) < rg_max_entries g"
  by (auto simp: admitted_def check_def admit_def Let_def
      split: sum.splits if_splits option.splits bool.splits)

section \<open>Properties\<close>

text \<open>
  C4: an admitted envelope is never admitted again. After \<open>check\<close> admits an envelope
  at time \<open>t\<close>, and after any further checks at clock readings that do not decrease,
  an envelope with the same \<open>message_id\<close> and \<open>timestamp\<close> (the same bytes or a
  re-serialised copy) is refused.
\<close>

theorem replay_admitted_once:
  assumes "guard_wf g" and "admitted env t g"
    and "sorted (t # map fst later @ [t'])" and "read_header env' = read_header env"
  shows "\<not> admitted env' t' (run_checks later (snd (check env t g)))"
proof
  let ?tol = "rg_tolerance_secs g"
  let ?g = "run_checks later (snd (check env t g))"
  assume again: "admitted env' t' ?g"
  obtain m ts where h: "read_header env = Inr (m, Some ts)"
    and rec: "dict_get (rg_seen (snd (check env t g))) m = Some (num_add_int ts ?tol)"
    using admittedE [OF assms(2)] by metis
  have srt: "sorted (t # map fst later)" "last (t # map fst later) \<le> t'"
    using assms(3) by (auto simp: sorted_append last_map)
  have "held m (num_add_int ts ?tol) t (snd (check env t g))" using rec by (simp add: held_def)
  then have "held m (num_add_int ts ?tol) t' ?g"
    using held_later [OF held_run_checks [OF check_wf [OF assms(1)] _ srt(1)] srt(2)] by blast
  moreover have win: "outside_window ?tol t' ts = Some False"
    and new: "dict_get (rg_prune t' (rg_seen ?g)) m = None"
    using admittedE [OF again] assms(4) h by (auto simp: in_keys_iff simp del: set_map)
  moreover have "wf_dict (rg_seen ?g)"
    using run_checks_wf [OF check_wf [OF assms(1)]] by (simp add: guard_wf_def)
  ultimately show False
    using expired_outside_window [of ts ?tol t']
      deny.prune_keeps [of "rg_seen ?g" m "num_add_int ts ?tol" t']
    by (auto simp: held_def)
qed

theorem replay_admitted_once_witness:
  "\<not> admitted ''{\"message_id\":\"m1\",\"timestamp\":1000}'' 1200
      (run_checks [(1100, ''{\"message_id\":\"m2\",\"timestamp\":1090}'')]
        (snd (check ''{\"message_id\":\"m1\", \"timestamp\": 1000}'' 1001 (replay_guard_init 300 100))))"
proof (rule replay_admitted_once)
  show "guard_wf (replay_guard_init 300 100)" by code_simp
  show "admitted ''{\"message_id\":\"m1\", \"timestamp\": 1000}'' 1001 (replay_guard_init 300 100)"
    by code_simp
  show "sorted (1001 # map fst [(1100, ''{\"message_id\":\"m2\",\"timestamp\":1090}'')] @ [1200 :: rat])"
    by simp
  show "read_header ''{\"message_id\":\"m1\",\"timestamp\":1000}''
      = read_header ''{\"message_id\":\"m1\", \"timestamp\": 1000}''" by code_simp
qed

text \<open>
  Exactly which envelopes pass. An envelope is admitted if and only if it is a JSON
  object with a non-empty string \<open>message_id\<close> that no unexpired entry carries, its
  timestamp is a number inside the window of the clock, and the pruned deny list has room.
\<close>

theorem admitted_iff:
  assumes "guard_wf g"
  shows "admitted env now g \<longleftrightarrow>
    (\<exists>m ts. read_header env = Inr (m, Some ts)
       \<and> (\<forall>u. dict_get (rg_seen g) m = Some u \<longrightarrow> num_before u now)
       \<and> outside_window (rg_tolerance_secs g) now ts = Some False
       \<and> int (length (filter (\<lambda>(_, u). \<not> num_before u now) (rg_seen g))) < rg_max_entries g)"
proof -
  have wf: "wf_dict (rg_seen g)" using assms by (simp add: guard_wf_def)
  have key: "m \<in> set (dict_keys (rg_prune now (rg_seen g))) \<longleftrightarrow>
      (\<exists>u. dict_get (rg_seen g) m = Some u \<and> \<not> num_before u now)" for m
    using deny.prune_get [OF wf, of now m]
    by (simp add: in_keys_iff del: set_map split: option.splits if_splits)
  show ?thesis
    unfolding admitted_def check_def admit_def Let_def
    by (auto simp: key deny.prune_filter [OF wf, symmetric] not_le simp del: set_map
        split: sum.splits option.splits bool.splits if_splits)
qed

theorem admitted_iff_witness:
  "admitted ''{\"message_id\":\"a\",\"timestamp\":50.5}'' 60 (replay_guard_init 300 1) \<longleftrightarrow>
    (\<exists>m ts. read_header ''{\"message_id\":\"a\",\"timestamp\":50.5}'' = Inr (m, Some ts)
       \<and> (\<forall>u. dict_get (rg_seen (replay_guard_init 300 1)) m = Some u \<longrightarrow> num_before u 60)
       \<and> outside_window (rg_tolerance_secs (replay_guard_init 300 1)) 60 ts = Some False
       \<and> int (length (filter (\<lambda>(_, u). \<not> num_before u 60) (rg_seen (replay_guard_init 300 1))))
           < rg_max_entries (replay_guard_init 300 1))"
  by (rule admitted_iff) code_simp

text \<open>
  The deny list is bounded. Over any sequence of checks with a clock that does not
  decrease, the table of a new guard keeps distinct identifiers, never exceeds
  \<open>max_entries\<close>, and every deadline lies at most two tolerances ahead of the clock,
  except the deadline NaN.
\<close>

theorem deny_list_bounded:
  assumes "sorted (t # map fst es)"
  shows "guard_inv (last (t # map fst es)) (run_checks es (replay_guard_init tol mx))"
proof -
  have "guard_inv (last (t # map fst es)) (run_checks es g)"
    if "guard_inv t g" "sorted (t # map fst es)" for g t
    using that
  proof (induction es g arbitrary: t rule: run_checks.induct)
    case (2 now env es g)
    then have "guard_inv now (snd (check env now g))" by (intro check_inv [of t]) auto
    with 2 show ?case by auto
  qed simp
  moreover have "guard_inv t (replay_guard_init tol mx)"
    by (simp add: guard_inv_def guard_wf_def replay_guard_init_def)
  ultimately show ?thesis using assms by blast
qed

theorem deny_list_bounded_witness:
  "guard_inv 8 (run_checks [(7, ''{\"message_id\":\"a\",\"timestamp\":7}''), (8, ''[]'')]
      (replay_guard_init 300 1))"
  using deny_list_bounded [of 0 "[(7, ''{\"message_id\":\"a\",\"timestamp\":7}''), (8, ''[]'')]" 300 1]
  by simp

text \<open>
  A NaN timestamp defeats the bound in time. \<open>NaN\<close> is a literal \<open>json.loads\<close>
  accepts, the window test \<open>abs(now - NaN) > tolerance\<close> is false, and the deadline
  \<open>NaN + tolerance\<close> is never before the clock. Once such entries fill the table, no
  envelope is admitted at any later time, whatever checks follow; one that is fresh and
  new is answered with a 429.
\<close>

theorem nan_deny_list_never_recovers:
  assumes "guard_wf g" "rg_max_entries g \<le> int (length (rg_seen g))"
    and "\<forall>(m, u) \<in> set (rg_seen g). u = PFlt NaN"
  shows "run_checks es g = g \<and> \<not> admitted env now (run_checks es g)
    \<and> (read_header env = Inr (m, Some ts) \<and> dict_get (rg_seen g) m = None
        \<and> outside_window (rg_tolerance_secs g) now ts = Some False \<longrightarrow>
       fst (check env now (run_checks es g)) =
         Inl (HandshakeRejected None ''replay deny list is full'' 429))"
proof -
  have wf: "wf_dict (rg_seen g)" using assms(1) by (simp add: guard_wf_def)
  have p: "rg_prune now (rg_seen g) = rg_seen g" for now
    using assms(3) by (intro deny.prune_all_permanent [OF wf]) fastforce
  have stay: "snd (check env now g) = g" for env now
    using assms(2)
    by (auto simp: check_def admit_def Let_def p split: sum.splits option.splits bool.splits)
  then have "run_checks es g = g" by (induction es) auto
  moreover have "\<not> admitted env now g"
    using assms(2) admitted_room [of env now g] by (auto simp: p)
  moreover have "fst (check env now g) = Inl (HandshakeRejected None ''replay deny list is full'' 429)"
    if "read_header env = Inr (m, Some ts)" "dict_get (rg_seen g) m = None"
      "outside_window (rg_tolerance_secs g) now ts = Some False"
    using that assms(2) by (simp add: check_def admit_def Let_def p map_of_eq_None_iff)
  ultimately show ?thesis by simp
qed

theorem nan_deny_list_never_recovers_witness:
  "fst (check ''{\"message_id\":\"b\",\"timestamp\":5000}'' 5000
      (run_checks [(4000, ''{}'')]
        (run_checks [(10, ''{\"message_id\":\"a\",\"timestamp\":NaN}'')] (replay_guard_init 300 1)))) =
    Inl (HandshakeRejected None ''replay deny list is full'' 429)"
proof -
  let ?g = "run_checks [(10, ''{\"message_id\":\"a\",\"timestamp\":NaN}'')] (replay_guard_init 300 1)"
  let ?env = "''{\"message_id\":\"b\",\"timestamp\":5000}''"
  have "guard_wf ?g" "rg_max_entries ?g \<le> int (length (rg_seen ?g))"
    "\<forall>(m, u) \<in> set (rg_seen ?g). u = PFlt NaN" by code_simp+
  moreover have "read_header ?env = Inr (''b'', Some (PInt 5000))"
    "dict_get (rg_seen ?g) ''b'' = None"
    "outside_window (rg_tolerance_secs ?g) 5000 (PInt 5000) = Some False" by code_simp+
  ultimately show ?thesis
    using nan_deny_list_never_recovers [of ?g "[(4000, ''{}'')]" ?env 5000 "''b''" "PInt 5000"]
    by blast
qed

end
