(* ===== verification/Base64url.thy ===== *)
theory Base64url
  imports Json_Text
begin

text \<open>
  \<open>base64.urlsafe_b64encode\<close> and \<open>base64.urlsafe_b64decode\<close> of the Python standard
  library, strict UTF-8 decoding, and the two header functions of
  \<open>agents/base/pop_challenges.py\<close> built on them. The decoder is CPython's: it skips
  characters outside the alphabet, stops at a complete pad sequence and reports an
  incomplete last group. The round trip theorem says that what \<open>encode_header\<close>
  produces, \<open>decode_header\<close> reads back.
\<close>

section \<open>Alphabet\<close>

text \<open>\<open>A\<close> to \<open>Z\<close>, \<open>a\<close> to \<open>z\<close>, \<open>0\<close> to \<open>9\<close>, then \<open>-\<close> and \<open>_\<close>.\<close>

definition b64_char :: "nat \<Rightarrow> char" where
  "b64_char n =
     (if n < 26 then char_of (n + 65)
      else if n < 52 then char_of (n + 71)
      else if n < 62 then char_of (n - 4)
      else if n = 62 then CHR ''-'' else CHR ''_'')"

text \<open>
  The value of a character after \<open>-\<close> and \<open>_\<close> are translated; the characters
  \<open>+\<close> and \<open>/\<close> they are translated to are accepted too.
\<close>

definition b64_val :: "char \<Rightarrow> nat option" where
  "b64_val c =
     (let n = of_char c :: nat in
      if 65 \<le> n \<and> n \<le> 90 then Some (n - 65)
      else if 97 \<le> n \<and> n \<le> 122 then Some (n - 71)
      else if 48 \<le> n \<and> n \<le> 57 then Some (n + 4)
      else if c = CHR ''-'' \<or> c = CHR ''+'' then Some 62
      else if c = CHR ''_'' \<or> c = CHR ''/'' then Some 63
      else None)"

abbreviation byte :: "char \<Rightarrow> nat" where "byte c \<equiv> of_char c"

lemma byte_b64_char:
  "byte (b64_char n) =
     (if n < 26 then n + 65 else if n < 52 then n + 71 else if n < 62 then n - 4
      else if n = 62 then 45 else 95)"
  by (simp add: b64_char_def)

lemma b64_val_char [simp]:
  assumes "n < 64"
  shows "b64_val (b64_char n) = Some n" "b64_char n \<noteq> CHR ''=''" "byte (b64_char n) < 128"
proof -
  have "byte (b64_char n) \<noteq> byte (CHR ''='')" by (auto simp: byte_b64_char)
  then show "b64_char n \<noteq> CHR ''=''" by metis
  show "byte (b64_char n) < 128" by (auto simp: byte_b64_char)
  show "b64_val (b64_char n) = Some n"
  proof (cases "n < 62")
    case True
    then show ?thesis by (auto simp: b64_val_def Let_def byte_b64_char)
  next
    case False
    with assms have "n = 62 \<or> n = 63" by linarith
    then show ?thesis by (elim disjE) (simp_all add: b64_val_def b64_char_def)
  qed
qed

section \<open>Encoding\<close>

fun urlsafe_b64encode :: "string \<Rightarrow> string" where
  "urlsafe_b64encode [] = []"
| "urlsafe_b64encode [a] =
     [b64_char (byte a div 4), b64_char (byte a mod 4 * 16), CHR ''='', CHR ''='']"
| "urlsafe_b64encode [a, b] =
     [b64_char (byte a div 4), b64_char (byte a mod 4 * 16 + byte b div 16),
      b64_char (byte b mod 16 * 4), CHR ''='']"
| "urlsafe_b64encode (a # b # c # r) =
     b64_char (byte a div 4) # b64_char (byte a mod 4 * 16 + byte b div 16)
     # b64_char (byte b mod 16 * 4 + byte c div 64) # b64_char (byte c mod 64)
     # urlsafe_b64encode r"

section \<open>Decoding\<close>

text \<open>
  \<open>binascii.a2b_base64\<close> in its lenient mode: the position in the group of four, the
  bits carried over, and the pads seen since the last data character.
\<close>

fun a2b_base64 :: "nat \<Rightarrow> nat \<Rightarrow> nat \<Rightarrow> string \<Rightarrow> string option" where
  "a2b_base64 quad_pos leftchar pads [] = (if quad_pos = 0 then Some [] else None)"
| "a2b_base64 quad_pos leftchar pads (c # cs) =
     (if c = CHR ''='' then
        if 2 \<le> quad_pos then
          if 4 \<le> quad_pos + (pads + 1) then Some [] else a2b_base64 quad_pos leftchar (pads + 1) cs
        else a2b_base64 quad_pos leftchar pads cs
      else
        (case b64_val c of
           None \<Rightarrow> a2b_base64 quad_pos leftchar pads cs
         | Some v \<Rightarrow>
             if quad_pos = 0 then a2b_base64 1 v 0 cs
             else if quad_pos = 1 then
               map_option ((#) (char_of (leftchar * 4 + v div 16))) (a2b_base64 2 (v mod 16) 0 cs)
             else if quad_pos = 2 then
               map_option ((#) (char_of (leftchar * 16 + v div 4))) (a2b_base64 3 (v mod 4) 0 cs)
             else
               map_option ((#) (char_of (leftchar * 64 + v))) (a2b_base64 0 0 0 cs)))"

definition is_ascii :: "string \<Rightarrow> bool" where
  "is_ascii s \<longleftrightarrow> list_all (\<lambda>c. byte c < 128) s"

definition urlsafe_b64decode :: "string \<Rightarrow> string option" where
  "urlsafe_b64decode s = (if is_ascii s then a2b_base64 0 0 0 s else None)"

section \<open>UTF-8\<close>

definition cont_byte :: "char \<Rightarrow> bool" where
  "cont_byte c \<longleftrightarrow> 128 \<le> byte c \<and> byte c < 192"

text \<open>Strict UTF-8: no overlong form, no surrogate, nothing above U+10FFFF.\<close>

fun utf8_valid :: "string \<Rightarrow> bool" where
  "utf8_valid [] = True"
| "utf8_valid (a # r) =
     (if byte a < 128 then utf8_valid r
      else if 194 \<le> byte a \<and> byte a < 224 then
        (case r of b # r1 \<Rightarrow> cont_byte b \<and> utf8_valid r1 | _ \<Rightarrow> False)
      else if 224 \<le> byte a \<and> byte a < 240 then
        (case r of
           b # c # r2 \<Rightarrow>
             cont_byte b \<and> cont_byte c \<and> (byte a = 224 \<longrightarrow> 160 \<le> byte b)
             \<and> (byte a = 237 \<longrightarrow> byte b < 160) \<and> utf8_valid r2
         | _ \<Rightarrow> False)
      else if 240 \<le> byte a \<and> byte a < 245 then
        (case r of
           b # c # d # r3 \<Rightarrow>
             cont_byte b \<and> cont_byte c \<and> cont_byte d \<and> (byte a = 240 \<longrightarrow> 144 \<le> byte b)
             \<and> (byte a = 244 \<longrightarrow> byte b < 144) \<and> utf8_valid r3
         | _ \<Rightarrow> False)
      else False)"

section \<open>The header functions\<close>

text \<open>\<open>rstrip(b"=")\<close>.\<close>

definition rstrip_pad :: "string \<Rightarrow> string" where
  "rstrip_pad s = rev (dropWhile (\<lambda>c. c = CHR ''='') (rev s))"

definition encode_header :: "string \<Rightarrow> string" where
  "encode_header payload_json = rstrip_pad (urlsafe_b64encode payload_json)"

text \<open>\<open>None\<close> is the \<open>ValueError\<close>.\<close>

definition decode_header :: "string \<Rightarrow> string option" where
  "decode_header value =
     (case urlsafe_b64decode (value @ replicate (nat (- int (length value) mod 4)) (CHR ''='')) of
        None \<Rightarrow> None
      | Some raw \<Rightarrow> if utf8_valid raw then Some raw else None)"

section \<open>Round trip\<close>

lemma byte_less [simp]: "byte c < 256"
  using of_char_mod_256 [of c, where 'a = nat] by (metis mod_less_divisor zero_less_numeral)

lemma char_of_byte [simp]: "n = byte c \<Longrightarrow> char_of n = c"
  by simp

text \<open>The encoding without its pads, and the number of pads.\<close>

fun b64_core :: "string \<Rightarrow> string" where
  "b64_core [] = []"
| "b64_core [a] = [b64_char (byte a div 4), b64_char (byte a mod 4 * 16)]"
| "b64_core [a, b] =
     [b64_char (byte a div 4), b64_char (byte a mod 4 * 16 + byte b div 16), b64_char (byte b mod 16 * 4)]"
| "b64_core (a # b # c # r) = take 4 (urlsafe_b64encode [a, b, c]) @ b64_core r"

lemma b64_sextets [simp]:
  "byte a div 4 < 64" "byte a mod 4 * 16 < 64" "byte a mod 4 * 16 + byte b div 16 < 64"
  "byte b mod 16 * 4 < 64" "byte b mod 16 * 4 + byte c div 64 < 64" "byte c mod 64 < 64"
  using byte_less [of a] byte_less [of b] byte_less [of c] by linarith+

lemma byte_div [simp]:
  "byte b div 16 div 16 = 0" "byte b div 16 mod 16 = byte b div 16"
  "byte b div 64 div 4 = 0" "byte b div 64 mod 4 = byte b div 64"
  using byte_less [of b] by (simp_all add: div_less_iff_less_mult)

lemma urlsafe_b64encode_core:
  "\<exists>k. urlsafe_b64encode s = b64_core s @ replicate k (CHR ''='')"
proof (induction s rule: urlsafe_b64encode.induct)
  case (2 a)
  show ?case by (intro exI [of _ 2]) (simp add: numeral_2_eq_2)
next
  case (3 a b)
  show ?case by (intro exI [of _ 1]) simp
next
  case (4 a b c r)
  then show ?case by simp
qed simp

lemma b64_core_chars: "c \<in> set (b64_core s) \<Longrightarrow> c \<noteq> CHR ''='' \<and> byte c < 128"
  by (induction s rule: b64_core.induct) auto

lemma rstrip_pad_core:
  assumes "CHR ''='' \<notin> set s"
  shows "rstrip_pad (s @ replicate k (CHR ''='')) = s"
proof -
  have "dropWhile (\<lambda>c. c = CHR ''='') (rev s) = rev s"
    using assms by (cases "rev s") (auto simp flip: set_rev [of s])
  then show ?thesis by (simp add: rstrip_pad_def dropWhile_append)
qed

lemma encode_header_core: "encode_header s = b64_core s"
  using urlsafe_b64encode_core [of s] b64_core_chars rstrip_pad_core
  by (metis encode_header_def)

lemma a2b_core:
  "a2b_base64 0 l p (b64_core s @ replicate (nat (- int (length (b64_core s)) mod 4)) (CHR ''='')) = Some s"
proof (induction s arbitrary: l p rule: b64_core.induct)
  case (2 a)
  have "byte a div 4 * 4 + byte a mod 4 = byte a" by simp
  then show ?case by (simp add: numeral_2_eq_2)
next
  case (3 a b)
  have "byte a div 4 * 4 + byte a mod 4 = byte a" "byte b div 16 * 16 + byte b mod 16 = byte b"
    by simp_all
  then show ?case by simp
next
  case (4 a b c r)
  have "byte a div 4 * 4 + byte a mod 4 = byte a" "byte b div 16 * 16 + byte b mod 16 = byte b"
    "byte c div 64 * 64 + byte c mod 64 = byte c" by simp_all
  moreover have "(- 4 - int (length (b64_core r))) mod 4 = - int (length (b64_core r)) mod 4"
    by presburger
  ultimately show ?case using "4.IH" by simp
qed simp

text \<open>
  The proof-of-possession headers survive the trip. For every text with a UTF-8
  encoding, \<open>decode_header\<close> of \<open>encode_header\<close> is that text, and the header value
  itself is unpadded ASCII.
\<close>

theorem header_roundtrip:
  assumes "utf8_valid payload"
  shows "decode_header (encode_header payload) = Some payload
    \<and> is_ascii (encode_header payload) \<and> CHR ''='' \<notin> set (encode_header payload)"
proof -
  have asc: "is_ascii (b64_core payload @ replicate k (CHR ''=''))" for k
    using b64_core_chars [of _ payload] by (auto simp: is_ascii_def list_all_iff)
  with a2b_core [of 0 0 payload] assms b64_core_chars [of _ payload] asc [of 0] show ?thesis
    by (auto simp: decode_header_def urlsafe_b64decode_def encode_header_core)
qed

theorem header_roundtrip_witness:
  "decode_header (encode_header ''{\"nonce\":\"n1\"}'') = Some ''{\"nonce\":\"n1\"}''"
  by (rule header_roundtrip [THEN conjunct1]) code_simp

end
