(* ===== verification/Py_Convert.thy ===== *)
theory Py_Convert
  imports Json_Text
begin

text \<open>
  Python's \<open>float(x)\<close>, \<open>int(x)\<close>, \<open>uuid.UUID(x)\<close>, subscripts and dictionary keys on
  decoded JSON values: what the agents use where they convert or index with a value they
  did not check first. Digits are ASCII digits; the other Unicode digits Python accepts
  are not modelled.
\<close>

section \<open>\<open>float(text)\<close>\<close>

definition is_py_space :: "char \<Rightarrow> bool" where
  "is_py_space c \<longleftrightarrow>
     (let n = of_char c :: nat in n = 32 \<or> (9 \<le> n \<and> n \<le> 13) \<or> (28 \<le> n \<and> n \<le> 31))"

definition py_strip :: "string \<Rightarrow> string" where
  "py_strip s = rev (dropWhile is_py_space (rev (dropWhile is_py_space s)))"

definition ascii_lower :: "char \<Rightarrow> char" where
  "ascii_lower c =
     (let n = of_char c :: nat in if 65 \<le> n \<and> n \<le> 90 then char_of (n + 32) else c)"

text \<open>Digits with single underscores between them: the digits and what follows.\<close>

fun py_digits :: "string \<Rightarrow> string \<times> string" where
  "py_digits (c # s) =
     (if is_digit c then
        (case s of
           u # d # _ \<Rightarrow>
             if u = CHR ''_'' \<and> is_digit d then apfst ((#) c) (py_digits (tl s))
             else apfst ((#) c) (py_digits s)
         | _ \<Rightarrow> apfst ((#) c) (py_digits s))
      else ([], c # s))"
| "py_digits [] = ([], [])"

definition py_exponent :: "string \<Rightarrow> int option" where
  "py_exponent s =
     (case s of
        [] \<Rightarrow> Some 0
      | c # r \<Rightarrow>
          if ascii_lower c = CHR ''e'' then
            (let (neg, t) = (case r of
                 x # r' \<Rightarrow> if x = CHR ''-'' then (True, r')
                           else if x = CHR ''+'' then (False, r') else (False, r)
               | [] \<Rightarrow> (False, r));
                 (ds, rest) = py_digits t
             in if ds = [] \<or> rest \<noteq> [] then None
                else Some (if neg then - digits_val ds else digits_val ds))
          else None)"

definition py_decimal :: "string \<Rightarrow> rat option" where
  "py_decimal s =
     (let (ip, r) = py_digits s;
          (fp, r') = (case r of c # t \<Rightarrow> if c = CHR ''.'' then py_digits t else ([], r) | [] \<Rightarrow> ([], r))
      in if ip = [] \<and> fp = [] then None
         else map_option (\<lambda>e. of_int (digits_val (ip @ fp)) * pow10 (e - int (length fp)))
                (py_exponent r'))"

definition float_of_str :: "string \<Rightarrow> pyfloat option" where
  "float_of_str text =
     (let s = py_strip text;
          (neg, t) = (case s of
             c # r \<Rightarrow> if c = CHR ''-'' then (True, r) else if c = CHR ''+'' then (False, r) else (False, s)
           | [] \<Rightarrow> (False, s));
          low = map ascii_lower t
      in if low = ''nan'' then Some NaN
         else if low = ''inf'' \<or> low = ''infinity'' then Some (if neg then NInf else PInf)
         else map_option (\<lambda>x. round_literal (if neg then - x else x)) (py_decimal t))"

text \<open>\<open>float(v)\<close> of a decoded JSON value.\<close>

fun py_float :: "json \<Rightarrow> pyexc + pyfloat" where
  "py_float (JInt n) =
     (case float_of_int n of
        Some x \<Rightarrow> Inr x
      | None \<Rightarrow> Inl (PyExc OverflowError None ''int too large to convert to float''))"
| "py_float (JFloat x) = Inr x"
| "py_float (JBool b) = Inr (Fin (if b then 1 else 0))"
| "py_float (JStr s) =
     (case float_of_str s of
        Some x \<Rightarrow> Inr x
      | None \<Rightarrow> Inl (PyExc ValueError None ''could not convert string to float''))"
| "py_float _ = Inl (PyExc TypeError None ''float() argument must be a string or a real number'')"

section \<open>Dictionary keys\<close>

text \<open>
  The value a JSON value is as a dictionary key: \<open>True\<close>, \<open>1\<close> and \<open>1.0\<close> are the
  same key, lists and dictionaries are no keys at all.
\<close>

fun key_of :: "json \<Rightarrow> json option" where
  "key_of (JBool b) = Some (JInt (if b then 1 else 0))"
| "key_of (JFloat (Fin x)) = Some (if of_int \<lfloor>x\<rfloor> = x then JInt \<lfloor>x\<rfloor> else JFloat (Fin x))"
| "key_of (JArr _) = None"
| "key_of (JObj _) = None"
| "key_of j = Some j"

lemma key_of_str [simp]: "key_of (JStr s) = Some (JStr s)"
  by simp

text \<open>\<open>v[name]\<close> on a decoded JSON value.\<close>

fun subscript :: "json \<Rightarrow> string \<Rightarrow> pyexc + json" where
  "subscript (JObj kvs) k =
     (case dict_get kvs k of Some v \<Rightarrow> Inr v | None \<Rightarrow> Inl (PyExc KeyError None k))"
| "subscript _ k = Inl (PyExc TypeError None ''object is not subscriptable by a string'')"

section \<open>\<open>int(x)\<close>\<close>

text \<open>
  Digits of a base with single underscores between them; the flag says whether the last
  character allows an underscore or the end.
\<close>

fun us_number :: "nat \<Rightarrow> bool \<Rightarrow> nat \<Rightarrow> string \<Rightarrow> nat option" where
  "us_number base ok acc [] = (if ok then Some acc else None)"
| "us_number base ok acc (c # cs) =
     (if c = CHR ''_'' then (if ok then us_number base False acc cs else None)
      else
        (case hex_val c of
           Some d \<Rightarrow> if d < base then us_number base True (acc * base + d) cs else None
         | None \<Rightarrow> None))"

definition unsigned_number :: "nat \<Rightarrow> string \<Rightarrow> nat option" where
  "unsigned_number base s =
     (case s of
        z # x # r \<Rightarrow>
          if base = 16 \<and> z = CHR ''0'' \<and> ascii_lower x = CHR ''x''
          then (if r = [] then None else us_number base True 0 r)
          else us_number base False 0 s
      | _ \<Rightarrow> us_number base False 0 s)"

definition int_of_str :: "nat \<Rightarrow> string \<Rightarrow> int option" where
  "int_of_str base text =
     (case py_strip text of
        [] \<Rightarrow> None
      | c # r \<Rightarrow>
          if c = CHR ''-'' then map_option (\<lambda>n. - int n) (unsigned_number base r)
          else if c = CHR ''+'' then map_option int (unsigned_number base r)
          else map_option int (unsigned_number base (c # r)))"

text \<open>Truncation towards zero.\<close>

definition trunc :: "rat \<Rightarrow> int" where
  "trunc x = (if 0 \<le> x then \<lfloor>x\<rfloor> else - \<lfloor>- x\<rfloor>)"

fun py_int :: "json \<Rightarrow> pyexc + int" where
  "py_int (JInt n) = Inr n"
| "py_int (JBool b) = Inr (if b then 1 else 0)"
| "py_int (JFloat (Fin x)) = Inr (trunc x)"
| "py_int (JFloat NaN) = Inl (PyExc ValueError None ''cannot convert float NaN to integer'')"
| "py_int (JFloat _) = Inl (PyExc OverflowError None ''cannot convert float infinity to integer'')"
| "py_int (JStr s) =
     (case int_of_str 10 s of
        Some n \<Rightarrow> Inr n
      | None \<Rightarrow> Inl (PyExc ValueError None ''invalid literal for int()''))"
| "py_int _ = Inl (PyExc TypeError None ''int() argument must be a string or a real number'')"

section \<open>\<open>str(uuid.UUID(x))\<close>\<close>

text \<open>\<open>s.replace(p, "")\<close>.\<close>

function remove_sub :: "string \<Rightarrow> string \<Rightarrow> string" where
  "remove_sub p [] = []"
| "remove_sub p (c # cs) =
     (if p \<noteq> [] \<and> starts_with p (c # cs) then remove_sub p (drop (length p) (c # cs))
      else c # remove_sub p cs)"
  by pat_completeness auto
termination
  by (relation "measure (length \<circ> snd)") auto

definition strip_braces :: "string \<Rightarrow> string" where
  "strip_braces s =
     (let b = (\<lambda>c. c = CHR ''{'' \<or> c = CHR ''}'') in rev (dropWhile b (rev (dropWhile b s))))"

definition hex_digit :: "nat \<Rightarrow> char" where
  "hex_digit d = (if d < 10 then char_of (48 + d) else char_of (87 + d))"

fun hex_string :: "nat \<Rightarrow> nat \<Rightarrow> string" where
  "hex_string 0 n = []"
| "hex_string (Suc k) n = hex_string k (n div 16) @ [hex_digit (n mod 16)]"

definition uuid_of_str :: "string \<Rightarrow> nat option" where
  "uuid_of_str text =
     (let h = filter (\<lambda>c. c \<noteq> CHR ''-'')
                (strip_braces (remove_sub ''uuid:'' (remove_sub ''urn:'' text)))
      in if length h \<noteq> 32 then None
         else
           (case int_of_str 16 h of
              Some n \<Rightarrow> if 0 \<le> n \<and> n < 2 ^ 128 then Some (nat n) else None
            | None \<Rightarrow> None))"

definition uuid_str :: "nat \<Rightarrow> string" where
  "uuid_str n =
     (let h = hex_string 32 n
      in take 8 h @ ''-'' @ take 4 (drop 8 h) @ ''-'' @ take 4 (drop 12 h) @ ''-''
         @ take 4 (drop 16 h) @ ''-'' @ drop 20 h)"

text \<open>
  A text that is no UUID is a \<open>ValueError\<close>, \<open>None\<close> a \<open>TypeError\<close>, and any other
  value has no \<open>replace\<close> method.
\<close>

fun py_uuid :: "json \<Rightarrow> pyexc + string" where
  "py_uuid (JStr s) =
     (case uuid_of_str s of
        Some n \<Rightarrow> Inr (uuid_str n)
      | None \<Rightarrow> Inl (PyExc ValueError None ''badly formed hexadecimal UUID string''))"
| "py_uuid JNull =
     Inl (PyExc TypeError None ''one of the hex, bytes, bytes_le, fields, or int arguments must be given'')"
| "py_uuid _ = Inl (PyExc AttributeError None ''object has no attribute replace'')"

text \<open>The characters of a text: a byte and the continuation bytes after it.\<close>

fun utf8_chars :: "string \<Rightarrow> string list" where
  "utf8_chars [] = []"
| "utf8_chars (c # cs) =
     (case utf8_chars cs of
        [] \<Rightarrow> [[c]]
      | x # xs \<Rightarrow> if (of_char (hd x) :: nat) \<in> {128..<192} then (c # x) # xs else [c] # x # xs)"

lemma utf8_chars_concat [simp]: "concat (utf8_chars s) = s"
  by (induction s) (auto split: list.splits)

text \<open>Iterating a decoded value: a list, the keys of an object, the characters of a text.\<close>

fun json_iter :: "json \<Rightarrow> pyexc + json list" where
  "json_iter (JArr xs) = Inr xs"
| "json_iter (JObj kvs) = Inr (map (JStr \<circ> fst) kvs)"
| "json_iter (JStr s) = Inr (map JStr (utf8_chars s))"
| "json_iter _ = Inl (PyExc TypeError None ''object is not iterable'')"

end
