(* ===== verification/Pop_Challenges.thy ===== *)
theory Pop_Challenges
  imports Expiring_Table Base64url Py_Convert
begin

text \<open>
  \<open>agents/base/pop_challenges.py\<close>: the outstanding proof-of-possession challenges of
  an agent, keyed by nonce. \<open>issue\<close> takes the SDK's challenge builder as an argument;
  it may raise, and what it returns is parsed the way the source parses it, so that a
  challenge without a nonce is the exception the source raises. The header functions are
  in \<open>Base64url\<close>.

  What is shown: over any sequence of operations a nonce is answered at most as often as
  it was issued, a returned challenge was issued under the echoed nonce and has not
  expired, and the table stays within its bound.
\<close>

section \<open>State\<close>

definition DEFAULT_TTL_SECS :: int where
  "DEFAULT_TTL_SECS = 60"

datatype pop_error =
  PopRejected (pop_code: "string option") (pop_msg: string) (pop_status: int)
| PopCrash pyexc

record pop_challenges =
  pc_ttl_secs :: int
  pc_max_entries :: int
  pc_outstanding :: "(json, string \<times> pyfloat) dict"

definition pop_challenges_init :: "int \<Rightarrow> int \<Rightarrow> pop_challenges" where
  "pop_challenges_init ttl mx = \<lparr>pc_ttl_secs = ttl, pc_max_entries = mx, pc_outstanding = []\<rparr>"

section \<open>Operations\<close>

definition pc_prune :: "rat \<Rightarrow> (json, string \<times> pyfloat) dict \<Rightarrow> (json, string \<times> pyfloat) dict" where
  "pc_prune now outstanding =
     (let expired = map fst (filter (\<lambda>(n, (_, until)). fless until (Fin now)) outstanding)
      in fold dict_del expired outstanding)"

text \<open>
  The entry a challenge is recorded under. The right-hand side of the assignment is
  evaluated first, so a bad \<open>expires_at\<close> is reported before a missing nonce.
\<close>

definition challenge_entry :: "string \<Rightarrow> pyexc + (json \<times> pyfloat)" where
  "challenge_entry challenge =
     (case loads challenge of
        None \<Rightarrow> Inl (PyExc ValueError None ''challenge is not JSON'')
      | Some parsed \<Rightarrow>
          (case subscript parsed ''expires_at'' of
             Inl e \<Rightarrow> Inl e
           | Inr v \<Rightarrow>
               (case py_float v of
                  Inl e \<Rightarrow> Inl e
                | Inr until \<Rightarrow>
                    (case subscript parsed ''nonce'' of
                       Inl e \<Rightarrow> Inl e
                     | Inr n \<Rightarrow>
                         (case key_of n of
                            None \<Rightarrow> Inl (PyExc TypeError None ''unhashable type'')
                          | Some k \<Rightarrow> Inr (k, until))))))"

definition issue ::
  "(int \<Rightarrow> pyexc + string) \<Rightarrow> rat \<Rightarrow> pop_challenges \<Rightarrow> (pop_error + string) \<times> pop_challenges" where
  "issue new_challenge now p0 =
     (let p = p0\<lparr>pc_outstanding := pc_prune now (pc_outstanding p0)\<rparr>
      in if pc_max_entries p \<le> int (length (pc_outstanding p)) then
           (Inl (PopRejected None ''too many outstanding PoP challenges'' 429), p)
         else
           (case new_challenge (pc_ttl_secs p) of
              Inl e \<Rightarrow> (Inl (PopCrash e), p)
            | Inr challenge \<Rightarrow>
                (case challenge_entry challenge of
                   Inl e \<Rightarrow> (Inl (PopCrash e), p)
                 | Inr (k, until) \<Rightarrow>
                     (Inr challenge,
                      p\<lparr>pc_outstanding := dict_set k (challenge, until) (pc_outstanding p)\<rparr>))))"

text \<open>The nonce a response echoes.\<close>

definition response_nonce :: "string \<Rightarrow> pop_error + string" where
  "response_nonce response_json =
     (case loads response_json of
        None \<Rightarrow> Inl (PopRejected (Some ''POP_RESPONSE_INVALID'') ''pop response is not JSON'' 403)
      | Some response \<Rightarrow>
          (case (case response of JObj kvs \<Rightarrow> dict_get kvs ''nonce_echo'' | _ \<Rightarrow> None) of
             Some (JStr nonce) \<Rightarrow>
               if nonce = [] then
                 Inl (PopRejected (Some ''POP_RESPONSE_INVALID'') ''pop response has no nonce_echo'' 403)
               else Inr nonce
           | _ \<Rightarrow>
               Inl (PopRejected (Some ''POP_RESPONSE_INVALID'') ''pop response has no nonce_echo'' 403)))"

definition consume ::
  "string \<Rightarrow> rat \<Rightarrow> pop_challenges \<Rightarrow> (pop_error + string) \<times> pop_challenges" where
  "consume response_json now p0 =
     (case response_nonce response_json of
        Inl e \<Rightarrow> (Inl e, p0)
      | Inr nonce \<Rightarrow>
          (let pruned = pc_prune now (pc_outstanding p0);
               p = p0\<lparr>pc_outstanding := dict_del (JStr nonce) pruned\<rparr>
           in case dict_get pruned (JStr nonce) of
                None \<Rightarrow>
                  (Inl (PopRejected (Some ''POP_CHALLENGE_INVALID'')
                         ''unknown, already used or expired PoP challenge'' 403), p)
              | Some (challenge, _) \<Rightarrow> (Inr challenge, p)))"

interpretation pops: expiring_table pc_prune "\<lambda>(c, until) now. fless until (Fin now)"
proof
  show "pc_prune now d = filter (\<lambda>(k, v). \<not> (case v of (c, until) \<Rightarrow> \<lambda>now. fless until (Fin now)) now) d"
    if "wf_dict d" for now d
    using del_expired_filter [OF that, of "\<lambda>(c, until). fless until (Fin now)"]
    by (simp add: pc_prune_def case_prod_unfold)
qed (auto intro: fless_Fin_mono)

section \<open>Sequences of operations\<close>

datatype pop_op = OpIssue "int \<Rightarrow> pyexc + string" | OpConsume string

text \<open>What the operations did: a challenge was issued, or one was handed back as answered.\<close>

datatype pop_event = Issued json string pyfloat | Answered string string rat

definition pop_step ::
  "rat \<times> pop_op \<Rightarrow> pop_event list \<times> pop_challenges \<Rightarrow> pop_event list \<times> pop_challenges" where
  "pop_step op1 st =
     (case (op1, st) of
        ((now, OpIssue new_challenge), (es, p)) \<Rightarrow>
          (case issue new_challenge now p of
             (Inr c, p') \<Rightarrow>
               (case challenge_entry c of
                  Inr (k, u) \<Rightarrow> (es @ [Issued k c u], p')
                | Inl _ \<Rightarrow> (es, p'))
           | (Inl _, p') \<Rightarrow> (es, p'))
      | ((now, OpConsume resp), (es, p)) \<Rightarrow>
          (case consume resp now p of
             (Inr c, p') \<Rightarrow>
               (case response_nonce resp of
                  Inr n \<Rightarrow> (es @ [Answered n c now], p')
                | Inl _ \<Rightarrow> (es, p'))
           | (Inl _, p') \<Rightarrow> (es, p')))"

definition run_pop ::
  "(rat \<times> pop_op) list \<Rightarrow> pop_event list \<times> pop_challenges \<Rightarrow> pop_event list \<times> pop_challenges" where
  "run_pop ops st = fold pop_step ops st"

definition issued_count :: "string \<Rightarrow> pop_event list \<Rightarrow> nat" where
  "issued_count n es = length (filter (\<lambda>e. case e of Issued k _ _ \<Rightarrow> k = JStr n | _ \<Rightarrow> False) es)"

definition answered_count :: "string \<Rightarrow> pop_event list \<Rightarrow> nat" where
  "answered_count n es = length (filter (\<lambda>e. case e of Answered m _ _ \<Rightarrow> m = n | _ \<Rightarrow> False) es)"

text \<open>Every answer in the history follows the issue of the same challenge, in time.\<close>

fun answers_justified :: "pop_event list \<Rightarrow> bool" where
  "answers_justified [] = True"
| "answers_justified (e # rest) =
     ((case e of
         Answered n c t \<Rightarrow>
           list_ex (\<lambda>e'. case e' of
               Issued k c' u \<Rightarrow> k = JStr n \<and> c' = c \<and> \<not> fless u (Fin t)
             | _ \<Rightarrow> False) rest
       | Issued _ _ _ \<Rightarrow> True) \<and> answers_justified rest)"

text \<open>The table against the history: what is outstanding was issued and not yet answered.\<close>

definition outstanding_inv :: "pop_event list \<Rightarrow> int \<Rightarrow> (json, string \<times> pyfloat) dict \<Rightarrow> bool" where
  "outstanding_inv es mx d \<longleftrightarrow>
     wf_dict d \<and> int (length d) \<le> max 0 mx
     \<and> (\<forall>n. answered_count n es + (if dict_get d (JStr n) = None then 0 else 1) \<le> issued_count n es)
     \<and> (\<forall>k c u. dict_get d k = Some (c, u) \<longrightarrow> Issued k c u \<in> set es)"

definition pop_inv :: "pop_event list \<times> pop_challenges \<Rightarrow> bool" where
  "pop_inv st \<longleftrightarrow>
     (case st of (es, p) \<Rightarrow>
        outstanding_inv es (pc_max_entries p) (pc_outstanding p) \<and> answers_justified (rev es))"

lemma counts_snoc [simp]:
  "issued_count n (es @ [Issued k c u]) = issued_count n es + (if k = JStr n then 1 else 0)"
  "issued_count n (es @ [Answered m c t]) = issued_count n es"
  "answered_count n (es @ [Issued k c u]) = answered_count n es"
  "answered_count n (es @ [Answered m c t]) = answered_count n es + (if m = n then 1 else 0)"
  by (auto simp: issued_count_def answered_count_def)

lemma pop_config [simp]:
  "pc_max_entries (snd (pop_step op1 st)) = pc_max_entries (snd st)"
  "pc_ttl_secs (snd (pop_step op1 st)) = pc_ttl_secs (snd st)"
  by (auto simp: pop_step_def issue_def consume_def Let_def
      split: prod.splits pop_op.splits sum.splits option.splits if_splits)

lemma outstanding_count:
  "outstanding_inv es mx d \<Longrightarrow>
   answered_count n es + (if dict_get d (JStr n) = None then 0 else 1) \<le> issued_count n es"
  unfolding outstanding_inv_def by blast

lemma outstanding_inv_sub:
  assumes "outstanding_inv es mx d" "wf_dict d'" "length d' \<le> length d"
    and sub: "\<And>k v. dict_get d' k = Some v \<Longrightarrow> dict_get d k = Some v"
  shows "outstanding_inv es mx d'"
  unfolding outstanding_inv_def
proof (intro conjI allI impI)
  have a: "int (length d) \<le> max 0 mx"
    "\<And>n. answered_count n es + (if dict_get d (JStr n) = None then 0 else 1) \<le> issued_count n es"
    "\<And>k c u. dict_get d k = Some (c, u) \<Longrightarrow> Issued k c u \<in> set es"
    using assms(1) by (auto simp: outstanding_inv_def simp del: map_of_eq_Some_iff)
  show "int (length d') \<le> max 0 mx" using a(1) assms(3) by linarith
  show "answered_count n es + (if dict_get d' (JStr n) = None then 0 else 1) \<le> issued_count n es" for n
    using a(2) [of n] sub [of "JStr n"] by (cases "dict_get d' (JStr n)") (auto split: if_splits)
  show "Issued k c u \<in> set es" if "dict_get d' k = Some (c, u)" for k c u
    using a(3) sub that by blast
qed (rule assms(2))

lemma outstanding_inv_prune:
  "outstanding_inv es mx d \<Longrightarrow> outstanding_inv es mx (pc_prune now d)"
proof (rule outstanding_inv_sub)
  assume "outstanding_inv es mx d"
  then have wf: "wf_dict d" by (simp add: outstanding_inv_def)
  show "wf_dict (pc_prune now d)" "length (pc_prune now d) \<le> length d"
    using pops.prune_wf [OF wf] pops.prune_length [OF wf] by auto
  show "dict_get d k = Some v" if "dict_get (pc_prune now d) k = Some v" for k v
    using pops.prune_live [OF wf that] by blast
qed

lemma outstanding_inv_issue:
  assumes "outstanding_inv es mx d" "int (length d) < mx"
  shows "outstanding_inv (es @ [Issued k c u]) mx (dict_set k (c, u) d)"
proof -
  have "answered_count n es \<le> issued_count n es" for n
    using outstanding_count [OF assms(1), of n] by linarith
  with assms show ?thesis
    by (auto simp: outstanding_inv_def length_dict_set wf_dict_set simp del: map_of_eq_Some_iff)
qed

lemma outstanding_inv_answer:
  assumes "outstanding_inv es mx d" "dict_get d (JStr n) = Some (c, u)"
  shows "outstanding_inv (es @ [Answered n c t]) mx (dict_del (JStr n) d)"
proof -
  have "outstanding_inv es mx (dict_del (JStr n) d)"
    using assms(1) by (rule outstanding_inv_sub)
      (use assms(1) in \<open>auto simp: outstanding_inv_def wf_dict_del simp del: map_of_eq_Some_iff split: if_splits\<close>)
  moreover have "answered_count m (es @ [Answered n c t])
      + (if dict_get (dict_del (JStr n) d) (JStr m) = None then 0 else 1) \<le> issued_count m es" for m
    using outstanding_count [OF assms(1), of m] assms(2) by auto
  ultimately show ?thesis
    unfolding outstanding_inv_def counts_snoc(2) by auto
qed

lemma pop_step_inv:
  assumes "pop_inv (es, p)"
  shows "pop_inv (pop_step (now, op2) (es, p))"
proof -
  let ?d = "pc_prune now (pc_outstanding p)"
  have inv: "outstanding_inv es (pc_max_entries p) (pc_outstanding p)" "answers_justified (rev es)"
    using assms by (auto simp: pop_inv_def)
  have pr: "outstanding_inv es (pc_max_entries p) ?d" by (rule outstanding_inv_prune [OF inv(1)])
  show ?thesis
  proof (cases op2)
    case (OpIssue f)
    show ?thesis
      using inv pr outstanding_inv_issue [OF pr]
      by (auto simp: OpIssue pop_step_def issue_def Let_def pop_inv_def
          split: sum.splits if_splits)
  next
    case (OpConsume r)
    show ?thesis
    proof (cases "response_nonce r")
      case (Inl e)
      then show ?thesis using inv by (simp add: OpConsume pop_step_def consume_def pop_inv_def)
    next
      case (Inr n)
      show ?thesis
      proof (cases "dict_get ?d (JStr n)")
        case None
        then have "dict_del (JStr n) ?d = ?d" by (simp add: map_of_eq_None_iff)
        with None Inr inv pr show ?thesis
          by (simp add: OpConsume pop_step_def consume_def pop_inv_def)
      next
        case (Some cu)
        obtain c u where cu: "cu = (c, u)" by (cases cu)
        have "\<not> fless u (Fin now)"
          using pops.prune_live Some cu inv(1) by (fastforce simp: outstanding_inv_def simp del: map_of_eq_Some_iff)
        moreover have "Issued (JStr n) c u \<in> set es"
          using pr Some cu by (simp add: outstanding_inv_def del: map_of_eq_Some_iff)
        ultimately have "answers_justified (rev (es @ [Answered n c now]))"
          using inv(2) by (auto simp: list_ex_iff intro!: bexI [of _ "Issued (JStr n) c u"])
        with Some cu Inr outstanding_inv_answer [OF pr, of n c u] show ?thesis
          by (simp add: OpConsume pop_step_def consume_def pop_inv_def)
      qed
    qed
  qed
qed

lemma run_pop_inv: "pop_inv st \<Longrightarrow> pop_inv (run_pop ops st)"
  unfolding run_pop_def
proof (induction ops arbitrary: st)
  case (Cons op1 ops)
  then have "pop_inv (pop_step op1 st)" by (cases op1; cases st) (simp add: pop_step_inv)
  with Cons show ?case by simp
qed simp

lemma pop_inv_init: "pop_inv ([], pop_challenges_init ttl mx)"
  by (simp add: pop_inv_def outstanding_inv_def pop_challenges_init_def issued_count_def answered_count_def)

section \<open>Properties\<close>

text \<open>
  C29: a challenge is answered at most once. Over any sequence of \<open>issue\<close> and
  \<open>consume\<close> calls, with any clock readings, a nonce is handed back at most as often as
  it was issued; every challenge handed back was issued before under the nonce the
  response echoes, and had not expired; and the table never exceeds its bound.
\<close>

theorem challenge_answered_at_most_once:
  "case run_pop ops ([], pop_challenges_init ttl mx) of (es, p) \<Rightarrow>
     answered_count n es \<le> issued_count n es \<and> answers_justified (rev es)
     \<and> int (length (pc_outstanding p)) \<le> max 0 mx"
proof -
  obtain es p where run: "run_pop ops ([], pop_challenges_init ttl mx) = (es, p)" by fastforce
  have inv: "pop_inv (es, p)" using run_pop_inv [OF pop_inv_init, of ops ttl mx] run by simp
  have "pc_max_entries (snd (run_pop ops st)) = pc_max_entries (snd st)" for st
    unfolding run_pop_def by (induction ops arbitrary: st) auto
  from this [of "([], pop_challenges_init ttl mx)"] have "pc_max_entries p = mx"
    unfolding run by (simp add: pop_challenges_init_def)
  with inv have o: "outstanding_inv es mx (pc_outstanding p)" "answers_justified (rev es)"
    by (simp_all add: pop_inv_def)
  have "answered_count n es \<le> issued_count n es" using outstanding_count [OF o(1), of n] by linarith
  with o show ?thesis by (simp add: run outstanding_inv_def)
qed

text \<open>
  An issued challenge can be redeemed, once. When \<open>issue\<close> returns a challenge whose
  nonce is a string, a response that echoes the nonce before the deadline gets exactly
  that challenge back, and the same response presented again gets
  \<open>POP_CHALLENGE_INVALID\<close> at any time.
\<close>

theorem issue_then_consume:
  assumes "wf_dict (pc_outstanding p)" and "issue new_challenge now p = (Inr c, p')"
    and "challenge_entry c = Inr (JStr n, u)" and "response_nonce r = Inr n"
    and "\<not> fless u (Fin t)"
  shows "fst (consume r t p') = Inr c
    \<and> fst (consume r t' (snd (consume r t p'))) =
        Inl (PopRejected (Some ''POP_CHALLENGE_INVALID'')
               ''unknown, already used or expired PoP challenge'' 403)"
proof -
  have out: "pc_outstanding p' = dict_set (JStr n) (c, u) (pc_prune now (pc_outstanding p))"
    using assms(2,3) by (auto simp: issue_def Let_def split: if_splits sum.splits)
  have wf: "wf_dict (pc_outstanding p')"
    using pops.prune_wf [OF assms(1)] by (simp add: out wf_dict_set)
  have g: "dict_get (pc_prune t (pc_outstanding p')) (JStr n) = Some (c, u)"
    using assms(5) wf by (intro pops.prune_keeps) (auto simp: out simp del: map_of_eq_Some_iff)
  have "dict_get (pc_prune t' (dict_del (JStr n) (pc_prune t (pc_outstanding p')))) (JStr n) = None"
    by (rule pops.prune_fresh) (auto intro: wf_dict_del pops.prune_wf [OF wf])
  with g assms(4) show ?thesis by (simp add: consume_def)
qed

theorem issue_then_consume_witness:
  "fst (consume ''{\"nonce_echo\":\"n1\"}'' 50
     (snd (issue (\<lambda>ttl. Inr ''{\"nonce\":\"n1\",\"expires_at\":60}'') 0 (pop_challenges_init 60 10)))) =
   Inr ''{\"nonce\":\"n1\",\"expires_at\":60}''"
proof -
  let ?c = "''{\"nonce\":\"n1\",\"expires_at\":60}''"
  let ?p = "pop_challenges_init 60 10"
  have "issue (\<lambda>ttl. Inr ?c) 0 ?p = (Inr ?c, snd (issue (\<lambda>ttl. Inr ?c) 0 ?p))"
    "challenge_entry ?c = Inr (JStr ''n1'', Fin 60)"
    "response_nonce ''{\"nonce_echo\":\"n1\"}'' = Inr ''n1''" by code_simp+
  with issue_then_consume [of ?p] show ?thesis by (simp add: pop_challenges_init_def)
qed

end
