(* ===== verification/Aitp_Sdk.thy ===== *)
theory Aitp_Sdk
  imports Py_Convert
begin

text \<open>
  The AITP SDK (\<open>aitp-py\<close>) is compiled code outside the repository. The agents reach
  it through the functions of this record, a parameter of every definition that uses
  them. \<open>'a\<close> stands for an \<open>AitpAgent\<close> handle, \<open>'r\<close> for a responder session,
  \<open>'s\<close> for a \<open>TctStore\<close>. A function that may raise returns a sum, \<open>Inl\<close> the
  exception; one that reads the clock takes the reading. Nothing is assumed of these
  functions here: a theorem that relies on the SDK names what it relies on.
\<close>

type_synonym json_dict = "(string \<times> json) list"

text \<open>One entry of a revocation list in the shape \<open>sign_revocation_list\<close> takes; the
  reason is kept as the value \<open>str()\<close> is applied to.\<close>

record rev_entry =
  re_jti :: string
  re_revoked_at :: int
  re_reason :: "json option"

record tct_identity =
  ti_peer_aid :: string
  ti_grants :: "string list"
  ti_expires_at :: int
  ti_jti :: string

text \<open>A verified delegation: the delegatee and the grants.\<close>

record verified_delegation =
  vd_delegatee :: string
  vd_grants :: "string list"

text \<open>What the agent's JWT callback closes over (\<open>OidcContext.mint_jwt_for\<close>).\<close>

record jwt_minter =
  jm_seed :: string
  jm_kid :: string
  jm_issuer :: string
  jm_sub :: string
  jm_audience :: string
  jm_cnf_jkt :: string
  jm_ttl_secs :: int

record ('a, 'r, 's) sdk =
  sdk_revocation_list_path :: string
  sdk_aid :: "'a \<Rightarrow> string"
  sdk_from_seed :: "string \<Rightarrow> string \<Rightarrow> pyexc + 'a"
  sdk_compute_aid_jkt :: "string \<Rightarrow> pyexc + string"
  sdk_generate :: "string \<Rightarrow> pyexc + 'a"
  sdk_build_manifest :: "'a \<Rightarrow> json_dict \<Rightarrow> rat \<Rightarrow> pyexc + string"
  sdk_sign_revocation_list :: "'a \<Rightarrow> rev_entry list \<Rightarrow> int \<Rightarrow> rat \<Rightarrow> pyexc + string"
  sdk_verify_revocation_list :: "string \<Rightarrow> string \<Rightarrow> rat \<Rightarrow> pyexc option"
  sdk_new_pop_challenge :: "'a \<Rightarrow> string \<Rightarrow> int \<Rightarrow> rat \<Rightarrow> pyexc + string"
  sdk_verify_tct ::
    "'a \<Rightarrow> string \<Rightarrow> string \<Rightarrow> string set \<Rightarrow> string \<times> string \<Rightarrow> rat \<Rightarrow> pyexc + tct_identity"
  sdk_verify_tct_cached ::
    "'a \<Rightarrow> string \<Rightarrow> string \<Rightarrow> 's \<Rightarrow> string set \<Rightarrow> string \<times> string \<Rightarrow> rat \<Rightarrow>
      (pyexc + tct_identity) \<times> 's"
  sdk_store_len :: "'s \<Rightarrow> nat"
  sdk_new_responder :: "'a \<Rightarrow> json_dict option \<Rightarrow> string list \<Rightarrow> bool \<Rightarrow> pyexc + 'r"
  sdk_process_hello :: "'r \<Rightarrow> string \<Rightarrow> jwt_minter option \<Rightarrow> rat \<Rightarrow> pyexc + (string \<times> string \<times> 'r)"
  sdk_process_commit :: "'r \<Rightarrow> string \<Rightarrow> string set \<Rightarrow> rat \<Rightarrow> pyexc + (string \<times> string)"
  sdk_verify_delegation ::
    "string \<Rightarrow> string \<Rightarrow> string list \<Rightarrow> string set \<Rightarrow> bool \<Rightarrow> rat \<Rightarrow> pyexc + verified_delegation"
  sdk_verify_delegation_multihop ::
    "string \<Rightarrow> string \<Rightarrow> string list \<Rightarrow> int \<Rightarrow> string set \<Rightarrow> bool \<Rightarrow> rat \<Rightarrow> pyexc + verified_delegation"
  sdk_issue_tct_for_delegatee :: "'a \<Rightarrow> verified_delegation \<Rightarrow> rat \<Rightarrow> pyexc + string"

text \<open>An event handed to \<open>emit_event\<close>: its type and its fields.\<close>

type_synonym event = "string \<times> json_dict"

text \<open>An HTTP exchange: a transport error, or a status with the body's bytes.\<close>

type_synonym http_result = "string + (int \<times> string)"

abbreviation jstr_opt :: "string option \<Rightarrow> json" where
  "jstr_opt s \<equiv> (case s of Some x \<Rightarrow> JStr x | None \<Rightarrow> JNull)"

abbreviation exc_is_caught :: "exc_kind set \<Rightarrow> pyexc \<Rightarrow> bool" where
  "exc_is_caught ks e \<equiv> exc_kind e \<in> ks"

text \<open>\<open>d.get(k)\<close> and \<open>d.get(k) or None\<close> on a decoded dictionary of strings.\<close>

definition get_str :: "json_dict \<Rightarrow> string \<Rightarrow> string option" where
  "get_str d k = (case dict_get d k of Some (JStr s) \<Rightarrow> if s = [] then None else Some s | _ \<Rightarrow> None)"

text \<open>\<open>d.get(k)\<close> with \<open>None\<close> for an absent key.\<close>

definition get_json :: "json_dict \<Rightarrow> string \<Rightarrow> json" where
  "get_json d k = (case dict_get d k of Some v \<Rightarrow> v | None \<Rightarrow> JNull)"

text \<open>\<open>d.get(k)\<close> if it is a dictionary, else the empty one.\<close>

definition get_obj :: "json_dict \<Rightarrow> string \<Rightarrow> json_dict" where
  "get_obj d k = (case dict_get d k of Some (JObj o') \<Rightarrow> o' | _ \<Rightarrow> [])"

end
