(* ===== verification/Revocation_State.thy ===== *)
theory Revocation_State
  imports Aitp_Sdk
begin

text \<open>
  \<open>agents/base/revocation_state.py\<close>: the local revocations and the snapshot in force,
  kept apart and united only for enforcement. Methods with an optional \<open>now\<close> are only
  called without it; each clock reading they make is an argument.
\<close>

section \<open>State\<close>

record snapshot =
  sn_entries :: "string set"
  sn_published_at :: int
  sn_expires_at :: int

record revocation_state =
  rv_local :: "string set"
  rv_snapshot :: "snapshot option"

datatype posture = Unchecked | Current | Degraded

definition age_secs :: "snapshot \<Rightarrow> rat \<Rightarrow> rat" where
  "age_secs s now = now - of_int (sn_published_at s)"

definition is_expired :: "snapshot \<Rightarrow> rat \<Rightarrow> bool" where
  "is_expired s now \<longleftrightarrow> of_int (sn_expires_at s) \<le> now"

section \<open>Operations\<close>

definition revoke_local :: "string \<Rightarrow> revocation_state \<Rightarrow> revocation_state" where
  "revoke_local jti r = r\<lparr>rv_local := insert jti (rv_local r)\<rparr>"

definition apply_snapshot ::
  "string list \<Rightarrow> int \<Rightarrow> int \<Rightarrow> revocation_state \<Rightarrow> revocation_state" where
  "apply_snapshot entries published_at expires_at r =
     r\<lparr>rv_snapshot := Some \<lparr>sn_entries = set entries, sn_published_at = published_at,
                             sn_expires_at = expires_at\<rparr>\<rparr>"

definition effective_jtis :: "revocation_state \<Rightarrow> string set" where
  "effective_jtis r =
     (case rv_snapshot r of None \<Rightarrow> rv_local r | Some s \<Rightarrow> rv_local r \<union> sn_entries s)"

definition is_revoked :: "revocation_state \<Rightarrow> string \<Rightarrow> bool" where
  "is_revoked r jti =
     (if jti \<in> rv_local r then True
      else (case rv_snapshot r of None \<Rightarrow> False | Some s \<Rightarrow> jti \<in> sn_entries s))"

definition is_locally_revoked :: "revocation_state \<Rightarrow> string \<Rightarrow> bool" where
  "is_locally_revoked r jti \<longleftrightarrow> jti \<in> rv_local r"

definition snapshot_entry_count :: "revocation_state \<Rightarrow> nat" where
  "snapshot_entry_count r = (case rv_snapshot r of None \<Rightarrow> 0 | Some s \<Rightarrow> card (sn_entries s))"

definition revocation_len :: "revocation_state \<Rightarrow> nat" where
  "revocation_len r = card (effective_jtis r)"

text \<open>\<open>is_expired\<close> and \<open>age_secs\<close> read the clock one after the other.\<close>

definition posture_of :: "bool \<Rightarrow> int \<Rightarrow> rat \<Rightarrow> rat \<Rightarrow> revocation_state \<Rightarrow> posture" where
  "posture_of can_verify max_staleness_secs t1 t2 r =
     (if \<not> can_verify then Unchecked
      else
        (case rv_snapshot r of
           None \<Rightarrow> Degraded
         | Some s \<Rightarrow>
             if is_expired s t1 then Degraded
             else if of_int max_staleness_secs < age_secs s t2 then Degraded
             else Current))"

definition degraded_reason :: "int \<Rightarrow> rat \<Rightarrow> rat \<Rightarrow> revocation_state \<Rightarrow> string" where
  "degraded_reason max_staleness_secs t1 t2 r =
     (case rv_snapshot r of
        None \<Rightarrow> ''no verified snapshot has ever been applied''
      | Some s \<Rightarrow>
          if is_expired s t1 then ''the last verified snapshot is past its signed expires_at''
          else
            ''the last verified snapshot is '' @ str_int (trunc (age_secs s t2)) @ ''s old, over the ''
            @ str_int max_staleness_secs @ ''s staleness budget'')"

section \<open>Laws\<close>

lemma is_revoked_effective: "is_revoked r jti \<longleftrightarrow> jti \<in> effective_jtis r"
  by (auto simp: is_revoked_def effective_jtis_def split: option.splits)

lemma revocation_ops_local [simp]:
  "rv_local (apply_snapshot es p e r) = rv_local r"
  "rv_local (revoke_local jti r) = insert jti (rv_local r)"
  "rv_snapshot (revoke_local jti r) = rv_snapshot r"
  by (simp_all add: apply_snapshot_def revoke_local_def)

lemma effective_apply [simp]: "effective_jtis (apply_snapshot es p e r) = rv_local r \<union> set es"
  by (simp add: apply_snapshot_def effective_jtis_def)

lemma local_effective: "rv_local r \<subseteq> effective_jtis r"
  by (auto simp: effective_jtis_def split: option.splits)

text \<open>The operations of the state, as the admin routes and the refresh apply them.\<close>

datatype revocation_op = RevokeLocal string | ApplySnapshot "string list" int int

fun revocation_step :: "revocation_op \<Rightarrow> revocation_state \<Rightarrow> revocation_state" where
  "revocation_step (RevokeLocal jti) r = revoke_local jti r"
| "revocation_step (ApplySnapshot es p e) r = apply_snapshot es p e r"

lemma local_kept: "rv_local r \<subseteq> rv_local (fold revocation_step ops r)"
proof (induction ops arbitrary: r)
  case (Cons op1 ops)
  have "rv_local r \<subseteq> rv_local (revocation_step op1 r)" by (cases op1) auto
  with Cons show ?case by fastforce
qed simp

text \<open>
  A local revocation is permanent, and a snapshot is replaced wholesale. Whatever
  operations follow \<open>revoke_local\<close>, the identifier stays denied; and after a snapshot is
  applied the denied identifiers are exactly the local ones and those it names, so that an
  identifier it no longer names is denied only if it was revoked locally.
\<close>

theorem local_revocation_permanent:
  "is_revoked (fold revocation_step ops (revoke_local jti r)) jti
   \<and> (is_revoked (apply_snapshot es p e r) x \<longleftrightarrow> x \<in> set es \<or> x \<in> rv_local r)"
proof
  have "jti \<in> rv_local (fold revocation_step ops (revoke_local jti r))"
    using local_kept [of "revoke_local jti r" ops] by auto
  then show "is_revoked (fold revocation_step ops (revoke_local jti r)) jti"
    using local_effective by (auto simp: is_revoked_effective)
  show "is_revoked (apply_snapshot es p e r) x \<longleftrightarrow> x \<in> set es \<or> x \<in> rv_local r"
    by (auto simp: is_revoked_effective)
qed

lemma posture_current_iff:
  "posture_of cv mx t1 t2 r = Current \<longleftrightarrow>
   cv \<and> (\<exists>s. rv_snapshot r = Some s \<and> t1 < of_int (sn_expires_at s)
          \<and> t2 \<le> of_int (sn_published_at s) + of_int mx)"
  by (auto simp: posture_of_def is_expired_def age_secs_def split: option.splits)

lemma posture_degraded_iff:
  "posture_of cv mx t1 t2 r = Degraded \<longleftrightarrow>
   cv \<and> (\<forall>s. rv_snapshot r = Some s \<longrightarrow> of_int (sn_expires_at s) \<le> t1
          \<or> of_int (sn_published_at s) + of_int mx < t2)"
  by (auto simp: posture_of_def is_expired_def age_secs_def split: option.splits)

end
