(* ===== verification/Demo_Sdk.thy ===== *)
theory Demo_Sdk
  imports Aitp_Sdk
begin

text \<open>
  A small concrete instance of the SDK record, for the witnesses: keys are their own AID,
  a signed list is the JSON text of its entries and dates, and verification checks the
  issuer named in it. It stands for no code of the repository.
\<close>

definition demo_entry :: "rev_entry \<Rightarrow> string" where
  "demo_entry e = ''{\"jti\":\"'' @ re_jti e @ ''\"}''"

fun demo_join :: "string list \<Rightarrow> string" where
  "demo_join [] = []"
| "demo_join [x] = x"
| "demo_join (x # xs) = x @ '','' @ demo_join xs"

definition demo_list :: "string \<Rightarrow> rev_entry list \<Rightarrow> int \<Rightarrow> rat \<Rightarrow> string" where
  "demo_list aid es ttl now =
     ''{\"revocation_list\":{\"iss\":\"'' @ aid @ ''\",\"published_at\":'' @ str_int \<lfloor>now\<rfloor>
     @ '',\"expires_at\":'' @ str_int (\<lfloor>now\<rfloor> + ttl) @ '',\"entries\":[''
     @ demo_join (map demo_entry es) @ '']}}''"

definition demo_sdk :: "(string, string, nat) sdk" where
  "demo_sdk =
     \<lparr>sdk_revocation_list_path = ''/.well-known/aitp-revocation-list'',
      sdk_aid = (\<lambda>a. a),
      sdk_from_seed = (\<lambda>seed suite. Inr seed),
      sdk_compute_aid_jkt = (\<lambda>aid. Inr aid),
      sdk_generate = (\<lambda>suite. Inr (''aid-'' @ suite)),
      sdk_build_manifest = (\<lambda>a d now.
         Inr (''{\"manifest\":{\"aid\":\"'' @ a @ ''\",\"published_at\":'' @ str_int \<lfloor>now\<rfloor>
              @ '',\"expires_at\":'' @ str_int (\<lfloor>now\<rfloor> + 3600) @ ''}}'')),
      sdk_sign_revocation_list = (\<lambda>a es ttl now. Inr (demo_list a es ttl now)),
      sdk_verify_revocation_list = (\<lambda>env aid now.
         if starts_with (''{\"revocation_list\":{\"iss\":\"'' @ aid @ ''\"'') env then None
         else Some (PyExc ValueError (Some ''SIGNATURE_INVALID'') ''bad issuer'')),
      sdk_new_pop_challenge = (\<lambda>a tok ttl now.
         Inr (''{\"nonce\":\"n1\",\"expires_at\":'' @ str_int (\<lfloor>now\<rfloor> + ttl) @ ''}'')),
      sdk_verify_tct = (\<lambda>a tok grant deny pop now.
         if snd pop = ''{\"nonce_echo\":\"n1\"}''
         then Inr \<lparr>ti_peer_aid = ''peer'', ti_grants = [grant], ti_expires_at = 10000, ti_jti = ''j''\<rparr>
         else Inl (PyExc ValueError (Some ''POP_RESPONSE_INVALID'') ''bad response'')),
      sdk_verify_tct_cached = (\<lambda>a tok grant st deny pop now.
         (Inr \<lparr>ti_peer_aid = ''peer'', ti_grants = [grant], ti_expires_at = 10000, ti_jti = ''j''\<rparr>, st + 1)),
      sdk_store_len = (\<lambda>s. s),
      sdk_new_responder = (\<lambda>a oidc pinned insecure. Inr a),
      sdk_process_hello = (\<lambda>r hello jwt now. Inr (''ack'', ''sid'', r)),
      sdk_process_commit = (\<lambda>r commit deny now. Inr (''ack'', ''{\"tct\":\"a.e30.c\"}'')),
      sdk_verify_delegation = (\<lambda>tok aid ms deny insecure now.
         Inr \<lparr>vd_delegatee = ''d'', vd_grants = [''g'']\<rparr>),
      sdk_verify_delegation_multihop = (\<lambda>tok aid ms hops deny insecure now.
         Inr \<lparr>vd_delegatee = ''d'', vd_grants = [''g'']\<rparr>),
      sdk_issue_tct_for_delegatee = (\<lambda>a vd now. Inr ''tct'')\<rparr>"

end
