(* ===== verification/Tct_Claims.thy ===== *)
theory Tct_Claims
  imports Base64url Py_Convert
begin

text \<open>
  \<open>agents/base/tct_claims.py\<close>: reading the claims out of a compact JWS without
  verifying it. \<open>json.loads\<close> is called on bytes here, so the encoding is detected the
  way the standard library does it before the text is parsed.
\<close>

section \<open>\<open>json.loads\<close> on bytes\<close>

text \<open>UTF-8 with the \<open>surrogatepass\<close> handler: surrogates are let through.\<close>

fun utf8_valid_sp :: "string \<Rightarrow> bool" where
  "utf8_valid_sp [] = True"
| "utf8_valid_sp (a # r) =
     (if byte a < 128 then utf8_valid_sp r
      else if 194 \<le> byte a \<and> byte a < 224 then
        (case r of b # r1 \<Rightarrow> cont_byte b \<and> utf8_valid_sp r1 | _ \<Rightarrow> False)
      else if 224 \<le> byte a \<and> byte a < 240 then
        (case r of
           b # c # r2 \<Rightarrow>
             cont_byte b \<and> cont_byte c \<and> (byte a = 224 \<longrightarrow> 160 \<le> byte b) \<and> utf8_valid_sp r2
         | _ \<Rightarrow> False)
      else if 240 \<le> byte a \<and> byte a < 245 then
        (case r of
           b # c # d # r3 \<Rightarrow>
             cont_byte b \<and> cont_byte c \<and> cont_byte d \<and> (byte a = 240 \<longrightarrow> 144 \<le> byte b)
             \<and> (byte a = 244 \<longrightarrow> byte b < 144) \<and> utf8_valid_sp r3
         | _ \<Rightarrow> False)
      else False)"

fun utf16_units :: "bool \<Rightarrow> string \<Rightarrow> nat list option" where
  "utf16_units be [] = Some []"
| "utf16_units be [a] = None"
| "utf16_units be (a # b # r) =
     map_option ((#) (if be then byte a * 256 + byte b else byte b * 256 + byte a)) (utf16_units be r)"

fun utf16_points :: "nat list \<Rightarrow> nat list" where
  "utf16_points (u # w # r) =
     (if 55296 \<le> u \<and> u \<le> 56319 \<and> 56320 \<le> w \<and> w \<le> 57343
      then (65536 + (u - 55296) * 1024 + (w - 56320)) # utf16_points r
      else u # utf16_points (w # r))"
| "utf16_points us = us"

fun utf32_points :: "bool \<Rightarrow> string \<Rightarrow> nat list option" where
  "utf32_points be [] = Some []"
| "utf32_points be (a # b # c # d # r) =
     (let n = (if be then ((byte a * 256 + byte b) * 256 + byte c) * 256 + byte d
               else ((byte d * 256 + byte c) * 256 + byte b) * 256 + byte a)
      in if n < 1114112 then map_option ((#) n) (utf32_points be r) else None)"
| "utf32_points be _ = None"

definition utf8_text :: "nat list \<Rightarrow> string" where
  "utf8_text ns = concat (map utf8_encode ns)"

definition decode_utf8 :: "string \<Rightarrow> string option" where
  "decode_utf8 b = (if utf8_valid_sp b then Some b else None)"

definition decode_utf16 :: "bool \<Rightarrow> string \<Rightarrow> string option" where
  "decode_utf16 be b = map_option (\<lambda>us. utf8_text (utf16_points us)) (utf16_units be b)"

definition decode_utf32 :: "bool \<Rightarrow> string \<Rightarrow> string option" where
  "decode_utf32 be b = map_option utf8_text (utf32_points be b)"

text \<open>\<open>json.detect_encoding\<close> followed by the decoding.\<close>

definition decode_json_bytes :: "string \<Rightarrow> string option" where
  "decode_json_bytes b =
     (let n = (\<lambda>i. if i < length b then byte (b ! i) else 0)
      in if starts_with [CHR 0x00, CHR 0x00, CHR 0xFE, CHR 0xFF] b then decode_utf32 True (drop 4 b)
         else if starts_with [CHR 0xFF, CHR 0xFE, CHR 0x00, CHR 0x00] b then decode_utf32 False (drop 4 b)
         else if starts_with [CHR 0xFE, CHR 0xFF] b then decode_utf16 True (drop 2 b)
         else if starts_with [CHR 0xFF, CHR 0xFE] b then decode_utf16 False (drop 2 b)
         else if starts_with [CHR 0xEF, CHR 0xBB, CHR 0xBF] b then decode_utf8 (drop 3 b)
         else if 4 \<le> length b \<and> n 0 = 0 then
           (if n 1 \<noteq> 0 then decode_utf16 True b else decode_utf32 True b)
         else if 4 \<le> length b \<and> n 1 = 0 then
           (if n 2 \<noteq> 0 \<or> n 3 \<noteq> 0 then decode_utf16 False b else decode_utf32 False b)
         else if length b = 2 \<and> n 0 = 0 then decode_utf16 True b
         else if length b = 2 \<and> n 1 = 0 then decode_utf16 False b
         else decode_utf8 b)"

definition loads_bytes :: "string \<Rightarrow> json option" where
  "loads_bytes b = Option.bind (decode_json_bytes b) loads"

section \<open>Claims\<close>

definition decode_claims :: "string \<Rightarrow> pyexc + (string \<times> json) list" where
  "decode_claims token =
     (let parts = split_on (CHR ''.'') token
      in if length parts \<noteq> 3 then
           Inl (PyExc ValueError None
                  (''not a compact JWS: '' @ str_nat (length parts) @ '' segment(s)''))
         else
           (let payload_seg = parts ! 1;
                padded = payload_seg @ replicate (nat (- int (length payload_seg) mod 4)) (CHR ''='')
            in case Option.bind (urlsafe_b64decode padded) loads_bytes of
                 None \<Rightarrow> Inl (PyExc ValueError None ''undecodable JWS payload'')
               | Some (JObj claims) \<Rightarrow> Inr claims
               | Some _ \<Rightarrow> Inl (PyExc ValueError None ''JWS payload is not a JSON object'')))"

text \<open>The same call on a JSON value: only a string has \<open>split\<close>.\<close>

definition decode_claims_of :: "json \<Rightarrow> pyexc + (string \<times> json) list" where
  "decode_claims_of j =
     (case j of
        JStr token \<Rightarrow> decode_claims token
      | _ \<Rightarrow> Inl (PyExc AttributeError None ''object has no attribute split''))"

definition tct_event :: "string \<Rightarrow> json" where
  "tct_event token =
     (let claims = (case decode_claims token of Inr c \<Rightarrow> c | Inl _ \<Rightarrow> [])
      in JObj [(''token'', JStr token), (''claims'', JObj claims)])"

section \<open>Properties\<close>

lemma split_on_join:
  "CHR ''.'' \<notin> set a \<Longrightarrow> CHR ''.'' \<notin> set b \<Longrightarrow> CHR ''.'' \<notin> set c \<Longrightarrow>
   split_on (CHR ''.'') (a @ CHR ''.'' # b @ CHR ''.'' # c) = [a, b, c]"
proof -
  have one: "split_on x s = [s]" if "x \<notin> set s" for x s
    using that by (induction s) auto
  have cons: "split_on x (s @ x # r) = s # split_on x r" if "x \<notin> set s" for x s r
    using that by (induction s) auto
  assume "CHR ''.'' \<notin> set a" "CHR ''.'' \<notin> set b" "CHR ''.'' \<notin> set c"
  then show ?thesis by (simp add: one cons)
qed

lemma b64_char_not_dot [simp]: "n < 64 \<Longrightarrow> b64_char n \<noteq> CHR ''.''"
proof -
  assume "n < 64"
  have "byte (b64_char n) \<noteq> byte (CHR ''.'')" by (auto simp: byte_b64_char)
  then show ?thesis by metis
qed

lemma b64_core_no_dot: "CHR ''.'' \<notin> set (b64_core s)"
  by (induction s rule: b64_core.induct) (auto simp: b64_char_not_dot [symmetric] dest: b64_char_not_dot)

text \<open>
  \<open>decode_claims\<close> reads what a compact JWS carries. For a header and a signature
  segment without dots and a payload whose bytes parse as a JSON object, the token
  \<open>header.base64url(payload).signature\<close> decodes to exactly that object.
\<close>

theorem decode_claims_jws:
  assumes "loads_bytes payload = Some (JObj claims)"
    and "CHR ''.'' \<notin> set header" "CHR ''.'' \<notin> set signature"
  shows "decode_claims (header @ ''.'' @ encode_header payload @ ''.'' @ signature) = Inr claims"
proof -
  have "is_ascii (b64_core payload @ replicate k (CHR ''=''))" for k
    using b64_core_chars [of _ payload] by (auto simp: is_ascii_def list_all_iff)
  then show ?thesis
    using assms split_on_join [OF assms(2) b64_core_no_dot assms(3)] a2b_core [of 0 0 payload]
    by (simp add: decode_claims_def encode_header_core urlsafe_b64decode_def)
qed

theorem decode_claims_jws_witness:
  "decode_claims (''h'' @ ''.'' @ encode_header ''{\"jti\":\"x\"}'' @ ''.'' @ ''s'') = Inr [(''jti'', JStr ''x'')]"
  by (rule decode_claims_jws) code_simp+

end
