(* ===== verification/Revocation_Publish.thy ===== *)
theory Revocation_Publish
  imports Aitp_Sdk Demo_Sdk Tct_Claims
begin

text \<open>
  \<open>agents/base/revocation_publish.py\<close>: the issuer side of revocation. The state is the
  list object; the agent handle in force, the clock readings and the control plane's
  answer are arguments. Messages that quote a decoded value or a library's diagnostic
  keep only their fixed text.

  What is shown: with a control plane configured, the held list changes only to a list
  signed over exactly the entries of a well-formed answer for this agent's own AID, and
  what is served is signed by the current AID and not expired.
\<close>

section \<open>State\<close>

definition RETRY_AFTER_SECS :: int where
  "RETRY_AFTER_SECS = 30"

datatype pull_error = PullRefused (pr_cause: string) (pr_detail: string) | PullCrash pyexc

record signed_list =
  sl_envelope_json :: string
  sl_signer_aid :: string
  sl_entry_count :: nat
  sl_published_at :: int
  sl_expires_at :: int

definition signed_list_is_expired :: "signed_list \<Rightarrow> rat \<Rightarrow> bool" where
  "signed_list_is_expired l now \<longleftrightarrow> of_int (sl_expires_at l) \<le> now"

record issuer_list =
  il_cp_base_url :: "string option"
  il_cp_api_key :: "string option"
  il_ttl_secs :: int
  il_current :: "signed_list option"

text \<open>\<open>int(cp.get("list_ttl_secs", 3600))\<close> may raise.\<close>

definition issuer_list_init :: "json_dict \<Rightarrow> pyexc + issuer_list" where
  "issuer_list_init bootstrap =
     (let cp = get_obj bootstrap ''cp''
      in case (case dict_get cp ''list_ttl_secs'' of Some v \<Rightarrow> py_int v | None \<Rightarrow> Inr 3600) of
           Inl e \<Rightarrow> Inl e
         | Inr ttl \<Rightarrow>
             Inr \<lparr>il_cp_base_url = get_str cp ''base_url'', il_cp_api_key = get_str cp ''api_key'',
                  il_ttl_secs = ttl, il_current = None\<rparr>)"

section \<open>Signing\<close>

text \<open>The dates of a signed envelope, read back out of it.\<close>

definition envelope_dates :: "string \<Rightarrow> pyexc + (int \<times> int)" where
  "envelope_dates envelope_json =
     (case loads envelope_json of
        None \<Rightarrow> Inl (PyExc ValueError None ''envelope is not JSON'')
      | Some v \<Rightarrow>
          (case subscript v ''revocation_list'' of
             Inl e \<Rightarrow> Inl e
           | Inr body \<Rightarrow>
               (case subscript body ''published_at'' of
                  Inl e \<Rightarrow> Inl e
                | Inr p \<Rightarrow>
                    (case py_int p of
                       Inl e \<Rightarrow> Inl e
                     | Inr pub \<Rightarrow>
                         (case subscript body ''expires_at'' of
                            Inl e \<Rightarrow> Inl e
                          | Inr x \<Rightarrow>
                              (case py_int x of Inl e \<Rightarrow> Inl e | Inr ex \<Rightarrow> Inr (pub, ex)))))))"

definition sign_list ::
  "('a, 'r, 's) sdk \<Rightarrow> 'a \<Rightarrow> rev_entry list \<Rightarrow> rat \<Rightarrow> issuer_list \<Rightarrow> pyexc + signed_list" where
  "sign_list sdk agent entries now il =
     (case sdk_sign_revocation_list sdk agent entries (il_ttl_secs il) now of
        Inl e \<Rightarrow> Inl e
      | Inr envelope_json \<Rightarrow>
          (case envelope_dates envelope_json of
             Inl e \<Rightarrow> Inl e
           | Inr (pub, ex) \<Rightarrow>
               Inr \<lparr>sl_envelope_json = envelope_json, sl_signer_aid = sdk_aid sdk agent,
                    sl_entry_count = length entries, sl_published_at = pub, sl_expires_at = ex\<rparr>))"

section \<open>Serving\<close>

definition serveable ::
  "('a, 'r, 's) sdk \<Rightarrow> 'a \<Rightarrow> rat \<Rightarrow> issuer_list \<Rightarrow> (pyexc + signed_list option) \<times> issuer_list" where
  "serveable sdk agent now il =
     (let aid = sdk_aid sdk agent;
          signed = (case il_current il of
              Some l \<Rightarrow>
                if sl_signer_aid l \<noteq> aid \<or> signed_list_is_expired l now then None else Some l
            | None \<Rightarrow> None)
      in if signed = None \<and> il_cp_base_url il = None then
           (case sign_list sdk agent [] now il of
              Inl e \<Rightarrow> (Inl e, il)
            | Inr l \<Rightarrow> (Inr (Some l), il\<lparr>il_current := Some l\<rparr>))
         else (Inr signed, il))"

section \<open>Pulling the entries\<close>

definition entry_of :: "json \<Rightarrow> pyexc + rev_entry" where
  "entry_of raw =
     (case subscript raw ''jti'' of
        Inl e \<Rightarrow> Inl e
      | Inr j \<Rightarrow>
          (case py_uuid j of
             Inl e \<Rightarrow> Inl e
           | Inr jti \<Rightarrow>
               (case subscript raw ''revoked_at'' of
                  Inl e \<Rightarrow> Inl e
                | Inr v \<Rightarrow>
                    (case py_int v of
                       Inl e \<Rightarrow> Inl e
                     | Inr at' \<Rightarrow>
                         Inr \<lparr>re_jti = jti, re_revoked_at = at',
                              re_reason = (case raw of
                                  JObj kvs \<Rightarrow>
                                    (case dict_get kvs ''reason'' of
                                       Some JNull \<Rightarrow> None | other \<Rightarrow> other)
                                | _ \<Rightarrow> None)\<rparr>))))"

fun entries_of :: "json list \<Rightarrow> pyexc + rev_entry list" where
  "entries_of [] = Inr []"
| "entries_of (raw # rest) =
     (case entry_of raw of
        Inl e \<Rightarrow> Inl e
      | Inr x \<Rightarrow> (case entries_of rest of Inl e \<Rightarrow> Inl e | Inr xs \<Rightarrow> Inr (x # xs)))"

definition error_code :: "string \<Rightarrow> string option" where
  "error_code content =
     (case loads_bytes content of
        Some (JObj kvs) \<Rightarrow> (case dict_get kvs ''code'' of Some (JStr c) \<Rightarrow> Some c | _ \<Rightarrow> None)
      | _ \<Rightarrow> None)"

text \<open>The URL and headers of the request, and what the answer to it means.\<close>

definition pull_request :: "issuer_list \<Rightarrow> string \<Rightarrow> string \<times> json_dict \<times> json_dict" where
  "pull_request il aid =
     (rstrip_slash (case il_cp_base_url il of Some u \<Rightarrow> u | None \<Rightarrow> []) @ ''/api/revocations'',
      [(''iss'', JStr aid)],
      (case il_cp_api_key il of Some k \<Rightarrow> [(''Authorization'', JStr (''Bearer '' @ k))] | None \<Rightarrow> []))"

definition read_pull_body :: "string \<Rightarrow> string \<Rightarrow> (string \<times> string) + (pyexc + rev_entry list)" where
  "read_pull_body aid content =
     (case loads_bytes content of
        None \<Rightarrow> Inr (Inl (PyExc ValueError None ''body is not JSON''))
      | Some body \<Rightarrow>
          (case subscript body ''iss'' of
             Inl e \<Rightarrow> Inr (Inl e)
           | Inr iss \<Rightarrow>
               if iss \<noteq> JStr aid then Inl (''issuer_mismatch'', ''CP answered for another issuer, not '' @ aid)
               else
                 (case subscript body ''entries'' of
                    Inl e \<Rightarrow> Inr (Inl e)
                  | Inr es \<Rightarrow>
                      (case json_iter es of
                         Inl e \<Rightarrow> Inr (Inl e)
                       | Inr raws \<Rightarrow> Inr (entries_of raws)))))"

definition pull :: "string \<Rightarrow> http_result \<Rightarrow> pull_error + rev_entry list" where
  "pull aid answer =
     (case answer of
        Inl err \<Rightarrow> Inl (PullRefused ''cp_unreachable'' err)
      | Inr (status, content) \<Rightarrow>
          if status \<noteq> 200 then
            (let code = (case error_code content of
                 Some c \<Rightarrow> if c = [] then ''http_'' @ str_int status else c
               | None \<Rightarrow> ''http_'' @ str_int status)
             in Inl (PullRefused code (''CP answered '' @ str_int status @ '' ('' @ code @ '')'')))
          else
            (case read_pull_body aid content of
               Inl (cause, detail) \<Rightarrow> Inl (PullRefused cause detail)
             | Inr (Inr entries) \<Rightarrow> Inr entries
             | Inr (Inl e) \<Rightarrow>
                 if exc_is_caught {KeyError, TypeError, ValueError} e
                 then Inl (PullRefused ''malformed_body'' ''CP revocation body'')
                 else Inl (PullCrash e)))"

section \<open>Refreshing\<close>

text \<open>
  The clock is read when the failure event asks whether a list is served (\<open>t1\<close>) and
  when the list is signed (\<open>t2\<close>).
\<close>

definition publish_refresh ::
  "('a, 'r, 's) sdk \<Rightarrow> 'a \<Rightarrow> http_result \<Rightarrow> bool \<Rightarrow> rat \<Rightarrow> rat \<Rightarrow> issuer_list \<Rightarrow>
    (pyexc + json_dict) \<times> issuer_list \<times> event list" where
  "publish_refresh sdk agent answer quiet t1 t2 il =
     (if il_cp_base_url il = None then
        (case serveable sdk agent t1 il of
           (Inl e, il') \<Rightarrow> (Inl e, il', [])
         | (Inr signed, il') \<Rightarrow>
             (Inr [(''published'', JBool True),
                   (''entry_count'', JInt (case signed of Some l \<Rightarrow> int (sl_entry_count l) | None \<Rightarrow> 0))],
              il', []))
      else
        (case pull (sdk_aid sdk agent) answer of
           Inl (PullCrash e) \<Rightarrow> (Inl e, il, [])
         | Inl (PullRefused cause detail) \<Rightarrow>
             (let (serving, il') = (if quiet then (Inr None, il) else serveable sdk agent t1 il)
              in (Inr [(''published'', JBool False), (''cause'', JStr cause), (''detail'', JStr detail)],
                  il',
                  (if quiet then []
                   else [(''revocation.publish_failed'',
                          [(''cause'', JStr cause), (''detail'', JStr detail),
                           (''serving'', JBool (case serving of Inr (Some _) \<Rightarrow> True | _ \<Rightarrow> False))])])))
         | Inr entries \<Rightarrow>
             (let previous = map_option sl_entry_count (il_current il)
              in case sign_list sdk agent entries t2 il of
                   Inl e \<Rightarrow> (Inl e, il, [])
                 | Inr l \<Rightarrow>
                     (Inr [(''published'', JBool True), (''entry_count'', JInt (int (length entries)))],
                      il\<lparr>il_current := Some l\<rparr>,
                      (if \<not> quiet \<or> previous \<noteq> Some (length entries) then
                         [(''revocation.list_published'',
                           [(''issuer'', JStr (sdk_aid sdk agent)),
                            (''entry_count'', JInt (int (length entries))),
                            (''expires_at'', JInt (sl_expires_at l))])]
                       else [])))))"

section \<open>Lemmas\<close>

lemma sign_listD:
  "sign_list sdk agent es now il = Inr l \<Longrightarrow>
   sl_signer_aid l = sdk_aid sdk agent \<and> sl_entry_count l = length es
   \<and> sdk_sign_revocation_list sdk agent es (il_ttl_secs il) now = Inr (sl_envelope_json l)"
  by (auto simp: sign_list_def split: sum.splits)

lemma serveable_cp:
  "il_cp_base_url il = Some u \<Longrightarrow>
   serveable sdk agent now il =
     (Inr (case il_current il of
             Some l \<Rightarrow> if sl_signer_aid l \<noteq> sdk_aid sdk agent \<or> signed_list_is_expired l now
                      then None else Some l
           | None \<Rightarrow> None), il)"
  by (simp add: serveable_def Let_def)

lemma serveable_config [simp]:
  "il_cp_base_url (snd (serveable sdk agent now il)) = il_cp_base_url il"
  by (auto simp: serveable_def Let_def split: sum.splits)

lemma publish_refresh_config [simp]:
  "il_cp_base_url (fst (snd (publish_refresh sdk agent answer quiet t1 t2 il))) = il_cp_base_url il"
proof (cases "il_cp_base_url il")
  case None
  obtain x y where s: "serveable sdk agent t1 il = (x, y)" by fastforce
  with None have "il_cp_base_url y = None" using serveable_config [of sdk agent t1 il] by simp
  with None s show ?thesis by (simp add: publish_refresh_def split: sum.splits)
next
  case (Some u)
  then show ?thesis
    by (auto simp: publish_refresh_def serveable_cp Let_def split: sum.splits pull_error.splits)
qed

lemma publish_refresh_refused:
  assumes "il_cp_base_url il = Some u" "pull (sdk_aid sdk agent) answer = Inl e"
  shows "fst (snd (publish_refresh sdk agent answer quiet t1 t2 il)) = il"
  using assms by (cases e) (simp_all add: publish_refresh_def serveable_cp)

section \<open>Properties\<close>

text \<open>
  With a control plane, a list is published only from its answer. If one refresh
  changes the list this agent holds, the control plane answered 200 with a well-formed body for
  this agent's own AID, and the new list is the SDK's signature over exactly the entries of
  that body, under the current key; otherwise the list is left exactly as it was.
\<close>

theorem published_only_from_cp_answer:
  assumes "il_cp_base_url il = Some u"
    and "publish_refresh sdk agent answer quiet t1 t2 il = (res, il', events)"
  shows "il' = il \<or>
    (\<exists>content entries l. answer = Inr (200, content)
       \<and> read_pull_body (sdk_aid sdk agent) content = Inr (Inr entries)
       \<and> il' = il\<lparr>il_current := Some l\<rparr> \<and> sl_signer_aid l = sdk_aid sdk agent
       \<and> sl_entry_count l = length entries
       \<and> sdk_sign_revocation_list sdk agent entries (il_ttl_secs il) t2 = Inr (sl_envelope_json l))"
proof (cases "pull (sdk_aid sdk agent) answer")
  case (Inl e)
  then show ?thesis using publish_refresh_refused [OF assms(1) Inl, of quiet t1 t2] assms(2) by simp
next
  case (Inr entries)
  then obtain content where c: "answer = Inr (200, content)"
    "read_pull_body (sdk_aid sdk agent) content = Inr (Inr entries)"
    by (auto simp: pull_def Let_def split: sum.splits if_splits)
  show ?thesis
  proof (cases "sign_list sdk agent entries t2 il")
    case (Inl e)
    then show ?thesis using assms Inr by (simp add: publish_refresh_def)
  next
    case l: (Inr l)
    then have "il' = il\<lparr>il_current := Some l\<rparr>"
      using assms Inr by (simp add: publish_refresh_def)
    with c sign_listD [OF l] show ?thesis by auto
  qed
qed

definition demo_issuer :: issuer_list where
  "demo_issuer = \<lparr>il_cp_base_url = Some ''http://cp'', il_cp_api_key = None, il_ttl_secs = 60, il_current = None\<rparr>"

definition demo_answer :: http_result where
  "demo_answer = Inr (200, ''{\"iss\":\"me\",\"entries\":[{\"jti\":\"00000000-0000-0000-0000-0000000000ff\",\"revoked_at\":3}]}'')"

theorem published_only_from_cp_answer_witness:
  "\<exists>content entries l. demo_answer = Inr (200, content)
     \<and> read_pull_body ''me'' content = Inr (Inr entries) \<and> sl_entry_count l = length entries
     \<and> fst (snd (publish_refresh demo_sdk ''me'' demo_answer True 5 6 demo_issuer))
         = demo_issuer\<lparr>il_current := Some l\<rparr>"
proof -
  let ?r = "publish_refresh demo_sdk ''me'' demo_answer True 5 6 demo_issuer"
  have "il_cp_base_url demo_issuer = Some ''http://cp''" by code_simp
  from published_only_from_cp_answer [OF this, of demo_sdk "''me''" demo_answer True 5 6 "fst ?r"
      "fst (snd ?r)" "snd (snd ?r)"]
  have "fst (snd ?r) = demo_issuer \<or> (\<exists>content entries l. demo_answer = Inr (200, content)
     \<and> read_pull_body (sdk_aid demo_sdk ''me'') content = Inr (Inr entries)
     \<and> fst (snd ?r) = demo_issuer\<lparr>il_current := Some l\<rparr> \<and> sl_entry_count l = length entries)"
    by auto
  moreover have "fst (snd ?r) \<noteq> demo_issuer" by code_simp
  moreover have "sdk_aid demo_sdk ''me'' = ''me''" by code_simp
  ultimately show ?thesis by metis
qed

text \<open>
  What is served is in force. \<open>serveable\<close> returns a list only if it is signed by
  the agent's current AID and, when a control plane is configured, has not expired; with a
  control plane it never signs anything, so without a list in force the answer is the 503.
\<close>

theorem serveable_in_force:
  assumes "serveable sdk agent now il = (Inr r, il')"
  shows "(\<forall>l. r = Some l \<longrightarrow> sl_signer_aid l = sdk_aid sdk agent \<and> il_current il' = Some l)
    \<and> (il_cp_base_url il \<noteq> None \<longrightarrow> il' = il \<and> (\<forall>l. r = Some l \<longrightarrow> now < of_int (sl_expires_at l)))
    \<and> (il_cp_base_url il = None \<longrightarrow> r \<noteq> None)"
proof (cases "il_cp_base_url il")
  case None
  then show ?thesis
    using assms
    by (auto simp: serveable_def Let_def dest: sign_listD split: option.splits sum.splits if_splits)
next
  case (Some u)
  then show ?thesis
    using assms by (auto simp: serveable_cp signed_list_is_expired_def split: option.splits if_splits)
qed

theorem serveable_in_force_witness:
  "\<exists>il'. serveable demo_sdk ''me'' 7 (demo_issuer\<lparr>il_cp_base_url := None\<rparr>) = (Inr (il_current il'), il')
     \<and> il_current il' \<noteq> None"
proof -
  let ?s = "serveable demo_sdk ''me'' 7 (demo_issuer\<lparr>il_cp_base_url := None\<rparr>)"
  have e: "?s = (Inr (il_current (snd ?s)), snd ?s)" by code_simp
  with serveable_in_force [OF e] show ?thesis by (metis (no_types, lifting) demo_issuer_def issuer_list.select_convs(1) issuer_list.update_convs(1))
qed

end
