(* ===== verification/Revocation_Refresh.thy ===== *)
theory Revocation_Refresh
  imports Revocation_State Revocation_Publish
begin

text \<open>
  \<open>agents/base/revocation_refresh.py\<close>: pull, re-sign, verify and apply this agent's own
  list, the one place that changes the snapshot in force.

  What is shown: the snapshot changes only to the entries of a list the SDK verified
  against this agent's AID, local revocations are untouched, and after a verified refresh
  any number of failed pulls leaves the deny-set exactly as it was.
\<close>

section \<open>The body of a verified list\<close>

fun jtis_of :: "json list \<Rightarrow> string list" where
  "jtis_of [] = []"
| "jtis_of (e # es) =
     (case e of
        JObj kvs \<Rightarrow> (case dict_get kvs ''jti'' of Some (JStr j) \<Rightarrow> j # jtis_of es | _ \<Rightarrow> jtis_of es)
      | _ \<Rightarrow> jtis_of es)"

definition list_body :: "string \<Rightarrow> pyexc + (string list \<times> int \<times> int)" where
  "list_body envelope_json =
     (case loads envelope_json of
        None \<Rightarrow> Inl (PyExc ValueError None ''envelope is not JSON'')
      | Some v \<Rightarrow>
          (case subscript v ''revocation_list'' of
             Inl e \<Rightarrow> Inl e
           | Inr (JObj body) \<Rightarrow>
               (case json_iter (case dict_get body ''entries'' of Some es \<Rightarrow> es | None \<Rightarrow> JArr []) of
                  Inl e \<Rightarrow> Inl e
                | Inr es \<Rightarrow>
                    (case subscript (JObj body) ''published_at'' of
                       Inl e \<Rightarrow> Inl e
                     | Inr p \<Rightarrow>
                         (case py_int p of
                            Inl e \<Rightarrow> Inl e
                          | Inr pub \<Rightarrow>
                              (case subscript (JObj body) ''expires_at'' of
                                 Inl e \<Rightarrow> Inl e
                               | Inr x \<Rightarrow>
                                   (case py_int x of
                                      Inl e \<Rightarrow> Inl e
                                    | Inr ex \<Rightarrow> Inr (jtis_of es, pub, ex))))))
           | Inr _ \<Rightarrow> Inl (PyExc AttributeError None ''object has no attribute get'')))"

section \<open>One refresh\<close>

definition discard :: "string \<Rightarrow> string \<Rightarrow> revocation_state \<Rightarrow> json_dict \<times> event" where
  "discard cause detail rv =
     ([(''revoked_count'', JInt (int (revocation_len rv))), (''added'', JInt 0),
       (''discarded'', JStr cause), (''detail'', JStr detail)],
      (''revocation.verify_failed'', [(''cause'', JStr cause), (''detail'', JStr detail)]))"

text \<open>The part after the pull: verify the list in force at \<open>t\<close> and apply it.\<close>

definition apply_current ::
  "('a, 'r, 's) sdk \<Rightarrow> signed_list \<Rightarrow> bool \<Rightarrow> bool \<Rightarrow> rat \<Rightarrow> revocation_state \<Rightarrow>
    (pyexc + json_dict) \<times> revocation_state \<times> event list" where
  "apply_current sdk current published quiet t rv =
     (case sdk_verify_revocation_list sdk (sl_envelope_json current) (sl_signer_aid current) t of
        Some exc \<Rightarrow>
          (let (res, ev) = discard (case exc_code exc of
                 Some c \<Rightarrow> if c = [] then ''signature_invalid'' else c
               | None \<Rightarrow> ''signature_invalid'') (exc_msg exc) rv
           in (Inr res, rv, [ev]))
      | None \<Rightarrow>
          (case list_body (sl_envelope_json current) of
             Inl exc \<Rightarrow>
               if exc_is_caught {KeyError, TypeError, ValueError} exc then
                 (let (res, ev) = discard ''malformed_body'' (exc_msg exc) rv in (Inr res, rv, [ev]))
               else (Inl exc, rv, [])
           | Inr (jtis, published_at, expires_at) \<Rightarrow>
               (let previous = snapshot_entry_count rv;
                    rv' = apply_snapshot jtis published_at expires_at rv;
                    added = JInt (max 0 (int (length jtis) - int previous))
                in (Inr [(''revoked_count'', JInt (int (revocation_len rv'))),
                         (''snapshot_count'', JInt (int (length jtis))), (''added'', added),
                         (''verified'', JBool True), (''published'', JBool published)],
                    rv',
                    (if quiet then []
                     else [(''revocation.list_fetched'',
                            [(''jti_count'', JInt (int (length jtis))), (''added'', added),
                             (''verified'', JBool True), (''issuer'', JStr (sl_signer_aid current))])])))))"

definition refresh_revocations ::
  "('a, 'r, 's) sdk \<Rightarrow> 'a \<Rightarrow> http_result \<Rightarrow> bool \<Rightarrow> rat \<Rightarrow> rat \<Rightarrow> rat \<Rightarrow> rat \<Rightarrow>
    revocation_state \<Rightarrow> issuer_list \<Rightarrow>
    (pyexc + json_dict) \<times> revocation_state \<times> issuer_list \<times> event list" where
  "refresh_revocations sdk agent answer quiet t1 t2 t3 t4 rv il =
     (if il_cp_base_url il = None then
        (Inr [(''revoked_count'', JInt (int (revocation_len rv))), (''added'', JInt 0),
              (''skipped'', JStr ''no cp configured'')], rv, il, [])
      else
        (case publish_refresh sdk agent answer quiet t1 t2 il of
           (Inl e, il1, evs) \<Rightarrow> (Inl e, rv, il1, evs)
         | (Inr pulled, il1, evs) \<Rightarrow>
             (case serveable sdk agent t3 il1 of
                (Inl e, il2) \<Rightarrow> (Inl e, rv, il2, evs)
              | (Inr None, il2) \<Rightarrow>
                  (Inr [(''revoked_count'', JInt (int (revocation_len rv))), (''added'', JInt 0),
                        (''published'', JBool False),
                        (''error'', (if truthy (get_json pulled ''detail'') then get_json pulled ''detail''
                                    else get_json pulled ''cause''))], rv, il2, evs)
              | (Inr (Some current), il2) \<Rightarrow>
                  (case apply_current sdk current (truthy (get_json pulled ''published'')) quiet t4 rv of
                     (res, rv', evs') \<Rightarrow> (res, rv', il2, evs @ evs')))))"

section \<open>Lemmas\<close>

lemma apply_current_cases:
  obtains (kept) "fst (snd (apply_current sdk l pub quiet t rv)) = rv"
    "\<forall>res. fst (apply_current sdk l pub quiet t rv) = Inr res \<longrightarrow> dict_get res ''verified'' = None"
  | (applied) js p e where
      "sdk_verify_revocation_list sdk (sl_envelope_json l) (sl_signer_aid l) t = None"
      "list_body (sl_envelope_json l) = Inr (js, p, e)"
      "fst (snd (apply_current sdk l pub quiet t rv)) = apply_snapshot js p e rv"
proof (cases "sdk_verify_revocation_list sdk (sl_envelope_json l) (sl_signer_aid l) t")
  case (Some x)
  then show ?thesis by (intro kept) (auto simp: apply_current_def discard_def)
next
  case None
  show ?thesis
  proof (cases "list_body (sl_envelope_json l)")
    case (Inl x)
    with None show ?thesis by (intro kept) (auto simp: apply_current_def discard_def)
  next
    case (Inr y)
    obtain js p e where "y = (js, p, e)" by (cases y)
    with None Inr show ?thesis by (intro applied) (auto simp: apply_current_def Let_def)
  qed
qed

text \<open>With a control plane, a refresh that returns either keeps the snapshot or applies the held list.\<close>

lemma refresh_cases:
  assumes "il_cp_base_url il = Some u"
    and "refresh_revocations sdk agent answer quiet t1 t2 t3 t4 rv il = (res, rv', il', evs)"
  obtains (kept) "rv' = rv" "\<forall>d. res = Inr d \<longrightarrow> dict_get d ''verified'' = None"
      "il' = fst (snd (publish_refresh sdk agent answer quiet t1 t2 il))"
  | (applied) l js p e where
      "il' = fst (snd (publish_refresh sdk agent answer quiet t1 t2 il))"
      "il_current il' = Some l" "sl_signer_aid l = sdk_aid sdk agent" "t3 < of_int (sl_expires_at l)"
      "sdk_verify_revocation_list sdk (sl_envelope_json l) (sdk_aid sdk agent) t4 = None"
      "list_body (sl_envelope_json l) = Inr (js, p, e)" "rv' = apply_snapshot js p e rv"
proof -
  obtain r il1 ev1 where p: "publish_refresh sdk agent answer quiet t1 t2 il = (r, il1, ev1)"
    by (metis prod_cases3)
  have u: "il_cp_base_url il1 = Some u"
    using publish_refresh_config [of sdk agent answer quiet t1 t2 il] p assms(1) by simp
  show thesis
  proof (cases "\<exists>d l. r = Inr d \<and> il_current il1 = Some l \<and> sl_signer_aid l = sdk_aid sdk agent
      \<and> \<not> signed_list_is_expired l t3")
    case False
    then show thesis
      using assms p u
      by (intro kept)
        (auto simp: refresh_revocations_def serveable_cp split: sum.splits option.splits if_splits)
  next
    case True
    then obtain d l where l: "r = Inr d" "il_current il1 = Some l" "sl_signer_aid l = sdk_aid sdk agent"
      "\<not> signed_list_is_expired l t3" by blast
    let ?a = "apply_current sdk l (truthy (get_json d ''published'')) quiet t4 rv"
    have e: "res = fst ?a" "rv' = fst (snd ?a)" "il' = il1"
      using assms p u l by (auto simp: refresh_revocations_def serveable_cp split: prod.splits)
    show thesis
    proof (cases sdk l "truthy (get_json d ''published'')" quiet t4 rv rule: apply_current_cases)
      case kept
      with e p that(1) show thesis by simp
    next
      case (applied js pp ex)
      with e p l that(2) show thesis by (simp add: signed_list_is_expired_def)
    qed
  qed
qed

text \<open>The list held and the snapshot in force agree.\<close>

definition in_sync :: "revocation_state \<Rightarrow> issuer_list \<Rightarrow> bool" where
  "in_sync rv il \<longleftrightarrow>
     (\<exists>l js p e. il_current il = Some l \<and> list_body (sl_envelope_json l) = Inr (js, p, e)
        \<and> apply_snapshot js p e rv = rv)"

lemma apply_snapshot_idem [simp]: "apply_snapshot js p e (apply_snapshot js p e rv) = apply_snapshot js p e rv"
  by (simp add: apply_snapshot_def)

lemma refresh_verified_in_sync:
  assumes "il_cp_base_url il = Some u"
    and "refresh_revocations sdk agent answer quiet t1 t2 t3 t4 rv il = (Inr d, rv', il', evs)"
    and "dict_get d ''verified'' \<noteq> None"
  shows "in_sync rv' il' \<and> il_cp_base_url il' = Some u"
  using assms(1,2)
proof (cases rule: refresh_cases)
  case kept
  with assms(3) show ?thesis by auto
next
  case (applied l js p e)
  with assms(1) publish_refresh_config [of sdk agent answer quiet t1 t2 il] show ?thesis
    by (auto simp: in_sync_def)
qed

lemma refresh_outage:
  assumes "il_cp_base_url il = Some u" "in_sync rv il" "pull (sdk_aid sdk agent) answer = Inl err"
    and "refresh_revocations sdk agent answer quiet t1 t2 t3 t4 rv il = (res, rv', il', evs)"
  shows "rv' = rv \<and> il' = il"
  using assms(1,4)
proof (cases rule: refresh_cases)
  case kept
  with publish_refresh_refused [OF assms(1,3), of quiet t1 t2] show ?thesis by simp
next
  case (applied l js p e)
  with publish_refresh_refused [OF assms(1,3), of quiet t1 t2] assms(2) show ?thesis
    by (auto simp: in_sync_def)
qed

text \<open>A sequence of refreshes, each with the control plane's answer and its clock readings.\<close>

fun run_refreshes ::
  "('a, 'r, 's) sdk \<Rightarrow> 'a \<Rightarrow> (http_result \<times> bool \<times> rat \<times> rat \<times> rat \<times> rat) list \<Rightarrow>
    revocation_state \<times> issuer_list \<Rightarrow> revocation_state \<times> issuer_list" where
  "run_refreshes sdk agent [] st = st"
| "run_refreshes sdk agent ((answer, quiet, t1, t2, t3, t4) # rest) (rv, il) =
     (case refresh_revocations sdk agent answer quiet t1 t2 t3 t4 rv il of
        (_, rv', il', _) \<Rightarrow> run_refreshes sdk agent rest (rv', il'))"

section \<open>Properties\<close>

text \<open>
  C5: the deny-set is built only from verified lists. With a control plane configured, one
  refresh either leaves the revocation state as it was, or replaces its snapshot by exactly
  the identifiers of an unexpired list that names this agent as signer and that the SDK's
  \<open>verify_revocation_list\<close> accepted against this agent's own AID. Local revocations are
  never touched.
\<close>

theorem deny_set_only_from_verified_list:
  assumes "il_cp_base_url il = Some u"
    and "refresh_revocations sdk agent answer quiet t1 t2 t3 t4 rv il = (res, rv', il', evs)"
  shows "rv_local rv' = rv_local rv \<and>
    (rv' = rv \<or>
     (\<exists>l js p e. il_current il' = Some l \<and> t3 < of_int (sl_expires_at l)
        \<and> sdk_verify_revocation_list sdk (sl_envelope_json l) (sdk_aid sdk agent) t4 = None
        \<and> list_body (sl_envelope_json l) = Inr (js, p, e)
        \<and> effective_jtis rv' = rv_local rv \<union> set js
        \<and> rv_snapshot rv' = Some \<lparr>sn_entries = set js, sn_published_at = p, sn_expires_at = e\<rparr>))"
  using assms
proof (cases rule: refresh_cases)
  case (applied l js p e)
  then show ?thesis by (auto simp: apply_snapshot_def effective_jtis_def)
qed simp

text \<open>
  A control plane outage never un-revokes anything. After a refresh that reported
  \<open>verified\<close>, any number of refreshes whose pull fails (unreachable, an error status, a
  malformed or foreign body), at any times, leaves both the deny-set and the held list
  exactly as they were.
\<close>

theorem outage_never_unrevokes:
  assumes "il_cp_base_url il = Some u"
    and "refresh_revocations sdk agent answer quiet t1 t2 t3 t4 rv il = (Inr d, rv', il', evs)"
    and "dict_get d ''verified'' \<noteq> None"
    and "\<forall>(bad, _) \<in> set outages. \<exists>err. pull (sdk_aid sdk agent) bad = Inl err"
  shows "run_refreshes sdk agent outages (rv', il') = (rv', il')"
proof -
  have "in_sync rv' il' \<and> il_cp_base_url il' = Some u"
    by (rule refresh_verified_in_sync [OF assms(1-3)])
  with assms(4) show ?thesis
  proof (induction outages)
    case (Cons o1 outages)
    obtain bad q s1 s2 s3 s4 where o1: "o1 = (bad, q, s1, s2, s3, s4)" by (metis prod_cases6)
    obtain res rv2 il2 ev where r: "refresh_revocations sdk agent bad q s1 s2 s3 s4 rv' il' = (res, rv2, il2, ev)"
      by (metis prod_cases4)
    from Cons.prems o1 obtain err where "pull (sdk_aid sdk agent) bad = Inl err" by auto
    with refresh_outage [OF _ _ this r] Cons.prems have "rv2 = rv' \<and> il2 = il'" by blast
    with Cons o1 r show ?case by simp
  qed simp
qed

theorem deny_set_only_from_verified_list_witness:
  "rv_local (fst (snd (refresh_revocations demo_sdk ''me'' demo_answer True 5 6 7 8
      \<lparr>rv_local = {''x''}, rv_snapshot = None\<rparr> demo_issuer))) = {''x''}"
proof -
  let ?r = "refresh_revocations demo_sdk ''me'' demo_answer True 5 6 7 8
      \<lparr>rv_local = {''x''}, rv_snapshot = None\<rparr> demo_issuer"
  have "il_cp_base_url demo_issuer = Some ''http://cp''" by code_simp
  from deny_set_only_from_verified_list [OF this, of demo_sdk "''me''" demo_answer True 5 6 7 8
      "\<lparr>rv_local = {''x''}, rv_snapshot = None\<rparr>" "fst ?r" "fst (snd ?r)" "fst (snd (snd ?r))" "snd (snd (snd ?r))"]
  show ?thesis by simp
qed

theorem outage_never_unrevokes_witness:
  "run_refreshes demo_sdk ''me'' [(Inl ''connection refused'', True, 9, 9, 9, 9), (Inr (500, []), False, 100, 100, 100, 100)]
     (case refresh_revocations demo_sdk ''me'' demo_answer True 5 6 7 8
        \<lparr>rv_local = {}, rv_snapshot = None\<rparr> demo_issuer of (_, rv', il', _) \<Rightarrow> (rv', il')) =
   (case refresh_revocations demo_sdk ''me'' demo_answer True 5 6 7 8
        \<lparr>rv_local = {}, rv_snapshot = None\<rparr> demo_issuer of (_, rv', il', _) \<Rightarrow> (rv', il'))"
proof -
  let ?r = "refresh_revocations demo_sdk ''me'' demo_answer True 5 6 7 8
      \<lparr>rv_local = {}, rv_snapshot = None\<rparr> demo_issuer"
  let ?out = "[(Inl ''connection refused'', True, 9, 9, 9, 9), (Inr (500, []), False, 100, 100, 100, 100)]
    :: (http_result \<times> bool \<times> rat \<times> rat \<times> rat \<times> rat) list"
  have u: "il_cp_base_url demo_issuer = Some ''http://cp''" by code_simp
  have v: "case fst ?r of Inr d \<Rightarrow> dict_get d ''verified'' \<noteq> None | Inl _ \<Rightarrow> False" by code_simp
  then obtain d rv' il' evs where r: "?r = (Inr d, rv', il', evs)" and d: "dict_get d ''verified'' \<noteq> None"
    by (cases ?r) (auto split: sum.splits)
  have "\<forall>(bad, _) \<in> set ?out. \<exists>err. pull (sdk_aid demo_sdk ''me'') bad = Inl err"
    by (simp add: pull_def Let_def)
  from outage_never_unrevokes [OF u r d this] r show ?thesis by simp
qed

end
