(* ===== verification/Sdk_Features.thy ===== *)
theory Sdk_Features
  imports Aitp_Sdk
begin

text \<open>
  The two probes of the installed SDK: \<open>agents/base/sdk_features.py\<close> on the agent side
  and \<open>src/aitp_playground/capabilities.py\<close> on the playground side. The installed
  module is a parameter: whether it imports, the attributes it has, and those of its
  \<open>AitpAgent\<close> class.

  What is shown: the two probes agree on every feature the agent side knows, and a feature
  is missing from a scenario exactly when a step of it needs the feature and the installed
  SDK lacks it.
\<close>

section \<open>The installed module\<close>

record aitp_module =
  am_importable :: bool
  am_attrs :: "string list"
  am_agent_attrs :: "string list"
  am_dunder_version :: "string option"
  am_dist_version :: "string \<Rightarrow> string option"

definition hasattr :: "aitp_module \<Rightarrow> string \<Rightarrow> bool" where
  "hasattr m n \<longleftrightarrow> n \<in> set (am_attrs m)"

section \<open>Agent side\<close>

abbreviation TCT_RENEWAL :: string where "TCT_RENEWAL \<equiv> ''tct_renewal''"
abbreviation SESSION_BUNDLE :: string where "SESSION_BUNDLE \<equiv> ''session_bundle''"
abbreviation MULTIHOP_DELEGATION :: string where "MULTIHOP_DELEGATION \<equiv> ''multihop_delegation''"

definition FEATURES :: "(string, string option \<times> string list) dict" where
  "FEATURES =
     [(TCT_RENEWAL, (Some ''AitpAgent'', [''build_renewal_request'', ''process_renewal_request''])),
      (SESSION_BUNDLE, (None, [''SessionBundleBuilder'', ''verify_session_bundle''])),
      (MULTIHOP_DELEGATION, (None, [''verify_delegation_multihop'']))]"

definition sdk_has :: "aitp_module \<Rightarrow> string \<Rightarrow> pyexc + bool" where
  "sdk_has m feature =
     (case dict_get FEATURES feature of
        None \<Rightarrow> Inl (PyExc KeyError None feature)
      | Some (owner_name, names) \<Rightarrow>
          Inr (am_importable m \<and>
               (case owner_name of
                  None \<Rightarrow> list_all (hasattr m) names
                | Some o' \<Rightarrow> hasattr m o' \<and> list_all (\<lambda>n. n \<in> set (am_agent_attrs m)) names)))"

definition sdk_version :: "aitp_module \<Rightarrow> string" where
  "sdk_version m = (case am_dist_version m ''aitp-sdk'' of Some v \<Rightarrow> v | None \<Rightarrow> ''(unknown)'')"

definition UNAVAILABLE_CODE :: string where
  "UNAVAILABLE_CODE = ''SDK_FEATURE_UNAVAILABLE''"

text \<open>The 501 of a route: its status and its JSON body.\<close>

definition unavailable :: "aitp_module \<Rightarrow> string \<Rightarrow> pyexc + (int \<times> json_dict)" where
  "unavailable m feature =
     (case dict_get FEATURES feature of
        None \<Rightarrow> Inl (PyExc KeyError None feature)
      | Some _ \<Rightarrow>
          Inr (501,
               [(''error'', JStr (''aitp-sdk '' @ sdk_version m @ '' lacks '' @ feature)),
                (''code'', JStr UNAVAILABLE_CODE), (''feature'', JStr feature)]))"

section \<open>Playground side\<close>

definition ALL_FEATURES :: "string list" where
  "ALL_FEATURES =
     [''oidc'', SESSION_BUNDLE, ''spki_pinning'', TCT_RENEWAL, ''tct_cache'', MULTIHOP_DELEGATION]"

record capability_report =
  cap_sdk_available :: bool
  cap_version :: "string option"
  cap_features :: "(string, bool) dict"

definition probe :: "aitp_module \<Rightarrow> capability_report" where
  "probe m =
     (if \<not> am_importable m then
        \<lparr>cap_sdk_available = False, cap_version = None, cap_features = map (\<lambda>n. (n, False)) ALL_FEATURES\<rparr>
      else
        \<lparr>cap_sdk_available = True,
         cap_version = (case am_dunder_version m of
             Some v \<Rightarrow> Some v
           | None \<Rightarrow>
               (case am_dist_version m ''aitp-sdk'' of
                  Some v \<Rightarrow> Some v
                | None \<Rightarrow> am_dist_version m ''aitp'')),
         cap_features =
           [(''oidc'', hasattr m ''JwksProvider''),
            (SESSION_BUNDLE, hasattr m ''SessionBundleBuilder'' \<and> hasattr m ''verify_session_bundle''),
            (''spki_pinning'', hasattr m ''SpkiPinVerifier''),
            (TCT_RENEWAL, hasattr m ''AitpAgent''
               \<and> ''build_renewal_request'' \<in> set (am_agent_attrs m)
               \<and> ''process_renewal_request'' \<in> set (am_agent_attrs m)),
            (''tct_cache'', hasattr m ''TctStore''),
            (MULTIHOP_DELEGATION, hasattr m ''verify_delegation_multihop'')]\<rparr>)"

definition has_feature :: "aitp_module \<Rightarrow> string \<Rightarrow> bool" where
  "has_feature m name = (case dict_get (cap_features (probe m)) name of Some b \<Rightarrow> b | None \<Rightarrow> False)"

definition sdk_available :: "aitp_module \<Rightarrow> bool" where
  "sdk_available m = cap_sdk_available (probe m)"

definition STEP_SDK_FEATURES :: "(string, string) dict" where
  "STEP_SDK_FEATURES =
     [(''renew_tct'', TCT_RENEWAL), (''export_session_bundle'', SESSION_BUNDLE),
      (''verify_session_bundle'', SESSION_BUNDLE)]"

text \<open>The scenario enters through the types of its workflow steps.\<close>

definition required_sdk_features :: "string list \<Rightarrow> string list" where
  "required_sdk_features step_types =
     sorted_list_of_set (set (List.map_filter (\<lambda>t. dict_get STEP_SDK_FEATURES t) step_types))"

definition missing_sdk_features :: "string list \<Rightarrow> capability_report \<Rightarrow> string list" where
  "missing_sdk_features step_types caps =
     (let features = (if cap_sdk_available caps then cap_features caps else [])
      in filter (\<lambda>f. \<not> (case dict_get features f of Some b \<Rightarrow> b | None \<Rightarrow> False))
           (required_sdk_features step_types))"

section \<open>Properties\<close>

text \<open>
  The two probes agree. For every feature the agent side knows, \<open>sdk_features.has\<close>
  and the playground's \<open>has_feature\<close> give the same answer on every installed module; so
  the preflight refuses a scenario, for a feature both sides know, exactly when the agent's
  route would answer 501.
\<close>

theorem feature_probes_agree:
  assumes "f \<in> set (dict_keys FEATURES)"
  shows "sdk_has m f = Inr (has_feature m f)"
  using assms
  by (auto simp: FEATURES_def sdk_has_def has_feature_def probe_def ALL_FEATURES_def)

theorem feature_probes_agree_witness:
  "sdk_has \<lparr>am_importable = True, am_attrs = [''AitpAgent''], am_agent_attrs = [],
      am_dunder_version = None, am_dist_version = (\<lambda>_. None)\<rparr> TCT_RENEWAL =
   Inr (has_feature \<lparr>am_importable = True, am_attrs = [''AitpAgent''], am_agent_attrs = [],
      am_dunder_version = None, am_dist_version = (\<lambda>_. None)\<rparr> TCT_RENEWAL)"
  by (rule feature_probes_agree) (simp add: FEATURES_def)

text \<open>
  The preflight refuses exactly what the workflow needs and the SDK lacks. The missing
  features are reported in sorted order without repetition, and a feature is among them if
  and only if some step type of the scenario maps to it and the probe does not report it.
\<close>

theorem missing_features_exact:
  "sorted (missing_sdk_features ts (probe m)) \<and> distinct (missing_sdk_features ts (probe m))
   \<and> (f \<in> set (missing_sdk_features ts (probe m)) \<longleftrightarrow>
       (\<exists>t \<in> set ts. dict_get STEP_SDK_FEATURES t = Some f) \<and> \<not> has_feature m f)"
proof -
  have off: "\<not> has_feature m f" if "\<not> cap_sdk_available (probe m)" for f
    using that by (auto simp: has_feature_def probe_def ALL_FEATURES_def split: if_splits)
  have mf: "set (List.map_filter (dict_get STEP_SDK_FEATURES) ts)
      = {f. \<exists>t \<in> set ts. dict_get STEP_SDK_FEATURES t = Some f}"
    by (force simp: List.map_filter_def image_iff simp del: map_of_eq_Some_iff)
  have req: "set (required_sdk_features ts) = {f. \<exists>t \<in> set ts. dict_get STEP_SDK_FEATURES t = Some f}"
    unfolding required_sdk_features_def mf [symmetric] by simp
  have srt: "sorted (required_sdk_features ts)" "distinct (required_sdk_features ts)"
    by (simp_all add: required_sdk_features_def)
  show ?thesis
    using off [of f] srt
    by (auto simp: missing_sdk_features_def req has_feature_def sorted_wrt_filter Let_def)
qed

end
