(* ===== verification/Admin_Auth.thy ===== *)
theory Admin_Auth
  imports Aitp_Sdk
begin

text \<open>
  \<open>agents/base/admin_auth.py\<close>: the guard in front of an agent's \<open>/admin\<close> routes. The
  application behind it is a parameter; a header is a pair of byte strings, its name in
  lower case as the server delivers it.
\<close>

definition ADMIN_TOKEN_HEADER :: string where
  "ADMIN_TOKEN_HEADER = ''x-aitp-admin-token''"

definition EXEMPT_PATHS :: "string list" where
  "EXEMPT_PATHS = [''/admin/process-renewal'']"

record scope =
  sc_type :: string
  sc_path :: string
  sc_headers :: "(string \<times> string) list"

definition guarded :: "string \<Rightarrow> bool" where
  "guarded path \<longleftrightarrow> (path = ''/admin'' \<or> starts_with ''/admin/'' path) \<and> path \<notin> set EXEMPT_PATHS"

text \<open>The token as the middleware keeps it: an empty one is no token.\<close>

definition middleware_token :: "string option \<Rightarrow> string option" where
  "middleware_token token = (case token of Some t \<Rightarrow> if t = [] then None else Some t | None \<Rightarrow> None)"

fun first_header :: "string \<Rightarrow> (string \<times> string) list \<Rightarrow> string option" where
  "first_header n [] = None"
| "first_header n ((name, v) # hs) = (if name = n then Some v else first_header n hs)"

definition authorized :: "string option \<Rightarrow> scope \<Rightarrow> bool" where
  "authorized token sc =
     (case token of
        None \<Rightarrow> False
      | Some t \<Rightarrow>
          (case first_header ADMIN_TOKEN_HEADER (sc_headers sc) of Some v \<Rightarrow> v = t | None \<Rightarrow> False))"

text \<open>The middleware: the application's answer, or the 401 with its body.\<close>

definition admin_auth :: "(scope \<Rightarrow> 'w \<Rightarrow> (int \<times> string) \<times> 'w) \<Rightarrow> string option \<Rightarrow> scope \<Rightarrow> 'w \<Rightarrow> (int \<times> string) \<times> 'w" where
  "admin_auth app token sc w =
     (if sc_type sc \<noteq> ''http'' \<or> \<not> guarded (sc_path sc) then app sc w
      else if authorized (middleware_token token) sc then app sc w
      else ((401, ''{\"detail\": \"admin token missing or invalid\"}''), w))"

text \<open>
  No admin request passes without the token. On an HTTP request for \<open>/admin\<close> or
  a path below it, except the signed renewal route, the application runs if and only if the
  agent has a non-empty token and the first token header of the request is that token;
  otherwise the state is untouched and the answer is a 401.
\<close>

theorem admin_requires_token:
  assumes "sc_type sc = ''http''" "sc_path sc = ''/admin'' \<or> starts_with ''/admin/'' (sc_path sc)"
    and "sc_path sc \<noteq> ''/admin/process-renewal''"
  shows "admin_auth app token sc w =
    (if \<exists>t. token = Some t \<and> t \<noteq> [] \<and> first_header ADMIN_TOKEN_HEADER (sc_headers sc) = Some t
     then app sc w
     else ((401, ''{\"detail\": \"admin token missing or invalid\"}''), w))"
  using assms
  by (auto simp: admin_auth_def guarded_def EXEMPT_PATHS_def authorized_def middleware_token_def
      split: option.splits)

theorem admin_requires_token_witness:
  "admin_auth (\<lambda>sc w. ((200, []), w + 1)) (Some ''secret'')
     \<lparr>sc_type = ''http'', sc_path = ''/admin/trust-peers'',
      sc_headers = [(''x-aitp-admin-token'', ''guess''), (''x-aitp-admin-token'', ''secret'')]\<rparr> (0 :: nat) =
   ((401, ''{\"detail\": \"admin token missing or invalid\"}''), 0)"
proof -
  let ?sc = "\<lparr>sc_type = ''http'', sc_path = ''/admin/trust-peers'',
      sc_headers = [(''x-aitp-admin-token'', ''guess''), (''x-aitp-admin-token'', ''secret'')]\<rparr>"
  have "sc_type ?sc = ''http''" "sc_path ?sc = ''/admin'' \<or> starts_with ''/admin/'' (sc_path ?sc)"
    "sc_path ?sc \<noteq> ''/admin/process-renewal''" by simp_all
  from admin_requires_token [OF this, of "\<lambda>sc w. ((200, []), w + 1)" "Some ''secret''" "0 :: nat"]
  show ?thesis by (simp add: ADMIN_TOKEN_HEADER_def)
qed

end
