(* ===== verification/Json_Dumps.thy ===== *)
theory Json_Dumps
  imports Tct_Claims
begin

text \<open>
  \<open>json.dumps\<close> of the Python standard library, with the default ASCII escaping, for the
  two separators the sources use. A finite float has no text here (\<open>None\<close>): Python
  prints the shortest decimal that reads back as the same double, and doubles are not
  modelled.
\<close>

fun utf8_points :: "string \<Rightarrow> nat list" where
  "utf8_points [] = []"
| "utf8_points (a # r) =
     (if byte a < 128 then byte a # utf8_points r
      else if byte a < 224 then
        (case r of b # r1 \<Rightarrow> (byte a mod 32 * 64 + byte b mod 64) # utf8_points r1 | _ \<Rightarrow> [])
      else if byte a < 240 then
        (case r of
           b # c # r2 \<Rightarrow>
             ((byte a mod 16 * 64 + byte b mod 64) * 64 + byte c mod 64) # utf8_points r2
         | _ \<Rightarrow> [])
      else
        (case r of
           b # c # d # r3 \<Rightarrow>
             (((byte a mod 8 * 64 + byte b mod 64) * 64 + byte c mod 64) * 64 + byte d mod 64)
             # utf8_points r3
         | _ \<Rightarrow> []))"

definition u_escape :: "nat \<Rightarrow> string" where
  "u_escape n = backslash_char # CHR ''u'' # hex_string 4 n"

definition escape_point :: "nat \<Rightarrow> string" where
  "escape_point n =
     (if n = 34 then [backslash_char, quote_char]
      else if n = 92 then [backslash_char, backslash_char]
      else if n = 10 then [backslash_char, CHR ''n'']
      else if n = 13 then [backslash_char, CHR ''r'']
      else if n = 9 then [backslash_char, CHR ''t'']
      else if n = 12 then [backslash_char, CHR ''f'']
      else if n = 8 then [backslash_char, CHR ''b'']
      else if 32 \<le> n \<and> n \<le> 126 then [char_of n]
      else if n < 65536 then u_escape n
      else u_escape (55296 + (n - 65536) div 1024) @ u_escape (56320 + (n - 65536) mod 1024))"

definition dumps_str :: "string \<Rightarrow> string" where
  "dumps_str s = quote_char # concat (map escape_point (utf8_points s)) @ [quote_char]"

definition join_with :: "string \<Rightarrow> string list \<Rightarrow> string" where
  "join_with sep xs = (case xs of [] \<Rightarrow> [] | y # ys \<Rightarrow> y @ concat (map (\<lambda>z. sep @ z) ys))"

fun all_some :: "'x option list \<Rightarrow> 'x list option" where
  "all_some [] = Some []"
| "all_some (x # xs) = (case x of None \<Rightarrow> None | Some v \<Rightarrow> map_option ((#) v) (all_some xs))"

text \<open>The first two arguments are the item and the key separator.\<close>

fun dumps_with :: "string \<Rightarrow> string \<Rightarrow> json \<Rightarrow> string option" where
  "dumps_with si sk JNull = Some ''null''"
| "dumps_with si sk (JBool b) = Some (if b then ''true'' else ''false'')"
| "dumps_with si sk (JInt n) = Some (str_int n)"
| "dumps_with si sk (JFloat x) =
     (case x of Fin _ \<Rightarrow> None | PInf \<Rightarrow> Some ''Infinity'' | NInf \<Rightarrow> Some ''-Infinity'' | NaN \<Rightarrow> Some ''NaN'')"
| "dumps_with si sk (JStr s) = Some (dumps_str s)"
| "dumps_with si sk (JArr xs) =
     map_option (\<lambda>ts. ''['' @ join_with si ts @ '']'') (all_some (map (dumps_with si sk) xs))"
| "dumps_with si sk (JObj kvs) =
     map_option (\<lambda>ts. ''{'' @ join_with si ts @ ''}'')
       (all_some (map (\<lambda>(k, v). map_option (\<lambda>t. dumps_str k @ sk @ t) (dumps_with si sk v)) kvs))"

abbreviation dumps :: "json \<Rightarrow> string option" where
  "dumps \<equiv> dumps_with '', '' '': ''"

abbreviation dumps_compact :: "json \<Rightarrow> string option" where
  "dumps_compact \<equiv> dumps_with '','' '':''"

end
