(* ===== verification/Agent_Bootstrap.thy ===== *)
theory Agent_Bootstrap
  imports Json_Dumps Aitp_Sdk
begin

text \<open>
  \<open>agents/base/bootstrap.py\<close>, \<open>agents/base/oidc.py\<close> and \<open>agents/base/loopback.py\<close>:
  what an agent derives from its bootstrap document. The decoded document is the
  argument; reading it is in \<open>Agent_Startup\<close>. The document is written by the playground, so the
  fields the sources use as text are taken as text.
\<close>

section \<open>Building the agent\<close>

text \<open>\<open>bytes.fromhex\<close>: pairs of hexadecimal digits, white space between pairs skipped.\<close>

fun bytes_fromhex :: "string \<Rightarrow> string option" where
  "bytes_fromhex [] = Some []"
| "bytes_fromhex (c # cs) =
     (if is_py_space c then bytes_fromhex cs
      else
        (case cs of
           [] \<Rightarrow> None
         | d # r \<Rightarrow>
             (case (hex_val c, hex_val d) of
                (Some x, Some y) \<Rightarrow> map_option ((#) (char_of (x * 16 + y))) (bytes_fromhex r)
              | _ \<Rightarrow> None)))"

definition create_agent :: "('a, 'r, 's) sdk \<Rightarrow> json_dict \<Rightarrow> pyexc + 'a" where
  "create_agent sdk bootstrap =
     (case subscript (JObj bootstrap) ''aitp'' of
        Inl e \<Rightarrow> Inl e
      | Inr cfg \<Rightarrow>
          (case subscript cfg ''seed_hex'' of
             Inl e \<Rightarrow> Inl e
           | Inr (JStr seed_hex) \<Rightarrow>
               (case bytes_fromhex seed_hex of
                  None \<Rightarrow> Inl (PyExc ValueError None ''non-hexadecimal number found in fromhex() arg'')
                | Some seed \<Rightarrow>
                    sdk_from_seed sdk seed
                      (case cfg of
                         JObj kvs \<Rightarrow> (case dict_get kvs ''signing_suite'' of Some (JStr x) \<Rightarrow> x | _ \<Rightarrow> ''ed25519'')
                       | _ \<Rightarrow> ''ed25519''))
           | Inr _ \<Rightarrow> Inl (PyExc TypeError None ''fromhex() argument must be str'')))"

section \<open>The manifest\<close>

definition is_scheme_char :: "char \<Rightarrow> bool" where
  "is_scheme_char c \<longleftrightarrow>
     (let n = byte c in (48 \<le> n \<and> n \<le> 57) \<or> (65 \<le> n \<and> n \<le> 90) \<or> (97 \<le> n \<and> n \<le> 122)
        \<or> n = 43 \<or> n = 45 \<or> n = 46)"

definition is_alpha :: "char \<Rightarrow> bool" where
  "is_alpha c \<longleftrightarrow> (let n = byte c in (65 \<le> n \<and> n \<le> 90) \<or> (97 \<le> n \<and> n \<le> 122))"

text \<open>The scheme and the network location \<open>urlsplit\<close> finds; unbalanced brackets raise.\<close>

definition urlsplit :: "string \<Rightarrow> pyexc + (string \<times> string)" where
  "urlsplit url =
     (let (pre, post) = partition_on (CHR '':'') url;
          has = CHR '':'' \<in> set url \<and> pre \<noteq> [] \<and> is_alpha (hd pre) \<and> list_all is_scheme_char pre;
          scheme = (if has then map ascii_lower pre else []);
          rest = (if has then post else url);
          netloc = (if starts_with ''//'' rest
                    then takeWhile (\<lambda>c. c \<notin> {CHR ''/'', CHR ''?'', CHR ''#''}) (drop 2 rest) else [])
      in if (CHR ''['' \<in> set netloc) \<noteq> (CHR '']'' \<in> set netloc)
         then Inl (PyExc ValueError None ''Invalid IPv6 URL'')
         else Inr (scheme, netloc))"

definition revocation_list_uri :: "('a, 'r, 's) sdk \<Rightarrow> string \<Rightarrow> pyexc + string" where
  "revocation_list_uri sdk handshake_endpoint =
     (case urlsplit handshake_endpoint of
        Inl e \<Rightarrow> Inl e
      | Inr (scheme, netloc) \<Rightarrow> Inr (scheme @ ''://'' @ netloc @ sdk_revocation_list_path sdk))"

text \<open>The keyword arguments of \<open>build_manifest\<close>, in the order the source sets them.\<close>

definition manifest_kwargs :: "('a, 'r, 's) sdk \<Rightarrow> json_dict \<Rightarrow> pyexc + json_dict" where
  "manifest_kwargs sdk bootstrap =
     bindE (subscript (JObj bootstrap) ''aitp'') (\<lambda>cfg.
     bindE (subscript cfg ''display_name'') (\<lambda>name.
     bindE (subscript cfg ''handshake_endpoint'') (\<lambda>endpoint.
     bindE (bindE (subscript cfg ''offered_caps'') json_iter) (\<lambda>caps.
     (let kvs = (case cfg of JObj d \<Rightarrow> d | _ \<Rightarrow> [])
      in bindE (case dict_get kvs ''ttl_secs'' of Some v \<Rightarrow> py_int v | None \<Rightarrow> Inr 3600) (\<lambda>ttl.
         bindE (case endpoint of
                  JStr url \<Rightarrow> revocation_list_uri sdk url
                | _ \<Rightarrow> Inl (PyExc TypeError None ''urlsplit() argument'')) (\<lambda>uri.
         (let ty = (case dict_get kvs ''identity_type'' of Some t \<Rightarrow> t | None \<Rightarrow> JStr ''pinned_key'');
              own = get_json kvs ''accepted_identity_types''
          in bindE (json_iter (if truthy own then own else JArr [ty])) (\<lambda>accepted.
             Inr ([(''display_name'', name), (''handshake_endpoint'', endpoint),
                   (''offered_caps'', JArr caps), (''ttl_secs'', JInt ttl),
                   (''revocation_list_uri'', JStr uri)]
                  @ (if ty = JStr ''oidc'' then
                       [(''identity_type'', JStr ''oidc''),
                        (''oidc_issuer'', get_json kvs ''oidc_issuer''),
                        (''oidc_subject'', get_json kvs ''oidc_subject'')]
                     else [])
                  @ [(''accepted_identity_types'', JArr accepted)]))))))))))"

definition get_manifest_json :: "('a, 'r, 's) sdk \<Rightarrow> 'a \<Rightarrow> json_dict \<Rightarrow> rat \<Rightarrow> pyexc + string" where
  "get_manifest_json sdk agent bootstrap now =
     (case manifest_kwargs sdk bootstrap of
        Inl e \<Rightarrow> Inl e
      | Inr kwargs \<Rightarrow> sdk_build_manifest sdk agent kwargs now)"

section \<open>Loopback\<close>

definition insecure_localhost :: "json_dict \<Rightarrow> bool" where
  "insecure_localhost bootstrap = truthy (get_json (get_obj bootstrap ''aitp'') ''insecure_localhost_dangerous'')"

text \<open>\<open>LoopbackClients\<close>: whether the bootstrap names a certificate, and the origin of a port.\<close>

definition loopback_trust :: "json_dict \<Rightarrow> bool" where
  "loopback_trust bootstrap = truthy (get_json bootstrap ''loopback_tls'')"

definition loopback_origin :: "json_dict \<Rightarrow> int \<Rightarrow> string" where
  "loopback_origin bootstrap port =
     (if loopback_trust bootstrap then ''https'' else ''http'') @ ''://localhost:'' @ str_int port"

section \<open>OIDC\<close>

record oidc_context =
  oc_enabled :: bool
  oc_issuer_url :: "string option"
  oc_kid :: "string option"
  oc_public_jwk :: json
  oc_private_seed_b64 :: "string option"
  oc_identity_type :: string
  oc_subject :: "string option"
  oc_jwks :: "json_dict option"

definition oidc_init :: "json_dict \<Rightarrow> oidc_context" where
  "oidc_init bootstrap =
     (let cfg = get_obj bootstrap ''oidc''; aitp = get_obj bootstrap ''aitp'';
          url = get_str cfg ''issuer_url''; jwk = get_json cfg ''public_jwk''
      in \<lparr>oc_enabled = (cfg \<noteq> []), oc_issuer_url = url, oc_kid = get_str cfg ''kid'',
          oc_public_jwk = jwk, oc_private_seed_b64 = get_str cfg ''private_seed_b64'',
          oc_identity_type = (case dict_get aitp ''identity_type'' of Some (JStr t) \<Rightarrow> t | _ \<Rightarrow> ''pinned_key''),
          oc_subject = get_str aitp ''oidc_subject'',
          oc_jwks = (case url of
              Some u \<Rightarrow> if cfg \<noteq> [] \<and> truthy jwk then Some [(u, JArr [jwk])] else None
            | None \<Rightarrow> None)\<rparr>)"

definition trust_anchors :: "oidc_context \<Rightarrow> string list option" where
  "trust_anchors oc = (if oc_enabled oc then map_option (\<lambda>u. [u]) (oc_issuer_url oc) else None)"

definition b64u_decode :: "string \<Rightarrow> string option" where
  "b64u_decode s = urlsafe_b64decode (s @ replicate (nat (- int (length s) mod 4)) (CHR ''=''))"

definition or_empty :: "string option \<Rightarrow> string" where
  "or_empty s = (case s of Some x \<Rightarrow> x | None \<Rightarrow> [])"

text \<open>
  \<open>mint_jwt_for\<close>: no callback for an agent that is not OIDC-typed or has no issuer key; a
  seed that is not 32 bytes is refused by the key library.
\<close>

definition mint_jwt_for ::
  "('a, 'r, 's) sdk \<Rightarrow> oidc_context \<Rightarrow> string \<Rightarrow> 'a \<Rightarrow> pyexc + jwt_minter option" where
  "mint_jwt_for sdk oc audience agent =
     (case oc_private_seed_b64 oc of
        None \<Rightarrow> Inr None
      | Some b64 \<Rightarrow>
          if oc_identity_type oc \<noteq> ''oidc'' then Inr None
          else
            (case b64u_decode b64 of
               None \<Rightarrow> Inl (PyExc ValueError None ''Incorrect padding'')
             | Some seed \<Rightarrow>
                 if length seed \<noteq> 32 then
                   Inl (PyExc ValueError None ''An Ed25519 private key is 32 bytes long'')
                 else
                   (case sdk_compute_aid_jkt sdk (sdk_aid sdk agent) of
                      Inl e \<Rightarrow> Inl e
                    | Inr jkt \<Rightarrow>
                        Inr (Some \<lparr>jm_seed = seed, jm_kid = or_empty (oc_kid oc),
                                   jm_issuer = or_empty (oc_issuer_url oc), jm_sub = or_empty (oc_subject oc),
                                   jm_audience = audience, jm_cnf_jkt = jkt, jm_ttl_secs = 3600\<rparr>))))"

definition mint_header :: "jwt_minter \<Rightarrow> json" where
  "mint_header jm = JObj [(''alg'', JStr ''EdDSA''), (''typ'', JStr ''JWT''), (''kid'', JStr (jm_kid jm))]"

definition mint_claims :: "jwt_minter \<Rightarrow> string \<Rightarrow> int \<Rightarrow> json" where
  "mint_claims jm nonce now =
     JObj [(''iss'', JStr (jm_issuer jm)), (''sub'', JStr (jm_sub jm)), (''aud'', JStr (jm_audience jm)),
           (''iat'', JInt now), (''exp'', JInt (now + jm_ttl_secs jm)), (''nonce'', JStr nonce),
           (''cnf'', JObj [(''jkt'', JStr (jm_cnf_jkt jm))])]"

text \<open>The callback: the signature of the key library is an argument.\<close>

definition mint_token :: "(string \<Rightarrow> string \<Rightarrow> string) \<Rightarrow> jwt_minter \<Rightarrow> string \<Rightarrow> rat \<Rightarrow> string option" where
  "mint_token ed25519_sign jm nonce now =
     (case (dumps_compact (mint_header jm), dumps_compact (mint_claims jm nonce (trunc now))) of
        (Some h, Some p) \<Rightarrow>
          (let input = encode_header h @ ''.'' @ encode_header p
           in Some (input @ ''.'' @ encode_header (ed25519_sign (jm_seed jm) input)))
      | _ \<Rightarrow> None)"

text \<open>\<open>x.get(k)\<close> on a decoded value: only an object has the method.\<close>

definition json_get :: "json \<Rightarrow> string \<Rightarrow> pyexc + json" where
  "json_get j k =
     (case j of
        JObj kvs \<Rightarrow> Inr (get_json kvs k)
      | _ \<Rightarrow> Inl (PyExc AttributeError None ''object has no attribute get''))"

definition peer_aid_from_hello_envelope :: "string \<Rightarrow> pyexc + string option" where
  "peer_aid_from_hello_envelope hello_json =
     (case loads hello_json of
        None \<Rightarrow> Inr None
      | Some env \<Rightarrow>
          (case json_get env ''payload'' of
             Inl e \<Rightarrow> Inl e
           | Inr payload \<Rightarrow>
               (let sender = (case json_get env ''sender'' of Inr (JStr s) \<Rightarrow> Some s | _ \<Rightarrow> None)
                in case payload of
                     JObj kvs \<Rightarrow>
                       (let m = get_json kvs ''manifest''; manifest = (if truthy m then m else JObj [])
                        in case json_get manifest ''aid'' of
                             Inl e \<Rightarrow> Inl e
                           | Inr (JStr aid) \<Rightarrow> Inr (Some aid)
                           | Inr _ \<Rightarrow> Inr sender)
                   | _ \<Rightarrow> Inr sender)))"

lemma oidc_key_only_for_oidc:
  "mint_jwt_for sdk oc aud agent = Inr (Some jm) \<Longrightarrow>
   oc_identity_type oc = ''oidc'' \<and> jm_audience jm = aud \<and> length (jm_seed jm) = 32"
  by (auto simp: mint_jwt_for_def split: option.splits if_splits sum.splits)

end
