(* ===== verification/Py_Text.thy ===== *)
theory Py_Text
  imports Py_Convert Base64url
begin

text \<open>
  Python's text operations on decoded values: \<open>str\<close> and \<open>repr\<close>, \<open>join\<close>, \<open>split\<close> and \<open>replace\<close>,
  \<open>len\<close> and \<open>or\<close>, \<open>strip\<close> and \<open>splitlines\<close> with the white space and line ends of Unicode. Text is its UTF-8 bytes; the text of a float is an argument.
\<close>

section \<open>Joining and splitting\<close>

text \<open>\<open>sep.join(parts)\<close>.\<close>

fun join_str :: "string \<Rightarrow> string list \<Rightarrow> string" where
  "join_str sep [] = []"
| "join_str sep [s] = s"
| "join_str sep (s # t # r) = s @ sep @ join_str sep (t # r)"

text \<open>\<open>s.split(sep, 1)\<close> and \<open>s.rsplit(sep, 1)\<close>, the part before and the part after.\<close>

fun split_once :: "string \<Rightarrow> string \<Rightarrow> string \<times> string option" where
  "split_once sep [] = ([], None)"
| "split_once sep (c # cs) =
     (if starts_with sep (c # cs) then ([], Some (drop (length sep) (c # cs)))
      else (case split_once sep cs of (a, b) \<Rightarrow> (c # a, b)))"

definition rsplit_once :: "string \<Rightarrow> string \<Rightarrow> string" where
  "rsplit_once sep s =
     (case split_once (rev sep) (rev s) of (_, None) \<Rightarrow> s | (_, Some before) \<Rightarrow> rev before)"

text \<open>\<open>s.replace(old, new)\<close> for a nonempty \<open>old\<close>; the number counts the bytes of a match still to skip.\<close>

fun py_replace :: "string \<Rightarrow> string \<Rightarrow> nat \<Rightarrow> string \<Rightarrow> string" where
  "py_replace old new n [] = []"
| "py_replace old new (Suc n) (c # cs) = py_replace old new n cs"
| "py_replace old new 0 (c # cs) =
     (if starts_with old (c # cs) then new @ py_replace old new (length old - 1) cs
      else c # py_replace old new 0 cs)"

section \<open>The text of a value\<close>

definition hex_char :: "nat \<Rightarrow> char" where
  "hex_char n = (if n < 10 then char_of (48 + n) else char_of (87 + n))"

definition repr_str :: "string \<Rightarrow> string" where
  "repr_str s =
     (let q = (if CHR 0x27 \<in> set s \<and> CHR 0x22 \<notin> set s then CHR 0x22 else CHR 0x27)
      in [q] @ concat (map (\<lambda>c.
             if c = q \<or> c = CHR 0x5C then [CHR 0x5C, c]
             else if c = CHR 0x0A then [CHR 0x5C, CHR ''n'']
             else if c = CHR 0x0D then [CHR 0x5C, CHR ''r'']
             else if c = CHR 0x09 then [CHR 0x5C, CHR ''t'']
             else if byte c < 32 \<or> byte c = 127
             then [CHR 0x5C, CHR ''x'', hex_char (byte c div 16), hex_char (byte c mod 16)] else [c]) s) @ [q])"

text \<open>\<open>repr(v)\<close> of a decoded value; the text of a float is an argument.\<close>

fun py_repr_json :: "(pyfloat \<Rightarrow> string) \<Rightarrow> json \<Rightarrow> string"
  and py_repr_items :: "(pyfloat \<Rightarrow> string) \<Rightarrow> json list \<Rightarrow> string list"
  and py_repr_fields :: "(pyfloat \<Rightarrow> string) \<Rightarrow> (string \<times> json) list \<Rightarrow> string list" where
  "py_repr_json fl JNull = ''None''"
| "py_repr_json fl (JBool b) = (if b then ''True'' else ''False'')"
| "py_repr_json fl (JInt n) = str_int n"
| "py_repr_json fl (JFloat x) = fl x"
| "py_repr_json fl (JStr s) = repr_str s"
| "py_repr_json fl (JArr xs) = ''['' @ join_str '', '' (py_repr_items fl xs) @ '']''"
| "py_repr_json fl (JObj kvs) = ''{'' @ join_str '', '' (py_repr_fields fl kvs) @ ''}''"
| "py_repr_items fl [] = []"
| "py_repr_items fl (x # xs) = py_repr_json fl x # py_repr_items fl xs"
| "py_repr_fields fl [] = []"
| "py_repr_fields fl ((k, v) # r) = (repr_str k @ '': '' @ py_repr_json fl v) # py_repr_fields fl r"

definition py_str :: "(pyfloat \<Rightarrow> string) \<Rightarrow> json \<Rightarrow> string" where
  "py_str fl v = (case v of JStr s \<Rightarrow> s | _ \<Rightarrow> py_repr_json fl v)"

section \<open>\<open>or\<close> and \<open>len\<close>\<close>

definition py_or :: "json \<Rightarrow> json \<Rightarrow> json" where
  "py_or v d = (if truthy v then v else d)"

definition py_len :: "json \<Rightarrow> pyexc + nat" where
  "py_len v =
     (case v of
        JArr xs \<Rightarrow> Inr (length xs)
      | JObj kvs \<Rightarrow> Inr (length kvs)
      | JStr s \<Rightarrow> Inr (length (utf8_chars s))
      | _ \<Rightarrow> Inl (PyExc TypeError None ''object has no len()''))"

section \<open>White space and lines\<close>

text \<open>White space characters of two and of three bytes, and the bytes of one at the start of a text.\<close>

definition space2 :: "char \<Rightarrow> char \<Rightarrow> bool" where
  "space2 c d \<longleftrightarrow> byte c = 0xC2 \<and> byte d \<in> {0x85, 0xA0}"

definition space3 :: "char \<Rightarrow> char \<Rightarrow> char \<Rightarrow> bool" where
  "space3 c d e \<longleftrightarrow>
     (byte c, byte d, byte e) \<in> {(0xE1, 0x9A, 0x80), (0xE2, 0x81, 0x9F), (0xE3, 0x80, 0x80)}
     \<or> (byte c = 0xE2 \<and> byte d = 0x80 \<and> ((0x80 \<le> byte e \<and> byte e \<le> 0x8A) \<or> byte e \<in> {0xA8, 0xA9, 0xAF}))"

definition space_len :: "string \<Rightarrow> nat" where
  "space_len s =
     (case s of
        [] \<Rightarrow> 0
      | c # r \<Rightarrow>
          if is_py_space c then 1
          else (case r of
             [] \<Rightarrow> 0
           | d # r2 \<Rightarrow>
               if space2 c d then 2
               else (case r2 of [] \<Rightarrow> 0 | e # _ \<Rightarrow> if space3 c d e then 3 else 0)))"

text \<open>\<open>text.strip()\<close>.\<close>

definition space_char :: "string \<Rightarrow> bool" where
  "space_char ch \<longleftrightarrow> ch \<noteq> [] \<and> space_len ch = length ch"

definition strip_text :: "string \<Rightarrow> string" where
  "strip_text s = concat (rev (dropWhile space_char (rev (dropWhile space_char (utf8_chars s)))))"

text \<open>\<open>text.splitlines()\<close> over the characters of a text.\<close>

definition line_ends :: "string list" where
  "line_ends = [[CHR 0x0A], [CHR 0x0D], [CHR 0x0B], [CHR 0x0C], [CHR 0x1C], [CHR 0x1D], [CHR 0x1E], [CHR 0xC2, CHR 0x85],
     [CHR 0xE2, CHR 0x80, CHR 0xA8], [CHR 0xE2, CHR 0x80, CHR 0xA9]]"

fun split_lines :: "string \<Rightarrow> string list \<Rightarrow> string list" where
  "split_lines line [] = (if line = [] then [] else [line])"
| "split_lines line (ch # chs) =
     (if ch \<in> set line_ends then
        line # split_lines [] (if ch = [CHR 0x0D] \<and> chs \<noteq> [] \<and> hd chs = [CHR 0x0A] then tl chs else chs)
      else split_lines (line @ ch) chs)"

text \<open>\<open>text[:n]\<close>.\<close>

definition py_prefix :: "nat \<Rightarrow> string \<Rightarrow> string" where
  "py_prefix n s = concat (take n (utf8_chars s))"

end
