(* ===== verification/Agent_Server.thy ===== *)
theory Agent_Server
  imports Replay_Guard Pop_Challenges Revocation_Refresh Sdk_Features Agent_Bootstrap Py_Text
begin

text \<open>
  The state and the decisions of \<open>agents/base/aitp_server.py\<close>: the server object, the
  revocation freshness policy, the served manifest with its half-life re-mint, and the
  authorization of a capability call. The HTTP routes are in \<open>Agent_Routes\<close>.

  A definition that reads the clock takes the readings it makes, in order, as a function
  \<open>clk\<close>. The lock around the re-mint makes it one step, so the operations here are the
  atomic steps of the server. Log lines are not modelled; events are appended to
  \<open>sv_events\<close>.
\<close>

section \<open>State\<close>

record ('a, 'r, 's) server =
  sv_agent :: 'a
  sv_manifest_json :: string
  sv_cooldown_until :: rat
  sv_bootstrap :: json_dict
  sv_did_web_host :: "string option"
  sv_did_web_scheme :: string
  sv_revocation :: revocation_state
  sv_issued :: issuer_list
  sv_cp_configured :: bool
  sv_fail_mode :: string
  sv_max_staleness_secs :: int
  sv_poll_secs :: int
  sv_can_verify :: bool
  sv_sessions :: "(string, 'r) dict"
  sv_replay_guard :: replay_guard
  sv_pop_challenges :: pop_challenges
  sv_trusted_peer_aids :: "string set"
  sv_tct_store :: "'s option"
  sv_degraded_serves :: nat
  sv_cache_hits :: nat
  sv_cache_misses :: nat
  sv_oidc :: oidc_context
  sv_insecure_localhost :: bool
  sv_events :: "event list"

definition emit :: "string \<Rightarrow> json_dict \<Rightarrow> ('a, 'r, 's) server \<Rightarrow> ('a, 'r, 's) server" where
  "emit ty flds sv = sv\<lparr>sv_events := sv_events sv @ [(ty, flds)]\<rparr>"

definition cp_int :: "json_dict \<Rightarrow> string \<Rightarrow> int \<Rightarrow> pyexc + int" where
  "cp_int cp k d = (case dict_get cp k of Some v \<Rightarrow> py_int v | None \<Rightarrow> Inr d)"

definition server_init ::
  "'a \<Rightarrow> string \<Rightarrow> json_dict \<Rightarrow> string option \<Rightarrow> string \<Rightarrow> 's option \<Rightarrow> pyexc + ('a, 'r, 's) server" where
  "server_init agent manifest_json bootstrap did_web_host did_web_scheme store =
     (let cp = get_obj bootstrap ''cp''; configured = truthy (get_json cp ''base_url'')
      in bindE (issuer_list_init bootstrap) (\<lambda>issued.
         bindE (cp_int cp ''max_staleness_secs'' 300) (\<lambda>stale.
         bindE (cp_int cp ''poll_secs'' 60) (\<lambda>poll.
         Inr \<lparr>sv_agent = agent, sv_manifest_json = manifest_json, sv_cooldown_until = 0,
              sv_bootstrap = bootstrap, sv_did_web_host = did_web_host, sv_did_web_scheme = did_web_scheme,
              sv_revocation = \<lparr>rv_local = {}, rv_snapshot = None\<rparr>, sv_issued = issued,
              sv_cp_configured = configured,
              sv_fail_mode = (case dict_get cp ''fail_mode'' of Some (JStr m) \<Rightarrow> m | Some _ \<Rightarrow> [] | None \<Rightarrow> ''fail_closed''),
              sv_max_staleness_secs = stale, sv_poll_secs = poll, sv_can_verify = configured,
              sv_sessions = [],
              sv_replay_guard = replay_guard_init DEFAULT_TOLERANCE_SECS DEFAULT_MAX_ENTRIES,
              sv_pop_challenges = pop_challenges_init DEFAULT_TTL_SECS DEFAULT_MAX_ENTRIES,
              sv_trusted_peer_aids = {}, sv_tct_store = store, sv_degraded_serves = 0,
              sv_cache_hits = 0, sv_cache_misses = 0, sv_oidc = oidc_init bootstrap,
              sv_insecure_localhost = insecure_localhost bootstrap, sv_events = []\<rparr>))))"

section \<open>Errors a handler raises\<close>

datatype http_error =
  HTTPException (he_status: int) (he_detail: json) (he_headers: "(string \<times> string) list")
| ServerError pyexc

text \<open>The text of a decoded value in a message, for the simple values.\<close>

fun json_text :: "json \<Rightarrow> string" where
  "json_text (JStr s) = s"
| "json_text JNull = ''None''"
| "json_text (JInt n) = str_int n"
| "json_text (JBool b) = (if b then ''True'' else ''False'')"
| "json_text _ = ''...''"

section \<open>Revocation freshness\<close>

text \<open>The four readings are those of \<open>posture\<close> and of \<open>degraded_reason\<close>.\<close>

definition enforce_revocation_freshness ::
  "(nat \<Rightarrow> rat) \<Rightarrow> ('a, 'r, 's) server \<Rightarrow> http_error option \<times> ('a, 'r, 's) server" where
  "enforce_revocation_freshness clk sv =
     (if posture_of (sv_can_verify sv) (sv_max_staleness_secs sv) (clk 0) (clk 1) (sv_revocation sv) \<noteq> Degraded
      then (None, sv)
      else
        (let reason = degraded_reason (sv_max_staleness_secs sv) (clk 2) (clk 3) (sv_revocation sv)
         in if sv_fail_mode sv \<noteq> ''soft_fail'' then
              (Some (HTTPException 403
                 (JStr (''revocation state degraded ('' @ reason @ '') and fail_mode is ''
                        @ repr_str (sv_fail_mode sv) @ '' '' @ [CHR 0xE2, CHR 0x80, CHR 0x94]
                        @ '' refusing to honour a TCT this agent cannot check against a fresh revocation snapshot''))
                 []), sv)
            else
              (let n = sv_degraded_serves sv + 1; sv1 = sv\<lparr>sv_degraded_serves := n\<rparr>
               in (None,
                   (if n = 1 \<or> n mod 100 = 0 then
                      emit ''revocation.degraded_serve''
                        [(''reason'', JStr reason), (''serves'', JInt (int n)),
                         (''fail_mode'', JStr (sv_fail_mode sv))] sv1
                    else sv1)))))"

section \<open>The served manifest\<close>

definition MANIFEST_REMINT_COOLDOWN_SECS :: rat where
  "MANIFEST_REMINT_COOLDOWN_SECS = 30"

fun fhalf :: "pyfloat \<Rightarrow> pyfloat" where
  "fhalf (Fin x) = Fin (x / 2)"
| "fhalf x = x"

definition manifest_deadline :: "string \<Rightarrow> pyexc + pyfloat" where
  "manifest_deadline manifest_json =
     bindE (case loads manifest_json of
              Some v \<Rightarrow> Inr v | None \<Rightarrow> Inl (PyExc ValueError None ''manifest is not JSON'')) (\<lambda>v.
     bindE (subscript v ''manifest'') (\<lambda>body.
     bindE (bindE (subscript body ''published_at'') py_float) (\<lambda>published_at.
     bindE (bindE (subscript body ''expires_at'') py_float) (\<lambda>expires_at.
     Inr (fadd published_at (fhalf (fsub expires_at published_at)))))))"

text \<open>
  The readings: \<open>now\<close>, the re-check under the lock, the mint, and the start of the
  cool-down. The lock serialises the re-mint against a rotation, so the agent read before
  the mint is the one in force after it.
\<close>

definition fresh_manifest_json ::
  "('a, 'r, 's) sdk \<Rightarrow> (nat \<Rightarrow> rat) \<Rightarrow> ('a, 'r, 's) server \<Rightarrow> (pyexc + string) \<times> ('a, 'r, 's) server" where
  "fresh_manifest_json sdk clk sv =
     (case manifest_deadline (sv_manifest_json sv) of
        Inl e \<Rightarrow> (Inl e, sv)
      | Inr deadline \<Rightarrow>
          if fless (Fin (clk 0)) deadline then (Inr (sv_manifest_json sv), sv)
          else if clk 0 < sv_cooldown_until sv then (Inr (sv_manifest_json sv), sv)
          else if fless (Fin (clk 1)) deadline then (Inr (sv_manifest_json sv), sv)
          else
            (case get_manifest_json sdk (sv_agent sv) (sv_bootstrap sv) (clk 2) of
               Inl e \<Rightarrow>
                 (Inr (sv_manifest_json sv),
                  sv\<lparr>sv_cooldown_until := clk 3 + MANIFEST_REMINT_COOLDOWN_SECS\<rparr>)
             | Inr minted \<Rightarrow>
                 (Inr minted, sv\<lparr>sv_manifest_json := minted, sv_cooldown_until := 0\<rparr>)))"

section \<open>Refreshing the revocation state\<close>

text \<open>
  A refresh that raises is logged and reported, never propagated. Its readings are those of
  \<open>refresh_revocations\<close>.
\<close>

definition refresh_revocations_now ::
  "('a, 'r, 's) sdk \<Rightarrow> http_result \<Rightarrow> bool \<Rightarrow> (nat \<Rightarrow> rat) \<Rightarrow> ('a, 'r, 's) server \<Rightarrow>
    json_dict \<times> ('a, 'r, 's) server" where
  "refresh_revocations_now sdk answer quiet clk sv =
     (case refresh_revocations sdk (sv_agent sv) answer quiet (clk 0) (clk 1) (clk 2) (clk 3)
             (sv_revocation sv) (sv_issued sv) of
        (res, rv, il, evs) \<Rightarrow>
          (let sv' = sv\<lparr>sv_revocation := rv, sv_issued := il, sv_events := sv_events sv @ evs\<rparr>
           in ((case res of
                  Inr d \<Rightarrow> d
                | Inl _ \<Rightarrow> [(''revoked_count'', JInt (int (revocation_len rv))),
                            (''error'', JStr ''internal_error'')]), sv')))"

definition publish_revocations_now ::
  "('a, 'r, 's) sdk \<Rightarrow> http_result \<Rightarrow> bool \<Rightarrow> (nat \<Rightarrow> rat) \<Rightarrow> ('a, 'r, 's) server \<Rightarrow>
    json_dict \<times> ('a, 'r, 's) server" where
  "publish_revocations_now sdk answer quiet clk sv =
     (case publish_refresh sdk (sv_agent sv) answer quiet (clk 0) (clk 1) (sv_issued sv) of
        (res, il, evs) \<Rightarrow>
          ((case res of
              Inr d \<Rightarrow> d
            | Inl _ \<Rightarrow> [(''published'', JBool False), (''cause'', JStr ''internal_error'')]),
           sv\<lparr>sv_issued := il, sv_events := sv_events sv @ evs\<rparr>))"

text \<open>One tick of the poll loop: the remembered health, the tick counter, one refresh.\<close>

definition poll_tick ::
  "('a, 'r, 's) sdk \<Rightarrow> http_result \<Rightarrow> (nat \<Rightarrow> rat) \<Rightarrow> bool option \<times> nat \<Rightarrow> ('a, 'r, 's) server \<Rightarrow>
    (bool option \<times> nat) \<times> ('a, 'r, 's) server" where
  "poll_tick sdk answer clk st sv =
     (case st of (healthy, ticks) \<Rightarrow>
        (let heartbeat_every = max 1 (600 div max 1 (sv_poll_secs sv));
             ticks' = ticks + 1;
             (res, sv1) = refresh_revocations_now sdk answer True clk sv;
             ok = truthy (get_json res ''verified'');
             changed = (healthy = None \<or> Some ok \<noteq> healthy);
             sv2 = (if changed \<or> int ticks' mod heartbeat_every = 0 then
                      emit ''revocation.poll''
                        [(''healthy'', JBool ok), (''changed'', JBool changed),
                         (''posture'', JStr (case posture_of (sv_can_verify sv1) (sv_max_staleness_secs sv1)
                              (clk 4) (clk 5) (sv_revocation sv1) of
                                Unchecked \<Rightarrow> ''unchecked'' | Current \<Rightarrow> ''current'' | Degraded \<Rightarrow> ''degraded''))] sv1
                    else sv1)
         in ((Some ok, ticks'), sv2)))"

section \<open>Authorizing a capability call\<close>

text \<open>\<open>jti and self.revocation.is_revoked(jti)\<close> on an unverified claim.\<close>

definition jti_revoked :: "revocation_state \<Rightarrow> json \<Rightarrow> pyexc + bool" where
  "jti_revoked rv jti =
     (if \<not> truthy jti then Inr False
      else if \<not> hashable jti then Inl (PyExc TypeError None ''unhashable type'')
      else Inr (case jti of JStr s \<Rightarrow> is_revoked rv s | _ \<Rightarrow> False))"

definition pop_error_body :: "string \<Rightarrow> string \<Rightarrow> json" where
  "pop_error_body code message = JObj [(''code'', JStr code), (''message'', JStr message)]"

definition CHALLENGE_HEADER :: string where
  "CHALLENGE_HEADER = ''x-aitp-pop-challenge''"

definition RESPONSE_HEADER :: string where
  "RESPONSE_HEADER = ''x-aitp-pop-response''"

text \<open>What the \<open>except\<close> clauses make of a refused proof-of-possession step.\<close>

definition pop_http_error :: "pop_error \<Rightarrow> http_error" where
  "pop_http_error err =
     (case err of
        PopRejected code msg status \<Rightarrow>
          HTTPException status
            (case code of
               Some c \<Rightarrow> if c = [] then JStr msg else pop_error_body c msg
             | None \<Rightarrow> JStr msg) []
      | PopCrash e \<Rightarrow>
          if exc_is_caught {RuntimeError, ValueError} e
          then HTTPException 403 (JStr (''tct rejected: '' @ exc_msg e)) []
          else ServerError e)"

definition verify_http_error :: "pyexc \<Rightarrow> http_error" where
  "verify_http_error e =
     (if exc_is_caught {RuntimeError, ValueError} e then
        (if exc_code e = Some ''POP_RESPONSE_INVALID'' \<or> exc_code e = Some ''POP_CHALLENGE_INVALID''
         then HTTPException 403 (pop_error_body (the (exc_code e)) (exc_msg e)) []
         else HTTPException 403 (JStr (''tct rejected: '' @ exc_msg e)) [])
      else ServerError e)"

text \<open>
  The challenge step: without a response a fresh challenge is issued and returned in a
  401; with one, the challenge it answers is consumed.
\<close>

definition pop_step_of ::
  "('a, 'r, 's) sdk \<Rightarrow> (nat \<Rightarrow> rat) \<Rightarrow> string \<Rightarrow> string \<Rightarrow> ('a, 'r, 's) server \<Rightarrow>
    (http_error + (string \<times> string)) \<times> ('a, 'r, 's) server" where
  "pop_step_of sdk clk tct_token pop_response sv =
     (if pop_response = [] then
        (case issue (\<lambda>ttl. sdk_new_pop_challenge sdk (sv_agent sv) tct_token ttl (clk 1)) (clk 0)
                (sv_pop_challenges sv) of
           (Inl err, p) \<Rightarrow> (Inl (pop_http_error err), sv\<lparr>sv_pop_challenges := p\<rparr>)
         | (Inr challenge, p) \<Rightarrow>
             (Inl (HTTPException 401
                (pop_error_body ''POP_RESPONSE_INVALID''
                   (''proof of possession required: answer '' @ CHALLENGE_HEADER))
                [(CHALLENGE_HEADER, encode_header challenge)]), sv\<lparr>sv_pop_challenges := p\<rparr>))
      else
        (case decode_header pop_response of
           None \<Rightarrow>
             (Inl (pop_http_error (PopRejected (Some ''POP_RESPONSE_INVALID'')
                     ''pop response not base64url JSON'' 403)), sv)
         | Some response_json \<Rightarrow>
             (case consume response_json (clk 0) (sv_pop_challenges sv) of
                (Inl err, p) \<Rightarrow> (Inl (pop_http_error err), sv\<lparr>sv_pop_challenges := p\<rparr>)
              | (Inr challenge, p) \<Rightarrow>
                  (Inr (challenge, response_json), sv\<lparr>sv_pop_challenges := p\<rparr>))))"

text \<open>The SDK verification, through the cache when the wheel has one.\<close>

definition verify_with_store ::
  "('a, 'r, 's) sdk \<Rightarrow> rat \<Rightarrow> string \<Rightarrow> string \<Rightarrow> string \<times> string \<Rightarrow> ('a, 'r, 's) server \<Rightarrow>
    (pyexc + tct_identity) \<times> ('a, 'r, 's) server" where
  "verify_with_store sdk now tct_token required_grant pop sv =
     (case sv_tct_store sv of
        Some store \<Rightarrow>
          (case sdk_verify_tct_cached sdk (sv_agent sv) tct_token required_grant store
                  (effective_jtis (sv_revocation sv)) pop now of
             (Inl e, store') \<Rightarrow> (Inl e, sv\<lparr>sv_tct_store := Some store'\<rparr>)
           | (Inr identity, store') \<Rightarrow>
               (Inr identity,
                (if sdk_store_len sdk store < sdk_store_len sdk store'
                 then sv\<lparr>sv_tct_store := Some store', sv_cache_misses := sv_cache_misses sv + 1\<rparr>
                 else sv\<lparr>sv_tct_store := Some store', sv_cache_hits := sv_cache_hits sv + 1\<rparr>)))
      | None \<Rightarrow>
          (sdk_verify_tct sdk (sv_agent sv) tct_token required_grant
             (effective_jtis (sv_revocation sv)) pop now, sv))"

text \<open>Readings 0 to 3 are the freshness check's, 4 and 5 the challenge step's, 6 the SDK's.\<close>

definition verify_capability_tct ::
  "('a, 'r, 's) sdk \<Rightarrow> (nat \<Rightarrow> rat) \<Rightarrow> string \<Rightarrow> string \<Rightarrow> string \<Rightarrow> ('a, 'r, 's) server \<Rightarrow>
    (http_error + tct_identity) \<times> ('a, 'r, 's) server" where
  "verify_capability_tct sdk clk tct_token required_grant pop_response sv =
     (if tct_token = [] then (Inl (HTTPException 403 (JStr ''missing X-AITP-TCT'') []), sv)
      else
        (case decode_claims tct_token of
           Inl e \<Rightarrow> (Inl (HTTPException 403 (JStr (''tct malformed: '' @ exc_msg e)) []), sv)
         | Inr claims \<Rightarrow>
             (let jti = (case dict_get claims ''jti'' of Some j \<Rightarrow> j | None \<Rightarrow> JStr [])
              in case jti_revoked (sv_revocation sv) jti of
                   Inl e \<Rightarrow> (Inl (ServerError e), sv)
                 | Inr True \<Rightarrow>
                     (let source = (if is_locally_revoked (sv_revocation sv) (json_text jti)
                                    then ''local'' else ''issuer-list'')
                      in (Inl (HTTPException 403
                            (JStr (''tct revoked ('' @ source @ ''): jti='' @ json_text jti)) []), sv))
                 | Inr False \<Rightarrow>
                     (case enforce_revocation_freshness clk sv of
                        (Some err, sv1) \<Rightarrow> (Inl err, sv1)
                      | (None, sv1) \<Rightarrow>
                          (let declared_issuer = get_json claims ''iss''; aid = sdk_aid sdk (sv_agent sv1)
                           in if declared_issuer \<noteq> JStr aid then
                                (Inl (HTTPException 403
                                   (JStr (''tct issuer mismatch: '' @ json_text declared_issuer
                                          @ '' != '' @ aid)) []), sv1)
                              else
                                (case pop_step_of sdk (\<lambda>i. clk (4 + i)) tct_token pop_response sv1 of
                                   (Inl err, sv2) \<Rightarrow> (Inl err, sv2)
                                 | (Inr pop, sv2) \<Rightarrow>
                                     (case verify_with_store sdk (clk 6) tct_token required_grant pop sv2 of
                                        (Inl e, sv3) \<Rightarrow> (Inl (verify_http_error e), sv3)
                                      | (Inr identity, sv3) \<Rightarrow> (Inr identity, sv3))))))))"

section \<open>Lemmas\<close>

lemma emit_simps [simp]:
  "sv_revocation (emit t f sv) = sv_revocation sv" "sv_agent (emit t f sv) = sv_agent sv"
  "sv_pop_challenges (emit t f sv) = sv_pop_challenges sv" "sv_tct_store (emit t f sv) = sv_tct_store sv"
  "sv_sessions (emit t f sv) = sv_sessions sv" "sv_replay_guard (emit t f sv) = sv_replay_guard sv"
  "sv_trusted_peer_aids (emit t f sv) = sv_trusted_peer_aids sv"
  "sv_fail_mode (emit t f sv) = sv_fail_mode sv" "sv_can_verify (emit t f sv) = sv_can_verify sv"
  "sv_bootstrap (emit t f sv) = sv_bootstrap sv" "sv_issued (emit t f sv) = sv_issued sv"
  "sv_manifest_json (emit t f sv) = sv_manifest_json sv"
  by (simp_all add: emit_def)

lemma freshness_keeps:
  assumes "enforce_revocation_freshness clk sv = (r, sv')"
  shows "sv_revocation sv' = sv_revocation sv" "sv_agent sv' = sv_agent sv"
    "sv_pop_challenges sv' = sv_pop_challenges sv" "sv_tct_store sv' = sv_tct_store sv"
    "sv_sessions sv' = sv_sessions sv" "sv_bootstrap sv' = sv_bootstrap sv"
  using assms by (auto simp: enforce_revocation_freshness_def Let_def split: if_splits)

lemma freshness_passes:
  assumes "enforce_revocation_freshness clk sv = (None, sv')"
  shows "posture_of (sv_can_verify sv) (sv_max_staleness_secs sv) (clk 0) (clk 1) (sv_revocation sv) \<noteq> Degraded
    \<or> sv_fail_mode sv = ''soft_fail''"
  using assms by (auto simp: enforce_revocation_freshness_def Let_def split: if_splits)

lemma freshness_refuses:
  assumes "posture_of (sv_can_verify sv) (sv_max_staleness_secs sv) (clk 0) (clk 1) (sv_revocation sv) = Degraded"
    and "sv_fail_mode sv \<noteq> ''soft_fail''"
  shows "\<exists>d. enforce_revocation_freshness clk sv = (Some (HTTPException 403 d []), sv)"
  using assms by (simp add: enforce_revocation_freshness_def Let_def)

lemma consume_InrD:
  assumes "consume resp now p = (Inr c, p')" "wf_dict (pc_outstanding p)"
  obtains n u where "response_nonce resp = Inr n" "dict_get (pc_outstanding p) (JStr n) = Some (c, u)"
    "\<not> fless u (Fin now)" "dict_get (pc_outstanding p') (JStr n) = None"
proof -
  obtain n where n: "response_nonce resp = Inr n"
    using assms(1) by (auto simp: consume_def split: sum.splits)
  then obtain u where u: "dict_get (pc_prune now (pc_outstanding p)) (JStr n) = Some (c, u)"
    and p': "p' = p\<lparr>pc_outstanding := dict_del (JStr n) (pc_prune now (pc_outstanding p))\<rparr>"
    using assms(1) by (auto simp: consume_def Let_def split: option.splits)
  from pops.prune_live [OF assms(2) u] n p' show thesis
    by (intro that [of n u]) auto
qed

lemma pop_step_InrD:
  assumes "pop_step_of sdk clk tok resp sv = (Inr (c, r), sv')"
  shows "decode_header resp = Some r" "consume r (clk 0) (sv_pop_challenges sv) = (Inr c, sv_pop_challenges sv')"
    "sv_revocation sv' = sv_revocation sv" "sv_agent sv' = sv_agent sv" "sv_tct_store sv' = sv_tct_store sv"
  using assms
  by (auto simp: pop_step_of_def split: if_splits option.splits sum.splits prod.splits)

text \<open>The SDK accepted the token, through the cache when there is one.\<close>

definition sdk_accepts ::
  "('a, 'r, 's) sdk \<Rightarrow> rat \<Rightarrow> string \<Rightarrow> string \<Rightarrow> string \<times> string \<Rightarrow> ('a, 'r, 's) server \<Rightarrow> tct_identity \<Rightarrow> bool" where
  "sdk_accepts sdk now tok grant pop sv identity \<longleftrightarrow>
     (case sv_tct_store sv of
        Some store \<Rightarrow>
          fst (sdk_verify_tct_cached sdk (sv_agent sv) tok grant store (effective_jtis (sv_revocation sv)) pop now)
            = Inr identity
      | None \<Rightarrow>
          sdk_verify_tct sdk (sv_agent sv) tok grant (effective_jtis (sv_revocation sv)) pop now = Inr identity)"

lemma verify_with_store_InrD:
  assumes "verify_with_store sdk now tok grant pop sv = (Inr identity, sv')"
  shows "sdk_accepts sdk now tok grant pop sv identity" "sv_pop_challenges sv' = sv_pop_challenges sv"
    "sv_revocation sv' = sv_revocation sv"
  using assms
  by (auto simp: verify_with_store_def sdk_accepts_def split: option.splits sum.splits prod.splits if_splits)

section \<open>Properties\<close>

text \<open>
  C1: authorization soundness of a capability call. If \<open>verify_capability_tct\<close> accepts,
  then the token is a compact JWS whose issuer claim is this agent's current AID; its
  \<open>jti\<close>, if it is a text, is in neither the local revocations nor the snapshot; the
  revocation state is not degraded unless \<open>soft_fail\<close> was opted into; the response
  header decodes to a response that echoes the nonce of an unexpired outstanding challenge,
  which is consumed by this call; and the SDK verified the token for the required grant
  against the whole deny-set together with exactly that challenge and response.
\<close>

theorem capability_authorization_sound:
  assumes "verify_capability_tct sdk clk tok grant resp sv = (Inr identity, sv')"
    and "wf_dict (pc_outstanding (sv_pop_challenges sv))"
  shows "\<exists>claims r n c u.
    decode_claims tok = Inr claims \<and> dict_get claims ''iss'' = Some (JStr (sdk_aid sdk (sv_agent sv)))
    \<and> (\<forall>j. dict_get claims ''jti'' = Some (JStr j) \<and> j \<noteq> [] \<longrightarrow> j \<notin> effective_jtis (sv_revocation sv))
    \<and> (posture_of (sv_can_verify sv) (sv_max_staleness_secs sv) (clk 0) (clk 1) (sv_revocation sv) \<noteq> Degraded
        \<or> sv_fail_mode sv = ''soft_fail'')
    \<and> decode_header resp = Some r \<and> response_nonce r = Inr n
    \<and> dict_get (pc_outstanding (sv_pop_challenges sv)) (JStr n) = Some (c, u) \<and> \<not> fless u (Fin (clk 4))
    \<and> dict_get (pc_outstanding (sv_pop_challenges sv')) (JStr n) = None
    \<and> sdk_accepts sdk (clk 6) tok grant (c, r) sv identity"
proof -
  obtain claims where claims: "decode_claims tok = Inr claims"
    using assms(1) by (auto simp: verify_capability_tct_def split: if_splits sum.splits)
  let ?jti = "case dict_get claims ''jti'' of Some j \<Rightarrow> j | None \<Rightarrow> JStr []"
  have tok: "tok \<noteq> []" using assms(1) by (auto simp: verify_capability_tct_def)
  have nrev: "jti_revoked (sv_revocation sv) ?jti = Inr False"
    using assms(1) claims tok
    by (auto simp: verify_capability_tct_def Let_def split: sum.splits bool.splits)
  obtain sv1 where fr: "enforce_revocation_freshness clk sv = (None, sv1)"
    using assms(1) claims tok nrev
    by (cases "enforce_revocation_freshness clk sv")
      (auto simp: verify_capability_tct_def Let_def split: option.splits)
  note keep = freshness_keeps [OF fr]
  have iss: "get_json claims ''iss'' = JStr (sdk_aid sdk (sv_agent sv))"
    using assms(1) claims tok nrev fr keep
    by (auto simp: verify_capability_tct_def Let_def split: if_splits)
  obtain c r sv2 where ps: "pop_step_of sdk (\<lambda>i. clk (4 + i)) tok resp sv1 = (Inr (c, r), sv2)"
    using assms(1) claims tok nrev fr iss keep
    by (cases "pop_step_of sdk (\<lambda>i. clk (4 + i)) tok resp sv1")
      (auto simp: verify_capability_tct_def Let_def split: sum.splits)
  have vs: "verify_with_store sdk (clk 6) tok grant (c, r) sv2 = (Inr identity, sv')"
    using assms(1) claims tok nrev fr iss keep ps
    by (cases "verify_with_store sdk (clk 6) tok grant (c, r) sv2")
      (auto simp: verify_capability_tct_def Let_def split: sum.splits)
  note pd = pop_step_InrD [OF ps] and vd = verify_with_store_InrD [OF vs]
  have "consume r (clk 4) (sv_pop_challenges sv) = (Inr c, sv_pop_challenges sv2)"
    using pd(2) keep(3) by simp
  from consume_InrD [OF this assms(2)] obtain n u where n: "response_nonce r = Inr n"
    "dict_get (pc_outstanding (sv_pop_challenges sv)) (JStr n) = Some (c, u)" "\<not> fless u (Fin (clk 4))"
    "dict_get (pc_outstanding (sv_pop_challenges sv')) (JStr n) = None"
    by (metis vd(2))
  have "j \<notin> effective_jtis (sv_revocation sv)"
    if "dict_get claims ''jti'' = Some (JStr j)" "j \<noteq> []" for j
    using nrev that by (simp add: jti_revoked_def is_revoked_effective)
  moreover have "dict_get claims ''iss'' = Some (JStr (sdk_aid sdk (sv_agent sv)))"
    using iss by (auto simp: get_json_def split: option.splits)
  moreover have "sdk_accepts sdk (clk 6) tok grant (c, r) sv identity"
    using vd(1) pd keep by (auto simp: sdk_accepts_def split: option.splits)
  ultimately show ?thesis using claims freshness_passes [OF fr] pd(1) n by blast
qed


text \<open>
  A manifest past its half-life is served only when it cannot be replaced. What
  \<open>fresh_manifest_json\<close> returns is what the server then holds, and it is either a
  manifest before its half-life, or the previous one because a failed mint is being backed
  off or the mint just failed (starting a back-off of thirty seconds), or one minted in this
  call by the key in force.
\<close>

theorem served_manifest_fresh:
  assumes "fresh_manifest_json sdk clk sv = (Inr m, sv')"
  shows "m = sv_manifest_json sv' \<and> sv_agent sv' = sv_agent sv \<and>
    ((\<exists>d. sv' = sv \<and> manifest_deadline m = Inr d \<and> (fless (Fin (clk 0)) d \<or> fless (Fin (clk 1)) d))
     \<or> (sv' = sv \<and> clk 0 < sv_cooldown_until sv)
     \<or> (\<exists>e. get_manifest_json sdk (sv_agent sv) (sv_bootstrap sv) (clk 2) = Inl e
          \<and> m = sv_manifest_json sv \<and> sv_cooldown_until sv' = clk 3 + 30)
     \<or> (get_manifest_json sdk (sv_agent sv) (sv_bootstrap sv) (clk 2) = Inr m \<and> sv_cooldown_until sv' = 0))"
  using assms
  by (auto simp: fresh_manifest_json_def MANIFEST_REMINT_COOLDOWN_SECS_def split: sum.splits if_splits)

section \<open>Witnesses\<close>

definition demo_server :: "(string, string, nat) server" where
  "demo_server =
     \<lparr>sv_agent = ''me'', sv_manifest_json = ''{\"manifest\":{\"published_at\":0,\"expires_at\":100}}'',
      sv_cooldown_until = 0,
      sv_bootstrap = [(''aitp'', JObj [(''display_name'', JStr ''n''), (''handshake_endpoint'', JStr ''http://h/x''),
        (''offered_caps'', JArr [])])],
      sv_did_web_host = None, sv_did_web_scheme = ''http'',
      sv_revocation = \<lparr>rv_local = {}, rv_snapshot = None\<rparr>, sv_issued = demo_issuer,
      sv_cp_configured = False, sv_fail_mode = ''fail_closed'', sv_max_staleness_secs = 300,
      sv_poll_secs = 60, sv_can_verify = False, sv_sessions = [],
      sv_replay_guard = replay_guard_init 300 100, sv_pop_challenges = pop_challenges_init 60 100,
      sv_trusted_peer_aids = {}, sv_tct_store = Some 0, sv_degraded_serves = 0, sv_cache_hits = 0,
      sv_cache_misses = 0, sv_oidc = oidc_init [], sv_insecure_localhost = False, sv_events = []\<rparr>"

definition demo_token :: string where
  "demo_token = ''h.'' @ encode_header ''{\"iss\":\"me\",\"jti\":\"j1\"}'' @ ''.s''"

definition demo_response :: string where
  "demo_response = encode_header ''{\"nonce_echo\":\"n1\"}''"

definition demo_challenged :: "(string, string, nat) server" where
  "demo_challenged = snd (verify_capability_tct demo_sdk (\<lambda>_. 10) demo_token ''cap'' [] demo_server)"

theorem capability_authorization_sound_witness:
  "\<exists>claims. decode_claims demo_token = Inr claims \<and> dict_get claims ''iss'' = Some (JStr ''me'')"
proof -
  let ?v = "verify_capability_tct demo_sdk (\<lambda>_. 20) demo_token ''cap'' demo_response demo_challenged"
  have "case fst ?v of Inr _ \<Rightarrow> True | Inl _ \<Rightarrow> False" by code_simp
  then obtain i where i: "?v = (Inr i, snd ?v)"
    by (cases ?v) (auto split: sum.splits)
  have "wf_dict (pc_outstanding (sv_pop_challenges demo_challenged))" by code_simp
  moreover have "sdk_aid demo_sdk (sv_agent demo_challenged) = ''me''" by code_simp
  ultimately show ?thesis using capability_authorization_sound [OF i] by auto
qed


theorem served_manifest_fresh_witness:
  "\<exists>m sv'. fresh_manifest_json demo_sdk (\<lambda>_. 60) demo_server = (Inr m, sv') \<and> m = sv_manifest_json sv'
     \<and> m \<noteq> sv_manifest_json demo_server"
proof -
  let ?r = "fresh_manifest_json demo_sdk (\<lambda>_. 60) demo_server"
  have "case fst ?r of Inr m \<Rightarrow> m \<noteq> sv_manifest_json demo_server | Inl _ \<Rightarrow> False" by code_simp
  then obtain m where m: "?r = (Inr m, snd ?r)" "m \<noteq> sv_manifest_json demo_server"
    by (cases ?r) (auto split: sum.splits)
  with served_manifest_fresh [OF m(1)] show ?thesis by metis
qed

end
