(* ===== verification/Agent_Routes.thy ===== *)
theory Agent_Routes
  imports Agent_Server
begin

text \<open>
  The HTTP routes of \<open>agents/base/aitp_server.py\<close> (\<open>_build_router\<close>) as state
  transformers on the server. A route returns a response or the exception it lets escape
  (a 500). Request bodies are the bytes received; a JSON body in a response is the value
  serialised, a text body the bytes sent. The envelope screen and the handshake routes keep
  the order of the source: the replay guard, then the session, then the SDK.
\<close>

section \<open>Responses\<close>

datatype body = JsonBody json | TextBody string

record response =
  rs_status :: int
  rs_body :: body
  rs_headers :: "(string \<times> string) list"

abbreviation json_response :: "int \<Rightarrow> json \<Rightarrow> response" where
  "json_response st j \<equiv> \<lparr>rs_status = st, rs_body = JsonBody j, rs_headers = []\<rparr>"

text \<open>An \<open>HTTPException\<close> that leaves a handler becomes a response with its detail.\<close>

definition http_error_response :: "http_error \<Rightarrow> pyexc + response" where
  "http_error_response err =
     (case err of
        HTTPException st detail hs \<Rightarrow>
          Inr \<lparr>rs_status = st, rs_body = JsonBody (JObj [(''detail'', detail)]), rs_headers = hs\<rparr>
      | ServerError e \<Rightarrow> Inl e)"

text \<open>\<open>await request.json()\<close> and \<open>(await request.body()).decode()\<close>.\<close>

definition request_json :: "string \<Rightarrow> pyexc + json" where
  "request_json content =
     (case loads_bytes content of
        Some v \<Rightarrow> Inr v | None \<Rightarrow> Inl (PyExc ValueError None ''request body is not JSON''))"

definition request_text :: "string \<Rightarrow> pyexc + string" where
  "request_text content =
     (if utf8_valid content then Inr content
      else Inl (PyExc ValueError None ''request body is not UTF-8''))"

section \<open>Discovery\<close>

definition get_manifest ::
  "('a, 'r, 's) sdk \<Rightarrow> (nat \<Rightarrow> rat) \<Rightarrow> ('a, 'r, 's) server \<Rightarrow> (pyexc + response) \<times> ('a, 'r, 's) server" where
  "get_manifest sdk clk sv =
     (case fresh_manifest_json sdk clk sv of
        (Inl e, sv') \<Rightarrow> (Inl e, sv')
      | (Inr m, sv') \<Rightarrow> (Inr \<lparr>rs_status = 200, rs_body = TextBody m, rs_headers = []\<rparr>, sv'))"

definition get_revocation_list ::
  "('a, 'r, 's) sdk \<Rightarrow> rat \<Rightarrow> ('a, 'r, 's) server \<Rightarrow> (pyexc + response) \<times> ('a, 'r, 's) server" where
  "get_revocation_list sdk now sv =
     (case serveable sdk (sv_agent sv) now (sv_issued sv) of
        (Inl e, il) \<Rightarrow> (Inl e, sv\<lparr>sv_issued := il\<rparr>)
      | (Inr None, il) \<Rightarrow>
          (Inr \<lparr>rs_status = 503,
                rs_body = JsonBody (JObj [(''error'', JStr ''no current revocation list for this issuer''),
                                          (''code'', JStr ''REVOCATION_UNAVAILABLE'')]),
                rs_headers = [(''Retry-After'', str_int RETRY_AFTER_SECS), (''Cache-Control'', ''no-store'')]\<rparr>,
           sv\<lparr>sv_issued := il\<rparr>)
      | (Inr (Some signed), il) \<Rightarrow>
          (Inr \<lparr>rs_status = 200, rs_body = TextBody (sl_envelope_json signed),
                rs_headers = [(''Cache-Control'', ''no-store'')]\<rparr>, sv\<lparr>sv_issued := il\<rparr>))"

definition get_did_document :: "('a, 'r, 's) server \<Rightarrow> response option" where
  "get_did_document sv =
     (case sv_did_web_host sv of
        None \<Rightarrow> None
      | Some host \<Rightarrow>
          if host = [] then None
          else
            (let scheme = (if sv_did_web_scheme sv = [] then ''http'' else sv_did_web_scheme sv)
             in Some (json_response 200
                  (JObj [(''@context'', JArr [JStr ''https://www.w3.org/ns/did/v1'']),
                         (''id'', JStr (''did:web:'' @ host)),
                         (''service'', JArr [JObj
                            [(''id'', JStr (''did:web:'' @ host @ ''#aitp'')), (''type'', JStr ''AitpManifest''),
                             (''serviceEndpoint'', JStr (scheme @ ''://'' @ host))]])]))))"

section \<open>Revocation routes\<close>

definition publish_revocations ::
  "('a, 'r, 's) sdk \<Rightarrow> http_result \<Rightarrow> (nat \<Rightarrow> rat) \<Rightarrow> ('a, 'r, 's) server \<Rightarrow> response \<times> ('a, 'r, 's) server" where
  "publish_revocations sdk answer clk sv =
     (case refresh_revocations_now sdk answer False clk sv of (d, sv') \<Rightarrow> (json_response 200 (JObj d), sv'))"

definition refresh_revocations_route ::
  "('a, 'r, 's) sdk \<Rightarrow> http_result \<Rightarrow> (nat \<Rightarrow> rat) \<Rightarrow> string \<Rightarrow> ('a, 'r, 's) server \<Rightarrow>
    (pyexc + response) \<times> ('a, 'r, 's) server" where
  "refresh_revocations_route sdk answer clk content sv =
     (case bindE (if content = [] then Inr (JObj []) else request_json content)
             (\<lambda>body. json_get body ''quiet'') of
        Inl e \<Rightarrow> (Inl e, sv)
      | Inr quiet \<Rightarrow>
          (case refresh_revocations_now sdk answer (truthy quiet) clk sv of
             (d, sv') \<Rightarrow> (Inr (json_response 200 (JObj d)), sv')))"

section \<open>Key rotation\<close>

text \<open>
  The new key, its manifest and the cleared cool-down are installed under the lock; the
  handshakes in flight are dropped, and the agent's list is re-signed and re-applied for
  the new AID. The control plane is asked twice, so there are two answers.
\<close>

definition rotate_keys ::
  "('a, 'r, 's) sdk \<Rightarrow> http_result \<Rightarrow> http_result \<Rightarrow> (nat \<Rightarrow> rat) \<Rightarrow> ('a, 'r, 's) server \<Rightarrow>
    (pyexc + response) \<times> ('a, 'r, 's) server" where
  "rotate_keys sdk answer1 answer2 clk sv =
     (let old_aid = sdk_aid sdk (sv_agent sv); old_manifest = sv_manifest_json sv;
          cfg = get_obj (sv_bootstrap sv) ''aitp'';
          suite = (case dict_get cfg ''signing_suite'' of Some (JStr x) \<Rightarrow> x | _ \<Rightarrow> ''ed25519'')
      in case sdk_generate sdk suite of
           Inl e \<Rightarrow> (Inl e, sv)
         | Inr new_agent \<Rightarrow>
             (case get_manifest_json sdk new_agent (sv_bootstrap sv) (clk 0) of
                Inl e \<Rightarrow> (Inl e, sv)
              | Inr new_manifest \<Rightarrow>
                  (let sv1 = sv\<lparr>sv_agent := new_agent, sv_manifest_json := new_manifest,
                                sv_cooldown_until := 0, sv_sessions := []\<rparr>;
                       (_, sv2) = publish_revocations_now sdk answer1 True (\<lambda>i. clk (1 + i)) sv1;
                       (_, sv3) = refresh_revocations_now sdk answer2 True (\<lambda>i. clk (3 + i)) sv2;
                       sv4 = emit ''identity.key.rotated''
                               [(''old_aid'', JStr old_aid), (''new_aid'', JStr (sdk_aid sdk new_agent))] sv3
                   in (Inr (json_response 200
                         (JObj [(''aid'', JStr (sdk_aid sdk new_agent)), (''old_aid'', JStr old_aid),
                                (''manifest_replaced'', JBool (old_manifest \<noteq> new_manifest))])), sv4))))"

section \<open>The responder's trust store\<close>

fun nonempty_strs :: "json list \<Rightarrow> string list option" where
  "nonempty_strs [] = Some []"
| "nonempty_strs (j # js) =
     (case j of
        JStr s \<Rightarrow> if s = [] then None else map_option ((#) s) (nonempty_strs js)
      | _ \<Rightarrow> None)"

definition trust_peers ::
  "('a, 'r, 's) sdk \<Rightarrow> string \<Rightarrow> ('a, 'r, 's) server \<Rightarrow> (pyexc + response) \<times> ('a, 'r, 's) server" where
  "trust_peers sdk content sv =
     (case request_json content of
        Inl e \<Rightarrow> (Inl e, sv)
      | Inr (JObj body) \<Rightarrow>
          (case (case get_json body ''aids'' of JArr js \<Rightarrow> nonempty_strs js | _ \<Rightarrow> None) of
             None \<Rightarrow>
               (http_error_response (HTTPException 400 (JStr ''aids must be a list of AID strings'') []), sv)
           | Some aids \<Rightarrow>
               (let candidate = (if truthy (get_json body ''replace'') then set aids
                                 else sv_trusted_peer_aids sv \<union> set aids)
                in case sdk_new_responder sdk (sv_agent sv) None (sorted_list_of_set candidate) False of
                     Inl e \<Rightarrow>
                       if exc_is_caught {ValueError} e
                       then (http_error_response (HTTPException 400 (JStr (exc_msg e)) []), sv)
                       else (Inl e, sv)
                   | Inr _ \<Rightarrow>
                       (Inr (json_response 200
                          (JObj [(''trusted_peer_aids'', JArr (map JStr (sorted_list_of_set candidate)))])),
                        emit ''trust.peers_pinned''
                          [(''added'', JArr (map JStr (sort aids))), (''total'', JInt (int (card candidate)))]
                          (sv\<lparr>sv_trusted_peer_aids := candidate\<rparr>))))
      | Inr _ \<Rightarrow> (Inl (PyExc AttributeError None ''object has no attribute get''), sv))"

section \<open>Handshake\<close>

definition error_with_code :: "string \<Rightarrow> string option \<Rightarrow> json" where
  "error_with_code msg code =
     JObj ((''error'', JStr msg) # (case code of None \<Rightarrow> [] | Some c \<Rightarrow> [(''code'', JStr c)]))"

text \<open>\<open>_handshake_error\<close>: the 400 body for an SDK refusal.\<close>

definition handshake_error_body :: "pyexc \<Rightarrow> json" where
  "handshake_error_body e = error_with_code (exc_msg e) (exc_code e)"

text \<open>\<open>_screen_envelope\<close>: the refusal to send, or \<open>None\<close> to go on.\<close>

definition screen_envelope ::
  "string \<Rightarrow> rat \<Rightarrow> json_dict \<Rightarrow> ('a, 'r, 's) server \<Rightarrow>
    (pyexc + response option) \<times> ('a, 'r, 's) server" where
  "screen_envelope envelope_json now flds sv =
     (case check envelope_json now (sv_replay_guard sv) of
        (Inr _, g) \<Rightarrow> (Inr None, sv\<lparr>sv_replay_guard := g\<rparr>)
      | (Inl (HandshakeCrash e), g) \<Rightarrow> (Inl e, sv\<lparr>sv_replay_guard := g\<rparr>)
      | (Inl (HandshakeRejected code msg status), g) \<Rightarrow>
          (Inr (Some (json_response status (error_with_code msg code))),
           emit ''handshake.failed'' ([(''code'', jstr_opt code), (''error'', JStr msg)] @ flds)
             (sv\<lparr>sv_replay_guard := g\<rparr>)))"

definition new_responder ::
  "('a, 'r, 's) sdk \<Rightarrow> ('a, 'r, 's) server \<Rightarrow> pyexc + 'r" where
  "new_responder sdk sv =
     (let pinned = sorted_list_of_set (sv_trusted_peer_aids sv); oc = sv_oidc sv
      in sdk_new_responder sdk (sv_agent sv)
           (if oc_enabled oc then
              Some [(''jwks'', (case oc_jwks oc of Some d \<Rightarrow> JObj d | None \<Rightarrow> JNull)),
                    (''trust_anchors'', (case trust_anchors oc of Some us \<Rightarrow> JArr (map JStr us) | None \<Rightarrow> JNull))]
            else None)
           pinned (sv_insecure_localhost sv))"

definition hello_minter ::
  "('a, 'r, 's) sdk \<Rightarrow> string \<Rightarrow> ('a, 'r, 's) server \<Rightarrow> pyexc + jwt_minter option" where
  "hello_minter sdk hello_json sv =
     (if oc_identity_type (sv_oidc sv) = ''oidc'' then
        bindE (peer_aid_from_hello_envelope hello_json) (\<lambda>peer.
          mint_jwt_for sdk (sv_oidc sv) (or_empty peer) (sv_agent sv))
      else Inr None)"

definition hello ::
  "('a, 'r, 's) sdk \<Rightarrow> (nat \<Rightarrow> rat) \<Rightarrow> string \<Rightarrow> ('a, 'r, 's) server \<Rightarrow>
    (pyexc + response) \<times> ('a, 'r, 's) server" where
  "hello sdk clk content sv0 =
     (case request_text content of
        Inl e \<Rightarrow> (Inl e, sv0)
      | Inr hello_json \<Rightarrow>
          (case screen_envelope hello_json (clk 0) [] sv0 of
             (Inl e, sv) \<Rightarrow> (Inl e, sv)
           | (Inr (Some refused), sv) \<Rightarrow> (Inr refused, sv)
           | (Inr None, sv) \<Rightarrow>
               (case bindE (new_responder sdk sv) (\<lambda>r.
                       bindE (hello_minter sdk hello_json sv) (\<lambda>m. Inr (r, m))) of
                  Inl e \<Rightarrow> (Inl e, sv)
                | Inr (responder, mint_cb) \<Rightarrow>
                    (case sdk_process_hello sdk responder hello_json mint_cb (clk 1) of
                       Inl exc \<Rightarrow>
                         (Inr (json_response 400 (handshake_error_body exc)),
                          emit ''handshake.failed''
                            [(''code'', jstr_opt (exc_code exc)), (''error'', JStr (exc_msg exc))] sv)
                     | Inr (ack_json, session_id, responder') \<Rightarrow>
                         (Inr \<lparr>rs_status = 200, rs_body = TextBody ack_json,
                               rs_headers = [(''X-Aitp-Session-Id'', session_id)]\<rparr>,
                          emit ''handshake.started''
                            [(''session_id'', JStr session_id), (''role'', JStr ''responder'')]
                            (sv\<lparr>sv_sessions := dict_set session_id responder' (sv_sessions sv)\<rparr>))))))"

text \<open>What the commit route reads out of the completed handshake for its event.\<close>

definition completed_event :: "string \<Rightarrow> string \<Rightarrow> pyexc + event" where
  "completed_event session_id completed_json =
     bindE (case loads completed_json of
              Some v \<Rightarrow> Inr v | None \<Rightarrow> Inl (PyExc ValueError None ''completed handshake is not JSON'')) (\<lambda>v.
     bindE (subscript v ''tct'') (\<lambda>tct.
     bindE (decode_claims_of tct) (\<lambda>claims.
     Inr (''handshake.complete'',
          [(''session_id'', JStr session_id),
           (''tct'', tct_event (case tct of JStr t \<Rightarrow> t | _ \<Rightarrow> [])),
           (''grants'', (case dict_get claims ''grants'' of Some g \<Rightarrow> g | None \<Rightarrow> JArr [])),
           (''peer_aid'', get_json claims ''iss''), (''role'', JStr ''responder'')]))))"

definition commit ::
  "('a, 'r, 's) sdk \<Rightarrow> (nat \<Rightarrow> rat) \<Rightarrow> string \<Rightarrow> string \<Rightarrow> ('a, 'r, 's) server \<Rightarrow>
    (pyexc + response) \<times> ('a, 'r, 's) server" where
  "commit sdk clk session_id content sv0 =
     (case request_text content of
        Inl e \<Rightarrow> (Inl e, sv0)
      | Inr commit_json \<Rightarrow>
          (case screen_envelope commit_json (clk 0) [(''session_id'', JStr session_id)] sv0 of
             (Inl e, sv) \<Rightarrow> (Inl e, sv)
           | (Inr (Some refused), sv) \<Rightarrow> (Inr refused, sv)
           | (Inr None, sv) \<Rightarrow>
               (case dict_get (sv_sessions sv) session_id of
                  None \<Rightarrow>
                    (Inr (json_response 404 (JObj [(''error'', JStr (''No session: '' @ session_id))])), sv)
                | Some responder \<Rightarrow>
                    (let sv1 = sv\<lparr>sv_sessions := dict_del session_id (sv_sessions sv)\<rparr>
                     in case sdk_process_commit sdk responder commit_json
                               (effective_jtis (sv_revocation sv1)) (clk 1) of
                          Inl exc \<Rightarrow>
                            (Inr (json_response 400 (handshake_error_body exc)),
                             emit ''handshake.failed''
                               [(''session_id'', JStr session_id), (''code'', jstr_opt (exc_code exc)),
                                (''error'', JStr (exc_msg exc))] sv1)
                        | Inr (ack_json, completed_json) \<Rightarrow>
                            (case completed_event session_id completed_json of
                               Inl e \<Rightarrow> (Inl e, sv1)
                             | Inr (ty, flds) \<Rightarrow>
                                 (Inr \<lparr>rs_status = 200, rs_body = TextBody ack_json, rs_headers = []\<rparr>,
                                  emit ty flds sv1))))))"

section \<open>Delegation\<close>

text \<open>\<open>_revoked_source_of\<close>: for the wording of the refusal only.\<close>

definition revoked_source_of :: "revocation_state \<Rightarrow> json \<Rightarrow> pyexc + (string \<times> string) option" where
  "revoked_source_of rv delegation_token =
     (case bindE (decode_claims_of delegation_token) (\<lambda>c1.
             bindE (decode_claims_of (case dict_get c1 ''voucher'' of Some v \<Rightarrow> v | None \<Rightarrow> JStr [])) (\<lambda>c2.
             Inr (case dict_get c2 ''src_jti'' of Some j \<Rightarrow> j | None \<Rightarrow> JStr []))) of
        Inl _ \<Rightarrow> Inr None
      | Inr src_jti \<Rightarrow>
          bindE (jti_revoked rv src_jti) (\<lambda>hit.
            Inr (if hit then
                   Some (if is_locally_revoked rv (json_text src_jti) then ''local'' else ''issuer-list'',
                         json_text src_jti)
                 else None)))"

fun all_strs :: "json list \<Rightarrow> string list option" where
  "all_strs [] = Some []"
| "all_strs (j # js) = (case j of JStr s \<Rightarrow> map_option ((#) s) (all_strs js) | _ \<Rightarrow> None)"

definition issuer_manifests_of :: "json_dict \<Rightarrow> string list option" where
  "issuer_manifests_of body =
     (case get_json body ''issuer_manifests'' of
        JArr js \<Rightarrow> if js = [] then None else all_strs js
      | _ \<Rightarrow> None)"

definition dash_to_underscore :: "string \<Rightarrow> string" where
  "dash_to_underscore s = map (\<lambda>c. if c = CHR ''-'' then CHR ''_'' else c) s"

definition delegation_refusal ::
  "pyexc \<Rightarrow> json \<Rightarrow> ('a, 'r, 's) server \<Rightarrow> (pyexc + response) \<times> ('a, 'r, 's) server" where
  "delegation_refusal exc token sv =
     (if \<not> exc_is_caught {RuntimeError, ValueError} exc then (Inl exc, sv)
      else
        (case revoked_source_of (sv_revocation sv) token of
           Inl e \<Rightarrow> (Inl e, sv)
         | Inr revoked \<Rightarrow>
             (let error = ''delegation rejected: '' @ exc_msg exc @
                    (case revoked of
                       Some (source, j) \<Rightarrow> '' (source revoked ('' @ source @ ''): src_jti='' @ j @ '')''
                     | None \<Rightarrow> [])
              in (Inr (json_response 403 (JObj [(''error'', JStr error)])),
                  emit ''delegation.rejected''
                    [(''error'', JStr (exc_msg exc)),
                     (''cause'', (case revoked of
                        Some (source, _) \<Rightarrow> JStr (''revoked_'' @ dash_to_underscore source)
                      | None \<Rightarrow> JNull))] sv))))"

text \<open>From the freshness check on: verify against the deny-set, then mint.\<close>

definition redeem_checked ::
  "('a, 'r, 's) sdk \<Rightarrow> (nat \<Rightarrow> rat) \<Rightarrow> bool \<Rightarrow> int \<Rightarrow> string list \<Rightarrow> json \<Rightarrow> ('a, 'r, 's) server \<Rightarrow>
    (pyexc + response) \<times> ('a, 'r, 's) server" where
  "redeem_checked sdk clk multihop max_hops manifests token sv =
     (let deny_set = effective_jtis (sv_revocation sv)
      in case enforce_revocation_freshness clk sv of
           (Some err, sv1) \<Rightarrow> (http_error_response err, sv1)
         | (None, sv1) \<Rightarrow>
             (case token of
                JStr token_json \<Rightarrow>
                  (let aid = sdk_aid sdk (sv_agent sv1) in
                   case (if multihop
                         then sdk_verify_delegation_multihop sdk token_json aid manifests max_hops
                                deny_set (sv_insecure_localhost sv1) (clk 4)
                         else sdk_verify_delegation sdk token_json aid manifests
                                deny_set (sv_insecure_localhost sv1) (clk 4)) of
                     Inl exc \<Rightarrow> delegation_refusal exc token sv1
                   | Inr verified \<Rightarrow>
                       (case sdk_issue_tct_for_delegatee sdk (sv_agent sv1) verified (clk 5) of
                          Inl e \<Rightarrow> (Inl e, sv1)
                        | Inr fresh_tct \<Rightarrow>
                            (Inr \<lparr>rs_status = 200, rs_body = TextBody fresh_tct, rs_headers = []\<rparr>,
                             emit ''delegation.redeemed''
                               [(''delegatee_aid'', JStr (vd_delegatee verified)),
                                (''grants'', JArr (map JStr (vd_grants verified))),
                                (''role'', JStr ''issuer'')] sv1)))
              | _ \<Rightarrow> (Inl (PyExc TypeError None ''argument must be str''), sv1)))"

definition redeem_delegation ::
  "('a, 'r, 's) sdk \<Rightarrow> aitp_module \<Rightarrow> (nat \<Rightarrow> rat) \<Rightarrow> string \<Rightarrow> ('a, 'r, 's) server \<Rightarrow>
    (pyexc + response) \<times> ('a, 'r, 's) server" where
  "redeem_delegation sdk am clk content sv =
     (case bindE (request_json content) (\<lambda>b. bindE (subscript b ''delegation_token'') (\<lambda>t. Inr (b, t))) of
        Inl e \<Rightarrow> (Inl e, sv)
      | Inr (b, token) \<Rightarrow>
          (case issuer_manifests_of (case b of JObj kvs \<Rightarrow> kvs | _ \<Rightarrow> []) of
             None \<Rightarrow>
               (Inr (json_response 400 (JObj [(''error'',
                  JStr ''issuer_manifests must be a non-empty list of ManifestEnvelope JSON strings'')])), sv)
           | Some manifests \<Rightarrow>
               (let cfg = get_obj (sv_bootstrap sv) ''aitp'';
                    multihop = truthy (get_json cfg ''allow_multihop_delegation'')
                in case (case dict_get cfg ''max_delegation_hops'' of Some v \<Rightarrow> py_int v | None \<Rightarrow> Inr 3) of
                     Inl e \<Rightarrow> (Inl e, sv)
                   | Inr max_hops \<Rightarrow>
                       if multihop \<and> sdk_has am MULTIHOP_DELEGATION \<noteq> Inr True then
                         (bindE (unavailable am MULTIHOP_DELEGATION) (\<lambda>(st, d). Inr (json_response st (JObj d))), sv)
                       else redeem_checked sdk clk multihop max_hops manifests token sv)))"

section \<open>Cache counters\<close>

definition tct_cache_stats :: "('a, 'r, 's) sdk \<Rightarrow> ('a, 'r, 's) server \<Rightarrow> response" where
  "tct_cache_stats sdk sv =
     json_response 200
       (JObj [(''enabled'', JBool (sv_tct_store sv \<noteq> None)), (''hits'', JInt (int (sv_cache_hits sv))),
              (''misses'', JInt (int (sv_cache_misses sv))),
              (''size'', JInt (case sv_tct_store sv of Some s \<Rightarrow> int (sdk_store_len sdk s) | None \<Rightarrow> 0))])"

section \<open>Lemmas\<close>

lemma screen_keeps:
  assumes "screen_envelope env now flds sv = (r, sv')"
  shows "sv_sessions sv' = sv_sessions sv" "sv_trusted_peer_aids sv' = sv_trusted_peer_aids sv"
    "sv_agent sv' = sv_agent sv" "sv_revocation sv' = sv_revocation sv"
    "sv_replay_guard sv' = snd (check env now (sv_replay_guard sv))"
  using assms
  by (auto simp: screen_envelope_def split: prod.splits sum.splits handshake_error.splits)

lemma screen_passes_iff:
  "fst (screen_envelope env now flds sv) = Inr None \<longleftrightarrow> admitted env now (sv_replay_guard sv)"
  by (auto simp: screen_envelope_def admitted_def split: prod.splits sum.splits handshake_error.splits)

lemma screen_status: "fst (screen_envelope env now flds sv) = Inr (Some resp) \<Longrightarrow> rs_status resp \<noteq> 200"
  using check_status [of env now "sv_replay_guard sv"]
  by (auto simp: screen_envelope_def split: prod.splits sum.splits handshake_error.splits)

text \<open>The handshake routes touch only the replay guard, the sessions and the events.\<close>

lemma hello_keeps:
  "sv_trusted_peer_aids (snd (hello sdk clk content sv)) = sv_trusted_peer_aids sv
   \<and> sv_agent (snd (hello sdk clk content sv)) = sv_agent sv"
proof (cases "request_text content")
  case (Inr h)
  obtain r sv1 where s: "screen_envelope h (clk 0) [] sv = (r, sv1)" by fastforce
  show ?thesis
    using screen_keeps [OF s] by (auto simp: hello_def Inr s split: sum.splits option.splits)
qed (simp add: hello_def)

lemma hello_guard:
  "sv_replay_guard (snd (hello sdk clk content sv)) =
     (case request_text content of
        Inr h \<Rightarrow> snd (check h (clk 0) (sv_replay_guard sv)) | Inl _ \<Rightarrow> sv_replay_guard sv)"
proof (cases "request_text content")
  case (Inr h)
  obtain r sv1 where s: "screen_envelope h (clk 0) [] sv = (r, sv1)" by fastforce
  show ?thesis
    using screen_keeps [OF s] by (auto simp: hello_def Inr s split: sum.splits option.splits)
qed (simp add: hello_def)

lemma commit_guard:
  "sv_replay_guard (snd (commit sdk clk sid content sv)) =
     (case request_text content of
        Inr h \<Rightarrow> snd (check h (clk 0) (sv_replay_guard sv)) | Inl _ \<Rightarrow> sv_replay_guard sv)"
proof (cases "request_text content")
  case (Inr h)
  obtain r sv1 where s: "screen_envelope h (clk 0) [(''session_id'', JStr sid)] sv = (r, sv1)" by fastforce
  show ?thesis
    using screen_keeps [OF s]
    by (auto simp: commit_def Inr s Let_def split: sum.splits option.splits)
qed (simp add: commit_def)

lemma refresh_now_keeps:
  "sv_agent (snd (refresh_revocations_now sdk ans q clk sv)) = sv_agent sv"
  "sv_sessions (snd (refresh_revocations_now sdk ans q clk sv)) = sv_sessions sv"
  "sv_manifest_json (snd (refresh_revocations_now sdk ans q clk sv)) = sv_manifest_json sv"
  "sv_agent (snd (publish_revocations_now sdk ans q clk sv)) = sv_agent sv"
  "sv_sessions (snd (publish_revocations_now sdk ans q clk sv)) = sv_sessions sv"
  "sv_manifest_json (snd (publish_revocations_now sdk ans q clk sv)) = sv_manifest_json sv"
  by (auto simp: refresh_revocations_now_def publish_revocations_now_def Let_def split: prod.splits)

lemma rotate_keys_result:
  assumes "rotate_keys sdk a1 a2 clk sv = (Inr resp, sv')"
  shows "sdk_generate sdk (case dict_get (get_obj (sv_bootstrap sv) ''aitp'') ''signing_suite'' of
            Some (JStr x) \<Rightarrow> x | _ \<Rightarrow> ''ed25519'') = Inr (sv_agent sv')"
    "get_manifest_json sdk (sv_agent sv') (sv_bootstrap sv) (clk 0) = Inr (sv_manifest_json sv')"
    "sv_sessions sv' = []"
proof -
  let ?suite = "case dict_get (get_obj (sv_bootstrap sv) ''aitp'') ''signing_suite'' of
            Some (JStr x) \<Rightarrow> x | _ \<Rightarrow> ''ed25519''"
  obtain ag where ag: "sdk_generate sdk ?suite = Inr ag"
    using assms by (auto simp: rotate_keys_def Let_def split: sum.splits)
  obtain m where m: "get_manifest_json sdk ag (sv_bootstrap sv) (clk 0) = Inr m"
    using assms ag by (auto simp: rotate_keys_def Let_def split: sum.splits)
  let ?sv1 = "sv\<lparr>sv_agent := ag, sv_manifest_json := m, sv_cooldown_until := 0, sv_sessions := []\<rparr>"
  let ?sv2 = "snd (publish_revocations_now sdk a1 True (\<lambda>i. clk (1 + i)) ?sv1)"
  let ?sv3 = "snd (refresh_revocations_now sdk a2 True (\<lambda>i. clk (3 + i)) ?sv2)"
  have "\<exists>f. sv' = emit ''identity.key.rotated'' f ?sv3"
    using assms ag m by (auto simp: rotate_keys_def Let_def case_prod_beta)
  then have "sv_agent sv' = ag" "sv_manifest_json sv' = m" "sv_sessions sv' = []"
    by (auto simp: refresh_now_keeps)
  with ag m show "sdk_generate sdk ?suite = Inr (sv_agent sv')"
    "get_manifest_json sdk (sv_agent sv') (sv_bootstrap sv) (clk 0) = Inr (sv_manifest_json sv')"
    "sv_sessions sv' = []" by simp_all
qed

lemma foreign_issuer_refused:
  assumes "decode_claims tok = Inr claims" "get_json claims ''iss'' \<noteq> JStr (sdk_aid sdk (sv_agent sv))"
  shows "\<exists>err. fst (verify_capability_tct sdk clk tok grant resp sv) = Inl err"
proof -
  obtain r sv1 where f: "enforce_revocation_freshness clk sv = (r, sv1)" by fastforce
  show ?thesis
    using assms freshness_keeps [OF f]
    by (auto simp: verify_capability_tct_def Let_def f split: sum.splits bool.splits option.splits)
qed

lemma redeem_checked_sound:
  assumes "redeem_checked sdk clk multihop hops ms token sv = (Inr resp, sv')" "rs_status resp = 200"
  shows "\<exists>tok vd tct. rs_body resp = TextBody tct
    \<and> (posture_of (sv_can_verify sv) (sv_max_staleness_secs sv) (clk 0) (clk 1) (sv_revocation sv) \<noteq> Degraded
        \<or> sv_fail_mode sv = ''soft_fail'')
    \<and> (if multihop
       then sdk_verify_delegation_multihop sdk tok (sdk_aid sdk (sv_agent sv)) ms hops
              (effective_jtis (sv_revocation sv)) (sv_insecure_localhost sv) (clk 4) = Inr vd
       else sdk_verify_delegation sdk tok (sdk_aid sdk (sv_agent sv)) ms
              (effective_jtis (sv_revocation sv)) (sv_insecure_localhost sv) (clk 4) = Inr vd)
    \<and> sdk_issue_tct_for_delegatee sdk (sv_agent sv) vd (clk 5) = Inr tct"
proof -
  obtain r sv1 where f: "enforce_revocation_freshness clk sv = (r, sv1)" by fastforce
  have ins: "sv_insecure_localhost sv1 = sv_insecure_localhost sv"
    using f by (auto simp: enforce_revocation_freshness_def emit_def Let_def split: if_splits)
  have ref: "rs_status x \<noteq> 200" if "delegation_refusal e t sv1 = (Inr x, y)" for e t x y
    using that by (auto simp: delegation_refusal_def Let_def split: if_splits sum.splits)
  have r: "r = None"
    using assms f
    by (cases r) (auto simp: redeem_checked_def http_error_response_def enforce_revocation_freshness_def Let_def
        split: if_splits)
  from assms obtain tj where tj: "token = JStr tj"
    by (auto simp: redeem_checked_def Let_def f r split: json.splits)
  let ?v = "if multihop
       then sdk_verify_delegation_multihop sdk tj (sdk_aid sdk (sv_agent sv)) ms hops
              (effective_jtis (sv_revocation sv)) (sv_insecure_localhost sv) (clk 4)
       else sdk_verify_delegation sdk tj (sdk_aid sdk (sv_agent sv)) ms
              (effective_jtis (sv_revocation sv)) (sv_insecure_localhost sv) (clk 4)"
  have run: "redeem_checked sdk clk multihop hops ms token sv =
      (case ?v of Inl exc \<Rightarrow> delegation_refusal exc token sv1
       | Inr vd \<Rightarrow> (case sdk_issue_tct_for_delegatee sdk (sv_agent sv) vd (clk 5) of
            Inl e \<Rightarrow> (Inl e, sv1)
          | Inr tct \<Rightarrow> (Inr \<lparr>rs_status = 200, rs_body = TextBody tct, rs_headers = []\<rparr>,
              emit ''delegation.redeemed'' [(''delegatee_aid'', JStr (vd_delegatee vd)),
                 (''grants'', JArr (map JStr (vd_grants vd))), (''role'', JStr ''issuer'')] sv1)))"
    by (simp add: redeem_checked_def Let_def f r tj ins freshness_keeps [OF f] cong: sum.case_cong)
  obtain vd where vd: "?v = Inr vd"
    using assms run ref by (cases ?v) auto
  obtain tct where "sdk_issue_tct_for_delegatee sdk (sv_agent sv) vd (clk 5) = Inr tct" "rs_body resp = TextBody tct"
    using assms run vd by (auto split: sum.splits)
  with vd freshness_passes [OF f [unfolded r]] show ?thesis
    by (intro exI [of _ tj] exI [of _ vd] exI [of _ tct]) (simp split: if_splits)
qed

section \<open>Properties\<close>

text \<open>
  C10: a handshake session is committed at most once. A commit that names an open session
  and passes the envelope screen removes the session, whatever the SDK then answers; while a
  session is not open, a commit that names it never reaches the SDK and leaves the sessions
  as they are.
\<close>

theorem session_committed_once:
  "(\<forall>r. dict_get (sv_sessions sv) sid = Some r \<and> request_text content = Inr h
       \<and> admitted h (clk 0) (sv_replay_guard sv) \<longrightarrow>
       dict_get (sv_sessions (snd (commit sdk clk sid content sv))) sid = None)
   \<and> (dict_get (sv_sessions sv) sid = None \<longrightarrow>
       sv_sessions (snd (commit sdk clk sid content sv)) = sv_sessions sv
       \<and> (\<forall>resp. fst (commit sdk clk sid content sv) = Inr resp \<longrightarrow> rs_status resp \<noteq> 200))"
proof (cases "request_text content")
  case (Inl e)
  then show ?thesis by (simp add: commit_def)
next
  case h: (Inr h')
  obtain r sv1 where s: "screen_envelope h' (clk 0) [(''session_id'', JStr sid)] sv = (r, sv1)" by fastforce
  have pass: "r = Inr None \<longleftrightarrow> admitted h' (clk 0) (sv_replay_guard sv)"
    using screen_passes_iff [of h' "clk 0" "[(''session_id'', JStr sid)]" sv] s by simp
  have stat: "rs_status x \<noteq> 200" if "r = Inr (Some x)" for x
    using screen_status [of h' "clk 0" "[(''session_id'', JStr sid)]" sv x] s that by simp
  show ?thesis
    using s screen_keeps [OF s] pass stat h
    by (auto simp: commit_def Let_def split: sum.splits option.splits)
qed

text \<open>
  Only \<open>/admin/trust-peers\<close> fills the responder's trust store, and only with AIDs
  the SDK accepts. The handshake routes never change the store; \<open>trust_peers\<close> changes
  it only to the union (or, with \<open>replace\<close>, to the list) of non-empty AIDs for which the
  SDK could build a responder, and leaves it unchanged on every refusal.
\<close>

theorem trust_store_provisioned_only:
  "sv_trusted_peer_aids (snd (hello sdk clk content sv)) = sv_trusted_peer_aids sv
   \<and> (case trust_peers sdk content sv of (res, sv') \<Rightarrow>
        sv' = sv \<or>
        (\<exists>aids r. [] \<notin> set aids
           \<and> (sv_trusted_peer_aids sv' = set aids
              \<or> sv_trusted_peer_aids sv' = sv_trusted_peer_aids sv \<union> set aids)
           \<and> sdk_new_responder sdk (sv_agent sv) None (sorted_list_of_set (sv_trusted_peer_aids sv')) False = Inr r))"
proof -
  have ne: "nonempty_strs js = Some aids \<Longrightarrow> [] \<notin> set aids" for js aids
    by (induction js arbitrary: aids) (auto split: json.splits if_splits)
  show ?thesis
    using hello_keeps [of sdk clk content sv]
    by (auto simp: trust_peers_def Let_def split: sum.splits json.splits option.splits dest: ne)
qed

text \<open>
  Rotating the key invalidates what the old key issued. After a successful
  \<open>/admin/rotate-keys\<close> the server holds a freshly generated agent and the manifest
  minted by it, no handshake session survives, and a token whose issuer claim is not the new
  AID (in particular one issued under the old AID) is refused on every capability call.
\<close>

theorem rotation_invalidates_old_tcts:
  assumes "rotate_keys sdk a1 a2 clk sv = (Inr resp, sv')"
    and "decode_claims tok = Inr claims" and "dict_get claims ''iss'' = Some (JStr (sdk_aid sdk (sv_agent sv)))"
    and "sdk_aid sdk (sv_agent sv') \<noteq> sdk_aid sdk (sv_agent sv)"
  shows "get_manifest_json sdk (sv_agent sv') (sv_bootstrap sv) (clk 0) = Inr (sv_manifest_json sv')
    \<and> sv_sessions sv' = []
    \<and> (\<exists>err. fst (verify_capability_tct sdk clk' tok grant pop sv') = Inl err)"
  using rotate_keys_result [OF assms(1)] foreign_issuer_refused [OF assms(2), of sdk sv' clk' grant pop] assms(3,4)
  by (simp add: get_json_def)


section \<open>Witnesses\<close>

definition demo_envelope :: string where
  "demo_envelope = ''{\"message_id\":\"c1\",\"timestamp\":5}''"

theorem session_committed_once_witness:
  "dict_get (sv_sessions (snd (commit demo_sdk (\<lambda>_. 5) ''sid'' demo_envelope
     (demo_server\<lparr>sv_sessions := [(''sid'', ''me'')]\<rparr>)))) ''sid'' = None"
proof -
  let ?sv = "demo_server\<lparr>sv_sessions := [(''sid'', ''me'')]\<rparr>"
  have "dict_get (sv_sessions ?sv) ''sid'' = Some ''me''" "request_text demo_envelope = Inr demo_envelope"
    "admitted demo_envelope ((\<lambda>_. 5) 0) (sv_replay_guard ?sv)" by code_simp+
  with session_committed_once [of ?sv "''sid''" demo_envelope demo_envelope "\<lambda>_. 5" demo_sdk]
  show ?thesis by blast
qed

theorem rotation_invalidates_old_tcts_witness:
  "sv_sessions (snd (rotate_keys demo_sdk (Inl ''down'') (Inl ''down'') (\<lambda>_. 5) demo_server)) = []
   \<and> (\<exists>err. fst (verify_capability_tct demo_sdk (\<lambda>_. 6) demo_token ''cap'' []
          (snd (rotate_keys demo_sdk (Inl ''down'') (Inl ''down'') (\<lambda>_. 5) demo_server))) = Inl err)"
proof -
  let ?r = "rotate_keys demo_sdk (Inl ''down'') (Inl ''down'') (\<lambda>_. 5) demo_server"
  have "case fst ?r of Inr _ \<Rightarrow> True | Inl _ \<Rightarrow> False" by code_simp
  then obtain x where r: "?r = (Inr x, snd ?r)" by (cases ?r) (auto split: sum.splits)
  have "case decode_claims demo_token of Inr c \<Rightarrow> dict_get c ''iss'' = Some (JStr ''me'') | Inl _ \<Rightarrow> False"
    by code_simp
  then obtain c where c: "decode_claims demo_token = Inr c" "dict_get c ''iss'' = Some (JStr ''me'')"
    by (auto split: sum.splits)
  have "sdk_aid demo_sdk (sv_agent demo_server) = ''me''"
    "sdk_aid demo_sdk (sv_agent (snd ?r)) \<noteq> sdk_aid demo_sdk (sv_agent demo_server)" by code_simp+
  with rotation_invalidates_old_tcts [OF r c(1)] c(2) show ?thesis by simp
qed


end
