(* ===== verification/Port_Allocator.thy ===== *)
theory Port_Allocator
  imports Prelude
begin

text \<open>
  \<open>src/aitp_playground/hosting/port_allocator.py\<close>: the ports handed to spawned agents.
  Each method runs under the allocator's lock, so it is one step. The \<open>while\<close> loop of
  \<open>allocate\<close> is bounded by the number of ports in use, which is enough
  (\<open>skip_used_fresh\<close>).
\<close>

record port_allocator =
  pa_next :: int
  pa_start :: int
  pa_free :: "int list"
  pa_in_use :: "int set"

definition port_allocator_init :: "int \<Rightarrow> port_allocator" where
  "port_allocator_init start = \<lparr>pa_next = start, pa_start = start, pa_free = [], pa_in_use = {}\<rparr>"

fun skip_used :: "nat \<Rightarrow> int set \<Rightarrow> int \<Rightarrow> int" where
  "skip_used 0 used n = n"
| "skip_used (Suc f) used n = (if n \<in> used then skip_used f used (n + 1) else n)"

definition allocate :: "int \<Rightarrow> port_allocator \<Rightarrow> int \<times> port_allocator" where
  "allocate offset a =
     (let candidate = pa_start a + offset
      in if candidate \<notin> pa_in_use a \<and> candidate \<notin> set (pa_free a) then
           (candidate, a\<lparr>pa_in_use := insert candidate (pa_in_use a),
                         pa_next := (if pa_next a \<le> candidate then candidate + 1 else pa_next a)\<rparr>)
         else if pa_free a \<noteq> [] then
           (let p = last (pa_free a)
            in (p, a\<lparr>pa_free := butlast (pa_free a), pa_in_use := insert p (pa_in_use a)\<rparr>))
         else
           (let p = skip_used (Suc (card (pa_in_use a))) (pa_in_use a) (pa_next a)
            in (p, a\<lparr>pa_next := p + 1, pa_in_use := insert p (pa_in_use a)\<rparr>)))"

definition release :: "int \<Rightarrow> port_allocator \<Rightarrow> port_allocator" where
  "release port a =
     (if port \<in> pa_in_use a
      then a\<lparr>pa_in_use := pa_in_use a - {port}, pa_free := pa_free a @ [port]\<rparr> else a)"

definition reset :: "port_allocator \<Rightarrow> port_allocator" where
  "reset a = a\<lparr>pa_next := pa_start a, pa_free := [], pa_in_use := {}\<rparr>"

section \<open>Invariant\<close>

definition ports_inv :: "port_allocator \<Rightarrow> bool" where
  "ports_inv a \<longleftrightarrow>
     finite (pa_in_use a) \<and> distinct (pa_free a) \<and> set (pa_free a) \<inter> pa_in_use a = {}
     \<and> (\<forall>p \<in> pa_in_use a \<union> set (pa_free a). p < pa_next a)"

lemma skip_used_fresh:
  assumes "finite used" "card {p \<in> used. n \<le> p} < f"
  shows "skip_used f used n \<notin> used \<and> n \<le> skip_used f used n"
  using assms(2)
proof (induction f arbitrary: n)
  case (Suc f)
  show ?case
  proof (cases "n \<in> used")
    case True
    have "{p \<in> used. n \<le> p} = insert n {p \<in> used. n + 1 \<le> p}" using True by auto
    then have "card {p \<in> used. n \<le> p} = Suc (card {p \<in> used. n + 1 \<le> p})"
      using assms(1) by simp
    with Suc.prems have "card {p \<in> used. n + 1 \<le> p} < f" by simp
    from Suc.IH [OF this] True show ?thesis by simp
  qed simp
qed simp

lemma skip_used_enough:
  "finite used \<Longrightarrow> skip_used (Suc (card used)) used n \<notin> used"
  by (rule skip_used_fresh [THEN conjunct1]) (auto simp: le_imp_less_Suc card_mono)

lemma ports_inv_init: "ports_inv (port_allocator_init s)"
  by (simp add: ports_inv_def port_allocator_init_def)

lemma skip_used_id: "n \<notin> used \<Longrightarrow> skip_used f used n = n"
  by (cases f) auto

lemma allocate_cases:
  assumes "ports_inv a" "allocate offset a = (p, a')"
  obtains (new) "p \<notin> pa_in_use a" "p \<notin> set (pa_free a)" "pa_free a' = pa_free a" "p < pa_next a'"
      "pa_next a \<le> pa_next a'" "pa_in_use a' = insert p (pa_in_use a)"
  | (recycled) "pa_free a = pa_free a' @ [p]" "pa_next a' = pa_next a"
      "pa_in_use a' = insert p (pa_in_use a)"
proof -
  have n: "pa_next a \<notin> pa_in_use a" using assms(1) by (auto simp: ports_inv_def)
  show thesis
    using assms n
    by (auto simp: allocate_def Let_def skip_used_id ports_inv_def split: if_splits
        intro: new recycled)
qed

lemma allocate_inv: "ports_inv a \<Longrightarrow> ports_inv (snd (allocate offset a))"
proof -
  assume inv: "ports_inv a"
  obtain p a' where e: "allocate offset a = (p, a')" by fastforce
  from inv e have "ports_inv a'"
  proof (cases rule: allocate_cases)
    case new
    with inv show ?thesis by (auto simp: ports_inv_def intro: less_le_trans)
  next
    case recycled
    with inv show ?thesis by (auto simp: ports_inv_def)
  qed
  with e show ?thesis by simp
qed

lemma release_inv: "ports_inv a \<Longrightarrow> ports_inv (release p a)"
  by (auto simp: ports_inv_def release_def)

lemma reset_inv: "ports_inv (reset a)"
  by (simp add: ports_inv_def reset_def)

section \<open>Sequences\<close>

datatype port_op = Allocate int | Release int | Reset

fun port_step :: "port_op \<Rightarrow> port_allocator \<Rightarrow> port_allocator" where
  "port_step (Allocate off) a = snd (allocate off a)"
| "port_step (Release p) a = release p a"
| "port_step Reset a = reset a"

lemma run_inv: "ports_inv a \<Longrightarrow> ports_inv (fold port_step ops a)"
proof (induction ops arbitrary: a)
  case (Cons op1 ops)
  then have "ports_inv (port_step op1 a)"
    by (cases op1) (auto simp: allocate_inv release_inv reset_inv)
  with Cons show ?case by simp
qed simp

text \<open>
  No port is handed out twice. After any sequence of operations from a new allocator,
  \<open>allocate\<close> returns a port that is not in use, marks exactly that port as in use and
  keeps every other one; a released port can be allocated again and a second release of
  the same port changes nothing.
\<close>

theorem port_never_handed_out_twice:
  assumes "a = fold port_step ops (port_allocator_init s)" and "allocate offset a = (p, a')"
  shows "p \<notin> pa_in_use a \<and> pa_in_use a' = insert p (pa_in_use a)
    \<and> pa_in_use (release p a') = pa_in_use a \<and> release p (release p a') = release p a'"
proof -
  have inv: "ports_inv a" unfolding assms(1) by (rule run_inv [OF ports_inv_init])
  from inv assms(2) have "p \<notin> pa_in_use a \<and> pa_in_use a' = insert p (pa_in_use a)"
  proof (cases rule: allocate_cases)
    case recycled
    with inv show ?thesis by (auto simp: ports_inv_def)
  qed simp
  then show ?thesis by (auto simp: release_def)
qed

theorem port_never_handed_out_twice_witness:
  "fst (allocate 0 (fold port_step [Allocate 0, Allocate 1, Release 8100, Allocate 1] (port_allocator_init 8100)))
     \<notin> pa_in_use (fold port_step [Allocate 0, Allocate 1, Release 8100, Allocate 1] (port_allocator_init 8100))"
  using port_never_handed_out_twice [OF refl, of 0 "[Allocate 0, Allocate 1, Release 8100, Allocate 1]" 8100]
  by (metis prod.collapse)

end
