(* ===== verification/Spend_Limits.thy ===== *)
theory Spend_Limits
  imports Expiring_Table
begin

text \<open>
  \<open>src/aitp_playground/limits.py\<close>: the token bucket per key and the rolling cap over all
  runs. Each method runs under its lock, the clock reading is an argument; floats are exact
  rationals here, so rounding is not modelled.

  What is shown: over any sequence of calls at times that do not decrease, a key is allowed
  at most \<open>burst + rate * elapsed\<close> calls, also when full buckets are pruned; and the cap
  never grants more than \<open>limit\<close> acquisitions in any window.
\<close>

section \<open>Token bucket\<close>

definition PRUNE_ABOVE :: nat where
  "PRUNE_ABOVE = 10000"

record token_bucket =
  tb_rate :: rat
  tb_burst :: int
  tb_buckets :: "(string, rat \<times> rat) dict"

definition token_bucket_init :: "rat \<Rightarrow> int \<Rightarrow> token_bucket" where
  "token_bucket_init rate burst = \<lparr>tb_rate = rate, tb_burst = max 1 burst, tb_buckets = []\<rparr>"

definition tb_prune :: "rat \<Rightarrow> token_bucket \<Rightarrow> token_bucket" where
  "tb_prune now b =
     (let full = map fst (filter (\<lambda>(k, (t, last)). of_int (tb_burst b) \<le> t + (now - last) * tb_rate b) (tb_buckets b))
      in b\<lparr>tb_buckets := fold dict_del full (tb_buckets b)\<rparr>)"

definition allow :: "string \<Rightarrow> rat \<Rightarrow> token_bucket \<Rightarrow> bool \<times> token_bucket" where
  "allow key now b =
     (let burst = of_int (tb_burst b);
          (tokens0, last) = (case dict_get (tb_buckets b) key of Some e \<Rightarrow> e | None \<Rightarrow> (burst, now));
          tokens1 = min burst (tokens0 + (now - last) * tb_rate b);
          allowed = (1 \<le> tokens1);
          tokens2 = (if allowed then tokens1 - 1 else tokens1);
          b1 = b\<lparr>tb_buckets := dict_set key (tokens2, now) (tb_buckets b)\<rparr>
      in (allowed, if PRUNE_ABOVE < length (tb_buckets b1) then tb_prune now b1 else b1))"

section \<open>Rolling cap\<close>

record rolling_cap =
  rc_limit :: int
  rc_window :: rat
  rc_stamps :: "rat list"

definition rolling_cap_init :: "int \<Rightarrow> rat \<Rightarrow> rolling_cap" where
  "rolling_cap_init limit window = \<lparr>rc_limit = limit, rc_window = window, rc_stamps = []\<rparr>"

definition try_acquire :: "rat \<Rightarrow> rolling_cap \<Rightarrow> bool \<times> rolling_cap" where
  "try_acquire now c =
     (let stamps = dropWhile (\<lambda>s. rc_window c \<le> now - s) (rc_stamps c)
      in if rc_limit c \<le> int (length stamps) then (False, c\<lparr>rc_stamps := stamps\<rparr>)
         else (True, c\<lparr>rc_stamps := stamps @ [now]\<rparr>))"

section \<open>Both together\<close>

record spend_limits =
  sl_per_ip :: token_bucket
  sl_per_key :: token_bucket
  sl_hourly :: rolling_cap

definition spend_limits_init :: "rat \<Rightarrow> int \<Rightarrow> int \<Rightarrow> spend_limits" where
  "spend_limits_init rate_limit_per_minute burst max_runs_per_hour =
     (let rate = rate_limit_per_minute / 60
      in \<lparr>sl_per_ip = token_bucket_init rate burst, sl_per_key = token_bucket_init rate burst,
          sl_hourly = rolling_cap_init max_runs_per_hour 3600\<rparr>)"

section \<open>Tokens a key has at a time\<close>

definition tokens_at :: "token_bucket \<Rightarrow> string \<Rightarrow> rat \<Rightarrow> rat" where
  "tokens_at b k now =
     (case dict_get (tb_buckets b) k of
        None \<Rightarrow> of_int (tb_burst b)
      | Some (t, l) \<Rightarrow> min (of_int (tb_burst b)) (t + (now - l) * tb_rate b))"

text \<open>Entries are dated in the past and hold between no token and a full bucket.\<close>

definition bucket_inv :: "rat \<Rightarrow> token_bucket \<Rightarrow> bool" where
  "bucket_inv now b \<longleftrightarrow>
     wf_dict (tb_buckets b) \<and> 0 \<le> tb_rate b \<and> 1 \<le> tb_burst b
     \<and> (\<forall>k t l. dict_get (tb_buckets b) k = Some (t, l) \<longrightarrow> 0 \<le> t \<and> t \<le> of_int (tb_burst b) \<and> l \<le> now)"

definition allow_core :: "string \<Rightarrow> rat \<Rightarrow> token_bucket \<Rightarrow> token_bucket" where
  "allow_core key now b =
     b\<lparr>tb_buckets := dict_set key
         (if 1 \<le> tokens_at b key now then tokens_at b key now - 1 else tokens_at b key now, now) (tb_buckets b)\<rparr>"

lemma allow_unfold:
  "allow key now b =
     (1 \<le> tokens_at b key now,
      if PRUNE_ABOVE < length (tb_buckets (allow_core key now b)) then tb_prune now (allow_core key now b)
      else allow_core key now b)"
  by (simp add: allow_def allow_core_def tokens_at_def Let_def split: option.split)

lemma prune_buckets:
  assumes "wf_dict (tb_buckets b)"
  shows "tb_buckets (tb_prune now b) =
    filter (\<lambda>(k, e). \<not> (case e of (t, l) \<Rightarrow> of_int (tb_burst b) \<le> t + (now - l) * tb_rate b)) (tb_buckets b)"
  using del_expired_filter [OF assms, of "\<lambda>(t, l). of_int (tb_burst b) \<le> t + (now - l) * tb_rate b"]
  by (simp add: tb_prune_def case_prod_unfold)

lemma prune_config [simp]:
  "tb_rate (tb_prune now b) = tb_rate b" "tb_burst (tb_prune now b) = tb_burst b"
  by (simp_all add: tb_prune_def Let_def)

lemma prune_tokens:
  assumes "bucket_inv now b" "now \<le> t"
  shows "tokens_at (tb_prune now b) k t = tokens_at b k t"
proof (cases "dict_get (tb_buckets b) k")
  case None
  then show ?thesis
    using assms by (simp add: tokens_at_def prune_buckets bucket_inv_def map_of_filter_wf)
next
  case (Some e)
  obtain x l where e: "e = (x, l)" by (cases e)
  have wf: "wf_dict (tb_buckets b)" and r: "0 \<le> tb_rate b" using assms by (auto simp: bucket_inv_def)
  have "(now - l) * tb_rate b \<le> (t - l) * tb_rate b" using assms(2) r by (simp add: mult_right_mono)
  then show ?thesis
    using Some e wf by (auto simp: tokens_at_def prune_buckets map_of_filter_wf simp del: map_of_eq_Some_iff)
qed

lemma tokens_bounds:
  assumes "bucket_inv now b" "now \<le> t"
  shows "0 \<le> tokens_at b k t" "tokens_at b k t \<le> of_int (tb_burst b)"
proof -
  have r: "0 \<le> tb_rate b" "1 \<le> tb_burst b" using assms by (auto simp: bucket_inv_def)
  show "tokens_at b k t \<le> of_int (tb_burst b)" by (simp add: tokens_at_def split: option.split)
  show "0 \<le> tokens_at b k t"
  proof (cases "dict_get (tb_buckets b) k")
    case (Some e)
    obtain x l where e: "e = (x, l)" by (cases e)
    then have "0 \<le> x" "l \<le> now" using assms(1) Some by (auto simp: bucket_inv_def simp del: map_of_eq_Some_iff)
    then have "0 \<le> (t - l) * tb_rate b" using assms(2) r by simp
    with Some e \<open>0 \<le> x\<close> r show ?thesis by (simp add: tokens_at_def)
  qed (use r in \<open>simp add: tokens_at_def\<close>)
qed

lemma tokens_grow:
  assumes "bucket_inv now b" "now \<le> t" "t \<le> t'"
  shows "tokens_at b k t' \<le> tokens_at b k t + (t' - t) * tb_rate b"
proof (cases "dict_get (tb_buckets b) k")
  case None
  have "0 \<le> (t' - t) * tb_rate b" using assms by (simp add: bucket_inv_def)
  with None show ?thesis by (simp add: tokens_at_def)
next
  case (Some e)
  obtain x l where e: "e = (x, l)" by (cases e)
  have "(t' - l) * tb_rate b = (t - l) * tb_rate b + (t' - t) * tb_rate b" by (simp add: algebra_simps)
  moreover have "0 \<le> (t' - t) * tb_rate b" using assms by (simp add: bucket_inv_def)
  ultimately show ?thesis using Some e by (simp add: tokens_at_def)
qed

section \<open>Sequences of calls\<close>

lemma allow_core_inv:
  assumes "bucket_inv t b" "t \<le> now"
  shows "bucket_inv now (allow_core k now b)"
  using assms tokens_bounds [OF assms, of k]
  by (auto simp: bucket_inv_def allow_core_def wf_dict_set intro: order_trans simp del: map_of_eq_Some_iff)

lemma prune_inv: "bucket_inv now b \<Longrightarrow> bucket_inv now (tb_prune now b)"
  by (auto simp: bucket_inv_def prune_buckets wf_dict_filter map_of_filter_wf
      split: option.splits if_splits simp del: map_of_eq_Some_iff)

lemma allow_inv: "bucket_inv t b \<Longrightarrow> t \<le> now \<Longrightarrow> bucket_inv now (snd (allow k now b))"
  by (simp add: allow_unfold allow_core_inv prune_inv)

lemma allow_config [simp]:
  "tb_rate (snd (allow k now b)) = tb_rate b" "tb_burst (snd (allow k now b)) = tb_burst b"
  by (simp_all add: allow_unfold allow_core_def)

lemma allow_tokens:
  assumes "bucket_inv t b" "t \<le> now"
  shows "tokens_at (snd (allow k now b)) k now
      = (if fst (allow k now b) then tokens_at b k now - 1 else tokens_at b k now)"
    and "k' \<noteq> k \<Longrightarrow> tokens_at (snd (allow k now b)) k' now = tokens_at b k' now"
proof -
  have p: "tokens_at (snd (allow k now b)) x now = tokens_at (allow_core k now b) x now" for x
    by (simp add: allow_unfold prune_tokens [OF allow_core_inv [OF assms]])
  show "tokens_at (snd (allow k now b)) k now
      = (if fst (allow k now b) then tokens_at b k now - 1 else tokens_at b k now)"
    unfolding p using tokens_bounds [OF assms, of k] by (auto simp: allow_unfold allow_core_def tokens_at_def)
  show "k' \<noteq> k \<Longrightarrow> tokens_at (snd (allow k now b)) k' now = tokens_at b k' now"
    unfolding p tokens_at_def [of "allow_core k now b" k' now] tokens_at_def [of b k' now]
    by (simp add: allow_core_def split: option.split)
qed

fun allowed_calls :: "string \<Rightarrow> (rat \<times> string) list \<Rightarrow> token_bucket \<Rightarrow> nat" where
  "allowed_calls k [] b = 0"
| "allowed_calls k ((now, key) # calls) b =
     (if key = k \<and> fst (allow key now b) then 1 else 0) + allowed_calls k calls (snd (allow key now b))"

lemma allowed_calls_bound:
  assumes "bucket_inv t b" "sorted (t # map fst calls)"
  shows "of_nat (allowed_calls k calls b)
      \<le> tokens_at b k t + (last (t # map fst calls) - t) * tb_rate b"
  using assms
proof (induction calls arbitrary: t b)
  case Nil
  then show ?case using tokens_bounds [of t b t k] by simp
next
  case (Cons c calls)
  obtain now key where c: "c = (now, key)" by (cases c)
  let ?b = "snd (allow key now b)"
  have le: "t \<le> now" and srt: "sorted (now # map fst calls)" using Cons.prems(2) c by auto
  have "of_nat (allowed_calls k calls ?b)
      \<le> tokens_at ?b k now + (last (now # map fst calls) - now) * tb_rate b"
    using Cons.IH [OF allow_inv [OF Cons.prems(1) le] srt] by simp
  moreover have "tokens_at ?b k now + (if key = k \<and> fst (allow key now b) then 1 else 0) = tokens_at b k now"
    using allow_tokens(1) [OF Cons.prems(1) le, of key] allow_tokens(2) [OF Cons.prems(1) le, of k key]
    by (cases "key = k") auto
  moreover have "tokens_at b k now \<le> tokens_at b k t + (now - t) * tb_rate b"
    by (rule tokens_grow [OF Cons.prems(1) _ le]) simp
  ultimately have "of_nat (allowed_calls k (c # calls) b)
      \<le> tokens_at b k t + (now - t) * tb_rate b + (last (now # map fst calls) - now) * tb_rate b"
    using c by (auto split: if_splits)
  then show ?case using c by (simp add: algebra_simps)
qed



fun acquisitions :: "rat list \<Rightarrow> rolling_cap \<Rightarrow> rat list" where
  "acquisitions [] c = []"
| "acquisitions (now # ts) c =
     (if fst (try_acquire now c) then [now] else []) @ acquisitions ts (snd (try_acquire now c))"

lemma dropWhile_sorted_filter:
  assumes "sorted xs"
  shows "dropWhile (\<lambda>s :: rat. w \<le> now - s) xs = filter (\<lambda>s. now - s < w) xs"
  using assms
proof (induction xs)
  case (Cons x xs)
  show ?case
  proof (cases "w \<le> now - x")
    case True
    with Cons show ?thesis by simp
  next
    case False
    with Cons.prems have "filter (\<lambda>s. now - s < w) (x # xs) = x # xs"
      by (intro filter_True) force
    with False show ?thesis by simp
  qed
qed simp

text \<open>The stamps kept are the acquisitions still inside the window.\<close>

definition cap_inv :: "rat \<Rightarrow> rat list \<Rightarrow> rolling_cap \<Rightarrow> bool" where
  "cap_inv t acq c \<longleftrightarrow>
     sorted acq \<and> (\<forall>a \<in> set acq. a \<le> t) \<and> sorted (rc_stamps c)
     \<and> (\<forall>now \<ge> t. filter (\<lambda>s. now - s < rc_window c) (rc_stamps c) = filter (\<lambda>s. now - s < rc_window c) acq)
     \<and> (\<forall>x. int (length (filter (\<lambda>a. x \<le> a \<and> a < x + rc_window c) acq)) \<le> max 0 (rc_limit c))"

lemma filter_length_mono: "(\<And>x. x \<in> set xs \<Longrightarrow> P x \<Longrightarrow> Q x) \<Longrightarrow> length (filter P xs) \<le> length (filter Q xs)"
  by (induction xs) (auto simp: le_SucI)

lemma try_acquire_inv:
  assumes "cap_inv t acq c" "t \<le> now"
  shows "cap_inv now (acq @ (if fst (try_acquire now c) then [now] else [])) (snd (try_acquire now c))"
proof -
  let ?w = "rc_window c"
  have srt: "sorted acq" "\<forall>a \<in> set acq. a \<le> t" "sorted (rc_stamps c)"
    using assms(1) by (auto simp: cap_inv_def)
  have st: "filter (\<lambda>s. u - s < ?w) (rc_stamps c) = filter (\<lambda>s. u - s < ?w) acq" if "t \<le> u" for u
    using assms(1) that by (auto simp: cap_inv_def)
  have cnt: "int (length (filter (\<lambda>a. x \<le> a \<and> a < x + ?w) acq)) \<le> max 0 (rc_limit c)" for x
    using assms(1) by (auto simp: cap_inv_def)
  let ?s = "filter (\<lambda>s. now - s < ?w) acq"
  have drop: "dropWhile (\<lambda>s. ?w \<le> now - s) (rc_stamps c) = ?s"
    using dropWhile_sorted_filter [OF srt(3)] st [OF assms(2)] by simp
  have later: "filter (\<lambda>s. u - s < ?w) ?s = filter (\<lambda>s. u - s < ?w) acq" if "now \<le> u" for u
    using that by (auto intro: filter_cong)
  have "sorted ?s" using srt(1) by (rule sorted_wrt_filter)
  show ?thesis
  proof (cases "rc_limit c \<le> int (length ?s)")
    case True
    with srt(1,2) assms(2) later cnt \<open>sorted ?s\<close> show ?thesis
      by (auto simp: cap_inv_def try_acquire_def drop intro: order_trans)
  next
    case False
    have sub: "length (filter (\<lambda>a. x \<le> a \<and> a < x + ?w) acq) \<le> length ?s" if "now < x + ?w" for x
      by (rule filter_length_mono) (use that in auto)
    have "int (length (filter (\<lambda>a. x \<le> a \<and> a < x + ?w) (acq @ [now]))) \<le> max 0 (rc_limit c)" for x
      using cnt [of x] sub [of x] False by auto
    moreover have "sorted (acq @ [now])" "sorted (?s @ [now])"
      using srt assms(2) \<open>sorted ?s\<close> by (auto simp: sorted_append intro: order_trans)
    ultimately show ?thesis
      using False srt assms(2) later
      by (auto simp: cap_inv_def try_acquire_def drop intro: order_trans)
  qed
qed

lemma acquisitions_inv:
  assumes "cap_inv t acq c" "sorted (t # ts)"
  shows "\<forall>x. int (length (filter (\<lambda>a. x \<le> a \<and> a < x + rc_window c) (acq @ acquisitions ts c))) \<le> max 0 (rc_limit c)"
  using assms
proof (induction ts arbitrary: t acq c)
  case Nil
  then show ?case by (simp add: cap_inv_def)
next
  case (Cons now ts)
  have cfg: "rc_window (snd (try_acquire now c)) = rc_window c" "rc_limit (snd (try_acquire now c)) = rc_limit c"
    by (simp_all add: try_acquire_def Let_def)
  have "cap_inv now (acq @ (if fst (try_acquire now c) then [now] else [])) (snd (try_acquire now c))"
    by (rule try_acquire_inv [OF Cons.prems(1)]) (use Cons.prems(2) in simp)
  from Cons.IH [OF this] Cons.prems(2) show ?case by (simp add: cfg)
qed

lemma acquisitions_bounded:
  assumes "sorted (t # ts)"
  shows "int (length (filter (\<lambda>a. x \<le> a \<and> a < x + window) (acquisitions ts (rolling_cap_init limit window))))
    \<le> max 0 limit"
proof -
  have "cap_inv t [] (rolling_cap_init limit window)"
    by (simp add: cap_inv_def rolling_cap_init_def)
  from acquisitions_inv [OF this assms] show ?thesis by (simp add: rolling_cap_init_def)
qed

text \<open>
  The hourly cap holds. Over any sequence of attempts at times that do not decrease, the
  acquisitions a new cap grants inside any half-open window of its length are at most its
  limit.
\<close>

theorem rolling_cap_holds:
  assumes "sorted (t # ts)"
  shows "int (length (filter (\<lambda>a. x \<le> a \<and> a < x + window) (acquisitions ts (rolling_cap_init limit window))))
    \<le> max 0 limit"
  by (rule acquisitions_bounded [OF assms])

theorem rolling_cap_holds_witness:
  "int (length (filter (\<lambda>a. 1 \<le> a \<and> a < 1 + 10) (acquisitions [0, 1, 2, 3, 11, 12] (rolling_cap_init 2 10)))) \<le> max 0 2"
  using rolling_cap_holds [of 0 "[0, 1, 2, 3, 11, 12]" 1 10 2] by simp

end
