(* ===== verification/Api_Auth.thy ===== *)
theory Api_Auth
  imports Spend_Limits Tct_Claims Aitp_Sdk "HOL-Library.Sublist"
begin

text \<open>
  \<open>src/aitp_playground/api/_deps.py\<close>: the bearer checks of the playground's routes and
  the spend limits of the two routes that start agents. Header values are the Latin-1 bytes
  received; the fingerprint function (SHA-256) is an argument.

  What is shown: a guarded route is entered exactly with a configured key, an unconfigured
  service refuses everyone, and over any sequence of requests at most
  \<open>max_runs_per_hour\<close> of them pass the limits in any hour.
\<close>

record api_settings =
  as_playground_api_key :: string
  as_rate_limit_per_minute :: rat
  as_rate_limit_burst :: int
  as_max_runs_per_hour :: int

record request =
  rq_headers :: "(string \<times> string) list"
  rq_client_host :: "string option"

datatype deny = Deny (deny_status: int) (deny_detail: string) (deny_headers: "(string \<times> string) list")

text \<open>\<open>headers.get(name, "")\<close>: the first header of that (lower-case) name.\<close>

definition header :: "request \<Rightarrow> string \<Rightarrow> string" where
  "header rq name = (case dict_get (rq_headers rq) name of Some v \<Rightarrow> v | None \<Rightarrow> [])"

text \<open>\<open>str.strip()\<close> on text decoded from Latin-1, and its UTF-8 encoding.\<close>

definition latin1_space :: "char \<Rightarrow> bool" where
  "latin1_space c \<longleftrightarrow> is_py_space c \<or> byte c = 133 \<or> byte c = 160"

definition latin1_strip :: "string \<Rightarrow> string" where
  "latin1_strip s = rev (dropWhile latin1_space (rev (dropWhile latin1_space s)))"

definition latin1_utf8 :: "string \<Rightarrow> string" where
  "latin1_utf8 s = concat (map (\<lambda>c. utf8_encode (byte c)) s)"

definition configured_keys :: "api_settings \<Rightarrow> string list" where
  "configured_keys st =
     filter (\<lambda>k. k \<noteq> []) (map py_strip (split_on (CHR '','') (as_playground_api_key st)))"

definition bearer :: "request \<Rightarrow> string option" where
  "bearer rq =
     (let (scheme, rest) = partition_on (CHR '' '') (header rq ''authorization'');
          token = latin1_strip rest
      in if map ascii_lower scheme \<noteq> ''bearer'' \<or> token = [] then None else Some (latin1_utf8 token))"

definition unauthorized :: deny where
  "unauthorized = Deny 401 ''missing or invalid API key'' [(''WWW-Authenticate'', ''Bearer'')]"

text \<open>Every configured key is compared, none is skipped.\<close>

definition require_api_key :: "(string \<Rightarrow> string) \<Rightarrow> api_settings \<Rightarrow> request \<Rightarrow> deny + string" where
  "require_api_key sha256_hex st rq =
     (let keys = configured_keys st
      in if keys = [] then Inl (Deny 503 ''API key not configured on this service'' [])
         else
           (case bearer rq of
              None \<Rightarrow> Inl unauthorized
            | Some presented \<Rightarrow>
                (let matched = fold (\<lambda>key m. m \<or> presented = key) keys False
                 in if \<not> matched then Inl unauthorized else Inr (take 16 (sha256_hex presented)))))"

definition client_ip :: "request \<Rightarrow> string" where
  "client_ip rq =
     (let xff = header rq ''x-forwarded-for''
      in if latin1_strip xff \<noteq> [] then latin1_strip (last (split_on (CHR '','') xff))
         else (case rq_client_host rq of Some h \<Rightarrow> h | None \<Rightarrow> ''unknown''))"

text \<open>The buckets and the cap each read the clock when they are asked.\<close>

definition enforce_spend_limits ::
  "request \<Rightarrow> string \<Rightarrow> rat \<Rightarrow> rat \<Rightarrow> rat \<Rightarrow> spend_limits \<Rightarrow> (deny + unit) \<times> spend_limits" where
  "enforce_spend_limits rq key_id t1 t2 t3 l =
     (let rate_denied = Inl (Deny 429 ''rate limit exceeded'' [(''Retry-After'', ''60'')]);
          (ip_ok, ip) = allow (''ip:'' @ client_ip rq) t1 (sl_per_ip l);
          l1 = l\<lparr>sl_per_ip := ip\<rparr>
      in if \<not> ip_ok then (rate_denied, l1)
         else
           (let (key_ok, ks) = allow (''key:'' @ key_id) t2 (sl_per_key l1); l2 = l1\<lparr>sl_per_key := ks\<rparr>
            in if \<not> key_ok then (rate_denied, l2)
               else
                 (let (got, cap) = try_acquire t3 (sl_hourly l2); l3 = l2\<lparr>sl_hourly := cap\<rparr>
                  in if \<not> got then
                       (Inl (Deny 429 ''hourly run limit reached for this service'' [(''Retry-After'', ''300'')]), l3)
                     else (Inr (), l3))))"

definition require_telemetry_token :: "string option \<Rightarrow> request \<Rightarrow> deny + unit" where
  "require_telemetry_token expected rq =
     (case expected of
        None \<Rightarrow> Inl (Deny 503 ''telemetry not configured'' [])
      | Some tok \<Rightarrow>
          if tok = [] then Inl (Deny 503 ''telemetry not configured'' [])
          else
            (case bearer rq of
               None \<Rightarrow> Inl unauthorized
             | Some presented \<Rightarrow> if presented = tok then Inr () else Inl unauthorized))"

section \<open>Sequences of requests\<close>

text \<open>The times at which requests passed the limits.\<close>

fun acquire_time :: "request \<times> string \<times> rat \<times> rat \<times> rat \<Rightarrow> rat" where
  "acquire_time (rq, k, t1, t2, t3) = t3"

fun admitted_runs :: "(request \<times> string \<times> rat \<times> rat \<times> rat) list \<Rightarrow> spend_limits \<Rightarrow> rat list" where
  "admitted_runs [] l = []"
| "admitted_runs ((rq, k, t1, t2, t3) # rest) l =
     (case enforce_spend_limits rq k t1 t2 t3 l of
        (Inr _, l') \<Rightarrow> t3 # admitted_runs rest l'
      | (Inl _, l') \<Rightarrow> admitted_runs rest l')"

lemma spend_limits_cases:
  obtains (refused) "\<exists>d. fst (enforce_spend_limits rq k t1 t2 t3 l) = Inl d"
      "sl_hourly (snd (enforce_spend_limits rq k t1 t2 t3 l)) = sl_hourly l"
  | (asked) "fst (enforce_spend_limits rq k t1 t2 t3 l) = Inr () \<longleftrightarrow> fst (try_acquire t3 (sl_hourly l))"
      "sl_hourly (snd (enforce_spend_limits rq k t1 t2 t3 l)) = snd (try_acquire t3 (sl_hourly l))"
proof -
  obtain a ip where a: "allow (''ip:'' @ client_ip rq) t1 (sl_per_ip l) = (a, ip)" by fastforce
  obtain b ks where b: "allow (''key:'' @ k) t2 (sl_per_key l) = (b, ks)" by fastforce
  obtain c cap where c: "try_acquire t3 (sl_hourly l) = (c, cap)" by fastforce
  note ev = enforce_spend_limits_def Let_def a [simplified] b [simplified] c
  show thesis
  proof (cases "a \<and> b")
    case True
    then show thesis by (intro asked) (simp_all add: ev)
  next
    case False
    then show thesis by (intro refused) (simp_all add: ev)
  qed
qed

lemma admitted_runs_acquisitions:
  "\<exists>ts. set ts \<subseteq> set (map acquire_time reqs) \<and> subseq ts (map acquire_time reqs)
     \<and> admitted_runs reqs l = acquisitions ts (sl_hourly l)"
proof (induction reqs arbitrary: l)
  case Nil
  then show ?case by (intro exI [of _ "[]"]) simp
next
  case (Cons r reqs)
  obtain rq k t1 t2 t3 where r: "r = (rq, k, t1, t2, t3)" by (metis prod_cases5)
  let ?e = "enforce_spend_limits rq k t1 t2 t3 l"
  obtain ts where ts: "set ts \<subseteq> set (map acquire_time reqs)"
    "subseq ts (map acquire_time reqs)"
    "admitted_runs reqs (snd ?e) = acquisitions ts (sl_hourly (snd ?e))" using Cons by blast
  show ?case
  proof (cases rq k t1 t2 t3 l rule: spend_limits_cases)
    case refused
    then show ?thesis using ts r by (intro exI [of _ ts]) (cases ?e, auto intro: subseq_Cons')
  next
    case asked
    then show ?thesis
      using ts r by (intro exI [of _ "t3 # ts"]) (cases ?e, auto split: sum.splits)
  qed
qed

section \<open>Properties\<close>

text \<open>
  The API guard. A request passes \<open>require_api_key\<close> if and only if it carries a
  bearer token equal to one of the configured keys; with no key configured every request is
  refused with a 503. The value handed on is a sixteen-character prefix of the fingerprint.
\<close>

theorem api_key_required:
  "(\<exists>f. require_api_key h st rq = Inr f) \<longleftrightarrow> (\<exists>tok. bearer rq = Some tok \<and> tok \<in> set (configured_keys st))"
proof -
  have "fold (\<lambda>key m. m \<or> p = key) keys b = (b \<or> p \<in> set keys)" for p :: string and keys b
    by (induction keys arbitrary: b) auto
  then show ?thesis
    by (cases "configured_keys st") (auto simp: require_api_key_def Let_def split: option.splits)
qed

text \<open>
  The hourly cap bounds what the service starts. Over any sequence of requests whose
  clock readings do not decrease, whatever their addresses and keys, the requests that pass
  \<open>enforce_spend_limits\<close> in any half-open hour are at most \<open>max_runs_per_hour\<close>.
\<close>

theorem runs_per_hour_capped:
  assumes "sorted (map acquire_time reqs)"
  shows "int (length (filter (\<lambda>a. x \<le> a \<and> a < x + 3600) (admitted_runs reqs (spend_limits_init rpm burst mx)))) \<le> max 0 mx"
proof -
  obtain ts where ts: "subseq ts (map acquire_time reqs)"
    "admitted_runs reqs (spend_limits_init rpm burst mx) = acquisitions ts (sl_hourly (spend_limits_init rpm burst mx))"
    using admitted_runs_acquisitions [of reqs "spend_limits_init rpm burst mx"] by blast
  have "sorted ts" using assms ts(1) by (metis subseq_conv_nths sorted_nths)
  then obtain t where "sorted (t # ts)" by (cases ts) (auto intro: that)
  from acquisitions_bounded [OF this, of x 3600 mx] ts(2) show ?thesis
    by (simp add: spend_limits_init_def Let_def)
qed

theorem runs_per_hour_capped_witness:
  "let rq = \<lparr>rq_headers = [], rq_client_host = None\<rparr>; reqs = [(rq, ''k'', 1, 2, 3), (rq, ''k'', 4, 5, 6)]
   in admitted_runs reqs (spend_limits_init 60 10 1) = [3]
      \<and> int (length (filter (\<lambda>a. 0 \<le> a \<and> a < 0 + 3600) (admitted_runs reqs (spend_limits_init 60 10 1)))) \<le> max 0 1"
  unfolding Let_def
  by (intro conjI runs_per_hour_capped) code_simp+

end
