(* ===== verification/Errors.thy ===== *)
theory Errors
  imports Api_Auth Py_Text
begin

text \<open>
  \<open>src/aitp_playground/errors.py\<close>: the playground's error classes and the handler that
  turns them into responses, and what a route of the playground may raise: an
  \<open>HTTPException\<close> of FastAPI, a \<open>PlaygroundError\<close>, or any other exception (a 500).
\<close>

datatype playground_error = PlaygroundError (pe_code: string) (pe_status: int) (pe_message: string)

definition playground_error :: "string \<Rightarrow> playground_error" where
  "playground_error msg = PlaygroundError ''internal_error'' 500 msg"

definition scenario_not_found_error :: "string \<Rightarrow> playground_error" where
  "scenario_not_found_error msg = PlaygroundError ''scenario_not_found'' 404 msg"

definition agent_manifest_not_found_error :: "string \<Rightarrow> playground_error" where
  "agent_manifest_not_found_error msg = PlaygroundError ''agent_manifest_not_found'' 404 msg"

definition registry_validation_error :: "string \<Rightarrow> playground_error" where
  "registry_validation_error msg = PlaygroundError ''registry_validation_error'' 422 msg"

definition run_not_found_error :: "string \<Rightarrow> playground_error" where
  "run_not_found_error msg = PlaygroundError ''run_not_found'' 404 msg"

definition agent_spawn_error :: "string \<Rightarrow> playground_error" where
  "agent_spawn_error msg = PlaygroundError ''agent_spawn_error'' 500 msg"

definition sdk_feature_unavailable_error :: "string \<Rightarrow> string list \<Rightarrow> string option \<Rightarrow> playground_error" where
  "sdk_feature_unavailable_error scenario_ref missing sdk_version =
     PlaygroundError ''sdk_feature_unavailable'' 409
       (''sdk_feature_unavailable: '' @ scenario_ref @ '' needs '' @ join_str '', '' missing
        @ ''; the installed aitp-sdk ''
        @ (case sdk_version of Some v \<Rightarrow> if v = [] then ''(none)'' else v | None \<Rightarrow> ''(none)'')
        @ '' lacks it'')"

text \<open>What leaves a route, and the status a client sees.\<close>

datatype api_exc = HttpExc deny | Playground playground_error | Unhandled pyexc

abbreviation http_exc :: "int \<Rightarrow> string \<Rightarrow> api_exc" where
  "http_exc st detail \<equiv> HttpExc (Deny st detail [])"

definition handle_playground_error :: "playground_error \<Rightarrow> int \<times> json" where
  "handle_playground_error e =
     (pe_status e, JObj [(''error'', JObj [(''code'', JStr (pe_code e)), (''message'', JStr (pe_message e))])])"

fun api_status :: "api_exc \<Rightarrow> int" where
  "api_status (HttpExc d) = deny_status d"
| "api_status (Playground e) = fst (handle_playground_error e)"
| "api_status (Unhandled _) = 500"

end
