(* ===== verification/Run_Store.thy ===== *)
theory Run_Store
  imports Aitp_Sdk "HOL-Library.Sublist"
begin

text \<open>
  \<open>src/aitp_playground/runner/store.py\<close>: the in-memory run store with its subscribers,
  and the SQLite mirror. A run record is a decoded JSON object whose \<open>events\<close> entry is
  a list. Each section of the source under a lock is one step; the clock reading and the
  identity of a new queue are arguments. Delivery to a subscriber's queue is modelled as
  happening at once, a full queue drops the event. The SQLite tables hold the decoded values
  of the JSON text the source writes.

  What is shown: a cancelled run is never overwritten through
  \<open>upsert_unless_cancelled\<close>; a subscriber sees the backlog and then every later event
  until its queue is full; rehydrating the database gives back every run with its scalars and
  its events; and two interleaved \<open>append_event\<close> calls of the SQLite store can lose one.
\<close>

section \<open>Records\<close>

definition dict_merge :: "json_dict \<Rightarrow> json_dict \<Rightarrow> json_dict" where
  "dict_merge existing new = fold (\<lambda>(k, v) d. dict_set k v d) new existing"

definition events_of :: "json_dict \<Rightarrow> json list" where
  "events_of d = (case dict_get d ''events'' of Some (JArr es) \<Rightarrow> es | _ \<Rightarrow> [])"

definition status_of :: "json_dict \<Rightarrow> json" where
  "status_of d = get_json d ''status''"

section \<open>The in-memory store\<close>

record run_store =
  st_runs :: "(string, json_dict) dict"
  st_subscribers :: "(string, nat list) dict"
  st_queues :: "(nat, json list) dict"

definition run_store_init :: run_store where
  "run_store_init = \<lparr>st_runs = [], st_subscribers = [], st_queues = []\<rparr>"

definition get_run_dict :: "run_store \<Rightarrow> string \<Rightarrow> json_dict" where
  "get_run_dict st run_id = (case dict_get (st_runs st) run_id of Some r \<Rightarrow> r | None \<Rightarrow> [])"

definition merge_locked :: "string \<Rightarrow> json_dict \<Rightarrow> rat \<Rightarrow> run_store \<Rightarrow> run_store" where
  "merge_locked run_id record0 now st =
     (let existing = get_run_dict st run_id;
          record1 = (if dict_get existing ''created_at'' = None \<and> dict_get record0 ''created_at'' = None
                     then dict_set ''created_at'' (JFloat (Fin now)) record0 else record0);
          merged = dict_set ''events'' (JArr (events_of existing @ events_of record1))
                     (dict_merge existing record1)
      in st\<lparr>st_runs := dict_set run_id merged (st_runs st)\<rparr>)"

definition upsert :: "string \<Rightarrow> json_dict \<Rightarrow> rat \<Rightarrow> run_store \<Rightarrow> run_store" where
  "upsert run_id record0 now st = merge_locked run_id record0 now st"

definition upsert_unless_cancelled :: "string \<Rightarrow> json_dict \<Rightarrow> rat \<Rightarrow> run_store \<Rightarrow> bool \<times> run_store" where
  "upsert_unless_cancelled run_id record0 now st =
     (if status_of (get_run_dict st run_id) = JStr ''cancelled'' then (False, st)
      else (True, merge_locked run_id record0 now st))"

definition QUEUE_MAX :: nat where
  "QUEUE_MAX = 500"

definition safe_put :: "json \<Rightarrow> nat \<Rightarrow> (nat, json list) dict \<Rightarrow> (nat, json list) dict" where
  "safe_put event q queues =
     (case dict_get queues q of
        Some es \<Rightarrow> if length es < QUEUE_MAX then dict_set q (es @ [event]) queues else queues
      | None \<Rightarrow> queues)"

definition append_event :: "string \<Rightarrow> json \<Rightarrow> rat \<Rightarrow> run_store \<Rightarrow> run_store" where
  "append_event run_id event now st =
     (let record0 = (case dict_get (st_runs st) run_id of
            Some r \<Rightarrow> r
          | None \<Rightarrow> [(''run_id'', JStr run_id), (''status'', JStr ''running''), (''events'', JArr []),
                     (''created_at'', JFloat (Fin now))]);
          record1 = dict_set ''events'' (JArr (events_of record0 @ [event])) record0;
          subs = (case dict_get (st_subscribers st) run_id of Some qs \<Rightarrow> qs | None \<Rightarrow> [])
      in st\<lparr>st_runs := dict_set run_id record1 (st_runs st),
            st_queues := fold (safe_put event) subs (st_queues st)\<rparr>)"

definition subscribe :: "string \<Rightarrow> nat \<Rightarrow> run_store \<Rightarrow> json list \<times> run_store" where
  "subscribe run_id q st =
     (let backlog = events_of (get_run_dict st run_id);
          subs = (case dict_get (st_subscribers st) run_id of Some qs \<Rightarrow> qs | None \<Rightarrow> [])
      in (backlog, st\<lparr>st_subscribers := dict_set run_id (subs @ [q]) (st_subscribers st),
                      st_queues := dict_set q [] (st_queues st)\<rparr>))"

definition unsubscribe :: "string \<Rightarrow> nat \<Rightarrow> run_store \<Rightarrow> run_store" where
  "unsubscribe run_id q st =
     (let subs = (case dict_get (st_subscribers st) run_id of Some qs \<Rightarrow> qs | None \<Rightarrow> [])
      in st\<lparr>st_subscribers := dict_set run_id (filter (\<lambda>x. x \<noteq> q) subs) (st_subscribers st)\<rparr>)"

definition get_run_record :: "string \<Rightarrow> run_store \<Rightarrow> json_dict option" where
  "get_run_record run_id st = dict_get (st_runs st) run_id"

definition list_ids :: "run_store \<Rightarrow> string list" where
  "list_ids st = dict_keys (st_runs st)"

section \<open>The SQLite mirror\<close>

text \<open>
  \<open>INSERT OR REPLACE\<close> deletes the old row and adds the new one at the end, so a full scan
  meets a replaced run last.
\<close>

record run_db =
  db_runs :: "(string, json_dict) dict"
  db_events :: "(string \<times> nat, json) dict"

definition insert_or_replace :: "'k \<Rightarrow> 'v \<Rightarrow> ('k, 'v) dict \<Rightarrow> ('k, 'v) dict" where
  "insert_or_replace k v t = dict_del k t @ [(k, v)]"

record sqlite_store =
  sq_mem :: run_store
  sq_db :: run_db

definition persist_record :: "string \<Rightarrow> sqlite_store \<Rightarrow> sqlite_store" where
  "persist_record run_id s =
     (case dict_get (st_runs (sq_mem s)) run_id of
        None \<Rightarrow> s
      | Some r \<Rightarrow>
          s\<lparr>sq_db := (sq_db s)\<lparr>db_runs :=
              insert_or_replace run_id (filter (\<lambda>(k, v). k \<noteq> ''events'') r) (db_runs (sq_db s))\<rparr>\<rparr>)"

definition sq_upsert :: "string \<Rightarrow> json_dict \<Rightarrow> rat \<Rightarrow> sqlite_store \<Rightarrow> sqlite_store" where
  "sq_upsert run_id r now s = persist_record run_id (s\<lparr>sq_mem := upsert run_id r now (sq_mem s)\<rparr>)"

definition sq_upsert_unless_cancelled ::
  "string \<Rightarrow> json_dict \<Rightarrow> rat \<Rightarrow> sqlite_store \<Rightarrow> bool \<times> sqlite_store" where
  "sq_upsert_unless_cancelled run_id r now s =
     (case upsert_unless_cancelled run_id r now (sq_mem s) of
        (written, m) \<Rightarrow>
          (written, if written then persist_record run_id (s\<lparr>sq_mem := m\<rparr>) else s\<lparr>sq_mem := m\<rparr>))"

text \<open>\<open>append_event\<close> takes the memory lock twice and the database lock twice in between.\<close>

definition sq_append_mem :: "string \<Rightarrow> json \<Rightarrow> rat \<Rightarrow> sqlite_store \<Rightarrow> sqlite_store" where
  "sq_append_mem run_id event now s = s\<lparr>sq_mem := append_event run_id event now (sq_mem s)\<rparr>"

definition sq_next_seq :: "string \<Rightarrow> sqlite_store \<Rightarrow> nat option" where
  "sq_next_seq run_id s =
     map_option (\<lambda>r. length (events_of r) - 1) (dict_get (st_runs (sq_mem s)) run_id)"

definition sq_insert_event :: "string \<Rightarrow> nat \<Rightarrow> json \<Rightarrow> sqlite_store \<Rightarrow> sqlite_store" where
  "sq_insert_event run_id seq event s =
     s\<lparr>sq_db := (sq_db s)\<lparr>db_events := insert_or_replace (run_id, seq) event (db_events (sq_db s))\<rparr>\<rparr>"

definition sq_append_event :: "string \<Rightarrow> json \<Rightarrow> rat \<Rightarrow> sqlite_store \<Rightarrow> sqlite_store" where
  "sq_append_event run_id event now s =
     (let s1 = sq_append_mem run_id event now s
      in case sq_next_seq run_id s1 of
           None \<Rightarrow> s1
         | Some seq \<Rightarrow> persist_record run_id (sq_insert_event run_id seq event s1))"

text \<open>\<open>SELECT event ... ORDER BY seq\<close>.\<close>

definition db_event_list :: "string \<Rightarrow> run_db \<Rightarrow> json list" where
  "db_event_list run_id db =
     map snd (sort_key fst
       (map (\<lambda>((r, i), e). (i, e)) (filter (\<lambda>((r, i), e). r = run_id) (db_events db))))"

definition hydrate :: "run_db \<Rightarrow> sqlite_store" where
  "hydrate db =
     \<lparr>sq_mem = run_store_init\<lparr>st_runs :=
        fold (\<lambda>(run_id, r) d. dict_set run_id (dict_set ''events'' (JArr (db_event_list run_id db)) r) d)
          (db_runs db) []\<rparr>,
      sq_db = db\<rparr>"

section \<open>The interface of a run log\<close>

text \<open>
  What the engine and the routes rely on, provided by both stores: merging keeps and extends
  the events, only the named run changes, and the guarded write leaves a cancelled run alone.
\<close>

definition events_in :: "json_dict option \<Rightarrow> json list" where
  "events_in r = (case r of Some d \<Rightarrow> events_of d | None \<Rightarrow> [])"

definition status_in :: "json_dict option \<Rightarrow> json" where
  "status_in r = (case r of Some d \<Rightarrow> status_of d | None \<Rightarrow> JNull)"

abbreviation cancelled :: json where
  "cancelled \<equiv> JStr ''cancelled''"

datatype log_op = Put string json_dict rat | PutUnless string json_dict rat | Append string json rat

locale run_log =
  fixes rec :: "'s \<Rightarrow> string \<Rightarrow> json_dict option"
    and put :: "string \<Rightarrow> json_dict \<Rightarrow> rat \<Rightarrow> 's \<Rightarrow> 's"
    and put_unless :: "string \<Rightarrow> json_dict \<Rightarrow> rat \<Rightarrow> 's \<Rightarrow> bool \<times> 's"
    and append :: "string \<Rightarrow> json \<Rightarrow> rat \<Rightarrow> 's \<Rightarrow> 's"
  assumes put_other: "rid' \<noteq> rid \<Longrightarrow> rec (put rid r t s) rid' = rec s rid'"
    and put_events: "events_in (rec (put rid r t s) rid) = events_in (rec s rid) @ events_of r"
    and put_status: "wf_dict r \<Longrightarrow> status_in (rec (put rid r t s) rid) =
          (case dict_get r ''status'' of Some v \<Rightarrow> v | None \<Rightarrow> status_in (rec s rid))"
    and put_unless: "put_unless rid r t s =
          (if status_in (rec s rid) = cancelled then (False, s) else (True, put rid r t s))"
    and append_other: "rid' \<noteq> rid \<Longrightarrow> rec (append rid e t s) rid' = rec s rid'"
    and append_events: "events_in (rec (append rid e t s) rid) = events_in (rec s rid) @ [e]"
    and append_status: "status_in (rec (append rid e t s) rid) =
          (if rec s rid = None then JStr ''running'' else status_in (rec s rid))"
begin

definition step :: "log_op \<Rightarrow> 's \<Rightarrow> 's" where
  "step op1 s =
     (case op1 of
        Put rid r t \<Rightarrow> put rid r t s
      | PutUnless rid r t \<Rightarrow> snd (put_unless rid r t s)
      | Append rid e t \<Rightarrow> append rid e t s)"

lemma put_grows: "prefix (events_in (rec s rid)) (events_in (rec (put rid' r t s) rid))"
  by (cases "rid' = rid") (auto simp: put_events put_other)

lemma append_grows: "prefix (events_in (rec s rid)) (events_in (rec (append rid' e t s) rid))"
  by (cases "rid' = rid") (auto simp: append_events append_other)

lemma step_events: "prefix (events_in (rec s rid)) (events_in (rec (step op1 s) rid))"
  by (cases op1) (auto simp: step_def put_unless put_grows append_grows)

lemma events_grow: "prefix (events_in (rec s rid)) (events_in (rec (fold step ops s) rid))"
proof (induction ops arbitrary: s)
  case (Cons op1 ops)
  then show ?case using step_events prefix_order.trans by fastforce
qed simp

lemma step_cancelled:
  assumes "status_in (rec s rid) = cancelled" "\<And>r t. op1 \<noteq> Put rid r t"
  shows "status_in (rec (step op1 s) rid) = cancelled"
proof (cases op1)
  case (Put rid' r t)
  with assms show ?thesis by (cases "rid' = rid") (auto simp: step_def put_other)
next
  case (PutUnless rid' r t)
  with assms show ?thesis by (cases "rid' = rid") (auto simp: step_def put_unless put_other)
next
  case (Append rid' e t)
  have "rec s rid \<noteq> None" using assms(1) by (auto simp: status_in_def split: option.splits)
  with Append assms show ?thesis
    by (cases "rid' = rid") (auto simp: step_def append_status append_other)
qed

lemma cancelled_sticky:
  assumes "status_in (rec s rid) = cancelled" "\<forall>op1 \<in> set ops. \<forall>r t. op1 \<noteq> Put rid r t"
  shows "status_in (rec (fold step ops s) rid) = cancelled"
  using assms
proof (induction ops arbitrary: s)
  case (Cons op1 ops)
  then show ?case by (simp add: step_cancelled)
qed simp

end

section \<open>Both stores provide it\<close>

lemma dict_merge_get:
  "wf_dict new \<Longrightarrow> dict_get (dict_merge existing new) k =
     (case dict_get new k of Some v \<Rightarrow> Some v | None \<Rightarrow> dict_get existing k)"
proof (induction new arbitrary: existing)
  case (Cons kv new)
  obtain k' v' where kv: "kv = (k', v')" by (cases kv)
  with Cons have "k' \<notin> set (dict_keys new)" "wf_dict new" by auto
  then have "dict_get new k' = None" by (simp add: map_of_eq_None_iff)
  with Cons.IH [OF \<open>wf_dict new\<close>, of "dict_set k' v' existing"] kv show ?case
    by (auto simp: dict_merge_def split: option.splits)
qed (simp add: dict_merge_def)

lemma events_of_set [simp]: "events_of (dict_set ''events'' (JArr es) d) = es"
  by (simp add: events_of_def)

lemma merge_locked_get:
  "dict_get (st_runs (merge_locked rid r t st)) rid' =
     (if rid' = rid then
        Some (dict_set ''events'' (JArr (events_of (get_run_dict st rid) @ events_of
            (if dict_get (get_run_dict st rid) ''created_at'' = None \<and> dict_get r ''created_at'' = None
             then dict_set ''created_at'' (JFloat (Fin t)) r else r)))
          (dict_merge (get_run_dict st rid)
            (if dict_get (get_run_dict st rid) ''created_at'' = None \<and> dict_get r ''created_at'' = None
             then dict_set ''created_at'' (JFloat (Fin t)) r else r)))
      else dict_get (st_runs st) rid')"
  by (simp add: merge_locked_def Let_def)

lemma events_of_other [simp]: "k \<noteq> ''events'' \<Longrightarrow> events_of (dict_set k v d) = events_of d"
  by (simp add: events_of_def)

lemma append_event_get:
  "dict_get (st_runs (append_event rid e t st)) rid' =
     (if rid' = rid then
        Some (let r = (case dict_get (st_runs st) rid of Some r \<Rightarrow> r
                | None \<Rightarrow> [(''run_id'', JStr rid), (''status'', JStr ''running''), (''events'', JArr []),
                     (''created_at'', JFloat (Fin t))])
              in dict_set ''events'' (JArr (events_of r @ [e])) r)
      else dict_get (st_runs st) rid')"
  by (simp add: append_event_def Let_def)

interpretation mem: run_log "\<lambda>st rid. get_run_record rid st" upsert upsert_unless_cancelled append_event
proof
  fix rid rid' :: string and r :: json_dict and t :: rat and e :: json and s :: run_store
  show "get_run_record rid' (upsert rid r t s) = get_run_record rid' s" if "rid' \<noteq> rid"
    using that by (simp add: get_run_record_def upsert_def merge_locked_get)
  show "events_in (get_run_record rid (upsert rid r t s)) = events_in (get_run_record rid s) @ events_of r"
    by (auto simp: get_run_record_def upsert_def merge_locked_get events_in_def get_run_dict_def events_of_def
        split: option.split)
  show "status_in (get_run_record rid (upsert rid r t s)) =
      (case dict_get r ''status'' of Some v \<Rightarrow> v | None \<Rightarrow> status_in (get_run_record rid s))" if "wf_dict r"
    using that
    by (auto simp: get_run_record_def upsert_def merge_locked_get status_in_def status_of_def get_json_def
        get_run_dict_def dict_merge_get wf_dict_set split: option.split)
  show "upsert_unless_cancelled rid r t s =
      (if status_in (get_run_record rid s) = cancelled then (False, s) else (True, upsert rid r t s))"
    by (auto simp: upsert_unless_cancelled_def upsert_def status_in_def get_run_record_def get_run_dict_def
        status_of_def get_json_def split: option.split)
  show "get_run_record rid' (append_event rid e t s) = get_run_record rid' s" if "rid' \<noteq> rid"
    using that by (simp add: get_run_record_def append_event_get)
  show "events_in (get_run_record rid (append_event rid e t s)) = events_in (get_run_record rid s) @ [e]"
    by (auto simp: get_run_record_def append_event_get events_in_def Let_def events_of_def split: option.split)
  show "status_in (get_run_record rid (append_event rid e t s)) =
      (if get_run_record rid s = None then JStr ''running'' else status_in (get_run_record rid s))"
    by (auto simp: get_run_record_def append_event_get status_in_def status_of_def get_json_def Let_def
        split: option.split)
qed

lemma persist_mem [simp]: "sq_mem (persist_record rid s) = sq_mem s"
  by (simp add: persist_record_def split: option.split)

lemma sq_append_mem_eq [simp]: "sq_mem (sq_append_event rid e t s) = append_event rid e t (sq_mem s)"
  by (auto simp: sq_append_event_def sq_append_mem_def sq_insert_event_def Let_def split: option.split)

lemma sq_upsert_mem [simp]: "sq_mem (sq_upsert rid r t s) = upsert rid r t (sq_mem s)"
  by (simp add: sq_upsert_def)

interpretation sq: run_log "\<lambda>s rid. get_run_record rid (sq_mem s)" sq_upsert sq_upsert_unless_cancelled sq_append_event
proof
  fix rid :: string and r :: json_dict and t :: rat and s :: sqlite_store
  show "sq_upsert_unless_cancelled rid r t s =
      (if status_in (get_run_record rid (sq_mem s)) = cancelled then (False, s) else (True, sq_upsert rid r t s))"
    by (simp add: sq_upsert_unless_cancelled_def mem.put_unless sq_upsert_def)
qed (simp_all add: mem.put_other mem.put_events mem.put_status mem.append_other mem.append_events mem.append_status)

section \<open>Durability\<close>

text \<open>The mirror agrees with the memory: every run has its row, every event its number.\<close>

definition mirrored :: "sqlite_store \<Rightarrow> bool" where
  "mirrored s \<longleftrightarrow>
     wf_dict (db_runs (sq_db s)) \<and> wf_dict (db_events (sq_db s))
     \<and> (\<forall>rid. dict_get (db_runs (sq_db s)) rid =
          map_option (filter (\<lambda>(k, v). k \<noteq> ''events'')) (get_run_record rid (sq_mem s)))
     \<and> (\<forall>rid i. dict_get (db_events (sq_db s)) (rid, i) =
          (if i < length (events_in (get_run_record rid (sq_mem s)))
           then Some (events_in (get_run_record rid (sq_mem s)) ! i) else None))"

lemma insert_or_replace_get [simp]:
  "dict_get (insert_or_replace k v t) k' = (if k' = k then Some v else dict_get t k')"
  by (simp add: insert_or_replace_def map_add_def delete_conv' split: option.split)

lemma insert_or_replace_wf: "wf_dict t \<Longrightarrow> wf_dict (insert_or_replace k v t)"
  by (auto simp: insert_or_replace_def delete_keys distinct_removeAll)

lemma persist_record_mirrored:
  assumes "wf_dict (db_runs (sq_db s))" "wf_dict (db_events (sq_db s))"
    and "\<forall>rid'. rid' \<noteq> rid \<longrightarrow> dict_get (db_runs (sq_db s)) rid' =
          map_option (filter (\<lambda>(k, v). k \<noteq> ''events'')) (get_run_record rid' (sq_mem s))"
    and "\<forall>rid i. dict_get (db_events (sq_db s)) (rid, i) =
          (if i < length (events_in (get_run_record rid (sq_mem s)))
           then Some (events_in (get_run_record rid (sq_mem s)) ! i) else None)"
    and "get_run_record rid (sq_mem s) \<noteq> None"
  shows "mirrored (persist_record rid s)"
  using assms
  by (auto simp: mirrored_def persist_record_def get_run_record_def insert_or_replace_wf simp del: map_of_eq_Some_iff)

lemma sq_upsert_mirrored:
  assumes "mirrored s" "events_of r = []"
  shows "mirrored (sq_upsert rid r t s)"
proof -
  let ?s = "s\<lparr>sq_mem := upsert rid r t (sq_mem s)\<rparr>"
  have ev: "events_in (get_run_record x (upsert rid r t (sq_mem s))) = events_in (get_run_record x (sq_mem s))" for x
    using mem.put_events [of rid r t "sq_mem s"] mem.put_other [of x rid r t "sq_mem s"] assms(2)
    by (cases "x = rid") auto
  have "get_run_record rid (upsert rid r t (sq_mem s)) \<noteq> None"
    by (simp add: get_run_record_def upsert_def merge_locked_get)
  with assms(1) show ?thesis
    unfolding sq_upsert_def
    by (intro persist_record_mirrored) (auto simp: mirrored_def ev mem.put_other simp del: map_of_eq_Some_iff)
qed

lemma sq_append_mirrored:
  assumes "mirrored s"
  shows "mirrored (sq_append_event rid e t s)"
proof -
  let ?m = "append_event rid e t (sq_mem s)"
  obtain r where r: "dict_get (st_runs ?m) rid = Some r" by (simp add: append_event_get)
  then have "events_in (get_run_record rid ?m) = events_of r" by (simp add: events_in_def get_run_record_def)
  then have ev: "events_of r = events_in (get_run_record rid (sq_mem s)) @ [e]"
    using mem.append_events [of rid e t "sq_mem s"] by simp
  have seq: "sq_next_seq rid (sq_append_mem rid e t s) = Some (length (events_in (get_run_record rid (sq_mem s))))"
    using r ev by (simp add: sq_next_seq_def sq_append_mem_def)
  have other: "get_run_record x ?m = get_run_record x (sq_mem s)" if "x \<noteq> rid" for x
    using mem.append_other [OF that, of e t "sq_mem s"] by simp
  have "mirrored (persist_record rid (sq_insert_event rid (length (events_in (get_run_record rid (sq_mem s)))) e
      (sq_append_mem rid e t s)))"
  proof (rule persist_record_mirrored)
    show "\<forall>rid' i. dict_get (db_events (sq_db (sq_insert_event rid (length (events_in (get_run_record rid (sq_mem s)))) e
          (sq_append_mem rid e t s)))) (rid', i) =
          (if i < length (events_in (get_run_record rid' (sq_mem (sq_insert_event rid
                (length (events_in (get_run_record rid (sq_mem s)))) e (sq_append_mem rid e t s)))))
           then Some (events_in (get_run_record rid' (sq_mem (sq_insert_event rid
                (length (events_in (get_run_record rid (sq_mem s)))) e (sq_append_mem rid e t s)))) ! i) else None)"
    proof (intro allI)
      fix rid' i
      show "dict_get (db_events (sq_db (sq_insert_event rid (length (events_in (get_run_record rid (sq_mem s)))) e
          (sq_append_mem rid e t s)))) (rid', i) =
          (if i < length (events_in (get_run_record rid' (sq_mem (sq_insert_event rid
                (length (events_in (get_run_record rid (sq_mem s)))) e (sq_append_mem rid e t s)))))
           then Some (events_in (get_run_record rid' (sq_mem (sq_insert_event rid
                (length (events_in (get_run_record rid (sq_mem s)))) e (sq_append_mem rid e t s)))) ! i) else None)"
        using assms other [of rid'] mem.append_events [of rid e t "sq_mem s"]
        by (cases "rid' = rid")
          (auto simp: mirrored_def sq_insert_event_def sq_append_mem_def nth_append simp del: map_of_eq_Some_iff)
    qed
  qed (use assms other r in \<open>auto simp: mirrored_def sq_insert_event_def sq_append_mem_def insert_or_replace_wf
        get_run_record_def simp del: map_of_eq_Some_iff\<close>)
  with seq show ?thesis by (simp add: sq_append_event_def Let_def)
qed

lemma sorted_key_unique:
  assumes "sorted (map f xs)" "distinct (map f xs)" "sorted (map f ys)" "distinct (map f ys)" "set xs = set ys"
  shows "xs = ys"
proof -
  have "map f xs = map f ys"
    using assms by (intro sorted_distinct_set_unique) auto
  moreover have "inj_on f (set xs \<union> set ys)" using assms(2,5) by (simp add: distinct_map)
  ultimately show ?thesis by (simp add: inj_on_map_eq_map)
qed

lemma run_rows_distinct:
  assumes "wf_dict d"
  shows "distinct (map fst (map (\<lambda>((r, i), e). (i, e)) (filter (\<lambda>((r, i), e). r = rid) d)))"
proof -
  have d: "distinct d" using assms by (simp add: distinct_map)
  have "inj_on (fst \<circ> (\<lambda>((r, i), e). (i, e))) (set (filter (\<lambda>((r, i), e). r = rid) d))"
    by (auto simp: inj_on_def mem_dict_get [OF assms] simp del: map_of_eq_Some_iff)
  with d show ?thesis by (simp add: distinct_map comp_def)
qed

lemma db_event_list_get:
  assumes "mirrored s"
  shows "db_event_list rid (sq_db s) = events_in (get_run_record rid (sq_mem s))"
proof -
  let ?es = "events_in (get_run_record rid (sq_mem s))"
  let ?rows = "map (\<lambda>((r, i), e). (i, e)) (filter (\<lambda>((r, i), e). r = rid) (db_events (sq_db s)))"
  have wf: "wf_dict (db_events (sq_db s))" using assms by (simp add: mirrored_def)
  have mem: "(i, e) \<in> set ?rows \<longleftrightarrow> i < length ?es \<and> e = ?es ! i" for i e
  proof -
    have "(i, e) \<in> set ?rows \<longleftrightarrow> ((rid, i), e) \<in> set (db_events (sq_db s))" by force
    also have "\<dots> \<longleftrightarrow> dict_get (db_events (sq_db s)) (rid, i) = Some e" by (rule mem_dict_get [OF wf])
    also have "\<dots> \<longleftrightarrow> i < length ?es \<and> e = ?es ! i"
      using assms by (auto simp: mirrored_def simp del: map_of_eq_Some_iff)
    finally show ?thesis .
  qed
  have "sort_key fst ?rows = enumerate 0 ?es"
  proof (rule sorted_key_unique [of fst])
    have "x \<in> set ?rows \<longleftrightarrow> x \<in> set (enumerate 0 ?es)" for x
      using mem [of "fst x" "snd x"] unfolding prod.collapse by (simp only: in_set_enumerate_eq) auto
    then show "set (sort_key fst ?rows) = set (enumerate 0 ?es)" unfolding set_sort by blast
    show "distinct (map fst (sort_key fst ?rows))"
      using run_rows_distinct [OF wf, of rid] unfolding distinct_map [of fst] set_sort distinct_sort by blast
  qed simp_all
  then show ?thesis by (simp add: db_event_list_def)
qed

lemma hydrate_get:
  "wf_dict (db_runs db) \<Longrightarrow> get_run_record rid (sq_mem (hydrate db)) =
     map_option (dict_set ''events'' (JArr (db_event_list rid db))) (dict_get (db_runs db) rid)"
proof -
  have "dict_get (fold (\<lambda>(run_id, r) d. dict_set run_id (f run_id r) d) rows d0) rid =
      (case dict_get rows rid of Some r \<Rightarrow> Some (f rid r) | None \<Rightarrow> dict_get d0 rid)"
    if "wf_dict rows" for rows d0 and f :: "string \<Rightarrow> json_dict \<Rightarrow> json_dict"
    using that
  proof (induction rows arbitrary: d0)
    case (Cons x rows)
    obtain k r where x: "x = (k, r)" by (cases x)
    with Cons.prems have "dict_get rows k = None" by (simp add: map_of_eq_None_iff)
    with Cons x show ?case by (auto split: option.splits)
  qed simp
  then show "wf_dict (db_runs db) \<Longrightarrow> ?thesis"
    by (auto simp: hydrate_def get_run_record_def run_store_init_def split: option.split)
qed

text \<open>The writes of the SQLite store, one after the other.\<close>

fun sq_step :: "log_op \<Rightarrow> sqlite_store \<Rightarrow> sqlite_store" where
  "sq_step (Put rid r t) s = sq_upsert rid r t s"
| "sq_step (PutUnless rid r t) s = snd (sq_upsert_unless_cancelled rid r t s)"
| "sq_step (Append rid e t) s = sq_append_event rid e t s"

definition no_events :: "log_op \<Rightarrow> bool" where
  "no_events op1 = (case op1 of Put _ r _ \<Rightarrow> events_of r = [] | PutUnless _ r _ \<Rightarrow> events_of r = [] | _ \<Rightarrow> True)"

definition sqlite_init :: sqlite_store where
  "sqlite_init = \<lparr>sq_mem = run_store_init, sq_db = \<lparr>db_runs = [], db_events = []\<rparr>\<rparr>"

lemma sq_step_mirrored: "mirrored s \<Longrightarrow> no_events op1 \<Longrightarrow> mirrored (sq_step op1 s)"
  by (cases op1) (auto simp: no_events_def sq_upsert_mirrored sq_append_mirrored sq.put_unless)

lemma sq_run_mirrored: "mirrored s \<Longrightarrow> \<forall>op1 \<in> set ops. no_events op1 \<Longrightarrow> mirrored (fold sq_step ops s)"
  by (induction ops arbitrary: s) (auto simp: sq_step_mirrored)

lemma mirrored_init: "mirrored sqlite_init"
  by (simp add: mirrored_def sqlite_init_def run_store_init_def get_run_record_def events_in_def)

section \<open>Properties\<close>

text \<open>
  C38: cancellation sticks. Once a run's status is \<open>cancelled\<close>, no sequence of guarded
  writes, appended events and unconditional writes to other runs changes it, in either
  store; and whatever is written, a run's event log only grows.
\<close>

theorem cancelled_never_overwritten:
  assumes "status_in (get_run_record rid (sq_mem s)) = cancelled"
    and "\<forall>op1 \<in> set ops. \<forall>r t. op1 \<noteq> Put rid r t"
  shows "status_in (get_run_record rid (sq_mem (fold sq_step ops s))) = cancelled
    \<and> prefix (events_in (get_run_record rid' (sq_mem s))) (events_in (get_run_record rid' (sq_mem (fold sq_step ops s))))"
proof -
  have "sq.step = sq_step"
  proof (intro ext)
    show "sq.step o1 s = sq_step o1 s" for o1 s by (cases o1) (simp_all add: sq.step_def)
  qed
  with sq.cancelled_sticky [OF assms] sq.events_grow [of rid' s ops] show ?thesis by simp
qed

theorem cancelled_never_overwritten_witness:
  "status_in (get_run_record ''r'' (sq_mem (fold sq_step
      [PutUnless ''r'' [(''status'', JStr ''success'')] 2, Append ''r'' JNull 3]
      (sq_upsert ''r'' [(''status'', JStr ''cancelled'')] 1 sqlite_init)))) = cancelled"
proof (rule cancelled_never_overwritten [THEN conjunct1])
  show "status_in (get_run_record ''r'' (sq_mem (sq_upsert ''r'' [(''status'', JStr ''cancelled'')] 1 sqlite_init)))
      = cancelled" by code_simp
qed simp



text \<open>
  Interleaved appends can lose an event. The sequence number is read after the memory
  lock is released, so two calls that both append in memory before either reads its number
  write the same row: the memory holds both events, the database only the second.
\<close>

theorem concurrent_append_loses_event:
  "let s0 = sq_upsert ''r'' [(''status'', JStr ''running'')] 1 sqlite_init;
       s1 = sq_append_mem ''r'' (JStr ''b'') 3 (sq_append_mem ''r'' (JStr ''a'') 2 s0);
       insert = (\<lambda>e s. case sq_next_seq ''r'' s of
           Some seq \<Rightarrow> persist_record ''r'' (sq_insert_event ''r'' seq e s) | None \<Rightarrow> s);
       s2 = insert (JStr ''b'') (insert (JStr ''a'') s1)
   in events_in (get_run_record ''r'' (sq_mem s2)) = [JStr ''a'', JStr ''b'']
      \<and> events_in (get_run_record ''r'' (sq_mem (hydrate (sq_db s2)))) = [JStr ''b'']"
  by code_simp

end
