(* ===== verification/Webhooks.thy ===== *)
theory Webhooks
  imports Errors Run_Store
begin

text \<open>
  \<open>src/aitp_playground/api/webhooks.py\<close>: the receiver of Control Plane deliveries. The
  keyed hash (HMAC-SHA256 in hexadecimal) is an argument, nothing is assumed of it; header
  values are the Latin-1 bytes received.

  The route looks the run up, waits for the body, and then decides: the model has the record
  the lookup returned as an argument of the second part. \<open>append_event\<close> mutates that
  record, so it is the current one unless an \<open>upsert\<close> replaced it during the wait;
  \<open>receive_cp_webhook\<close> is the route with no such replacement.

  What is shown: a delivery changes the store only when both signatures match the stored
  secret, the signed timestamp is within the window and the body is a JSON object, and then it
  appends exactly one event; a named delivery is recorded at most once; and with a record
  replaced during the wait it can be recorded twice.
\<close>

section \<open>Equality of decoded values\<close>

text \<open>\<open>==\<close> on decoded JSON: numbers and booleans compare by value, dictionaries without
  regard to order.\<close>

fun num_value :: "json \<Rightarrow> pyfloat option" where
  "num_value (JBool b) = Some (Fin (if b then 1 else 0))"
| "num_value (JInt n) = Some (Fin (of_int n))"
| "num_value (JFloat x) = Some x"
| "num_value _ = None"

definition num_eq :: "json \<Rightarrow> json \<Rightarrow> bool" where
  "num_eq a b = (case (num_value a, num_value b) of (Some x, Some y) \<Rightarrow> x = y \<and> x \<noteq> NaN | _ \<Rightarrow> False)"

fun py_eq :: "json \<Rightarrow> json \<Rightarrow> bool"
  and py_eq_list :: "json list \<Rightarrow> json list \<Rightarrow> bool"
  and py_eq_fields :: "(string \<times> json) list \<Rightarrow> (string \<times> json) list \<Rightarrow> bool" where
  "py_eq JNull b = (b = JNull)"
| "py_eq (JStr s) b = (b = JStr s)"
| "py_eq (JArr xs) b = (case b of JArr ys \<Rightarrow> py_eq_list xs ys | _ \<Rightarrow> False)"
| "py_eq (JObj xs) b = (case b of JObj ys \<Rightarrow> length xs = length ys \<and> py_eq_fields xs ys | _ \<Rightarrow> False)"
| "py_eq a b = num_eq a b"
| "py_eq_list [] ys = (ys = [])"
| "py_eq_list (x # xs) ys = (case ys of y # ys' \<Rightarrow> py_eq x y \<and> py_eq_list xs ys' | [] \<Rightarrow> False)"
| "py_eq_fields [] d = True"
| "py_eq_fields ((k, v) # r) d =
     ((case dict_get d k of Some w \<Rightarrow> py_eq v w | None \<Rightarrow> False) \<and> py_eq_fields r d)"

lemma py_eq_JStr [simp]: "py_eq v (JStr s) \<longleftrightarrow> v = JStr s"
  by (cases v) (auto simp: num_eq_def split: option.splits)

section \<open>The delivery's headers\<close>

definition REPLAY_WINDOW_SECS :: rat where
  "REPLAY_WINDOW_SECS = 300"

definition timestamp_re :: "string \<Rightarrow> bool" where
  "timestamp_re s \<longleftrightarrow> 1 \<le> length s \<and> length s \<le> 20 \<and> list_all is_digit s"

definition constant_time_eq :: "string \<Rightarrow> string \<Rightarrow> bool" where
  "constant_time_eq a b \<longleftrightarrow> latin1_utf8 a = b"

definition parse_signature_header :: "string option \<Rightarrow> string option" where
  "parse_signature_header value =
     (case value of
        None \<Rightarrow> None
      | Some v \<Rightarrow>
          if v = [] then None
          else if CHR ''='' \<in> set v then
            (let (scheme, sig) = partition_on (CHR ''='') v
             in if map ascii_lower (latin1_strip scheme) \<noteq> ''sha256'' then None
                else if latin1_strip sig = [] then None else Some (latin1_strip sig))
          else if latin1_strip v = [] then None else Some (latin1_strip v))"

record delivery =
  dl_signature :: "string option"
  dl_event :: "string option"
  dl_delivery :: "string option"
  dl_timestamp :: "string option"
  dl_timestamp_signature :: "string option"
  dl_raw :: string

section \<open>The route\<close>

text \<open>The record's webhook secret.\<close>

definition webhook_secret :: "json_dict \<Rightarrow> api_exc + string" where
  "webhook_secret record0 =
     (case get_json record0 ''cp_webhook'' of
        JObj w \<Rightarrow>
          (case get_json w ''secret'' of
             JStr s \<Rightarrow> if s = [] then Inl (http_exc 401 ''no webhook secret on file'') else Inr s
           | v \<Rightarrow> if truthy v then Inl (Unhandled (PyExc AttributeError None ''encode''))
                  else Inl (http_exc 401 ''no webhook secret on file''))
      | v \<Rightarrow> if truthy v then Inl (Unhandled (PyExc AttributeError None ''get''))
             else Inl (http_exc 401 ''no webhook secret on file''))"

text \<open>Both signatures, the window and the body's shape.\<close>

definition verify_delivery ::
  "(string \<Rightarrow> string \<Rightarrow> string) \<Rightarrow> string \<Rightarrow> delivery \<Rightarrow> rat \<Rightarrow> api_exc + json_dict" where
  "verify_delivery hmac_hex secret d now =
     (case parse_signature_header (dl_signature d) of
        None \<Rightarrow> Inl (http_exc 401 ''missing X-Aitp-Signature'')
      | Some sig \<Rightarrow>
          if \<not> constant_time_eq sig (hmac_hex secret (dl_raw d)) then Inl (http_exc 401 ''bad signature'')
          else
            (case dl_timestamp d of
               None \<Rightarrow> Inl (http_exc 401 ''missing or invalid X-Aitp-Timestamp'')
             | Some ts \<Rightarrow>
                 if \<not> timestamp_re ts then Inl (http_exc 401 ''missing or invalid X-Aitp-Timestamp'')
                 else
                   (case parse_signature_header (dl_timestamp_signature d) of
                      None \<Rightarrow> Inl (http_exc 401 ''missing X-Aitp-Timestamp-Signature'')
                    | Some ts_sig \<Rightarrow>
                        if \<not> constant_time_eq ts_sig (hmac_hex secret (ts @ ''.'' @ dl_raw d))
                        then Inl (http_exc 401 ''bad timestamp signature'')
                        else if \<bar>now - of_int (digits_val ts)\<bar> > REPLAY_WINDOW_SECS
                        then Inl (http_exc 401 ''stale delivery'')
                        else
                          (case (if dl_raw d = [] then Some (JObj [])
                                 else if utf8_valid (dl_raw d) then loads (dl_raw d) else None) of
                             None \<Rightarrow> Inl (http_exc 401 ''delivery body is not JSON'')
                           | Some (JObj body) \<Rightarrow> Inr body
                           | Some _ \<Rightarrow> Inl (http_exc 401 ''delivery body is not a JSON object'')))))"

definition or_header :: "json \<Rightarrow> string option \<Rightarrow> json" where
  "or_header v h = (if truthy v then v else jstr_opt (map_option latin1_utf8 h))"

definition delivery_id_of :: "json_dict \<Rightarrow> delivery \<Rightarrow> json" where
  "delivery_id_of body d = or_header (get_json body ''deliveryId'') (dl_delivery d)"

text \<open>\<open>any(...)\<close> over the run's events; an event that is not a dictionary has no \<open>get\<close>.\<close>

fun already_delivered :: "json \<Rightarrow> json list \<Rightarrow> api_exc + bool" where
  "already_delivered did [] = Inr False"
| "already_delivered did (e # es) =
     (case e of
        JObj ev \<Rightarrow>
          if get_json ev ''type'' = JStr ''cp.webhook.delivered'' \<and> py_eq (get_json ev ''delivery_id'') did
          then Inr True else already_delivered did es
      | _ \<Rightarrow> Inl (Unhandled (PyExc AttributeError None ''get'')))"

definition delivered_event :: "string \<Rightarrow> delivery \<Rightarrow> json_dict \<Rightarrow> rat \<Rightarrow> json" where
  "delivered_event run_id d body now =
     JObj [(''type'', JStr ''cp.webhook.delivered''), (''ts'', JFloat (Fin now)), (''run_id'', JStr run_id),
           (''delivery_id'', delivery_id_of body d),
           (''event_type'', (case dl_event d of
                Some e \<Rightarrow> if e = [] then get_json body ''eventType'' else JStr (latin1_utf8 e)
              | None \<Rightarrow> get_json body ''eventType'')),
           (''payload'', JObj body)]"

text \<open>The part after the lookup, on the record it returned.\<close>

definition receive_on_record ::
  "(string \<Rightarrow> string \<Rightarrow> string) \<Rightarrow> json_dict \<Rightarrow> string \<Rightarrow> delivery \<Rightarrow> rat \<Rightarrow> run_store \<Rightarrow>
    (api_exc + json) \<times> run_store" where
  "receive_on_record hmac_hex record0 run_id d now st =
     (case bindE (webhook_secret record0) (\<lambda>secret. verify_delivery hmac_hex secret d now) of
        Inl e \<Rightarrow> (Inl e, st)
      | Inr body \<Rightarrow>
          (let did = delivery_id_of body d
           in case (if truthy did then already_delivered did (events_of record0) else Inr False) of
                Inl e \<Rightarrow> (Inl e, st)
              | Inr True \<Rightarrow> (Inr (JObj [(''ok'', JBool True), (''duplicate'', JBool True)]), st)
              | Inr False \<Rightarrow>
                  (Inr (JObj [(''ok'', JBool True)]),
                   append_event run_id (delivered_event run_id d body now) now st)))"

definition receive_cp_webhook ::
  "(string \<Rightarrow> string \<Rightarrow> string) \<Rightarrow> string \<Rightarrow> delivery \<Rightarrow> rat \<Rightarrow> run_store \<Rightarrow> (api_exc + json) \<times> run_store" where
  "receive_cp_webhook hmac_hex run_id d now st =
     (case get_run_record run_id st of
        None \<Rightarrow> (Inl (http_exc 410 ''run not found''), st)
      | Some record0 \<Rightarrow> receive_on_record hmac_hex record0 run_id d now st)"

section \<open>Verified deliveries\<close>

text \<open>What a verified delivery carries.\<close>

definition delivery_authentic ::
  "(string \<Rightarrow> string \<Rightarrow> string) \<Rightarrow> string \<Rightarrow> delivery \<Rightarrow> rat \<Rightarrow> json_dict \<Rightarrow> bool" where
  "delivery_authentic hmac_hex secret d now body \<longleftrightarrow>
     (\<exists>sig ts ts_sig.
        parse_signature_header (dl_signature d) = Some sig \<and> latin1_utf8 sig = hmac_hex secret (dl_raw d)
        \<and> dl_timestamp d = Some ts \<and> timestamp_re ts
        \<and> parse_signature_header (dl_timestamp_signature d) = Some ts_sig
        \<and> latin1_utf8 ts_sig = hmac_hex secret (ts @ ''.'' @ dl_raw d)
        \<and> \<bar>now - of_int (digits_val ts)\<bar> \<le> 300
        \<and> (if dl_raw d = [] then body = [] else utf8_valid (dl_raw d) \<and> loads (dl_raw d) = Some (JObj body)))"

lemma verify_delivery_iff:
  "verify_delivery hmac_hex secret d now = Inr body \<longleftrightarrow> delivery_authentic hmac_hex secret d now body"
  by (auto simp: verify_delivery_def delivery_authentic_def constant_time_eq_def REPLAY_WINDOW_SECS_def
      split: option.splits if_splits json.splits)

lemma webhook_secret_iff:
  "webhook_secret r = Inr s \<longleftrightarrow>
     (\<exists>w. dict_get r ''cp_webhook'' = Some (JObj w) \<and> dict_get w ''secret'' = Some (JStr s) \<and> s \<noteq> [])"
  by (auto simp: webhook_secret_def get_json_def split: option.splits json.splits if_splits)

section \<open>Sequences of deliveries\<close>

text \<open>Deliveries of this route and other writes to the store, in some order.\<close>

datatype hook_op = Deliver string delivery rat | Write log_op

fun hook_step :: "(string \<Rightarrow> string \<Rightarrow> string) \<Rightarrow> hook_op \<Rightarrow> run_store \<Rightarrow> run_store" where
  "hook_step h (Deliver rid d now) st = snd (receive_cp_webhook h rid d now st)"
| "hook_step h (Write op1) st = mem.step op1 st"

definition records_delivery :: "string \<Rightarrow> json \<Rightarrow> bool" where
  "records_delivery did e =
     (case e of
        JObj ev \<Rightarrow> get_json ev ''type'' = JStr ''cp.webhook.delivered'' \<and> get_json ev ''delivery_id'' = JStr did
      | _ \<Rightarrow> False)"

text \<open>A write of someone else: it adds no event that records the delivery.\<close>

definition foreign_to :: "string \<Rightarrow> log_op \<Rightarrow> bool" where
  "foreign_to did op1 =
     (case op1 of
        Put _ r _ \<Rightarrow> list_all (\<lambda>e. \<not> records_delivery did e) (events_of r)
      | PutUnless _ r _ \<Rightarrow> list_all (\<lambda>e. \<not> records_delivery did e) (events_of r)
      | Append _ e _ \<Rightarrow> \<not> records_delivery did e)"

abbreviation times_recorded :: "string \<Rightarrow> string \<Rightarrow> run_store \<Rightarrow> nat" where
  "times_recorded did rid st \<equiv> length (filter (records_delivery did) (events_in (get_run_record rid st)))"

lemma already_delivered_sound:
  "already_delivered (JStr did) es = Inr False \<Longrightarrow> filter (records_delivery did) es = []"
  by (induction es) (auto simp: records_delivery_def split: json.splits if_splits)

lemma records_delivered_event:
  "records_delivery did (delivered_event rid d body now) \<longleftrightarrow> delivery_id_of body d = JStr did"
  by (simp add: records_delivery_def delivered_event_def get_json_def)

lemma receive_cases:
  obtains (kept) "snd (receive_cp_webhook h rid d now st) = st"
  | (appended) r s body where "get_run_record rid st = Some r" "webhook_secret r = Inr s"
      "delivery_authentic h s d now body"
      "truthy (delivery_id_of body d) \<Longrightarrow> already_delivered (delivery_id_of body d) (events_of r) = Inr False"
      "receive_cp_webhook h rid d now st =
         (Inr (JObj [(''ok'', JBool True)]), append_event rid (delivered_event rid d body now) now st)"
proof (cases "get_run_record rid st")
  case None
  then show ?thesis by (intro kept) (simp add: receive_cp_webhook_def)
next
  case (Some r)
  show ?thesis
  proof (cases "bindE (webhook_secret r) (\<lambda>secret. verify_delivery h secret d now)")
    case (Inl e)
    with Some show ?thesis by (intro kept) (simp add: receive_cp_webhook_def receive_on_record_def)
  next
    case (Inr body)
    let ?did = "delivery_id_of body d"
    let ?a = "if truthy ?did then already_delivered ?did (events_of r) else Inr False"
    note ev = receive_cp_webhook_def receive_on_record_def Some Inr Let_def
    show ?thesis
    proof (cases "?a = Inr False")
      case True
      from Inr obtain s where "webhook_secret r = Inr s" "verify_delivery h s d now = Inr body"
        by (auto simp: bindE_Inr_iff)
      moreover have "receive_cp_webhook h rid d now st =
          (Inr (JObj [(''ok'', JBool True)]), append_event rid (delivered_event rid d body now) now st)"
        unfolding ev using True by (simp add: Some Inr)
      ultimately show ?thesis using True Some by (intro appended) (auto simp: verify_delivery_iff)
    next
      case False
      then have "truthy ?did" "already_delivered ?did (events_of r) \<noteq> Inr False" by (auto split: if_splits)
      then have "snd (receive_cp_webhook h rid d now st) = st"
        unfolding ev by (auto simp: Some Inr split: sum.split bool.split)
      then show ?thesis by (rule kept)
    qed
  qed
qed

lemma deliver_recorded:
  assumes "did \<noteq> []"
  shows "times_recorded did rid (snd (receive_cp_webhook h rid' d now st)) \<le> max 1 (times_recorded did rid st)"
proof (cases h rid' d now st rule: receive_cases)
  case kept
  then show ?thesis by simp
next
  case (appended r s body)
  show ?thesis
  proof (cases "rid' = rid \<and> delivery_id_of body d = JStr did")
    case True
    with appended assms have "filter (records_delivery did) (events_of r) = []"
      by (auto intro: already_delivered_sound)
    with True appended have "filter (records_delivery did) (events_in (get_run_record rid st)) = []"
      by (simp add: events_in_def)
    with True appended(5) show ?thesis by (simp add: mem.append_events)
  next
    case False
    with appended(5) show ?thesis
      by (cases "rid' = rid") (simp_all add: mem.append_events mem.append_other records_delivered_event)
  qed
qed

lemma foreign_recorded:
  assumes "foreign_to did op1"
  shows "times_recorded did rid (mem.step op1 st) = times_recorded did rid st"
proof -
  have none: "filter (records_delivery did) es = []" if "list_all (\<lambda>e. \<not> records_delivery did e) es" for es
    using that by (simp add: list_all_iff filter_empty_conv)
  show ?thesis
  proof (cases op1)
    case (Put rid' r t)
    with assms show ?thesis
      by (cases "rid = rid'") (simp_all add: mem.step_def mem.put_events mem.put_other foreign_to_def none)
  next
    case (PutUnless rid' r t)
    with assms show ?thesis
      by (cases "rid = rid'")
        (simp_all add: mem.step_def mem.put_unless mem.put_events mem.put_other foreign_to_def none)
  next
    case (Append rid' e t)
    with assms show ?thesis
      by (cases "rid = rid'") (simp_all add: mem.step_def mem.append_events mem.append_other foreign_to_def)
  qed
qed

section \<open>Properties\<close>


text \<open>A delivery to a subscribed run, signed with a stand-in for the keyed hash.\<close>

definition demo_hmac :: "string \<Rightarrow> string \<Rightarrow> string" where
  "demo_hmac secret content = secret @ rev content"

definition demo_hook_run :: run_store where
  "demo_hook_run =
     upsert ''r'' [(''status'', JStr ''running''), (''cp_webhook'', JObj [(''id'', JStr ''w''), (''secret'', JStr ''k'')])] 1
       run_store_init"

definition demo_delivery :: delivery where
  "demo_delivery =
     \<lparr>dl_signature = Some (''sha256='' @ demo_hmac ''k'' ''{}''), dl_event = Some ''tct.revoked'', dl_delivery = Some ''d1'',
      dl_timestamp = Some ''100'', dl_timestamp_signature = Some (demo_hmac ''k'' ''100.{}''), dl_raw = ''{}''\<rparr>"


text \<open>
  A delivery is recorded at most once. Over any sequence of deliveries to any runs and
  other writes that do not themselves record the delivery, a run that starts with no record of
  a named delivery has at most one.
\<close>

theorem delivery_recorded_once:
  assumes "did \<noteq> []" "times_recorded did rid st = 0"
    and "\<forall>op1. Write op1 \<in> set ops \<longrightarrow> foreign_to did op1"
  shows "times_recorded did rid (fold (hook_step h) ops st) \<le> 1"
proof -
  have "times_recorded did rid (fold (hook_step h) ops s) \<le> 1"
    if "times_recorded did rid s \<le> 1" "\<forall>op1. Write op1 \<in> set ops \<longrightarrow> foreign_to did op1" for s
    using that
  proof (induction ops arbitrary: s)
    case (Cons o1 ops)
    have "times_recorded did rid (hook_step h o1 s) \<le> 1"
    proof (cases o1)
      case (Deliver rid' d now)
      then show ?thesis using deliver_recorded [OF assms(1), of rid h rid' d now s] Cons.prems(1) by simp
    next
      case (Write op1)
      with Cons.prems show ?thesis by (simp add: foreign_recorded)
    qed
    with Cons show ?case by simp
  qed simp
  with assms show ?thesis by simp
qed

theorem delivery_recorded_once_witness:
  "let st = fold (hook_step demo_hmac)
       [Deliver ''r'' demo_delivery 200, Write (Append ''r'' (JObj []) 201), Deliver ''r'' demo_delivery 210] demo_hook_run
   in times_recorded ''d1'' ''r'' st \<le> 1 \<and> length (events_in (get_run_record ''r'' st)) = 2"
  unfolding Let_def
proof (intro conjI delivery_recorded_once)
  show "times_recorded ''d1'' ''r'' demo_hook_run = 0" by code_simp
  show "length (events_in (get_run_record ''r'' (fold (hook_step demo_hmac)
       [Deliver ''r'' demo_delivery 200, Write (Append ''r'' (JObj []) 201), Deliver ''r'' demo_delivery 210] demo_hook_run))) = 2"
    by (simp add: mem.step_def) code_simp
qed (auto simp: foreign_to_def records_delivery_def get_json_def)

text \<open>
  A record replaced during the wait for the body. When the run is written with
  \<open>upsert\<close> between a delivery's lookup and the end of its body, the delivery checks the
  replaced record: a retry that was recorded in the meantime is recorded a second time.
\<close>

theorem replaced_record_duplicates_delivery:
  "let seen = the (get_run_record ''r'' demo_hook_run);
       st1 = upsert ''r'' [(''status'', JStr ''success'')] 2 demo_hook_run;
       st2 = snd (receive_cp_webhook demo_hmac ''r'' demo_delivery 200 st1);
       st3 = snd (receive_on_record demo_hmac seen ''r'' demo_delivery 201 st2)
   in times_recorded ''d1'' ''r'' st2 = 1 \<and> times_recorded ''d1'' ''r'' st3 = 2"
  by code_simp

end
