(* ===== verification/Metrics.thy ===== *)
theory Metrics
  imports Aitp_Sdk "HOL-Library.Product_Lexorder"
begin

text \<open>
  \<open>src/aitp_playground/observability/metrics.py\<close>: the counter and gauge registry, the
  translation of run events into metric updates, and the Prometheus text. Every method runs
  under the registry's lock and is one step. Amounts are rationals; their text is given for
  whole amounts, the only ones the sources add.

  What is shown: over any sequence of events that carry a run identifier, the
  \<open>runs_active\<close> gauge is the number of runs that started and have not ended, and every
  terminal event adds exactly one to the run totals.
\<close>

type_synonym labels = "(string \<times> string) list"

record metrics =
  mx_counters :: "(string \<times> labels, rat) dict"
  mx_gauges :: "(string \<times> labels, rat) dict"
  mx_help :: "(string, string) dict"
  mx_started_runs :: "string set"

definition metrics_init :: metrics where
  "metrics_init = \<lparr>mx_counters = [], mx_gauges = [], mx_help = [], mx_started_runs = {}\<rparr>"

definition norm_labels :: "labels \<Rightarrow> labels" where
  "norm_labels ls = sort ls"

definition metrics_reset :: "metrics \<Rightarrow> metrics" where
  "metrics_reset m =
     m\<lparr>mx_counters := fold (\<lambda>n d. dict_set (n, []) 0 d) (dict_keys (mx_help m)) [],
       mx_gauges := [], mx_started_runs := {}\<rparr>"

definition run_started :: "string \<Rightarrow> metrics \<Rightarrow> bool \<times> metrics" where
  "run_started run_id m =
     (if run_id \<in> mx_started_runs m then (False, m)
      else (True, m\<lparr>mx_started_runs := insert run_id (mx_started_runs m)\<rparr>))"

definition run_finished :: "string \<Rightarrow> metrics \<Rightarrow> bool \<times> metrics" where
  "run_finished run_id m =
     (if run_id \<in> mx_started_runs m then (True, m\<lparr>mx_started_runs := mx_started_runs m - {run_id}\<rparr>)
      else (False, m))"

definition setdefault :: "'k \<Rightarrow> 'v \<Rightarrow> ('k, 'v) dict \<Rightarrow> ('k, 'v) dict" where
  "setdefault k v d = (case dict_get d k of None \<Rightarrow> dict_set k v d | Some _ \<Rightarrow> d)"

definition register :: "string \<Rightarrow> string \<Rightarrow> metrics \<Rightarrow> metrics" where
  "register name help_text m =
     m\<lparr>mx_help := setdefault name help_text (mx_help m),
       mx_counters := setdefault (name, []) 0 (mx_counters m)\<rparr>"

definition counter :: "metrics \<Rightarrow> string \<Rightarrow> labels \<Rightarrow> rat" where
  "counter m name ls = (case dict_get (mx_counters m) (name, ls) of Some v \<Rightarrow> v | None \<Rightarrow> 0)"

definition inc :: "string \<Rightarrow> labels \<Rightarrow> rat \<Rightarrow> metrics \<Rightarrow> metrics" where
  "inc name ls amount m =
     m\<lparr>mx_counters := dict_set (name, norm_labels ls) (counter m name (norm_labels ls) + amount) (mx_counters m)\<rparr>"

definition set_gauge :: "string \<Rightarrow> rat \<Rightarrow> labels \<Rightarrow> metrics \<Rightarrow> metrics" where
  "set_gauge name v ls m = m\<lparr>mx_gauges := dict_set (name, norm_labels ls) v (mx_gauges m)\<rparr>"

definition gauge :: "metrics \<Rightarrow> string \<Rightarrow> rat" where
  "gauge m name = (case dict_get (mx_gauges m) (name, []) of Some v \<Rightarrow> v | None \<Rightarrow> 0)"

definition add_gauge :: "string \<Rightarrow> rat \<Rightarrow> rat option \<Rightarrow> metrics \<Rightarrow> metrics" where
  "add_gauge name delta floor0 m =
     (let v = gauge m name + delta
      in m\<lparr>mx_gauges := dict_set (name, []) (case floor0 of None \<Rightarrow> v | Some f \<Rightarrow> max f v) (mx_gauges m)\<rparr>)"

section \<open>The catalog\<close>

abbreviation RUNS_TOTAL :: string where "RUNS_TOTAL \<equiv> ''aitp_playground_runs_total''"
abbreviation HANDSHAKES_TOTAL :: string where "HANDSHAKES_TOTAL \<equiv> ''aitp_playground_handshakes_total''"
abbreviation TCTS_ISSUED_TOTAL :: string where "TCTS_ISSUED_TOTAL \<equiv> ''aitp_playground_tcts_issued_total''"
abbreviation DELEGATIONS_TOTAL :: string where "DELEGATIONS_TOTAL \<equiv> ''aitp_playground_delegations_total''"
abbreviation REVOCATIONS_TOTAL :: string where "REVOCATIONS_TOTAL \<equiv> ''aitp_playground_revocations_total''"
abbreviation KEY_ROTATIONS_TOTAL :: string where "KEY_ROTATIONS_TOTAL \<equiv> ''aitp_playground_key_rotations_total''"
abbreviation CAPABILITY_CALLS_TOTAL :: string where
  "CAPABILITY_CALLS_TOTAL \<equiv> ''aitp_playground_capability_calls_total''"
abbreviation STEP_OUTCOMES_TOTAL :: string where "STEP_OUTCOMES_TOTAL \<equiv> ''aitp_playground_step_outcomes_total''"
abbreviation RUNS_ACTIVE :: string where "RUNS_ACTIVE \<equiv> ''aitp_playground_runs_active''"
abbreviation RUNS_REFUSED_TOTAL :: string where "RUNS_REFUSED_TOTAL \<equiv> ''aitp_playground_runs_refused_total''"

definition metrics_catalog :: metrics where
  "metrics_catalog =
     fold (\<lambda>(n, h). register n h)
       [(RUNS_TOTAL, ''Scenario runs by terminal status''),
        (HANDSHAKES_TOTAL, ''AITP handshakes by outcome''),
        (TCTS_ISSUED_TOTAL, ''Trust Context Tokens issued (any direction)''),
        (DELEGATIONS_TOTAL, ''Delegation operations by outcome''),
        (REVOCATIONS_TOTAL, ''TCT revocations by propagation source''),
        (KEY_ROTATIONS_TOTAL, ''Agent key rotations''),
        (CAPABILITY_CALLS_TOTAL, ''Capability invocations by outcome''),
        (STEP_OUTCOMES_TOTAL, ''Workflow steps by type and outcome''),
        (RUNS_ACTIVE, ''Scenario runs currently executing''),
        (RUNS_REFUSED_TOTAL, ''Scenario runs that failed before run.started, by run.failed code'')]
       metrics_init"

section \<open>Events\<close>

text \<open>\<open>str(v)\<close> of the identifiers and codes events carry.\<close>

fun event_text :: "json \<Rightarrow> string" where
  "event_text (JStr s) = s"
| "event_text (JInt n) = str_int n"
| "event_text (JBool b) = (if b then ''True'' else ''False'')"
| "event_text _ = ''None''"

definition outcome :: "string \<Rightarrow> labels" where
  "outcome v = [(''outcome'', v)]"

text \<open>A terminal event of a run: only a run that started was counted as active.\<close>

definition record_terminal :: "string \<Rightarrow> json_dict \<Rightarrow> metrics \<Rightarrow> metrics" where
  "record_terminal etype event m =
     (let (started, m1) = (case get_json event ''run_id'' of
            JNull \<Rightarrow> (True, m) | rid \<Rightarrow> run_finished (event_text rid) m);
          m2 = (if started then add_gauge RUNS_ACTIVE (- 1) (Some 0) m1
                else if etype = ''run.failed'' then
                  inc RUNS_REFUSED_TOTAL
                    [(''code'', (if truthy (get_json event ''code'') then event_text (get_json event ''code'')
                                 else ''unknown''))] 1 m1
                else m1);
          status0 = snd (partition_on (CHR ''.'') etype);
          status = (if status0 = ''complete'' then ''success'' else status0)
      in inc RUNS_TOTAL [(''status'', status)] 1 m2)"

definition record_event :: "json_dict \<Rightarrow> metrics \<Rightarrow> metrics" where
  "record_event event m =
     (case get_json event ''type'' of
        JStr etype \<Rightarrow>
          if etype = [] then m
          else if etype = ''run.started'' then
            (case get_json event ''run_id'' of
               JNull \<Rightarrow> add_gauge RUNS_ACTIVE 1 None m
             | rid \<Rightarrow>
                 (case run_started (event_text rid) m of
                    (False, m') \<Rightarrow> m'
                  | (True, m') \<Rightarrow> add_gauge RUNS_ACTIVE 1 None m'))
          else if etype \<in> {''run.complete'', ''run.failed'', ''run.cancelled''} then
            record_terminal etype event m
          else if etype = ''trust.established'' then
            inc TCTS_ISSUED_TOTAL [] 1 (inc HANDSHAKES_TOTAL (outcome ''established'') 1 m)
          else if etype \<in> {''handshake.failed'', ''trust.failed''} then
            inc HANDSHAKES_TOTAL (outcome ''failed'') 1 m
          else if etype = ''delegation.issued'' then inc DELEGATIONS_TOTAL (outcome ''issued'') 1 m
          else if etype = ''delegation.redeemed'' then
            inc TCTS_ISSUED_TOTAL [] 1 (inc DELEGATIONS_TOTAL (outcome ''redeemed'') 1 m)
          else if etype = ''delegation.rejected'' then inc DELEGATIONS_TOTAL (outcome ''rejected'') 1 m
          else if etype = ''tct.revoked'' then inc REVOCATIONS_TOTAL [(''source'', ''local'')] 1 m
          else if etype = ''revocation.published'' then inc REVOCATIONS_TOTAL [(''source'', ''cp'')] 1 m
          else if etype = ''identity.key.rotated'' then inc KEY_ROTATIONS_TOTAL [] 1 m
          else if etype = ''step.complete'' then
            (let m1 = inc STEP_OUTCOMES_TOTAL (outcome ''complete'') 1 m
             in if truthy (get_json event ''capability'')
                then inc CAPABILITY_CALLS_TOTAL (outcome ''success'') 1 m1 else m1)
          else if etype \<in> {''step.access_denied'', ''step.unexpected_status''} then
            (let m1 = inc STEP_OUTCOMES_TOTAL (outcome ''denied'') 1 m
             in if truthy (get_json event ''capability'')
                then inc CAPABILITY_CALLS_TOTAL (outcome ''denied'') 1 m1 else m1)
          else if etype = ''step.skipped'' then inc STEP_OUTCOMES_TOTAL (outcome ''skipped'') 1 m
          else m
      | _ \<Rightarrow> m)"

section \<open>Prometheus text\<close>

text \<open>\<open>replace\<close> of the three characters that are escaped in a label value.\<close>

definition prom_escape :: "string \<Rightarrow> string" where
  "prom_escape s =
     concat (map (\<lambda>c. if c = CHR 0x5C then [CHR 0x5C, CHR 0x5C]
                      else if c = CHR 0x22 then [CHR 0x5C, CHR 0x22]
                      else if c = CHR 0x0A then [CHR 0x5C, CHR ''n''] else [c]) s)"

definition amount_text :: "rat \<Rightarrow> string" where
  "amount_text v = str_int \<lfloor>v\<rfloor> @ ''.0''"

definition metric_kinds :: "metrics \<Rightarrow> (string, string) dict" where
  "metric_kinds m =
     fold (\<lambda>n d. dict_set n ''gauge'' d) (map (fst \<circ> fst) (mx_gauges m))
       (fold (\<lambda>n d. setdefault n ''counter'' d) (map (fst \<circ> fst) (mx_counters m)) [])"

fun join_comma :: "string list \<Rightarrow> string" where
  "join_comma [] = []"
| "join_comma [x] = x"
| "join_comma (x # xs) = x @ '','' @ join_comma xs"

definition series_line :: "string \<Rightarrow> labels \<times> rat \<Rightarrow> string" where
  "series_line name lv =
     (case lv of (ls, v) \<Rightarrow>
        if ls = [] then name @ '' '' @ amount_text v
        else name @ ''{'' @ join_comma (map (\<lambda>(k, x). k @ ''='' @ [CHR 0x22] @ prom_escape x @ [CHR 0x22]) ls)
             @ ''} '' @ amount_text v)"

definition metric_lines :: "metrics \<Rightarrow> string \<times> string \<Rightarrow> string list" where
  "metric_lines m nk =
     (case nk of (name, kind) \<Rightarrow>
        (let table = (if kind = ''counter'' then mx_counters m else mx_gauges m);
             series = map (\<lambda>((n, ls), v). (ls, v)) (filter (\<lambda>((n, ls), v). n = name) table)
         in [''# HELP '' @ name @ '' '' @ (case dict_get (mx_help m) name of Some h \<Rightarrow> h | None \<Rightarrow> []),
             ''# TYPE '' @ name @ '' '' @ kind]
            @ map (series_line name) (sort_key fst series)))"

definition format_prometheus :: "metrics \<Rightarrow> string" where
  "format_prometheus m =
     (let kinds = metric_kinds m;
          ls = concat (map (\<lambda>n. metric_lines m (n, the (dict_get kinds n))) (sort (dict_keys kinds)))
      in concat (map (\<lambda>l. l @ [CHR 0x0A]) ls))"

section \<open>Lemmas\<close>

lemma counter_inc [simp]:
  "counter (inc n ls a m) n' ls' = counter m n' ls' + (if n' = n \<and> ls' = sort ls then a else 0)"
  by (simp add: counter_def inc_def norm_labels_def)

lemma counter_other [simp]:
  "counter (add_gauge n d f m) n' ls = counter m n' ls"
  "counter (m\<lparr>mx_started_runs := x\<rparr>) n' ls = counter m n' ls"
  by (simp_all add: counter_def add_gauge_def Let_def)

lemma gauge_simps [simp]:
  "gauge (inc n ls a m) g = gauge m g"
  "gauge (m\<lparr>mx_started_runs := x\<rparr>) g = gauge m g"
  "gauge (add_gauge n d f m) g =
     (if g = n then (case f of None \<Rightarrow> gauge m n + d | Some l \<Rightarrow> max l (gauge m n + d)) else gauge m g)"
  by (simp_all add: gauge_def inc_def add_gauge_def Let_def cong: option.case_cong)

lemma started_simps [simp]:
  "mx_started_runs (inc n ls a m) = mx_started_runs m"
  "mx_started_runs (add_gauge n d f m) = mx_started_runs m"
  by (simp_all add: inc_def add_gauge_def Let_def)

text \<open>The run identifier an event is counted under, and the status it ends a run with.\<close>

definition terminal_status :: "json_dict \<Rightarrow> string option" where
  "terminal_status e =
     (if get_json e ''type'' = JStr ''run.complete'' then Some ''success''
      else if get_json e ''type'' = JStr ''run.failed'' then Some ''failed''
      else if get_json e ''type'' = JStr ''run.cancelled'' then Some ''cancelled'' else None)"

definition run_event_identified :: "json_dict \<Rightarrow> bool" where
  "run_event_identified e \<longleftrightarrow>
     (get_json e ''type'' = JStr ''run.started'' \<or> terminal_status e \<noteq> None \<longrightarrow> get_json e ''run_id'' \<noteq> JNull)"

definition active_inv :: "metrics \<Rightarrow> bool" where
  "active_inv m \<longleftrightarrow> finite (mx_started_runs m) \<and> gauge m RUNS_ACTIVE = of_nat (card (mx_started_runs m))"

lemma terminal_active:
  assumes "active_inv m" "get_json e ''run_id'' \<noteq> JNull"
  shows "active_inv (record_terminal ty e m)"
proof -
  let ?rid = "event_text (get_json e ''run_id'')"
  obtain st m1 where f: "run_finished ?rid m = (st, m1)" by fastforce
  have "active_inv (if st then add_gauge RUNS_ACTIVE (- 1) (Some 0) m1 else m1)"
  proof (cases "?rid \<in> mx_started_runs m")
    case True
    then have "card (mx_started_runs m) \<noteq> 0" using assms(1) by (auto simp: active_inv_def)
    with True f assms(1) show ?thesis
      by (auto simp: run_finished_def active_inv_def card_Diff_singleton of_nat_diff)
  next
    case False
    with f assms(1) show ?thesis by (auto simp: run_finished_def)
  qed
  moreover have "(case get_json e ''run_id'' of JNull \<Rightarrow> (True, m) | rid \<Rightarrow> run_finished (event_text rid) m) = (st, m1)"
    using assms(2) f by (cases "get_json e ''run_id''") auto
  ultimately show ?thesis
    by (auto simp: record_terminal_def active_inv_def Let_def split: if_splits)
qed

lemma started_active:
  assumes "active_inv m"
  shows "active_inv (case run_started rid m of (False, m') \<Rightarrow> m' | (True, m') \<Rightarrow> add_gauge RUNS_ACTIVE 1 None m')"
  using assms by (auto simp: run_started_def active_inv_def)

lemma inc_active [simp]: "active_inv (inc n ls a m) = active_inv m"
  by (simp add: active_inv_def)

lemma record_event_active:
  assumes "active_inv m" "run_event_identified e"
  shows "active_inv (record_event e m)"
proof (cases "get_json e ''type''")
  case (JStr ty)
  show ?thesis
  proof (cases "ty = ''run.started'' \<or> ty \<in> {''run.complete'', ''run.failed'', ''run.cancelled''}")
    case True
    with assms(2) JStr have rid: "get_json e ''run_id'' \<noteq> JNull"
      by (auto simp: run_event_identified_def terminal_status_def)
    show ?thesis
    proof (cases "ty = ''run.started''")
      case True
      with JStr rid started_active [OF assms(1)] show ?thesis
        by (cases "get_json e ''run_id''") (simp_all add: record_event_def)
    next
      case False
      with True JStr terminal_active [OF assms(1) rid] show ?thesis by (auto simp: record_event_def)
    qed
  next
    case False
    with JStr assms(1) show ?thesis by (simp add: record_event_def Let_def)
  qed
qed (simp_all add: record_event_def assms(1))

lemma record_terminal_total:
  "counter (record_terminal ty e m) RUNS_TOTAL [(''status'', s)] =
     counter m RUNS_TOTAL [(''status'', s)]
     + (if (let st = snd (partition_on (CHR ''.'') ty) in if st = ''complete'' then ''success'' else st) = s then 1 else 0)"
  by (auto simp: record_terminal_def Let_def run_finished_def split: json.splits if_splits)

lemma record_event_total:
  "counter (record_event e m) RUNS_TOTAL [(''status'', s)] =
     counter m RUNS_TOTAL [(''status'', s)] + (if terminal_status e = Some s then 1 else 0)"
proof (cases "get_json e ''type''")
  case (JStr ty)
  show ?thesis
  proof (cases "ty \<in> {''run.complete'', ''run.failed'', ''run.cancelled''}")
    case True
    then show ?thesis
      by (auto simp: record_event_def JStr terminal_status_def record_terminal_total partition_on_def Let_def)
  next
    case False
    then show ?thesis
      by (auto simp: record_event_def JStr terminal_status_def Let_def outcome_def run_started_def
          split: json.splits)
  qed
qed (simp_all add: record_event_def terminal_status_def)

section \<open>Properties\<close>

text \<open>
  The active-runs gauge is right. Over any sequence of events in which every event
  that starts or ends a run names it, the \<open>runs_active\<close> gauge is the number of runs that
  started and have not ended (a repeated start and the end of a run refused before it
  started change nothing), and for each terminal status \<open>runs_total\<close> is the number of
  events with that status.
\<close>

theorem runs_active_exact:
  assumes "\<forall>e \<in> set evs. run_event_identified e"
  shows "gauge (fold record_event evs metrics_catalog) RUNS_ACTIVE
      = of_nat (card (mx_started_runs (fold record_event evs metrics_catalog)))
    \<and> counter (fold record_event evs metrics_catalog) RUNS_TOTAL [(''status'', s)]
      = of_nat (length (filter (\<lambda>e. terminal_status e = Some s) evs))"
proof
  have "active_inv (fold record_event evs m)" if "active_inv m" "\<forall>e \<in> set evs. run_event_identified e" for m
    using that by (induction evs arbitrary: m) (auto simp: record_event_active)
  moreover have "active_inv metrics_catalog"
    by (simp add: active_inv_def metrics_catalog_def metrics_init_def register_def gauge_def)
  ultimately show "gauge (fold record_event evs metrics_catalog) RUNS_ACTIVE
      = of_nat (card (mx_started_runs (fold record_event evs metrics_catalog)))"
    using assms by (simp add: active_inv_def)
  have "counter (fold record_event evs m) RUNS_TOTAL [(''status'', s)] =
      counter m RUNS_TOTAL [(''status'', s)] + of_nat (length (filter (\<lambda>e. terminal_status e = Some s) evs))" for m
    by (induction evs arbitrary: m) (auto simp: record_event_total)
  moreover have "counter metrics_catalog RUNS_TOTAL [(''status'', s)] = 0"
    by (simp add: metrics_catalog_def metrics_init_def register_def setdefault_def counter_def)
  ultimately show "counter (fold record_event evs metrics_catalog) RUNS_TOTAL [(''status'', s)]
      = of_nat (length (filter (\<lambda>e. terminal_status e = Some s) evs))" by simp
qed

theorem runs_active_exact_witness:
  "gauge (fold record_event
      [[(''type'', JStr ''run.started''), (''run_id'', JStr ''a'')],
       [(''type'', JStr ''run.started''), (''run_id'', JStr ''b'')],
       [(''type'', JStr ''run.failed''), (''run_id'', JStr ''c'')],
       [(''type'', JStr ''run.complete''), (''run_id'', JStr ''a'')]] metrics_catalog) RUNS_ACTIVE
   = of_nat (card (mx_started_runs (fold record_event
      [[(''type'', JStr ''run.started''), (''run_id'', JStr ''a'')],
       [(''type'', JStr ''run.started''), (''run_id'', JStr ''b'')],
       [(''type'', JStr ''run.failed''), (''run_id'', JStr ''c'')],
       [(''type'', JStr ''run.complete''), (''run_id'', JStr ''a'')]] metrics_catalog)))"
  by (rule runs_active_exact [THEN conjunct1]) (simp add: run_event_identified_def get_json_def)

end
