(* ===== verification/Registry.thy ===== *)
theory Registry
  imports Errors Sdk_Features Run_Store
begin

text \<open>
  \<open>src/aitp_playground/registry/\<close>: the documents of a scenario pack (\<open>models.py\<close>), the
  loader over the directory tree (\<open>loader.py\<close>), templates (\<open>templates.py\<close>) and the
  cached service (\<open>service.py\<close>).

  YAML parsing and pydantic validation are third-party code: a file is given by what loading
  and validating it yields, and \<open>TrustSpec.model_validate\<close> is an argument. Directory
  listings are given in sorted order, the order the loader visits them in.

  What is shown: what a template changes and what it leaves alone, and that the cache never
  answers from a load older than its time to live.
\<close>

section \<open>Documents\<close>

definition API_VERSION :: string where
  "API_VERSION = ''agentidentitytrustprotocol.io/playground/v1''"

definition check_api_version :: "string \<Rightarrow> pyexc + string" where
  "check_api_version v =
     (if v = API_VERSION then Inr v
      else if v \<in> {''aitp.dev/v1''} then
        Inl (PyExc ValueError None (''apiVersion '' @ v @ '' is retired; use '' @ API_VERSION))
      else Inl (PyExc ValueError None (''unsupported apiVersion '' @ v @ ''; expected '' @ API_VERSION)))"

record pack =
  pk_slug :: string
  pk_name :: string
  pk_description :: "string option"
  pk_tags :: "string list"

record agent_spec =
  as_id :: string
  as_ref :: string
  as_port_offset :: int
  as_org :: string
  as_cloud :: "string option"
  as_did_web_host :: "string option"
  as_signing_suite :: "string option"
  as_accepted_identity_types :: "string list option"

record trust_spec =
  ts_boundary :: string
  ts_discovery :: string
  ts_eager :: bool

record step_fault =
  sf_kind :: string
  sf_note :: "string option"

record workflow_step =
  ws_id :: string
  ws_type :: "string option"
  ws_description :: "string option"
  ws_agent :: "string option"
  ws_capability :: "string option"
  ws_input_template :: "string option"
  ws_input_from :: "string option"
  ws_target_agent :: "string option"
  ws_expect_status :: "int option"
  ws_initiator :: "string option"
  ws_responder :: "string option"
  ws_requested_grants :: "string list option"
  ws_issuer :: "string option"
  ws_audience :: "string option"
  ws_via_cp :: "bool option"
  ws_reason :: "string option"
  ws_local_revoke :: "bool option"
  ws_refresh_agents :: "string list option"
  ws_delegator :: "string option"
  ws_delegatee :: "string option"
  ws_via_peer :: "string option"
  ws_scope :: "string list option"
  ws_ttl_secs :: "int option"
  ws_via_delegation :: "string option"
  ws_target :: "string option"
  ws_events :: "string list option"
  ws_new_ttl_secs :: "int option"
  ws_coordinator :: "string option"
  ws_participants :: "string list option"
  ws_verifier :: "string option"
  ws_via_step :: "string option"
  ws_cert_der_b64 :: "string option"
  ws_pins :: "string list option"
  ws_namespace :: "string option"
  ws_issuer_url :: "string option"
  ws_fault :: "step_fault option"

record scenario_meta =
  sm_pack :: string
  sm_scenario :: string
  sm_version :: string
  sm_name :: string
  sm_summary :: "string option"
  sm_tags :: "string list"

record scenario_spec =
  sp_inputs_schema :: json_dict
  sp_agents :: "agent_spec list"
  sp_trust :: trust_spec
  sp_steps :: "workflow_step list"

record scenario_version =
  sv_api_version :: string
  sv_metadata :: scenario_meta
  sv_spec :: scenario_spec

record scenario_template =
  tp_name :: string
  tp_summary :: "string option"
  tp_trust :: "json_dict option"
  tp_agents :: "agent_spec list option"
  tp_steps :: "workflow_step list option"

record aitp_agent_spec =
  aa_offered_caps :: "string list"
  aa_display_name :: string
  aa_identity_type :: string
  aa_accepted_identity_types :: "string list option"
  aa_oidc_issuer :: "string option"
  aa_oidc_subject :: "string option"
  aa_signing_suite :: string
  aa_ttl_secs :: int

record agent_manifest =
  am_id :: string
  am_name :: string
  am_framework :: string
  am_entrypoint :: json_dict
  am_host :: json_dict
  am_aitp :: aitp_agent_spec
  am_did_web :: bool

section \<open>Templates\<close>

definition trust_dump :: "trust_spec \<Rightarrow> json_dict" where
  "trust_dump t =
     [(''boundary'', JStr (ts_boundary t)), (''discovery'', JStr (ts_discovery t)), (''eager'', JBool (ts_eager t))]"

definition ends_with :: "string \<Rightarrow> string \<Rightarrow> bool" where
  "ends_with suffix0 s \<longleftrightarrow> starts_with (rev suffix0) (rev s)"

definition apply_template ::
  "(json_dict \<Rightarrow> pyexc + trust_spec) \<Rightarrow> scenario_version \<Rightarrow> scenario_template \<Rightarrow> pyexc + scenario_version" where
  "apply_template validate base tpl =
     bindE (case tp_trust tpl of
              None \<Rightarrow> Inr (sp_trust (sv_spec base))
            | Some patch \<Rightarrow> validate (dict_merge (trust_dump (sp_trust (sv_spec base))) patch))
       (\<lambda>trust.
          let spec0 = (sv_spec base)\<lparr>sp_trust := trust,
                sp_agents := (case tp_agents tpl of Some a \<Rightarrow> a | None \<Rightarrow> sp_agents (sv_spec base)),
                sp_steps := (case tp_steps tpl of Some s \<Rightarrow> s | None \<Rightarrow> sp_steps (sv_spec base))\<rparr>;
              md = sv_metadata base;
              suffix0 = '' (template: '' @ tp_name tpl @ '')'';
              new_name = (if ends_with suffix0 (sm_name md) then sm_name md else sm_name md @ suffix0);
              new_summary = (case tp_summary tpl of
                 Some s \<Rightarrow> if s = [] then sm_summary md else Some s | None \<Rightarrow> sm_summary md)
          in Inr \<lparr>sv_api_version = sv_api_version base,
                  sv_metadata = md\<lparr>sm_name := new_name, sm_summary := new_summary\<rparr>, sv_spec = spec0\<rparr>)"

section \<open>The loader\<close>

record loaded_registry =
  lr_packs :: "(string, pack) dict"
  lr_scenarios :: "(string, scenario_version) dict"
  lr_agents :: "(string, agent_manifest) dict"
  lr_templates :: "(string, (string, scenario_template) dict) dict"

text \<open>A file under \<open>templates/\<close>: not a template, refused by validation, or a template.\<close>

datatype template_file = NotATemplate | BadTemplate string | TemplateFile scenario_template

text \<open>A version directory (its \<open>scenario.yaml\<close>, if any, and its templates) and a pack
  directory.\<close>

record version_dir =
  vd_scenario :: "(string + scenario_version) option"
  vd_templates :: "(string \<times> template_file) list"

record pack_dir =
  pd_name :: string
  pd_is_dir :: bool
  pd_pack :: "(string + pack) option"
  pd_versions :: "version_dir list"

record scenarios_tree =
  tree_exists :: bool
  tree_agents :: "(string \<times> (string + agent_manifest)) list"
  tree_packs :: "pack_dir list"

definition validated :: "string + 'v \<Rightarrow> playground_error + 'v" where
  "validated r = (case r of Inl msg \<Rightarrow> Inl (registry_validation_error msg) | Inr v \<Rightarrow> Inr v)"

fun load_templates ::
  "(string \<times> template_file) list \<Rightarrow> (string, scenario_template) dict \<Rightarrow>
    playground_error + (string, scenario_template) dict" where
  "load_templates [] out = Inr out"
| "load_templates ((p, NotATemplate) # fs) out = load_templates fs out"
| "load_templates ((p, BadTemplate msg) # fs) out = Inl (registry_validation_error (p @ '': '' @ msg))"
| "load_templates ((p, TemplateFile tpl) # fs) out =
     (if dict_get out (tp_name tpl) \<noteq> None
      then Inl (registry_validation_error (p @ '': duplicate template name '' @ tp_name tpl))
      else load_templates fs (dict_set (tp_name tpl) tpl out))"

definition scenario_key :: "scenario_version \<Rightarrow> string" where
  "scenario_key sv =
     sm_pack (sv_metadata sv) @ ''/'' @ sm_scenario (sv_metadata sv) @ ''@'' @ sm_version (sv_metadata sv)"

definition load_version :: "version_dir \<Rightarrow> loaded_registry \<Rightarrow> playground_error + loaded_registry" where
  "load_version vd reg =
     (case vd_scenario vd of
        None \<Rightarrow> Inr reg
      | Some f \<Rightarrow>
          bindE (validated f) (\<lambda>sv.
            bindE (load_templates (vd_templates vd) []) (\<lambda>tpls.
              let reg1 = reg\<lparr>lr_scenarios := dict_set (scenario_key sv) sv (lr_scenarios reg)\<rparr>
              in Inr (if tpls = [] then reg1
                      else reg1\<lparr>lr_templates := dict_set (scenario_key sv) tpls (lr_templates reg1)\<rparr>))))"

fun load_all :: "('x \<Rightarrow> loaded_registry \<Rightarrow> playground_error + loaded_registry) \<Rightarrow> 'x list \<Rightarrow> loaded_registry \<Rightarrow>
    playground_error + loaded_registry" where
  "load_all f [] reg = Inr reg"
| "load_all f (x # xs) reg = bindE (f x reg) (load_all f xs)"

definition load_pack :: "pack_dir \<Rightarrow> loaded_registry \<Rightarrow> playground_error + loaded_registry" where
  "load_pack pd reg =
     (if \<not> pd_is_dir pd \<or> starts_with ''_'' (pd_name pd) then Inr reg
      else
        (case pd_pack pd of
           None \<Rightarrow> Inr reg
         | Some f \<Rightarrow>
             bindE (validated f) (\<lambda>pk.
               load_all load_version (pd_versions pd)
                 (reg\<lparr>lr_packs := dict_set (pk_slug pk) pk (lr_packs reg)\<rparr>))))"

definition load_agent :: "string \<times> (string + agent_manifest) \<Rightarrow> loaded_registry \<Rightarrow> playground_error + loaded_registry" where
  "load_agent fm reg =
     (case fm of (ref, f) \<Rightarrow>
        bindE (validated f) (\<lambda>am. Inr (reg\<lparr>lr_agents := dict_set ref am (lr_agents reg)\<rparr>)))"

definition registry_load :: "scenarios_tree \<Rightarrow> playground_error + loaded_registry" where
  "registry_load tree =
     (if \<not> tree_exists tree then Inl (registry_validation_error ''scenarios_dir does not exist'')
      else
        bindE (load_all load_agent (tree_agents tree)
                 \<lparr>lr_packs = [], lr_scenarios = [], lr_agents = [], lr_templates = []\<rparr>)
          (load_all load_pack (tree_packs tree)))"

section \<open>The service\<close>

record registry_service =
  rg_ttl_ms :: rat
  rg_cached :: "loaded_registry option"
  rg_loaded_at_ms :: rat

definition registry_service_init :: "rat \<Rightarrow> registry_service" where
  "registry_service_init ttl = \<lparr>rg_ttl_ms = ttl, rg_cached = None, rg_loaded_at_ms = 0\<rparr>"

text \<open>The clock reading in milliseconds and the tree on disk at that moment are arguments.\<close>

definition maybe_reload ::
  "rat \<Rightarrow> scenarios_tree \<Rightarrow> registry_service \<Rightarrow> (playground_error + loaded_registry) \<times> registry_service" where
  "maybe_reload now tree rg =
     (case rg_cached rg of
        Some reg \<Rightarrow>
          if rg_ttl_ms rg = 0 \<or> now - rg_loaded_at_ms rg \<ge> rg_ttl_ms rg then
            (case registry_load tree of
               Inl e \<Rightarrow> (Inl e, rg)
             | Inr reg' \<Rightarrow> (Inr reg', rg\<lparr>rg_cached := Some reg', rg_loaded_at_ms := now\<rparr>))
          else (Inr reg, rg)
      | None \<Rightarrow>
          (case registry_load tree of
             Inl e \<Rightarrow> (Inl e, rg)
           | Inr reg' \<Rightarrow> (Inr reg', rg\<lparr>rg_cached := Some reg', rg_loaded_at_ms := now\<rparr>)))"

definition get_scenario :: "loaded_registry \<Rightarrow> string \<Rightarrow> playground_error + scenario_version" where
  "get_scenario reg ref =
     (case dict_get (lr_scenarios reg) ref of
        None \<Rightarrow> Inl (scenario_not_found_error (''scenario not found: '' @ ref)) | Some sv \<Rightarrow> Inr sv)"

definition templates_of :: "loaded_registry \<Rightarrow> string \<Rightarrow> (string, scenario_template) dict" where
  "templates_of reg ref = (case dict_get (lr_templates reg) ref of Some d \<Rightarrow> d | None \<Rightarrow> [])"

definition list_templates :: "loaded_registry \<Rightarrow> string \<Rightarrow> playground_error + scenario_template list" where
  "list_templates reg ref = bindE (get_scenario reg ref) (\<lambda>_. Inr (map snd (templates_of reg ref)))"

definition get_template :: "loaded_registry \<Rightarrow> string \<Rightarrow> string \<Rightarrow> playground_error + scenario_template" where
  "get_template reg ref name =
     bindE (get_scenario reg ref) (\<lambda>_.
       case dict_get (templates_of reg ref) name of
         None \<Rightarrow> Inl (scenario_not_found_error (''template '' @ name @ '' not found for scenario '' @ ref))
       | Some tpl \<Rightarrow> Inr tpl)"

text \<open>A lookup fails with a \<open>PlaygroundError\<close>; an invalid trust patch of a template raises
  pydantic's \<open>ValidationError\<close>, which is not one.\<close>

definition get_scenario_resolved ::
  "(json_dict \<Rightarrow> pyexc + trust_spec) \<Rightarrow> loaded_registry \<Rightarrow> string \<Rightarrow> string option \<Rightarrow> api_exc + scenario_version" where
  "get_scenario_resolved validate reg ref template =
     (case get_scenario reg ref of
        Inl e \<Rightarrow> Inl (Playground e)
      | Inr base \<Rightarrow>
          (case template of
             None \<Rightarrow> Inr base
           | Some name \<Rightarrow>
               (case get_template reg ref name of
                  Inl e \<Rightarrow> Inl (Playground e)
                | Inr tpl \<Rightarrow>
                    (case apply_template validate base tpl of
                       Inl e \<Rightarrow> Inl (Unhandled e) | Inr sv \<Rightarrow> Inr sv))))"

text \<open>\<open>by_ref\<close> is the direct file load for a reference outside \<open>_shared/\<close>.\<close>

definition get_agent_manifest ::
  "(string \<Rightarrow> pyexc + agent_manifest) \<Rightarrow> loaded_registry \<Rightarrow> string \<Rightarrow> playground_error + agent_manifest" where
  "get_agent_manifest by_ref reg ref =
     (case dict_get (lr_agents reg) ref of
        Some am \<Rightarrow> Inr am
      | None \<Rightarrow>
          (case by_ref ref of
             Inr am \<Rightarrow> Inr am
           | Inl _ \<Rightarrow> Inl (agent_manifest_not_found_error (''agent manifest not found: '' @ ref))))"

section \<open>Sequences of lookups\<close>

fun lookups :: "(rat \<times> scenarios_tree) list \<Rightarrow> registry_service \<Rightarrow> (rat \<times> (playground_error + loaded_registry)) list" where
  "lookups [] rg = []"
| "lookups ((t, tree) # rest) rg =
     (case maybe_reload t tree rg of (r, rg') \<Rightarrow> (t, r) # lookups rest rg')"

text \<open>The cached value is what some tree loaded to, at the recorded moment.\<close>

definition cache_inv :: "(rat \<times> scenarios_tree) set \<Rightarrow> registry_service \<Rightarrow> bool" where
  "cache_inv hist rg \<longleftrightarrow>
     (\<forall>reg. rg_cached rg = Some reg \<longrightarrow>
        (\<exists>tree. (rg_loaded_at_ms rg, tree) \<in> hist \<and> registry_load tree = Inr reg))"

lemma maybe_reload_inv:
  assumes "cache_inv hist rg" "0 \<le> rg_ttl_ms rg"
  shows "cache_inv (insert (t, tree) hist) (snd (maybe_reload t tree rg))
    \<and> (\<forall>reg. fst (maybe_reload t tree rg) = Inr reg \<longrightarrow>
         (\<exists>t' tree'. (t', tree') \<in> insert (t, tree) hist \<and> registry_load tree' = Inr reg
            \<and> (t' = t \<or> t - t' < rg_ttl_ms rg)))
    \<and> rg_ttl_ms (snd (maybe_reload t tree rg)) = rg_ttl_ms rg"
proof -
  have old: "cache_inv (insert (t, tree) hist) rg" using assms(1) unfolding cache_inv_def by blast
  show ?thesis
  proof (cases "rg_cached rg")
    case None
    with old assms show ?thesis
      by (cases "registry_load tree") (auto simp: maybe_reload_def cache_inv_def)
  next
    case (Some reg)
    with assms(1) obtain tree' where "(rg_loaded_at_ms rg, tree') \<in> hist" "registry_load tree' = Inr reg"
      unfolding cache_inv_def by blast
    with Some old assms(2) show ?thesis
      by (cases "registry_load tree") (auto simp: maybe_reload_def cache_inv_def not_le)
  qed
qed

text \<open>What a template changes: at most the trust block, the agents, the steps and the two
  display texts. The scenario keeps its key and its input schema.\<close>

lemma apply_template_frame:
  assumes "apply_template validate base tpl = Inr sv"
  shows "scenario_key sv = scenario_key base" "sp_inputs_schema (sv_spec sv) = sp_inputs_schema (sv_spec base)"
    "tp_agents tpl = None \<Longrightarrow> sp_agents (sv_spec sv) = sp_agents (sv_spec base)"
    "tp_agents tpl = Some a \<Longrightarrow> sp_agents (sv_spec sv) = a"
    "tp_steps tpl = None \<Longrightarrow> sp_steps (sv_spec sv) = sp_steps (sv_spec base)"
    "tp_steps tpl = Some s \<Longrightarrow> sp_steps (sv_spec sv) = s"
    "tp_trust tpl = None \<Longrightarrow> sp_trust (sv_spec sv) = sp_trust (sv_spec base)"
  using assms by (auto simp: apply_template_def bindE_Inr_iff Let_def scenario_key_def)

section \<open>Properties\<close>

text \<open>
  The cache is never stale. Over any sequence of lookups, each answered value was loaded
  from the tree as it was at this lookup or at an earlier one less than the time to live
  before it; with a time to live of zero it is this lookup's own tree.
\<close>

theorem registry_never_stale:
  assumes "0 \<le> ttl" "(t, Inr reg) \<in> set (lookups reqs (registry_service_init ttl))"
  shows "\<exists>t' tree. (t', tree) \<in> set reqs \<and> registry_load tree = Inr reg \<and> (t' = t \<or> t - t' < ttl)"
proof -
  have "\<exists>t' tree. (t', tree) \<in> set reqs \<union> hist \<and> registry_load tree = Inr reg \<and> (t' = t \<or> t - t' < ttl)"
    if "cache_inv hist rg" "rg_ttl_ms rg = ttl" "(t, Inr reg) \<in> set (lookups reqs rg)" for hist rg
    using that
  proof (induction reqs arbitrary: hist rg)
    case (Cons q reqs)
    obtain t0 tree0 where q: "q = (t0, tree0)" by (cases q)
    obtain r rg' where m: "maybe_reload t0 tree0 rg = (r, rg')" by fastforce
    note inv = maybe_reload_inv [OF Cons.prems(1), of t0 tree0, unfolded m fst_conv snd_conv]
    show ?case
    proof (cases "(t, Inr reg) = (t0, r)")
      case True
      with inv Cons.prems(2) assms(1) q show ?thesis by fastforce
    next
      case False
      with Cons.prems q m have "(t, Inr reg) \<in> set (lookups reqs rg')" by auto
      with Cons.IH [of "insert (t0, tree0) hist" rg'] inv Cons.prems(2) assms(1) q show ?thesis by fastforce
    qed
  qed simp
  from this [of "{}" "registry_service_init ttl"] assms(2) show ?thesis
    by (auto simp: cache_inv_def registry_service_init_def)
qed

theorem registry_never_stale_witness:
  "let tree = \<lparr>tree_exists = True, tree_agents = [], tree_packs = []\<rparr>;
       gone = tree\<lparr>tree_exists := False\<rparr>;
       reg = \<lparr>lr_packs = [], lr_scenarios = [], lr_agents = [], lr_templates = []\<rparr>;
       reqs = [(1 :: rat, tree), (5, gone), (20, gone)]
   in \<exists>t' tree'. (t', tree') \<in> set reqs \<and> registry_load tree' = Inr reg \<and> (t' = 5 \<or> 5 - t' < 10)"
  unfolding Let_def by (rule registry_never_stale) code_simp+

end
