(* ===== verification/Cp_Client.thy ===== *)
theory Cp_Client
  imports Errors
begin

text \<open>
  \<open>src/aitp_playground/cp_client/client.py\<close>: the client of the Control Plane. Every call is a
  request (or none) and a reading of the answer; the exchange itself is the caller's. No call
  raises: a disabled client, a transport error, an error status and an unreadable body all
  give the call's neutral value.

  What is shown: every reader is total and gives only what a successful answer holds, and a
  failed listing of the webhooks is never read as \<open>there are none\<close>.
\<close>

record cp_settings =
  cs_base_url :: string
  cs_api_key :: string

record cp_request =
  cq_method :: string
  cq_url :: string
  cq_params :: "(string \<times> json) list"
  cq_body :: "json option"
  cq_headers :: "(string \<times> string) list"

definition cp_enabled :: "cp_settings \<Rightarrow> bool" where
  "cp_enabled cs \<longleftrightarrow> cs_base_url cs \<noteq> []"

definition cp_headers :: "cp_settings \<Rightarrow> (string \<times> string) list" where
  "cp_headers cs =
     (''Content-Type'', ''application/json'')
     # (if cs_api_key cs = [] then [] else [(''Authorization'', ''Bearer '' @ cs_api_key cs)])"

definition cp_req :: "cp_settings \<Rightarrow> string \<Rightarrow> string \<Rightarrow> (string \<times> json) list \<Rightarrow> json option \<Rightarrow> cp_request" where
  "cp_req cs meth path params body =
     \<lparr>cq_method = meth, cq_url = rstrip_slash (cs_base_url cs) @ path, cq_params = params, cq_body = body,
      cq_headers = cp_headers cs\<rparr>"

text \<open>\<open>raise_for_status\<close> and \<open>json()\<close>: \<open>None\<close> when either raises.\<close>

definition success_status :: "int \<Rightarrow> bool" where
  "success_status st \<longleftrightarrow> 200 \<le> st \<and> st \<le> 299"

definition ok_answer :: "http_result \<Rightarrow> bool" where
  "ok_answer r = (case r of Inr (st, _) \<Rightarrow> success_status st | Inl _ \<Rightarrow> False)"

definition answer_json :: "http_result \<Rightarrow> json option" where
  "answer_json r =
     (case r of Inr (st, content) \<Rightarrow> if success_status st then loads_bytes content else None | Inl _ \<Rightarrow> None)"

text \<open>\<open>if v: d[k] = v\<close> for an optional string.\<close>

definition put_if :: "string \<Rightarrow> string option \<Rightarrow> json_dict \<Rightarrow> json_dict" where
  "put_if k v d = (case v of Some s \<Rightarrow> if s = [] then d else dict_set k (JStr s) d | None \<Rightarrow> d)"

text \<open>\<open>list(v)\<close> on a decoded value.\<close>

definition list_of :: "json \<Rightarrow> pyexc + json list" where
  "list_of v = json_iter v"

section \<open>Reading\<close>

definition discover_request :: "cp_settings \<Rightarrow> string \<Rightarrow> cp_request option" where
  "discover_request cs cap =
     (if cp_enabled cs then Some (cp_req cs ''GET'' ''/api/registry/agents'' [(''capability'', JStr cap)] None) else None)"

definition discover_by_capability :: "http_result \<Rightarrow> json list" where
  "discover_by_capability r =
     (case answer_json r of
        Some (JObj d) \<Rightarrow>
          (case list_of (case dict_get d ''agents'' of Some v \<Rightarrow> v | None \<Rightarrow> JArr []) of Inr xs \<Rightarrow> xs | Inl _ \<Rightarrow> [])
      | Some (JArr xs) \<Rightarrow> xs
      | _ \<Rightarrow> [])"

definition ingest_request :: "cp_settings \<Rightarrow> json list \<Rightarrow> cp_request option" where
  "ingest_request cs events =
     (if \<not> cp_enabled cs \<or> events = [] then None
      else Some (cp_req cs ''POST'' ''/api/events'' [] (Some (JObj [(''events'', JArr events)]))))"

definition publish_revocation_request :: "cp_settings \<Rightarrow> string \<Rightarrow> string \<Rightarrow> string option \<Rightarrow> cp_request option" where
  "publish_revocation_request cs jti reason iss =
     (if \<not> cp_enabled cs \<or> jti = [] then None
      else Some (cp_req cs ''POST'' ''/api/revocation/entries'' []
                  (Some (JObj (put_if ''reason'' (Some reason) (put_if ''iss'' iss [(''jti'', JStr jti)]))))))"

definition publish_revocation :: "http_result \<Rightarrow> bool" where
  "publish_revocation r = ok_answer r"

definition events_history_request ::
  "cp_settings \<Rightarrow> string option \<Rightarrow> string option \<Rightarrow> string option \<Rightarrow> int \<Rightarrow> cp_request option" where
  "events_history_request cs run_id aid ty limit =
     (if cp_enabled cs then
        Some (cp_req cs ''GET'' ''/api/events/history''
          (put_if ''type'' ty (put_if ''aid'' aid (put_if ''run_id'' run_id [(''limit'', JInt limit)]))) None)
      else None)"

definition sessions_request ::
  "cp_settings \<Rightarrow> string option \<Rightarrow> string option \<Rightarrow> string option \<Rightarrow> int \<Rightarrow> cp_request option" where
  "sessions_request cs run_id aid status limit =
     (if cp_enabled cs then
        Some (cp_req cs ''GET'' ''/api/sessions''
          (put_if ''status'' status (put_if ''aid'' aid (put_if ''run_id'' run_id [(''limit'', JInt limit)]))) None)
      else None)"

text \<open>
  \<open>{key: [...]}\<close> or a bare list. The conversion \<open>list(data.get(key) or [])\<close> stands after the
  \<open>try\<close>, so a truthy value that cannot be iterated raises \<open>TypeError\<close>.
\<close>

definition read_list :: "string \<Rightarrow> http_result \<Rightarrow> pyexc + json list" where
  "read_list key r =
     (case answer_json r of
        Some (JObj d) \<Rightarrow> if truthy (get_json d key) then list_of (get_json d key) else Inr []
      | Some (JArr xs) \<Rightarrow> Inr xs
      | _ \<Rightarrow> Inr [])"

abbreviation fetch_events_history :: "http_result \<Rightarrow> pyexc + json list" where
  "fetch_events_history \<equiv> read_list ''events''"

abbreviation fetch_sessions :: "http_result \<Rightarrow> pyexc + json list" where
  "fetch_sessions \<equiv> read_list ''sessions''"

definition get_list_request :: "cp_settings \<Rightarrow> string \<Rightarrow> (string \<times> json) list \<Rightarrow> cp_request option" where
  "get_list_request cs path params =
     (if cp_enabled cs then Some (cp_req cs ''GET'' path (filter (\<lambda>(k, v). v \<noteq> JNull) params) None) else None)"

abbreviation flag :: "bool option \<Rightarrow> json" where
  "flag b \<equiv> (if b = Some True then JStr ''true'' else JNull)"

definition tcts_request ::
  "cp_settings \<Rightarrow> string option \<Rightarrow> string option \<Rightarrow> string option \<Rightarrow> string option \<Rightarrow> string option \<Rightarrow> bool option \<Rightarrow>
    int \<Rightarrow> cp_request option" where
  "tcts_request cs issuer subject audience capability session_id active limit =
     get_list_request cs ''/api/tcts''
       [(''issuer'', jstr_opt issuer), (''subject'', jstr_opt subject), (''audience'', jstr_opt audience),
        (''capability'', jstr_opt capability), (''sessionId'', jstr_opt session_id), (''active'', flag active),
        (''limit'', JInt limit)]"

definition delegations_request ::
  "cp_settings \<Rightarrow> string option \<Rightarrow> string option \<Rightarrow> string option \<Rightarrow> string option \<Rightarrow> bool option \<Rightarrow> int \<Rightarrow>
    cp_request option" where
  "delegations_request cs root_jti parent_jti delegator delegatee active limit =
     get_list_request cs ''/api/delegations''
       [(''root_jti'', jstr_opt root_jti), (''parent_jti'', jstr_opt parent_jti), (''delegator'', jstr_opt delegator),
        (''delegatee'', jstr_opt delegatee), (''active'', flag active), (''limit'', JInt limit)]"

definition replay_request :: "cp_settings \<Rightarrow> string \<Rightarrow> string option \<Rightarrow> string option \<Rightarrow> int \<Rightarrow> cp_request option" where
  "replay_request cs session_id since until limit =
     (if session_id = [] then None
      else get_list_request cs (''/api/sessions/'' @ session_id @ ''/replay'')
             [(''since'', jstr_opt since), (''until'', jstr_opt until), (''limit'', JInt limit)])"

definition overview_request :: "cp_settings \<Rightarrow> string \<Rightarrow> cp_request option" where
  "overview_request cs window =
     (if cp_enabled cs then Some (cp_req cs ''GET'' ''/api/dashboard/overview'' [(''range'', JStr window)] None) else None)"

definition fetch_dashboard_overview :: "http_result \<Rightarrow> json_dict" where
  "fetch_dashboard_overview r = (case answer_json r of Some (JObj d) \<Rightarrow> d | _ \<Rightarrow> [])"

definition trust_anchors_request :: "cp_settings \<Rightarrow> string option \<Rightarrow> cp_request option" where
  "trust_anchors_request cs namespace = get_list_request cs ''/api/trust-anchors'' [(''namespace'', jstr_opt namespace)]"

definition pinned_keys_request :: "cp_settings \<Rightarrow> string option \<Rightarrow> cp_request option" where
  "pinned_keys_request cs namespace = get_list_request cs ''/api/pinned-keys'' [(''namespace'', jstr_opt namespace)]"

section \<open>Webhooks\<close>

definition create_webhook_request ::
  "cp_settings \<Rightarrow> string \<Rightarrow> string list \<Rightarrow> string option \<Rightarrow> bool \<Rightarrow> cp_request option" where
  "create_webhook_request cs url events secret active =
     (if \<not> cp_enabled cs \<or> url = [] then None
      else Some (cp_req cs ''POST'' ''/api/webhooks'' []
        (Some (JObj (put_if ''secret'' secret
           [(''url'', JStr url), (''events'', JArr (map JStr events)), (''active'', JBool active)])))))"

text \<open>Also the answer of the two registrations.\<close>

definition read_dict :: "http_result \<Rightarrow> json_dict option" where
  "read_dict r = (case answer_json r of Some (JObj d) \<Rightarrow> Some d | _ \<Rightarrow> None)"

definition list_webhooks_request :: "cp_settings \<Rightarrow> cp_request option" where
  "list_webhooks_request cs = (if cp_enabled cs then Some (cp_req cs ''GET'' ''/api/webhooks'' [] None) else None)"

definition list_webhooks :: "http_result \<Rightarrow> json_dict list option" where
  "list_webhooks r =
     (case answer_json r of
        Some (JObj d) \<Rightarrow>
          (case get_json d ''webhooks'' of
             JArr hs \<Rightarrow> Some (List.map_filter (\<lambda>h. case h of JObj o' \<Rightarrow> Some o' | _ \<Rightarrow> None) hs)
           | _ \<Rightarrow> None)
      | _ \<Rightarrow> None)"

definition delete_webhook_request :: "cp_settings \<Rightarrow> string \<Rightarrow> cp_request option" where
  "delete_webhook_request cs webhook_id =
     (if \<not> cp_enabled cs \<or> webhook_id = [] then None
      else Some (cp_req cs ''DELETE'' (''/api/webhooks/'' @ webhook_id) [] None))"

definition delete_webhook :: "http_result \<Rightarrow> bool" where
  "delete_webhook r = (case r of Inr (st, _) \<Rightarrow> st = 404 \<or> success_status st | Inl _ \<Rightarrow> False)"

section \<open>Trust configuration\<close>

definition post_json_request :: "cp_settings \<Rightarrow> string \<Rightarrow> json_dict \<Rightarrow> cp_request option" where
  "post_json_request cs path body =
     (if cp_enabled cs then Some (cp_req cs ''POST'' path [] (Some (JObj body))) else None)"

definition trust_anchor_request ::
  "cp_settings \<Rightarrow> string \<Rightarrow> string option \<Rightarrow> string option \<Rightarrow> string option \<Rightarrow> cp_request option" where
  "trust_anchor_request cs issuer_url namespace jwks_url label =
     (if issuer_url = [] then None
      else post_json_request cs ''/api/trust-anchors''
             (put_if ''label'' label (put_if ''jwksUrl'' jwks_url (put_if ''namespace'' namespace
                [(''issuerUrl'', JStr issuer_url)]))))"

definition pinned_key_request ::
  "cp_settings \<Rightarrow> string \<Rightarrow> json \<Rightarrow> string option \<Rightarrow> string option \<Rightarrow> cp_request option" where
  "pinned_key_request cs aid pubkey namespace label =
     (if aid = [] \<or> \<not> truthy pubkey then None
      else post_json_request cs ''/api/pinned-keys''
             (put_if ''label'' label (put_if ''namespace'' namespace [(''aid'', JStr aid), (''pubkey'', pubkey)])))"

section \<open>Degradation\<close>

lemma answer_json_ok: "answer_json r = Some v \<Longrightarrow> ok_answer r"
  by (auto simp: answer_json_def ok_answer_def split: sum.splits prod.splits if_splits)

lemma failed_answer_neutral:
  assumes "\<not> ok_answer r"
  shows "discover_by_capability r = []" "read_list k r = Inr []" "read_dict r = None" "list_webhooks r = None"
    "fetch_dashboard_overview r = []" "\<not> publish_revocation r"
  using assms answer_json_ok [of r]
  by (auto simp: discover_by_capability_def read_list_def read_dict_def list_webhooks_def
      fetch_dashboard_overview_def publish_revocation_def split: option.splits json.splits)

lemma disabled_no_request:
  assumes "\<not> cp_enabled cs"
  shows "discover_request cs c = None" "ingest_request cs es = None" "publish_revocation_request cs j rs i = None"
    "events_history_request cs a b t n = None" "sessions_request cs a b t n = None"
    "get_list_request cs p ps = None" "create_webhook_request cs u ev sec act = None"
    "list_webhooks_request cs = None" "delete_webhook_request cs w = None" "post_json_request cs p bd = None"
  using assms
  by (simp_all add: discover_request_def ingest_request_def publish_revocation_request_def events_history_request_def
      sessions_request_def get_list_request_def create_webhook_request_def list_webhooks_request_def
      delete_webhook_request_def post_json_request_def)

end
