(* ===== verification/Run_Context.thy ===== *)
theory Run_Context
  imports Registry Cp_Client Metrics
begin

text \<open>
  The ground the scenario engine stands on: run events and \<open>RunContext.emit\<close>
  (\<open>src/aitp_playground/runner/context.py\<close>), the agents a run launched
  (\<open>RunningAgent\<close> of \<open>hosting/supervisor.py\<close>), and the engine's computations: functions
  of the engine's state that may raise. The answers of the agents and of the Control Plane
  and the clock are the environment's, one answer per request in the order the requests are
  made; every request is kept in the state.
\<close>

section \<open>Events\<close>

definition RUN_EVENT_FIELDS :: "string list" where
  "RUN_EVENT_FIELDS =
     [''type'', ''ts'', ''run_id'', ''scenario_ref'', ''template'', ''agent_id'', ''agent'', ''aid'', ''port'',
      ''step_id'', ''capability'', ''initiator'', ''target'', ''grants'', ''peers'', ''result'', ''error'', ''code'',
      ''notes'', ''jti'', ''cause'', ''source_url'']"

text \<open>The types pydantic checks: text is text or absent, \<open>grants\<close> a list of texts.\<close>

definition field_valid :: "string \<Rightarrow> json \<Rightarrow> bool" where
  "field_valid k v =
     (if k \<in> {''ts'', ''result''} then True
      else if k = ''port'' then (case v of JNull \<Rightarrow> True | JInt _ \<Rightarrow> True | _ \<Rightarrow> False)
      else if k = ''grants'' then (case v of JNull \<Rightarrow> True | JArr xs \<Rightarrow> list_all is_str xs | _ \<Rightarrow> False)
      else if k = ''peers'' then (case v of JNull \<Rightarrow> True | JObj _ \<Rightarrow> True | _ \<Rightarrow> False)
      else (case v of JNull \<Rightarrow> True | JStr _ \<Rightarrow> True | _ \<Rightarrow> False))"

text \<open>\<open>RunEvent(type=ty, ...)\<close> as its \<open>model_dump()\<close>: every field, absent ones \<open>None\<close>.\<close>

definition run_event :: "string \<Rightarrow> json_dict \<Rightarrow> rat \<Rightarrow> pyexc + json_dict" where
  "run_event ty given ts =
     (let given' = (''type'', JStr ty) # (''ts'', JFloat (Fin ts)) # given
      in if list_all (\<lambda>k. field_valid k (get_json given' k)) RUN_EVENT_FIELDS
         then Inr (map (\<lambda>k. (k, get_json given' k)) RUN_EVENT_FIELDS)
         else Inl (PyExc ValueError None ''RunEvent''))"

definition with_run_id :: "string \<Rightarrow> json_dict \<Rightarrow> json_dict" where
  "with_run_id run_id ev = (if get_json ev ''run_id'' = JNull then dict_set ''run_id'' (JStr run_id) ev else ev)"

lemma run_event_get:
  assumes "run_event ty given ts = Inr ev" "k \<in> set RUN_EVENT_FIELDS"
  shows "get_json ev k = get_json ((''type'', JStr ty) # (''ts'', JFloat (Fin ts)) # given) k"
proof -
  have "map_of (map (\<lambda>k. (k, f k)) ks) k = (if k \<in> set ks then Some (f k) else None)"
    for f :: "string \<Rightarrow> json" and ks
    by (induction ks) auto
  with assms show ?thesis by (auto simp: run_event_def get_json_def Let_def split: if_splits)
qed

lemma run_event_type: "run_event ty given ts = Inr ev \<Longrightarrow> get_json ev ''type'' = JStr ty"
  by (drule run_event_get [of _ _ _ _ "''type''"]) (simp_all add: RUN_EVENT_FIELDS_def get_json_def)

lemma with_run_id_get:
  "k \<noteq> ''run_id'' \<Longrightarrow> get_json (with_run_id rid ev) k = get_json ev k"
  "get_json (with_run_id rid ev) ''run_id'' \<noteq> JNull"
  by (simp_all add: with_run_id_def get_json_def)

section \<open>Agents\<close>

record running_agent =
  ra_run_id :: string
  ra_agent_id :: string
  ra_port :: int
  ra_pid :: "int option"
  ra_aid :: string
  ra_manifest_url :: string
  ra_status :: string
  ra_exit_code :: "int option"

section \<open>The engine's state and computations\<close>

datatype eng_exc =
  EPlayground playground_error
| EHttpStatus int string
| ETransport string
| EPy pyexc
| ERunCancelled

text \<open>A request to an agent or to the Control Plane.\<close>

record call =
  cl_method :: string
  cl_url :: string
  cl_params :: "(string \<times> json) list"
  cl_body :: "json option"

record eng_state =
  es_store :: run_store
  es_metrics :: metrics
  es_events :: "json_dict list"
  es_running :: "(string, running_agent) dict"
  es_outputs :: "(string, json) dict"
  es_calls :: "call list"
  es_ticks :: nat
  es_webhook_ids :: "string set"

record eng_env =
  en_run_id :: string
  en_answers :: "nat \<Rightarrow> http_result"
  en_clk :: "nat \<Rightarrow> rat"
  en_insecure :: bool
  en_cp :: cp_settings
  en_playground_base_url :: string
  en_verify_manifest :: "string \<Rightarrow> bool \<Rightarrow> pyexc + unit"
  en_spki_hash :: "string \<Rightarrow> pyexc + string"
  en_is_pinned :: "string list \<Rightarrow> string \<Rightarrow> pyexc + bool"
  en_float_text :: "pyfloat \<Rightarrow> string"
  en_exc_name :: "eng_exc \<Rightarrow> string"
  en_exc_text :: "eng_exc \<Rightarrow> string"

type_synonym 'x eng = "eng_state \<Rightarrow> (eng_exc + 'x) \<times> eng_state"

definition ret :: "'x \<Rightarrow> 'x eng" where
  "ret x s = (Inr x, s)"

definition raise :: "eng_exc \<Rightarrow> 'x eng" where
  "raise e s = (Inl e, s)"

definition bindM :: "'x eng \<Rightarrow> ('x \<Rightarrow> 'y eng) \<Rightarrow> 'y eng" where
  "bindM m f s = (case m s of (Inl e, s') \<Rightarrow> (Inl e, s') | (Inr x, s') \<Rightarrow> f x s')"

abbreviation thenM :: "'x eng \<Rightarrow> 'y eng \<Rightarrow> 'y eng" where
  "thenM m k \<equiv> bindM m (\<lambda>_. k)"

definition lift_exc :: "pyexc + 'x \<Rightarrow> 'x eng" where
  "lift_exc r = (case r of Inl e \<Rightarrow> raise (EPy e) | Inr x \<Rightarrow> ret x)"

abbreviation fail :: "string \<Rightarrow> 'x eng" where
  "fail msg \<equiv> raise (EPlayground (playground_error msg))"

lemma eng_simps [simp]:
  "ret x s = (Inr x, s)" "raise e s = (Inl e, s)"
  "lift_exc (Inl p) = raise (EPy p)" "lift_exc (Inr x) = ret x"
  by (simp_all add: ret_def raise_def lift_exc_def)

lemma bindM_simps [simp]:
  "bindM (ret x) f s = f x s" "bindM (raise e) f s = (Inl e, s)"
  by (simp_all add: bindM_def)

lemma bindM_Inr_iff:
  "bindM m f s = (Inr y, s') \<longleftrightarrow> (\<exists>x s1. m s = (Inr x, s1) \<and> f x s1 = (Inr y, s'))"
  by (auto simp: bindM_def split: sum.splits prod.splits)

lemma bindM_split:
  "snd (bindM m f s) = (case m s of (Inl e, s1) \<Rightarrow> s1 | (Inr x, s1) \<Rightarrow> snd (f x s1))"
  by (auto simp: bindM_def split: sum.splits prod.splits)

text \<open>Reading a part of the state.\<close>

definition look :: "(eng_state \<Rightarrow> 'y) \<Rightarrow> 'y eng" where
  "look f s = (Inr (f s), s)"

lemma look_bind [simp]: "bindM (look f) k s = k (f s) s"
  by (simp add: bindM_def look_def)

fun forM :: "('x \<Rightarrow> unit eng) \<Rightarrow> 'x list \<Rightarrow> unit eng" where
  "forM f [] = ret ()"
| "forM f (x # xs) = thenM (f x) (forM f xs)"

section \<open>Effects\<close>

text \<open>\<open>RunContext.emit\<close>: the context's list, the store's log and the metrics.\<close>

definition emit_dump :: "eng_env \<Rightarrow> json_dict \<Rightarrow> eng_state \<Rightarrow> eng_state" where
  "emit_dump env ev s =
     (let ev' = with_run_id (en_run_id env) ev
      in s\<lparr>es_events := es_events s @ [ev'],
           es_store := append_event (en_run_id env) (JObj ev') (en_clk env (es_ticks s + 1)) (es_store s),
           es_metrics := record_event ev' (es_metrics s), es_ticks := es_ticks s + 2\<rparr>)"

definition emit_event :: "eng_env \<Rightarrow> string \<Rightarrow> json_dict \<Rightarrow> unit eng" where
  "emit_event env ty given s =
     (case run_event ty given (en_clk env (es_ticks s)) of
        Inl e \<Rightarrow> (Inl (EPy e), s)
      | Inr ev \<Rightarrow> (Inr (), emit_dump env ev s))"

definition set_output :: "string \<Rightarrow> json \<Rightarrow> unit eng" where
  "set_output k v s = (Inr (), s\<lparr>es_outputs := dict_set k v (es_outputs s)\<rparr>)"

text \<open>One exchange: the request is recorded, the next answer is read.\<close>

definition send :: "eng_env \<Rightarrow> string \<Rightarrow> string \<Rightarrow> (string \<times> json) list \<Rightarrow> json option \<Rightarrow> http_result eng" where
  "send env meth url params body s =
     (Inr (en_answers env (length (es_calls s))),
      s\<lparr>es_calls := es_calls s @ [\<lparr>cl_method = meth, cl_url = url, cl_params = params, cl_body = body\<rparr>]\<rparr>)"

definition http_call ::
  "eng_env \<Rightarrow> string \<Rightarrow> string \<Rightarrow> (string \<times> json) list \<Rightarrow> json option \<Rightarrow> (int \<times> string) eng" where
  "http_call env meth url params body =
     bindM (send env meth url params body) (\<lambda>r. case r of Inl e \<Rightarrow> raise (ETransport e) | Inr a \<Rightarrow> ret a)"

definition raise_for_status :: "string \<Rightarrow> int \<times> string \<Rightarrow> string eng" where
  "raise_for_status url a = (case a of (st, content) \<Rightarrow> if success_status st then ret content else raise (EHttpStatus st url))"

definition resp_json :: "string \<Rightarrow> json eng" where
  "resp_json content =
     (case loads_bytes content of Some v \<Rightarrow> ret v | None \<Rightarrow> raise (EPy (PyExc ValueError None ''not JSON'')))"

text \<open>\<open>post\<close>, \<open>raise_for_status\<close>, \<open>json\<close> in a row; and a call to the Control Plane.\<close>

definition post_json :: "eng_env \<Rightarrow> string \<Rightarrow> json option \<Rightarrow> json eng" where
  "post_json env url body =
     bindM (http_call env ''POST'' url [] body) (\<lambda>a. bindM (raise_for_status url a) resp_json)"

definition cp_send :: "eng_env \<Rightarrow> cp_request option \<Rightarrow> http_result option eng" where
  "cp_send env rq =
     (case rq of
        None \<Rightarrow> ret None
      | Some q \<Rightarrow> bindM (send env (cq_method q) (cq_url q) (cq_params q) (cq_body q)) (\<lambda>r. ret (Some r)))"

definition as_dict :: "exc_kind \<Rightarrow> json \<Rightarrow> json_dict eng" where
  "as_dict k v = (case v of JObj d \<Rightarrow> ret d | _ \<Rightarrow> raise (EPy (PyExc k None ''not a dict'')))"

definition running_of :: "string \<Rightarrow> running_agent eng" where
  "running_of a s =
     (case dict_get (es_running s) a of Some ra \<Rightarrow> (Inr ra, s) | None \<Rightarrow> (Inl (EPy (PyExc KeyError None a)), s))"

definition engine_origin :: "eng_env \<Rightarrow> int \<Rightarrow> string" where
  "engine_origin env port = (if en_insecure env then ''http'' else ''https'') @ ''://localhost:'' @ str_int port"

lemma emit_event_state:
  "snd (emit_event env ty given s) = s \<or> (\<exists>ev. run_event ty given (en_clk env (es_ticks s)) = Inr ev
     \<and> snd (emit_event env ty given s) = emit_dump env ev s)"
  by (auto simp: emit_event_def split: sum.splits)

end
