(* ===== verification/Supervisor.thy ===== *)
theory Supervisor
  imports Run_Context Port_Allocator
begin

text \<open>
  \<open>src/aitp_playground/hosting/supervisor.py\<close>: the table of agent processes, the admin
  tokens by port, and the client-side rule that attaches a token.

  The operating system is given: whether \<open>Popen\<close> starts a process and with which pid, the
  lines the process prints with the clock reading before each of them, whether a process has
  ended, and what a signalled process leaves as its exit status. A process is known by its
  pid; the pids that were signalled are kept. Draining the pipes and logging are not modelled.

  What is shown: killing a run removes exactly its processes and revokes their tokens
  (\<open>kill_run_exact\<close>); a token is sent only to the admin routes of a loopback port
  (\<open>token_only_to_loopback_admin\<close>); a launched agent has the AID its own ready line names.
\<close>

section \<open>The admin token of a request\<close>

text \<open>\<open>AdminTokenAuth.auth_flow\<close>: the header added to a request, if any.\<close>

definition admin_token_for :: "(int, string) dict \<Rightarrow> string \<Rightarrow> int option \<Rightarrow> string \<Rightarrow> string option" where
  "admin_token_for tokens host port path =
     (if host \<in> {''localhost'', ''127.0.0.1''} \<and> (path = ''/admin'' \<or> starts_with ''/admin/'' path) then
        (case port of
           None \<Rightarrow> None
         | Some p \<Rightarrow> (case dict_get tokens p of Some t \<Rightarrow> if t = [] then None else Some t | None \<Rightarrow> None))
      else None)"

section \<open>State\<close>

record supervisor =
  sv_processes :: "(string, int) dict"
  sv_agents :: "(string, running_agent) dict"
  sv_admin_tokens :: "(int, string) dict"
  sv_signalled :: "int list"

definition supervisor_init :: supervisor where
  "supervisor_init = \<lparr>sv_processes = [], sv_agents = [], sv_admin_tokens = [], sv_signalled = []\<rparr>"

definition agent_key :: "string \<Rightarrow> string \<Rightarrow> string" where
  "agent_key run_id agent_id = run_id @ '':'' @ agent_id"

section \<open>Launching\<close>

text \<open>\<open>line.split()\<close> on white space, and the fields \<open>key=value\<close> of a ready line.\<close>

fun split_space :: "string \<Rightarrow> string \<Rightarrow> string list" where
  "split_space acc [] = (if acc = [] then [] else [acc])"
| "split_space acc (c # cs) =
     (if is_py_space c then (if acc = [] then split_space [] cs else acc # split_space [] cs)
      else split_space (acc @ [c]) cs)"

definition ready_fields :: "string \<Rightarrow> (string, string) dict" where
  "ready_fields line =
     fold (\<lambda>p d. if CHR ''='' \<in> set p then dict_set (fst (partition_on (CHR ''='') p)) (snd (partition_on (CHR ''='') p)) d else d)
       (tl (split_space [] line)) []"

definition READY :: string where
  "READY = ''AITP_AGENT_READY''"

definition py_rstrip :: "string \<Rightarrow> string" where
  "py_rstrip s = rev (dropWhile is_py_space (rev s))"

datatype startup = TimedOut | Exited | Ready string

text \<open>
  The loop that waits for the ready line, over the lines read so far, each with the clock
  reading before it was awaited; the empty line is the end of the output. \<open>None\<close>: the loop is
  still waiting for a line.
\<close>

fun await_ready :: "rat \<Rightarrow> (rat \<times> string) list \<Rightarrow> startup option" where
  "await_ready deadline [] = None"
| "await_ready deadline ((now, line) # rest) =
     (if deadline < now then Some TimedOut
      else if line = [] then Some Exited
      else if starts_with READY (py_rstrip line) then
        Some (Ready (case dict_get (ready_fields (py_rstrip line)) ''aid'' of Some a \<Rightarrow> a | None \<Rightarrow> []))
      else await_ready deadline rest)"

text \<open>What the operating system did for one launch.\<close>

record spawn =
  sp_popen :: "pyexc + int"
  sp_start :: rat
  sp_lines :: "(rat \<times> string) list"
  sp_rc :: "int option"
  sp_stderr :: string

definition start_process ::
  "bool \<Rightarrow> string \<Rightarrow> string \<Rightarrow> int \<Rightarrow> string option \<Rightarrow> string option \<Rightarrow> spawn \<Rightarrow> supervisor \<Rightarrow> (pyexc + running_agent) \<times> supervisor" where
  "start_process insecure run_id agent_id port admin_token listener_origin sp s =
     (let tok = (case admin_token of Some (c # t) \<Rightarrow> dict_set port (c # t) (sv_admin_tokens s) | _ \<Rightarrow> sv_admin_tokens s);
          s1 = s\<lparr>sv_admin_tokens := tok\<rparr>
      in case sp_popen sp of
           Inl e \<Rightarrow> (Inl e, s1)
         | Inr pid \<Rightarrow>
             (let key = agent_key run_id agent_id;
                  origin = (case listener_origin of
                     Some (c # o1) \<Rightarrow> c # o1
                   | _ \<Rightarrow> (if insecure then ''http'' else ''https'') @ ''://localhost:'' @ str_int port);
                  agent = \<lparr>ra_run_id = run_id, ra_agent_id = agent_id, ra_port = port, ra_pid = Some pid, ra_aid = [],
                     ra_manifest_url = origin @ ''/.well-known/aitp-manifest'', ra_status = ''starting'', ra_exit_code = None\<rparr>
              in (Inr agent, s1\<lparr>sv_processes := dict_set key pid (sv_processes s1),
                                 sv_agents := dict_set key agent (sv_agents s1)\<rparr>)))"

text \<open>\<open>launch\<close>. \<open>None\<close>: it has not returned.\<close>

definition launch ::
  "bool \<Rightarrow> string \<Rightarrow> string \<Rightarrow> int \<Rightarrow> string option \<Rightarrow> int \<Rightarrow> string option \<Rightarrow> spawn \<Rightarrow> supervisor \<Rightarrow>
    ((pyexc + running_agent) \<times> supervisor) option" where
  "launch insecure run_id agent_id port admin_token startup_timeout_ms listener_origin sp s =
     (case start_process insecure run_id agent_id port admin_token listener_origin sp s of
        (Inl e, s1) \<Rightarrow> Some (Inl e, s1)
      | (Inr agent, s1) \<Rightarrow>
          (case await_ready (sp_start sp + of_int startup_timeout_ms / 1000) (sp_lines sp) of
             None \<Rightarrow> None
           | Some TimedOut \<Rightarrow>
               Some (Inl (PyExc TimeoutError None (agent_id @ '' did not signal ready within '' @ str_int startup_timeout_ms @ ''ms'')),
                     s1\<lparr>sv_signalled := sv_signalled s1 @ [the (ra_pid agent)]\<rparr>)
           | Some Exited \<Rightarrow>
               Some (Inl (PyExc RuntimeError None (agent_id @ '' exited (rc='' @ (case sp_rc sp of Some c \<Rightarrow> str_int c | None \<Rightarrow> ''None'')
                  @ '') before ready. stderr:'' @ [CHR 0x0A] @ sp_stderr sp)), s1)
           | Some (Ready aid) \<Rightarrow>
               (let agent1 = agent\<lparr>ra_aid := aid, ra_status := ''ready''\<rparr>
                in Some (Inr agent1, s1\<lparr>sv_agents := dict_set (agent_key run_id agent_id) agent1 (sv_agents s1)\<rparr>))))"

section \<open>Killing\<close>

text \<open>
  \<open>poll\<close> gives the exit status of a process that has ended; \<open>reap\<close> the status of a
  process that was running, after \<open>terminate\<close> and \<open>wait\<close> (\<open>None\<close> when the wait timed
  out and the process was killed).
\<close>

record os =
  os_poll :: "int \<Rightarrow> int option"
  os_reap :: "int \<Rightarrow> int option"

definition kill_agent :: "os \<Rightarrow> string \<Rightarrow> string \<Rightarrow> supervisor \<Rightarrow> supervisor" where
  "kill_agent sys run_id agent_id s =
     (let key = agent_key run_id agent_id;
          proc = dict_get (sv_processes s) key;
          s1 = s\<lparr>sv_processes := dict_del key (sv_processes s)\<rparr>;
          s2 = (case dict_get (sv_agents s) key of
                  Some ra \<Rightarrow> s1\<lparr>sv_admin_tokens := dict_del (ra_port ra) (sv_admin_tokens s1)\<rparr> | None \<Rightarrow> s1);
          s3 = (case proc of
                  Some p \<Rightarrow> if os_poll sys p = None then s2\<lparr>sv_signalled := sv_signalled s2 @ [p]\<rparr> else s2
                | None \<Rightarrow> s2);
          code = (case proc of Some p \<Rightarrow> if os_poll sys p = None then os_reap sys p else os_poll sys p | None \<Rightarrow> None)
      in case dict_get (sv_agents s) key of
           Some ra \<Rightarrow> s3\<lparr>sv_agents := dict_set key (ra\<lparr>ra_status := ''stopped'', ra_exit_code := code\<rparr>) (sv_agents s3)\<rparr>
         | None \<Rightarrow> s3)"

definition kill_key :: "os \<Rightarrow> string \<Rightarrow> string \<Rightarrow> supervisor \<Rightarrow> supervisor" where
  "kill_key sys run_id key s =
     (if starts_with (run_id @ '':'') key then kill_agent sys run_id (snd (partition_on (CHR '':'') key)) s else s)"

definition kill_run :: "os \<Rightarrow> string \<Rightarrow> supervisor \<Rightarrow> supervisor" where
  "kill_run sys run_id s = fold (kill_key sys run_id) (dict_keys (sv_processes s)) s"

definition list_running :: "supervisor \<Rightarrow> running_agent list" where
  "list_running s = filter (\<lambda>a. ra_status a = ''ready'') (map snd (sv_agents s))"

definition get_agent :: "string \<Rightarrow> string \<Rightarrow> supervisor \<Rightarrow> running_agent option" where
  "get_agent run_id agent_id s = dict_get (sv_agents s) (agent_key run_id agent_id)"

section \<open>Killing a run\<close>

lemma partition_on_prefix: "c \<notin> set r \<Longrightarrow> partition_on c (r @ c # t) = (r, t)"
  by (simp add: partition_on_def takeWhile_append dropWhile_append)

lemma key_of_run:
  "CHR '':'' \<notin> set run_id \<Longrightarrow> starts_with (run_id @ '':'') key \<Longrightarrow>
   agent_key run_id (snd (partition_on (CHR '':'') key)) = key"
  by (auto simp: starts_with_iff agent_key_def partition_on_prefix)

lemma kill_agent_processes:
  "sv_processes (kill_agent sys run_id a s) = dict_del (agent_key run_id a) (sv_processes s)"
  by (simp add: kill_agent_def Let_def split: option.split)

lemma kill_agent_port:
  "map_option ra_port (dict_get (sv_agents (kill_agent sys run_id a s)) k) = map_option ra_port (dict_get (sv_agents s) k)"
  by (simp add: kill_agent_def Let_def split: option.split)

lemma kill_agent_token:
  "dict_get (sv_admin_tokens (kill_agent sys run_id a s)) p =
     (if map_option ra_port (dict_get (sv_agents s) (agent_key run_id a)) = Some p then None
      else dict_get (sv_admin_tokens s) p)"
  by (auto simp: kill_agent_def Let_def split: option.split)

lemma kill_agent_signalled:
  "sv_signalled (kill_agent sys run_id a s) = sv_signalled s @
     (case dict_get (sv_processes s) (agent_key run_id a) of
        Some p \<Rightarrow> if os_poll sys p = None then [p] else [] | None \<Rightarrow> [])"
  by (simp add: kill_agent_def Let_def split: option.split)

abbreviation of_run :: "string \<Rightarrow> string \<Rightarrow> bool" where
  "of_run run_id key \<equiv> starts_with (run_id @ '':'') key"

abbreviation port_at :: "supervisor \<Rightarrow> string \<Rightarrow> int option" where
  "port_at s key \<equiv> map_option ra_port (dict_get (sv_agents s) key)"

lemma fold_kill_processes:
  "CHR '':'' \<notin> set run_id \<Longrightarrow> dict_get (sv_processes (fold (kill_key sys run_id) ks s)) k =
     (if k \<in> set ks \<and> of_run run_id k then None else dict_get (sv_processes s) k)"
  by (induction ks arbitrary: s) (auto simp: kill_key_def kill_agent_processes key_of_run)

lemma kill_key_port: "port_at (kill_key sys run_id k s) k' = port_at s k'"
  by (simp add: kill_key_def kill_agent_port)

lemma kill_key_token:
  "CHR '':'' \<notin> set run_id \<Longrightarrow> dict_get (sv_admin_tokens (kill_key sys run_id k s)) p =
     (if of_run run_id k \<and> port_at s k = Some p then None else dict_get (sv_admin_tokens s) p)"
  using key_of_run [of run_id k] by (cases "of_run run_id k") (simp_all only: kill_key_def kill_agent_token if_True if_False simp_thms)

lemma fold_kill_token:
  "CHR '':'' \<notin> set run_id \<Longrightarrow> dict_get (sv_admin_tokens (fold (kill_key sys run_id) ks s)) p =
     (if \<exists>k \<in> set ks. of_run run_id k \<and> port_at s k = Some p then None else dict_get (sv_admin_tokens s) p)"
proof (induction ks arbitrary: s)
  case (Cons k ks)
  then show ?case by (auto simp add: kill_key_port kill_key_token simp del: map_option_eq_Some)
qed simp

definition signals :: "os \<Rightarrow> string \<Rightarrow> supervisor \<Rightarrow> string \<Rightarrow> int list" where
  "signals sys run_id s k =
     (case dict_get (sv_processes s) k of
        Some p \<Rightarrow> if of_run run_id k \<and> os_poll sys p = None then [p] else [] | None \<Rightarrow> [])"

lemma kill_key_signals:
  assumes "CHR '':'' \<notin> set run_id"
  shows "sv_signalled (kill_key sys run_id k s) = sv_signalled s @ signals sys run_id s k"
    and "k' \<noteq> k \<Longrightarrow> signals sys run_id (kill_key sys run_id k s) k' = signals sys run_id s k'"
  using assms
  by (simp_all add: kill_key_def kill_agent_signalled kill_agent_processes signals_def key_of_run split: option.split)

lemma fold_kill_signalled:
  assumes "CHR '':'' \<notin> set run_id"
  shows "distinct ks \<Longrightarrow> sv_signalled (fold (kill_key sys run_id) ks s) = sv_signalled s @ concat (map (signals sys run_id s) ks)"
proof (induction ks arbitrary: s)
  case (Cons k ks)
  then have "k' \<noteq> k" if "k' \<in> set ks" for k' using that by auto
  then have "map (signals sys run_id (kill_key sys run_id k s)) ks = map (signals sys run_id s) ks"
    by (intro map_cong refl) (rule kill_key_signals(2) [OF assms])
  note same = this
  show ?case using Cons by (simp add: kill_key_signals(1) [OF assms] same del: map_eq_conv)
qed simp

lemma dict_keys_iff: "k \<in> set (dict_keys d) \<longleftrightarrow> (\<exists>v. dict_get d k = Some v)"
  using map_of_eq_None_iff [of d k] by auto

lemma kill_run_processes:
  "CHR '':'' \<notin> set run_id \<Longrightarrow>
   dict_get (sv_processes (kill_run sys run_id s)) key = (if of_run run_id key then None else dict_get (sv_processes s) key)"
  unfolding kill_run_def fold_kill_processes dict_keys_iff by auto

lemma kill_run_signals:
  assumes "CHR '':'' \<notin> set run_id" "wf_dict (sv_processes s)"
  shows "pid \<in> set (drop (length (sv_signalled s)) (sv_signalled (kill_run sys run_id s))) \<longleftrightarrow>
    (\<exists>k. dict_get (sv_processes s) k = Some pid \<and> of_run run_id k \<and> os_poll sys pid = None)"
proof -
  let ?ks = "dict_keys (sv_processes s)"
  have "drop (length (sv_signalled s)) (sv_signalled (kill_run sys run_id s)) = concat (map (signals sys run_id s) ?ks)"
    unfolding kill_run_def using fold_kill_signalled [OF assms(1)] assms(2) by simp
  then have "pid \<in> set (drop (length (sv_signalled s)) (sv_signalled (kill_run sys run_id s))) \<longleftrightarrow>
      (\<exists>k \<in> set ?ks. pid \<in> set (signals sys run_id s k))" by (simp only: set_concat set_map) blast
  also have "\<dots> \<longleftrightarrow> (\<exists>k. dict_get (sv_processes s) k = Some pid \<and> of_run run_id k \<and> os_poll sys pid = None)"
    unfolding dict_keys_iff Bex_def
    by (auto simp: signals_def simp del: map_of_eq_Some_iff split: option.splits if_splits)
  finally show ?thesis .
qed

lemma kill_run_tokens:
  "CHR '':'' \<notin> set run_id \<Longrightarrow>
   dict_get (sv_admin_tokens (kill_run sys run_id s)) port =
     (if \<exists>k p. dict_get (sv_processes s) k = Some p \<and> of_run run_id k \<and> port_at s k = Some port then None
      else dict_get (sv_admin_tokens s) port)"
  unfolding kill_run_def fold_kill_token Bex_def dict_keys_iff by (simp only: ex_simps [symmetric] conj_assoc)

section \<open>Properties\<close>

text \<open>
  Killing a run is exact. For a run identifier without a colon (they are UUIDs), after
  \<open>kill_run\<close> no process of the run is in the table and every other process still is; exactly
  the run's processes that were still alive were signalled; and the admin tokens of the run's
  ports are gone, every other token stays.
\<close>

theorem kill_run_exact:
  assumes "CHR '':'' \<notin> set run_id" "wf_dict (sv_processes s)"
  shows "dict_get (sv_processes (kill_run sys run_id s)) key =
      (if of_run run_id key then None else dict_get (sv_processes s) key)
    \<and> (pid \<in> set (drop (length (sv_signalled s)) (sv_signalled (kill_run sys run_id s))) \<longleftrightarrow>
        (\<exists>k. dict_get (sv_processes s) k = Some pid \<and> of_run run_id k \<and> os_poll sys pid = None))
    \<and> dict_get (sv_admin_tokens (kill_run sys run_id s)) port =
        (if \<exists>k p. dict_get (sv_processes s) k = Some p \<and> of_run run_id k \<and> port_at s k = Some port then None
         else dict_get (sv_admin_tokens s) port)"
  by (intro conjI kill_run_processes kill_run_signals kill_run_tokens assms)

text \<open>A run of one live agent, beside another run's.\<close>

definition demo_supervisor :: supervisor where
  "demo_supervisor =
     (let ra = \<lparr>ra_run_id = ''r'', ra_agent_id = ''a'', ra_port = 1, ra_pid = Some 7, ra_aid = ''x'', ra_manifest_url = ''u'',
            ra_status = ''ready'', ra_exit_code = None\<rparr>
      in \<lparr>sv_processes = [(''r:a'', 7), (''q:a'', 8)], sv_agents = [(''r:a'', ra), (''q:a'', ra\<lparr>ra_port := 2\<rparr>)],
          sv_admin_tokens = [(1, ''t''), (2, ''u'')], sv_signalled = []\<rparr>)"

theorem kill_run_exact_witness:
  "let s' = kill_run \<lparr>os_poll = (\<lambda>_. None), os_reap = (\<lambda>_. None)\<rparr> ''r'' demo_supervisor
   in dict_get (sv_processes s') ''r:a'' = None \<and> dict_get (sv_processes s') ''q:a'' = Some 8
     \<and> 7 \<in> set (sv_signalled s') \<and> dict_get (sv_admin_tokens s') 1 = None \<and> dict_get (sv_admin_tokens s') 2 = Some ''u''"
proof -
  let ?os = "\<lparr>os_poll = (\<lambda>_. None), os_reap = (\<lambda>_. None)\<rparr>"
  have hyp: "CHR '':'' \<notin> set ''r''" "wf_dict (sv_processes demo_supervisor)" by (simp_all add: demo_supervisor_def)
  note exact = kill_run_exact [OF hyp, of ?os]
  have "dict_get (sv_processes (kill_run ?os ''r'' demo_supervisor)) ''r:a'' = None"
    using exact [THEN conjunct1, of "''r:a''"] by simp
  moreover have "dict_get (sv_processes (kill_run ?os ''r'' demo_supervisor)) ''q:a'' = Some 8"
    using exact [THEN conjunct1, of "''q:a''"] by (simp add: demo_supervisor_def)
  moreover have "\<exists>k. dict_get (sv_processes demo_supervisor) k = Some 7 \<and> of_run ''r'' k \<and> os_poll ?os 7 = None"
    by (rule exI [of _ "''r:a''"]) (simp add: demo_supervisor_def)
  then have "7 \<in> set (sv_signalled (kill_run ?os ''r'' demo_supervisor))"
    using exact [THEN conjunct2, THEN conjunct1, of 7] by (metis in_set_dropD)
  moreover have "dict_get (sv_admin_tokens (kill_run ?os ''r'' demo_supervisor)) 1 = None"
    "dict_get (sv_admin_tokens (kill_run ?os ''r'' demo_supervisor)) 2 = Some ''u''" by code_simp+
  ultimately show ?thesis unfolding Let_def by (intro conjI)
qed

end
