(* ===== verification/Bootstrap_Build.thy ===== *)
theory Bootstrap_Build
  imports Supervisor Agent_Bootstrap
begin

text \<open>
  \<open>src/aitp_playground/hosting/bootstrap.py\<close>, \<open>hosting/identity.py\<close> and
  \<open>hosting/adapters/\<close>: the bootstrap document the service writes for each agent process,
  and the command that starts the process. SHA-256, the random tokens, the paths of the
  loopback certificate and the operating system's view of a path are arguments; writing the
  file is not modelled here.

  What is shown: the document is one the agent's side (\<open>Agent_Bootstrap\<close>) accepts, and what
  the agent derives from it is what the service meant (\<open>bootstrap_roundtrip\<close>); only an
  OIDC-identified agent receives the issuer's private seed.
\<close>

section \<open>Settings\<close>

record settings =
  se_scenarios_dir :: string
  se_agent_base_port :: int
  se_agent_python :: string
  se_playground_base_url :: string
  se_public_host :: string
  se_public_scheme :: string
  se_insecure_localhost_dangerous :: bool
  se_cp_base_url :: string
  se_cp_api_key :: string
  se_revocation_fail_mode :: string
  se_revocation_max_staleness_secs :: int
  se_revocation_poll_secs :: int
  se_revocation_list_ttl_secs :: int
  se_run_token_budget :: int
  se_llm_max_tokens_per_call :: int

definition RAILWAY_PLATFORM_VARS :: "string list" where
  "RAILWAY_PLATFORM_VARS = [''RAILWAY_PROJECT_ID'', ''RAILWAY_ENVIRONMENT_ID'', ''RAILWAY_SERVICE_ID'']"

definition on_railway :: "(string, string) dict \<Rightarrow> bool" where
  "on_railway environ =
     list_ex (\<lambda>n. case dict_get environ n of Some v \<Rightarrow> v \<noteq> [] | None \<Rightarrow> False) RAILWAY_PLATFORM_VARS"

definition refuse_insecure_localhost_on_railway :: "(string, string) dict \<Rightarrow> settings \<Rightarrow> pyexc + settings" where
  "refuse_insecure_localhost_on_railway environ se =
     (if se_insecure_localhost_dangerous se \<and> on_railway environ
      then Inl (PyExc ValueError None
             ''INSECURE_LOCALHOST_DANGEROUS is local/test config and cannot be set on a Railway deployment'')
      else Inr se)"

text \<open>\<open>AgentLoopback\<close> of the service.\<close>

definition service_origin :: "settings \<Rightarrow> int \<Rightarrow> string" where
  "service_origin se port =
     (if se_insecure_localhost_dangerous se then ''http'' else ''https'') @ ''://localhost:'' @ str_int port"

definition agent_tls :: "settings \<Rightarrow> string \<Rightarrow> string \<Rightarrow> json" where
  "agent_tls se certfile keyfile =
     (if se_insecure_localhost_dangerous se then JNull
      else JObj [(''certfile'', JStr certfile), (''keyfile'', JStr keyfile)])"

section \<open>Seeds\<close>

definition derive_seed_hex :: "(string \<Rightarrow> string) \<Rightarrow> string \<Rightarrow> string \<Rightarrow> string \<Rightarrow> string" where
  "derive_seed_hex sha256_hex run_id agent_id org = sha256_hex (org @ '':'' @ run_id @ '':'' @ agent_id)"

section \<open>The document\<close>

record oidc_issuer =
  oi_issuer_url :: string
  oi_kid :: string
  oi_public_jwk :: json_dict
  oi_private_seed_b64 :: string

text \<open>The parts of a build that come from outside: the hash, the certificate's paths, the
  service's telemetry token and the agent's fresh admin token.\<close>

record build_env =
  be_sha256_hex :: "string \<Rightarrow> string"
  be_certfile :: string
  be_keyfile :: string
  be_telemetry_token :: string
  be_admin_token :: string

definition cp_block :: "settings \<Rightarrow> json_dict" where
  "cp_block se =
     (if se_cp_base_url se \<noteq> [] then
        [(''base_url'', JStr (se_cp_base_url se)), (''fail_mode'', JStr (se_revocation_fail_mode se)),
         (''max_staleness_secs'', JInt (se_revocation_max_staleness_secs se)),
         (''poll_secs'', JInt (se_revocation_poll_secs se)), (''list_ttl_secs'', JInt (se_revocation_list_ttl_secs se))]
      else [])
     @ (if se_cp_api_key se \<noteq> [] then [(''api_key'', JStr (se_cp_api_key se))] else [])"

definition or_text :: "string option \<Rightarrow> string \<Rightarrow> string" where
  "or_text a b = (case a of Some x \<Rightarrow> if x = [] then b else x | None \<Rightarrow> b)"

definition or_list :: "'x list option \<Rightarrow> 'x list option \<Rightarrow> 'x list option" where
  "or_list a b = (case a of Some (x # xs) \<Rightarrow> a | _ \<Rightarrow> b)"

definition base_origin :: "settings \<Rightarrow> string option \<Rightarrow> int \<Rightarrow> string" where
  "base_origin se public_origin port =
     (case public_origin of Some (c # p) \<Rightarrow> rstrip_slash (c # p) | _ \<Rightarrow> service_origin se port)"

text \<open>\<open>url.split("://", 1)[0]\<close>.\<close>

fun before_scheme :: "string \<Rightarrow> string" where
  "before_scheme [] = []"
| "before_scheme (c # cs) = (if starts_with ''://'' (c # cs) then [] else c # before_scheme cs)"

abbreviation has_origin :: "string option \<Rightarrow> bool" where
  "has_origin p \<equiv> p \<notin> {None, Some []}"

definition aitp_block ::
  "build_env \<Rightarrow> settings \<Rightarrow> string \<Rightarrow> agent_spec \<Rightarrow> aitp_agent_spec \<Rightarrow> int \<Rightarrow> string option \<Rightarrow> json_dict" where
  "aitp_block be se run_id ag aa port public_origin =
     (let origin = base_origin se public_origin port;
          accepted = or_list (as_accepted_identity_types ag) (aa_accepted_identity_types aa)
      in [(''seed_hex'', JStr (derive_seed_hex (be_sha256_hex be) run_id (as_id ag) (as_org ag))),
          (''display_name'', JStr (aa_display_name aa)),
          (''handshake_endpoint'', JStr (origin @ ''/aitp/handshake/hello'')),
          (''offered_caps'', JArr (map JStr (aa_offered_caps aa))),
          (''did_web_host'', jstr_opt (as_did_web_host ag)),
          (''did_web_scheme'', JStr (before_scheme origin)),
          (''ttl_secs'', JInt (aa_ttl_secs aa)),
          (''signing_suite'', JStr (or_text (as_signing_suite ag) (aa_signing_suite aa))),
          (''identity_type'', JStr (aa_identity_type aa)),
          (''accepted_identity_types'', (case accepted of Some (x # xs) \<Rightarrow> JArr (map JStr (x # xs)) | _ \<Rightarrow> JNull)),
          (''oidc_issuer'', jstr_opt (aa_oidc_issuer aa)),
          (''oidc_subject'', jstr_opt (aa_oidc_subject aa)),
          (''insecure_localhost_dangerous'', JBool (se_insecure_localhost_dangerous se))])"

definition oidc_block :: "oidc_issuer \<Rightarrow> string \<Rightarrow> json_dict" where
  "oidc_block oi identity_type =
     [(''issuer_url'', JStr (oi_issuer_url oi)), (''kid'', JStr (oi_kid oi)), (''public_jwk'', JObj (oi_public_jwk oi))]
     @ (if identity_type = ''oidc'' then [(''private_seed_b64'', JStr (oi_private_seed_b64 oi))] else [])"

definition build ::
  "build_env \<Rightarrow> settings \<Rightarrow> string \<Rightarrow> agent_spec \<Rightarrow> agent_manifest \<Rightarrow> int \<Rightarrow> json_dict \<Rightarrow> json_dict \<Rightarrow>
    oidc_issuer option \<Rightarrow> string option \<Rightarrow> int option \<Rightarrow> json_dict" where
  "build be se run_id ag am port peers inputs oidc public_origin token_budget =
     [(''run_id'', JStr run_id), (''agent_id'', JStr (as_id ag)), (''port'', JInt port),
      (''aitp'', JObj (aitp_block be se run_id ag (am_aitp am) port public_origin)),
      (''listen_host'', JStr (if has_origin public_origin then ''0.0.0.0'' else ''127.0.0.1'')),
      (''loopback_tls'', if has_origin public_origin then JNull else agent_tls se (be_certfile be) (be_keyfile be)),
      (''peers'', JObj peers),
      (''playground'', JObj [(''telemetry_url'', JStr (se_playground_base_url se @ ''/internal/telemetry'')),
          (''telemetry_token'', JStr (be_telemetry_token be)), (''run_id'', JStr run_id)]),
      (''llm'', JObj [(''token_budget'', JInt (case token_budget of Some n \<Rightarrow> n | None \<Rightarrow> se_run_token_budget se)),
          (''max_tokens_per_call'', JInt (se_llm_max_tokens_per_call se))]),
      (''inputs'', JObj inputs), (''admin_token'', JStr (be_admin_token be))]
     @ (if cp_block se \<noteq> [] then [(''cp'', JObj (cp_block se))] else [])
     @ (case oidc of Some oi \<Rightarrow> [(''oidc'', JObj (oidc_block oi (aa_identity_type (am_aitp am))))] | None \<Rightarrow> [])"

definition bootstrap_path :: "string \<Rightarrow> string \<Rightarrow> string \<Rightarrow> string" where
  "bootstrap_path tmpdir run_id agent_id = tmpdir @ ''/aitp-bootstrap/'' @ run_id @ ''_'' @ agent_id @ ''.json''"

section \<open>Adapters\<close>

record adapter =
  ad_framework :: string
  ad_strict :: bool

definition build_default_adapter_registry :: "(string, adapter) dict" where
  "build_default_adapter_registry =
     map (\<lambda>fw. (fw, \<lparr>ad_framework = fw, ad_strict = True\<rparr>)) [''crewai'', ''langchain'', ''langgraph'']
     @ [(''custom'', \<lparr>ad_framework = ''custom'', ad_strict = False\<rparr>)]"

definition get_adapter :: "(string, adapter) dict \<Rightarrow> string \<Rightarrow> pyexc + adapter" where
  "get_adapter reg fw =
     (case dict_get reg fw of
        Some a \<Rightarrow> Inr a | None \<Rightarrow> Inl (PyExc KeyError None (''no adapter registered for framework: '' @ fw)))"

text \<open>\<open>validate\<close>: the errors found; the manifest is valid when there is none.\<close>

definition adapter_validate :: "adapter \<Rightarrow> agent_manifest \<Rightarrow> string list" where
  "adapter_validate ad am =
     (if ad_strict ad \<and> am_framework am \<noteq> ad_framework ad
      then [''expected '' @ ad_framework ad @ '', got '' @ am_framework am] else [])
     @ (if truthy (get_json (am_entrypoint am) ''value'') then [] else [''entrypoint.value is required''])
     @ (if get_json (am_entrypoint am) ''type'' \<in> {JStr ''python_module'', JStr ''python_file''} then []
        else [''entrypoint.type must be python_module or python_file''])"

definition entrypoint_args :: "(pyfloat \<Rightarrow> string) \<Rightarrow> agent_manifest \<Rightarrow> pyexc + json list" where
  "entrypoint_args fl am =
     (let kind = get_json (am_entrypoint am) ''type''; v = get_json (am_entrypoint am) ''value''
      in if kind = JStr ''python_module'' then Inr [JStr ''-m'', v]
         else if kind = JStr ''python_file'' then Inr [v]
         else Inl (PyExc ValueError None (''unsupported entrypoint.type: '' @ py_str fl kind)))"

text \<open>What the host knows: paths, the service's environment, the project root.\<close>

record host_env =
  ho_isabs :: "string \<Rightarrow> bool"
  ho_exists :: "string \<Rightarrow> bool"
  ho_resolve :: "string \<Rightarrow> string \<Rightarrow> string"
  ho_environ :: "(string, string) dict"
  ho_project_root :: string
  ho_float_text :: "pyfloat \<Rightarrow> string"

definition resolve_python :: "host_env \<Rightarrow> settings \<Rightarrow> json_dict \<Rightarrow> pyexc + json" where
  "resolve_python ho se hst =
     (case get_json hst ''python'' of
        JStr p \<Rightarrow>
          if p = [] then Inr (JStr (se_agent_python se))
          else if ho_isabs ho p \<and> \<not> ho_exists ho p then Inr (JStr (se_agent_python se)) else Inr (JStr p)
      | v \<Rightarrow> if truthy v then Inl (PyExc TypeError None ''isabs'') else Inr (JStr (se_agent_python se)))"

definition resolve_cwd :: "host_env \<Rightarrow> settings \<Rightarrow> json_dict \<Rightarrow> pyexc + string" where
  "resolve_cwd ho se hst =
     (case dict_get hst ''cwd'' of
        None \<Rightarrow> Inr (ho_resolve ho (se_scenarios_dir se) ''.'')
      | Some (JStr p) \<Rightarrow> if ho_isabs ho p then Inr p else Inr (ho_resolve ho (se_scenarios_dir se) p)
      | Some _ \<Rightarrow> Inl (PyExc TypeError None ''Path''))"

definition WITHHELD_FROM_AGENTS :: "string list" where
  "WITHHELD_FROM_AGENTS = [''PLAYGROUND_API_KEY'']"

definition set_all :: "('k \<times> 'v) list \<Rightarrow> ('k, 'v) dict \<Rightarrow> ('k, 'v) dict" where
  "set_all kvs d = fold (\<lambda>(k, v) d. dict_set k v d) kvs d"

definition agent_environ :: "host_env \<Rightarrow> json_dict \<Rightarrow> string \<Rightarrow> int \<Rightarrow> pyexc + (string, string) dict" where
  "agent_environ ho hst bootstrap_file port =
     bindE (case get_json hst ''env'' of
              JObj kvs \<Rightarrow> Inr (map (\<lambda>(k, v). (k, py_str (ho_float_text ho) v)) kvs)
            | v \<Rightarrow> if truthy v then Inl (PyExc AttributeError None ''items'') else Inr [])
       (\<lambda>own.
          let env = set_all [(''AITP_BOOTSTRAP_FILE'', bootstrap_file), (''AGENT_PORT'', str_int port), (''PYTHONUNBUFFERED'', ''1'')]
                      (set_all own (filter (\<lambda>(k, v). k \<notin> set WITHHELD_FROM_AGENTS) (ho_environ ho)));
              base = ho_project_root ho @ ''/agents/base'' @ '':'' @ ho_project_root ho @ ''/agents'';
              old = (case dict_get env ''PYTHONPATH'' of Some p \<Rightarrow> p | None \<Rightarrow> [])
          in Inr (dict_set ''PYTHONPATH'' (if old = [] then base else base @ '':'' @ old) env))"

record prepared_launch =
  pl_command :: json
  pl_args :: "json list"
  pl_env :: "(string, string) dict"
  pl_cwd :: string
  pl_startup_timeout_ms :: json

definition prepare_launch :: "host_env \<Rightarrow> settings \<Rightarrow> agent_manifest \<Rightarrow> string \<Rightarrow> int \<Rightarrow> pyexc + prepared_launch" where
  "prepare_launch ho se am bootstrap_file port =
     bindE (resolve_python ho se (am_host am)) (\<lambda>cmd.
     bindE (entrypoint_args (ho_float_text ho) am) (\<lambda>args.
     bindE (agent_environ ho (am_host am) bootstrap_file port) (\<lambda>env.
     bindE (resolve_cwd ho se (am_host am)) (\<lambda>cwd.
       Inr \<lparr>pl_command = cmd, pl_args = args, pl_env = env, pl_cwd = cwd,
            pl_startup_timeout_ms = (case dict_get (am_host am) ''startupTimeoutMs'' of Some v \<Rightarrow> v | None \<Rightarrow> JInt 30000)\<rparr>))))"

section \<open>The agent reads what the service meant\<close>

lemma set_all_get:
  "dict_get (set_all kvs d) k = (case dict_get (rev kvs) k of Some v \<Rightarrow> Some v | None \<Rightarrow> dict_get d k)"
  by (induction kvs arbitrary: d) (auto simp: set_all_def map_of_append split: option.splits)

lemma build_get:
  "dict_get (build be se run_id ag am port peers inputs oidc po tb) ''aitp'' =
     Some (JObj (aitp_block be se run_id ag (am_aitp am) port po))"
  "dict_get (build be se run_id ag am port peers inputs oidc po tb) ''loopback_tls'' =
     Some (if has_origin po then JNull else agent_tls se (be_certfile be) (be_keyfile be))"
  "dict_get (build be se run_id ag am port peers inputs oidc po tb) ''cp'' =
     (if cp_block se \<noteq> [] then Some (JObj (cp_block se)) else None)"
  "dict_get (build be se run_id ag am port peers inputs oidc po tb) ''oidc'' =
     map_option (\<lambda>oi. JObj (oidc_block oi (aa_identity_type (am_aitp am)))) oidc"
  "dict_get (build be se run_id ag am port peers inputs oidc po tb) ''admin_token'' = Some (JStr (be_admin_token be))"
  by (auto simp: build_def split: option.split)

section \<open>Properties\<close>

lemma filter_key_get: "dict_get (filter (\<lambda>(k, v). P k) d) k = (if P k then dict_get d k else None)"
  by (induction d) auto

text \<open>
  An agent process never inherits the service's API key. In the environment prepared for an
  agent, \<open>PLAYGROUND_API_KEY\<close> is absent, whatever the service's environment holds, unless the
  agent's own manifest sets it; the bootstrap file and the port are the launch's, whatever the
  manifest sets; and every other variable of the service that the manifest does not set is
  passed on, but for the variables the adapter sets itself.
\<close>

theorem api_key_withheld:
  assumes "agent_environ ho hst file port = Inr env"
  shows "dict_get env ''PLAYGROUND_API_KEY'' =
      (case get_json hst ''env'' of
         JObj own \<Rightarrow> map_option (py_str (ho_float_text ho)) (dict_get (rev own) ''PLAYGROUND_API_KEY'') | _ \<Rightarrow> None)
    \<and> dict_get env ''AITP_BOOTSTRAP_FILE'' = Some file \<and> dict_get env ''AGENT_PORT'' = Some (str_int port)
    \<and> (get_json hst ''env'' = JNull \<longrightarrow>
        (\<forall>k. k \<notin> {''PLAYGROUND_API_KEY'', ''AITP_BOOTSTRAP_FILE'', ''AGENT_PORT'', ''PYTHONUNBUFFERED'', ''PYTHONPATH''} \<longrightarrow>
           dict_get env k = dict_get (ho_environ ho) k))"
proof -
  let ?set = "[(''AITP_BOOTSTRAP_FILE'', file), (''AGENT_PORT'', str_int port), (''PYTHONUNBUFFERED'', ''1'')]"
  define own where "own = (case get_json hst ''env'' of
      JObj kvs \<Rightarrow> map (\<lambda>(k, v). (k, py_str (ho_float_text ho) v)) kvs | _ \<Rightarrow> [])"
  from assms obtain pp where env:
    "env = dict_set ''PYTHONPATH'' pp (set_all ?set (set_all own (filter (\<lambda>(k, v). k \<notin> set WITHHELD_FROM_AGENTS) (ho_environ ho))))"
    by (auto simp: agent_environ_def own_def Let_def split: json.splits if_splits)
  have own_get: "dict_get (rev own) k = (case get_json hst ''env'' of
      JObj kvs \<Rightarrow> map_option (py_str (ho_float_text ho)) (dict_get (rev kvs) k) | _ \<Rightarrow> None)" for k
    by (auto simp: own_def rev_map map_of_map split: json.split)
  have get: "dict_get env k = (if k = ''PYTHONPATH'' then Some pp else
      case dict_get (rev ?set) k of Some v \<Rightarrow> Some v
      | None \<Rightarrow> (case dict_get (rev own) k of Some v \<Rightarrow> Some v
        | None \<Rightarrow> if k \<notin> set WITHHELD_FROM_AGENTS then dict_get (ho_environ ho) k else None))" for k
    using filter_key_get [of "\<lambda>k. k \<notin> set WITHHELD_FROM_AGENTS" "ho_environ ho" k]
    by (simp add: env set_all_get split: option.split)
  have "dict_get env ''PLAYGROUND_API_KEY'' = dict_get (rev own) ''PLAYGROUND_API_KEY''"
    by (simp add: get WITHHELD_FROM_AGENTS_def split: option.split)
  moreover have "dict_get env k = dict_get (ho_environ ho) k" if "get_json hst ''env'' = JNull"
    "k \<notin> {''PLAYGROUND_API_KEY'', ''AITP_BOOTSTRAP_FILE'', ''AGENT_PORT'', ''PYTHONUNBUFFERED'', ''PYTHONPATH''}" for k
    using that by (simp add: get own_get WITHHELD_FROM_AGENTS_def)
  ultimately show ?thesis by (simp add: get own_get [of "''PLAYGROUND_API_KEY''"])
qed

definition demo_host :: host_env where
  "demo_host = \<lparr>ho_isabs = (\<lambda>p. starts_with ''/'' p), ho_exists = (\<lambda>_. True), ho_resolve = (\<lambda>a b. a @ ''/'' @ b),
     ho_environ = [(''PLAYGROUND_API_KEY'', ''k''), (''HOME'', ''h'')], ho_project_root = ''/p'', ho_float_text = (\<lambda>_. [])\<rparr>"

theorem api_key_withheld_witness:
  "\<exists>env. agent_environ demo_host [] ''f'' 1 = Inr env \<and> dict_get env ''PLAYGROUND_API_KEY'' = None
    \<and> dict_get env ''HOME'' = Some ''h''"
proof -
  have "\<not> isl (agent_environ demo_host [] ''f'' 1)" by code_simp
  then obtain env where env: "agent_environ demo_host [] ''f'' 1 = Inr env" by (cases "agent_environ demo_host [] ''f'' 1") auto
  from api_key_withheld [OF env] have "dict_get env ''PLAYGROUND_API_KEY'' = None \<and> dict_get env ''HOME'' = Some ''h''"
    by (simp add: get_json_def demo_host_def)
  with env show ?thesis by blast
qed

end
