(* ===== verification/Agent_Handover.thy ===== *)
theory Agent_Handover
  imports Bootstrap_Build Agent_Server Admin_Auth
begin

text \<open>
  The two sides of a launch: the document \<open>BootstrapBuilder.build\<close> writes
  (\<open>Bootstrap_Build\<close>) and what the agent process makes of it (\<open>Agent_Bootstrap\<close>,
  \<open>Agent_Server\<close>, \<open>Admin_Auth\<close>); the admin token the supervisor sends and the guard that
  checks it.
\<close>

lemma get_obj_build:
  "get_obj (build be se run_id ag am port peers inputs oidc po tb) ''aitp'' = aitp_block be se run_id ag (am_aitp am) port po"
  "get_obj (build be se run_id ag am port peers inputs oidc po tb) ''cp'' = cp_block se"
  "get_obj (build be se run_id ag am port peers inputs oidc po tb) ''oidc'' =
     (case oidc of Some oi \<Rightarrow> oidc_block oi (aa_identity_type (am_aitp am)) | None \<Rightarrow> [])"
  by (simp_all add: get_obj_def build_get split: option.split)

lemma cp_block_get:
  "dict_get (cp_block se) ''base_url'' = (if se_cp_base_url se \<noteq> [] then Some (JStr (se_cp_base_url se)) else None)"
  "dict_get (cp_block se) ''api_key'' = (if se_cp_api_key se \<noteq> [] then Some (JStr (se_cp_api_key se)) else None)"
  "se_cp_base_url se = [] \<Longrightarrow> k \<noteq> ''api_key'' \<Longrightarrow> dict_get (cp_block se) k = None"
  "se_cp_base_url se \<noteq> [] \<Longrightarrow> dict_get (cp_block se) ''fail_mode'' = Some (JStr (se_revocation_fail_mode se))"
  "se_cp_base_url se \<noteq> [] \<Longrightarrow> dict_get (cp_block se) ''max_staleness_secs'' = Some (JInt (se_revocation_max_staleness_secs se))"
  "se_cp_base_url se \<noteq> [] \<Longrightarrow> dict_get (cp_block se) ''poll_secs'' = Some (JInt (se_revocation_poll_secs se))"
  "se_cp_base_url se \<noteq> [] \<Longrightarrow> dict_get (cp_block se) ''list_ttl_secs'' = Some (JInt (se_revocation_list_ttl_secs se))"
  by (simp_all add: cp_block_def)

section \<open>Properties\<close>


text \<open>The request the service's client makes once the token rule has run.\<close>

definition admin_request :: "(int, string) dict \<Rightarrow> int \<Rightarrow> string \<Rightarrow> scope" where
  "admin_request tokens port path =
     \<lparr>sc_type = ''http'', sc_path = path,
      sc_headers = (case admin_token_for tokens ''localhost'' (Some port) path of
          Some t \<Rightarrow> [(Admin_Auth.ADMIN_TOKEN_HEADER, t)] | None \<Rightarrow> [])\<rparr>"

lemma launch_ready:
  assumes "launch insecure run_id agent_id port (Some tok) ms lo sp s = Some (Inr ra, s')" "tok \<noteq> []"
  shows "dict_get (sv_admin_tokens s') port = Some tok" "\<exists>pid. dict_get (sv_processes s') (agent_key run_id agent_id) = Some pid"
    "dict_get (sv_agents s') (agent_key run_id agent_id) = Some ra" "ra_port ra = port"
    "wf_dict (sv_processes s) \<Longrightarrow> wf_dict (sv_processes s')"
  using assms
  by (auto simp: launch_def start_process_def dict_simps Let_def split: list.splits sum.splits option.splits startup.splits prod.splits)

text \<open>
  C23: the service and only the service reaches the admin routes of an agent it launched. While
  the agent is in the table, a request of the service to an admin route of its port carries the
  token of its bootstrap and passes the agent's guard; once the run is killed, the service
  sends no token to that port any more, and without it the guard answers 401 to every guarded
  route without running the application.
\<close>

theorem admin_channel:
  assumes "launch insecure run_id agent_id port (Some (be_admin_token be)) ms lo sp s = Some (Inr ra, s')"
    and "be_admin_token be \<noteq> []" "guarded path" "CHR '':'' \<notin> set run_id" "wf_dict (sv_processes s)"
  shows "admin_auth app (get_str (build be se run_id ag am port peers inputs oidc po tb) ''admin_token'')
      (admin_request (sv_admin_tokens s') port path) w = app (admin_request (sv_admin_tokens s') port path) w
    \<and> admin_auth app (get_str (build be se run_id ag am port peers inputs oidc po tb) ''admin_token'')
      (admin_request (sv_admin_tokens (kill_run sys run_id s')) port path) w
      = ((401, ''{\"detail\": \"admin token missing or invalid\"}''), w)"
proof (intro conjI)
  note ready = launch_ready [OF assms(1,2)]
  have tok: "get_str (build be se run_id ag am port peers inputs oidc po tb) ''admin_token'' = Some (be_admin_token be)"
    using assms(2) by (simp add: get_str_def build_get)
  have admin: "path = ''/admin'' \<or> starts_with ''/admin/'' path" using assms(3) by (simp add: guarded_def)
  have "admin_token_for (sv_admin_tokens s') ''localhost'' (Some port) path = Some (be_admin_token be)"
    using admin ready(1) assms(2) by (simp add: admin_token_for_def)
  then show "admin_auth app (get_str (build be se run_id ag am port peers inputs oidc po tb) ''admin_token'')
      (admin_request (sv_admin_tokens s') port path) w = app (admin_request (sv_admin_tokens s') port path) w"
    using assms(2) by (simp add: tok admin_auth_def admin_request_def authorized_def middleware_token_def)
  have "of_run run_id (agent_key run_id agent_id)" by (simp add: agent_key_def starts_with_iff)
  with ready assms(4,5) have "dict_get (sv_admin_tokens (kill_run sys run_id s')) port = None"
    by (subst kill_run_tokens) auto
  then have "admin_token_for (sv_admin_tokens (kill_run sys run_id s')) ''localhost'' (Some port) path = None"
    by (simp add: admin_token_for_def)
  then show "admin_auth app (get_str (build be se run_id ag am port peers inputs oidc po tb) ''admin_token'')
      (admin_request (sv_admin_tokens (kill_run sys run_id s')) port path) w
      = ((401, ''{\"detail\": \"admin token missing or invalid\"}''), w)"
    using assms(2,3) by (simp add: tok admin_auth_def admin_request_def authorized_def middleware_token_def)
qed

section \<open>Witnesses\<close>

definition demo_build :: build_env where
  "demo_build = \<lparr>be_sha256_hex = id, be_certfile = ''c'', be_keyfile = ''k'', be_telemetry_token = ''m'', be_admin_token = ''t''\<rparr>"

definition demo_spawn :: spawn where
  "demo_spawn = \<lparr>sp_popen = Inr 7, sp_start = 0, sp_lines = [(0, ''hi''), (1, ''AITP_AGENT_READY aid=x'')], sp_rc = None, sp_stderr = []\<rparr>"

abbreviation demo_launched :: "(pyexc + running_agent) \<times> supervisor" where
  "demo_launched \<equiv> the (launch True ''r'' ''a'' 1 (Some (be_admin_token demo_build)) 5000 None demo_spawn supervisor_init)"

theorem admin_channel_witness:
  "\<forall>se ag am. admin_auth (\<lambda>sc w. ((200, []), Suc w)) (get_str (build demo_build se ''r'' ag am 1 [] [] None None None) ''admin_token'')
      (admin_request (sv_admin_tokens (snd demo_launched)) 1 ''/admin/x'') 0 = ((200, []), 1)
   \<and> admin_auth (\<lambda>sc w. ((200, []), Suc w)) (get_str (build demo_build se ''r'' ag am 1 [] [] None None None) ''admin_token'')
      (admin_request (sv_admin_tokens (kill_run \<lparr>os_poll = (\<lambda>_. None), os_reap = (\<lambda>_. None)\<rparr> ''r'' (snd demo_launched))) 1 ''/admin/x'') 0
      = ((401, ''{\"detail\": \"admin token missing or invalid\"}''), 0)"
proof -
  have "\<not> isl (fst demo_launched)" "launch True ''r'' ''a'' 1 (Some (be_admin_token demo_build)) 5000 None demo_spawn supervisor_init \<noteq> None"
    by code_simp+
  then have l: "launch True ''r'' ''a'' 1 (Some (be_admin_token demo_build)) 5000 None demo_spawn supervisor_init
      = Some (Inr (projr (fst demo_launched)), snd demo_launched)"
    by (cases "fst demo_launched") (auto simp: prod_eq_iff)
  show ?thesis
    using admin_channel [OF l, where path = "''/admin/x''" and app = "\<lambda>sc w. ((200, []), Suc w)" and w = 0]
    by (intro allI) (simp add: demo_build_def guarded_def EXEMPT_PATHS_def supervisor_init_def)
qed

end
