(* ===== verification/Engine_Steps.thy ===== *)
theory Engine_Steps
  imports Run_Context Base64url
begin

text \<open>
  \<open>src/aitp_playground/runner/engine.py\<close>: \<open>_dispatch_step\<close> with one definition per step
  type, fault injection, and the helpers the steps share. Each step is a computation over the
  engine's state; its requests, its events and its output are effects in the order the source
  has them.
\<close>

section \<open>Helpers\<close>

record step_ctx =
  sx_scenario :: scenario_version
  sx_peers :: "(string, json_dict) dict"
  sx_manifests :: "(string, agent_manifest) dict"
  sx_inputs :: json_dict

definition step_msg :: "workflow_step \<Rightarrow> string \<Rightarrow> string" where
  "step_msg st msg = ''step '' @ ws_id st @ '': '' @ msg"

text \<open>\<open>if not a or not b: raise PlaygroundError(...)\<close>.\<close>

definition given1 :: "string option \<Rightarrow> string \<Rightarrow> (string \<Rightarrow> 'x eng) \<Rightarrow> 'x eng" where
  "given1 a msg k = (case a of Some x \<Rightarrow> if x = [] then fail msg else k x | None \<Rightarrow> fail msg)"

definition given2 :: "string option \<Rightarrow> string option \<Rightarrow> string \<Rightarrow> (string \<Rightarrow> string \<Rightarrow> 'x eng) \<Rightarrow> 'x eng" where
  "given2 a b msg k = given1 a msg (\<lambda>x. given1 b msg (k x))"

definition given3 ::
  "string option \<Rightarrow> string option \<Rightarrow> string option \<Rightarrow> string \<Rightarrow> (string \<Rightarrow> string \<Rightarrow> string \<Rightarrow> 'x eng) \<Rightarrow> 'x eng" where
  "given3 a b c msg k = given1 a msg (\<lambda>x. given2 b c msg (k x))"

text \<open>\<open>peers[id]["manifest_url"]\<close>.\<close>

definition peer_url :: "step_ctx \<Rightarrow> string \<Rightarrow> json eng" where
  "peer_url sx a =
     (case dict_get (sx_peers sx) a of
        None \<Rightarrow> raise (EPy (PyExc KeyError None a))
      | Some p \<Rightarrow> (case dict_get p ''manifest_url'' of None \<Rightarrow> raise (EPy (PyExc KeyError None ''manifest_url'')) | Some u \<Rightarrow> ret u))"

definition as_text :: "json \<Rightarrow> string eng" where
  "as_text v = (case v of JStr s \<Rightarrow> ret s | _ \<Rightarrow> raise (EPy (PyExc AttributeError None ''replace'')))"

text \<open>\<open>s.replace(old, new)\<close> and \<open>s.replace(old, new, 1)\<close> for a non-empty \<open>old\<close>.\<close>

fun replace_n :: "nat \<Rightarrow> string \<Rightarrow> string \<Rightarrow> string \<Rightarrow> nat \<Rightarrow> string" where
  "replace_n 0 old new s k = s"
| "replace_n (Suc f) old new s k =
     (case s of
        [] \<Rightarrow> []
      | c # r \<Rightarrow>
          if 0 < k \<and> starts_with old s then new @ replace_n f old new (drop (length old) s) (k - 1)
          else c # replace_n f old new r k)"

definition str_replace :: "string \<Rightarrow> string \<Rightarrow> string \<Rightarrow> string" where
  "str_replace old new s = replace_n (length s) old new s (length s)"

definition replace_once :: "string \<Rightarrow> string \<Rightarrow> string \<Rightarrow> string" where
  "replace_once old new s = replace_n (length s) old new s 1"

definition classify_manifest_verify_failure :: "pyexc \<Rightarrow> string" where
  "classify_manifest_verify_failure e =
     (case exc_code e of Some c \<Rightarrow> c | None \<Rightarrow> if exc_kind e = ValueError then ''malformed'' else ''unknown'')"

text \<open>\<open>_held_delegation_chain\<close>: the most recent redemption of this holder from this issuer.\<close>

fun find_chain :: "string \<Rightarrow> string \<Rightarrow> json list \<Rightarrow> pyexc + json list" where
  "find_chain holder issuer [] = Inr []"
| "find_chain holder issuer (out # outs) =
     (case out of
        JObj d \<Rightarrow>
          (case get_json d ''delegation_chain'' of
             JObj chain \<Rightarrow>
               if chain \<noteq> [] \<and> get_json chain ''holder'' = JStr holder \<and> get_json chain ''issuer'' = JStr issuer
               then json_iter (case dict_get chain ''issuer_manifest_urls'' of Some us \<Rightarrow> us | None \<Rightarrow> JArr [])
               else find_chain holder issuer outs
           | v \<Rightarrow> if truthy v then Inl (PyExc AttributeError None ''get'') else find_chain holder issuer outs)
      | _ \<Rightarrow> find_chain holder issuer outs)"

definition held_delegation_chain :: "(string, json) dict \<Rightarrow> string \<Rightarrow> string \<Rightarrow> pyexc + json list" where
  "held_delegation_chain outputs holder issuer = find_chain holder issuer (rev (map snd outputs))"

fun first_some :: "('x \<Rightarrow> 'y option) \<Rightarrow> 'x list \<Rightarrow> 'y option" where
  "first_some f [] = None"
| "first_some f (x # xs) = (case f x of Some y \<Rightarrow> Some y | None \<Rightarrow> first_some f xs)"

definition offers :: "agent_manifest \<Rightarrow> string \<Rightarrow> bool" where
  "offers am cap \<longleftrightarrow> cap \<in> set (aa_offered_caps (am_aitp am))"

text \<open>\<open>_find_capability_holder\<close>; a missing or \<open>None\<close> manifest in the scan raises.\<close>

fun scan_holders :: "string \<Rightarrow> (string, agent_manifest option) dict \<Rightarrow> agent_spec list \<Rightarrow> string option eng" where
  "scan_holders cap ms [] = ret None"
| "scan_holders cap ms (a # as) =
     (case dict_get ms (as_id a) of
        None \<Rightarrow> raise (EPy (PyExc KeyError None (as_id a)))
      | Some None \<Rightarrow> raise (EPy (PyExc AttributeError None ''spec''))
      | Some (Some am) \<Rightarrow> if offers am cap then ret (Some (as_id a)) else scan_holders cap ms as)"

definition find_capability_holder ::
  "string \<Rightarrow> scenario_version \<Rightarrow> (string, agent_manifest option) dict \<Rightarrow> string option \<Rightarrow> string option eng" where
  "find_capability_holder cap sc ms prefer =
     (case prefer of
        Some p \<Rightarrow>
          (case dict_get ms p of
             Some (Some am) \<Rightarrow> if offers am cap then ret (Some p) else scan_holders cap ms (sp_agents (sv_spec sc))
           | _ \<Rightarrow> scan_holders cap ms (sp_agents (sv_spec sc)))
      | None \<Rightarrow> scan_holders cap ms (sp_agents (sv_spec sc)))"

definition known_manifests :: "step_ctx \<Rightarrow> (string, agent_manifest option) dict" where
  "known_manifests sx = map (\<lambda>(k, m). (k, Some m)) (sx_manifests sx)"

text \<open>\<open>_find_tct_jti\<close>: the token the issuer granted to the audience most recently.\<close>

definition granted_jti :: "string \<Rightarrow> string \<Rightarrow> json_dict \<Rightarrow> string option" where
  "granted_jti audience issuer ev =
     (case get_json ev ''jti'' of
        JStr j \<Rightarrow>
          if get_json ev ''type'' = JStr ''trust.established'' \<and> get_json ev ''initiator'' = JStr audience
             \<and> get_json ev ''target'' = JStr issuer \<and> j \<noteq> [] then Some j else None
      | _ \<Rightarrow> None)"

definition find_tct_jti :: "json_dict list \<Rightarrow> string \<Rightarrow> string \<Rightarrow> string option" where
  "find_tct_jti events audience issuer = first_some (granted_jti audience issuer) (rev events)"

definition render_template :: "(pyfloat \<Rightarrow> string) \<Rightarrow> json_dict \<Rightarrow> string \<Rightarrow> string" where
  "render_template fl inputs tpl =
     fold (\<lambda>(k, v) t. str_replace (''{{ inputs.'' @ k @ '' }}'') (py_str fl v) t) inputs tpl"

definition resolve_step_input :: "eng_env \<Rightarrow> workflow_step \<Rightarrow> json_dict \<Rightarrow> json eng" where
  "resolve_step_input env st inputs s =
     (let from_prior = (case ws_input_from st of Some f \<Rightarrow> if f = [] then None else dict_get (es_outputs s) f | None \<Rightarrow> None)
      in case from_prior of
           Some v \<Rightarrow> (Inr v, s)
         | None \<Rightarrow>
             (case ws_input_template st of
                Some t \<Rightarrow> if t = [] then (Inr (JObj inputs), s)
                          else (Inr (JStr (render_template (en_float_text env) inputs t)), s)
              | None \<Rightarrow> (Inr (JObj inputs), s)))"

section \<open>Exchanges with the agents\<close>

definition ensure_trust ::
  "eng_env \<Rightarrow> running_agent \<Rightarrow> running_agent \<Rightarrow> json \<Rightarrow> string list option \<Rightarrow> unit eng" where
  "ensure_trust env initiator target url requested =
     thenM (emit_event env ''trust.establishing''
              [(''initiator'', JStr (ra_agent_id initiator)), (''target'', JStr (ra_agent_id target))])
       (bindM (post_json env (engine_origin env (ra_port initiator) @ ''/admin/initiate-handshake'')
                 (Some (JObj [(''peer_manifest_url'', url),
                    (''requested_grants'', JArr (map JStr (case requested of Some g \<Rightarrow> g | None \<Rightarrow> [])))])))
          (\<lambda>v. bindM (as_dict AttributeError v) (\<lambda>data.
             bindM (lift_exc (json_iter (case dict_get data ''grants'' of Some g \<Rightarrow> g | None \<Rightarrow> JArr []))) (\<lambda>grants.
               emit_event env ''trust.established''
                 [(''initiator'', JStr (ra_agent_id initiator)), (''target'', JStr (ra_agent_id target)),
                  (''grants'', JArr grants), (''jti'', get_json data ''jti'')]))))"

text \<open>\<open>_push_trusted_peers\<close>: each agent is told the AIDs of the others, read from the
  engine's own table.\<close>

definition peer_aids :: "(string, running_agent) dict \<Rightarrow> string \<Rightarrow> string list" where
  "peer_aids running a =
     sort (map (\<lambda>(i, ra). ra_aid ra) (filter (\<lambda>(i, ra). i \<noteq> a \<and> ra_aid ra \<noteq> []) running))"

definition push_one :: "eng_env \<Rightarrow> (string, running_agent) dict \<Rightarrow> string \<times> running_agent \<Rightarrow> unit eng" where
  "push_one env running ar =
     (case ar of (a, ra) \<Rightarrow>
        let url = engine_origin env (ra_port ra) @ ''/admin/trust-peers''
        in bindM (http_call env ''POST'' url []
                    (Some (JObj [(''aids'', JArr (map JStr (peer_aids running a))), (''replace'', JBool True)])))
             (\<lambda>r. bindM (raise_for_status url r) (\<lambda>_. ret ())))"

definition push_trusted_peers :: "eng_env \<Rightarrow> unit eng" where
  "push_trusted_peers env =
     bindM (look es_running) (\<lambda>running.
       thenM (forM (push_one env running) running)
         (emit_event env ''trust.peers_pinned''
            [(''peers'', JObj (map (\<lambda>(a, ra). (a, JStr (ra_aid ra))) running))]))"

fun pairs_from :: "'x list \<Rightarrow> ('x \<times> 'x) list" where
  "pairs_from [] = []"
| "pairs_from (x # xs) = map (Pair x) xs @ pairs_from xs"

definition establish_pairwise_trust :: "eng_env \<Rightarrow> step_ctx \<Rightarrow> unit eng" where
  "establish_pairwise_trust env sx =
     forM (\<lambda>(a, b).
        bindM (running_of a) (\<lambda>ra. bindM (running_of b) (\<lambda>rb.
          thenM (bindM (peer_url sx b) (\<lambda>u. ensure_trust env ra rb u None))
            (bindM (peer_url sx a) (\<lambda>u. ensure_trust env rb ra u None)))))
       (pairs_from (map as_id (sp_agents (sv_spec (sx_scenario sx)))))"

definition invoke_body :: "int \<Rightarrow> string \<Rightarrow> json \<Rightarrow> json option" where
  "invoke_body port cap payload =
     Some (JObj [(''peer_port'', JInt port), (''capability'', JStr cap), (''payload'', payload)])"

text \<open>\<open>r.json()\<close>, or the fallback on a \<open>JSONDecodeError\<close>; undecodable bytes raise. The text
  of an answer (\<open>r.text\<close>) is its bytes.\<close>

definition json_or :: "(string \<Rightarrow> json) \<Rightarrow> string \<Rightarrow> json eng" where
  "json_or fallback content =
     (case decode_json_bytes content of
        None \<Rightarrow> raise (EPy (PyExc ValueError None ''not decodable''))
      | Some _ \<Rightarrow> (case loads_bytes content of Some v \<Rightarrow> ret v | None \<Rightarrow> ret (fallback content)))"

abbreviation raw_text :: "string \<Rightarrow> json" where
  "raw_text content \<equiv> JObj [(''raw'', JStr content)]"

definition peer_error :: "json \<Rightarrow> json_dict option" where
  "peer_error v = (case v of JObj d \<Rightarrow> if truthy (get_json d ''error'') then Some d else None | _ \<Rightarrow> None)"

definition invoke_capability :: "eng_env \<Rightarrow> running_agent \<Rightarrow> running_agent \<Rightarrow> string \<Rightarrow> json \<Rightarrow> json eng" where
  "invoke_capability env caller target cap payload =
     (let url = engine_origin env (ra_port caller) @ ''/admin/invoke''
      in bindM (http_call env ''POST'' url [] (invoke_body (ra_port target) cap payload))
           (\<lambda>a. bindM (raise_for_status url a) (\<lambda>content. bindM (json_or raw_text content) (\<lambda>v.
              case peer_error v of
                   Some d \<Rightarrow>
                     fail (''peer rejected '' @ cap @ '': status='' @ py_str (en_float_text env) (get_json d ''status_code'')
                       @ '' body='' @ py_str (en_float_text env) (get_json d ''body''))
                 | None \<Rightarrow> ret v))))"

definition self_execute :: "eng_env \<Rightarrow> running_agent \<Rightarrow> string \<Rightarrow> json \<Rightarrow> json eng" where
  "self_execute env ra cap payload =
     bindM (http_call env ''POST'' (engine_origin env (ra_port ra) @ ''/admin/self-execute'') []
              (Some (JObj [(''capability'', JStr cap), (''payload'', payload)])))
       (\<lambda>(st, content).
          if success_status st then json_or raw_text content
          else bindM (json_or JStr content) (\<lambda>detail.
                 fail (ra_agent_id ra @ '' self-execute '' @ cap @ '' failed: status='' @ str_int st @ '' detail=''
                   @ py_str (en_float_text env) detail)))"

definition probe_output :: "int \<Rightarrow> int option \<Rightarrow> bool \<Rightarrow> json \<Rightarrow> json" where
  "probe_output observed expect_status matched body =
     JObj [(''status_code'', JInt observed), (''rejected'', JBool (observed \<in> {401, 403})),
           (''expected_status'', (case expect_status of Some n \<Rightarrow> JInt n | None \<Rightarrow> JNull)),
           (''matched'', JBool matched), (''body'', body)]"

definition call_without_trust ::
  "eng_env \<Rightarrow> running_agent \<Rightarrow> running_agent \<Rightarrow> string \<Rightarrow> int option \<Rightarrow> json eng" where
  "call_without_trust env caller target cap expect_status =
     thenM (emit_event env ''step.probing_no_trust''
              [(''initiator'', JStr (ra_agent_id caller)), (''target'', JStr (ra_agent_id target)), (''capability'', JStr cap)])
       (bindM (http_call env ''POST'' (engine_origin env (ra_port target) @ ''/capabilities/'' @ cap) [] (Some (JObj [])))
          (\<lambda>(observed, content).
             let rejected = observed \<in> {401, 403};
                 matched = (expect_status = None \<or> expect_status = Some observed);
                 ty = (if rejected \<and> matched then ''step.access_denied'' else ''step.unexpected_status'')
             in thenM (emit_event env ty
                   [(''target'', JStr (ra_agent_id target)), (''capability'', JStr cap),
                    (''result'', JObj [(''status_code'', JInt observed)])])
                  (ret (probe_output observed expect_status matched
                     (case loads_bytes content of Some v \<Rightarrow> v | None \<Rightarrow> JStr content)))))"

definition probe_with_held_tct ::
  "eng_env \<Rightarrow> running_agent \<Rightarrow> running_agent \<Rightarrow> string \<Rightarrow> json \<Rightarrow> int option \<Rightarrow> json eng" where
  "probe_with_held_tct env caller target cap payload expect_status =
     thenM (emit_event env ''step.probing_with_held_tct''
              [(''initiator'', JStr (ra_agent_id caller)), (''target'', JStr (ra_agent_id target)), (''capability'', JStr cap)])
       (bindM (post_json env (engine_origin env (ra_port caller) @ ''/admin/invoke'') (invoke_body (ra_port target) cap payload))
          (\<lambda>v. bindM (case peer_error v of
                        Some d \<Rightarrow> bindM (lift_exc (py_int (case dict_get d ''status_code'' of Some n \<Rightarrow> n | None \<Rightarrow> JInt 0)))
                                    (\<lambda>n. ret (n, get_json d ''body''))
                      | None \<Rightarrow> ret (200, v))
             (\<lambda>(observed, inner).
                let rejected = observed \<in> {401, 403};
                    matched = (expect_status = None \<or> expect_status = Some observed);
                    ty = (if rejected \<and> matched then ''step.access_denied''
                          else if \<not> matched then ''step.unexpected_status'' else ''step.complete'')
                in thenM (emit_event env ty
                      [(''initiator'', JStr (ra_agent_id caller)), (''target'', JStr (ra_agent_id target)),
                       (''capability'', JStr cap), (''result'', JObj [(''status_code'', JInt observed)])])
                     (ret (probe_output observed expect_status matched inner)))))"

section \<open>Steps\<close>

abbreviation complete :: "eng_env \<Rightarrow> workflow_step \<Rightarrow> json \<Rightarrow> unit eng" where
  "complete env st result \<equiv> emit_event env ''step.complete'' [(''step_id'', JStr (ws_id st)), (''result'', result)]"

text \<open>A step that needs the Control Plane, without one.\<close>

definition skip_no_cp :: "eng_env \<Rightarrow> workflow_step \<Rightarrow> json_dict \<Rightarrow> unit eng" where
  "skip_no_cp env st output =
     thenM (emit_event env ''step.skipped''
              [(''step_id'', JStr (ws_id st)), (''notes'', JStr ''CP not configured (CP_BASE_URL unset)'')])
       (set_output (ws_id st) (JObj (output @ [(''skipped'', JStr ''no cp'')])))"

definition step_no_trust :: "eng_env \<Rightarrow> step_ctx \<Rightarrow> workflow_step \<Rightarrow> unit eng" where
  "step_no_trust env sx st =
     given3 (ws_agent st) (ws_target_agent st) (ws_capability st)
       (step_msg st ''capability_call_no_trust requires agent, target_agent, capability'') (\<lambda>a t cap.
       bindM (running_of a) (\<lambda>ra. bindM (running_of t) (\<lambda>rt.
         bindM (call_without_trust env ra rt cap (ws_expect_status st)) (\<lambda>result.
           thenM (set_output (ws_id st) result) (complete env st result)))))"

definition step_probe :: "eng_env \<Rightarrow> step_ctx \<Rightarrow> workflow_step \<Rightarrow> unit eng" where
  "step_probe env sx st =
     given3 (ws_agent st) (ws_target_agent st) (ws_capability st)
       (step_msg st ''capability_probe requires agent, target_agent, capability'') (\<lambda>a t cap.
       bindM (resolve_step_input env st (sx_inputs sx)) (\<lambda>payload.
         bindM (running_of a) (\<lambda>ra. bindM (running_of t) (\<lambda>rt.
           bindM (probe_with_held_tct env ra rt cap payload (ws_expect_status st)) (\<lambda>result.
             thenM (set_output (ws_id st) result) (complete env st result))))))"

definition step_handshake :: "eng_env \<Rightarrow> step_ctx \<Rightarrow> workflow_step \<Rightarrow> unit eng" where
  "step_handshake env sx st =
     given2 (ws_initiator st) (ws_responder st) (step_msg st ''handshake requires initiator and responder'') (\<lambda>i r.
       bindM (running_of i) (\<lambda>a. bindM (running_of r) (\<lambda>b.
         thenM (bindM (peer_url sx r) (\<lambda>u. ensure_trust env a b u (ws_requested_grants st)))
           (thenM (set_output (ws_id st) (JObj [(''trust'', JStr ''established'')]))
              (emit_event env ''step.complete'' [(''step_id'', JStr (ws_id st))])))))"

definition step_delegate :: "eng_env \<Rightarrow> step_ctx \<Rightarrow> workflow_step \<Rightarrow> unit eng" where
  "step_delegate env sx st =
     given3 (ws_delegator st) (ws_delegatee st) (ws_via_peer st)
       (step_msg st ''delegate requires delegator, delegatee, via_peer'') (\<lambda>dr de via.
       bindM (running_of dr) (\<lambda>rd. bindM (running_of via) (\<lambda>rv. bindM (peer_url sx de) (\<lambda>url.
         let scope0 = (case ws_scope st of Some x \<Rightarrow> x | None \<Rightarrow> [])
         in if scope0 = [] then fail (step_msg st ''delegate requires non-empty scope'')
            else
              thenM (emit_event env ''delegation.issuing''
                       [(''initiator'', JStr dr), (''target'', JStr de), (''grants'', JArr (map JStr scope0))])
                (bindM (post_json env (engine_origin env (ra_port rd) @ ''/admin/delegate'')
                     (Some (JObj [(''held_tct_peer_port'', JInt (ra_port rv)), (''delegatee_manifest_url'', url),
                        (''scope'', JArr (map JStr scope0)),
                        (''ttl_secs'', (case ws_ttl_secs st of Some n \<Rightarrow> JInt n | None \<Rightarrow> JNull))])))
                   (\<lambda>v. bindM (look es_outputs) (\<lambda>outputs.
                      bindM (lift_exc (held_delegation_chain outputs dr via)) (\<lambda>chain.
                      bindM (as_dict TypeError v) (\<lambda>data.
                        thenM (set_output (ws_id st)
                                 (JObj (dict_set ''issuer_manifest_urls'' (JArr (chain @ [JStr (ra_manifest_url rd)])) data)))
                          (complete env st (JObj [(''delegatee_aid'', get_json data ''delegatee_aid''),
                             (''scope'', JArr (map JStr scope0))])))))))))))"

definition step_redeem :: "eng_env \<Rightarrow> step_ctx \<Rightarrow> workflow_step \<Rightarrow> unit eng" where
  "step_redeem env sx st =
     given3 (ws_delegatee st) (ws_target st) (ws_via_delegation st)
       (step_msg st ''redeem_delegation requires delegatee, target, via_delegation'') (\<lambda>de tg via.
       bindM (look es_outputs) (\<lambda>outputs. case dict_get outputs via of
          Some (JObj prior) \<Rightarrow>
            (case dict_get prior ''delegation_token'' of
               None \<Rightarrow> fail (step_msg st (''via_delegation '' @ [CHR 0x27] @ via @ [CHR 0x27] @ '' did not produce a delegation_token''))
             | Some token \<Rightarrow>
                 bindM (running_of de) (\<lambda>rd. bindM (running_of tg) (\<lambda>rt. bindM (peer_url sx tg) (\<lambda>u.
                 bindM (as_text u) (\<lambda>turl.
                   let url = engine_origin env (ra_port rd) @ ''/admin/redeem-delegation'';
                       issuers = (case dict_get prior ''issuer_manifest_urls'' of Some x \<Rightarrow> x | None \<Rightarrow> JArr [])
                   in thenM (emit_event env ''delegation.redeeming'' [(''initiator'', JStr de), (''target'', JStr tg)])
                      (bindM (http_call env ''POST'' url []
                           (Some (JObj [(''redeem_url'',
                                JStr (str_replace ''/.well-known/aitp-manifest'' ''/aitp/delegation/redeem'' turl)),
                              (''delegation_token'', token), (''peer_port'', JInt (ra_port rt)),
                              (''issuer_manifest_urls'', issuers)])))
                         (\<lambda>(status, content).
                            case ws_expect_status st of
                              Some expected \<Rightarrow>
                                (let out = probe_output status (Some expected) (status = expected)
                                       (case loads_bytes content of Some v \<Rightarrow> v | None \<Rightarrow> JStr content)
                                 in thenM (set_output (ws_id st) out) (complete env st out))
                            | None \<Rightarrow>
                                bindM (raise_for_status url (status, content)) (\<lambda>ok. bindM (resp_json ok) (\<lambda>v.
                                bindM (lift_exc (json_iter issuers)) (\<lambda>us. bindM (as_dict TypeError v) (\<lambda>data.
                                  thenM (set_output (ws_id st) (JObj (dict_set ''delegation_chain''
                                      (JObj [(''holder'', JStr de), (''issuer'', JStr tg), (''issuer_manifest_urls'', JArr us)])
                                      data)))
                                    (complete env st (JObj [(''redeemed_from'', JStr tg), (''by'', JStr de)])))))))))))))
        | _ \<Rightarrow> fail (step_msg st (''via_delegation '' @ [CHR 0x27] @ via @ [CHR 0x27] @ '' did not produce a delegation_token''))))"

text \<open>The re-signing and the refreshes that follow a revocation recorded at the Control Plane.\<close>

definition refresh_count :: "int \<times> string \<Rightarrow> int eng" where
  "refresh_count a =
     (case a of (status, content) \<Rightarrow>
        if success_status status then
          bindM (resp_json content) (\<lambda>v. bindM (as_dict AttributeError v) (\<lambda>d.
            lift_exc (py_int (case dict_get d ''revoked_count'' of Some n \<Rightarrow> n | None \<Rightarrow> JInt 0))))
        else ret 0)"

fun refresh_each :: "eng_env \<Rightarrow> string list \<Rightarrow> (string, int) dict \<Rightarrow> (string, int) dict eng" where
  "refresh_each env [] acc = ret acc"
| "refresh_each env (a # as) acc =
     bindM (running_of a) (\<lambda>ra.
       bindM (http_call env ''POST'' (engine_origin env (ra_port ra) @ ''/admin/refresh-revocations'') [] None) (\<lambda>r.
         bindM (refresh_count r) (\<lambda>n. refresh_each env as (dict_set a n acc))))"

definition revoke_via_cp :: "eng_env \<Rightarrow> workflow_step \<Rightarrow> string \<Rightarrow> string \<Rightarrow> bool \<Rightarrow> json_dict eng" where
  "revoke_via_cp env st issuer jti local_revoke =
     bindM (running_of issuer) (\<lambda>ri.
     bindM (cp_send env (publish_revocation_request (en_cp env) jti
              (case ws_reason st of Some r \<Rightarrow> if r = [] then ''step '' @ ws_id st else r | None \<Rightarrow> ''step '' @ ws_id st)
              (Some (ra_aid ri)))) (\<lambda>published.
     let to_cp = (case published of Some r \<Rightarrow> publish_revocation r | None \<Rightarrow> False)
     in bindM (http_call env ''POST'' (engine_origin env (ra_port ri) @ ''/admin/publish-revocations'') [] None)
          (\<lambda>(pst, pcontent).
          bindM (if success_status pst then resp_json pcontent else ret (JObj [(''published'', JBool False)])) (\<lambda>issuer_list.
          thenM (emit_event env ''revocation.published''
                   [(''step_id'', JStr (ws_id st)), (''jti'', JStr jti),
                    (''result'', JObj [(''to_cp'', JBool to_cp), (''reason'', jstr_opt (ws_reason st))])])
            (bindM (refresh_each env (case ws_refresh_agents st of Some as \<Rightarrow> if as = [] then [issuer] else as | None \<Rightarrow> [issuer]) [])
               (\<lambda>refreshed.
                  ret [(''published_to_cp'', JBool to_cp),
                       (''issuer_revoked_count'', JInt (case dict_get refreshed issuer of Some n \<Rightarrow> n | None \<Rightarrow> 0)),
                       (''local_revoke'', JBool local_revoke),
                       (''refreshed'', JObj (map (\<lambda>(a, n). (a, JInt n)) refreshed)),
                       (''issuer_list'', issuer_list)]))))))"

definition revoke_locally :: "eng_env \<Rightarrow> string \<Rightarrow> string \<Rightarrow> unit eng" where
  "revoke_locally env issuer jti =
     bindM (running_of issuer) (\<lambda>ri.
       let url = engine_origin env (ra_port ri) @ ''/admin/revoke-tct''
       in bindM (http_call env ''POST'' url [] (Some (JObj [(''jti'', JStr jti)])))
            (\<lambda>a. bindM (raise_for_status url a) (\<lambda>_. ret ())))"

definition step_revoke :: "eng_env \<Rightarrow> step_ctx \<Rightarrow> workflow_step \<Rightarrow> unit eng" where
  "step_revoke env sx st =
     given2 (ws_issuer st) (ws_audience st) (step_msg st ''revoke_tct requires issuer and audience'') (\<lambda>issuer audience.
       bindM (look es_events) (\<lambda>events. case find_tct_jti events audience issuer of
          None \<Rightarrow>
            fail (step_msg st (''no prior trust.established event for audience='' @ audience @ '' issuer='' @ issuer
              @ '' '' @ [CHR 0xE2, CHR 0x80, CHR 0x94] @ '' handshake first''))
        | Some jti \<Rightarrow>
            (let local_revoke = (ws_local_revoke st \<noteq> Some False); via_cp = (ws_via_cp st = Some True)
             in if \<not> local_revoke \<and> \<not> via_cp then fail (step_msg st ''local_revoke: false needs via_cp: true'')
                else if \<not> local_revoke \<and> \<not> cp_enabled (en_cp env) then
                  skip_no_cp env st [(''revoked_jti'', JStr jti)]
                else
                  thenM (if local_revoke then revoke_locally env issuer jti else ret ())
                    (bindM (if via_cp then revoke_via_cp env st issuer jti local_revoke else ret [])
                       (\<lambda>extra.
                          let result = JObj ((''revoked_jti'', JStr jti) # extra)
                          in thenM (set_output (ws_id st) result) (complete env st result))))))"

definition step_enroll :: "eng_env \<Rightarrow> step_ctx \<Rightarrow> workflow_step \<Rightarrow> unit eng" where
  "step_enroll env sx st =
     given1 (ws_agent st) (step_msg st ''enroll_with_cp requires agent'') (\<lambda>a.
       if \<not> cp_enabled (en_cp env) then skip_no_cp env st [(''enrolled'', JBool False)]
       else
         bindM (running_of a) (\<lambda>ra.
           thenM (emit_event env ''cp.enroll_started'' [(''step_id'', JStr (ws_id st)), (''agent_id'', JStr a)])
             (bindM (post_json env (engine_origin env (ra_port ra) @ ''/admin/enroll-with-cp'') (Some (JObj [])))
                (\<lambda>v. thenM (set_output (ws_id st) v)
                   (bindM (as_dict AttributeError v) (\<lambda>data.
                      thenM (emit_event env ''cp.enroll_complete''
                               [(''step_id'', JStr (ws_id st)), (''agent_id'', JStr a), (''aid'', get_json data ''aid''),
                                (''result'', JObj [(''registered_at'', get_json data ''registered_at'')])])
                        (complete env st v)))))))"

text \<open>\<open>self.webhook_ids.add(created["id"])\<close>: an unhashable identifier raises.\<close>

definition remember_webhook :: "json \<Rightarrow> unit eng" where
  "remember_webhook i s =
     (if \<not> truthy i then (Inr (), s)
      else
        (case i of
           JStr w \<Rightarrow> (Inr (), s\<lparr>es_webhook_ids := insert w (es_webhook_ids s)\<rparr>)
         | _ \<Rightarrow> if hashable i then (Inr (), s) else (Inl (EPy (PyExc TypeError None ''unhashable'')), s)))"

definition upsert_run :: "eng_env \<Rightarrow> json_dict \<Rightarrow> unit eng" where
  "upsert_run env r s =
     (Inr (), s\<lparr>es_store := upsert (en_run_id env) r (en_clk env (es_ticks s)) (es_store s), es_ticks := es_ticks s + 1\<rparr>)"

definition step_subscribe :: "eng_env \<Rightarrow> step_ctx \<Rightarrow> workflow_step \<Rightarrow> unit eng" where
  "step_subscribe env sx st =
     (if \<not> cp_enabled (en_cp env) then skip_no_cp env st [(''subscribed'', JBool False)]
      else
        (let url = rstrip_slash (en_playground_base_url env) @ ''/webhooks/cp/'' @ en_run_id env;
             evs = (case ws_events st of Some es \<Rightarrow> es | None \<Rightarrow> []);
             evs_json = JArr (map JStr evs)
         in bindM (cp_send env (create_webhook_request (en_cp env) url evs None True)) (\<lambda>r.
              case Option.bind r read_dict of
                Some (c # cs) \<Rightarrow>
                  (let created = c # cs; wid = get_json created ''id''
                   in thenM (remember_webhook wid)
                        (thenM (upsert_run env [(''cp_webhook'',
                             JObj [(''id'', wid), (''secret'', get_json created ''secret''), (''url'', JStr url),
                                   (''events'', evs_json)])])
                           (thenM (emit_event env ''cp.webhook.subscribed'' [(''step_id'', JStr (ws_id st)),
                                (''result'', JObj [(''id'', wid), (''url'', JStr url), (''events'', evs_json)])])
                              (set_output (ws_id st)
                                 (JObj [(''subscribed'', JBool True), (''webhook_id'', wid), (''url'', JStr url),
                                        (''events'', evs_json)])))))
              | _ \<Rightarrow>
                  thenM (emit_event env ''cp.webhook.subscribe_failed''
                           [(''step_id'', JStr (ws_id st)), (''notes'', JStr ''CP refused or unreachable'')])
                    (set_output (ws_id st) (JObj [(''subscribed'', JBool False)])))))"

text \<open>
  The manifest a trust anchor is pinned from: fetched, verified by the SDK, and declared by the
  agent the runner launched. \<open>mr.json().get("manifest", {})\<close>.
\<close>

definition refuse_manifest :: "eng_env \<Rightarrow> workflow_step \<Rightarrow> string \<Rightarrow> running_agent \<Rightarrow> pyexc \<Rightarrow> json eng" where
  "refuse_manifest env st a ra e =
     (let cause = classify_manifest_verify_failure e
      in thenM (emit_event env ''manifest.verify_failed''
                  [(''step_id'', JStr (ws_id st)), (''agent_id'', JStr a), (''cause'', JStr cause),
                   (''source_url'', JStr (ra_manifest_url ra))])
           (fail (''manifest at '' @ ra_manifest_url ra @ '' failed verification ('' @ cause @ ''): '' @ exc_msg e
              @ '' '' @ [CHR 0xE2, CHR 0x80, CHR 0x94] @ '' refusing to pin a trust anchor from an unverified manifest'')))"

definition own_manifest :: "eng_env \<Rightarrow> running_agent \<Rightarrow> string \<Rightarrow> json eng" where
  "own_manifest env ra content =
     bindM (resp_json content) (\<lambda>v. bindM (as_dict AttributeError v) (\<lambda>d.
     bindM (as_dict AttributeError (case dict_get d ''manifest'' of Some m \<Rightarrow> m | None \<Rightarrow> JObj [])) (\<lambda>m.
       if get_json m ''aid'' \<noteq> JStr (ra_aid ra)
       then fail (''manifest at '' @ ra_manifest_url ra @ '' declares aid ''
              @ py_repr_json (en_float_text env) (get_json m ''aid'')
              @ '', but the runner launched '' @ repr_str (ra_aid ra) @ '' '' @ [CHR 0xE2, CHR 0x80, CHR 0x94]
              @ '' refusing to pin a trust anchor for an agent that is not the one answering at this port'')
       else ret (JObj m))))"

definition verified_manifest :: "eng_env \<Rightarrow> workflow_step \<Rightarrow> string \<Rightarrow> running_agent \<Rightarrow> json eng" where
  "verified_manifest env st a ra =
     bindM (http_call env ''GET'' (ra_manifest_url ra) [] None) (\<lambda>r.
     bindM (raise_for_status (ra_manifest_url ra) r) (\<lambda>content.
     case en_verify_manifest env content (en_insecure env) of
       Inl e \<Rightarrow> refuse_manifest env st a ra e
     | Inr _ \<Rightarrow> own_manifest env ra content))"

definition opt_dict :: "http_result option \<Rightarrow> json" where
  "opt_dict r = (case Option.bind r read_dict of Some d \<Rightarrow> JObj d | None \<Rightarrow> JNull)"

definition count_list :: "string \<Rightarrow> http_result option \<Rightarrow> int eng" where
  "count_list key r = (case r of None \<Rightarrow> ret 0 | Some a \<Rightarrow> bindM (lift_exc (read_list key a)) (\<lambda>xs. ret (int (length xs))))"

definition manifest_key :: "json_dict \<Rightarrow> json eng" where
  "manifest_key m =
     (let hint = get_json m ''identity_hint''
      in if truthy hint then bindM (as_dict AttributeError hint) (\<lambda>h. ret (get_json h ''public_key'')) else ret JNull)"

text \<open>The registrations and the reading back.\<close>

definition register_anchor ::
  "eng_env \<Rightarrow> workflow_step \<Rightarrow> string \<Rightarrow> running_agent \<Rightarrow> string \<Rightarrow> json \<Rightarrow> unit eng" where
  "register_anchor env st a ra namespace pubkey =
     bindM (if truthy pubkey then cp_send env (pinned_key_request (en_cp env) (ra_aid ra) pubkey (Some namespace) (Some a))
            else ret None) (\<lambda>pinned.
     bindM (case ws_issuer_url st of
              Some u \<Rightarrow> if u = [] then ret None
                        else cp_send env (trust_anchor_request (en_cp env) u (Some namespace) None (Some a))
            | None \<Rightarrow> ret None) (\<lambda>anchor.
     bindM (cp_send env (pinned_keys_request (en_cp env) (Some namespace))) (\<lambda>pk.
     bindM (count_list ''pinnedKeys'' pk) (\<lambda>npk.
     bindM (cp_send env (trust_anchors_request (en_cp env) (Some namespace))) (\<lambda>ta.
     bindM (count_list ''trustAnchors'' ta) (\<lambda>nta.
       let result = JObj [(''provisioned'', JBool True), (''namespace'', JStr namespace),
             (''pinned_key'', opt_dict pinned), (''trust_anchor'', opt_dict anchor),
             (''pinned_key_count'', JInt npk), (''trust_anchor_count'', JInt nta)]
       in thenM (set_output (ws_id st) result)
            (thenM (emit_event env ''cp.trust_anchor.provisioned''
                      [(''step_id'', JStr (ws_id st)), (''agent_id'', JStr a), (''result'', result)])
               (complete env st result))))))))"

definition step_provision :: "eng_env \<Rightarrow> step_ctx \<Rightarrow> workflow_step \<Rightarrow> unit eng" where
  "step_provision env sx st =
     given1 (ws_agent st) (step_msg st ''cp_provision_trust_anchor requires agent'') (\<lambda>a.
       if \<not> cp_enabled (en_cp env) then skip_no_cp env st [(''provisioned'', JBool False)]
       else
         bindM (running_of a) (\<lambda>ra.
         let namespace = (case ws_namespace st of
               Some n \<Rightarrow> if n = [] then sm_pack (sv_metadata (sx_scenario sx)) else n
             | None \<Rightarrow> sm_pack (sv_metadata (sx_scenario sx)))
         in bindM (verified_manifest env st a ra) (\<lambda>mv. bindM (as_dict AttributeError mv) (\<lambda>m.
            bindM (manifest_key m) (register_anchor env st a ra namespace)))))"

definition step_tree :: "eng_env \<Rightarrow> step_ctx \<Rightarrow> workflow_step \<Rightarrow> unit eng" where
  "step_tree env sx st =
     given1 (ws_agent st) (step_msg st ''cp_delegation_tree requires agent'') (\<lambda>a.
       if \<not> cp_enabled (en_cp env) then skip_no_cp env st [(''delegations'', JArr [])]
       else
         bindM (running_of a) (\<lambda>ra.
         bindM (look (\<lambda>s. case get_run_record (en_run_id env) (es_store s) of
                 Some r \<Rightarrow> events_of r | None \<Rightarrow> map JObj (es_events s))) (\<lambda>evs.
           thenM (cp_send env (ingest_request (en_cp env) evs))
                (bindM (cp_send env (delegations_request (en_cp env) None None (Some (ra_aid ra)) None None 200)) (\<lambda>r.
                 bindM (case r of None \<Rightarrow> ret [] | Some x \<Rightarrow> lift_exc (read_list ''delegations'' x)) (\<lambda>chain.
                   let result = JObj [(''delegator'', JStr (ra_aid ra)), (''delegations'', JArr chain),
                         (''count'', JInt (int (length chain)))]
                   in thenM (set_output (ws_id st) result)
                        (thenM (emit_event env ''cp.delegation.tree''
                                  [(''step_id'', JStr (ws_id st)), (''agent_id'', JStr a), (''result'', result)])
                           (complete env st result))))))))"

definition step_renew :: "eng_env \<Rightarrow> step_ctx \<Rightarrow> workflow_step \<Rightarrow> unit eng" where
  "step_renew env sx st =
     given2 (ws_agent st) (ws_via_peer st)
       (step_msg st ''renew_tct requires agent (holder) and via_peer (issuer)'') (\<lambda>a via.
       bindM (running_of a) (\<lambda>rh. bindM (running_of via) (\<lambda>ri.
         bindM (post_json env (engine_origin env (ra_port rh) @ ''/admin/renew-tct'')
                  (Some (JObj [(''peer_port'', JInt (ra_port ri))]))) (\<lambda>v.
           thenM (set_output (ws_id st) v)
             (bindM (as_dict AttributeError v) (\<lambda>data.
                thenM (emit_event env ''tct.renewed''
                         [(''step_id'', JStr (ws_id st)), (''agent_id'', JStr a), (''target'', JStr via),
                          (''jti'', get_json data ''jti''),
                          (''result'', JObj [(''expires_at'', get_json data ''expires_at'')])])
                  (complete env st v)))))))"

definition step_cache_stats :: "eng_env \<Rightarrow> step_ctx \<Rightarrow> workflow_step \<Rightarrow> unit eng" where
  "step_cache_stats env sx st =
     given1 (ws_agent st) (step_msg st ''tct_cache_stats requires agent'') (\<lambda>a.
       bindM (running_of a) (\<lambda>ra.
         let url = engine_origin env (ra_port ra) @ ''/admin/tct-cache-stats''
         in bindM (http_call env ''GET'' url [] None) (\<lambda>r. bindM (raise_for_status url r) (\<lambda>ok. bindM (resp_json ok) (\<lambda>v.
              thenM (set_output (ws_id st) v)
                (thenM (emit_event env ''tct.cache.stats''
                          [(''step_id'', JStr (ws_id st)), (''agent_id'', JStr a), (''result'', v)])
                   (complete env st v)))))))"

text \<open>\<open>h["aid"], h["tct_token"]\<close> of each participant's held token.\<close>

definition item :: "json_dict \<Rightarrow> string \<Rightarrow> json eng" where
  "item d k = (case dict_get d k of Some v \<Rightarrow> ret v | None \<Rightarrow> raise (EPy (PyExc KeyError None k)))"

fun collect_held :: "eng_env \<Rightarrow> running_agent \<Rightarrow> string list \<Rightarrow> json list \<Rightarrow> json list eng" where
  "collect_held env coord [] acc = ret acc"
| "collect_held env coord (p # ps) acc =
     bindM (running_of p) (\<lambda>rp.
       let url = engine_origin env (ra_port rp) @ ''/admin/held-tct''
       in bindM (http_call env ''GET'' url [(''peer_port'', JInt (ra_port coord))] None) (\<lambda>r.
          bindM (raise_for_status url r) (\<lambda>ok. bindM (resp_json ok) (\<lambda>v. bindM (as_dict TypeError v) (\<lambda>h.
          bindM (item h ''aid'') (\<lambda>aid. bindM (item h ''tct_token'') (\<lambda>tok.
            collect_held env coord ps (acc @ [JObj [(''aid'', aid), (''tct_token'', tok)]]))))))))"

definition get_default :: "json_dict \<Rightarrow> string \<Rightarrow> json \<Rightarrow> json" where
  "get_default d k dflt = (case dict_get d k of Some v \<Rightarrow> v | None \<Rightarrow> dflt)"

definition step_export :: "eng_env \<Rightarrow> step_ctx \<Rightarrow> workflow_step \<Rightarrow> unit eng" where
  "step_export env sx st =
     (let msg = step_msg st ''export_session_bundle requires coordinator and participants''
      in given1 (ws_coordinator st) msg (\<lambda>c.
           case ws_participants st of
             Some (p # ps) \<Rightarrow>
               bindM (running_of c) (\<lambda>rc. bindM (collect_held env rc (p # ps) []) (\<lambda>tcts.
               bindM (post_json env (engine_origin env (ra_port rc) @ ''/admin/export-session-bundle'')
                        (Some (JObj [(''participant_tcts'', JArr tcts)]))) (\<lambda>v. bindM (as_dict TypeError v) (\<lambda>d0.
                 let data = dict_set ''coordinator_manifest_url'' (JStr (ra_manifest_url rc)) d0
                 in thenM (set_output (ws_id st) (JObj data))
                      (thenM (emit_event env ''session.bundle.exported''
                                [(''step_id'', JStr (ws_id st)), (''agent_id'', JStr c),
                                 (''result'', JObj [(''participant_aids'', get_default data ''participant_aids'' (JArr [])),
                                    (''session_id'', get_json data ''session_id'')])])
                         (complete env st (JObj data)))))))
           | _ \<Rightarrow> fail msg))"

definition step_verify_bundle :: "eng_env \<Rightarrow> step_ctx \<Rightarrow> workflow_step \<Rightarrow> unit eng" where
  "step_verify_bundle env sx st =
     given2 (ws_verifier st) (ws_via_step st)
       (step_msg st ''verify_session_bundle requires verifier and via_step'') (\<lambda>vf via.
       bindM (look es_outputs) (\<lambda>outputs. bindM (case dict_get outputs via of
                     Some p \<Rightarrow> if truthy p then as_dict AttributeError p else ret []
                   | None \<Rightarrow> ret []) (\<lambda>prior.
              if \<not> truthy (get_json prior ''bundle_envelope'')
              then fail (step_msg st (''via_step '' @ repr_str via @ '' did not produce a bundle_envelope''))
              else
                bindM (running_of vf) (\<lambda>rv.
                bindM (post_json env (engine_origin env (ra_port rv) @ ''/admin/verify-session-bundle'')
                         (Some (JObj [(''bundle_envelope'', get_json prior ''bundle_envelope''),
                            (''coordinator_manifest_url'', get_json prior ''coordinator_manifest_url'')]))) (\<lambda>v.
                  thenM (set_output (ws_id st) v)
                    (bindM (as_dict AttributeError v) (\<lambda>data.
                       thenM (emit_event env ''session.bundle.verified''
                                [(''step_id'', JStr (ws_id st)), (''agent_id'', JStr vf),
                                 (''result'', JObj [(''kind'', get_json data ''kind''),
                                    (''active_aids'', get_default data ''active_aids'' (JArr [])),
                                    (''dropped_aids'', get_default data ''dropped_aids'' (JArr []))])])
                         (complete env st v))))))))"

text \<open>\<open>base64.b64decode\<close> (characters outside the standard alphabet are skipped) and
  \<open>base64.b64encode\<close>.\<close>

definition std_b64decode :: "string \<Rightarrow> pyexc + string" where
  "std_b64decode s =
     (case (if is_ascii s then a2b_base64 0 0 0 (filter (\<lambda>c. c \<noteq> CHR ''-'' \<and> c \<noteq> CHR ''_'') s) else None) of
        Some b \<Rightarrow> Inr b | None \<Rightarrow> Inl (PyExc ValueError None ''base64''))"

definition std_b64encode :: "string \<Rightarrow> string" where
  "std_b64encode b =
     map (\<lambda>c. if c = CHR ''-'' then CHR ''+'' else if c = CHR ''_'' then CHR ''/'' else c) (urlsafe_b64encode b)"

fun map_exc :: "('x \<Rightarrow> pyexc + 'y) \<Rightarrow> 'x list \<Rightarrow> pyexc + 'y list" where
  "map_exc f [] = Inr []"
| "map_exc f (x # xs) = bindE (f x) (\<lambda>y. bindE (map_exc f xs) (\<lambda>ys. Inr (y # ys)))"

definition step_spki :: "eng_env \<Rightarrow> step_ctx \<Rightarrow> workflow_step \<Rightarrow> unit eng" where
  "step_spki env sx st =
     (let msg = step_msg st ''spki_pin_check requires cert_der_b64 and pins''
      in given1 (ws_cert_der_b64 st) msg (\<lambda>cert.
           case ws_pins st of
             None \<Rightarrow> fail msg
           | Some pins \<Rightarrow>
               bindM (lift_exc (std_b64decode cert)) (\<lambda>der. bindM (lift_exc (map_exc std_b64decode pins)) (\<lambda>pin_bytes.
               bindM (lift_exc (en_spki_hash env der)) (\<lambda>h. bindM (lift_exc (en_is_pinned env pin_bytes der)) (\<lambda>pinned.
                 let result = JObj [(''computed_hash_b64'', JStr (std_b64encode h)),
                       (''pin_count'', JInt (int (length pin_bytes))), (''is_pinned'', JBool pinned)]
                 in thenM (set_output (ws_id st) result)
                      (thenM (emit_event env ''spki.pin.checked'' [(''step_id'', JStr (ws_id st)), (''result'', result)])
                         (case ws_expect_status st of
                            Some e \<Rightarrow>
                              if (e \<noteq> 0) \<noteq> pinned then
                                thenM (emit_event env ''step.unexpected_status'' [(''step_id'', JStr (ws_id st)),
                                     (''result'', JObj [(''expected_pinned'', JBool (e \<noteq> 0)), (''actual'', JBool pinned)])])
                                  (fail (step_msg st (''spki_pin_check expected_pinned=''
                                     @ (if e \<noteq> 0 then ''True'' else ''False'') @ '' but got ''
                                     @ (if pinned then ''True'' else ''False''))))
                              else complete env st result
                          | None \<Rightarrow> complete env st result))))))))"

definition set_aid :: "string \<Rightarrow> string \<Rightarrow> unit eng" where
  "set_aid a aid s =
     (case dict_get (es_running s) a of
        Some ra \<Rightarrow> (Inr (), s\<lparr>es_running := dict_set a (ra\<lparr>ra_aid := aid\<rparr>) (es_running s)\<rparr>)
      | None \<Rightarrow> (Inr (), s))"

text \<open>\<open>data.get("aid") or ""\<close>. The engine treats the AID as text; one that is not, which the
  source refuses when it builds the event below, is refused here.\<close>

definition step_rotate :: "eng_env \<Rightarrow> step_ctx \<Rightarrow> workflow_step \<Rightarrow> unit eng" where
  "step_rotate env sx st =
     given1 (ws_agent st) (step_msg st ''rotate_keys requires agent'') (\<lambda>a.
       bindM (running_of a) (\<lambda>ra.
       bindM (post_json env (engine_origin env (ra_port ra) @ ''/admin/rotate-keys'') (Some (JObj []))) (\<lambda>v.
       bindM (as_dict AttributeError v) (\<lambda>data.
       bindM (case get_json data ''aid'' of
                JStr x \<Rightarrow> ret x
              | x \<Rightarrow> if truthy x then raise (EPy (PyExc TypeError None ''aid'')) else ret []) (\<lambda>new_aid.
         let out = JObj [(''old_aid'', JStr (ra_aid ra)), (''new_aid'', JStr new_aid)]
         in thenM (set_aid a new_aid)
              (thenM (push_trusted_peers env)
                 (thenM (set_output (ws_id st) out)
                    (thenM (emit_event env ''identity.key.rotated''
                              [(''step_id'', JStr (ws_id st)), (''agent_id'', JStr a), (''aid'', JStr new_aid),
                               (''notes'', JStr (''old_aid='' @ ra_aid ra))])
                       (complete env st out)))))))))"

definition step_workflow :: "eng_env \<Rightarrow> step_ctx \<Rightarrow> workflow_step \<Rightarrow> unit eng" where
  "step_workflow env sx st =
     given2 (ws_agent st) (ws_capability st) (step_msg st ''workflow step requires agent and capability'') (\<lambda>a cap.
       bindM (running_of a) (\<lambda>caller.
       bindM (find_capability_holder cap (sx_scenario sx) (known_manifests sx) (Some a)) (\<lambda>holder.
       case holder of
         None \<Rightarrow> fail (''No agent in scenario offers capability '' @ cap)
       | Some t \<Rightarrow>
           bindM (resolve_step_input env st (sx_inputs sx)) (\<lambda>payload.
             thenM (emit_event env ''step.started''
                      [(''step_id'', JStr (ws_id st)), (''agent'', JStr a), (''capability'', JStr cap)])
               (bindM (if t = a then self_execute env caller cap payload
                       else bindM (running_of t) (\<lambda>rt. invoke_capability env caller rt cap payload)) (\<lambda>result.
                  thenM (set_output (ws_id st) result) (complete env st result)))))))"

section \<open>Fault injection\<close>

text \<open>\<open>try: ... except Exception as exc\<close>: what was done before the exception stays done.\<close>

definition catch :: "eng_env \<Rightarrow> unit eng \<Rightarrow> json eng" where
  "catch env m s =
     (case m s of
        (Inr _, s') \<Rightarrow> (Inr JNull, s')
      | (Inl e, s') \<Rightarrow> (Inr (JStr (en_exc_name env e @ '': '' @ en_exc_text env e)), s'))"

definition or_str :: "string option \<Rightarrow> string option \<Rightarrow> string option" where
  "or_str a b = (case a of Some x \<Rightarrow> if x = [] then b else a | None \<Rightarrow> b)"

text \<open>The agent a fault targets; the lookup of a capability's holder gets no manifests.\<close>

definition fault_target :: "step_ctx \<Rightarrow> string \<Rightarrow> workflow_step \<Rightarrow> string option eng" where
  "fault_target sx step_type st =
     (if step_type = ''handshake'' then ret (ws_responder st)
      else if step_type \<in> {''workflow'', ''capability_probe''} then
        (case ws_target_agent st of
           Some (c # t) \<Rightarrow> ret (Some (c # t))
         | _ \<Rightarrow>
             bindM (find_capability_holder (case ws_capability st of Some c \<Rightarrow> c | None \<Rightarrow> []) (sx_scenario sx)
                      (map (\<lambda>a. (as_id a, None)) (sp_agents (sv_spec (sx_scenario sx)))) (ws_agent st))
               (\<lambda>h. ret (case h of None \<Rightarrow> ws_agent st | Some x \<Rightarrow> Some x)))
      else if step_type = ''delegate'' then ret (ws_via_peer st)
      else if step_type = ''redeem_delegation'' then ret (ws_target st)
      else ret None)"

definition key_error :: "string option \<Rightarrow> running_agent eng" where
  "key_error a = (case a of Some x \<Rightarrow> running_of x | None \<Rightarrow> raise (EPy (PyExc KeyError None ''None'')))"

definition faulted_action :: "eng_env \<Rightarrow> string \<Rightarrow> workflow_step \<Rightarrow> string \<Rightarrow> string \<Rightarrow> int \<Rightarrow> unit eng" where
  "faulted_action env step_type st target mutated_url mutated_port =
     (if step_type = ''handshake'' then
        bindM (key_error (ws_initiator st)) (\<lambda>a. bindM (key_error (ws_responder st)) (\<lambda>b.
          ensure_trust env a b (JStr mutated_url) (ws_requested_grants st)))
      else if step_type \<in> {''workflow'', ''capability_probe''} then
        bindM (running_of target) (\<lambda>rt.
        bindM (resolve_step_input env st []) (\<lambda>payload.
        bindM (key_error (or_str (ws_agent st) (Some target))) (\<lambda>caller.
        bindM (probe_with_held_tct env caller (rt\<lparr>ra_port := mutated_port\<rparr>)
                 (case ws_capability st of Some c \<Rightarrow> c | None \<Rightarrow> []) payload (ws_expect_status st)) (\<lambda>_. ret ()))))
      else fail (step_msg st (''fault on step_type='' @ repr_str step_type @ '' is not supported'')))"

definition dispatch_fault_injected :: "eng_env \<Rightarrow> step_ctx \<Rightarrow> string \<Rightarrow> step_fault \<Rightarrow> workflow_step \<Rightarrow> unit eng" where
  "dispatch_fault_injected env sx step_type fault st =
     bindM (fault_target sx step_type st) (\<lambda>target0.
     case (case target0 of Some t \<Rightarrow> if dict_get (sx_peers sx) t = None then None else Some t | None \<Rightarrow> None) of
       None \<Rightarrow> fail (step_msg st (''fault '' @ repr_str (sf_kind fault) @ '' could not resolve target peer (step_type='' @ step_type @ '')''))
     | Some target \<Rightarrow>
         bindM (peer_url sx target) (\<lambda>u. bindM (running_of target) (\<lambda>rt.
         bindM (as_text u) (\<lambda>original_url.
         bindM (if sf_kind fault = ''manifest_404'' then ret (original_url @ ''-DOES-NOT-EXIST'', ra_port rt)
                else if sf_kind fault = ''peer_offline'' then
                  ret (replace_once ('':'' @ str_int (ra_port rt) @ ''/'') '':1/'' original_url, 1)
                else fail (step_msg st (''unknown fault kind '' @ repr_str (sf_kind fault)))) (\<lambda>(mutated_url, mutated_port).
           thenM (emit_event env ''step.fault_injected''
                    [(''step_id'', JStr (ws_id st)), (''target'', JStr target),
                     (''notes'', JStr (''kind='' @ sf_kind fault @ '' note='' @ (case sf_note fault of Some n \<Rightarrow> n | None \<Rightarrow> [])))])
             (bindM (catch env (faulted_action env step_type st target mutated_url mutated_port)) (\<lambda>err.
                let outcome0 = JObj [(''fault_injected'', JBool True), (''kind'', JStr (sf_kind fault)), (''target'', JStr target),
                      (''mutated_url'', JStr mutated_url), (''error'', err)]
                in thenM (set_output (ws_id st) outcome0)
                     (emit_event env ''step.fault_complete''
                        [(''step_id'', JStr (ws_id st)), (''target'', JStr target), (''result'', outcome0)]))))))))"

section \<open>Dispatch\<close>

definition step_type_of :: "workflow_step \<Rightarrow> string" where
  "step_type_of st =
     (case ws_type st of
        Some (c # t) \<Rightarrow> c # t
      | _ \<Rightarrow> if ws_agent st \<notin> {None, Some []} \<and> ws_capability st \<notin> {None, Some []} then ''workflow'' else ''meta'')"

definition step_table :: "(string, eng_env \<Rightarrow> step_ctx \<Rightarrow> workflow_step \<Rightarrow> unit eng) dict" where
  "step_table =
     [(''capability_call_no_trust'', step_no_trust), (''capability_probe'', step_probe), (''handshake'', step_handshake),
      (''delegate'', step_delegate), (''redeem_delegation'', step_redeem), (''revoke_tct'', step_revoke),
      (''enroll_with_cp'', step_enroll), (''cp_subscribe_webhook'', step_subscribe),
      (''cp_provision_trust_anchor'', step_provision), (''cp_delegation_tree'', step_tree), (''renew_tct'', step_renew),
      (''tct_cache_stats'', step_cache_stats), (''export_session_bundle'', step_export),
      (''verify_session_bundle'', step_verify_bundle), (''spki_pin_check'', step_spki), (''rotate_keys'', step_rotate)]"

definition dispatch_step :: "eng_env \<Rightarrow> step_ctx \<Rightarrow> workflow_step \<Rightarrow> unit eng" where
  "dispatch_step env sx st =
     (let ty = step_type_of st
      in if ty = ''meta'' then
           emit_event env ''step.skipped'' [(''step_id'', JStr (ws_id st)), (''notes'', jstr_opt (ws_description st))]
         else
           (case ws_fault st of
              Some fault \<Rightarrow> dispatch_fault_injected env sx ty fault st
            | None \<Rightarrow>
                (case dict_get step_table ty of Some f \<Rightarrow> f env sx st | None \<Rightarrow> step_workflow env sx st)))"

end
