(* ===== verification/Engine_Logic.thy ===== *)
theory Engine_Logic
  imports Engine_Steps "HOL-Library.Sublist"
begin

text \<open>
  What every step of the scenario engine guarantees. The locale \<open>effects\<close> states a relation
  between the states before and after: reflexive, transitive, and kept by each primitive effect
  but a request; \<open>step_effects\<close> adds the requests. In it every helper, every step type, fault injection and the dispatcher are shown to
  keep the relation, once for all relations. It is interpreted with the relation of the run
  log (\<open>log_rel\<close>) and with the relation of the agent table (\<open>agents_rel\<close>); the smaller locale
  with the requests a computation may make (\<open>calls_rel\<close>).
\<close>

section \<open>The events of a step\<close>

text \<open>Every event but those that start or end a run.\<close>

definition step_event :: "string \<Rightarrow> bool" where
  "step_event ty \<longleftrightarrow> \<not> starts_with ''run.'' ty"

lemma step_event_types [intro!]:
  "step_event ''cp.delegation.tree''" "step_event ''cp.enroll_complete''" "step_event ''cp.enroll_started''"
  "step_event ''cp.trust_anchor.provisioned''" "step_event ''cp.webhook.subscribe_failed''"
  "step_event ''cp.webhook.subscribed''" "step_event ''delegation.issuing''" "step_event ''delegation.redeeming''"
  "step_event ''identity.key.rotated''" "step_event ''manifest.verify_failed''" "step_event ''revocation.published''"
  "step_event ''session.bundle.exported''" "step_event ''session.bundle.verified''" "step_event ''spki.pin.checked''"
  "step_event ''step.access_denied''" "step_event ''step.complete''" "step_event ''step.fault_complete''"
  "step_event ''step.fault_injected''" "step_event ''step.probing_no_trust''" "step_event ''step.probing_with_held_tct''"
  "step_event ''step.skipped''" "step_event ''step.started''" "step_event ''step.unexpected_status''"
  "step_event ''tct.cache.stats''" "step_event ''tct.renewed''" "step_event ''trust.established''"
  "step_event ''trust.establishing''" "step_event ''trust.peers_pinned''"
  by (simp_all add: step_event_def)

lemma step_event_if [intro!]: "step_event a \<Longrightarrow> step_event b \<Longrightarrow> step_event (if c then a else b)"
  by simp

definition quiet :: "json_dict \<Rightarrow> bool" where
  "quiet ev \<longleftrightarrow> (\<exists>ty. get_json ev ''type'' = JStr ty \<and> step_event ty)"

section \<open>Relations kept by every effect\<close>

locale effects =
  fixes env :: eng_env
    and R :: "eng_state \<Rightarrow> eng_state \<Rightarrow> bool"
  assumes R_refl: "R s s"
    and R_trans: "R s1 s2 \<Longrightarrow> R s2 s3 \<Longrightarrow> R s1 s3"
    and R_emit: "quiet ev \<Longrightarrow> R s (emit_dump env ev s)"
    and R_output: "R s (s\<lparr>es_outputs := d\<rparr>)"
    and R_hook: "R s (s\<lparr>es_webhook_ids := w\<rparr>)"
    and R_aid: "dict_get (es_running s) a = Some ra \<Longrightarrow>
          R s (s\<lparr>es_running := dict_set a (ra\<lparr>ra_aid := x\<rparr>) (es_running s)\<rparr>)"
    and R_subscribe: "R s (s\<lparr>es_store := upsert (en_run_id env) [(''cp_webhook'', v)] t (es_store s), es_ticks := n\<rparr>)"
begin

definition keeps :: "'x eng \<Rightarrow> bool" where
  "keeps m \<longleftrightarrow> (\<forall>s. R s (snd (m s)))"

lemma keepsI: "(\<And>s. R s (snd (m s))) \<Longrightarrow> keeps m"
  by (simp add: keeps_def)

lemma keepsD: "keeps m \<Longrightarrow> R s (snd (m s))"
  by (simp add: keeps_def)

lemma keeps_ret [intro!]: "keeps (ret x)"
  by (simp add: keeps_def R_refl)

lemma keeps_raise [intro!]: "keeps (raise e)"
  by (simp add: keeps_def R_refl)

lemma keeps_bind [intro!]:
  assumes "keeps m" "\<And>x. keeps (f x)"
  shows "keeps (bindM m f)"
proof (rule keepsI)
  fix s
  obtain r s1 where m: "m s = (r, s1)" by fastforce
  then have "R s s1" using keepsD [OF assms(1), of s] by simp
  then show "R s (snd (bindM m f s))"
    using m keepsD [OF assms(2)] by (cases r) (auto simp: bindM_def intro: R_trans)
qed

lemma keeps_lift [intro!]: "keeps (lift_exc r)"
  by (cases r) auto

lemma keeps_look [intro!]: "keeps (look f)"
  by (simp add: keeps_def look_def R_refl)

lemma keeps_if [intro!]: "keeps a \<Longrightarrow> keeps b \<Longrightarrow> keeps (if c then a else b)"
  by simp

lemma keeps_opt [intro!]: "keeps a \<Longrightarrow> (\<And>x. keeps (f x)) \<Longrightarrow> keeps (case v of None \<Rightarrow> a | Some x \<Rightarrow> f x)"
  by (simp split: option.split)

lemma keeps_prod [intro!]: "(\<And>x y. keeps (f x y)) \<Longrightarrow> keeps (case p of (x, y) \<Rightarrow> f x y)"
  by (cases p) simp

lemma keeps_sum [intro!]: "(\<And>x. keeps (f x)) \<Longrightarrow> (\<And>y. keeps (g y)) \<Longrightarrow> keeps (case v of Inl x \<Rightarrow> f x | Inr y \<Rightarrow> g y)"
  by (simp split: sum.split)

lemma keeps_list [intro!]:
  "keeps a \<Longrightarrow> (\<And>x xs. keeps (f x xs)) \<Longrightarrow> keeps (case v of [] \<Rightarrow> a | x # xs \<Rightarrow> f x xs)"
  by (simp split: list.split)

lemma keeps_let [intro!]: "(\<And>x. keeps (f x)) \<Longrightarrow> keeps (let x = v in f x)"
  by (simp add: Let_def)

lemma keeps_json [intro!]:
  "keeps a \<Longrightarrow> (\<And>x. keeps (b x)) \<Longrightarrow> (\<And>x. keeps (c x)) \<Longrightarrow> (\<And>x. keeps (d x)) \<Longrightarrow> (\<And>x. keeps (e x)) \<Longrightarrow>
   (\<And>x. keeps (f x)) \<Longrightarrow> (\<And>x. keeps (g x)) \<Longrightarrow>
   keeps (case v of JNull \<Rightarrow> a | JBool x \<Rightarrow> b x | JInt x \<Rightarrow> c x | JFloat x \<Rightarrow> d x | JStr x \<Rightarrow> e x
     | JArr x \<Rightarrow> f x | JObj x \<Rightarrow> g x)"
  by (simp split: json.split)

lemma keeps_emit [intro!]: "step_event ty \<Longrightarrow> keeps (emit_event env ty given)"
  by (rule keepsI) (auto simp: emit_event_def R_refl quiet_def intro!: R_emit dest: run_event_type split: sum.split)

lemma keeps_output [intro!]: "keeps (set_output k v)"
  by (simp add: keeps_def set_output_def R_output)

lemma keeps_running [intro!]: "keeps (running_of a)"
  by (simp add: keeps_def running_of_def R_refl split: option.split)

lemma keeps_set_aid [intro!]: "keeps (set_aid a x)"
  by (rule keepsI) (auto simp: set_aid_def R_refl intro: R_aid split: option.split)

lemma keeps_remember [intro!]: "keeps (remember_webhook i)"
  by (rule keepsI) (auto simp: remember_webhook_def R_refl R_hook split: json.split)

lemma keeps_resolve [intro!]: "keeps (resolve_step_input env st inputs)"
  by (rule keepsI) (auto simp: resolve_step_input_def R_refl Let_def split: option.split)

lemma keeps_upsert [intro!]: "keeps (upsert_run env [(''cp_webhook'', v)])"
  by (simp add: keeps_def upsert_run_def R_subscribe)

lemma keeps_forM [intro!]: "(\<And>x. keeps (f x)) \<Longrightarrow> keeps (forM f xs)"
  by (induction xs; simp only: forM.simps; blast)

lemma keeps_catch [intro!]:
  assumes "keeps m"
  shows "keeps (catch env m)"
proof (rule keepsI)
  fix s
  show "R s (snd (catch env m s))"
    using keepsD [OF assms, of s] by (cases "m s") (simp add: catch_def split: sum.split)
qed

lemma keeps_given [intro!]:
  "(\<And>x. keeps (k1 x)) \<Longrightarrow> keeps (given1 a msg k1)"
  "(\<And>x y. keeps (k2 x y)) \<Longrightarrow> keeps (given2 a b msg k2)"
  "(\<And>x y z. keeps (k3 x y z)) \<Longrightarrow> keeps (given3 a b c msg k3)"
  unfolding given3_def given2_def given1_def by (intro keeps_opt keeps_if keeps_raise; assumption)+

lemma keeps_pure [intro!]:
  "keeps (raise_for_status url a)" "keeps (resp_json content)" "keeps (as_dict k v)" "keeps (peer_url sx a')"
  "keeps (as_text v)" "keeps (item d k')" "keeps (json_or g content)" "keeps (key_error oa)"
  unfolding raise_for_status_def resp_json_def as_dict_def peer_url_def as_text_def item_def json_or_def key_error_def
  by blast+

end

text \<open>A relation that does not constrain the requests either.\<close>

locale step_effects = effects +
  assumes R_call: "R s (s\<lparr>es_calls := es_calls s @ [cl]\<rparr>)"
begin

section \<open>Helpers\<close>

lemma keeps_send [intro!]: "keeps (send env meth url params body)"
  by (simp add: keeps_def send_def R_call)

lemma keeps_io [intro!]:
  "keeps (http_call env meth url params body)" "keeps (post_json env url b)" "keeps (cp_send env rq)"
  unfolding http_call_def post_json_def cp_send_def by blast+

lemma keeps_scan [intro!]: "keeps (scan_holders cap ms as)"
  by (induction as) (simp_all only: scan_holders.simps, blast+)

lemma keeps_find [intro!]: "keeps (find_capability_holder cap sc ms p)"
  unfolding find_capability_holder_def by blast

lemma keeps_exchanges [intro!]:
  "keeps (ensure_trust env a b u g)" "keeps (invoke_capability env a b cap payload)"
  "keeps (self_execute env a cap payload)" "keeps (push_one env running ar)"
  unfolding ensure_trust_def invoke_capability_def self_execute_def push_one_def
  by blast+

lemma keeps_probes [intro!]:
  "keeps (call_without_trust env a b cap ex)" "keeps (probe_with_held_tct env a b cap payload ex)"
  unfolding call_without_trust_def probe_with_held_tct_def Let_def by blast+

lemma keeps_push [intro!]: "keeps (push_trusted_peers env)"
  unfolding push_trusted_peers_def by blast

lemma keeps_pairwise [intro!]: "keeps (establish_pairwise_trust env sx)"
  unfolding establish_pairwise_trust_def by blast

lemma keeps_refresh [intro!]: "keeps (refresh_count a)" "keeps (refresh_each env as acc)"
  by (unfold refresh_count_def, blast) (induction as arbitrary: acc; simp only: refresh_each.simps refresh_count_def; blast)

lemma keeps_collect [intro!]: "keeps (collect_held env c ps acc)"
  by (induction ps arbitrary: acc; simp only: collect_held.simps; blast)

lemma keeps_revocation [intro!]:
  "keeps (revoke_via_cp env st i j l)" "keeps (revoke_locally env i j)" "keeps (skip_no_cp env st output)"
  "keeps (count_list k r)"
  unfolding revoke_via_cp_def revoke_locally_def skip_no_cp_def count_list_def by blast+

lemma keeps_anchor [intro!]:
  "keeps (refuse_manifest env st a ra e)" "keeps (own_manifest env ra content)" "keeps (verified_manifest env st a ra)"
  "keeps (manifest_key m)" "keeps (register_anchor env st a ra ns key)"
  unfolding refuse_manifest_def own_manifest_def verified_manifest_def manifest_key_def register_anchor_def by blast+

section \<open>Steps\<close>

lemma keeps_plain_steps [intro!]:
  "keeps (step_no_trust env sx st)" "keeps (step_probe env sx st)" "keeps (step_handshake env sx st)"
  "keeps (step_enroll env sx st)" "keeps (step_renew env sx st)" "keeps (step_cache_stats env sx st)"
  "keeps (step_export env sx st)" "keeps (step_spki env sx st)" "keeps (step_rotate env sx st)"
  "keeps (step_workflow env sx st)" "keeps (step_provision env sx st)"
  unfolding step_no_trust_def step_probe_def step_handshake_def step_enroll_def step_renew_def
    step_cache_stats_def step_export_def step_spki_def step_rotate_def step_workflow_def step_provision_def
  by blast+

lemma keeps_reading_steps [intro!]:
  "keeps (step_delegate env sx st)" "keeps (step_redeem env sx st)" "keeps (step_revoke env sx st)"
  "keeps (step_subscribe env sx st)" "keeps (step_tree env sx st)" "keeps (step_verify_bundle env sx st)"
  unfolding step_delegate_def step_redeem_def step_revoke_def step_subscribe_def step_tree_def step_verify_bundle_def
  by blast+

lemma keeps_fault [intro!]:
  "keeps (fault_target sx ty st)" "keeps (faulted_action env ty st tg u p)"
  "keeps (dispatch_fault_injected env sx ty fault st)"
  unfolding fault_target_def faulted_action_def dispatch_fault_injected_def by blast+

lemma step_table_keeps: "(ty, f) \<in> set step_table \<Longrightarrow> keeps (f env sx st)"
  by (auto simp: step_table_def)

lemma keeps_dispatch [intro!]: "keeps (dispatch_step env sx st)"
proof -
  have "keeps (case dict_get step_table ty of Some f \<Rightarrow> f env sx st | None \<Rightarrow> step_workflow env sx st)" for ty
    by (auto dest: dict_get_mem step_table_keeps split: option.split)
  then show ?thesis
    by (cases "ws_fault st") (simp_all add: dispatch_step_def Let_def keeps_emit step_event_types keeps_fault)
qed

lemma dispatch_rel: "R s (snd (dispatch_step env sx st s))"
  by (rule keepsD) blast

lemma steps_rel: "R s (snd (forM (dispatch_step env sx) steps s))"
  by (rule keepsD) blast

end

section \<open>The run log\<close>

text \<open>
  Between the two states the engine emitted some events: the context, the store and the metrics
  took exactly these, in this order, each naming its run and none starting or ending a run; the
  run's status and every other run are as before.
\<close>

definition log_rel :: "eng_env \<Rightarrow> eng_state \<Rightarrow> eng_state \<Rightarrow> bool" where
  "log_rel env s s' \<longleftrightarrow>
     (\<exists>evs. es_events s' = es_events s @ evs
        \<and> events_in (get_run_record (en_run_id env) (es_store s'))
            = events_in (get_run_record (en_run_id env) (es_store s)) @ map JObj evs
        \<and> es_metrics s' = fold record_event evs (es_metrics s)
        \<and> (\<forall>e \<in> set evs. get_json e ''run_id'' \<noteq> JNull \<and> quiet e))
     \<and> (\<forall>rid. rid \<noteq> en_run_id env \<longrightarrow> get_run_record rid (es_store s') = get_run_record rid (es_store s))
     \<and> (get_run_record (en_run_id env) (es_store s) \<noteq> None \<longrightarrow>
          get_run_record (en_run_id env) (es_store s') \<noteq> None
          \<and> status_in (get_run_record (en_run_id env) (es_store s'))
              = status_in (get_run_record (en_run_id env) (es_store s)))"

lemma log_rel_same_log:
  "es_events s' = es_events s \<Longrightarrow> es_store s' = es_store s \<Longrightarrow> es_metrics s' = es_metrics s \<Longrightarrow> log_rel env s s'"
  by (auto simp: log_rel_def)

lemma append_event_present: "get_run_record rid (append_event rid e t st) \<noteq> None"
  by (simp add: get_run_record_def append_event_get)

lemma upsert_present: "get_run_record rid (upsert rid r t st) \<noteq> None"
  by (simp add: get_run_record_def upsert_def merge_locked_get)

lemma log_rel_emit:
  assumes "quiet ev"
  shows "log_rel env s (emit_dump env ev s)"
proof -
  let ?e = "with_run_id (en_run_id env) ev"
  have "es_events (emit_dump env ev s) = es_events s @ [?e]"
    "events_in (get_run_record (en_run_id env) (es_store (emit_dump env ev s)))
       = events_in (get_run_record (en_run_id env) (es_store s)) @ map JObj [?e]"
    "es_metrics (emit_dump env ev s) = fold record_event [?e] (es_metrics s)"
    by (simp_all add: emit_dump_def Let_def mem.append_events)
  moreover have "\<forall>e \<in> set [?e]. get_json e ''run_id'' \<noteq> JNull \<and> quiet e"
    using assms by (simp add: with_run_id_get quiet_def)
  ultimately show ?thesis
    unfolding log_rel_def
    by (intro conjI exI [of _ "[?e]"])
      (auto simp: emit_dump_def Let_def mem.append_other mem.append_status append_event_present)
qed

lemma log_rel_trans:
  assumes "log_rel env s1 s2" "log_rel env s2 s3"
  shows "log_rel env s1 s3"
proof -
  let ?r = "\<lambda>s. get_run_record (en_run_id env) (es_store s)"
  from assms obtain e1 e2 where
    "es_events s2 = es_events s1 @ e1" "es_events s3 = es_events s2 @ e2"
    "events_in (?r s2) = events_in (?r s1) @ map JObj e1" "events_in (?r s3) = events_in (?r s2) @ map JObj e2"
    "es_metrics s2 = fold record_event e1 (es_metrics s1)" "es_metrics s3 = fold record_event e2 (es_metrics s2)"
    "\<forall>e \<in> set (e1 @ e2). get_json e ''run_id'' \<noteq> JNull \<and> quiet e"
    unfolding log_rel_def by fastforce
  then have "es_events s3 = es_events s1 @ (e1 @ e2)" "events_in (?r s3) = events_in (?r s1) @ map JObj (e1 @ e2)"
    "es_metrics s3 = fold record_event (e1 @ e2) (es_metrics s1)" "\<forall>e \<in> set (e1 @ e2). get_json e ''run_id'' \<noteq> JNull \<and> quiet e"
    by simp_all
  moreover have "\<forall>rid. rid \<noteq> en_run_id env \<longrightarrow> get_run_record rid (es_store s3) = get_run_record rid (es_store s1)"
    "?r s1 \<noteq> None \<longrightarrow> ?r s3 \<noteq> None \<and> status_in (?r s3) = status_in (?r s1)"
    using assms unfolding log_rel_def by auto
  ultimately show ?thesis unfolding log_rel_def by blast
qed

lemma log_rel_subscribe:
  "log_rel env s (s\<lparr>es_store := upsert (en_run_id env) [(''cp_webhook'', v)] t (es_store s), es_ticks := n\<rparr>)"
  unfolding log_rel_def
  by (intro conjI exI [of _ "[]"])
    (auto simp: mem.put_events mem.put_other mem.put_status upsert_present events_of_def)

interpretation run_log_steps: step_effects env "log_rel env" for env
proof
  show "log_rel env s1 s3" if "log_rel env s1 s2" "log_rel env s2 s3" for s1 s2 s3
    using that by (rule log_rel_trans)
qed (simp_all add: log_rel_same_log log_rel_emit log_rel_subscribe)

section \<open>The agent table\<close>

text \<open>The same agents in the same order; an agent may have a new AID and nothing else.\<close>

definition agents_rel :: "eng_state \<Rightarrow> eng_state \<Rightarrow> bool" where
  "agents_rel s s' \<longleftrightarrow>
     map (\<lambda>(a, ra). (a, ra\<lparr>ra_aid := []\<rparr>)) (es_running s') = map (\<lambda>(a, ra). (a, ra\<lparr>ra_aid := []\<rparr>)) (es_running s)"

lemma agents_rel_aid:
  assumes "dict_get d a = Some ra"
  shows "map (\<lambda>(a, ra). (a, ra\<lparr>ra_aid := []\<rparr>)) (dict_set a (ra\<lparr>ra_aid := x\<rparr>) d)
    = map (\<lambda>(a, ra). (a, ra\<lparr>ra_aid := []\<rparr>)) d"
  using assms by (induction d) (auto split: if_splits)

interpretation agent_table_steps: step_effects env agents_rel for env
  by unfold_locales (auto simp: agents_rel_def emit_dump_def Let_def agents_rel_aid)

section \<open>Requests\<close>

text \<open>Only requests that satisfy the predicate were made.\<close>

definition calls_rel :: "(call \<Rightarrow> bool) \<Rightarrow> eng_state \<Rightarrow> eng_state \<Rightarrow> bool" where
  "calls_rel P s s' \<longleftrightarrow> (\<exists>cs. es_calls s' = es_calls s @ cs \<and> (\<forall>c \<in> set cs. P c))"

interpretation calls: effects env "calls_rel P" for env P
proof
  show "calls_rel P s1 s3" if "calls_rel P s1 s2" "calls_rel P s2 s3" for s1 s2 s3
    using that unfolding calls_rel_def by force
qed (auto simp: calls_rel_def emit_dump_def Let_def)

lemma calls_send:
  "P \<lparr>cl_method = meth, cl_url = url, cl_params = params, cl_body = body\<rparr> \<Longrightarrow>
   calls.keeps P (send env meth url params body)"
  by (rule calls.keepsI) (auto simp: calls_rel_def send_def)

section \<open>Properties\<close>

text \<open>
  C28: one log. Whatever a scenario's steps do and however they fail, the events they add to the
  run context, to the run's record in the store and to the metrics are the same sequence, every
  one of them names the run and none of them starts or ends a run, the steps change neither the run's status nor any other run, and
  the table of running agents changes only in the AIDs.
\<close>

theorem step_log_exact:
  "log_rel env s (snd (forM (dispatch_step env sx) steps s))
   \<and> agents_rel s (snd (forM (dispatch_step env sx) steps s))"
  by (intro conjI run_log_steps.steps_rel agent_table_steps.steps_rel)

end
