(* ===== verification/Engine_Safety.thy ===== *)
theory Engine_Safety
  imports Engine_Logic
begin

text \<open>
  Safety of the scenario engine's steps: a key is pinned at the Control Plane only from a
  manifest that was verified and is the launched agent's own; an injected fault stays inside
  its step; each agent is told exactly the identities of the others.
\<close>

section \<open>Pinning a trust anchor\<close>

text \<open>A request that registers a key registers this key under this AID.\<close>

definition pins_only :: "string \<Rightarrow> json \<Rightarrow> call \<Rightarrow> bool" where
  "pins_only aid key c \<longleftrightarrow>
     (\<forall>b k. cl_body c = Some (JObj b) \<and> dict_get b ''pubkey'' = Some k \<longrightarrow>
        k = key \<and> dict_get b ''aid'' = Some (JStr aid))"

lemma pins_only_no_body [simp]: "cl_body c = None \<Longrightarrow> pins_only aid key c"
  by (simp add: pins_only_def)

lemma put_if_get:
  "dict_get (put_if k v d) k' = (if k' = k \<and> v \<noteq> None \<and> v \<noteq> Some [] then map_option JStr v else dict_get d k')"
  by (auto simp: put_if_def split: option.split)

lemma cp_send_keeps:
  "(\<And>q. rq = Some q \<Longrightarrow>
     P \<lparr>cl_method = cq_method q, cl_url = cq_url q, cl_params = cq_params q, cl_body = cq_body q\<rparr>) \<Longrightarrow>
   calls.keeps P (cp_send env rq)"
  unfolding cp_send_def by (auto split: option.split intro!: calls_send simp del: eng_simps)

lemma pinned_key_request_pins:
  "pinned_key_request cs aid key ns lb = Some q \<Longrightarrow>
   pins_only aid key \<lparr>cl_method = cq_method q, cl_url = cq_url q, cl_params = cq_params q, cl_body = cq_body q\<rparr>"
  by (auto simp: pinned_key_request_def post_json_request_def cp_req_def pins_only_def put_if_get split: if_splits)

lemma trust_anchor_request_pins:
  "trust_anchor_request cs u ns jw lb = Some q \<Longrightarrow>
   pins_only aid key \<lparr>cl_method = cq_method q, cl_url = cq_url q, cl_params = cq_params q, cl_body = cq_body q\<rparr>"
  by (auto simp: trust_anchor_request_def post_json_request_def cp_req_def pins_only_def put_if_get split: if_splits)

lemma list_request_pins:
  "get_list_request cs path params = Some q \<Longrightarrow>
   pins_only aid key \<lparr>cl_method = cq_method q, cl_url = cq_url q, cl_params = cq_params q, cl_body = cq_body q\<rparr>"
  by (auto simp: get_list_request_def cp_req_def split: if_splits)

lemma count_list_keeps: "calls.keeps P (count_list k r)"
  unfolding count_list_def by blast

text \<open>What \<open>verified_manifest\<close> returns was verified and declares the agent's AID.\<close>

definition manifest_authentic :: "eng_env \<Rightarrow> running_agent \<Rightarrow> http_result \<Rightarrow> json_dict \<Rightarrow> bool" where
  "manifest_authentic env ra answer m \<longleftrightarrow>
     (\<exists>status content d. answer = Inr (status, content) \<and> success_status status
        \<and> en_verify_manifest env content (en_insecure env) = Inr ()
        \<and> loads_bytes content = Some (JObj d)
        \<and> (dict_get d ''manifest'' = Some (JObj m) \<or> dict_get d ''manifest'' = None \<and> m = [])
        \<and> get_json m ''aid'' = JStr (ra_aid ra))"

lemma as_dict_Inr: "as_dict k v s = (Inr d, s') \<longleftrightarrow> v = JObj d \<and> s' = s"
  by (cases v) (auto simp: as_dict_def)

lemma own_manifest_ok:
  "own_manifest env ra content s = (Inr mv, s1) \<Longrightarrow>
   \<exists>d m. loads_bytes content = Some (JObj d) \<and> get_json m ''aid'' = JStr (ra_aid ra) \<and> mv = JObj m
     \<and> (dict_get d ''manifest'' = Some (JObj m) \<or> dict_get d ''manifest'' = None \<and> m = [])"
  by (auto simp: own_manifest_def bindM_Inr_iff as_dict_Inr resp_json_def split: option.splits if_splits)

lemma refuse_manifest_raises: "refuse_manifest env st a ra e s \<noteq> (Inr mv, s1)"
  by (auto simp: refuse_manifest_def bindM_Inr_iff Let_def)

lemma verified_manifest_ok:
  assumes "verified_manifest env st a ra s = (Inr mv, s1)"
  shows "\<exists>m. mv = JObj m \<and> manifest_authentic env ra (en_answers env (length (es_calls s))) m"
proof -
  from assms obtain status content s2 where
    r: "http_call env ''GET'' (ra_manifest_url ra) [] None s = (Inr (status, content), s2)" "success_status status"
    and v: "en_verify_manifest env content (en_insecure env) = Inr ()"
    and m: "own_manifest env ra content s2 = (Inr mv, s1)"
    by (auto simp: verified_manifest_def bindM_Inr_iff raise_for_status_def refuse_manifest_raises
        split: if_splits sum.splits)
  from r have "en_answers env (length (es_calls s)) = Inr (status, content)"
    by (auto simp: http_call_def send_def bindM_def split: sum.splits)
  with r(2) v own_manifest_ok [OF m] show ?thesis unfolding manifest_authentic_def by fastforce
qed

lemma verified_manifest_calls: "calls.keeps (pins_only aid key) (verified_manifest env st a ra)"
proof -
  have [intro!]: "calls.keeps (pins_only aid key) (http_call env ''GET'' (ra_manifest_url ra) [] None)"
    unfolding http_call_def by (intro calls.keeps_bind calls.keeps_sum calls.keeps_raise calls.keeps_ret calls_send) simp
  show ?thesis
    unfolding verified_manifest_def refuse_manifest_def own_manifest_def by blast
qed

lemma pin_request_calls:
  "calls.keeps (pins_only aid key) (cp_send env (pinned_key_request cs aid key n l))"
  by (rule cp_send_keeps) (rule pinned_key_request_pins)

lemma anchor_request_calls:
  "calls.keeps (pins_only aid key) (cp_send env (trust_anchor_request cs u n j l))"
  by (rule cp_send_keeps) (rule trust_anchor_request_pins)

lemma list_request_calls:
  "calls.keeps (pins_only aid key) (cp_send env (pinned_keys_request cs n))"
  "calls.keeps (pins_only aid key) (cp_send env (trust_anchors_request cs n))"
  by (rule cp_send_keeps, simp only: pinned_keys_request_def, rule list_request_pins, assumption)
    (rule cp_send_keeps, simp only: trust_anchors_request_def, rule list_request_pins)

lemma register_anchor_calls: "calls.keeps (pins_only (ra_aid ra) key) (register_anchor env st a ra ns key)"
  unfolding register_anchor_def count_list_def
  by (blast intro!: pin_request_calls anchor_request_calls list_request_calls)

text \<open>The key a manifest carries.\<close>

definition key_of_manifest :: "json_dict \<Rightarrow> json" where
  "key_of_manifest m = (case get_json m ''identity_hint'' of JObj h \<Rightarrow> get_json h ''public_key'' | _ \<Rightarrow> JNull)"

lemma manifest_key_ok: "manifest_key m s = (Inr k, s') \<Longrightarrow> k = key_of_manifest m \<and> s' = s"
  by (auto simp: manifest_key_def key_of_manifest_def bindM_Inr_iff as_dict_Inr Let_def get_json_def
      split: if_splits json.splits)

lemma manifest_key_calls: "calls.keeps P (manifest_key m)"
  unfolding manifest_key_def by blast

lemma calls_relD: "calls_rel P s s' \<Longrightarrow> c \<in> set (drop (length (es_calls s)) (es_calls s')) \<Longrightarrow> P c"
  by (auto simp: calls_rel_def)

lemma bindM_cases:
  obtains e s1 where "m s = (Inl e, s1)" "bindM m f s = (Inl e, s1)"
  | x s1 where "m s = (Inr x, s1)" "bindM m f s = f x s1"
proof (cases "m s")
  case (Pair r s1)
  then show thesis using that by (cases r) (auto simp: bindM_def)
qed

section \<open>Properties\<close>

text \<open>
  C12: a trust anchor is pinned only from the launched agent's verified manifest. If a
  \<open>cp_provision_trust_anchor\<close> step sends a request that registers a key, then the step's first
  request fetched the agent's manifest, the SDK verified the answer, the manifest declares the
  AID the runner read from the agent it launched, and the request registers the key of that
  manifest under that AID.
\<close>

theorem pinned_only_from_verified_manifest:
  assumes "c \<in> set (drop (length (es_calls s)) (es_calls (snd (step_provision env sx st s))))"
    and "cl_body c = Some (JObj b)" "dict_get b ''pubkey'' = Some k"
  shows "\<exists>a ra m. ws_agent st = Some a \<and> dict_get (es_running s) a = Some ra
    \<and> manifest_authentic env ra (en_answers env (length (es_calls s))) m
    \<and> k = key_of_manifest m \<and> dict_get b ''aid'' = Some (JStr (ra_aid ra))"
proof -
  let ?s' = "snd (step_provision env sx st s)"
  have no_pin: False if "\<And>key. calls_rel (pins_only aid key) s ?s'" for aid
    using calls_relD [OF that [of JNull] assms(1)] calls_relD [OF that [of "JBool True"] assms(1)] assms(2,3)
    by (auto simp: pins_only_def)
  have same: False if "calls_rel (\<lambda>_. False) s ?s'"
    using calls_relD [OF that assms(1)] .
  have skip: "calls.keeps (\<lambda>_. False) (skip_no_cp env st d)" for d unfolding skip_no_cp_def by blast
  obtain a where a: "ws_agent st = Some a" "a \<noteq> []" "cp_enabled (en_cp env)"
  proof (rule ccontr)
    assume "\<not> thesis"
    then have "step_provision env sx st s = (Inl (EPlayground (playground_error
        (step_msg st ''cp_provision_trust_anchor requires agent''))), s)
      \<or> step_provision env sx st s = skip_no_cp env st [(''provisioned'', JBool False)] s"
      using that by (auto simp: step_provision_def given1_def split: option.splits)
    with same calls.keepsD [OF skip, of s] calls.R_refl show False by (metis snd_conv)
  qed
  obtain ra where ra: "dict_get (es_running s) a = Some ra"
    using same a calls.R_refl
    by (cases "dict_get (es_running s) a") (auto simp: step_provision_def given1_def bindM_def running_of_def)
  define ns where "ns = (case ws_namespace st of
       Some n \<Rightarrow> if n = [] then sm_pack (sv_metadata (sx_scenario sx)) else n
     | None \<Rightarrow> sm_pack (sv_metadata (sx_scenario sx)))"
  define tail where "tail = (\<lambda>mv. bindM (as_dict AttributeError mv) (\<lambda>m. bindM (manifest_key m) (register_anchor env st a ra ns)))"
  have step: "step_provision env sx st s = bindM (verified_manifest env st a ra) tail s"
    using a ra by (simp add: step_provision_def given1_def bindM_def [of "running_of a"] running_of_def ns_def tail_def Let_def)
  have vm: "calls_rel (pins_only aid key) s (snd (verified_manifest env st a ra s))" for aid key
    by (rule calls.keepsD) (rule verified_manifest_calls)
  obtain mv s1 where mv: "verified_manifest env st a ra s = (Inr mv, s1)"
    using no_pin vm step by (cases rule: bindM_cases [of "verified_manifest env st a ra" s tail]) auto
  from verified_manifest_ok [OF mv] obtain m where m: "mv = JObj m"
    "manifest_authentic env ra (en_answers env (length (es_calls s))) m" by blast
  have step1: "step_provision env sx st s = bindM (manifest_key m) (register_anchor env st a ra ns) s1"
    using step mv m(1) by (simp add: bindM_def [of "verified_manifest env st a ra"] tail_def as_dict_def)
  have s1: "calls_rel (pins_only aid key) s s1" for aid key using vm [of aid key] mv by simp
  obtain key where key: "manifest_key m s1 = (Inr key, s1)" "key = key_of_manifest m"
  proof (cases rule: bindM_cases [of "manifest_key m" s1 "register_anchor env st a ra ns"])
    case (1 e s2)
    have "calls_rel (pins_only aid k) s s2" for aid k
      using calls.R_trans [OF s1 calls.keepsD [OF manifest_key_calls], of aid k m] 1(1) by simp
    with no_pin step1 1(2) show ?thesis by simp
  next
    case (2 x s2)
    with manifest_key_ok that show ?thesis by blast
  qed
  have "calls_rel (pins_only (ra_aid ra) key) s ?s'"
    using calls.R_trans [OF s1 calls.keepsD [OF register_anchor_calls], of ra key env st a ns] step1 key(1)
    by (simp add: bindM_def)
  from calls_relD [OF this assms(1)] assms(2,3) have "k = key" "dict_get b ''aid'' = Some (JStr (ra_aid ra))"
    by (auto simp: pins_only_def)
  with a ra m(2) key(2) show ?thesis by blast
qed

section \<open>Injected faults\<close>

lemma field_valid_null [simp]: "field_valid k JNull"
  by (simp add: field_valid_def)

lemma field_valid_ts: "field_valid ''ts'' v"
  by (simp add: field_valid_def)

lemma field_valid_result: "field_valid ''result'' v"
  by (simp add: field_valid_def)

lemma field_valid_text: "k \<notin> {''port'', ''grants'', ''peers''} \<Longrightarrow> field_valid k (JStr x)"
  by (simp add: field_valid_def)

lemma run_event_ok:
  assumes "\<And>k v. (k, v) \<in> set given \<Longrightarrow> field_valid k v"
  shows "\<exists>ev. run_event ty given ts = Inr ev"
proof -
  let ?g = "(''type'', JStr ty) # (''ts'', JFloat (Fin ts)) # given"
  have mem: "field_valid k v" if "(k, v) \<in> set ?g" for k v
  proof -
    from that consider "k = ''type''" "v = JStr ty" | "k = ''ts''" | "(k, v) \<in> set given" by auto
    then show ?thesis by cases (simp_all add: field_valid_text field_valid_ts assms del: neq_Nil_conv)
  qed
  have fv: "field_valid k (get_json ?g k)" for k
  proof (cases "dict_get ?g k")
    case (Some v)
    from mem [OF dict_get_mem [OF this]] Some show ?thesis by (simp only: get_json_def option.case)
  next
    case None
    then show ?thesis by (simp only: get_json_def option.case field_valid_null)
  qed
  have "list_all (\<lambda>k. field_valid k (get_json ?g k)) RUN_EVENT_FIELDS"
    unfolding list_all_iff by (rule ballI) (rule fv)
  then show ?thesis unfolding run_event_def Let_def by (simp only: if_True) blast
qed

lemma emit_event_ok:
  "(\<And>k v. (k, v) \<in> set given \<Longrightarrow> field_valid k v) \<Longrightarrow>
   \<exists>ev. emit_event env ty given s = (Inr (), emit_dump env ev s)"
  using run_event_ok [of given ty "en_clk env (es_ticks s)"] by (auto simp: emit_event_def)

lemma emit_dump_outputs [simp]: "es_outputs (emit_dump env ev s) = es_outputs s"
  by (simp add: emit_dump_def Let_def)

lemma emit_dump_running [simp]: "es_running (emit_dump env ev s) = es_running s"
  by (simp add: emit_dump_def Let_def)

lemma catch_ok: "\<exists>v. catch env m s = (Inr v, snd (m s))"
  by (cases "m s") (auto simp: catch_def split: sum.split)

text \<open>The target's manifest address after the fault.\<close>

definition faulted_url :: "step_fault \<Rightarrow> string \<Rightarrow> int \<Rightarrow> string" where
  "faulted_url fault url port =
     (if sf_kind fault = ''manifest_404'' then url @ ''-DOES-NOT-EXIST''
      else replace_once ('':'' @ str_int port @ ''/'') '':1/'' url)"

lemma fault_tail:
  assumes fv: "\<And>k v. (k, v) \<in> set g1 \<Longrightarrow> field_valid k v" "\<And>k v. (k, v) \<in> set g2 \<Longrightarrow> field_valid k v"
  shows "\<exists>err s'. thenM (emit_event env t1 g1) (bindM (catch env act) (\<lambda>err.
        thenM (set_output i (F err)) (emit_event env t2 (g2 @ [(''result'', F err)])))) s = (Inr (), s')
      \<and> dict_get (es_outputs s') i = Some (F err)"
proof -
  obtain ev1 where e1: "emit_event env t1 g1 s = (Inr (), emit_dump env ev1 s)"
    using emit_event_ok [OF fv(1)] by blast
  obtain err where c: "catch env act (emit_dump env ev1 s) = (Inr err, snd (act (emit_dump env ev1 s)))"
    using catch_ok by blast
  let ?s2 = "(snd (act (emit_dump env ev1 s)))\<lparr>es_outputs := dict_set i (F err) (es_outputs (snd (act (emit_dump env ev1 s))))\<rparr>"
  have "field_valid k v" if "(k, v) \<in> set (g2 @ [(''result'', F err)])" for k v
    using that fv(2) field_valid_result by auto
  then obtain ev2 where
    e2: "emit_event env t2 (g2 @ [(''result'', F err)]) ?s2 = (Inr (), emit_dump env ev2 ?s2)"
    using emit_event_ok by blast
  have "thenM (emit_event env t1 g1) (bindM (catch env act) (\<lambda>err.
        thenM (set_output i (F err)) (emit_event env t2 (g2 @ [(''result'', F err)])))) s = (Inr (), emit_dump env ev2 ?s2)"
    using e1 c e2 by (simp add: bindM_def set_output_def)
  then show ?thesis by (intro exI [of _ err] exI [of _ "emit_dump env ev2 ?s2"]) simp
qed

text \<open>
  An injected fault stays inside its step. When the step's target is resolved to a running
  agent with a known manifest address, a fault of either kind never makes the step raise,
  whatever the agents answer: the step completes and records that the fault was injected, where,
  and the error it provoked, if any.
\<close>

theorem fault_contained:
  assumes "fault_target sx ty st s = (Inr (Some t), s)"
    and "dict_get (sx_peers sx) t = Some p" "dict_get p ''manifest_url'' = Some (JStr url)"
    and "dict_get (es_running s) t = Some ra" "sf_kind fault \<in> {''manifest_404'', ''peer_offline''}"
  shows "\<exists>err s'. dispatch_fault_injected env sx ty fault st s = (Inr (), s')
    \<and> dict_get (es_outputs s') (ws_id st) =
        Some (JObj [(''fault_injected'', JBool True), (''kind'', JStr (sf_kind fault)), (''target'', JStr t),
                    (''mutated_url'', JStr (faulted_url fault url (ra_port ra))), (''error'', err)])"
proof -
  let ?port = "if sf_kind fault = ''manifest_404'' then ra_port ra else 1"
  let ?F = "\<lambda>err. JObj [(''fault_injected'', JBool True), (''kind'', JStr (sf_kind fault)), (''target'', JStr t),
                    (''mutated_url'', JStr (faulted_url fault url (ra_port ra))), (''error'', err)]"
  let ?g1 = "[(''step_id'', JStr (ws_id st)), (''target'', JStr t),
           (''notes'', JStr (''kind='' @ sf_kind fault @ '' note='' @ (case sf_note fault of Some n \<Rightarrow> n | None \<Rightarrow> [])))]"
  let ?g2 = "[(''step_id'', JStr (ws_id st)), (''target'', JStr t)]"
  have "dispatch_fault_injected env sx ty fault st s =
      thenM (emit_event env ''step.fault_injected'' ?g1)
        (bindM (catch env (faulted_action env ty st t (faulted_url fault url (ra_port ra)) ?port)) (\<lambda>err.
           thenM (set_output (ws_id st) (?F err)) (emit_event env ''step.fault_complete'' (?g2 @ [(''result'', ?F err)])))) s"
    (is "_ = ?rhs")
  proof (cases "sf_kind fault = ''manifest_404''")
    case True
    then show ?thesis
      by (simp add: dispatch_fault_injected_def bindM_def [of "fault_target sx ty st"] bindM_def [of "running_of t"]
          assms(1-4) running_of_def peer_url_def as_text_def faulted_url_def Let_def)
  next
    case False
    with assms(5) have "sf_kind fault = ''peer_offline''" by simp
    then show ?thesis
      by (simp add: dispatch_fault_injected_def bindM_def [of "fault_target sx ty st"] bindM_def [of "running_of t"]
          assms(1-4) running_of_def peer_url_def as_text_def faulted_url_def Let_def)
  qed
  moreover have "field_valid k v" if "(k, v) \<in> set ?g1" for k v
    using that by (auto intro!: field_valid_text)
  moreover have "field_valid k v" if "(k, v) \<in> set ?g2" for k v
    using that by (auto intro!: field_valid_text)
  ultimately show ?thesis by (simp only: fault_tail)
qed

text \<open>
  An injected fault that escapes. A fault on a workflow or probe step that names no target
  agent looks the target up without manifests: in every scenario with an agent the lookup raises
  \<open>AttributeError\<close> before the step's own \<open>try\<close>, so the step raises and the run fails.
\<close>

theorem fault_without_target_raises:
  assumes "ty \<in> {''workflow'', ''capability_probe''}" "ws_target_agent st \<in> {None, Some []}"
    and "sp_agents (sv_spec (sx_scenario sx)) \<noteq> []"
  shows "dispatch_fault_injected env sx ty fault st s = (Inl (EPy (PyExc AttributeError None ''spec'')), s)"
proof -
  obtain a as where as: "sp_agents (sv_spec (sx_scenario sx)) = a # as" using assms(3) by (cases "sp_agents (sv_spec (sx_scenario sx))") auto
  have none: "dict_get (map (\<lambda>a. (as_id a, None)) xs) p \<noteq> Some (Some am)" for xs :: "agent_spec list" and p and am :: agent_manifest
    by (induction xs) auto
  have "find_capability_holder cap (sx_scenario sx) (map (\<lambda>a. (as_id a, None)) (a # as)) pf s
      = (Inl (EPy (PyExc AttributeError None ''spec'')), s)" for cap pf
    using none [of as] as by (cases pf) (simp_all add: find_capability_holder_def split: option.split)
  then have "fault_target sx ty st s = (Inl (EPy (PyExc AttributeError None ''spec'')), s)"
    using assms(1,2) as by (auto simp: fault_target_def bindM_def)
  then show ?thesis by (simp add: dispatch_fault_injected_def bindM_def)
qed

section \<open>Pinning the peers of a run\<close>

text \<open>The request that tells an agent whom to trust.\<close>

definition pin_call :: "eng_env \<Rightarrow> (string, running_agent) dict \<Rightarrow> string \<times> running_agent \<Rightarrow> call" where
  "pin_call env running ar =
     \<lparr>cl_method = ''POST'', cl_url = engine_origin env (ra_port (snd ar)) @ ''/admin/trust-peers'', cl_params = [],
      cl_body = Some (JObj [(''aids'', JArr (map JStr (peer_aids running (fst ar)))), (''replace'', JBool True)])\<rparr>"

lemma peer_aids_iff:
  "wf_dict running \<Longrightarrow>
   x \<in> set (peer_aids running a) \<longleftrightarrow> x \<noteq> [] \<and> (\<exists>b rb. dict_get running b = Some rb \<and> b \<noteq> a \<and> ra_aid rb = x)"
  by (auto simp: peer_aids_def mem_dict_get [symmetric] image_iff simp del: map_of_eq_Some_iff)

lemma push_one_ok:
  "push_one env running ar s = (Inr (), s1) \<Longrightarrow>
   es_calls s1 = es_calls s @ [pin_call env running ar] \<and> es_running s1 = es_running s"
  by (cases ar) (auto simp: push_one_def bindM_Inr_iff http_call_def send_def raise_for_status_def pin_call_def Let_def
      split: sum.splits if_splits)

lemma push_all_ok:
  "forM (push_one env running) ars s = (Inr (), s1) \<Longrightarrow>
   es_calls s1 = es_calls s @ map (pin_call env running) ars \<and> es_running s1 = es_running s"
proof (induction ars arbitrary: s)
  case (Cons ar ars)
  then obtain s0 where "push_one env running ar s = (Inr (), s0)" "forM (push_one env running) ars s0 = (Inr (), s1)"
    by (auto simp: bindM_Inr_iff)
  with Cons.IH push_one_ok show ?case by fastforce
qed simp

lemma emit_event_calls:
  "emit_event env ty given s = (r, s1) \<Longrightarrow> es_calls s1 = es_calls s \<and> es_running s1 = es_running s \<and> es_outputs s1 = es_outputs s"
  by (auto simp: emit_event_def emit_dump_def Let_def split: sum.splits)

lemma push_trusted_peers_ok:
  "push_trusted_peers env s = (Inr (), s1) \<Longrightarrow>
   es_calls s1 = es_calls s @ map (pin_call env (es_running s)) (es_running s) \<and> es_running s1 = es_running s"
  by (auto simp: push_trusted_peers_def bindM_Inr_iff look_def dest!: push_all_ok emit_event_calls)

lemma post_json_calls:
  "post_json env url body s = (Inr v, s1) \<Longrightarrow> (\<exists>c. es_calls s1 = es_calls s @ [c]) \<and> es_running s1 = es_running s"
  by (auto simp: post_json_def bindM_Inr_iff http_call_def send_def raise_for_status_def resp_json_def
      split: sum.splits if_splits option.splits prod.splits)

lemma text_or_empty_state:
  "(case v of JNull \<Rightarrow> ret [] | JStr x \<Rightarrow> ret x | x \<Rightarrow> if truthy x then raise e else ret []) s = (Inr n, s1) \<Longrightarrow> s1 = s"
  by (cases v) (auto split: if_splits)

lemma step_rotate_ok:
  assumes "step_rotate env sx st s = (Inr (), s')"
  shows "\<exists>a ra new c. ws_agent st = Some a \<and> dict_get (es_running s) a = Some ra
    \<and> es_running s' = dict_set a (ra\<lparr>ra_aid := new\<rparr>) (es_running s)
    \<and> es_calls s' = es_calls s @ c # map (pin_call env (es_running s')) (es_running s')"
proof -
  from assms obtain a ra v data new s1 s2 s3 where
    a: "ws_agent st = Some a" "dict_get (es_running s) a = Some ra"
    and p: "post_json env (engine_origin env (ra_port ra) @ ''/admin/rotate-keys'') (Some (JObj [])) s = (Inr v, s1)"
    and k: "set_aid a new s1 = (Inr (), s2)" "push_trusted_peers env s2 = (Inr (), s3)"
    and e: "es_calls s' = es_calls s3 \<and> es_running s' = es_running s3"
    by (auto simp: step_rotate_def given1_def running_of_def bindM_Inr_iff Let_def complete_def set_output_def
        as_dict_Inr split: option.splits if_splits dest!: emit_event_calls text_or_empty_state)
  from post_json_calls [OF p] a(2) k(1) have
    "es_running s2 = dict_set a (ra\<lparr>ra_aid := new\<rparr>) (es_running s)" "\<exists>c. es_calls s2 = es_calls s @ [c]"
    by (auto simp: set_aid_def)
  with a push_trusted_peers_ok [OF k(2)] e show ?thesis by auto
qed

text \<open>
  Rotating an agent's key re-pins the whole run. When a \<open>rotate_keys\<close> step completes, the
  agent has the AID its answer announced, and every agent of the run, the rotated one included,
  has been sent the list it must trust from then on, in place of its former list: exactly the
  AIDs of the other agents, the new one among them. So the former AID is in nobody's list,
  unless another agent has it.
\<close>

theorem rotation_repins_run:
  assumes "step_rotate env sx st s = (Inr (), s')" "wf_dict (es_running s)" "dict_get (es_running s') b = Some rb"
  shows "\<exists>a ra new aids. ws_agent st = Some a \<and> dict_get (es_running s) a = Some ra
    \<and> dict_get (es_running s') a = Some (ra\<lparr>ra_aid := new\<rparr>)
    \<and> \<lparr>cl_method = ''POST'', cl_url = engine_origin env (ra_port rb) @ ''/admin/trust-peers'', cl_params = [],
        cl_body = Some (JObj [(''aids'', JArr (map JStr aids)), (''replace'', JBool True)])\<rparr>
       \<in> set (drop (length (es_calls s)) (es_calls s'))
    \<and> (\<forall>x. x \<in> set aids \<longleftrightarrow> x \<noteq> [] \<and> (\<exists>c rc. dict_get (es_running s') c = Some rc \<and> c \<noteq> b \<and> ra_aid rc = x))"
proof -
  from step_rotate_ok [OF assms(1)] obtain a ra new c where
    a: "ws_agent st = Some a" "dict_get (es_running s) a = Some ra"
      "es_running s' = dict_set a (ra\<lparr>ra_aid := new\<rparr>) (es_running s)"
    and calls: "es_calls s' = es_calls s @ c # map (pin_call env (es_running s')) (es_running s')" by blast
  have wf: "wf_dict (es_running s')" using a(3) assms(2) by (simp add: dict_simps)
  have "(b, rb) \<in> set (es_running s')" using assms(3) by (rule dict_get_mem)
  with calls have "pin_call env (es_running s') (b, rb) \<in> set (drop (length (es_calls s)) (es_calls s'))" by simp
  with a peer_aids_iff [OF wf] show ?thesis
    by (intro exI [of _ a] exI [of _ ra] exI [of _ new] exI [of _ "peer_aids (es_running s') b"])
      (simp add: pin_call_def)
qed

section \<open>Witnesses\<close>

definition blank_step :: "string \<Rightarrow> workflow_step" where
  "blank_step i =
     \<lparr>ws_id = i, ws_type = None, ws_description = None, ws_agent = None, ws_capability = None, ws_input_template = None,
      ws_input_from = None, ws_target_agent = None, ws_expect_status = None, ws_initiator = None, ws_responder = None,
      ws_requested_grants = None, ws_issuer = None, ws_audience = None, ws_via_cp = None, ws_reason = None,
      ws_local_revoke = None, ws_refresh_agents = None, ws_delegator = None, ws_delegatee = None, ws_via_peer = None,
      ws_scope = None, ws_ttl_secs = None, ws_via_delegation = None, ws_target = None, ws_events = None,
      ws_new_ttl_secs = None, ws_coordinator = None, ws_participants = None, ws_verifier = None, ws_via_step = None,
      ws_cert_der_b64 = None, ws_pins = None, ws_namespace = None, ws_issuer_url = None, ws_fault = None\<rparr>"

definition demo_agent :: "string \<Rightarrow> agent_spec" where
  "demo_agent i = \<lparr>as_id = i, as_ref = i, as_port_offset = 0, as_org = ''o'', as_cloud = None, as_did_web_host = None,
     as_signing_suite = None, as_accepted_identity_types = None\<rparr>"

definition demo_scenario :: scenario_version where
  "demo_scenario =
     \<lparr>sv_api_version = API_VERSION,
      sv_metadata = \<lparr>sm_pack = ''p'', sm_scenario = ''s'', sm_version = ''1'', sm_name = ''n'', sm_summary = None, sm_tags = []\<rparr>,
      sv_spec = \<lparr>sp_inputs_schema = [], sp_agents = [demo_agent ''a''],
        sp_trust = \<lparr>ts_boundary = ''b'', ts_discovery = ''d'', ts_eager = False\<rparr>, sp_steps = []\<rparr>\<rparr>"

definition demo_ctx :: step_ctx where
  "demo_ctx = \<lparr>sx_scenario = demo_scenario, sx_peers = [(''a'', [(''manifest_url'', JStr ''u'')])],
     sx_manifests = [], sx_inputs = []\<rparr>"

definition demo_running :: "string \<Rightarrow> string \<Rightarrow> running_agent" where
  "demo_running i aid = \<lparr>ra_run_id = ''r'', ra_agent_id = i, ra_port = 9, ra_pid = None, ra_aid = aid, ra_manifest_url = ''u'',
     ra_status = ''ready'', ra_exit_code = None\<rparr>"

definition demo_state :: eng_state where
  "demo_state =
     \<lparr>es_store = run_store_init, es_metrics = metrics_init, es_events = [],
      es_running = [(''a'', demo_running ''a'' ''x''), (''b'', demo_running ''b'' ''y'')],
      es_outputs = [], es_calls = [], es_ticks = 0, es_webhook_ids = {}\<rparr>"

definition demo_env :: "string list \<Rightarrow> eng_env" where
  "demo_env answers =
     \<lparr>en_run_id = ''r'', en_answers = (\<lambda>n. Inr (200, if n < length answers then answers ! n else ''{}'')), en_clk = (\<lambda>_. 0), en_insecure = True,
      en_cp = \<lparr>cs_base_url = ''c'', cs_api_key = ''k''\<rparr>, en_playground_base_url = ''p'',
      en_verify_manifest = (\<lambda>_ _. Inr ()), en_spki_hash = Inr, en_is_pinned = (\<lambda>_ _. Inr True),
      en_float_text = (\<lambda>_. []), en_exc_name = (\<lambda>_. []), en_exc_text = (\<lambda>_. [])\<rparr>"

abbreviation demo_answers :: "string list" where
  "demo_answers \<equiv> [''{\"manifest\":{\"aid\":\"x\",\"identity_hint\":{\"public_key\":\"k\"}}}'', ''{}'', ''{\"pinnedKeys\":1}'']"

definition demo_pin :: call where
  "demo_pin = \<lparr>cl_method = ''POST'', cl_url = ''c/api/pinned-keys'', cl_params = [],
     cl_body = Some (JObj [(''aid'', JStr ''x''), (''pubkey'', JStr ''k''), (''namespace'', JStr ''p''), (''label'', JStr ''a'')])\<rparr>"

abbreviation agent_step :: workflow_step where
  "agent_step \<equiv> (blank_step ''s'')\<lparr>ws_agent := Some ''a''\<rparr>"

theorem pinned_only_from_verified_manifest_witness:
  "demo_pin \<in> set (drop (length (es_calls demo_state))
      (es_calls (snd (step_provision (demo_env demo_answers) demo_ctx agent_step demo_state))))
   \<and> (\<exists>a ra m. ws_agent agent_step = Some a \<and> dict_get (es_running demo_state) a = Some ra
        \<and> manifest_authentic (demo_env demo_answers) ra (en_answers (demo_env demo_answers) (length (es_calls demo_state))) m
        \<and> JStr ''k'' = key_of_manifest m \<and> Some (JStr ''x'') = Some (JStr (ra_aid ra)))"
proof -
  let ?b = "[(''aid'', JStr ''x''), (''pubkey'', JStr ''k''), (''namespace'', JStr ''p''), (''label'', JStr ''a'')]"
  have sent: "demo_pin \<in> set (drop (length (es_calls demo_state))
      (es_calls (snd (step_provision (demo_env demo_answers) demo_ctx agent_step demo_state))))" by code_simp
  have "cl_body demo_pin = Some (JObj ?b)" "dict_get ?b ''pubkey'' = Some (JStr ''k'')"
    by (simp_all add: demo_pin_def)
  from pinned_only_from_verified_manifest [OF sent this] have "\<exists>a ra m. ws_agent agent_step = Some a
      \<and> dict_get (es_running demo_state) a = Some ra
      \<and> manifest_authentic (demo_env demo_answers) ra (en_answers (demo_env demo_answers) (length (es_calls demo_state))) m
      \<and> JStr ''k'' = key_of_manifest m \<and> dict_get ?b ''aid'' = Some (JStr (ra_aid ra))" .
  moreover have "dict_get ?b ''aid'' = Some (JStr ''x'')" by simp
  ultimately show ?thesis using sent by (simp only: simp_thms)
qed

abbreviation demo_fault :: step_fault where
  "demo_fault \<equiv> \<lparr>sf_kind = ''manifest_404'', sf_note = None\<rparr>"

abbreviation demo_faulted :: workflow_step where
  "demo_faulted \<equiv> (blank_step ''s'')\<lparr>ws_initiator := Some ''b'', ws_responder := Some ''a''\<rparr>"

theorem fault_contained_witness:
  "\<exists>err s'. dispatch_fault_injected (demo_env []) demo_ctx ''handshake'' demo_fault demo_faulted demo_state = (Inr (), s')
    \<and> dict_get (es_outputs s') (ws_id demo_faulted) =
        Some (JObj [(''fault_injected'', JBool True), (''kind'', JStr (sf_kind demo_fault)), (''target'', JStr ''a''),
                    (''mutated_url'', JStr (faulted_url demo_fault ''u'' (ra_port (demo_running ''a'' ''x'')))), (''error'', err)])"
  by (rule fault_contained [where t = "''a''" and p = "[(''manifest_url'', JStr ''u'')]"])
    (simp_all add: fault_target_def demo_ctx_def demo_state_def)

theorem fault_without_target_raises_witness:
  "dispatch_fault_injected (demo_env []) demo_ctx ''workflow'' demo_fault agent_step demo_state
     = (Inl (EPy (PyExc AttributeError None ''spec'')), demo_state)"
  by (rule fault_without_target_raises) (simp_all add: demo_ctx_def demo_scenario_def blank_step_def)

abbreviation demo_rotation :: "(eng_exc + unit) \<times> eng_state" where
  "demo_rotation \<equiv> step_rotate (demo_env [''{\"aid\":\"z\"}'']) demo_ctx agent_step demo_state"

theorem rotation_repins_run_witness:
  "\<exists>a ra new aids. ws_agent agent_step = Some a \<and> dict_get (es_running demo_state) a = Some ra
    \<and> dict_get (es_running (snd demo_rotation)) a = Some (ra\<lparr>ra_aid := new\<rparr>)
    \<and> \<lparr>cl_method = ''POST'', cl_url = engine_origin (demo_env [''{\"aid\":\"z\"}'']) (ra_port (demo_running ''b'' ''y'')) @ ''/admin/trust-peers'',
        cl_params = [], cl_body = Some (JObj [(''aids'', JArr (map JStr aids)), (''replace'', JBool True)])\<rparr>
       \<in> set (drop (length (es_calls demo_state)) (es_calls (snd demo_rotation)))
    \<and> (\<forall>x. x \<in> set aids \<longleftrightarrow>
         x \<noteq> [] \<and> (\<exists>c rc. dict_get (es_running (snd demo_rotation)) c = Some rc \<and> c \<noteq> ''b'' \<and> ra_aid rc = x))"
proof (rule rotation_repins_run [where sx = demo_ctx])
  have "fst demo_rotation = Inr ()" by code_simp
  then show "demo_rotation = (Inr (), snd demo_rotation)" by (simp add: prod_eq_iff)
  show "wf_dict (es_running demo_state)" by code_simp
  show "dict_get (es_running (snd demo_rotation)) ''b'' = Some (demo_running ''b'' ''y'')" by code_simp
qed

end
