(* ===== verification/Trust_Resolver.thy ===== *)
theory Trust_Resolver
  imports Engine_Safety
begin

text \<open>
  \<open>src/aitp_playground/trust/resolver.py\<close> and \<open>trust/orchestrator.py\<close>: did:web
  resolution and the manifest address of every agent of a run, as computations of the engine.
  Bytes a percent escape stands for are taken to form UTF-8 text.

  What is shown: without Control Plane discovery the resolution of a run's peers cannot fail,
  covers exactly the scenario's agents, and an agent whose DID does not resolve is addressed
  on its own loopback port.
\<close>

section \<open>Text\<close>

text \<open>\<open>urllib.parse.unquote\<close> and \<open>quote(host, safe='.')\<close>.\<close>

fun unquote :: "string \<Rightarrow> string" where
  "unquote (c # a # b # r) =
     (if c = CHR ''%'' then
        (case (hex_val a, hex_val b) of
           (Some x, Some y) \<Rightarrow> char_of (x * 16 + y) # unquote r
         | _ \<Rightarrow> c # unquote (a # b # r))
      else c # unquote (a # b # r))"
| "unquote s = s"

definition unreserved :: "char \<Rightarrow> bool" where
  "unreserved c \<longleftrightarrow>
     (let n = byte c in (48 \<le> n \<and> n \<le> 57) \<or> (65 \<le> n \<and> n \<le> 90) \<or> (97 \<le> n \<and> n \<le> 122)
        \<or> c \<in> {CHR ''_'', CHR ''.'', CHR ''-'', CHR ''~''})"

definition upper_hex :: "nat \<Rightarrow> char" where
  "upper_hex n = (if n < 10 then char_of (48 + n) else char_of (55 + n))"

definition quote_dot :: "string \<Rightarrow> string" where
  "quote_dot s =
     concat (map (\<lambda>c. if unreserved c then [c] else [CHR ''%'', upper_hex (byte c div 16), upper_hex (byte c mod 16)]) s)"

definition is_loopback_host :: "string \<Rightarrow> bool" where
  "is_loopback_host host =
     (let bare = fst (partition_on (CHR '':'') host) in bare = ''localhost'' \<or> starts_with ''127.'' bare)"

section \<open>Resolving a DID\<close>

definition well_known_manifest :: string where
  "well_known_manifest = ''/.well-known/aitp-manifest''"

text \<open>The first service of type \<open>AitpManifest\<close>.\<close>

fun manifest_service :: "json list \<Rightarrow> pyexc + json_dict option" where
  "manifest_service [] = Inr None"
| "manifest_service (s # ss) =
     (case s of
        JObj d \<Rightarrow> if get_json d ''type'' = JStr ''AitpManifest'' then Inr (Some d) else manifest_service ss
      | _ \<Rightarrow> Inl (PyExc AttributeError None ''get''))"

definition endpoint_of :: "string \<Rightarrow> json_dict \<Rightarrow> pyexc + string" where
  "endpoint_of did doc =
     bindE (json_iter (case dict_get doc ''service'' of Some v \<Rightarrow> v | None \<Rightarrow> JArr [])) (\<lambda>services.
     bindE (manifest_service services) (\<lambda>svc.
       case svc of
         None \<Rightarrow> Inl (PyExc ValueError None (''no AitpManifest service in DID document for '' @ did))
       | Some d \<Rightarrow>
           (case dict_get d ''serviceEndpoint'' of
              None \<Rightarrow> Inl (PyExc KeyError None ''serviceEndpoint'')
            | Some (JStr e) \<Rightarrow> Inr (rstrip_slash e @ well_known_manifest)
            | Some _ \<Rightarrow> Inl (PyExc AttributeError None ''rstrip''))))"

definition did_host :: "string \<Rightarrow> string" where
  "did_host did = unquote (drop (length ''did:web:'') did)"

definition resolve_did_web :: "eng_env \<Rightarrow> string \<Rightarrow> string eng" where
  "resolve_did_web env did =
     (if \<not> starts_with ''did:web:'' did then raise (EPy (PyExc ValueError None (''not a did:web DID: '' @ did)))
      else
        (let host = did_host did;
             scheme = (if is_loopback_host host \<and> en_insecure env then ''http'' else ''https'');
             url = scheme @ ''://'' @ host @ ''/.well-known/did.json''
         in bindM (http_call env ''GET'' url [] None) (\<lambda>a. bindM (raise_for_status url a) (\<lambda>content.
            bindM (resp_json content) (\<lambda>v. bindM (as_dict AttributeError v) (\<lambda>doc.
              lift_exc (endpoint_of did doc)))))))"

definition encode_did_web :: "string \<Rightarrow> string" where
  "encode_did_web host = ''did:web:'' @ quote_dot host"

section \<open>The peers of a run\<close>

definition cap_for_agent :: "string \<Rightarrow> scenario_version \<Rightarrow> string option" where
  "cap_for_agent a sc =
     first_some (\<lambda>st. if ws_agent st = Some a \<and> ws_capability st \<notin> {None, Some []} then ws_capability st else None)
       (sp_steps (sv_spec sc))"

definition local_url :: "eng_env \<Rightarrow> running_agent option \<Rightarrow> string \<Rightarrow> json" where
  "local_url env ra path = (case ra of Some r \<Rightarrow> JStr (engine_origin env (ra_port r) @ path) | None \<Rightarrow> JNull)"

definition first_truthy :: "json list \<Rightarrow> json" where
  "first_truthy vs = (case filter truthy vs of v # _ \<Rightarrow> v | [] \<Rightarrow> JNull)"

text \<open>The address a discovered registry record gives. \<open>a or b or c\<close> yields its last operand
  when none is truthy; all of them are falsy then, and none is used.\<close>

definition discovered_peer :: "json \<Rightarrow> json \<Rightarrow> json \<Rightarrow> pyexc + json_dict" where
  "discovered_peer rec0 local_manifest local_handshake =
     (case rec0 of
        JObj d \<Rightarrow>
          bindE (case first_truthy [get_json d ''handshakeEndpoint'', get_json d ''handshake_endpoint'', local_handshake] of
                   JStr h \<Rightarrow> Inr (rsplit_once ''/aitp'' h)
                 | JNull \<Rightarrow> Inr []
                 | _ \<Rightarrow> Inl (PyExc AttributeError None ''rsplit''))
            (\<lambda>base. Inr [(''manifest_url'', if base = [] then local_manifest else JStr (base @ well_known_manifest)),
                         (''did'', JNull), (''source'', JStr ''cp_registry'')])
      | _ \<Rightarrow> Inl (PyExc AttributeError None ''get''))"

definition peer_did_web :: "eng_env \<Rightarrow> string \<Rightarrow> json \<Rightarrow> json_dict eng" where
  "peer_did_web env host local_manifest s =
     (let did = ''did:web:'' @ str_replace '':'' ''%3A'' host
      in case resolve_did_web env did s of
           (Inr u, s1) \<Rightarrow> (Inr [(''manifest_url'', JStr u), (''did'', JStr did)], s1)
         | (Inl e, s1) \<Rightarrow> (Inr [(''manifest_url'', local_manifest), (''did'', JStr did)], s1))"

definition peer_from_cp :: "eng_env \<Rightarrow> scenario_version \<Rightarrow> agent_spec \<Rightarrow> json \<Rightarrow> json \<Rightarrow> json_dict eng" where
  "peer_from_cp env sc ag local_manifest local_handshake =
     bindM (cp_send env (discover_request (en_cp env) (case cap_for_agent (as_id ag) sc of Some c \<Rightarrow> c | None \<Rightarrow> []))) (\<lambda>r.
       case (case r of Some a \<Rightarrow> discover_by_capability a | None \<Rightarrow> []) of
         rec0 # _ \<Rightarrow> lift_exc (discovered_peer rec0 local_manifest local_handshake)
       | [] \<Rightarrow> ret [(''manifest_url'', local_manifest), (''did'', JNull), (''source'', JStr ''static_fallback'')])"

definition resolve_peer :: "eng_env \<Rightarrow> scenario_version \<Rightarrow> (string, running_agent) dict \<Rightarrow> agent_spec \<Rightarrow> json_dict eng" where
  "resolve_peer env sc running ag =
     (let ra = dict_get running (as_id ag);
          local_manifest = local_url env ra well_known_manifest;
          local_handshake = local_url env ra ''/aitp/handshake/hello'';
          discovery = ts_discovery (sp_trust (sv_spec sc))
      in if discovery = ''did_web'' \<and> as_did_web_host ag \<notin> {None, Some []}
         then peer_did_web env (case as_did_web_host ag of Some h \<Rightarrow> h | None \<Rightarrow> []) local_manifest
         else if discovery = ''cp_registry'' \<and> as_org ag = ''external''
         then peer_from_cp env sc ag local_manifest local_handshake
         else ret [(''manifest_url'', local_manifest), (''did'', JNull), (''source'', JStr ''static'')])"

fun resolve_each ::
  "eng_env \<Rightarrow> scenario_version \<Rightarrow> (string, running_agent) dict \<Rightarrow> agent_spec list \<Rightarrow> (string, json_dict) dict \<Rightarrow>
    (string, json_dict) dict eng" where
  "resolve_each env sc running [] peers = ret peers"
| "resolve_each env sc running (ag # ags) peers =
     bindM (resolve_peer env sc running ag) (\<lambda>p. resolve_each env sc running ags (dict_set (as_id ag) p peers))"

definition resolve_peers :: "eng_env \<Rightarrow> scenario_version \<Rightarrow> (string, running_agent) dict \<Rightarrow> (string, json_dict) dict eng" where
  "resolve_peers env sc running = resolve_each env sc running (sp_agents (sv_spec sc)) []"

section \<open>Percent encoding\<close>

lemma unquote_plain: "c \<noteq> CHR ''%'' \<Longrightarrow> unquote (c # r) = c # unquote r"
  by (cases r; cases "tl r") auto

lemma hex_val_upper: "n < 16 \<Longrightarrow> hex_val (upper_hex n) = Some n"
  by (simp add: hex_val_def upper_hex_def Let_def)

lemma unquote_escape:
  "unquote (CHR ''%'' # upper_hex (byte c div 16) # upper_hex (byte c mod 16) # r) = c # unquote r"
proof -
  have "byte c < 256" by (rule byte_less)
  then have "byte c div 16 < 16" "byte c mod 16 < 16" by (simp_all add: less_mult_imp_div_less)
  then show ?thesis by (simp add: hex_val_upper)
qed

lemma unquote_quote: "unquote (quote_dot s) = s"
proof (induction s)
  case (Cons c s)
  have "unreserved c \<Longrightarrow> c \<noteq> CHR ''%''" by (auto simp: unreserved_def)
  with Cons show ?case
    by (cases "unreserved c") (simp_all add: quote_dot_def unquote_plain unquote_escape del: unquote.simps)
qed (simp add: quote_dot_def)

section \<open>Properties\<close>

text \<open>
  A host survives its DID. Encoding any host, with or without a port, as a did:web
  identifier and reading the host back out of it gives the host.
\<close>

theorem did_web_roundtrip: "did_host (encode_did_web host) = host"
  by (simp add: did_host_def encode_did_web_def unquote_quote)

lemma resolve_peer_total:
  assumes "ts_discovery (sp_trust (sv_spec sc)) \<noteq> ''cp_registry''"
  shows "\<exists>p s1. resolve_peer env sc running ag s = (Inr p, s1)
    \<and> (get_json p ''manifest_url'' = local_url env (dict_get running (as_id ag)) well_known_manifest
       \<or> ts_discovery (sp_trust (sv_spec sc)) = ''did_web''
         \<and> (\<exists>h u. as_did_web_host ag = Some h \<and> h \<noteq> [] \<and> get_json p ''manifest_url'' = JStr u
              \<and> fst (resolve_did_web env (''did:web:'' @ str_replace '':'' ''%3A'' h) s) = Inr u))"
proof (cases "ts_discovery (sp_trust (sv_spec sc)) = ''did_web'' \<and> as_did_web_host ag \<notin> {None, Some []}")
  case True
  then obtain h where h: "as_did_web_host ag = Some h" "h \<noteq> []" by auto
  obtain r s1 where "resolve_did_web env (''did:web:'' @ str_replace '':'' ''%3A'' h) s = (r, s1)" by fastforce
  with True h show ?thesis by (cases r) (auto simp: resolve_peer_def peer_did_web_def get_json_def Let_def)
next
  case False
  then have "resolve_peer env sc running ag s =
      (Inr [(''manifest_url'', local_url env (dict_get running (as_id ag)) well_known_manifest), (''did'', JNull), (''source'', JStr ''static'')], s)"
    using assms by (auto simp: resolve_peer_def Let_def)
  then show ?thesis by (simp add: get_json_def)
qed

text \<open>The address a run's agent may be given: its own loopback address, or the one its DID
  document names.\<close>

definition peer_addressed :: "eng_env \<Rightarrow> scenario_version \<Rightarrow> (string, running_agent) dict \<Rightarrow> string \<Rightarrow> json_dict \<Rightarrow> bool" where
  "peer_addressed env sc running a p \<longleftrightarrow>
     get_json p ''manifest_url'' = local_url env (dict_get running a) well_known_manifest
     \<or> ts_discovery (sp_trust (sv_spec sc)) = ''did_web''
       \<and> (\<exists>ag \<in> set (sp_agents (sv_spec sc)). \<exists>h u s. as_id ag = a \<and> as_did_web_host ag = Some h \<and> h \<noteq> []
            \<and> get_json p ''manifest_url'' = JStr u
            \<and> fst (resolve_did_web env (''did:web:'' @ str_replace '':'' ''%3A'' h) s) = Inr u)"

lemma resolve_each_total:
  assumes "ts_discovery (sp_trust (sv_spec sc)) \<noteq> ''cp_registry''"
  shows "set ags \<subseteq> set (sp_agents (sv_spec sc)) \<Longrightarrow> \<forall>a p. dict_get acc a = Some p \<longrightarrow> peer_addressed env sc running a p \<Longrightarrow>
    \<exists>peers s'. resolve_each env sc running ags acc s = (Inr peers, s')
      \<and> set (dict_keys peers) = set (dict_keys acc) \<union> as_id ` set ags
      \<and> (\<forall>a p. dict_get peers a = Some p \<longrightarrow> peer_addressed env sc running a p)"
proof (induction ags arbitrary: acc s)
  case (Cons ag ags)
  from resolve_peer_total [OF assms, of env running ag s] obtain p s1 where
    p: "resolve_peer env sc running ag s = (Inr p, s1)" and ok: "peer_addressed env sc running (as_id ag) p"
    using Cons.prems(1) unfolding peer_addressed_def
    by (elim exE conjE disjE; use Cons.prems(1) in auto)
  have "\<forall>a q. dict_get (dict_set (as_id ag) p acc) a = Some q \<longrightarrow> peer_addressed env sc running a q"
    using Cons.prems ok by (auto simp del: map_of_eq_Some_iff)
  from Cons.IH [OF _ this, of s1] Cons.prems(1) obtain peers s' where
    "resolve_each env sc running ags (dict_set (as_id ag) p acc) s1 = (Inr peers, s')"
    "set (dict_keys peers) = set (dict_keys (dict_set (as_id ag) p acc)) \<union> as_id ` set ags"
    "\<forall>a p. dict_get peers a = Some p \<longrightarrow> peer_addressed env sc running a p" by auto
  with p show ?case unfolding dict_keys_set
    by (intro exI [of _ peers] exI [of _ s']) (simp only: resolve_each.simps bindM_def prod.case sum.case, auto)
qed auto

text \<open>
  Without Control Plane discovery resolving a run's peers never fails: whatever the did:web
  hosts answer, every agent of the scenario gets an address and no other agent does, and the
  address is its own loopback address or the one its DID document names.
\<close>

theorem resolve_peers_total:
  assumes "ts_discovery (sp_trust (sv_spec sc)) \<noteq> ''cp_registry''"
  shows "\<exists>peers s'. resolve_peers env sc running s = (Inr peers, s')
    \<and> set (dict_keys peers) = as_id ` set (sp_agents (sv_spec sc))
    \<and> (\<forall>a p. dict_get peers a = Some p \<longrightarrow> peer_addressed env sc running a p)"
  using resolve_each_total [OF assms subset_refl, of "[]" env running s] by (simp add: resolve_peers_def)

theorem resolve_peers_total_witness:
  "\<exists>peers s'. resolve_peers (demo_env []) demo_scenario [] demo_state = (Inr peers, s')
    \<and> set (dict_keys peers) = as_id ` set (sp_agents (sv_spec demo_scenario))
    \<and> (\<forall>a p. dict_get peers a = Some p \<longrightarrow> peer_addressed (demo_env []) demo_scenario [] a p)"
  by (rule resolve_peers_total) (simp add: demo_scenario_def)

end
