(* ===== verification/Run_Lifecycle.thy ===== *)
theory Run_Lifecycle
  imports Trust_Resolver Bootstrap_Build
begin

text \<open>
  \<open>ScenarioRunner.run\<close> of \<open>src/aitp_playground/runner/engine.py\<close> from its first write to
  the store to its result, with the cleanup and the failure paths, over the engine's state, the
  port allocator, the supervisor and the bootstrap files on disk. The local variables the
  exception handler reads (\<open>ports\<close>, \<open>bootstrap_files\<close>) are part of the state.

  What the surroundings decide is given: the registry as loaded, schema validation, what the
  operating system does for each launch and each write, fresh tokens and keys. A computation
  that has not returned, because an agent's output has not come yet, is \<open>None\<close>. The two
  background tasks a run leaves (the ingest of its events, the teardown of its webhook) are
  kept as requests for them.
\<close>

section \<open>State and surroundings\<close>

record run_world =
  rw_eng :: eng_state
  rw_ports :: port_allocator
  rw_sup :: supervisor
  rw_files :: "(string, json_dict) dict"
  rl_ports :: "(string, int) dict"
  rl_files :: "(string, string) dict"
  rw_teardowns :: "string list"
  rw_ingests :: "json list list"

datatype write_outcome = Written | WriteFailed bool eng_exc

datatype schema_outcome = SchemaOk | SchemaInvalid string | SchemaRaises pyexc

record run_env =
  re_eng :: eng_env
  re_settings :: settings
  re_registry :: "api_exc + loaded_registry"
  re_trust_validate :: "json_dict \<Rightarrow> pyexc + trust_spec"
  re_by_ref :: "string \<Rightarrow> pyexc + agent_manifest"
  re_capabilities :: capability_report
  re_schema :: "json_dict \<Rightarrow> json_dict \<Rightarrow> schema_outcome"
  re_adapters :: "(string, adapter) dict"
  re_host :: host_env
  re_oidc :: oidc_issuer
  re_build :: "string \<Rightarrow> build_env"
  re_write :: "string \<Rightarrow> write_outcome"
  re_spawn :: "string \<Rightarrow> spawn"
  re_os :: os
  re_tmpdir :: string

record run_args =
  ar_scenario_ref :: string
  ar_inputs :: json_dict
  ar_run_label :: "string option"
  ar_template :: "string option"

record run_result =
  rr_run_id :: string
  rr_status :: string
  rr_outputs :: json_dict
  rr_events :: "json_dict list"
  rr_error :: "string option"

abbreviation rid :: "run_env \<Rightarrow> string" where
  "rid re \<equiv> en_run_id (re_eng re)"

section \<open>Computations of a run\<close>

type_synonym 'x run = "run_world \<Rightarrow> ((eng_exc + 'x) \<times> run_world) option"

definition retR :: "'x \<Rightarrow> 'x run" where
  "retR x w = Some (Inr x, w)"

definition raiseR :: "eng_exc \<Rightarrow> 'x run" where
  "raiseR e w = Some (Inl e, w)"

definition bindR :: "'x run \<Rightarrow> ('x \<Rightarrow> 'y run) \<Rightarrow> 'y run" where
  "bindR m f w =
     (case m w of
        None \<Rightarrow> None
      | Some (Inl e, w1) \<Rightarrow> Some (Inl e, w1)
      | Some (Inr x, w1) \<Rightarrow> f x w1)"

abbreviation thenR :: "'x run \<Rightarrow> 'y run \<Rightarrow> 'y run" where
  "thenR m k \<equiv> bindR m (\<lambda>_. k)"

definition liftR :: "'x eng \<Rightarrow> 'x run" where
  "liftR m w = (case m (rw_eng w) of (r, s) \<Rightarrow> Some (r, w\<lparr>rw_eng := s\<rparr>))"

definition lift_pure :: "pyexc + 'x \<Rightarrow> 'x run" where
  "lift_pure r = (case r of Inl e \<Rightarrow> raiseR (EPy e) | Inr x \<Rightarrow> retR x)"

fun forR :: "('x \<Rightarrow> unit run) \<Rightarrow> 'x list \<Rightarrow> unit run" where
  "forR f [] = retR ()"
| "forR f (x # xs) = thenR (f x) (forR f xs)"

definition modify_eng :: "(eng_state \<Rightarrow> eng_state) \<Rightarrow> unit run" where
  "modify_eng f w = Some (Inr (), w\<lparr>rw_eng := f (rw_eng w)\<rparr>)"

section \<open>Setting up\<close>

definition alloc_port :: "agent_spec \<Rightarrow> unit run" where
  "alloc_port a w =
     (case allocate (as_port_offset a) (rw_ports w) of
        (p, pa) \<Rightarrow> Some (Inr (), w\<lparr>rw_ports := pa, rl_ports := dict_set (as_id a) p (rl_ports w)\<rparr>))"

fun resolve_manifests ::
  "run_env \<Rightarrow> agent_spec list \<Rightarrow> (string, agent_manifest) dict \<Rightarrow> (string, agent_manifest) dict run" where
  "resolve_manifests re [] acc = retR acc"
| "resolve_manifests re (a # as) acc =
     (case re_registry re of
        Inl (Playground e) \<Rightarrow> raiseR (EPlayground e)
      | Inl (Unhandled e) \<Rightarrow> raiseR (EPy e)
      | Inl (HttpExc _) \<Rightarrow> raiseR (EPy (PyExc OtherError None []))
      | Inr reg \<Rightarrow>
          (case get_agent_manifest (re_by_ref re) reg (as_ref a) of
             Inl e \<Rightarrow> raiseR (EPlayground e)
           | Inr am \<Rightarrow> resolve_manifests re as (dict_set (as_id a) am acc)))"

definition uses_oidc :: "agent_spec list \<Rightarrow> (string, agent_manifest) dict \<Rightarrow> bool" where
  "uses_oidc ags ms \<longleftrightarrow>
     list_ex (\<lambda>a. case dict_get ms (as_id a) of Some am \<Rightarrow> aa_identity_type (am_aitp am) = ''oidc'' | None \<Rightarrow> False) ags"

definition mint_issuer :: "run_env \<Rightarrow> agent_spec list \<Rightarrow> (string, agent_manifest) dict \<Rightarrow> oidc_issuer option run" where
  "mint_issuer re ags ms =
     (if uses_oidc ags ms then
        thenR (liftR (emit_event (re_eng re) ''oidc.issuer_minted''
                 [(''result'', JObj [(''issuer_url'', JStr (oi_issuer_url (re_oidc re))), (''kid'', JStr (oi_kid (re_oidc re)))])]))
          (retR (Some (re_oidc re)))
      else retR None)"

definition placeholder_peers :: "run_env \<Rightarrow> (string, int) dict \<Rightarrow> agent_spec list \<Rightarrow> agent_spec \<Rightarrow> json_dict" where
  "placeholder_peers re ports ags a =
     fold (\<lambda>b d. dict_set (as_id b)
         (JObj [(''manifest_url'', JStr (service_origin (re_settings re) (the (dict_get ports (as_id b))) @ well_known_manifest)),
                (''did'', JNull)]) d)
       (filter (\<lambda>b. as_id b \<noteq> as_id a) ags) []"

text \<open>\<open>build\<close> and \<open>write\<close>; the document of a failed write may stay on disk.\<close>

definition write_bootstrap :: "run_env \<Rightarrow> string \<Rightarrow> json_dict \<Rightarrow> string run" where
  "write_bootstrap re agent_id doc w =
     (let path = bootstrap_path (re_tmpdir re) (rid re) agent_id
      in case re_write re path of
           Written \<Rightarrow> Some (Inr path, w\<lparr>rw_files := dict_set path doc (rw_files w)\<rparr>)
         | WriteFailed left e \<Rightarrow>
             Some (Inl e, if left then w\<lparr>rw_files := dict_set path doc (rw_files w)\<rparr> else w))"

definition keep_file :: "string \<Rightarrow> string \<Rightarrow> unit run" where
  "keep_file agent_id path w = Some (Inr (), w\<lparr>rl_files := dict_set agent_id path (rl_files w)\<rparr>)"

definition look_ports :: "(string, int) dict run" where
  "look_ports w = Some (Inr (rl_ports w), w)"

definition bootstrap_agent ::
  "run_env \<Rightarrow> run_args \<Rightarrow> agent_spec list \<Rightarrow> (string, agent_manifest) dict \<Rightarrow> oidc_issuer option \<Rightarrow> agent_spec \<Rightarrow> unit run" where
  "bootstrap_agent re ar ags ms oidc a =
     bindR look_ports (\<lambda>ports.
       let doc = build (re_build re (as_id a)) (re_settings re) (rid re) a (the (dict_get ms (as_id a)))
                   (the (dict_get ports (as_id a))) (placeholder_peers re ports ags a) (ar_inputs ar) oidc None
                   (Some (se_run_token_budget (re_settings re) div int (max 1 (length ags))))
       in bindR (write_bootstrap re (as_id a) doc) (keep_file (as_id a)))"

definition is_cancelled :: "string \<Rightarrow> run_store \<Rightarrow> bool" where
  "is_cancelled run_id st \<longleftrightarrow> status_in (get_run_record run_id st) = cancelled"

definition check_not_cancelled :: "run_env \<Rightarrow> unit run" where
  "check_not_cancelled re w =
     (if is_cancelled (rid re) (es_store (rw_eng w)) then raiseR ERunCancelled w else retR () w)"

definition launch_agent :: "run_env \<Rightarrow> agent_spec \<Rightarrow> int \<Rightarrow> int \<Rightarrow> running_agent run" where
  "launch_agent re a port ms w =
     (case launch (se_insecure_localhost_dangerous (re_settings re)) (rid re) (as_id a) port
             (Some (be_admin_token (re_build re (as_id a)))) ms None (re_spawn re (as_id a)) (rw_sup w) of
        None \<Rightarrow> None
      | Some (Inl e, sup1) \<Rightarrow> Some (Inl (EPy e), w\<lparr>rw_sup := sup1\<rparr>)
      | Some (Inr ra, sup1) \<Rightarrow> Some (Inr ra, w\<lparr>rw_sup := sup1\<rparr>))"

definition spawn_agent :: "run_env \<Rightarrow> (string, agent_manifest) dict \<Rightarrow> agent_spec \<Rightarrow> unit run" where
  "spawn_agent re ms a =
     thenR (check_not_cancelled re)
     (bindR look_ports (\<lambda>ports.
       let am = the (dict_get ms (as_id a)); port = the (dict_get ports (as_id a));
           path = bootstrap_path (re_tmpdir re) (rid re) (as_id a)
       in bindR (lift_pure (get_adapter (re_adapters re) (am_framework am))) (\<lambda>ad.
          if adapter_validate ad am \<noteq> []
          then raiseR (EPlayground (playground_error (''manifest invalid for '' @ as_id a @ '': ''
                 @ py_repr_json (en_float_text (re_eng re)) (JArr (map JStr (adapter_validate ad am))))))
          else
            thenR (lift_pure (prepare_launch (re_host re) (re_settings re) am path port))
            (thenR (liftR (emit_event (re_eng re) ''agent.spawning'' [(''agent_id'', JStr (as_id a)), (''port'', JInt port)]))
            (bindR (lift_pure (case dict_get (am_host am) ''startupTimeoutMs'' of Some v \<Rightarrow> py_int v | None \<Rightarrow> Inr 30000)) (\<lambda>ms.
             bindR (launch_agent re a port ms) (\<lambda>ra.
               thenR (modify_eng (\<lambda>s. s\<lparr>es_running := dict_set (as_id a) ra (es_running s)\<rparr>))
                 (liftR (emit_event (re_eng re) ''agent.ready''
                    [(''agent_id'', JStr (as_id a)), (''aid'', JStr (ra_aid ra)), (''port'', JInt (ra_port ra))])))))))))"

section \<open>The body of the run\<close>

definition run_steps :: "run_env \<Rightarrow> run_args \<Rightarrow> scenario_version \<Rightarrow> (string, agent_manifest) dict \<Rightarrow> unit eng" where
  "run_steps re ar sc ms =
     (let env = re_eng re
      in thenM (push_trusted_peers env)
         (bindM (look es_running) (\<lambda>running. bindM (resolve_peers env sc running) (\<lambda>peers.
           let sx = \<lparr>sx_scenario = sc, sx_peers = peers, sx_manifests = ms, sx_inputs = ar_inputs ar\<rparr>
           in thenM (emit_event env ''trust.peers_resolved''
                  [(''peers'', JObj (map (\<lambda>(a, p). (a, get_json p ''manifest_url'')) peers))])
              (thenM (if ts_eager (sp_trust (sv_spec sc)) then establish_pairwise_trust env sx else ret ())
                 (forM (dispatch_step env sx) (sp_steps (sv_spec sc))))))))"

definition run_body :: "run_env \<Rightarrow> run_args \<Rightarrow> scenario_version \<Rightarrow> unit run" where
  "run_body re ar sc =
     (let ags = sp_agents (sv_spec sc)
      in thenR (forR alloc_port ags)
         (bindR (resolve_manifests re ags []) (\<lambda>ms.
          bindR (mint_issuer re ags ms) (\<lambda>oidc.
            thenR (forR (bootstrap_agent re ar ags ms oidc) ags)
            (thenR (forR (spawn_agent re ms) ags)
              (liftR (run_steps re ar sc ms)))))))"

section \<open>Ending\<close>

definition cleanup_run :: "run_env \<Rightarrow> run_world \<Rightarrow> run_world" where
  "cleanup_run re w =
     w\<lparr>rw_sup := kill_run (re_os re) (rid re) (rw_sup w),
       rw_ports := fold release (map snd (rl_ports w)) (rw_ports w),
       rw_files := fold dict_del (map snd (rl_files w)) (rw_files w)\<rparr>"

definition put_run :: "run_env \<Rightarrow> json_dict \<Rightarrow> run_world \<Rightarrow> run_world" where
  "put_run re record0 w =
     (let s = rw_eng w
      in w\<lparr>rw_eng := s\<lparr>es_store := upsert (rid re) record0 (en_clk (re_eng re) (es_ticks s)) (es_store s),
                        es_ticks := es_ticks s + 1\<rparr>\<rparr>)"

definition put_run_unless_cancelled :: "run_env \<Rightarrow> json_dict \<Rightarrow> run_world \<Rightarrow> bool \<times> run_world" where
  "put_run_unless_cancelled re record0 w =
     (let s = rw_eng w
      in case upsert_unless_cancelled (rid re) record0 (en_clk (re_eng re) (es_ticks s)) (es_store s) of
           (written, st) \<Rightarrow> (written, w\<lparr>rw_eng := s\<lparr>es_store := st, es_ticks := es_ticks s + 1\<rparr>\<rparr>))"

definition finalize_failure :: "run_env \<Rightarrow> string \<Rightarrow> run_result run" where
  "finalize_failure re err w0 =
     (let w = w0\<lparr>rw_teardowns := rw_teardowns w0 @ [rid re]\<rparr>;
          events = es_events (rw_eng w)
      in if is_cancelled (rid re) (es_store (rw_eng w))
         then Some (Inr \<lparr>rr_run_id = rid re, rr_status = ''cancelled'', rr_outputs = [], rr_events = events, rr_error = Some err\<rparr>, w)
         else Some (Inr \<lparr>rr_run_id = rid re, rr_status = ''failed'', rr_outputs = [], rr_events = events, rr_error = Some err\<rparr>,
                    put_run re [(''run_id'', JStr (rid re)), (''status'', JStr ''failed''), (''outputs'', JObj []), (''error'', JStr err)] w))"

text \<open>\<open>run.failed\<close>, unless a cancel already ended the run for its caller.\<close>

definition emit_failed :: "run_env \<Rightarrow> json \<Rightarrow> string \<Rightarrow> unit run" where
  "emit_failed re code err w =
     (if is_cancelled (rid re) (es_store (rw_eng w)) then retR () w
      else liftR (emit_event (re_eng re) ''run.failed'' [(''code'', code), (''error'', JStr err)]) w)"

definition refuse_run :: "run_env \<Rightarrow> playground_error \<Rightarrow> run_result run" where
  "refuse_run re e = thenR (emit_failed re (JStr (pe_code e)) (pe_message e)) (finalize_failure re (pe_message e))"

definition fail_run :: "run_env \<Rightarrow> eng_exc \<Rightarrow> run_result run" where
  "fail_run re e =
     (let err = en_exc_text (re_eng re) e
      in thenR (emit_failed re (case e of EPlayground p \<Rightarrow> JStr (pe_code p) | _ \<Rightarrow> JNull) err)
           (\<lambda>w. finalize_failure re err (cleanup_run re w)))"

definition complete_run :: "run_env \<Rightarrow> run_args \<Rightarrow> run_result run" where
  "complete_run re ar w =
     (let outputs = es_outputs (rw_eng w)
      in case put_run_unless_cancelled re
                [(''run_id'', JStr (rid re)), (''status'', JStr ''success''), (''scenario_ref'', JStr (ar_scenario_ref ar)),
                 (''outputs'', JObj outputs), (''error'', JNull)] w of
           (completed, w1) \<Rightarrow>
             bindR (if completed then liftR (emit_event (re_eng re) ''run.complete'' []) else retR ()) (\<lambda>_ w2.
               let own = map JObj (es_events (rw_eng w2));
                   stored = events_in (get_run_record (rid re) (es_store (rw_eng w2)))
               in Some (Inr \<lparr>rr_run_id = rid re, rr_status = (if completed then ''success'' else ''cancelled''),
                            rr_outputs = outputs, rr_events = es_events (rw_eng w2), rr_error = None\<rparr>,
                        w2\<lparr>rw_ingests := rw_ingests w2 @ [if stored = [] then own else stored],
                           rw_teardowns := rw_teardowns w2 @ [rid re]\<rparr>)) w1)"

section \<open>The whole run\<close>

definition load_scenario :: "run_env \<Rightarrow> run_args \<Rightarrow> api_exc + scenario_version" where
  "load_scenario re ar =
     bindE (re_registry re) (\<lambda>reg. get_scenario_resolved (re_trust_validate re) reg (ar_scenario_ref ar) (ar_template ar))"

text \<open>The \<open>try\<close> block with its handler and its \<open>finally\<close>.\<close>

definition guarded_body :: "run_env \<Rightarrow> run_args \<Rightarrow> scenario_version \<Rightarrow> run_result run" where
  "guarded_body re ar sc w =
     (case run_body re ar sc (w\<lparr>rl_ports := [], rl_files := []\<rparr>) of
        None \<Rightarrow> None
      | Some (Inl e, w1) \<Rightarrow> map_option (apsnd (cleanup_run re)) (fail_run re e w1)
      | Some (Inr _, w1) \<Rightarrow> complete_run re ar (cleanup_run re w1))"

definition started_run :: "run_env \<Rightarrow> run_args \<Rightarrow> scenario_version \<Rightarrow> run_result run" where
  "started_run re ar sc =
     thenR (liftR (emit_event (re_eng re) ''run.started''
              [(''scenario_ref'', JStr (ar_scenario_ref ar)), (''template'', jstr_opt (ar_template ar))]))
       (let schema = sp_inputs_schema (sv_spec sc)
        in case (if schema = [] then SchemaOk else re_schema re (ar_inputs ar) schema) of
             SchemaOk \<Rightarrow> guarded_body re ar sc
           | SchemaInvalid msg \<Rightarrow>
               thenR (liftR (emit_event (re_eng re) ''run.failed''
                        [(''code'', JStr ''inputs_invalid''), (''error'', JStr (''inputs validation: '' @ msg))]))
                 (finalize_failure re (''inputs validation: '' @ msg))
           | SchemaRaises e \<Rightarrow> raiseR (EPy e))"

definition execute_run :: "run_env \<Rightarrow> run_args \<Rightarrow> run_result run" where
  "execute_run re ar w =
     (case load_scenario re ar of
        Inl (Playground e) \<Rightarrow> refuse_run re e w
      | Inl (Unhandled e) \<Rightarrow> raiseR (EPy e) w
      | Inl (HttpExc _) \<Rightarrow> raiseR (EPy (PyExc OtherError None [])) w
      | Inr sc \<Rightarrow>
          (let missing = missing_sdk_features (map (\<lambda>st. case ws_type st of Some t \<Rightarrow> t | None \<Rightarrow> []) (sp_steps (sv_spec sc))) (re_capabilities re)
           in if missing \<noteq> []
              then refuse_run re (sdk_feature_unavailable_error (ar_scenario_ref ar) missing (cap_version (re_capabilities re))) w
              else if is_cancelled (rid re) (es_store (rw_eng w)) then finalize_failure re ''cancelled before start'' w
              else started_run re ar sc w))"

text \<open>The run's context is new: no events, no outputs, no agents.\<close>

definition new_context :: "run_world \<Rightarrow> run_world" where
  "new_context w = w\<lparr>rw_eng := (rw_eng w)\<lparr>es_events := [], es_outputs := [], es_running := []\<rparr>\<rparr>"

definition run_scenario :: "run_env \<Rightarrow> run_args \<Rightarrow> run_result run" where
  "run_scenario re ar w =
     (case put_run_unless_cancelled re
             [(''run_id'', JStr (rid re)), (''status'', JStr ''running''), (''scenario_ref'', JStr (ar_scenario_ref ar)),
              (''run_label'', jstr_opt (ar_run_label ar)), (''outputs'', JObj []), (''events'', JArr []), (''error'', JNull)] (new_context w) of
        (False, w1) \<Rightarrow>
          Some (Inr \<lparr>rr_run_id = rid re, rr_status = ''cancelled'', rr_outputs = [], rr_events = [], rr_error = None\<rparr>, w1)
      | (True, w1) \<Rightarrow> execute_run re ar w1)"

end
