(* ===== verification/Run_Logic.thy ===== *)
theory Run_Logic
  imports Run_Lifecycle
begin

text \<open>
  What a whole run does. The locale \<open>run_effects\<close> states what a relation between the worlds
  before and after must satisfy to be kept by every computation of the run's body; it is
  interpreted with the relation of the resources (ports, processes, files) and with the relation
  of the run log. From the two: every run releases what it took
  (\<open>run_releases_resources\<close>), and a run that nobody cancels ends in exactly one terminal
  event that agrees with its record (\<open>run_ends_once\<close>); it returns whenever the agents it
  launches become ready or fail (\<open>run_returns\<close>). A run that an exception other than the
  playground's own leaves before its \<open>try\<close> stays \<open>running\<close> (\<open>run_stranded\<close>).
\<close>

section \<open>Relations kept by the body of a run\<close>

lemma bindR_Some:
  "bindR m f w = Some (r, w') \<longleftrightarrow>
     (\<exists>e. m w = Some (Inl e, w') \<and> r = Inl e) \<or> (\<exists>x w1. m w = Some (Inr x, w1) \<and> f x w1 = Some (r, w'))"
  by (auto simp: bindR_def split: option.splits sum.splits prod.splits)

lemma run_simps [simp]:
  "retR x w = Some (Inr x, w)" "raiseR e w = Some (Inl e, w)"
  "lift_pure (Inl p) = raiseR (EPy p)" "lift_pure (Inr x) = retR x"
  by (simp_all add: retR_def raiseR_def lift_pure_def)

lemma new_step_events [intro!, simp]:
  "step_event ''oidc.issuer_minted''" "step_event ''agent.spawning''" "step_event ''agent.ready''"
  "step_event ''trust.peers_resolved''"
  by (simp_all add: step_event_def)

context step_effects
begin

lemma keeps_did_web [intro!]: "keeps (resolve_did_web env did)"
  unfolding resolve_did_web_def by blast

lemma keeps_peer_did_web [intro!]: "keeps (peer_did_web env host u)"
  using keepsD [OF keeps_did_web]
  by (auto simp: keeps_def peer_did_web_def Let_def split: prod.split sum.split) (metis snd_conv)+

lemma keeps_resolve_peers [intro!]: "keeps (resolve_peer env sc running ag)" "keeps (resolve_peers env sc running)"
proof -
  show one: "keeps (resolve_peer env sc running ag)" for ag
    unfolding resolve_peer_def peer_from_cp_def by blast
  have "keeps (resolve_each env sc running ags peers)" for ags peers
    by (induction ags arbitrary: peers; simp only: resolve_each.simps; blast intro: one)
  then show "keeps (resolve_peers env sc running)" unfolding resolve_peers_def .
qed

lemma keeps_run_steps [intro!]:
  assumes "env = re_eng re"
  shows "keeps (run_steps re ar sc ms)"
  unfolding run_steps_def Let_def assms [symmetric] by blast

end

locale run_effects =
  fixes re :: run_env
    and R :: "run_world \<Rightarrow> run_world \<Rightarrow> bool"
  assumes R_refl: "R w w"
    and R_trans: "R w1 w2 \<Longrightarrow> R w2 w3 \<Longrightarrow> R w1 w3"
    and R_eng: "log_rel (re_eng re) (rw_eng w) s \<Longrightarrow> R w (w\<lparr>rw_eng := s\<rparr>)"
    and R_file: "re_write re (bootstrap_path (re_tmpdir re) (rid re) a) = Written \<Longrightarrow>
          R w (w\<lparr>rw_files := dict_set (bootstrap_path (re_tmpdir re) (rid re) a) doc (rw_files w),
                 rl_files := dict_set a (bootstrap_path (re_tmpdir re) (rid re) a) (rl_files w)\<rparr>)"
    and R_left: "re_write re (bootstrap_path (re_tmpdir re) (rid re) a) = WriteFailed True e \<Longrightarrow>
          R w (w\<lparr>rw_files := dict_set (bootstrap_path (re_tmpdir re) (rid re) a) doc (rw_files w)\<rparr>)"
    and R_launch: "launch insecure (rid re) a port tok ms lo sp (rw_sup w) = Some (r, sup1) \<Longrightarrow> R w (w\<lparr>rw_sup := sup1\<rparr>)"
begin

definition keeps :: "'x run \<Rightarrow> bool" where
  "keeps m \<longleftrightarrow> (\<forall>w r w'. m w = Some (r, w') \<longrightarrow> R w w')"

lemma keepsI: "(\<And>w r w'. m w = Some (r, w') \<Longrightarrow> R w w') \<Longrightarrow> keeps m"
  by (auto simp: keeps_def)

lemma keepsD: "keeps m \<Longrightarrow> m w = Some (r, w') \<Longrightarrow> R w w'"
  by (auto simp: keeps_def)

lemma keeps_ret [intro!]: "keeps (retR x)"
  by (simp add: keeps_def R_refl)

lemma keeps_raise [intro!]: "keeps (raiseR e)"
  by (simp add: keeps_def R_refl)

lemma keeps_bind [intro!]: "keeps m \<Longrightarrow> (\<And>x. keeps (f x)) \<Longrightarrow> keeps (bindR m f)"
  by (rule keepsI) (auto simp: bindR_Some dest: keepsD intro: R_trans)

lemma keeps_pure [intro!]: "keeps (lift_pure r)"
  by (cases r) (simp_all only: lift_pure_def sum.case keeps_ret keeps_raise)

lemma keeps_if [intro!]: "keeps a \<Longrightarrow> keeps b \<Longrightarrow> keeps (if c then a else b)"
  by simp

lemma keeps_let [intro!]: "(\<And>x. keeps (f x)) \<Longrightarrow> keeps (let x = v in f x)"
  by (simp add: Let_def)

lemma keeps_lift [intro!]:
  assumes "run_log_steps.keeps (re_eng re) m"
  shows "keeps (liftR m)"
proof (rule keepsI)
  fix w r w'
  assume "liftR m w = Some (r, w')"
  then have "w' = w\<lparr>rw_eng := snd (m (rw_eng w))\<rparr>" by (auto simp: liftR_def split: prod.splits)
  with R_eng [OF run_log_steps.keepsD [OF assms]] show "R w w'" by simp
qed

lemma keeps_for [intro!]: "(\<And>x. keeps (f x)) \<Longrightarrow> keeps (forR f xs)"
  by (induction xs; simp only: forR.simps; blast)

lemma keeps_look [intro!]: "keeps look_ports"
  by (simp add: keeps_def look_ports_def R_refl)

lemma keeps_check [intro!]: "keeps (check_not_cancelled re)"
  by (simp add: keeps_def check_not_cancelled_def R_refl)

lemma keeps_running [intro!]: "keeps (modify_eng (\<lambda>s. s\<lparr>es_running := dict_set a ra (es_running s)\<rparr>))"
  by (rule keepsI) (auto simp: modify_eng_def log_rel_same_log intro!: R_eng)

lemma keeps_manifests [intro!]: "keeps (resolve_manifests re ags acc)"
  by (induction ags arbitrary: acc)
    (auto simp only: resolve_manifests.simps split: sum.split api_exc.split)

lemma keeps_mint [intro!]: "keeps (mint_issuer re ags ms)"
  unfolding mint_issuer_def by blast

lemma keeps_write [intro!]: "keeps (bindR (write_bootstrap re a doc) (keep_file a))"
  by (rule keepsI)
    (auto simp: bindR_Some write_bootstrap_def keep_file_def R_refl Let_def split: write_outcome.splits if_splits
      intro: R_left dest: R_file)

lemma keeps_bootstrap [intro!]: "keeps (bootstrap_agent re ar ags ms oidc a)"
  unfolding bootstrap_agent_def by blast

lemma keeps_launch [intro!]: "keeps (launch_agent re a port ms)"
  by (rule keepsI) (auto simp: launch_agent_def split: option.splits sum.splits prod.splits intro: R_launch)

lemma keeps_spawn [intro!]: "keeps (spawn_agent re ms a)"
  unfolding spawn_agent_def by blast

lemma keeps_after_alloc [intro!]:
  "keeps (bindR (resolve_manifests re ags []) (\<lambda>ms. bindR (mint_issuer re ags ms) (\<lambda>oidc.
      thenR (forR (bootstrap_agent re ar ags ms oidc) ags)
        (thenR (forR (spawn_agent re ms) ags) (liftR (run_steps re ar sc ms))))))"
  by blast

end

section \<open>Allocating\<close>

text \<open>What the run holds: the ports in its table, none of them taken before.\<close>

definition holds_ports :: "run_world \<Rightarrow> run_world \<Rightarrow> bool" where
  "holds_ports w0 w \<longleftrightarrow>
     ports_inv (rw_ports w) \<and> wf_dict (rl_ports w)
     \<and> pa_in_use (rw_ports w) = pa_in_use (rw_ports w0) \<union> set (map snd (rl_ports w))
     \<and> set (map snd (rl_ports w)) \<inter> pa_in_use (rw_ports w0) = {}"

lemma alloc_port_ok:
  assumes "holds_ports w0 w" "as_id a \<notin> set (dict_keys (rl_ports w))"
  shows "\<exists>w'. alloc_port a w = Some (Inr (), w') \<and> holds_ports w0 w' \<and> dict_keys (rl_ports w') = dict_keys (rl_ports w) @ [as_id a]
    \<and> w' = w\<lparr>rw_ports := rw_ports w', rl_ports := rl_ports w'\<rparr>"
proof -
  obtain p pa where al: "allocate (as_port_offset a) (rw_ports w) = (p, pa)" by fastforce
  have inv: "ports_inv (rw_ports w)" using assms(1) by (simp add: holds_ports_def)
  have p: "p \<notin> pa_in_use (rw_ports w) \<and> pa_in_use pa = insert p (pa_in_use (rw_ports w))"
    using inv by (cases rule: allocate_cases [OF inv al]) (auto simp: ports_inv_def)
  have "ports_inv pa" using allocate_inv [OF inv, of "as_port_offset a"] al by simp
  moreover have "dict_set (as_id a) p (rl_ports w) = rl_ports w @ [(as_id a, p)]"
    by (rule dict_set_new) (use assms(2) in \<open>simp add: map_of_eq_None_iff\<close>)
  ultimately show ?thesis using assms al p
    by (auto simp: alloc_port_def holds_ports_def)
qed

lemma alloc_ports_ok:
  "holds_ports w0 w \<Longrightarrow> distinct (dict_keys (rl_ports w) @ map as_id ags) \<Longrightarrow>
   \<exists>w'. forR alloc_port ags w = Some (Inr (), w') \<and> holds_ports w0 w' \<and> w' = w\<lparr>rw_ports := rw_ports w', rl_ports := rl_ports w'\<rparr>"
proof (induction ags arbitrary: w)
  case (Cons a ags)
  then obtain w1 where w1: "alloc_port a w = Some (Inr (), w1)" "holds_ports w0 w1"
    "dict_keys (rl_ports w1) = dict_keys (rl_ports w) @ [as_id a]" "w1 = w\<lparr>rw_ports := rw_ports w1, rl_ports := rl_ports w1\<rparr>"
    using alloc_port_ok [of w0 w a] by auto
  with Cons.IH [of w1] Cons.prems(2) obtain w' where w': "forR alloc_port ags w1 = Some (Inr (), w')" "holds_ports w0 w'"
    "w' = w1\<lparr>rw_ports := rw_ports w', rl_ports := rl_ports w'\<rparr>" by auto
  have "w' = w\<lparr>rw_ports := rw_ports w', rl_ports := rl_ports w'\<rparr>"
    by (subst w'(3), subst w1(4)) simp
  with w1(1) w'(1,2) show ?case by (auto simp: bindR_def)
qed simp

section \<open>Resources\<close>

definition file_of :: "run_env \<Rightarrow> string \<Rightarrow> string" where
  "file_of re a = bootstrap_path (re_tmpdir re) (rid re) a"

definition files_named :: "run_env \<Rightarrow> run_world \<Rightarrow> bool" where
  "files_named re w \<longleftrightarrow> (\<forall>(a, p) \<in> set (rl_files w). p = file_of re a)"

text \<open>The files the run has not accounted for.\<close>

definition stray_files :: "run_world \<Rightarrow> string set" where
  "stray_files w = set (dict_keys (rw_files w)) - set (map snd (rl_files w))"

definition resources_rel :: "run_env \<Rightarrow> run_world \<Rightarrow> run_world \<Rightarrow> bool" where
  "resources_rel re w w' \<longleftrightarrow>
     rw_ports w' = rw_ports w \<and> rl_ports w' = rl_ports w
     \<and> (\<forall>key. \<not> of_run (rid re) key \<longrightarrow> dict_get (sv_processes (rw_sup w')) key = dict_get (sv_processes (rw_sup w)) key)
     \<and> (files_named re w \<and> (\<forall>p e. re_write re p \<noteq> WriteFailed True e) \<longrightarrow> files_named re w' \<and> stray_files w' \<subseteq> stray_files w)"

lemma set_dict_set: "set (dict_set k v d) \<subseteq> insert (k, v) (set d)"
  by (induction d) auto

lemma dict_set_mem: "(k, v) \<in> set (dict_set k v d)"
  by (induction d) auto

lemma dict_set_keeps: "(k', v') \<in> set d \<Longrightarrow> k' \<noteq> k \<Longrightarrow> (k', v') \<in> set (dict_set k v d)"
  by (induction d) auto

lemma insert_minus_subset: "A \<subseteq> B \<Longrightarrow> f \<in> B \<Longrightarrow> insert f K - B \<subseteq> K - A"
  by blast

lemma file_tracked:
  assumes "files_named re w"
    and w'_def: "w' = w\<lparr>rw_files := dict_set (file_of re a) doc (rw_files w), rl_files := dict_set a (file_of re a) (rl_files w)\<rparr>"
  shows "files_named re w' \<and> stray_files w' \<subseteq> stray_files w"
proof
  show "files_named re w'"
    using assms set_dict_set [of a "file_of re a" "rl_files w"] by (auto simp: files_named_def)
  have sub: "set (map snd (rl_files w)) \<subseteq> set (map snd (rl_files w'))"
  proof
    fix p assume "p \<in> set (map snd (rl_files w))"
    then obtain b where b: "(b, p) \<in> set (rl_files w)" by auto
    with assms(1) have "p = file_of re b" by (auto simp: files_named_def)
    with b have "(b, p) \<in> set (rl_files w')"
      using dict_set_mem [of a "file_of re a" "rl_files w"] dict_set_keeps [OF b, of a "file_of re a"]
      by (cases "b = a") (auto simp: w'_def)
    then show "p \<in> set (map snd (rl_files w'))" by force
  qed
  have mem: "file_of re a \<in> set (map snd (rl_files w'))"
    using dict_set_mem [of a "file_of re a" "rl_files w"] by (force simp: w'_def)
  have "set (dict_keys (rw_files w')) = insert (file_of re a) (set (dict_keys (rw_files w)))"
    using dict_keys_set [of "file_of re a" doc "rw_files w"] by (simp add: w'_def)
  then show "stray_files w' \<subseteq> stray_files w"
    unfolding stray_files_def using insert_minus_subset [OF sub mem] by (simp only:)
qed

lemma resources_rel_trans:
  assumes "resources_rel re w1 w2" "resources_rel re w2 w3"
  shows "resources_rel re w1 w3"
proof -
  have "files_named re w1 \<and> (\<forall>p e. re_write re p \<noteq> WriteFailed True e) \<longrightarrow> files_named re w3 \<and> stray_files w3 \<subseteq> stray_files w1"
    using assms unfolding resources_rel_def by (meson subset_trans)
  with assms show ?thesis unfolding resources_rel_def by simp
qed

lemma launch_other_processes:
  assumes "launch insecure run_id a port tok ms lo sp s = Some (r, s')" "\<not> of_run run_id key"
  shows "dict_get (sv_processes s') key = dict_get (sv_processes s) key"
proof -
  have "key \<noteq> agent_key run_id a" using assms(2) by (auto simp: agent_key_def starts_with_iff)
  with assms(1) show ?thesis
    by (auto simp: launch_def start_process_def Let_def split: list.splits sum.splits option.splits startup.splits prod.splits)
qed

interpretation resources: run_effects re "resources_rel re" for re
proof
  fix w :: run_world and a doc
  show "resources_rel re w (w\<lparr>rw_files := dict_set (bootstrap_path (re_tmpdir re) (rid re) a) doc (rw_files w),
          rl_files := dict_set a (bootstrap_path (re_tmpdir re) (rid re) a) (rl_files w)\<rparr>)"
    using file_tracked [of re w _ a doc, OF _ refl] by (simp add: resources_rel_def file_of_def)
next
  fix w :: run_world and a doc e
  assume "re_write re (bootstrap_path (re_tmpdir re) (rid re) a) = WriteFailed True e"
  then show "resources_rel re w (w\<lparr>rw_files := dict_set (bootstrap_path (re_tmpdir re) (rid re) a) doc (rw_files w)\<rparr>)"
    by (auto simp: resources_rel_def)
next
  fix insecure a port tok ms lo sp r sup1 and w :: run_world
  assume "launch insecure (rid re) a port tok ms lo sp (rw_sup w) = Some (r, sup1)"
  from launch_other_processes [OF this] show "resources_rel re w (w\<lparr>rw_sup := sup1\<rparr>)"
    by (simp add: resources_rel_def files_named_def stray_files_def)
qed (simp add: resources_rel_def, rule resources_rel_trans, assumption+,
    simp add: resources_rel_def files_named_def stray_files_def)

section \<open>Cleaning up\<close>

lemma fold_release: "pa_in_use (fold release ps a) = pa_in_use a - set ps"
  by (induction ps arbitrary: a) (auto simp: release_def)

lemma fold_release_inv: "ports_inv a \<Longrightarrow> ports_inv (fold release ps a)"
  by (induction ps arbitrary: a) (auto simp: release_inv)

lemma dict_del_keys: "set (dict_keys (dict_del k d)) = set (dict_keys d) - {k}"
  by (induction d) auto

lemma fold_del_keys: "set (dict_keys (fold dict_del ps d)) = set (dict_keys d) - set ps"
proof (induction ps arbitrary: d)
  case (Cons p ps)
  from this [of "dict_del p d"] show ?case using dict_del_keys [of p d] by auto
qed simp

text \<open>Released: the ports and files are those of \<open>w0\<close>, and no process of the run is left.\<close>

definition released :: "run_env \<Rightarrow> run_world \<Rightarrow> run_world \<Rightarrow> bool" where
  "released re w0 w \<longleftrightarrow>
     ports_inv (rw_ports w) \<and> pa_in_use (rw_ports w) = pa_in_use (rw_ports w0)
     \<and> set (dict_keys (rw_files w)) \<subseteq> set (dict_keys (rw_files w0))
     \<and> (\<forall>key. dict_get (sv_processes (rw_sup w)) key =
          (if of_run (rid re) key then None else dict_get (sv_processes (rw_sup w0)) key))"

lemma cleanup_releases:
  assumes "holds_ports w0 w" "stray_files w \<subseteq> set (dict_keys (rw_files w0))" "CHR '':'' \<notin> set (rid re)"
    and "\<forall>key. \<not> of_run (rid re) key \<longrightarrow> dict_get (sv_processes (rw_sup w)) key = dict_get (sv_processes (rw_sup w0)) key"
  shows "released re w0 (cleanup_run re w)"
proof -
  have "set (dict_keys (rw_files (cleanup_run re w))) = stray_files w"
    unfolding stray_files_def by (simp add: cleanup_run_def fold_del_keys del: fold_map set_map)
  with assms show ?thesis
    unfolding released_def holds_ports_def
    by (simp add: cleanup_run_def fold_release fold_release_inv kill_run_processes del: fold_map) auto
qed

lemma cleanup_again:
  assumes "released re w0 w" "set (map snd (rl_ports w)) \<inter> pa_in_use (rw_ports w0) = {}" "CHR '':'' \<notin> set (rid re)"
  shows "released re w0 (cleanup_run re w)"
proof -
  have "set (dict_keys (rw_files (cleanup_run re w))) \<subseteq> set (dict_keys (rw_files w))"
    using fold_del_keys [of "map snd (rl_files w)" "rw_files w"] by (simp add: cleanup_run_def del: fold_map)
  then have "set (dict_keys (rw_files (cleanup_run re w))) \<subseteq> set (dict_keys (rw_files w0))"
    using assms(1) unfolding released_def by (meson subset_trans)
  with assms show ?thesis unfolding released_def
    by (simp add: cleanup_run_def fold_release fold_release_inv kill_run_processes del: fold_map) auto
qed

text \<open>Only the engine's part of the world and the background requests differ.\<close>

definition same_resources :: "run_world \<Rightarrow> run_world \<Rightarrow> bool" where
  "same_resources w w' \<longleftrightarrow>
     rw_ports w' = rw_ports w \<and> rw_sup w' = rw_sup w \<and> rw_files w' = rw_files w \<and> rl_ports w' = rl_ports w
     \<and> rl_files w' = rl_files w"

lemma liftR_same: "liftR m w = Some (r, w') \<Longrightarrow> same_resources w w'"
  by (auto simp: liftR_def same_resources_def split: prod.splits)

lemma emit_failed_same: "emit_failed re c err w = Some (r, w') \<Longrightarrow> same_resources w w'"
  by (auto simp: emit_failed_def dest: liftR_same split: if_splits) (simp add: same_resources_def)

lemma finalize_same: "finalize_failure re err w = Some (r, w') \<Longrightarrow> same_resources w w'"
  by (auto simp: finalize_failure_def put_run_def same_resources_def Let_def split: if_splits)

lemma same_trans: "same_resources w1 w2 \<Longrightarrow> same_resources w2 w3 \<Longrightarrow> same_resources w1 w3"
  by (simp add: same_resources_def)

lemma refuse_same: "refuse_run re e w = Some (r, w') \<Longrightarrow> same_resources w w'"
  by (auto simp: refuse_run_def bindR_Some dest: emit_failed_same finalize_same intro: same_trans)

lemma put_unless_same: "put_run_unless_cancelled re r w = (b, w') \<Longrightarrow> same_resources w w'"
  by (auto simp: put_run_unless_cancelled_def same_resources_def Let_def split: prod.splits)

lemma complete_same: "complete_run re ar w = Some (r, w') \<Longrightarrow> same_resources w w'"
  unfolding complete_run_def Let_def
  by (auto simp: bindR_Some split: prod.splits if_splits dest!: put_unless_same dest: liftR_same)
    (auto simp: same_resources_def dest!: liftR_same)

lemma released_same: "released re w0 w \<Longrightarrow> same_resources w w' \<Longrightarrow> released re w0 w'"
  by (simp add: released_def same_resources_def)

lemma body_resources:
  assumes "run_body re ar sc (w\<lparr>rl_ports := [], rl_files := []\<rparr>) = Some (r, w1)" "ports_inv (rw_ports w)"
    and "distinct (map as_id (sp_agents (sv_spec sc)))" "\<forall>p e. re_write re p \<noteq> WriteFailed True e"
  shows "holds_ports w w1 \<and> stray_files w1 \<subseteq> set (dict_keys (rw_files w))
    \<and> (\<forall>key. \<not> of_run (rid re) key \<longrightarrow> dict_get (sv_processes (rw_sup w1)) key = dict_get (sv_processes (rw_sup w)) key)"
proof -
  let ?w = "w\<lparr>rl_ports := [], rl_files := []\<rparr>" and ?ags = "sp_agents (sv_spec sc)"
  have "holds_ports w ?w" using assms(2) by (simp add: holds_ports_def)
  from alloc_ports_ok [OF this, of ?ags] assms(3) obtain wa where
    wa: "forR alloc_port ?ags ?w = Some (Inr (), wa)" "holds_ports w wa" "wa = ?w\<lparr>rw_ports := rw_ports wa, rl_ports := rl_ports wa\<rparr>"
    by auto
  from assms(1) wa(1) have "resources_rel re wa w1"
    by (auto simp: run_body_def bindR_def [of "forR alloc_port ?ags"] Let_def
        dest!: resources.keepsD [OF resources.keeps_after_alloc])
  moreover have "files_named re wa" "stray_files wa = set (dict_keys (rw_files w))" "rw_sup wa = rw_sup w"
    by (subst wa(3), simp add: files_named_def stray_files_def)+
  ultimately show ?thesis using wa(2) assms(4) unfolding resources_rel_def holds_ports_def by simp
qed

lemma guarded_releases:
  assumes "guarded_body re ar sc w = Some (r, w')" "ports_inv (rw_ports w)" "CHR '':'' \<notin> set (rid re)"
    and "distinct (map as_id (sp_agents (sv_spec sc)))" "\<forall>p e. re_write re p \<noteq> WriteFailed True e"
  shows "released re w w'"
proof -
  from assms(1) obtain b w1 where b: "run_body re ar sc (w\<lparr>rl_ports := [], rl_files := []\<rparr>) = Some (b, w1)"
    by (auto simp: guarded_body_def split: option.splits)
  note res = body_resources [OF b assms(2,4,5)]
  then have disj: "set (map snd (rl_ports w1)) \<inter> pa_in_use (rw_ports w) = {}" by (simp add: holds_ports_def)
  have clean: "released re w (cleanup_run re w2)" if "same_resources w1 w2" for w2
  proof (rule cleanup_releases [OF _ _ assms(3)])
    show "holds_ports w w2" "stray_files w2 \<subseteq> set (dict_keys (rw_files w))"
      using res that by (simp_all add: holds_ports_def stray_files_def same_resources_def)
    show "\<forall>key. \<not> of_run (rid re) key \<longrightarrow> dict_get (sv_processes (rw_sup w2)) key = dict_get (sv_processes (rw_sup w)) key"
      using res that by (simp add: same_resources_def)
  qed
  show ?thesis
  proof (cases b)
    case (Inr u)
    with assms(1) b have "complete_run re ar (cleanup_run re w1) = Some (r, w')" by (simp add: guarded_body_def)
    from complete_same [OF this] show ?thesis
      using clean [of w1] released_same by (simp add: same_resources_def)
  next
    case (Inl e)
    with assms(1) b obtain w3 where w3: "fail_run re e w1 = Some (r, w3)" "w' = cleanup_run re w3"
      by (auto simp: guarded_body_def)
    have ports: "rl_ports (cleanup_run re w2) = rl_ports w2" for w2 by (simp add: cleanup_run_def)
    from w3(1) obtain w2 where w2: "same_resources w1 w2" "w3 = w2 \<or> same_resources (cleanup_run re w2) w3"
      by (auto simp: fail_run_def bindR_Some Let_def dest!: emit_failed_same finalize_same)
    from w2(2) show ?thesis
    proof
      assume "w3 = w2"
      with clean [OF w2(1)] w3(2) show ?thesis by simp
    next
      assume same: "same_resources (cleanup_run re w2) w3"
      have "released re w w3" by (rule released_same [OF clean [OF w2(1)] same])
      moreover have "set (map snd (rl_ports w3)) \<inter> pa_in_use (rw_ports w) = {}"
        using disj same w2(1) ports by (simp add: same_resources_def)
      ultimately show ?thesis unfolding w3(2) by (rule cleanup_again [OF _ _ assms(3)])
    qed
  qed
qed

lemma started_releases:
  assumes "started_run re ar sc w = Some (r, w')" "ports_inv (rw_ports w)" "CHR '':'' \<notin> set (rid re)"
    and "distinct (map as_id (sp_agents (sv_spec sc)))" "\<forall>p e. re_write re p \<noteq> WriteFailed True e"
  shows "same_resources w w' \<or> released re w w'"
proof -
  from assms(1) consider "same_resources w w'"
    | w1 where "same_resources w w1" "guarded_body re ar sc w1 = Some (r, w')"
    by (auto simp: started_run_def bindR_Some Let_def split: if_splits schema_outcome.splits
        dest!: liftR_same finalize_same intro: same_trans)
  then show ?thesis
  proof cases
    case 2
    with guarded_releases [OF 2(2)] assms(2-5) have "released re w1 w'" by (simp add: same_resources_def)
    with 2(1) show ?thesis by (simp add: released_def same_resources_def)
  qed simp
qed

lemma execute_releases:
  assumes "execute_run re ar w = Some (r, w')" "ports_inv (rw_ports w)" "CHR '':'' \<notin> set (rid re)"
    and "\<forall>sc. load_scenario re ar = Inr sc \<longrightarrow> distinct (map as_id (sp_agents (sv_spec sc)))"
    and "\<forall>p e. re_write re p \<noteq> WriteFailed True e"
  shows "same_resources w w' \<or> released re w w'"
proof (cases "load_scenario re ar")
  case (Inl e)
  have "same_resources w w" by (simp add: same_resources_def)
  with Inl assms(1) show ?thesis by (cases e) (auto simp: execute_run_def dest: refuse_same)
next
  case (Inr sc)
  with assms(1) consider e where "refuse_run re e w = Some (r, w')" | err where "finalize_failure re err w = Some (r, w')"
    | "started_run re ar sc w = Some (r, w')"
    by (auto simp: execute_run_def Let_def split: if_splits)
  then show ?thesis
  proof cases
    case 3
    from started_releases [OF this assms(2,3)] assms(4,5) Inr show ?thesis by blast
  qed (auto dest: refuse_same finalize_same)
qed

section \<open>The log\<close>

interpretation log_kept: run_effects re "\<lambda>w w'. log_rel (re_eng re) (rw_eng w) (rw_eng w')" for re
  by unfold_locales (auto intro: log_rel_trans simp: log_rel_same_log)

lemma alloc_ports_eng: "forR alloc_port ags w = Some (r, w') \<Longrightarrow> r = Inr () \<and> rw_eng w' = rw_eng w"
proof (induction ags arbitrary: w)
  case (Cons a ags)
  have "\<exists>w1. alloc_port a w = Some (Inr (), w1) \<and> rw_eng w1 = rw_eng w"
    by (auto simp: alloc_port_def split: prod.split)
  with Cons show ?case by (auto simp: bindR_def)
qed simp

lemma body_log:
  assumes "run_body re ar sc w = Some (r, w')"
  shows "log_rel (re_eng re) (rw_eng w) (rw_eng w')"
proof -
  let ?ags = "sp_agents (sv_spec sc)"
  from assms obtain w1 where a: "forR alloc_port ?ags w = Some (Inr (), w1)" and b:
    "bindR (resolve_manifests re ?ags []) (\<lambda>ms. bindR (mint_issuer re ?ags ms) (\<lambda>oidc.
      thenR (forR (bootstrap_agent re ar ?ags ms oidc) ?ags)
        (thenR (forR (spawn_agent re ms) ?ags) (liftR (run_steps re ar sc ms))))) w1 = Some (r, w')"
    unfolding run_body_def Let_def by (auto simp: bindR_Some [of "forR alloc_port ?ags"] dest: alloc_ports_eng)
  from log_kept.keepsD [OF log_kept.keeps_after_alloc b] alloc_ports_eng [OF a] show ?thesis by simp
qed

text \<open>The same events were added to the context, the store and the metrics.\<close>

definition extends :: "string \<Rightarrow> eng_state \<Rightarrow> eng_state \<Rightarrow> json_dict list \<Rightarrow> bool" where
  "extends run_id s s' evs \<longleftrightarrow>
     es_events s' = es_events s @ evs
     \<and> events_in (get_run_record run_id (es_store s')) = events_in (get_run_record run_id (es_store s)) @ map JObj evs
     \<and> es_metrics s' = fold record_event evs (es_metrics s)"

abbreviation status_now :: "string \<Rightarrow> eng_state \<Rightarrow> json" where
  "status_now run_id s \<equiv> status_in (get_run_record run_id (es_store s))"

definition recorded :: "string \<Rightarrow> eng_state \<Rightarrow> bool" where
  "recorded run_id s \<longleftrightarrow> get_run_record run_id (es_store s) \<noteq> None"

lemma extends_trans: "extends i s1 s2 e1 \<Longrightarrow> extends i s2 s3 e2 \<Longrightarrow> extends i s1 s3 (e1 @ e2)"
  by (simp add: extends_def)

lemma emit_extends:
  assumes "emit_event env ty given s = (Inr (), s')" "recorded (en_run_id env) s"
  shows "\<exists>ev. extends (en_run_id env) s s' [ev] \<and> get_json ev ''type'' = JStr ty"
    and "recorded (en_run_id env) s'" "status_now (en_run_id env) s' = status_now (en_run_id env) s"
proof -
  from assms(1) obtain ev where ev: "run_event ty given (en_clk env (es_ticks s)) = Inr ev" "s' = emit_dump env ev s"
    by (auto simp: emit_event_def split: sum.splits)
  have "extends (en_run_id env) s s' [with_run_id (en_run_id env) ev]"
    unfolding ev(2) extends_def by (simp add: emit_dump_def Let_def mem.append_events)
  with run_event_type [OF ev(1)] show "\<exists>ev. extends (en_run_id env) s s' [ev] \<and> get_json ev ''type'' = JStr ty"
    by (intro exI [of _ "with_run_id (en_run_id env) ev"]) (simp add: with_run_id_get)
  show "recorded (en_run_id env) s'" "status_now (en_run_id env) s' = status_now (en_run_id env) s"
    using assms(2) unfolding ev(2) recorded_def
    by (auto simp: emit_dump_def Let_def append_event_present mem.append_status)
qed

lemma body_extends:
  assumes "run_body re ar sc w = Some (r, w')" "recorded (rid re) (rw_eng w)"
  shows "\<exists>evs. extends (rid re) (rw_eng w) (rw_eng w') evs \<and> (\<forall>e \<in> set evs. quiet e)"
    and "recorded (rid re) (rw_eng w')" "status_now (rid re) (rw_eng w') = status_now (rid re) (rw_eng w)"
  using body_log [OF assms(1)] assms(2) unfolding log_rel_def extends_def recorded_def by auto

lemma put_run_effect:
  assumes "wf_dict r" "events_of r = []" "dict_get r ''status'' = Some v"
  shows "extends (rid re) (rw_eng w) (rw_eng (put_run re r w)) []" "recorded (rid re) (rw_eng (put_run re r w))"
    "status_now (rid re) (rw_eng (put_run re r w)) = v"
  using assms by (simp_all add: put_run_def extends_def recorded_def Let_def mem.put_events mem.put_status upsert_present)

lemma put_unless_effect:
  assumes "\<not> is_cancelled (rid re) (es_store (rw_eng w))"
  shows "put_run_unless_cancelled re r w = (True, put_run re r w)"
  using assms by (simp add: put_run_unless_cancelled_def put_run_def is_cancelled_def mem.put_unless Let_def)

section \<open>One end\<close>

definition ends_run :: "json_dict \<Rightarrow> bool" where
  "ends_run ev \<longleftrightarrow> get_json ev ''type'' \<in> {JStr ''run.complete'', JStr ''run.failed'', JStr ''run.cancelled''}"

lemma quiet_not_end: "quiet e \<Longrightarrow> \<not> ends_run e"
  by (auto simp: quiet_def ends_run_def step_event_def)

text \<open>From \<open>s0\<close> to \<open>s\<close> the run ended once, and as its result says.\<close>

definition ended :: "run_env \<Rightarrow> eng_state \<Rightarrow> eng_state \<Rightarrow> run_result \<Rightarrow> bool" where
  "ended re s0 s res \<longleftrightarrow>
     (\<exists>evs ev. extends (rid re) s0 s (evs @ [ev]) \<and> (\<forall>e \<in> set evs. \<not> ends_run e)
        \<and> (rr_status res = ''success'' \<and> get_json ev ''type'' = JStr ''run.complete''
           \<or> rr_status res = ''failed'' \<and> get_json ev ''type'' = JStr ''run.failed''))
     \<and> status_now (rid re) s = JStr (rr_status res) \<and> rr_events res = es_events s"

lemma ended_after:
  assumes "extends (rid re) s0 s1 evs" "\<forall>e \<in> set evs. \<not> ends_run e" "ended re s1 s res"
  shows "ended re s0 s res"
proof -
  from assms(3) obtain evs' ev where e: "extends (rid re) s1 s (evs' @ [ev])" "\<forall>e \<in> set evs'. \<not> ends_run e"
    "rr_status res = ''success'' \<and> get_json ev ''type'' = JStr ''run.complete''
     \<or> rr_status res = ''failed'' \<and> get_json ev ''type'' = JStr ''run.failed''"
    by (auto simp: ended_def)
  have "extends (rid re) s0 s ((evs @ evs') @ [ev])" using extends_trans [OF assms(1) e(1)] by simp
  moreover have "\<forall>e \<in> set (evs @ evs'). \<not> ends_run e" using assms(2) e(2) by auto
  ultimately show ?thesis using assms(3) e(3) unfolding ended_def by blast
qed

lemma finalize_ends:
  assumes "finalize_failure re err w = Some (Inr res, w')" "status_now (rid re) (rw_eng w) \<noteq> cancelled"
    and "extends (rid re) s0 (rw_eng w) [ev]" "get_json ev ''type'' = JStr ''run.failed''"
  shows "ended re s0 (rw_eng w') res"
proof -
  let ?r = "[(''run_id'', JStr (rid re)), (''status'', JStr ''failed''), (''outputs'', JObj []), (''error'', JStr err)]"
  let ?w = "w\<lparr>rw_teardowns := rw_teardowns w @ [rid re]\<rparr>"
  from assms(1,2) have res: "w' = put_run re ?r ?w" "rr_status res = ''failed''" "rr_events res = es_events (rw_eng w)"
    by (auto simp: finalize_failure_def is_cancelled_def Let_def split: if_splits)
  note put = put_run_effect [of ?r "JStr ''failed''" re ?w]
  have "extends (rid re) (rw_eng w) (rw_eng w') []" "status_now (rid re) (rw_eng w') = JStr ''failed''"
    using put by (simp_all add: res(1) events_of_def)
  moreover from extends_trans [OF assms(3) this(1)] have "extends (rid re) s0 (rw_eng w') ([] @ [ev])" by simp
  moreover have "rr_events res = es_events (rw_eng w')" using res(3) calculation(1) by (simp add: extends_def)
  ultimately show ?thesis unfolding ended_def using res(2) assms(4) by (metis empty_iff list.set(1))
qed

lemma emit_failed_ok:
  assumes "emit_failed re code err w = Some (Inr (), w1)" "recorded (rid re) (rw_eng w)" "status_now (rid re) (rw_eng w) \<noteq> cancelled"
  shows "\<exists>ev. extends (rid re) (rw_eng w) (rw_eng w1) [ev] \<and> get_json ev ''type'' = JStr ''run.failed''"
    "status_now (rid re) (rw_eng w1) \<noteq> cancelled"
proof -
  from assms have "emit_event (re_eng re) ''run.failed'' [(''code'', code), (''error'', JStr err)] (rw_eng w) = (Inr (), rw_eng w1)"
    by (auto simp: emit_failed_def is_cancelled_def liftR_def split: prod.splits)
  note e = emit_extends [OF this assms(2)]
  show "\<exists>ev. extends (rid re) (rw_eng w) (rw_eng w1) [ev] \<and> get_json ev ''type'' = JStr ''run.failed''" by (rule e(1))
  show "status_now (rid re) (rw_eng w1) \<noteq> cancelled" using e(3) assms(3) by simp
qed

lemma fail_ends:
  assumes "emit_failed re code err w = Some (Inr (), w1)" "finalize_failure re err w2 = Some (Inr res, w')" "rw_eng w2 = rw_eng w1"
    and "recorded (rid re) (rw_eng w)" "status_now (rid re) (rw_eng w) \<noteq> cancelled"
  shows "ended re (rw_eng w) (rw_eng w') res"
proof -
  note e = emit_failed_ok [OF assms(1,4,5)]
  from e(1) obtain ev where "extends (rid re) (rw_eng w) (rw_eng w2) [ev]" "get_json ev ''type'' = JStr ''run.failed''"
    using assms(3) by auto
  with finalize_ends [OF assms(2)] e(2) assms(3) show ?thesis by simp
qed

lemma complete_ends:
  assumes "complete_run re ar w = Some (Inr res, w')" "status_now (rid re) (rw_eng w) \<noteq> cancelled"
  shows "ended re (rw_eng w) (rw_eng w') res"
proof -
  let ?r = "[(''run_id'', JStr (rid re)), (''status'', JStr ''success''), (''scenario_ref'', JStr (ar_scenario_ref ar)),
      (''outputs'', JObj (es_outputs (rw_eng w))), (''error'', JNull)]"
  have put: "put_run_unless_cancelled re ?r w = (True, put_run re ?r w)"
    using put_unless_effect [of re w ?r] assms(2) by (simp add: is_cancelled_def)
  note eff = put_run_effect [of ?r "JStr ''success''" re w]
  have e0: "extends (rid re) (rw_eng w) (rw_eng (put_run re ?r w)) []" "recorded (rid re) (rw_eng (put_run re ?r w))"
    "status_now (rid re) (rw_eng (put_run re ?r w)) = JStr ''success''"
    using eff by (simp_all add: events_of_def)
  from assms(1) obtain s2 where
    em: "emit_event (re_eng re) ''run.complete'' [] (rw_eng (put_run re ?r w)) = (Inr (), s2)"
    and w': "rw_eng w' = s2" "rr_status res = ''success''" "rr_events res = es_events (s2)"
    unfolding complete_run_def Let_def put by (auto simp: bindR_Some liftR_def split: prod.splits)
  note e = emit_extends [OF em e0(2)]
  from e(1) obtain ev where "extends (rid re) (rw_eng (put_run re ?r w)) (s2) [ev]" "get_json ev ''type'' = JStr ''run.complete''"
    by blast
  with extends_trans [OF e0(1) this(1)] have "extends (rid re) (rw_eng w) (rw_eng w') ([] @ [ev])"
    "get_json ev ''type'' = JStr ''run.complete''" using w'(1) by simp_all
  moreover have "status_now (rid re) (rw_eng w') = JStr ''success''" using e(3) e0(3) w'(1) by simp
  ultimately show ?thesis unfolding ended_def using w' by (metis empty_iff list.set(1))
qed

lemma guarded_ends:
  assumes "guarded_body re ar sc w = Some (Inr res, w')" "recorded (rid re) (rw_eng w)" "status_now (rid re) (rw_eng w) \<noteq> cancelled"
  shows "ended re (rw_eng w) (rw_eng w') res"
proof -
  have clean: "rw_eng (cleanup_run re v) = rw_eng v" for v by (simp add: cleanup_run_def)
  from assms(1) obtain b w1 where b: "run_body re ar sc (w\<lparr>rl_ports := [], rl_files := []\<rparr>) = Some (b, w1)"
    by (auto simp: guarded_body_def split: option.splits)
  note body = body_extends [OF b]
  from body assms(2) obtain evs where evs: "extends (rid re) (rw_eng w) (rw_eng w1) evs" "\<forall>e \<in> set evs. \<not> ends_run e"
    using quiet_not_end by auto
  have w1: "recorded (rid re) (rw_eng w1)" "status_now (rid re) (rw_eng w1) \<noteq> cancelled" using body assms(2,3) by simp_all
  have "ended re (rw_eng w1) (rw_eng w') res"
  proof (cases b)
    case (Inr u)
    with assms(1) b have "complete_run re ar (cleanup_run re w1) = Some (Inr res, w')" by (simp add: guarded_body_def)
    from complete_ends [OF this] w1 show ?thesis by (simp add: clean)
  next
    case (Inl e)
    with assms(1) b obtain w2 w3 where
      "emit_failed re (case e of EPlayground p \<Rightarrow> JStr (pe_code p) | _ \<Rightarrow> JNull) (en_exc_text (re_eng re) e) w1 = Some (Inr (), w2)"
      "finalize_failure re (en_exc_text (re_eng re) e) (cleanup_run re w2) = Some (Inr res, w3)" "w' = cleanup_run re w3"
      by (auto simp: guarded_body_def fail_run_def bindR_Some Let_def)
    from fail_ends [OF this(1,2) clean w1] this(3) show ?thesis by (simp add: clean)
  qed
  from ended_after [OF evs this] show ?thesis .
qed

lemma refuse_ends:
  assumes "refuse_run re e w = Some (Inr res, w')" "recorded (rid re) (rw_eng w)" "status_now (rid re) (rw_eng w) \<noteq> cancelled"
  shows "ended re (rw_eng w) (rw_eng w') res"
proof -
  from assms(1) obtain w1 where "emit_failed re (JStr (pe_code e)) (pe_message e) w = Some (Inr (), w1)"
    "finalize_failure re (pe_message e) w1 = Some (Inr res, w')"
    by (auto simp: refuse_run_def bindR_Some)
  from fail_ends [OF this refl assms(2,3)] show ?thesis .
qed

lemma started_ends:
  assumes "started_run re ar sc w = Some (Inr res, w')" "recorded (rid re) (rw_eng w)" "status_now (rid re) (rw_eng w) \<noteq> cancelled"
  shows "ended re (rw_eng w) (rw_eng w') res"
proof -
  from assms(1) obtain s1 where
    em: "emit_event (re_eng re) ''run.started''
      [(''scenario_ref'', JStr (ar_scenario_ref ar)), (''template'', jstr_opt (ar_template ar))] (rw_eng w) = (Inr (), s1)"
    and rest: "guarded_body re ar sc (w\<lparr>rw_eng := s1\<rparr>) = Some (Inr res, w')
      \<or> (\<exists>msg s2. emit_event (re_eng re) ''run.failed''
             [(''code'', JStr ''inputs_invalid''), (''error'', JStr (''inputs validation: '' @ msg))] s1 = (Inr (), s2)
           \<and> finalize_failure re (''inputs validation: '' @ msg) (w\<lparr>rw_eng := s2\<rparr>) = Some (Inr res, w'))"
    by (auto simp: started_run_def bindR_Some liftR_def Let_def split: if_splits schema_outcome.splits prod.splits)
  note e = emit_extends [OF em assms(2)]
  from e(1) obtain ev where ev: "extends (rid re) (rw_eng w) s1 [ev]" "\<forall>e \<in> set [ev]. \<not> ends_run e"
    by (auto simp: ends_run_def)
  have s1: "recorded (rid re) s1" "status_now (rid re) s1 \<noteq> cancelled" using e assms(3) by simp_all
  from rest have "ended re s1 (rw_eng w') res"
  proof
    assume "guarded_body re ar sc (w\<lparr>rw_eng := s1\<rparr>) = Some (Inr res, w')"
    from guarded_ends [OF this] s1 show ?thesis by simp
  next
    assume "\<exists>msg s2. emit_event (re_eng re) ''run.failed''
             [(''code'', JStr ''inputs_invalid''), (''error'', JStr (''inputs validation: '' @ msg))] s1 = (Inr (), s2)
           \<and> finalize_failure re (''inputs validation: '' @ msg) (w\<lparr>rw_eng := s2\<rparr>) = Some (Inr res, w')"
    then obtain msg s2 where f: "emit_event (re_eng re) ''run.failed''
        [(''code'', JStr ''inputs_invalid''), (''error'', JStr (''inputs validation: '' @ msg))] s1 = (Inr (), s2)"
      "finalize_failure re (''inputs validation: '' @ msg) (w\<lparr>rw_eng := s2\<rparr>) = Some (Inr res, w')" by blast
    note e2 = emit_extends [OF f(1) s1(1)]
    from e2(1) obtain ev2 where "extends (rid re) s1 s2 [ev2]" "get_json ev2 ''type'' = JStr ''run.failed''" by blast
    with finalize_ends [OF f(2)] e2(3) s1(2) show ?thesis by simp
  qed
  from ended_after [OF ev this] show ?thesis .
qed

lemma execute_ends:
  assumes "execute_run re ar w = Some (Inr res, w')" "recorded (rid re) (rw_eng w)" "status_now (rid re) (rw_eng w) \<noteq> cancelled"
  shows "ended re (rw_eng w) (rw_eng w') res"
proof (cases "load_scenario re ar")
  case (Inl e)
  with assms(1) refuse_ends [OF _ assms(2,3)] show ?thesis by (cases e) (auto simp: execute_run_def)
next
  case (Inr sc)
  with assms(1,3) consider e where "refuse_run re e w = Some (Inr res, w')" | "started_run re ar sc w = Some (Inr res, w')"
    by (auto simp: execute_run_def is_cancelled_def Let_def split: if_splits)
  then show ?thesis using refuse_ends started_ends assms(2,3) by cases blast+
qed

section \<open>Properties\<close>


abbreviation start_record :: "run_env \<Rightarrow> run_args \<Rightarrow> json_dict" where
  "start_record re ar \<equiv>
     [(''run_id'', JStr (rid re)), (''status'', JStr ''running''), (''scenario_ref'', JStr (ar_scenario_ref ar)),
      (''run_label'', jstr_opt (ar_run_label ar)), (''outputs'', JObj []), (''events'', JArr []), (''error'', JNull)]"

lemma run_starts:
  assumes "status_now (rid re) (rw_eng w) \<noteq> cancelled"
  shows "run_scenario re ar w = execute_run re ar (put_run re (start_record re ar) (new_context w))"
    "extends (rid re) (rw_eng (new_context w)) (rw_eng (put_run re (start_record re ar) (new_context w))) []"
    "recorded (rid re) (rw_eng (put_run re (start_record re ar) (new_context w)))"
    "status_now (rid re) (rw_eng (put_run re (start_record re ar) (new_context w))) = JStr ''running''"
proof -
  have "\<not> is_cancelled (rid re) (es_store (rw_eng (new_context w)))"
    using assms by (simp add: is_cancelled_def new_context_def)
  from put_unless_effect [OF this] show "run_scenario re ar w = execute_run re ar (put_run re (start_record re ar) (new_context w))"
    by (simp add: run_scenario_def)
  note put = put_run_effect [of "start_record re ar" "JStr ''running''" re "new_context w"]
  show "extends (rid re) (rw_eng (new_context w)) (rw_eng (put_run re (start_record re ar) (new_context w))) []"
    "recorded (rid re) (rw_eng (put_run re (start_record re ar) (new_context w)))"
    "status_now (rid re) (rw_eng (put_run re (start_record re ar) (new_context w))) = JStr ''running''"
    using put by (simp_all add: events_of_def)
qed

text \<open>
  C14: a run ends once, and its record says how. For a run that was not cancelled before it
  started and that returns a result, the events it adds to its record are exactly those of its
  result and those counted in the metrics; the last of them is \<open>run.complete\<close> when the result
  is a success and \<open>run.failed\<close> otherwise, no earlier one ends the run, and the status in the
  record is the status of the result.
\<close>

theorem run_ends_once:
  assumes "run_scenario re ar w = Some (Inr res, w')"
    and "status_in (get_run_record (rid re) (es_store (rw_eng w))) \<noteq> cancelled"
  shows "\<exists>evs ev. rr_events res = evs @ [ev] \<and> (\<forall>e \<in> set evs. \<not> ends_run e)
    \<and> (rr_status res = ''success'' \<and> get_json ev ''type'' = JStr ''run.complete''
       \<or> rr_status res = ''failed'' \<and> get_json ev ''type'' = JStr ''run.failed'')
    \<and> events_in (get_run_record (rid re) (es_store (rw_eng w'))) =
        events_in (get_run_record (rid re) (es_store (rw_eng w))) @ map JObj (evs @ [ev])
    \<and> es_metrics (rw_eng w') = fold record_event (evs @ [ev]) (es_metrics (rw_eng w))
    \<and> status_in (get_run_record (rid re) (es_store (rw_eng w'))) = JStr (rr_status res)"
proof -
  note st = run_starts [OF assms(2), of ar]
  from assms(1) st(1) have ex: "execute_run re ar (put_run re (start_record re ar) (new_context w)) = Some (Inr res, w')" by simp
  have "ended re (rw_eng (put_run re (start_record re ar) (new_context w))) (rw_eng w') res"
    by (rule execute_ends [OF ex st(3)]) (simp add: st(4))
  from ended_after [OF st(2) _ this] have "ended re (rw_eng (new_context w)) (rw_eng w') res" by simp
  then show ?thesis unfolding ended_def extends_def by (simp add: new_context_def) blast
qed

text \<open>
  An exception that is not the playground's own strands the run. When resolving the
  scenario raises one (a template whose trust patch does not validate, say), \<open>run\<close> raises it
  after it marked the record \<open>running\<close>: no event is added and nothing changes the status
  afterwards, so the run is reported as running for ever.
\<close>

theorem run_stranded:
  assumes "load_scenario re ar = Inl (Unhandled e)"
    and "status_in (get_run_record (rid re) (es_store (rw_eng w))) \<noteq> cancelled"
  shows "\<exists>w'. run_scenario re ar w = Some (Inl (EPy e), w')
    \<and> status_in (get_run_record (rid re) (es_store (rw_eng w'))) = JStr ''running''
    \<and> events_in (get_run_record (rid re) (es_store (rw_eng w'))) = events_in (get_run_record (rid re) (es_store (rw_eng w)))
    \<and> rw_teardowns w' = rw_teardowns w"
proof -
  let ?w = "put_run re (start_record re ar) (new_context w)"
  note st = run_starts [OF assms(2), of ar]
  have "run_scenario re ar w = Some (Inl (EPy e), ?w)" using st(1) assms(1) by (simp add: execute_run_def)
  moreover have "events_in (get_run_record (rid re) (es_store (rw_eng ?w))) = events_in (get_run_record (rid re) (es_store (rw_eng w)))"
    using st(2) by (simp add: extends_def new_context_def)
  moreover have "rw_teardowns ?w = rw_teardowns w" by (simp add: put_run_def new_context_def Let_def)
  ultimately show ?thesis using st(4) by blast
qed

section \<open>Returning\<close>

definition returns :: "'x run \<Rightarrow> bool" where
  "returns m \<longleftrightarrow> (\<forall>w. m w \<noteq> None)"

lemma returns_pure [intro!]:
  "returns (retR x)" "returns (raiseR e)" "returns (liftR m)" "returns look_ports" "returns (check_not_cancelled re)"
  "returns (modify_eng f)" "returns (keep_file a p)" "returns (write_bootstrap re a d)" "returns (alloc_port ag)"
  "returns (lift_pure r)" "returns (finalize_failure re err)" "returns (emit_failed re c err)"
  by (auto simp: returns_def liftR_def look_ports_def check_not_cancelled_def modify_eng_def keep_file_def
      write_bootstrap_def alloc_port_def lift_pure_def finalize_failure_def emit_failed_def Let_def
      split: prod.splits write_outcome.splits sum.splits)

lemma returns_bind [intro!]: "returns m \<Longrightarrow> (\<And>x. returns (f x)) \<Longrightarrow> returns (bindR m f)"
  by (force simp: returns_def bindR_def split: option.splits sum.splits prod.splits)

lemma returns_if [intro!]: "returns a \<Longrightarrow> returns b \<Longrightarrow> returns (if c then a else b)"
  by simp

lemma returns_let [intro!]: "(\<And>x. returns (f x)) \<Longrightarrow> returns (let x = v in f x)"
  by (simp add: Let_def)

lemma returns_for [intro!]: "(\<And>x. returns (f x)) \<Longrightarrow> returns (forR f xs)"
  by (induction xs; simp only: forR.simps; blast)

lemma returns_manifests [intro!]: "returns (resolve_manifests re ags acc)"
  by (induction ags arbitrary: acc) (auto simp only: resolve_manifests.simps split: sum.split api_exc.split)

lemma await_ready_returns:
  "(t, line) \<in> set ls \<Longrightarrow> line = [] \<or> starts_with READY (py_rstrip line) \<Longrightarrow> await_ready d ls \<noteq> None"
  by (induction d ls rule: await_ready.induct) auto

definition agents_settle :: "run_env \<Rightarrow> bool" where
  "agents_settle re \<longleftrightarrow>
     (\<forall>a. \<exists>t line. (t, line) \<in> set (sp_lines (re_spawn re a)) \<and> (line = [] \<or> starts_with READY (py_rstrip line)))"

lemma launch_returns:
  assumes "\<And>d. await_ready d (sp_lines sp) \<noteq> None"
  shows "launch i r a p t ms lo sp s \<noteq> None"
proof -
  obtain st where "await_ready (sp_start sp + of_int ms / 1000) (sp_lines sp) = Some st" using assms by fast
  then show ?thesis unfolding launch_def Let_def by (cases st) (auto split: sum.split prod.split)
qed

lemma returns_launch: "agents_settle re \<Longrightarrow> returns (launch_agent re a port ms)"
proof -
  assume "agents_settle re"
  then have "await_ready d (sp_lines (re_spawn re (as_id a))) \<noteq> None" for d
    using await_ready_returns unfolding agents_settle_def by meson
  from launch_returns [OF this] show ?thesis
    unfolding returns_def launch_agent_def by (auto split: option.splits sum.splits prod.splits)
qed

lemma returns_body: "agents_settle re \<Longrightarrow> returns (run_body re ar sc)"
  unfolding run_body_def bootstrap_agent_def spawn_agent_def mint_issuer_def by (blast intro: returns_launch)


text \<open>A computation that returns and does not raise.\<close>

definition succeeds :: "'x run \<Rightarrow> bool" where
  "succeeds m \<longleftrightarrow> (\<forall>w. \<exists>x w'. m w = Some (Inr x, w'))"

lemma succeeds_bind: "succeeds m \<Longrightarrow> (\<And>x. succeeds (f x)) \<Longrightarrow> succeeds (bindR m f)"
  unfolding succeeds_def bindR_def by (metis (mono_tags, lifting) case_prod_conv option.case(2) sum.case(2))

lemma succeeds_emit:
  assumes "\<And>k v. (k, v) \<in> set given \<Longrightarrow> field_valid k v"
  shows "succeeds (liftR (emit_event env ty given))"
  unfolding succeeds_def
proof
  fix w :: run_world
  obtain ev where "emit_event env ty given (rw_eng w) = (Inr (), emit_dump env ev (rw_eng w))"
    using emit_event_ok [OF assms] by blast
  then show "\<exists>x w'. liftR (emit_event env ty given) w = Some (Inr x, w')" by (simp add: liftR_def)
qed

lemma succeeds_emit_failed:
  assumes "code = JNull \<or> is_str code"
  shows "succeeds (emit_failed re code err)"
proof -
  have "field_valid k v" if "(k, v) \<in> set [(''code'', code), (''error'', JStr err)]" for k v
    using that assms by (cases code) (auto intro!: field_valid_text)
  then have "succeeds (liftR (emit_event (re_eng re) ''run.failed'' [(''code'', code), (''error'', JStr err)]))"
    by (rule succeeds_emit)
  then show ?thesis unfolding succeeds_def emit_failed_def by simp
qed

lemma succeeds_finalize: "succeeds (finalize_failure re err)"
  by (auto simp: succeeds_def finalize_failure_def Let_def)

lemma succeeds_refuse: "succeeds (refuse_run re e)"
  unfolding refuse_run_def by (intro succeeds_bind succeeds_emit_failed succeeds_finalize) simp

lemma succeeds_fail: "succeeds (fail_run re e)"
proof -
  have "succeeds (\<lambda>w. finalize_failure re err (cleanup_run re w))" for err
    using succeeds_finalize unfolding succeeds_def by blast
  then show ?thesis
    unfolding fail_run_def Let_def by (intro succeeds_bind succeeds_emit_failed) (cases e; simp)+
qed

lemma succeeds_complete: "succeeds (complete_run re ar)"
  unfolding succeeds_def
proof
  fix w :: run_world
  have em: "succeeds (if c then liftR (emit_event (re_eng re) ''run.complete'' []) else retR ())" for c
    using succeeds_emit [of "[]"] by (simp add: succeeds_def)
  obtain c w1 where p: "put_run_unless_cancelled re
      [(''run_id'', JStr (rid re)), (''status'', JStr ''success''), (''scenario_ref'', JStr (ar_scenario_ref ar)),
       (''outputs'', JObj (es_outputs (rw_eng w))), (''error'', JNull)] w = (c, w1)" by fastforce
  obtain u w2 where "(if c then liftR (emit_event (re_eng re) ''run.complete'' []) else retR ()) w1 = Some (Inr u, w2)"
    using em unfolding succeeds_def by blast
  with p show "\<exists>x w'. complete_run re ar w = Some (Inr x, w')"
    unfolding complete_run_def Let_def by (simp add: bindR_def)
qed

lemma succeeds_guarded: "agents_settle re \<Longrightarrow> succeeds (guarded_body re ar sc)"
  unfolding succeeds_def
proof
  fix w :: run_world
  assume "agents_settle re"
  then obtain b w1 where b: "run_body re ar sc (w\<lparr>rl_ports := [], rl_files := []\<rparr>) = Some (b, w1)"
    using returns_body unfolding returns_def by (metis not_Some_eq surj_pair)
  show "\<exists>x w'. guarded_body re ar sc w = Some (Inr x, w')"
  proof (cases b)
    case (Inl e)
    obtain x w2 where "fail_run re e w1 = Some (Inr x, w2)" using succeeds_fail unfolding succeeds_def by blast
    with b Inl show ?thesis by (simp add: guarded_body_def)
  next
    case (Inr u)
    with b succeeds_complete show ?thesis unfolding succeeds_def guarded_body_def by simp
  qed
qed

lemma run_gives_result:
  assumes "agents_settle re" "\<forall>e. load_scenario re ar = Inl e \<longrightarrow> (\<exists>p. e = Playground p)"
    and "\<forall>i sch e. re_schema re i sch \<noteq> SchemaRaises e"
  shows "\<exists>res w'. run_scenario re ar w = Some (Inr res, w')"
proof -
  have started: "succeeds (started_run re ar sc)" for sc
  proof -
    have fields: "field_valid k v" if "(k, v) \<in> set [(''scenario_ref'', JStr (ar_scenario_ref ar)), (''template'', jstr_opt (ar_template ar))]" for k v
      using that by (cases "ar_template ar") (auto intro!: field_valid_text)
    have failed: "field_valid k v" if "(k, v) \<in> set [(''code'', JStr ''inputs_invalid''), (''error'', JStr err)]" for k v err
      using that by (auto intro!: field_valid_text)
    show ?thesis
      unfolding started_run_def Let_def using assms(3)
      by (intro succeeds_bind succeeds_emit fields)
        (auto split: schema_outcome.split intro: succeeds_guarded [OF assms(1)] succeeds_bind succeeds_emit failed succeeds_finalize)
  qed
  have "\<exists>res w'. execute_run re ar w1 = Some (Inr res, w')" for w1
  proof (cases "load_scenario re ar")
    case (Inl e)
    with assms(2) succeeds_refuse show ?thesis by (auto simp: execute_run_def succeeds_def)
  next
    case (Inr sc)
    with succeeds_refuse succeeds_finalize started show ?thesis by (auto simp: execute_run_def succeeds_def Let_def)
  qed
  then show ?thesis unfolding run_scenario_def by (simp split: prod.split bool.split)
qed


section \<open>Witnesses\<close>

definition demo_settings :: settings where
  "demo_settings =
     \<lparr>se_scenarios_dir = ''d'', se_agent_base_port = 8100, se_agent_python = ''python3'', se_playground_base_url = ''p'',
      se_public_host = [], se_public_scheme = ''https'', se_insecure_localhost_dangerous = True, se_cp_base_url = [],
      se_cp_api_key = [], se_revocation_fail_mode = ''fail_closed'', se_revocation_max_staleness_secs = 300,
      se_revocation_poll_secs = 60, se_revocation_list_ttl_secs = 3600, se_run_token_budget = 40000,
      se_llm_max_tokens_per_call = 1024\<rparr>"

definition demo_template :: scenario_template where
  "demo_template = \<lparr>tp_name = ''t'', tp_summary = None, tp_trust = Some [], tp_agents = None, tp_steps = None\<rparr>"

definition demo_registry :: loaded_registry where
  "demo_registry =
     \<lparr>lr_packs = [], lr_scenarios = [(''s'', demo_scenario)], lr_agents = [], lr_templates = [(''s'', [(''t'', demo_template)])]\<rparr>"

definition demo_run_env :: run_env where
  "demo_run_env =
     \<lparr>re_eng = demo_env [], re_settings = demo_settings, re_registry = Inr demo_registry,
      re_trust_validate = (\<lambda>_. Inl (PyExc ValueError None [])), re_by_ref = (\<lambda>_. Inl (PyExc ValueError None [])),
      re_capabilities = \<lparr>cap_sdk_available = True, cap_version = None, cap_features = []\<rparr>,
      re_schema = (\<lambda>_ _. SchemaOk), re_adapters = build_default_adapter_registry, re_host = demo_host,
      re_oidc = \<lparr>oi_issuer_url = ''i'', oi_kid = ''k'', oi_public_jwk = [], oi_private_seed_b64 = ''s''\<rparr>,
      re_build = (\<lambda>_. \<lparr>be_sha256_hex = id, be_certfile = ''c'', be_keyfile = ''k'', be_telemetry_token = ''m'', be_admin_token = ''t''\<rparr>),
      re_write = (\<lambda>_. Written),
      re_spawn = (\<lambda>_. \<lparr>sp_popen = Inr 7, sp_start = 0, sp_lines = [(0, [])], sp_rc = Some 1, sp_stderr = []\<rparr>),
      re_os = \<lparr>os_poll = (\<lambda>_. None), os_reap = (\<lambda>_. None)\<rparr>, re_tmpdir = ''/tmp''\<rparr>"

definition demo_args :: "string option \<Rightarrow> run_args" where
  "demo_args template = \<lparr>ar_scenario_ref = ''s'', ar_inputs = [], ar_run_label = None, ar_template = template\<rparr>"

definition demo_world :: run_world where
  "demo_world =
     \<lparr>rw_eng = demo_state, rw_ports = port_allocator_init 8100, rw_sup = supervisor_init, rw_files = [], rl_ports = [],
      rl_files = [], rw_teardowns = [], rw_ingests = []\<rparr>"

lemma demo_run_loads: "load_scenario demo_run_env (demo_args None) = Inr demo_scenario"
  by (simp add: load_scenario_def demo_run_env_def demo_registry_def demo_args_def get_scenario_resolved_def get_scenario_def)

lemma demo_run_parts:
  "re_schema demo_run_env i sch = SchemaOk" "rid demo_run_env = ''r''" "re_write demo_run_env p = Written"
  "rw_sup demo_world = supervisor_init" "rw_ports demo_world = port_allocator_init 8100" "rw_files demo_world = []"
  "map as_id (sp_agents (sv_spec demo_scenario)) = [''a'']"
  by (simp_all add: demo_run_env_def demo_env_def demo_world_def demo_scenario_def demo_agent_def)

lemma demo_run_settles: "agents_settle demo_run_env"
  by (simp add: agents_settle_def demo_run_env_def)

lemma demo_run_result: "\<exists>res w'. run_scenario demo_run_env (demo_args None) demo_world = Some (Inr res, w')"
  by (rule run_gives_result) (simp_all add: demo_run_loads demo_run_settles demo_run_parts)

lemma demo_run_fresh: "status_in (get_run_record (rid demo_run_env) (es_store (rw_eng demo_world))) \<noteq> cancelled"
  by (simp add: demo_world_def demo_state_def run_store_init_def get_run_record_def status_in_def)



theorem run_ends_once_witness:
  "\<exists>res w' evs ev. run_scenario demo_run_env (demo_args None) demo_world = Some (Inr res, w')
    \<and> rr_events res = evs @ [ev] \<and> (\<forall>e \<in> set evs. \<not> ends_run e)
    \<and> status_in (get_run_record ''r'' (es_store (rw_eng w'))) = JStr (rr_status res)"
proof -
  from demo_run_result obtain res w' where r: "run_scenario demo_run_env (demo_args None) demo_world = Some (Inr res, w')" by blast
  with run_ends_once [OF r demo_run_fresh] show ?thesis by (auto simp: demo_run_parts)
qed

theorem run_stranded_witness:
  "\<exists>w'. run_scenario demo_run_env (demo_args (Some ''t'')) demo_world = Some (Inl (EPy (PyExc ValueError None [])), w')
    \<and> status_in (get_run_record (rid demo_run_env) (es_store (rw_eng w'))) = JStr ''running''
    \<and> events_in (get_run_record (rid demo_run_env) (es_store (rw_eng w'))) =
        events_in (get_run_record (rid demo_run_env) (es_store (rw_eng demo_world)))
    \<and> rw_teardowns w' = rw_teardowns demo_world"
proof (rule run_stranded [OF _ demo_run_fresh])
  show "load_scenario demo_run_env (demo_args (Some ''t'')) = Inl (Unhandled (PyExc ValueError None []))"
    by (simp add: load_scenario_def demo_run_env_def demo_registry_def demo_args_def get_scenario_resolved_def
        get_scenario_def get_template_def templates_of_def apply_template_def demo_template_def)
qed

end
