(* ===== verification/Narrator.thy ===== *)
theory Narrator
  imports Run_Context
begin

text \<open>
  \<open>src/aitp_playground/observability/narrator.py\<close>: the lines that explain the events of a
  run. An event is a decoded object: the runner's own, an agent's telemetry or a delivery of
  the Control Plane, so a field may hold any value; joining or measuring one of another type
  raises \<open>TypeError\<close>. Text is cut by characters, not bytes. The groups of branches are those of
  the source, in its order; the first group that knows the event's type gives the line.

  What is shown: an event whose fields have their declared types is narrated without an
  exception, an unknown type is dropped, and the lines of a log are those of its known events,
  in order.
\<close>

section \<open>Texts\<close>

definition ellipsis :: string where
  "ellipsis = [CHR 0xE2, CHR 0x80, CHR 0xA6]"

definition dash :: string where
  "dash = '' '' @ [CHR 0xE2, CHR 0x80, CHR 0x94] @ '' ''"

definition short :: "(pyfloat \<Rightarrow> string) \<Rightarrow> json \<Rightarrow> nat \<Rightarrow> string" where
  "short fl value n =
     (let s = py_str fl (py_or value (JStr [])); cs = utf8_chars s
      in if length cs \<le> n then s else concat (take (n - 1) cs) @ ellipsis)"

text \<open>\<open>",".join(v)\<close>.\<close>

definition join_commas :: "json \<Rightarrow> pyexc + string" where
  "join_commas v =
     (case v of
        JArr xs \<Rightarrow>
          if list_all is_str xs then Inr (join_str '','' (map (\<lambda>x. case x of JStr s \<Rightarrow> s | _ \<Rightarrow> []) xs))
          else Inl (PyExc TypeError None ''sequence item: expected str instance'')
      | JObj kvs \<Rightarrow> Inr (join_str '','' (map fst kvs))
      | JStr s \<Rightarrow> Inr (join_str '','' (utf8_chars s))
      | _ \<Rightarrow> Inl (PyExc TypeError None ''can only join an iterable''))"

text \<open>\<open>event.get(k) or ""\<close>, \<open>event.get(k)\<close> and \<open>event.get(k, "?")\<close> in an f-string.\<close>

definition fld :: "(pyfloat \<Rightarrow> string) \<Rightarrow> json_dict \<Rightarrow> string \<Rightarrow> string" where
  "fld fl ev k = py_str fl (py_or (get_json ev k) (JStr []))"

definition raw :: "(pyfloat \<Rightarrow> string) \<Rightarrow> json_dict \<Rightarrow> string \<Rightarrow> string" where
  "raw fl ev k = py_str fl (get_json ev k)"

definition known :: "(pyfloat \<Rightarrow> string) \<Rightarrow> json_dict \<Rightarrow> string \<Rightarrow> string" where
  "known fl ev k = py_str fl (case dict_get ev k of Some v \<Rightarrow> v | None \<Rightarrow> JStr ''?'')"

definition agent_of :: "(pyfloat \<Rightarrow> string) \<Rightarrow> json_dict \<Rightarrow> string" where
  "agent_of fl ev = py_str fl (py_or (py_or (get_json ev ''agent_id'') (get_json ev ''agent'')) (JStr []))"

definition result_of :: "json_dict \<Rightarrow> json_dict" where
  "result_of ev = (case get_json ev ''result'' of JObj d \<Rightarrow> d | _ \<Rightarrow> [])"

text \<open>\<open>",".join(v) if v else d\<close> and \<open>len(v or [])\<close>.\<close>

definition join_or :: "json \<Rightarrow> string \<Rightarrow> pyexc + string" where
  "join_or v d = (if truthy v then join_commas v else Inr d)"

definition len_or :: "json \<Rightarrow> pyexc + nat" where
  "len_or v = py_len (py_or v (JArr []))"

section \<open>The branches\<close>

type_synonym line = "(pyexc + string) option"

definition narrate_run :: "(pyfloat \<Rightarrow> string) \<Rightarrow> json_dict \<Rightarrow> json \<Rightarrow> line" where
  "narrate_run fl ev ty =
     (if ty = JStr ''run.started'' then Some (Inr (''[run] started'' @ dash @ ''scenario='' @ known fl ev ''scenario_ref''))
      else if ty = JStr ''run.complete'' then Some (Inr ''[run] complete'')
      else if ty = JStr ''run.failed'' then Some (Inr (''[run] FAILED'' @ dash @ fld fl ev ''error''))
      else if ty = JStr ''run.cancelled'' then Some (Inr ''[run] cancelled'')
      else if ty = JStr ''agent.spawning''
      then Some (Inr (''[agent] spawning '' @ agent_of fl ev @ '' on port '' @ raw fl ev ''port''))
      else if ty = JStr ''agent.ready''
      then Some (Inr (''[agent] ready    '' @ agent_of fl ev @ ''  aid='' @ short fl (get_json ev ''aid'') 28
                      @ ''  port='' @ raw fl ev ''port''))
      else None)"

definition narrate_trust :: "(pyfloat \<Rightarrow> string) \<Rightarrow> json_dict \<Rightarrow> json \<Rightarrow> line" where
  "narrate_trust fl ev ty =
     (if ty = JStr ''trust.peers_resolved''
      then Some (bindE (py_len (py_or (get_json ev ''peers'') (JObj []))) (\<lambda>n.
             Inr (''[trust] peer manifest URLs resolved ('' @ str_nat n @ '')'')))
      else if ty = JStr ''trust.establishing''
      then Some (Inr (''[trust] handshaking  '' @ fld fl ev ''initiator'' @ '' -> '' @ fld fl ev ''target''))
      else if ty = JStr ''trust.established''
      then Some (bindE (join_or (get_json ev ''grants'') ''<all-offered>'') (\<lambda>g.
             Inr (''[trust] established  '' @ fld fl ev ''initiator'' @ '' <- '' @ fld fl ev ''target''
                  @ ''  grants=['' @ g @ '']  jti='' @ short fl (get_json ev ''jti'') 14)))
      else if ty = JStr ''handshake.failed'' then Some (Inr (''[trust] FAILED handshake'' @ dash @ fld fl ev ''error''))
      else None)"

definition narrate_delegation :: "(pyfloat \<Rightarrow> string) \<Rightarrow> json_dict \<Rightarrow> json \<Rightarrow> line" where
  "narrate_delegation fl ev ty =
     (if ty = JStr ''delegation.issuing''
      then Some (bindE (join_or (get_json ev ''grants'') []) (\<lambda>g.
             Inr (''[delegate] issuing  '' @ fld fl ev ''initiator'' @ '' -> '' @ fld fl ev ''target'' @ ''  scope=['' @ g @ '']'')))
      else if ty = JStr ''delegation.issued'' then Some (Inr ''[delegate] issued'')
      else if ty = JStr ''delegation.redeeming''
      then Some (Inr (''[delegate] redeeming  '' @ fld fl ev ''initiator'' @ '' -> '' @ fld fl ev ''target''))
      else if ty = JStr ''delegation.redeemed''
      then Some (Inr (''[delegate] redeemed'' @ dash @ ''fresh TCT minted for delegatee''))
      else if ty = JStr ''delegation.rejected'' then Some (Inr (''[delegate] REJECTED'' @ dash @ fld fl ev ''error''))
      else None)"

definition narrate_revocation :: "(pyfloat \<Rightarrow> string) \<Rightarrow> json_dict \<Rightarrow> json \<Rightarrow> line" where
  "narrate_revocation fl ev ty =
     (if ty = JStr ''tct.revoked''
      then Some (Inr (''[revoke] local deny-set updated  jti='' @ short fl (get_json ev ''jti'') 14))
      else if ty = JStr ''revocation.published''
      then Some (Inr (''[revoke] published to CP  jti='' @ short fl (get_json ev ''jti'') 14 @ ''  to_cp=''
             @ (if get_json (result_of ev) ''to_cp'' \<noteq> JNull then raw fl (result_of ev) ''to_cp'' else ''?'')))
      else if ty = JStr ''revocation.list_fetched''
      then Some (Inr (''[revoke] CP revocation-list refreshed  jti_count='' @ known fl ev ''jti_count''
             @ ''  added='' @ known fl ev ''added''))
      else if ty = JStr ''revocation.refresh_failed''
      then Some (Inr (''[revoke] CP revocation refresh FAILED'' @ dash @ fld fl ev ''error''))
      else if ty = JStr ''identity.key.rotated''
      then Some (Inr (''[identity] '' @ agent_of fl ev @ '' rotated keys  new_aid='' @ short fl (get_json ev ''aid'') 28))
      else None)"

text \<open>\<open>" status=..."\<close> of a probe's answer.\<close>

definition status_part :: "(pyfloat \<Rightarrow> string) \<Rightarrow> json_dict \<Rightarrow> string" where
  "status_part fl res =
     (if truthy (get_json res ''status_code'') then '' status='' @ raw fl res ''status_code'' else [])"

definition narrate_step :: "(pyfloat \<Rightarrow> string) \<Rightarrow> json_dict \<Rightarrow> json \<Rightarrow> line" where
  "narrate_step fl ev ty =
     (let sid = fld fl ev ''step_id''; call = agent_of fl ev @ ''.'' @ fld fl ev ''capability'';
          probe = fld fl ev ''initiator'' @ '' -> '' @ fld fl ev ''target'' @ ''.'' @ fld fl ev ''capability'';
          res = result_of ev
      in if ty = JStr ''step.started'' then Some (Inr (''[step]  starting  id='' @ sid @ ''  '' @ call))
         else if ty = JStr ''step.complete'' then
           (if truthy (get_json ev ''capability'') then Some (Inr (''[step]  ok       id='' @ sid @ ''  '' @ call))
            else if dict_get res ''revoked_jti'' \<noteq> None then Some (Inr (''[step]  ok       id='' @ sid @ ''  revoke_tct''))
            else if dict_get res ''delegatee_aid'' \<noteq> None then Some (Inr (''[step]  ok       id='' @ sid @ ''  delegate''))
            else Some (Inr (''[step]  ok       id='' @ sid)))
         else if ty = JStr ''step.skipped''
         then Some (Inr (''[step]  skipped  id='' @ sid @ ''  ('' @ fld fl ev ''notes'' @ '')''))
         else if ty = JStr ''step.probing_no_trust'' then Some (Inr (''[probe] no-trust call  '' @ probe))
         else if ty = JStr ''step.probing_with_held_tct'' then Some (Inr (''[probe] with-TCT call  '' @ probe))
         else if ty = JStr ''step.access_denied''
         then Some (Inr (''[probe] DENIED   id='' @ sid @ ''  '' @ fld fl ev ''capability'' @ status_part fl res))
         else if ty = JStr ''step.unexpected_status'' then Some (Inr (''[probe] UNEXPECTED  id='' @ sid @ status_part fl res))
         else if ty = JStr ''step.fault_injected''
         then Some (Inr (''[fault] INJECTED  id='' @ sid @ ''  target='' @ fld fl ev ''target'' @ ''  ('' @ fld fl ev ''notes'' @ '')''))
         else if ty = JStr ''step.fault_complete''
         then Some (Inr (''[fault] complete  id='' @ sid @ ''  -> '' @ py_str fl (py_or (get_json res ''error'') (JStr ''no-error?''))))
         else None)"

definition narrate_enroll :: "(pyfloat \<Rightarrow> string) \<Rightarrow> json_dict \<Rightarrow> json \<Rightarrow> line" where
  "narrate_enroll fl ev ty =
     (if ty = JStr ''cp.enroll_started'' then Some (Inr (''[cp]    enrolling '' @ agent_of fl ev))
      else if ty = JStr ''cp.enroll_complete''
      then Some (Inr (''[cp]    enrolled  '' @ agent_of fl ev @ ''  aid='' @ short fl (get_json ev ''aid'') 28))
      else if ty = JStr ''cp.enroll_failed''
      then Some (Inr (''[cp]    enroll FAILED ('' @ known fl ev ''stage'' @ '')'' @ dash @ fld fl ev ''error''))
      else if ty = JStr ''cp.enroll_succeeded'' then Some (Inr (''[cp]    registered '' @ agent_of fl ev))
      else None)"

text \<open>The default of \<open>result.get\<close> in these branches is \<open>None\<close>: \<open>result\<close> is always a dict.\<close>

definition narrate_bundle :: "(pyfloat \<Rightarrow> string) \<Rightarrow> json_dict \<Rightarrow> json \<Rightarrow> line" where
  "narrate_bundle fl ev ty =
     (let res = result_of ev
      in if ty = JStr ''oidc.issuer_minted'' then Some (Inr (''[oidc]  per-run issuer minted  url='' @ raw fl res ''issuer_url''))
         else if ty = JStr ''tct.renewed''
         then Some (Inr (''[renew] '' @ agent_of fl ev @ '' <- '' @ fld fl ev ''target'' @ ''  new_jti=''
                @ short fl (get_json ev ''jti'') 14))
         else if ty = JStr ''session.bundle.exported''
         then Some (bindE (len_or (get_json res ''participant_aids'')) (\<lambda>n.
                Inr (''[bundle] exported  session='' @ short fl (get_json res ''session_id'') 14 @ ''  participants='' @ str_nat n)))
         else if ty = JStr ''session.bundle.verified''
         then Some (bindE (len_or (get_json res ''active_aids'')) (\<lambda>n.
                Inr (''[bundle] verified  kind='' @ raw fl res ''kind'' @ ''  active='' @ str_nat n)))
         else if ty = JStr ''spki.pin.checked'' then Some (Inr (''[spki]  pin checked  is_pinned='' @ raw fl res ''is_pinned''))
         else None)"

definition narrate_webhook :: "(pyfloat \<Rightarrow> string) \<Rightarrow> json_dict \<Rightarrow> json \<Rightarrow> line" where
  "narrate_webhook fl ev ty =
     (let res = result_of ev
      in if ty = JStr ''cp.webhook.subscribed''
         then Some (bindE (join_or (get_json res ''events'') ''<all>'') (\<lambda>evs.
                Inr (''[cp]    webhook subscribed  id='' @ short fl (get_json res ''id'') 14 @ ''  events=['' @ evs @ '']'')))
         else if ty = JStr ''cp.webhook.subscribe_failed''
         then Some (Inr (''[cp]    webhook subscribe FAILED'' @ dash @ py_str fl (py_or (get_json ev ''notes'') (JStr ''?''))))
         else if ty = JStr ''cp.webhook.delivered''
         then Some (Inr (''[cp]    webhook delivery  event_type='' @ known fl ev ''event_type'' @ ''  delivery=''
                @ short fl (get_json ev ''delivery_id'') 14))
         else None)"

definition narrate_exec :: "(pyfloat \<Rightarrow> string) \<Rightarrow> json_dict \<Rightarrow> json \<Rightarrow> line" where
  "narrate_exec fl ev ty =
     (if ty = JStr ''capability.self_execute''
      then Some (Inr (''[exec]  self     '' @ agent_of fl ev @ ''.'' @ fld fl ev ''capability''))
      else if ty = JStr ''llm.started'' then Some (Inr (''[llm]   started   task='' @ known fl ev ''task''))
      else if ty = JStr ''llm.complete'' then Some (Inr (''[llm]   complete  task='' @ known fl ev ''task''))
      else if ty = JStr ''llm.failed''
      then Some (Inr (''[llm]   failed    task='' @ known fl ev ''task'' @ ''  detail='' @ short fl (get_json ev ''detail'') 80))
      else None)"

fun first_line :: "(json_dict \<Rightarrow> json \<Rightarrow> line) list \<Rightarrow> json_dict \<Rightarrow> json \<Rightarrow> pyexc + string" where
  "first_line [] ev ty = Inr []"
| "first_line (f # fs) ev ty = (case f ev ty of Some r \<Rightarrow> r | None \<Rightarrow> first_line fs ev ty)"

definition narrate_event :: "(pyfloat \<Rightarrow> string) \<Rightarrow> json_dict \<Rightarrow> pyexc + string" where
  "narrate_event fl ev =
     first_line
       [narrate_run fl, narrate_trust fl, narrate_delegation fl, narrate_revocation fl, narrate_step fl,
        narrate_enroll fl, narrate_bundle fl, narrate_webhook fl, narrate_exec fl]
       ev (py_or (get_json ev ''type'') (JStr []))"

fun narrate_events :: "(pyfloat \<Rightarrow> string) \<Rightarrow> json_dict list \<Rightarrow> pyexc + string list" where
  "narrate_events fl [] = Inr []"
| "narrate_events fl (ev # evs) =
     bindE (narrate_event fl ev) (\<lambda>line.
     bindE (narrate_events fl evs) (\<lambda>out.
       Inr (if line = [] then out else line # out)))"

section \<open>Lemmas\<close>

text \<open>An event whose fields have the types the narrator's branches read.\<close>

definition strs_or_null :: "json \<Rightarrow> bool" where
  "strs_or_null v = (case v of JNull \<Rightarrow> True | JArr xs \<Rightarrow> list_all is_str xs | _ \<Rightarrow> False)"

definition narratable :: "json_dict \<Rightarrow> bool" where
  "narratable ev \<longleftrightarrow>
     strs_or_null (get_json ev ''grants'') \<and>
     (case get_json ev ''peers'' of JNull \<Rightarrow> True | JObj _ \<Rightarrow> True | _ \<Rightarrow> False) \<and>
     strs_or_null (get_json (result_of ev) ''participant_aids'') \<and>
     strs_or_null (get_json (result_of ev) ''active_aids'') \<and>
     strs_or_null (get_json (result_of ev) ''events'')"

lemma join_or_ok: "strs_or_null v \<Longrightarrow> \<exists>s. join_or v d = Inr s"
  by (cases v) (auto simp: strs_or_null_def join_or_def join_commas_def)

lemma len_or_ok: "strs_or_null v \<Longrightarrow> \<exists>n. len_or v = Inr n"
  by (cases v) (auto simp: strs_or_null_def len_or_def py_len_def py_or_def)

text \<open>What a group gives is no exception, and not the empty line: that one means unknown.\<close>

definition speaks :: "line \<Rightarrow> bool" where
  "speaks r = (case r of Some (Inl e) \<Rightarrow> False | Some (Inr s) \<Rightarrow> s \<noteq> [] | None \<Rightarrow> True)"

lemma speaks_if: "speaks a \<Longrightarrow> speaks b \<Longrightarrow> speaks (if c then a else b)"
  by simp

lemma speaks_simps [simp]: "speaks None" "speaks (Some (Inr (c # s)))"
  by (simp_all add: speaks_def)

lemma narrate_groups_speak:
  assumes "narratable ev"
  shows "speaks (narrate_run fl ev ty)" "speaks (narrate_trust fl ev ty)" "speaks (narrate_delegation fl ev ty)"
    "speaks (narrate_revocation fl ev ty)" "speaks (narrate_step fl ev ty)" "speaks (narrate_enroll fl ev ty)"
    "speaks (narrate_bundle fl ev ty)" "speaks (narrate_webhook fl ev ty)" "speaks (narrate_exec fl ev ty)"
proof -
  obtain g1 g2 n1 n2 n3 e where f:
    "join_or (get_json ev ''grants'') ''<all-offered>'' = Inr g1" "join_or (get_json ev ''grants'') [] = Inr g2"
    "py_len (py_or (get_json ev ''peers'') (JObj [])) = Inr n1"
    "len_or (get_json (result_of ev) ''participant_aids'') = Inr n2"
    "len_or (get_json (result_of ev) ''active_aids'') = Inr n3"
    "join_or (get_json (result_of ev) ''events'') ''<all>'' = Inr e"
  proof -
    have "\<exists>n. py_len (py_or (get_json ev ''peers'') (JObj [])) = Inr n"
      using assms by (cases "get_json ev ''peers''") (auto simp: narratable_def py_len_def py_or_def)
    with assms show ?thesis using that join_or_ok len_or_ok unfolding narratable_def by metis
  qed
  show "speaks (narrate_run fl ev ty)" "speaks (narrate_delegation fl ev ty)"
    "speaks (narrate_revocation fl ev ty)" "speaks (narrate_step fl ev ty)" "speaks (narrate_enroll fl ev ty)"
    "speaks (narrate_exec fl ev ty)" "speaks (narrate_trust fl ev ty)"
    "speaks (narrate_bundle fl ev ty)" "speaks (narrate_webhook fl ev ty)"
    unfolding narrate_run_def narrate_trust_def narrate_delegation_def narrate_revocation_def narrate_step_def
      narrate_enroll_def narrate_bundle_def narrate_webhook_def narrate_exec_def Let_def f
    by (intro speaks_if; simp add: bindE_def)+
qed

text \<open>The event types of the taxonomy that have a line, by group.\<close>

definition narrated_groups :: "string list list" where
  "narrated_groups =
     [[''run.started'', ''run.complete'', ''run.failed'', ''run.cancelled'', ''agent.spawning'', ''agent.ready''],
      [''trust.peers_resolved'', ''trust.establishing'', ''trust.established'', ''handshake.failed''],
      [''delegation.issuing'', ''delegation.issued'', ''delegation.redeeming'', ''delegation.redeemed'', ''delegation.rejected''],
      [''tct.revoked'', ''revocation.published'', ''revocation.list_fetched'', ''revocation.refresh_failed'', ''identity.key.rotated''],
      [''step.started'', ''step.complete'', ''step.skipped'', ''step.probing_no_trust'', ''step.probing_with_held_tct'',
       ''step.access_denied'', ''step.unexpected_status'', ''step.fault_injected'', ''step.fault_complete''],
      [''cp.enroll_started'', ''cp.enroll_complete'', ''cp.enroll_failed'', ''cp.enroll_succeeded''],
      [''oidc.issuer_minted'', ''tct.renewed'', ''session.bundle.exported'', ''session.bundle.verified'', ''spki.pin.checked''],
      [''cp.webhook.subscribed'', ''cp.webhook.subscribe_failed'', ''cp.webhook.delivered''],
      [''capability.self_execute'', ''llm.started'', ''llm.complete'', ''llm.failed'']]"

definition narrated_types :: "string set" where
  "narrated_types = set (concat narrated_groups)"

definition narrators :: "(pyfloat \<Rightarrow> string) \<Rightarrow> (json_dict \<Rightarrow> json \<Rightarrow> line) list" where
  "narrators fl =
     [narrate_run fl, narrate_trust fl, narrate_delegation fl, narrate_revocation fl, narrate_step fl,
      narrate_enroll fl, narrate_bundle fl, narrate_webhook fl, narrate_exec fl]"

text \<open>A chain of type tests is silent on the types it does not test for.\<close>

lemma silent_chain:
  "(None :: line) = None \<longleftrightarrow> ty \<notin> JStr ` set []"
  "a \<noteq> None \<Longrightarrow> r = None \<longleftrightarrow> ty \<notin> JStr ` set ts \<Longrightarrow>
     (if ty = JStr t then a else r :: line) = None \<longleftrightarrow> ty \<notin> JStr ` set (t # ts)"
  by auto

lemma narrate_groups_silent:
  "list_all2 (\<lambda>f ts. f ev ty = None \<longleftrightarrow> ty \<notin> JStr ` set ts) (narrators fl) narrated_groups"
  unfolding narrators_def narrated_groups_def list_all2_Cons list_all2_Nil2
  by (intro conjI refl; unfold narrate_run_def narrate_trust_def narrate_delegation_def narrate_revocation_def narrate_step_def
      narrate_enroll_def narrate_bundle_def narrate_webhook_def narrate_exec_def Let_def; intro silent_chain; simp)

lemma narrators_silent:
  "(\<forall>f \<in> set (narrators fl). f ev ty = None) \<longleftrightarrow> ty \<notin> JStr ` narrated_types"
proof -
  have "list_all2 (\<lambda>f ts. f = None \<longleftrightarrow> ty \<notin> JStr ` set ts) fs tss \<Longrightarrow>
      (\<forall>f \<in> set fs. f = None) \<longleftrightarrow> ty \<notin> JStr ` set (concat tss)" for fs :: "line list" and tss
    by (induction fs tss rule: list_all2_induct) auto
  from this [of "map (\<lambda>f. f ev ty) (narrators fl)" narrated_groups] narrate_groups_silent [of ev ty fl]
  show ?thesis by (simp add: list_all2_map1 narrated_types_def)
qed

lemma first_line_silent:
  "(\<forall>f \<in> set fs. speaks (f ev ty)) \<Longrightarrow>
     \<exists>s. first_line fs ev ty = Inr s \<and> (s = [] \<longleftrightarrow> (\<forall>f \<in> set fs. f ev ty = None))"
  by (induction fs) (auto simp: speaks_def split: option.splits sum.splits)

lemma narrate_event_typed:
  assumes "narratable ev"
  shows "\<exists>s. narrate_event fl ev = Inr s \<and> (s \<noteq> [] \<longleftrightarrow> get_json ev ''type'' \<in> JStr ` narrated_types)"
proof -
  define ty where "ty = py_or (get_json ev ''type'') (JStr [])"
  have "[] \<notin> narrated_types" by (simp add: narrated_types_def narrated_groups_def)
  then have ty: "ty \<in> JStr ` narrated_types \<longleftrightarrow> get_json ev ''type'' \<in> JStr ` narrated_types"
    by (cases "get_json ev ''type''") (auto simp: ty_def py_or_def)
  have "\<forall>f \<in> set (narrators fl). speaks (f ev ty)" using narrate_groups_speak [OF assms] by (simp add: narrators_def)
  from first_line_silent [OF this] narrators_silent [of fl ev ty] ty show ?thesis
    by (auto simp: narrate_event_def narrators_def ty_def [symmetric])
qed

section \<open>Theorems\<close>

text \<open>
  C22: a log whose events have the types the narrator reads is narrated without an exception, and
  its lines are exactly the lines of the events whose type is in the taxonomy, in the log's order:
  no such event is dropped and no other is shown.
\<close>

theorem narration_exact:
  assumes "\<forall>ev \<in> set evs. narratable ev"
  shows "\<exists>lines. narrate_events fl evs = Inr lines \<and> [] \<notin> set lines \<and>
    map Inr lines = map (narrate_event fl) (filter (\<lambda>ev. get_json ev ''type'' \<in> JStr ` narrated_types) evs)"
  using assms
proof (induction evs)
  case (Cons ev evs)
  then obtain lines where "narrate_events fl evs = Inr lines" "[] \<notin> set lines"
    "map Inr lines = map (narrate_event fl) (filter (\<lambda>ev. get_json ev ''type'' \<in> JStr ` narrated_types) evs)"
    by auto
  with narrate_event_typed [of ev fl] Cons.prems show ?case by (auto simp: bindE_def)
qed simp

theorem narration_exact_witness:
  "\<exists>lines. narrate_events (\<lambda>_. ''0.0'')
       [[(''type'', JStr ''run.started''), (''scenario_ref'', JStr ''p/s@1'')], [(''type'', JStr ''custom'')],
        [(''type'', JStr ''trust.established''), (''grants'', JArr [JStr ''a'', JStr ''b''])]] = Inr lines \<and> [] \<notin> set lines \<and>
     length lines = 2"
proof -
  let ?evs = "[[(''type'', JStr ''run.started''), (''scenario_ref'', JStr ''p/s@1'')], [(''type'', JStr ''custom'')],
        [(''type'', JStr ''trust.established''), (''grants'', JArr [JStr ''a'', JStr ''b''])]]"
  have "\<forall>ev \<in> set ?evs. narratable ev"
    by (simp add: narratable_def strs_or_null_def get_json_def result_of_def)
  from narration_exact [OF this, of "\<lambda>_. ''0.0''"] obtain lines where
    l: "narrate_events (\<lambda>_. ''0.0'') ?evs = Inr lines" "[] \<notin> set lines"
      "map Inr lines = map (narrate_event (\<lambda>_. ''0.0''))
        (filter (\<lambda>ev. get_json ev ''type'' \<in> JStr ` narrated_types) ?evs)" by blast
  from arg_cong [where f = length, OF l(3)] have "length lines = 2"
    by (simp add: get_json_def narrated_types_def narrated_groups_def)
  with l show ?thesis by blast
qed

text \<open>An event of another shape, such as an agent's telemetry, makes the whole narration raise.\<close>

theorem narration_raises:
  "narrate_events fl [[(''type'', JStr ''trust.established''), (''grants'', JInt 1)]] =
     Inl (PyExc TypeError None ''can only join an iterable'')"
  by (simp add: narrate_event_def narrate_run_def narrate_trust_def py_or_def get_json_def join_or_def join_commas_def bindE_def)

end
