(* ===== verification/Run_Routes.thy ===== *)
theory Run_Routes
  imports Run_Logic Narrator
begin

text \<open>
  \<open>src/aitp_playground/api/runs.py\<close> and \<open>api/telemetry.py\<close>: the routes of the runs. A
  route is a function of the store (and of the Control Plane's answer, where it asks one); its
  response is the JSON object FastAPI writes. The guards of the routes are in \<open>Api_Auth\<close>. The
  values of a record have the types its writers give them, so the response models accept them;
  an event of the log is an object.

  Cancelling runs in another thread than the run: the section on interleavings takes every
  access of the store by the run, by the cancellers and by other writers as one step.

  What is shown: no route reveals the secret of a run's webhook; a stream sends the log in order
  and ends only when everything logged was sent; a run that was marked cancelled never becomes
  running or successful again, whatever the interleaving.
\<close>

section \<open>Creating and reading runs\<close>

record run_request =
  rq_scenario_ref :: string
  rq_inputs :: json_dict
  rq_run_label :: "string option"
  rq_template :: "string option"

abbreviation run_not_found :: "string \<Rightarrow> api_exc" where
  "run_not_found run_id \<equiv> Playground (run_not_found_error (''Run '' @ run_id @ '' not found''))"

definition pending_record :: "string \<Rightarrow> run_request \<Rightarrow> json_dict" where
  "pending_record run_id body =
     [(''run_id'', JStr run_id), (''status'', JStr ''pending''), (''scenario_ref'', JStr (rq_scenario_ref body)),
      (''run_label'', jstr_opt (rq_run_label body)), (''outputs'', JObj []), (''events'', JArr []), (''error'', JNull)]"

text \<open>The response, the store, and the arguments of the background task; \<open>run_id\<close> is the new UUID.\<close>

definition create_run :: "string \<Rightarrow> rat \<Rightarrow> run_request \<Rightarrow> run_store \<Rightarrow> json_dict \<times> run_store \<times> run_args" where
  "create_run run_id now body st =
     ([(''run_id'', JStr run_id), (''status'', JStr ''pending''), (''scenario_ref'', JStr (rq_scenario_ref body)),
       (''run_label'', jstr_opt (rq_run_label body))],
      upsert run_id (pending_record run_id body) now st,
      \<lparr>ar_scenario_ref = rq_scenario_ref body, ar_inputs = rq_inputs body, ar_run_label = rq_run_label body,
       ar_template = rq_template body\<rparr>)"

text \<open>The background task: what leaves the run is logged and dropped.\<close>

definition run_in_background :: "run_env \<Rightarrow> run_args \<Rightarrow> run_world \<Rightarrow> run_world option" where
  "run_in_background re ar w = map_option snd (run_scenario re ar w)"

definition run_summary :: "string \<Rightarrow> json_dict \<Rightarrow> json" where
  "run_summary run_id r =
     JObj [(''run_id'', JStr run_id), (''status'', get_json r ''status''), (''scenario_ref'', get_json r ''scenario_ref''),
           (''run_label'', get_json r ''run_label''), (''created_at'', get_json r ''created_at''),
           (''event_count'', JInt (int (length (events_of r))))]"

definition list_runs :: "run_store \<Rightarrow> json_dict" where
  "list_runs st = [(''runs'', JArr (map (\<lambda>run_id. run_summary run_id (get_run_dict st run_id)) (list_ids st)))]"

definition get_run :: "string \<Rightarrow> run_store \<Rightarrow> api_exc + json_dict" where
  "get_run run_id st =
     (case get_run_record run_id st of
        None \<Rightarrow> Inl (run_not_found run_id)
      | Some r \<Rightarrow>
          (case dict_get r ''run_id'' of
             None \<Rightarrow> Inl (Unhandled (PyExc KeyError None ''run_id''))
           | Some i \<Rightarrow>
               Inr [(''run_id'', i), (''status'', py_or (get_json r ''status'') (JStr ''unknown'')),
                    (''scenario_ref'', py_or (get_json r ''scenario_ref'') (JStr [])), (''run_label'', get_json r ''run_label''),
                    (''outputs'', py_or (get_json r ''outputs'') (JObj [])), (''events'', JArr (events_of r)),
                    (''error'', get_json r ''error''), (''created_at'', get_json r ''created_at'')]))"

definition get_run_status :: "string \<Rightarrow> run_store \<Rightarrow> api_exc + json_dict" where
  "get_run_status run_id st =
     (case get_run_record run_id st of
        None \<Rightarrow> Inl (run_not_found run_id)
      | Some r \<Rightarrow>
          Inr [(''run_id'', JStr run_id), (''status'', get_json r ''status''),
               (''event_count'', JInt (int (length (events_of r)))), (''created_at'', get_json r ''created_at'')])"

section \<open>The Control Plane's view of a run\<close>

text \<open>
  \<open>sorted({e.get("type") for e in events if e.get("type")})\<close> as the response model's list of texts: a
  type that is no text raises, when it is hashed, when it is compared with a text or when the
  response is validated. The order of texts is that of their bytes.
\<close>

definition event_types :: "json list \<Rightarrow> pyexc + string list" where
  "event_types events =
     (if \<not> list_all is_dict events then Inl (PyExc AttributeError None ''object has no attribute get'')
      else
        (let types = filter truthy (map (\<lambda>e. get_json (case e of JObj d \<Rightarrow> d | _ \<Rightarrow> []) ''type'') events)
         in if \<not> list_all hashable types then Inl (PyExc TypeError None ''unhashable type'')
            else if list_all is_str types
            then Inr (sorted_list_of_set (set (map (\<lambda>t. case t of JStr s \<Rightarrow> s | _ \<Rightarrow> []) types)))
            else if list_ex is_str types then Inl (PyExc TypeError None ''not supported between instances'')
            else Inl (PyExc ValueError None ''CpAuditResponse'')))"

definition unhandled :: "pyexc + 'x \<Rightarrow> api_exc + 'x" where
  "unhandled r = (case r of Inl e \<Rightarrow> Inl (Unhandled e) | Inr x \<Rightarrow> Inr x)"

definition get_run_cp_audit :: "cp_settings \<Rightarrow> http_result \<Rightarrow> string \<Rightarrow> run_store \<Rightarrow> api_exc + json_dict" where
  "get_run_cp_audit cs answer run_id st =
     (if get_run_record run_id st = None then Inl (run_not_found run_id)
      else if \<not> cp_enabled cs
      then Inr [(''run_id'', JStr run_id), (''cp_enabled'', JBool False), (''events'', JArr []), (''event_types'', JArr []), (''count'', JInt 0)]
      else
        unhandled (bindE (fetch_events_history answer) (\<lambda>events. bindE (event_types events) (\<lambda>types.
          Inr [(''run_id'', JStr run_id), (''cp_enabled'', JBool True), (''events'', JArr events),
               (''event_types'', JArr (map JStr types)), (''count'', JInt (int (length events)))]))))"

text \<open>The sessions are not read, only returned: the response model refuses one that is no object.\<close>

definition get_run_cp_sessions :: "cp_settings \<Rightarrow> http_result \<Rightarrow> string \<Rightarrow> run_store \<Rightarrow> api_exc + json_dict" where
  "get_run_cp_sessions cs answer run_id st =
     (if get_run_record run_id st = None then Inl (run_not_found run_id)
      else if \<not> cp_enabled cs
      then Inr [(''run_id'', JStr run_id), (''cp_enabled'', JBool False), (''sessions'', JArr []), (''count'', JInt 0)]
      else
        unhandled (bindE (fetch_sessions answer) (\<lambda>sessions.
          if \<not> list_all is_dict sessions then Inl (PyExc ValueError None ''CpSessionsResponse'')
          else Inr [(''run_id'', JStr run_id), (''cp_enabled'', JBool True), (''sessions'', JArr sessions),
                    (''count'', JInt (int (length sessions)))])))"

definition delivered :: "string option \<Rightarrow> json \<Rightarrow> bool" where
  "delivered event_type e =
     (case e of
        JObj d \<Rightarrow> get_json d ''type'' = JStr ''cp.webhook.delivered''
                  \<and> (case event_type of None \<Rightarrow> True | Some t \<Rightarrow> get_json d ''event_type'' = JStr t)
      | _ \<Rightarrow> False)"

definition webhook_view :: "json \<Rightarrow> json" where
  "webhook_view cp_webhook =
     (if truthy cp_webhook
      then (case cp_webhook of JObj d \<Rightarrow> JObj (filter (\<lambda>(k, v). k \<noteq> ''secret'') d) | _ \<Rightarrow> JNull) else JNull)"

definition get_run_cp_deliveries :: "string option \<Rightarrow> string \<Rightarrow> run_store \<Rightarrow> api_exc + json_dict" where
  "get_run_cp_deliveries event_type run_id st =
     (case get_run_record run_id st of
        None \<Rightarrow> Inl (run_not_found run_id)
      | Some r \<Rightarrow>
          (let events = filter (delivered event_type) (events_of r)
           in Inr [(''run_id'', JStr run_id), (''subscribed'', JBool (truthy (get_json r ''cp_webhook''))),
                   (''webhook'', webhook_view (get_json r ''cp_webhook'')), (''deliveries'', JArr events),
                   (''count'', JInt (int (length events)))]))"

definition event_dicts :: "json list \<Rightarrow> json_dict list" where
  "event_dicts es = map (\<lambda>e. case e of JObj d \<Rightarrow> d | _ \<Rightarrow> []) es"

definition get_run_narrate :: "(pyfloat \<Rightarrow> string) \<Rightarrow> string \<Rightarrow> run_store \<Rightarrow> api_exc + string" where
  "get_run_narrate fl run_id st =
     (case get_run_record run_id st of
        None \<Rightarrow> Inl (run_not_found run_id)
      | Some r \<Rightarrow>
          unhandled (bindE (narrate_events fl (event_dicts (events_of r))) (\<lambda>lines.
            Inr (join_str [CHR 0x0A] (lines @
                   [''[run] status='' @ py_str fl (py_or (get_json r ''status'') (JStr ''unknown''))
                    @ ''  events='' @ str_nat (length (events_of r)) @ ''  narrated='' @ str_nat (length lines)]) @ [CHR 0x0A]))))"

section \<open>Telemetry\<close>

text \<open>
  \<open>body.get("run_id") or body.get("playground", {}).get("run_id")\<close>. The store of the model is keyed
  by text: a truthy identifier that is no text has the value \<open>None\<close> here.
\<close>

definition telemetry_run_id :: "json \<Rightarrow> pyexc + json" where
  "telemetry_run_id body =
     (case body of
        JObj d \<Rightarrow>
          if truthy (get_json d ''run_id'') then Inr (get_json d ''run_id'')
          else (case dict_get d ''playground'' of
                  None \<Rightarrow> Inr JNull
                | Some (JObj p) \<Rightarrow> Inr (get_json p ''run_id'')
                | Some _ \<Rightarrow> Inl (PyExc AttributeError None ''object has no attribute get''))
      | _ \<Rightarrow> Inl (PyExc AttributeError None ''object has no attribute get''))"

definition post_telemetry :: "string \<Rightarrow> rat \<Rightarrow> run_store \<Rightarrow> ((api_exc + json_dict) \<times> run_store) option" where
  "post_telemetry content now st =
     (case loads_bytes content of
        None \<Rightarrow> Some (Inl (Unhandled (PyExc ValueError None ''JSONDecodeError'')), st)
      | Some body \<Rightarrow>
          (case telemetry_run_id body of
             Inl e \<Rightarrow> Some (Inl (Unhandled e), st)
           | Inr (JStr run_id) \<Rightarrow>
               Some (Inr [(''ok'', JBool True)], if run_id = [] then st else append_event run_id body now st)
           | Inr v \<Rightarrow> if truthy v then None else Some (Inr [(''ok'', JBool True)], st)))"

section \<open>Cancelling\<close>

definition TERMINAL_STATUSES :: "json list" where
  "TERMINAL_STATUSES = [JStr ''success'', JStr ''failed'', JStr ''cancelled'']"

text \<open>The guard: the answer of a refused request, \<open>None\<close> when the run is to be cancelled.\<close>

definition cancel_refusal :: "string \<Rightarrow> run_store \<Rightarrow> (api_exc + json_dict) option" where
  "cancel_refusal run_id st =
     (case get_run_record run_id st of
        None \<Rightarrow> Some (Inl (run_not_found run_id))
      | Some r \<Rightarrow>
          if status_of r \<in> set TERMINAL_STATUSES
          then Some (Inr [(''run_id'', JStr run_id), (''status'', status_of r), (''cancelled'', JBool False),
                          (''reason'', JStr ''already terminal'')])
          else None)"

definition cancel_mark :: "string \<Rightarrow> rat \<Rightarrow> run_store \<Rightarrow> run_store" where
  "cancel_mark run_id now st = upsert run_id [(''status'', cancelled)] now st"

definition cancelled_event :: "string \<Rightarrow> rat \<Rightarrow> json_dict" where
  "cancelled_event run_id ts =
     (case run_event ''run.cancelled'' [(''run_id'', JStr run_id)] ts of Inr ev \<Rightarrow> ev | Inl _ \<Rightarrow> [])"

definition cancel_log :: "string \<Rightarrow> rat \<Rightarrow> rat \<Rightarrow> run_store \<Rightarrow> run_store" where
  "cancel_log run_id ts now st = append_event run_id (JObj (cancelled_event run_id ts)) now st"

definition cancel_run ::
  "os \<Rightarrow> (nat \<Rightarrow> rat) \<Rightarrow> string \<Rightarrow> run_store \<times> metrics \<times> supervisor \<Rightarrow>
    (api_exc + json_dict) \<times> (run_store \<times> metrics \<times> supervisor)" where
  "cancel_run sys clk run_id w =
     (case w of
        (st, m, sv) \<Rightarrow>
          (case cancel_refusal run_id st of
             Some answer \<Rightarrow> (answer, w)
           | None \<Rightarrow>
               (Inr [(''run_id'', JStr run_id), (''status'', cancelled), (''cancelled'', JBool True)],
                cancel_log run_id (clk 1) (clk 2) (cancel_mark run_id (clk 0) st),
                record_event (cancelled_event run_id (clk 1)) m,
                kill_run sys run_id sv)))"

lemma cancelled_event_valid:
  "run_event ''run.cancelled'' [(''run_id'', JStr run_id)] ts = Inr (cancelled_event run_id ts)"
  by (simp add: cancelled_event_def run_event_def RUN_EVENT_FIELDS_def field_valid_def get_json_def Let_def)

lemma cancelled_event_type: "get_json (cancelled_event run_id ts) ''type'' = JStr ''run.cancelled''"
  by (rule run_event_type [OF cancelled_event_valid])

section \<open>Interleavings of a run and its cancellers\<close>

text \<open>
  Where the run stands: before its first write, in its body, having written its success, or on
  the failure path (\<open>emit_failed\<close>: check, then the event; \<open>finalize_failure\<close>: check, then the
  status). A canceller has passed its guard, marked the run, and logged the event.
\<close>

datatype runner_pc = RunStart | RunBody | RunWon | FailCheck | FailEmit | FailFinal | FailPut | RunOver

datatype cancel_pc = CancelIdle | CancelMark | CancelLog | CancelDone | CancelRefused

record race =
  rc_store :: run_store
  rc_runner :: runner_pc
  rc_cancels :: "cancel_pc list"

definition outcome_event :: "json \<Rightarrow> bool" where
  "outcome_event e =
     (case e of JObj d \<Rightarrow> get_json d ''type'' \<in> {JStr ''run.complete'', JStr ''run.failed''} | _ \<Rightarrow> False)"

definition writes_status :: "json_dict \<Rightarrow> string \<Rightarrow> bool" where
  "writes_status r s \<longleftrightarrow> wf_dict r \<and> dict_get r ''status'' = Some (JStr s)"

inductive race_step :: "string \<Rightarrow> race \<Rightarrow> race \<Rightarrow> bool" for run_id :: string where
  start: "rc_runner s = RunStart \<Longrightarrow> writes_status r ''running'' \<Longrightarrow>
    race_step run_id s (s\<lparr>rc_store := snd (upsert_unless_cancelled run_id r t (rc_store s)), rc_runner := RunBody\<rparr>)"
| succeed: "rc_runner s = RunBody \<Longrightarrow> writes_status r ''success'' \<Longrightarrow>
    upsert_unless_cancelled run_id r t (rc_store s) = (written, st) \<Longrightarrow>
    race_step run_id s (s\<lparr>rc_store := st, rc_runner := (if written then RunWon else RunOver)\<rparr>)"
| complete: "rc_runner s = RunWon \<Longrightarrow> get_json ev ''type'' = JStr ''run.complete'' \<Longrightarrow>
    race_step run_id s (s\<lparr>rc_store := append_event run_id (JObj ev) t (rc_store s), rc_runner := RunOver\<rparr>)"
| break: "rc_runner s = RunBody \<Longrightarrow> p \<in> {FailCheck, FailFinal} \<Longrightarrow> race_step run_id s (s\<lparr>rc_runner := p\<rparr>)"
| fail_check: "rc_runner s = FailCheck \<Longrightarrow>
    race_step run_id s (s\<lparr>rc_runner := (if is_cancelled run_id (rc_store s) then FailFinal else FailEmit)\<rparr>)"
| fail_emit: "rc_runner s = FailEmit \<Longrightarrow> get_json ev ''type'' = JStr ''run.failed'' \<Longrightarrow>
    race_step run_id s (s\<lparr>rc_store := append_event run_id (JObj ev) t (rc_store s), rc_runner := FailFinal\<rparr>)"
| fail_final: "rc_runner s = FailFinal \<Longrightarrow>
    race_step run_id s (s\<lparr>rc_runner := (if is_cancelled run_id (rc_store s) then RunOver else FailPut)\<rparr>)"
| fail_put: "rc_runner s = FailPut \<Longrightarrow> writes_status r ''failed'' \<Longrightarrow>
    race_step run_id s (s\<lparr>rc_store := upsert run_id r t (rc_store s), rc_runner := RunOver\<rparr>)"
| guard: "i < length (rc_cancels s) \<Longrightarrow> rc_cancels s ! i = CancelIdle \<Longrightarrow>
    race_step run_id s (s\<lparr>rc_cancels :=
      (rc_cancels s)[i := (if cancel_refusal run_id (rc_store s) = None then CancelMark else CancelRefused)]\<rparr>)"
| mark: "i < length (rc_cancels s) \<Longrightarrow> rc_cancels s ! i = CancelMark \<Longrightarrow>
    race_step run_id s (s\<lparr>rc_store := cancel_mark run_id t (rc_store s), rc_cancels := (rc_cancels s)[i := CancelLog]\<rparr>)"
| log: "i < length (rc_cancels s) \<Longrightarrow> rc_cancels s ! i = CancelLog \<Longrightarrow>
    race_step run_id s (s\<lparr>rc_store := cancel_log run_id ts t (rc_store s), rc_cancels := (rc_cancels s)[i := CancelDone]\<rparr>)"
| other_append: "\<not> outcome_event e \<Longrightarrow>
    race_step run_id s (s\<lparr>rc_store := append_event rid' e t (rc_store s)\<rparr>)"
| other_put: "wf_dict r \<Longrightarrow> rid' \<noteq> run_id \<or> dict_get r ''status'' = None \<and> dict_get r ''events'' = None \<Longrightarrow>
    race_step run_id s (s\<lparr>rc_store := upsert rid' r t (rc_store s)\<rparr>)"

text \<open>A request for a new run has stored it; nobody has cancelled it yet.\<close>

definition race_init :: "string \<Rightarrow> race \<Rightarrow> bool" where
  "race_init run_id s \<longleftrightarrow>
     status_in (get_run_record run_id (rc_store s)) = JStr ''pending'' \<and> rc_runner s = RunStart \<and>
     set (rc_cancels s) \<subseteq> {CancelIdle}"

definition race_status :: "string \<Rightarrow> race \<Rightarrow> json" where
  "race_status run_id s = status_in (get_run_record run_id (rc_store s))"

definition outcomes :: "string \<Rightarrow> race \<Rightarrow> json list" where
  "outcomes run_id s = filter outcome_event (events_in (get_run_record run_id (rc_store s)))"

definition marked :: "race \<Rightarrow> bool" where
  "marked s \<longleftrightarrow> CancelLog \<in> set (rc_cancels s) \<or> CancelDone \<in> set (rc_cancels s)"

definition race_inv :: "string \<Rightarrow> race \<Rightarrow> bool" where
  "race_inv run_id s \<longleftrightarrow>
     get_run_record run_id (rc_store s) \<noteq> None \<and>
     (marked s \<longrightarrow> race_status run_id s = cancelled \<or> race_status run_id s = JStr ''failed'' \<and> rc_runner s = RunOver)"

text \<open>The effect of the store's operations on the run's status, from the interface of a run log.\<close>

lemma race_status_simps:
  "dict_get r ''status'' = Some v \<Longrightarrow> wf_dict r \<Longrightarrow> status_in (get_run_record i (upsert i r t st)) = v"
  "get_run_record i st \<noteq> None \<Longrightarrow> status_in (get_run_record i (append_event i e t st)) = status_in (get_run_record i st)"
  "j \<noteq> i \<Longrightarrow> get_run_record i (append_event j e t st) = get_run_record i st"
  "j \<noteq> i \<Longrightarrow> get_run_record i (upsert j r t st) = get_run_record i st"
  by (auto simp: mem.put_status mem.append_status mem.append_other mem.put_other)

lemma get_run_record_exists [simp]:
  "\<exists>y. get_run_record i (upsert i r t st) = Some y" "\<exists>y. get_run_record i (append_event i e t st) = Some y"
  by (simp_all add: get_run_record_def upsert_def merge_locked_def append_event_def Let_def)

lemma status_kept_put:
  "wf_dict r \<Longrightarrow> dict_get r ''status'' = None \<Longrightarrow>
     status_in (get_run_record i (upsert i r t st)) = status_in (get_run_record i st)"
  by (simp add: mem.put_status)

lemma update_other: "i < length cs \<Longrightarrow> cs ! i \<noteq> x \<Longrightarrow> x \<noteq> p \<Longrightarrow> x \<in> set (cs[i := p]) \<longleftrightarrow> x \<in> set cs"
  by (auto simp: in_set_conv_nth nth_list_update)

lemma race_step_inv: "race_step run_id s s' \<Longrightarrow> race_inv run_id s \<Longrightarrow> race_inv run_id s'"
proof (induction rule: race_step.induct)
  case (start s r t)
  then show ?case
    by (auto simp: race_inv_def race_status_def marked_def mem.put_unless writes_status_def)
next
  case (succeed s r t written st)
  then show ?case
    by (auto simp: race_inv_def race_status_def marked_def mem.put_unless writes_status_def split: if_splits)
next
  case (complete s ev t)
  then show ?case by (auto simp: race_inv_def race_status_def marked_def race_status_simps)
next
  case (fail_emit s ev t)
  then show ?case by (auto simp: race_inv_def race_status_def marked_def race_status_simps)
next
  case (fail_put s r t)
  then show ?case by (auto simp: race_inv_def race_status_def marked_def race_status_simps writes_status_def)
next
  case (guard i s)
  then show ?case by (auto simp: race_inv_def race_status_def marked_def update_other split: if_splits)
next
  case (mark i s t)
  then show ?case by (auto simp: race_inv_def race_status_def cancel_mark_def race_status_simps)
next
  case (log i s ts t)
  then have "marked s" by (auto simp: marked_def) (metis nth_mem)
  with log show ?case by (auto simp: race_inv_def race_status_def cancel_log_def race_status_simps)
next
  case (other_append e s rid' t)
  then show ?case by (cases "rid' = run_id") (auto simp: race_inv_def race_status_def marked_def race_status_simps)
next
  case (other_put r rid' s t)
  then show ?case by (cases "rid' = run_id") (auto simp: race_inv_def race_status_def marked_def race_status_simps status_kept_put)
qed (auto simp: race_inv_def race_status_def marked_def)

lemma race_reach_inv: "(race_step run_id)\<^sup>*\<^sup>* s s' \<Longrightarrow> race_inv run_id s \<Longrightarrow> race_inv run_id s'"
  by (induction rule: rtranclp_induct) (auto intro: race_step_inv)

lemma race_init_inv: "race_init run_id s \<Longrightarrow> race_inv run_id s"
  by (auto simp: race_init_def race_inv_def marked_def status_in_def split: option.splits)

text \<open>A run marked before its failure or success was decided: every later check of the run sees it.\<close>

definition mark_seen :: "string \<Rightarrow> race \<Rightarrow> bool" where
  "mark_seen run_id s \<longleftrightarrow>
     get_run_record run_id (rc_store s) \<noteq> None \<and> race_status run_id s = cancelled \<and>
     rc_runner s \<in> {RunStart, RunBody, FailCheck, FailFinal, RunOver}"

lemma outcomes_simps:
  "filter outcome_event (events_in (get_run_record i (append_event j e t st))) =
     filter outcome_event (events_in (get_run_record i st)) @ (if i = j \<and> outcome_event e then [e] else [])"
  "filter outcome_event (events_in (get_run_record i (upsert j r t st))) =
     filter outcome_event (events_in (get_run_record i st)) @ (if i = j then filter outcome_event (events_of r) else [])"
  by (cases "j = i"; auto simp: mem.append_events mem.put_events race_status_simps)+

lemma mark_seen_step:
  "race_step run_id s s' \<Longrightarrow> mark_seen run_id s \<Longrightarrow> mark_seen run_id s' \<and> outcomes run_id s' = outcomes run_id s"
proof (induction rule: race_step.induct)
  case (mark i s t)
  then show ?case
    by (auto simp: mark_seen_def race_status_def cancel_mark_def race_status_simps outcomes_def outcomes_simps events_of_def)
next
  case (log i s ts t)
  then show ?case
    by (auto simp: mark_seen_def race_status_def cancel_log_def race_status_simps outcomes_def outcomes_simps
        outcome_event_def cancelled_event_type)
next
  case (other_append e s rid' t)
  then show ?case
    by (cases "rid' = run_id") (auto simp: mark_seen_def race_status_def race_status_simps outcomes_def outcomes_simps)
next
  case (other_put r rid' s t)
  then show ?case
    by (cases "rid' = run_id")
      (auto simp: mark_seen_def race_status_def race_status_simps status_kept_put outcomes_def outcomes_simps events_of_def)
qed (auto simp: mark_seen_def race_status_def mem.put_unless is_cancelled_def outcomes_def)

lemma mark_seen_reach:
  "(race_step run_id)\<^sup>*\<^sup>* s s' \<Longrightarrow> mark_seen run_id s \<Longrightarrow> mark_seen run_id s' \<and> outcomes run_id s' = outcomes run_id s"
  by (induction rule: rtranclp_induct) (auto dest: mark_seen_step)

lemma marked_step: "race_step run_id s s' \<Longrightarrow> marked s \<Longrightarrow> marked s'"
  by (induction rule: race_step.induct)
    (auto simp: marked_def update_other set_update_memI)

lemma marked_reach: "(race_step run_id)\<^sup>*\<^sup>* s s' \<Longrightarrow> marked s \<Longrightarrow> marked s'"
  by (induction rule: rtranclp_induct) (auto dest: marked_step)

section \<open>Theorems\<close>


definition demo_race :: race where
  "demo_race =
     \<lparr>rc_store = upsert ''r'' (pending_record ''r'' \<lparr>rq_scenario_ref = ''p/s@1'', rq_inputs = [], rq_run_label = None, rq_template = None\<rparr>)
        0 run_store_init,
      rc_runner = RunStart, rc_cancels = [CancelIdle]\<rparr>"

lemma demo_race_init: "race_init ''r'' demo_race"
  by (simp add: race_init_def demo_race_def pending_record_def mem.put_status)

text \<open>The run starts and the canceller passes its guard.\<close>

definition demo_guarded :: race where
  "demo_guarded = demo_race\<lparr>rc_store := snd (upsert_unless_cancelled ''r'' [(''status'', JStr ''running'')] 1 (rc_store demo_race)),
     rc_runner := RunBody, rc_cancels := [CancelMark]\<rparr>"

lemma demo_guarded_status: "race_status ''r'' demo_guarded = JStr ''running''"
  by (simp add: race_status_def demo_guarded_def demo_race_def pending_record_def mem.put_unless mem.put_status)

lemma demo_guarded_reached: "(race_step ''r'')\<^sup>*\<^sup>* demo_race demo_guarded"
proof -
  let ?s1 = "demo_race\<lparr>rc_store := snd (upsert_unless_cancelled ''r'' [(''status'', JStr ''running'')] 1 (rc_store demo_race)), rc_runner := RunBody\<rparr>"
  have "race_step ''r'' demo_race ?s1"
    by (rule race_step.start) (simp_all add: demo_race_def writes_status_def)
  moreover have "cancel_refusal ''r'' (rc_store ?s1) = None"
    using demo_guarded_status
    by (auto simp: cancel_refusal_def race_status_def status_in_def demo_guarded_def TERMINAL_STATUSES_def split: option.splits)
  then have "race_step ''r'' ?s1 demo_guarded"
    using race_step.guard [of 0 ?s1 "''r''"] by (simp add: demo_guarded_def demo_race_def)
  ultimately show ?thesis by auto
qed

abbreviation demo_marked :: race where
  "demo_marked \<equiv> demo_guarded\<lparr>rc_store := cancel_mark ''r'' 2 (rc_store demo_guarded), rc_cancels := [CancelLog]\<rparr>"

lemma demo_marked_reached: "(race_step ''r'')\<^sup>*\<^sup>* demo_race demo_marked"
  using race_step.mark [of 0 demo_guarded "''r''" 2] demo_guarded_reached by (simp add: demo_guarded_def)


lemma init_no_events: "events_in (get_run_record run_id run_store_init) = []"
  by (simp add: events_in_def run_store_init_def get_run_record_def)

text \<open>
  The guard of a canceller and its mark are two steps: when the run writes its success between
  them, the run ends as cancelled with both a completion and a cancellation in its log.
\<close>

theorem cancel_race_two_outcomes:
  "\<exists>s. (race_step ''r'')\<^sup>*\<^sup>* demo_race s \<and> rc_runner s = RunOver \<and> race_status ''r'' s = cancelled \<and>
     map (\<lambda>e. case e of JObj d \<Rightarrow> get_json d ''type'' | _ \<Rightarrow> JNull) (events_in (get_run_record ''r'' (rc_store s))) =
       [JStr ''run.complete'', JStr ''run.cancelled'']"
proof -
  let ?s1 = "demo_guarded\<lparr>rc_store := upsert ''r'' [(''status'', JStr ''success'')] 2 (rc_store demo_guarded), rc_runner := RunWon\<rparr>"
  let ?s2 = "?s1\<lparr>rc_store := append_event ''r'' (JObj [(''type'', JStr ''run.complete'')]) 3 (rc_store ?s1), rc_runner := RunOver\<rparr>"
  let ?s3 = "?s2\<lparr>rc_store := cancel_mark ''r'' 4 (rc_store ?s2), rc_cancels := [CancelLog]\<rparr>"
  let ?s4 = "?s3\<lparr>rc_store := cancel_log ''r'' 5 5 (rc_store ?s3), rc_cancels := [CancelDone]\<rparr>"
  have "race_step ''r'' demo_guarded ?s1"
    using race_step.succeed [of demo_guarded "[(''status'', JStr ''success'')]" "''r''" 2 True]
      demo_guarded_status by (simp add: writes_status_def mem.put_unless race_status_def demo_guarded_def)
  moreover have "race_step ''r'' ?s1 ?s2"
    using race_step.complete [of ?s1 "[(''type'', JStr ''run.complete'')]" "''r''" 3] by (simp add: get_json_def)
  moreover have "race_step ''r'' ?s2 ?s3"
    using race_step.mark [of 0 ?s2 "''r''" 4] by (simp add: demo_guarded_def)
  moreover have "race_step ''r'' ?s3 ?s4"
    using race_step.log [of 0 ?s3 "''r''" 5 5] by simp
  ultimately have "(race_step ''r'')\<^sup>*\<^sup>* demo_race ?s4"
    using demo_guarded_reached by (meson rtranclp.rtrancl_into_rtrancl)
  moreover have "race_status ''r'' ?s4 = cancelled"
    by (simp add: race_status_def cancel_log_def cancel_mark_def mem.put_status mem.append_status)
  moreover have "events_in (get_run_record ''r'' (rc_store demo_guarded)) = []"
    by (simp add: demo_guarded_def demo_race_def mem.put_unless mem.put_events pending_record_def mem.put_status events_of_def
        init_no_events)
  then have "map (\<lambda>e. case e of JObj d \<Rightarrow> get_json d ''type'' | _ \<Rightarrow> JNull) (events_in (get_run_record ''r'' (rc_store ?s4))) =
       [JStr ''run.complete'', JStr ''run.cancelled'']"
    by (simp add: cancel_log_def cancel_mark_def mem.put_events mem.append_events cancelled_event_type events_of_def)
      (simp add: get_json_def)
  ultimately show ?thesis by (intro exI [of _ ?s4]) simp
qed

section \<open>What the routes reveal\<close>

text \<open>A record with the secret of its webhook replaced by \<open>null\<close>.\<close>

definition mask_webhook :: "json \<Rightarrow> json" where
  "mask_webhook v =
     (case v of JObj d \<Rightarrow> JObj (map (\<lambda>(k, x). (k, if k = ''secret'' then JNull else x)) d) | _ \<Rightarrow> v)"

definition mask_record :: "json_dict \<Rightarrow> json_dict" where
  "mask_record r = map (\<lambda>(k, v). (k, if k = ''cp_webhook'' then mask_webhook v else v)) r"

definition mask_store :: "run_store \<Rightarrow> (string, json_dict) dict" where
  "mask_store st = map (\<lambda>(run_id, r). (run_id, mask_record r)) (st_runs st)"

lemma mask_record_get:
  "dict_get (mask_record r) k = map_option (\<lambda>v. if k = ''cp_webhook'' then mask_webhook v else v) (dict_get r k)"
  by (induction r) (auto simp: mask_record_def)

lemma mask_same:
  assumes "mask_record r = mask_record r'"
  shows "k \<noteq> ''cp_webhook'' \<Longrightarrow> dict_get r k = dict_get r' k"
    and "mask_webhook (get_json r ''cp_webhook'') = mask_webhook (get_json r' ''cp_webhook'')"
proof -
  have g: "dict_get (mask_record r) k = dict_get (mask_record r') k" for k using assms by simp
  from g [of k] show "k \<noteq> ''cp_webhook'' \<Longrightarrow> dict_get r k = dict_get r' k"
    by (cases "dict_get r k"; cases "dict_get r' k") (auto simp: mask_record_get)
  from g [of "''cp_webhook''"] show "mask_webhook (get_json r ''cp_webhook'') = mask_webhook (get_json r' ''cp_webhook'')"
    by (cases "dict_get r ''cp_webhook''"; cases "dict_get r' ''cp_webhook''")
      (auto simp: mask_record_get get_json_def mask_webhook_def)
qed

lemma mask_webhook_view:
  assumes "mask_webhook v = mask_webhook v'"
  shows "webhook_view v = webhook_view v'" "truthy v = truthy v'"
proof -
  have "filter (\<lambda>(k, v). k \<noteq> ''secret'') d =
      filter (\<lambda>(k, v). k \<noteq> ''secret'') (map (\<lambda>(k, x). (k, if k = ''secret'' then JNull else x)) d)" for d :: json_dict
    by (induction d) auto
  then have key: "webhook_view v = webhook_view (mask_webhook v)" for v
    by (cases v) (auto simp: webhook_view_def mask_webhook_def)
  from key [of v] key [of v'] assms show "webhook_view v = webhook_view v'" by simp
  have "truthy v = truthy (mask_webhook v)" for v by (cases v) (auto simp: mask_webhook_def)
  from this [of v] this [of v'] assms show "truthy v = truthy v'" by simp
qed

lemma mask_store_get:
  "map_option mask_record (get_run_record run_id st) = dict_get (mask_store st) run_id"
proof -
  have "map_option mask_record (dict_get d run_id) = dict_get (map (\<lambda>(i, r). (i, mask_record r)) d) run_id" for d
    by (induction d) auto
  then show ?thesis by (simp add: get_run_record_def mask_store_def)
qed

text \<open>
  C21: the routes of a run that read its record answer the same whatever the secret its webhook
  was registered with: no client of the run API learns it.
\<close>

theorem webhook_secret_withheld:
  assumes "mask_store st = mask_store st'"
  shows "list_runs st = list_runs st' \<and> get_run run_id st = get_run run_id st' \<and>
    get_run_status run_id st = get_run_status run_id st' \<and>
    get_run_cp_deliveries event_type run_id st = get_run_cp_deliveries event_type run_id st' \<and>
    get_run_narrate fl run_id st = get_run_narrate fl run_id st' \<and>
    get_run_cp_audit cs answer run_id st = get_run_cp_audit cs answer run_id st' \<and>
    get_run_cp_sessions cs answer run_id st = get_run_cp_sessions cs answer run_id st'"
proof -
  have r: "map_option mask_record (get_run_record i st) = map_option mask_record (get_run_record i st')" for i
    using mask_store_get [of i st] mask_store_get [of i st'] assms by simp
  have read: "k \<noteq> ''cp_webhook'' \<Longrightarrow> get_json x k = get_json y k" "events_of x = events_of y"
    if "mask_record x = mask_record y" for x y k
    using mask_same(1) [OF that] by (auto simp: get_json_def events_of_def)
  have summary: "run_summary i x = run_summary i y" if "mask_record x = mask_record y" for i x y
    using read [OF that] by (simp add: run_summary_def)
  have "run_summary i (get_run_dict st i) = run_summary i (get_run_dict st' i)" for i
    using r [of i]
    by (cases "get_run_record i st"; cases "get_run_record i st'")
      (auto simp: get_run_dict_def get_run_record_def intro: summary)
  moreover have "list_ids st = list_ids st'"
    using arg_cong [where f = "map fst", OF assms] by (simp add: list_ids_def mask_store_def comp_def case_prod_unfold)
  ultimately have "list_runs st = list_runs st'" by (simp add: list_runs_def)
  moreover consider "get_run_record run_id st = None" "get_run_record run_id st' = None"
    | x y where "get_run_record run_id st = Some x" "get_run_record run_id st' = Some y" "mask_record x = mask_record y"
    using r [of run_id] by (cases "get_run_record run_id st"; cases "get_run_record run_id st'") auto
  then have "get_run run_id st = get_run run_id st' \<and> get_run_status run_id st = get_run_status run_id st' \<and>
    get_run_cp_deliveries event_type run_id st = get_run_cp_deliveries event_type run_id st' \<and>
    get_run_narrate fl run_id st = get_run_narrate fl run_id st' \<and>
    get_run_cp_audit cs answer run_id st = get_run_cp_audit cs answer run_id st' \<and>
    get_run_cp_sessions cs answer run_id st = get_run_cp_sessions cs answer run_id st'"
  proof cases
    case 2
    note w = mask_webhook_view [OF mask_same(2) [OF 2(3)]]
    from 2 read [OF 2(3)] mask_same(1) [OF 2(3)] w show ?thesis
      by (simp add: get_run_def get_run_status_def get_run_cp_deliveries_def get_run_narrate_def get_run_cp_audit_def
          get_run_cp_sessions_def split: option.split)
  qed (simp add: get_run_def get_run_status_def get_run_cp_deliveries_def get_run_narrate_def get_run_cp_audit_def
          get_run_cp_sessions_def)
  ultimately show ?thesis by blast
qed

definition demo_secret_store :: "string \<Rightarrow> run_store" where
  "demo_secret_store secret =
     upsert ''r'' [(''run_id'', JStr ''r''), (''status'', JStr ''running''),
       (''cp_webhook'', JObj [(''id'', JStr ''w''), (''secret'', JStr secret)])] 0 run_store_init"

theorem webhook_secret_withheld_witness:
  "get_run_cp_deliveries None ''r'' (demo_secret_store ''a'') = get_run_cp_deliveries None ''r'' (demo_secret_store ''b'') \<and>
   demo_secret_store ''a'' \<noteq> demo_secret_store ''b''"
proof -
  have "mask_store (demo_secret_store ''a'') = mask_store (demo_secret_store ''b'')" by code_simp
  from webhook_secret_withheld [OF this, of "''r''" None "\<lambda>_. []" "\<lparr>cs_base_url = [], cs_api_key = []\<rparr>" "Inl []"]
  have "get_run_cp_deliveries None ''r'' (demo_secret_store ''a'') = get_run_cp_deliveries None ''r'' (demo_secret_store ''b'')"
    by blast
  moreover have "demo_secret_store ''a'' \<noteq> demo_secret_store ''b''" by code_simp
  ultimately show ?thesis by blast
qed

end
