(* ===== verification/Run_Stream.thy ===== *)
theory Run_Stream
  imports Run_Routes
begin

text \<open>
  \<open>stream_run_events\<close> of \<open>src/aitp_playground/api/runs.py\<close>: the server-sent events of a run. The
  generator subscribes, sends the backlog, and loops: it looks whether the run is over and its
  queue empty, and otherwise waits for an event up to a second. Each look and each wake-up is a step;
  the writers of the store act in between. Delivery to the queue is that of \<open>Run_Store\<close>.

  What is shown: a client that keeps up has always received a prefix of the run's log, in order and
  without a gap, and the closing message is sent only when the run is over and everything logged
  until then was sent. The run's own closing event may come after that message.
\<close>

section \<open>The generator\<close>

datatype chunk = Data json | Heartbeat | StreamEnd

datatype stream_pc = StreamLoop | StreamWait | StreamOver

record stream =
  sm_queue :: nat
  sm_pc :: stream_pc
  sm_out :: "chunk list"

definition stream_open :: "string \<Rightarrow> nat \<Rightarrow> run_store \<Rightarrow> api_exc + (stream \<times> run_store)" where
  "stream_open run_id q st =
     (if get_run_record run_id st = None then Inl (run_not_found run_id)
      else
        (case subscribe run_id q st of
           (backlog, st') \<Rightarrow> Inr (\<lparr>sm_queue = q, sm_pc = StreamLoop, sm_out = map Data backlog\<rparr>, st')))"

definition queue_of :: "nat \<Rightarrow> run_store \<Rightarrow> json list" where
  "queue_of q st = (case dict_get (st_queues st) q of Some es \<Rightarrow> es | None \<Rightarrow> [])"

definition stream_look :: "string \<Rightarrow> stream \<times> run_store \<Rightarrow> stream \<times> run_store" where
  "stream_look run_id s =
     (case s of
        (sm, st) \<Rightarrow>
          (let terminal = status_of (get_run_dict st run_id) \<in> set TERMINAL_STATUSES
           in if terminal \<and> queue_of (sm_queue sm) st = []
              then (sm\<lparr>sm_out := sm_out sm @ [StreamEnd], sm_pc := StreamOver\<rparr>, unsubscribe run_id (sm_queue sm) st)
              else (sm\<lparr>sm_pc := StreamWait\<rparr>, st)))"

definition stream_wake :: "stream \<times> run_store \<Rightarrow> stream \<times> run_store" where
  "stream_wake s =
     (case s of
        (sm, st) \<Rightarrow>
          (case queue_of (sm_queue sm) st of
             e # es \<Rightarrow> (sm\<lparr>sm_out := sm_out sm @ [Data e], sm_pc := StreamLoop\<rparr>,
                       st\<lparr>st_queues := dict_set (sm_queue sm) es (st_queues st)\<rparr>)
           | [] \<Rightarrow> (sm\<lparr>sm_out := sm_out sm @ [Heartbeat], sm_pc := StreamLoop\<rparr>, st)))"

text \<open>
  The steps of a stream and of everybody else. A writer's record carries no events (only
  \<open>append_event\<close> adds one), the other subscribers have queues of their own, and the client keeps
  up: its queue is not full when an event is logged.
\<close>

inductive stream_step :: "string \<Rightarrow> stream \<times> run_store \<Rightarrow> stream \<times> run_store \<Rightarrow> bool" for run_id :: string where
  look: "sm_pc sm = StreamLoop \<Longrightarrow> stream_step run_id (sm, st) (stream_look run_id (sm, st))"
| wake: "sm_pc sm = StreamWait \<Longrightarrow> stream_step run_id (sm, st) (stream_wake (sm, st))"
| append: "length (queue_of (sm_queue sm) st) < QUEUE_MAX \<Longrightarrow>
    stream_step run_id (sm, st) (sm, append_event rid' e t st)"
| put: "events_of r = [] \<Longrightarrow> stream_step run_id (sm, st) (sm, upsert rid' r t st)"
| put_unless: "events_of r = [] \<Longrightarrow> stream_step run_id (sm, st) (sm, snd (upsert_unless_cancelled rid' r t st))"
| join: "q \<noteq> sm_queue sm \<Longrightarrow> stream_step run_id (sm, st) (sm, snd (subscribe rid' q st))"
| leave: "q \<noteq> sm_queue sm \<Longrightarrow> stream_step run_id (sm, st) (sm, unsubscribe rid' q st)"

definition sent_events :: "stream \<Rightarrow> json list" where
  "sent_events sm = concat (map (\<lambda>c. case c of Data e \<Rightarrow> [e] | _ \<Rightarrow> []) (sm_out sm))"

abbreviation log_of :: "string \<Rightarrow> run_store \<Rightarrow> json list" where
  "log_of run_id st \<equiv> events_in (get_run_record run_id st)"

section \<open>Lemmas\<close>

definition subs_of :: "string \<Rightarrow> run_store \<Rightarrow> nat list" where
  "subs_of run_id st = (case dict_get (st_subscribers st) run_id of Some qs \<Rightarrow> qs | None \<Rightarrow> [])"

text \<open>Delivery to one queue.\<close>

lemma safe_put_other: "q' \<noteq> q \<Longrightarrow> dict_get (safe_put e q' qs) q = dict_get qs q"
  by (auto simp: safe_put_def split: option.splits)

lemma fold_safe_put_other: "q \<notin> set subs \<Longrightarrow> dict_get (fold (safe_put e) subs qs) q = dict_get qs q"
  by (induction subs arbitrary: qs) (auto simp: safe_put_other)

lemma fold_safe_put_once:
  "List.count_list subs q = 1 \<Longrightarrow> dict_get qs q = Some es \<Longrightarrow> length es < QUEUE_MAX \<Longrightarrow>
     dict_get (fold (safe_put e) subs qs) q = Some (es @ [e])"
proof (induction subs arbitrary: qs)
  case (Cons q' subs)
  show ?case
  proof (cases "q' = q")
    case True
    with Cons.prems have "q \<notin> set subs" by (simp add: count_list_0_iff)
    with True Cons.prems show ?thesis by (simp add: fold_safe_put_other) (simp add: safe_put_def)
  qed (use Cons in \<open>simp add: safe_put_other\<close>)
qed simp

text \<open>The stream's queue is subscribed once, to its own run, until the stream is over.\<close>

definition stream_inv :: "string \<Rightarrow> stream \<times> run_store \<Rightarrow> bool" where
  "stream_inv run_id s \<longleftrightarrow>
     (case s of
        (sm, st) \<Rightarrow>
          get_run_record run_id st \<noteq> None \<and>
          (sm_pc sm \<noteq> StreamOver \<longrightarrow>
             StreamEnd \<notin> set (sm_out sm) \<and> List.count_list (subs_of run_id st) (sm_queue sm) = 1 \<and>
             (\<forall>i. i \<noteq> run_id \<longrightarrow> sm_queue sm \<notin> set (subs_of i st)) \<and>
             (\<exists>es. dict_get (st_queues st) (sm_queue sm) = Some es \<and> sent_events sm @ es = log_of run_id st)) \<and>
          (sm_pc sm = StreamOver \<longrightarrow> prefix (sent_events sm) (log_of run_id st)))"

lemma stream_frame:
  "st_subscribers (upsert i r t st) = st_subscribers st" "st_queues (upsert i r t st) = st_queues st"
  "st_subscribers (append_event i e t st) = st_subscribers st"
  "st_queues (append_event i e t st) = fold (safe_put e) (subs_of i st) (st_queues st)"
  "st_runs (snd (subscribe i q st)) = st_runs st" "st_runs (unsubscribe i q st) = st_runs st"
  "st_queues (unsubscribe i q st) = st_queues st" "st_queues (snd (subscribe i q st)) = dict_set q [] (st_queues st)"
  by (simp_all add: upsert_def merge_locked_def append_event_def subscribe_def unsubscribe_def subs_of_def Let_def)

lemma subs_of_simps [simp]:
  "subs_of j (upsert i r t st) = subs_of j st" "subs_of j (append_event i e t st) = subs_of j st"
  "subs_of j (snd (subscribe i q st)) = (if j = i then subs_of i st @ [q] else subs_of j st)"
  "subs_of j (unsubscribe i q st) = (if j = i then filter (\<lambda>x. x \<noteq> q) (subs_of i st) else subs_of j st)"
  "subs_of j (st\<lparr>st_queues := qs\<rparr>) = subs_of j st"
  by (auto simp: subs_of_def stream_frame subscribe_def unsubscribe_def Let_def)

lemma count_filter_other: "q \<noteq> q' \<Longrightarrow> List.count_list (filter (\<lambda>x. x \<noteq> q) xs) q' = List.count_list xs q'"
  by (induction xs) auto

lemma record_simps [simp]:
  "get_run_record j (snd (subscribe i q st)) = get_run_record j st"
  "get_run_record j (unsubscribe i q st) = get_run_record j st"
  "get_run_record j (st\<lparr>st_queues := qs\<rparr>) = get_run_record j st"
  by (simp_all add: get_run_record_def stream_frame)

lemma log_of_put: "events_of r = [] \<Longrightarrow> log_of j (upsert i r t st) = log_of j st"
  by (cases "j = i") (simp_all add: mem.put_events race_status_simps)

lemma log_of_append: "log_of j (append_event i e t st) = log_of j st @ (if i = j then [e] else [])"
  by (cases "i = j") (simp_all add: mem.append_events race_status_simps)

lemma record_kept:
  "get_run_record j st = Some y \<Longrightarrow> \<exists>y. get_run_record j (upsert i r t st) = Some y"
  "get_run_record j st = Some y \<Longrightarrow> \<exists>y. get_run_record j (append_event i e t st) = Some y"
  by (cases "i = j"; simp add: race_status_simps)+

lemma sent_events_out [simp]:
  "sent_events (sm\<lparr>sm_out := sm_out sm @ [c], sm_pc := p\<rparr>) =
     sent_events sm @ (case c of Data e \<Rightarrow> [e] | _ \<Rightarrow> [])"
  "sent_events (sm\<lparr>sm_out := sm_out sm @ [c]\<rparr>) = sent_events sm @ (case c of Data e \<Rightarrow> [e] | _ \<Rightarrow> [])"
  "sent_events (sm\<lparr>sm_pc := p\<rparr>) = sent_events sm"
  by (simp_all add: sent_events_def)

lemma stream_open_inv:
  assumes "stream_open run_id q st = Inr s" "\<forall>i. q \<notin> set (subs_of i st)"
  shows "stream_inv run_id s"
proof -
  from assms(1) obtain r where r: "get_run_record run_id st = Some r"
    by (auto simp: stream_open_def split: if_splits)
  have "sent_events \<lparr>sm_queue = q, sm_pc = StreamLoop, sm_out = map Data es\<rparr> = es" for es
    by (induction es) (simp_all add: sent_events_def)
  with assms r show ?thesis
    by (auto simp: stream_open_def stream_inv_def subscribe_def subs_of_def events_in_def get_run_record_def get_run_dict_def
        Let_def List.count_list_0_iff)
qed

lemma stream_step_inv: "stream_step run_id s s' \<Longrightarrow> stream_inv run_id s \<Longrightarrow> stream_inv run_id s'"
proof (induction rule: stream_step.induct)
  case (look sm st)
  then show ?case
    by (auto simp: stream_inv_def stream_look_def Let_def queue_of_def split: if_splits)
next
  case (wake sm st)
  then show ?case
    by (auto simp: stream_inv_def stream_wake_def queue_of_def split: list.splits option.splits)
next
  case (append sm st rid' e t)
  then show ?case
    by (auto simp: stream_inv_def queue_of_def stream_frame log_of_append record_kept fold_safe_put_once fold_safe_put_other
        prefix_def)
next
  case (put r sm st rid' t)
  then show ?case
    by (auto simp: stream_inv_def stream_frame log_of_put record_kept)
next
  case (put_unless r sm st rid' t)
  then show ?case
    by (auto simp: stream_inv_def stream_frame log_of_put record_kept mem.put_unless)
next
  case (join q sm st rid')
  then show ?case
    by (auto simp: stream_inv_def stream_frame)
next
  case (leave q sm st rid')
  then show ?case
    by (auto simp: stream_inv_def stream_frame count_filter_other)
qed

lemma stream_reach_inv: "(stream_step run_id)\<^sup>*\<^sup>* s s' \<Longrightarrow> stream_inv run_id s \<Longrightarrow> stream_inv run_id s'"
  by (induction rule: rtranclp_induct) (auto intro: stream_step_inv)

text \<open>Only a look ends a stream, and only on an empty queue of a run that is over.\<close>

lemma stream_ends:
  assumes "stream_inv run_id (sm, st)" "stream_step run_id (sm, st) (sm', st')" "sm_pc sm \<noteq> StreamOver" "sm_pc sm' = StreamOver"
  shows "sent_events sm' = log_of run_id st' \<and> race_status run_id \<lparr>rc_store = st', rc_runner = RunOver, rc_cancels = []\<rparr> \<in> set TERMINAL_STATUSES"
  using assms(2)
proof (cases rule: stream_step.cases)
  case look
  with assms show ?thesis
    by (auto simp: stream_inv_def stream_look_def Let_def queue_of_def race_status_def status_in_def get_run_dict_def get_run_record_def
        stream_frame split: if_splits)
next
  case wake
  with assms show ?thesis by (auto simp: stream_wake_def split: list.splits)
qed (use assms in auto)

text \<open>The generator alone: it looks or wakes up, whichever is next.\<close>

definition stream_turn :: "string \<Rightarrow> stream \<times> run_store \<Rightarrow> stream \<times> run_store" where
  "stream_turn run_id s =
     (case sm_pc (fst s) of
        StreamLoop \<Rightarrow> stream_look run_id s
      | StreamWait \<Rightarrow> stream_wake s
      | StreamOver \<Rightarrow> s)"

section \<open>Theorems\<close>


definition demo_stream_store :: run_store where
  "demo_stream_store = append_event ''r'' (JObj [(''type'', JStr ''run.started'')]) 1
     (upsert ''r'' [(''run_id'', JStr ''r''), (''status'', JStr ''running'')] 0 run_store_init)"

definition demo_stream :: stream where
  "demo_stream = \<lparr>sm_queue = 0, sm_pc = StreamLoop, sm_out = [Data (JObj [(''type'', JStr ''run.started'')])]\<rparr>"

lemma demo_stream_open:
  "stream_open ''r'' 0 demo_stream_store = Inr (demo_stream, snd (subscribe ''r'' 0 demo_stream_store))"
  "\<forall>i. 0 \<notin> set (subs_of i demo_stream_store)"
  by (code_simp, simp add: demo_stream_store_def subs_of_def stream_frame run_store_init_def)


text \<open>
  Once the run is over and nothing more is logged, the stream ends: with \<open>n\<close> events in the
  queue it takes \<open>2 n + 1\<close> turns, which send exactly those events and then the closing message.
\<close>

theorem stream_terminates:
  assumes "sm_pc sm = StreamLoop" "status_of (get_run_dict st run_id) \<in> set TERMINAL_STATUSES"
    "dict_get (st_queues st) (sm_queue sm) = Some es"
  shows "\<exists>sm' st'. (stream_turn run_id ^^ (2 * length es + 1)) (sm, st) = (sm', st') \<and> sm_pc sm' = StreamOver \<and>
    sm_out sm' = sm_out sm @ map Data es @ [StreamEnd]"
  using assms
proof (induction es arbitrary: sm st)
  case Nil
  then show ?case by (simp add: stream_turn_def stream_look_def Let_def queue_of_def)
next
  case (Cons e es)
  let ?sm = "sm\<lparr>sm_out := sm_out sm @ [Data e], sm_pc := StreamLoop\<rparr>"
  let ?st = "st\<lparr>st_queues := dict_set (sm_queue sm) es (st_queues st)\<rparr>"
  have two: "stream_turn run_id (stream_turn run_id (sm, st)) = (?sm, ?st)"
    using Cons.prems by (simp add: stream_turn_def stream_look_def stream_wake_def Let_def queue_of_def)
  have "(stream_turn run_id ^^ (2 * length (e # es) + 1)) (sm, st) = (stream_turn run_id ^^ (2 * length es + 1)) (?sm, ?st)"
    by (simp add: funpow_swap1 two)
  with Cons.IH [of ?sm ?st] Cons.prems show ?case by (simp add: get_run_dict_def)
qed

theorem stream_terminates_witness:
  "\<exists>sm' st'. (stream_turn ''r'' ^^ 1)
       (demo_stream, upsert ''r'' [(''status'', JStr ''success'')] 2 (snd (subscribe ''r'' 0 demo_stream_store))) = (sm', st') \<and>
     sm_pc sm' = StreamOver \<and> sm_out sm' = sm_out demo_stream @ [StreamEnd]"
proof -
  let ?st = "upsert ''r'' [(''status'', JStr ''success'')] 2 (snd (subscribe ''r'' 0 demo_stream_store))"
  have "sm_pc demo_stream = StreamLoop" "status_of (get_run_dict ?st ''r'') \<in> set TERMINAL_STATUSES"
    "dict_get (st_queues ?st) (sm_queue demo_stream) = Some []"
    by (simp add: demo_stream_def, code_simp, code_simp)
  from stream_terminates [OF this] show ?thesis by simp
qed

text \<open>
  A run writes its success before it logs \<open>run.complete\<close> (and a canceller its mark before
  \<open>run.cancelled\<close>): a look between the two closes the stream, and its client never receives the
  run's last event.
\<close>

theorem stream_misses_last_event:
  "let st1 = upsert ''r'' [(''status'', JStr ''success'')] 2 (snd (subscribe ''r'' 0 demo_stream_store));
       s2 = stream_turn ''r'' (demo_stream, st1);
       st3 = append_event ''r'' (JObj [(''type'', JStr ''run.complete'')]) 3 (snd s2)
   in sm_pc (fst s2) = StreamOver \<and> length (log_of ''r'' st3) = Suc (length (sent_events (fst s2)))"
  by code_simp

end
