(* ===== verification/Agent_Admin.thy ===== *)
theory Agent_Admin
  imports Agent_Routes
begin

text \<open>
  \<open>agents/base/agent_admin.py\<close> and \<open>telemetry.py\<close>: the admin routes of an agent, through which the
  service makes it handshake, invoke, delegate, renew, revoke and enrol. The routes are computations
  over the agent's holder state (the tokens and vouchers it holds, its revocations), which they share
  with the server; they talk to peers and to the Control Plane. Every request an agent sends is kept
  in the state, the answers are the environment's, one per request in their order. The initiator side
  of the SDK is the record \<open>holder_sdk\<close>, a parameter like the one of \<open>Aitp_Sdk\<close>.

  The routes close over the agent object they were built with: a key rotation replaces the server's
  agent and not theirs.

  What is shown is in \<open>Admin_Safety\<close>.
\<close>

section \<open>The initiator side of the SDK\<close>

record ('a, 'h) holder_sdk =
  hs_verify_manifest :: "string \<Rightarrow> bool \<Rightarrow> rat \<Rightarrow> pyexc option"
  hs_new_session :: "'a \<Rightarrow> (json_dict option \<times> string list option) option \<Rightarrow> string list \<Rightarrow> bool \<Rightarrow> pyexc + 'h"
  hs_build_hello :: "'h \<Rightarrow> string \<Rightarrow> json list \<Rightarrow> jwt_minter option \<Rightarrow> rat \<Rightarrow> pyexc + (string \<times> 'h)"
  hs_process_hello_ack :: "'h \<Rightarrow> string \<Rightarrow> string \<Rightarrow> rat \<Rightarrow> pyexc + (string \<times> 'h)"
  hs_complete :: "'h \<Rightarrow> string \<Rightarrow> string set \<Rightarrow> string \<Rightarrow> rat \<Rightarrow> pyexc + string"
  hs_sign_pop_response :: "'a \<Rightarrow> string \<Rightarrow> pyexc + string"
  hs_build_renewal_request :: "'a \<Rightarrow> json \<Rightarrow> rat \<Rightarrow> pyexc + string"
  hs_process_renewal_request :: "'a \<Rightarrow> string \<Rightarrow> int \<Rightarrow> int \<Rightarrow> string set \<Rightarrow> rat \<Rightarrow> pyexc + string"
  hs_build_delegation :: "'a \<Rightarrow> json \<Rightarrow> json \<Rightarrow> json list \<Rightarrow> json \<Rightarrow> rat \<Rightarrow> pyexc + string"
  hs_build_bundle :: "'a \<Rightarrow> string \<Rightarrow> int \<Rightarrow> (json \<times> json) list \<Rightarrow> pyexc + string"
  hs_verify_session_bundle :: "json \<Rightarrow> string \<Rightarrow> string \<Rightarrow> bool \<Rightarrow> rat \<Rightarrow> pyexc + json_dict"

section \<open>State and computations\<close>

record peer_call =
  pc_method :: string
  pc_url :: string
  pc_headers :: "(string \<times> string) list"
  pc_content :: string

text \<open>A transport error, or a status, the headers (names in lower case) and the body's bytes.\<close>

type_synonym peer_answer = "string + (int \<times> (string, string) dict \<times> string)"

record admin_state =
  ad_held_tcts :: "(int, json) dict"
  ad_held_vouchers :: "(int, json) dict"
  ad_revocation :: revocation_state
  ad_events :: "event list"
  ad_calls :: "peer_call list"
  ad_ticks :: nat

text \<open>
  What the routes close over and what they read: the SDK, the agent object, the bootstrap, the
  module probed for features, the answers, httpx's decoding of a body to text, the clock and the UUIDs,
  the manifest accessor, the capability handlers and the tokens the server issued.
\<close>

record ('a, 'h, 'r, 's) admin_env =
  ae_sdk :: "('a, 'r, 's) sdk"
  ae_holder :: "('a, 'h) holder_sdk"
  ae_agent :: 'a
  ae_bootstrap :: json_dict
  ae_module :: aitp_module
  ae_answers :: "nat \<Rightarrow> peer_answer"
  ae_text :: "string \<Rightarrow> string"
  ae_float_text :: "pyfloat \<Rightarrow> string"
  ae_dumps :: "json \<Rightarrow> string"
  ae_clk :: "nat \<Rightarrow> rat"
  ae_uuid :: string
  ae_manifest :: "(pyexc + string) option"
  ae_capabilities :: "string \<Rightarrow> (json \<Rightarrow> http_error + json) option"
  ae_issued_tcts :: "(string, string) dict"

type_synonym 'x adm = "admin_state \<Rightarrow> (http_error + 'x) \<times> admin_state"

definition retA :: "'x \<Rightarrow> 'x adm" where
  "retA x s = (Inr x, s)"

definition raiseA :: "http_error \<Rightarrow> 'x adm" where
  "raiseA e s = (Inl e, s)"

definition bindA :: "'x adm \<Rightarrow> ('x \<Rightarrow> 'y adm) \<Rightarrow> 'y adm" where
  "bindA m f s = (case m s of (Inl e, s1) \<Rightarrow> (Inl e, s1) | (Inr x, s1) \<Rightarrow> f x s1)"

abbreviation thenA :: "'x adm \<Rightarrow> 'y adm \<Rightarrow> 'y adm" where
  "thenA m k \<equiv> bindA m (\<lambda>_. k)"

abbreviation http_raise :: "int \<Rightarrow> string \<Rightarrow> 'x adm" where
  "http_raise st detail \<equiv> raiseA (HTTPException st (JStr detail) [])"

text \<open>An exception no handler of the route catches: the server answers 500.\<close>

definition pyA :: "pyexc + 'x \<Rightarrow> 'x adm" where
  "pyA r = (case r of Inl e \<Rightarrow> raiseA (ServerError e) | Inr x \<Rightarrow> retA x)"

definition getA :: "(admin_state \<Rightarrow> 'x) \<Rightarrow> 'x adm" where
  "getA f s = (Inr (f s), s)"

definition updA :: "(admin_state \<Rightarrow> admin_state) \<Rightarrow> unit adm" where
  "updA f s = (Inr (), f s)"

text \<open>A reading of the clock.\<close>

definition nowA :: "('a, 'h, 'r, 's) admin_env \<Rightarrow> rat adm" where
  "nowA env s = (Inr (ae_clk env (ad_ticks s)), s\<lparr>ad_ticks := ad_ticks s + 1\<rparr>)"

definition emitA :: "string \<Rightarrow> json_dict \<Rightarrow> unit adm" where
  "emitA ty flds = updA (\<lambda>s. s\<lparr>ad_events := ad_events s @ [(ty, flds)]\<rparr>)"

fun forA :: "('x \<Rightarrow> 'y adm) \<Rightarrow> 'x list \<Rightarrow> 'y list adm" where
  "forA f [] = retA []"
| "forA f (x # xs) = bindA (f x) (\<lambda>y. bindA (forA f xs) (\<lambda>ys. retA (y # ys)))"

lemma adm_simps [simp]:
  "retA x s = (Inr x, s)" "raiseA e s = (Inl e, s)" "getA p s = (Inr (p s), s)" "updA f s = (Inr (), f s)"
  "bindA (retA y) k = k y" "bindA (raiseA e) l = raiseA e" "bindA (getA g) m s = m (g s) s" "bindA (updA h) n s = n () (h s)"
  by (auto simp: retA_def raiseA_def getA_def updA_def bindA_def)

lemma bindA_Inr_iff:
  "bindA m f s = (Inr y, s') \<longleftrightarrow> (\<exists>x s1. m s = (Inr x, s1) \<and> f x s1 = (Inr y, s'))"
  by (auto simp: bindA_def split: prod.splits sum.splits)

lemma pyA_simps [simp]: "pyA (Inr x) = retA x" "pyA (Inl e) = raiseA (ServerError e)"
  by (simp_all add: pyA_def)

lemma pyA_Inr_iff: "pyA r s = (Inr x, s') \<longleftrightarrow> r = Inr x \<and> s' = s"
  by (auto simp: pyA_def split: sum.splits)

text \<open>The ways a step can have succeeded, for the readings of whole routes.\<close>

lemma adm_ok:
  "(if c then raiseA e else k) s = (Inr y, s') \<longleftrightarrow> \<not> c \<and> k s = (Inr y, s')"
  "nowA env s = (Inr now, s') \<longleftrightarrow> now = ae_clk env (ad_ticks s) \<and> s' = s\<lparr>ad_ticks := ad_ticks s + 1\<rparr>"
  "emitA ty flds s = (Inr u, s') \<longleftrightarrow> s' = s\<lparr>ad_events := ad_events s @ [(ty, flds)]\<rparr>"
  "retA x s = (Inr z, s') \<longleftrightarrow> z = x \<and> s' = s"
  "getA g s = (Inr w, s') \<longleftrightarrow> w = g s \<and> s' = s"
  "updA h s = (Inr u, s') \<longleftrightarrow> s' = h s"
  by (auto simp: nowA_def emitA_def)

text \<open>Where the client wants text (a URL, a header, the SDK's arguments), another value is a \<open>TypeError\<close>.\<close>

definition as_text :: "json \<Rightarrow> string adm" where
  "as_text v = (case v of JStr s \<Rightarrow> retA s | _ \<Rightarrow> raiseA (ServerError (PyExc TypeError None ''expected str'')))"

definition as_obj :: "json \<Rightarrow> json_dict adm" where
  "as_obj v =
     (case v of JObj d \<Rightarrow> retA d | _ \<Rightarrow> raiseA (ServerError (PyExc AttributeError None ''object has no attribute get'')))"

section \<open>Requests\<close>

definition is_success :: "int \<Rightarrow> bool" where
  "is_success st \<longleftrightarrow> 200 \<le> st \<and> st \<le> 299"

definition exchange ::
  "('a, 'h, 'r, 's) admin_env \<Rightarrow> string \<Rightarrow> string \<Rightarrow> (string \<times> string) list \<Rightarrow> string \<Rightarrow> peer_answer adm" where
  "exchange env meth url headers content s =
     (Inr (ae_answers env (length (ad_calls s))),
      s\<lparr>ad_calls := ad_calls s @ [\<lparr>pc_method = meth, pc_url = url, pc_headers = headers, pc_content = content\<rparr>]\<rparr>)"

text \<open>The same where \<open>httpx.HTTPError\<close> is not caught.\<close>

definition requestA ::
  "('a, 'h, 'r, 's) admin_env \<Rightarrow> string \<Rightarrow> string \<Rightarrow> (string \<times> string) list \<Rightarrow> string \<Rightarrow>
    (int \<times> (string, string) dict \<times> string) adm" where
  "requestA env meth url headers content =
     bindA (exchange env meth url headers content) (\<lambda>r.
       case r of Inl msg \<Rightarrow> raiseA (ServerError (PyExc OtherError None msg)) | Inr a \<Rightarrow> retA a)"

definition raise_for_statusA :: "int \<times> (string, string) dict \<times> string \<Rightarrow> unit adm" where
  "raise_for_statusA r =
     (if is_success (fst r) then retA () else raiseA (ServerError (PyExc OtherError None ''HTTPStatusError'')))"

definition fetch_text :: "('a, 'h, 'r, 's) admin_env \<Rightarrow> string \<Rightarrow> string adm" where
  "fetch_text env url =
     bindA (requestA env ''GET'' url [] []) (\<lambda>r. thenA (raise_for_statusA r) (retA (ae_text env (snd (snd r)))))"

definition json_headers :: "(string \<times> string) list" where
  "json_headers = [(''Content-Type'', ''application/json'')]"

definition insecureA :: "('a, 'h, 'r, 's) admin_env \<Rightarrow> bool" where
  "insecureA env = insecure_localhost (ae_bootstrap env)"

text \<open>The text \<open>json.loads\<close> reads; a text that is not JSON raises \<open>ValueError\<close>.\<close>

definition loads_or_raise :: "string \<Rightarrow> pyexc + json" where
  "loads_or_raise t = (case loads t of Some v \<Rightarrow> Inr v | None \<Rightarrow> Inl (PyExc ValueError None ''JSONDecodeError''))"

section \<open>Peer manifests\<close>

definition classify_manifest_verify_failure :: "pyexc \<Rightarrow> string" where
  "classify_manifest_verify_failure e =
     (case exc_code e of Some c \<Rightarrow> c | None \<Rightarrow> if exc_kind e = ValueError then ''malformed'' else ''unknown'')"

definition reject_manifest :: "string \<Rightarrow> string \<Rightarrow> string \<Rightarrow> 'x adm" where
  "reject_manifest source_url cause detail =
     thenA (emitA ''manifest.verify_failed'' [(''cause'', JStr cause), (''source_url'', JStr source_url)])
       (http_raise 502 detail)"

definition verify_peer_manifest :: "('a, 'h, 'r, 's) admin_env \<Rightarrow> string \<Rightarrow> string \<Rightarrow> json_dict adm" where
  "verify_peer_manifest env envelope_json source_url =
     bindA (nowA env) (\<lambda>now.
     case hs_verify_manifest (ae_holder env) envelope_json (insecureA env) now of
       Some e \<Rightarrow>
         (let cause = classify_manifest_verify_failure e
          in reject_manifest source_url cause
               (''peer manifest from '' @ source_url @ '' failed verification ('' @ cause @ ''): '' @ exc_msg e
                @ ''. Refusing to read an AID or endpoint out of an unverified manifest.''))
     | None \<Rightarrow>
         (case loads envelope_json of
            None \<Rightarrow> reject_manifest source_url ''malformed'' (''peer manifest from '' @ source_url @ '' is not JSON'')
          | Some envelope \<Rightarrow>
              (case (case envelope of JObj d \<Rightarrow> get_json d ''manifest'' | _ \<Rightarrow> JNull) of
                 JObj m \<Rightarrow> retA m
               | _ \<Rightarrow> reject_manifest source_url ''malformed''
                        (''peer manifest from '' @ source_url @ '' has no `manifest` body''))))"

text \<open>\<open>_port_from_url\<close>.\<close>

definition port_from_url :: "string \<Rightarrow> pyexc + int" where
  "port_from_url url =
     (let (before, after) = split_once ''://'' url;
          scheme = (if after = None then ''http'' else before);
          host_part = fst (split_once ''/'' (case after of Some r \<Rightarrow> r | None \<Rightarrow> before))
      in case split_once '':'' host_part of
           (_, Some p) \<Rightarrow> py_int (JStr p)
         | (_, None) \<Rightarrow> Inr (if scheme = ''https'' then 443 else 80))"

section \<open>Handshake\<close>

definition new_session :: "('a, 'h, 'r, 's) admin_env \<Rightarrow> string \<Rightarrow> pyexc + 'h" where
  "new_session env peer_aid =
     (let oc = oidc_init (ae_bootstrap env)
      in hs_new_session (ae_holder env) (ae_agent env)
           (if oc_enabled oc then Some (oc_jwks oc, trust_anchors oc) else None) [peer_aid] (insecureA env))"

definition raise_if_peer_refused ::
  "('a, 'h, 'r, 's) admin_env \<Rightarrow> int \<times> (string, string) dict \<times> string \<Rightarrow> string \<Rightarrow> unit adm" where
  "raise_if_peer_refused env r step =
     (if is_success (fst r) then retA ()
      else
        (let msg = ''peer refused '' @ step @ '' ('' @ str_int (fst r) @ ''): '' @ ae_text env (snd (snd r))
         in thenA (emitA ''handshake.failed'' [(''role'', JStr ''initiator''), (''error'', JStr msg)])
              (http_raise 502 msg)))"

text \<open>The grants asked for: those requested, or all the peer offers.\<close>

definition grants_for :: "json \<Rightarrow> json_dict \<Rightarrow> pyexc + json list" where
  "grants_for requested peer_manifest =
     bindE (json_iter (case dict_get peer_manifest ''offered_capabilities'' of Some v \<Rightarrow> v | None \<Rightarrow> JArr [])) (\<lambda>offered.
       if requested = JNull then Inr offered
       else bindE (py_len requested) (\<lambda>n. if n = 0 then Inr offered else json_iter requested))"

definition header_value :: "string \<Rightarrow> (string, string) dict \<Rightarrow> pyexc + string" where
  "header_value name headers = (case dict_get headers name of Some v \<Rightarrow> Inr v | None \<Rightarrow> Inl (PyExc KeyError None name))"

text \<open>What the peer's last answer completes to; a refusal of the SDK is a 403.\<close>

definition complete_session :: "('a, 'h, 'r, 's) admin_env \<Rightarrow> 'h \<Rightarrow> string \<Rightarrow> json adm" where
  "complete_session env session ack =
     bindA (nowA env) (\<lambda>now. bindA (getA (\<lambda>s. effective_jtis (ad_revocation s))) (\<lambda>deny.
     case hs_complete (ae_holder env) session ack deny ''fail_closed'' now of
       Inl e \<Rightarrow>
         if exc_kind e = RuntimeError
         then thenA (emitA ''handshake.failed'' [(''role'', JStr ''initiator''), (''error'', JStr (exc_msg e))])
                (http_raise 403 (''handshake rejected: '' @ exc_msg e))
         else raiseA (ServerError e)
     | Inr t \<Rightarrow> pyA (loads_or_raise t)))"

definition store_voucher :: "int \<Rightarrow> json_dict \<Rightarrow> unit adm" where
  "store_voucher peer_port completed =
     updA (\<lambda>s. if truthy (get_json completed ''grant_voucher'')
               then s\<lparr>ad_held_vouchers := dict_set peer_port (get_json completed ''grant_voucher'') (ad_held_vouchers s)\<rparr>
               else s)"

definition store_tct :: "int \<Rightarrow> json \<Rightarrow> unit adm" where
  "store_tct peer_port token = updA (\<lambda>s. s\<lparr>ad_held_tcts := dict_set peer_port token (ad_held_tcts s)\<rparr>)"

definition grants_of :: "json_dict \<Rightarrow> json" where
  "grants_of claims = (case dict_get claims ''grants'' of Some g \<Rightarrow> g | None \<Rightarrow> JArr [])"

text \<open>The two messages, the session identifier and the session they leave.\<close>

definition exchange_hello_commit ::
  "('a, 'h, 'r, 's) admin_env \<Rightarrow> string \<Rightarrow> json_dict \<Rightarrow> json list \<Rightarrow> 'h \<Rightarrow> (string \<times> string \<times> 'h) adm" where
  "exchange_hello_commit env peer_manifest_json peer_manifest grants session =
     bindA (if oc_identity_type (oidc_init (ae_bootstrap env)) = ''oidc''
            then bindA (as_text (case dict_get peer_manifest ''aid'' of Some a \<Rightarrow> a | None \<Rightarrow> JStr [])) (\<lambda>aud.
                   pyA (mint_jwt_for (ae_sdk env) (oidc_init (ae_bootstrap env)) aud (ae_agent env)))
            else retA None) (\<lambda>mint_cb.
     bindA (nowA env) (\<lambda>now.
     bindA (pyA (hs_build_hello (ae_holder env) session peer_manifest_json grants mint_cb now)) (\<lambda>(hello, session1).
     bindA (pyA (subscript (JObj peer_manifest) ''handshake_endpoint'')) (\<lambda>ep. bindA (as_text ep) (\<lambda>hello_ep.
     bindA (requestA env ''POST'' hello_ep json_headers hello) (\<lambda>r1.
     thenA (raise_if_peer_refused env r1 ''hello'')
     (bindA (pyA (header_value ''x-aitp-session-id'' (fst (snd r1)))) (\<lambda>session_id.
      bindA (nowA env) (\<lambda>now2.
      bindA (pyA (hs_process_hello_ack (ae_holder env) session1 (ae_text env (snd (snd r1))) session_id now2)) (\<lambda>(commit, session2).
      bindA (requestA env ''POST'' (py_replace ''/hello'' ''/commit'' 0 hello_ep)
               (json_headers @ [(''X-Aitp-Session-Id'', session_id)]) commit) (\<lambda>r2.
      thenA (raise_if_peer_refused env r2 ''commit'')
        (retA (session_id, ae_text env (snd (snd r2)), session2)))))))))))))"

definition initiate_handshake :: "('a, 'h, 'r, 's) admin_env \<Rightarrow> string \<Rightarrow> response adm" where
  "initiate_handshake env content =
     bindA (pyA (request_json content)) (\<lambda>body.
     bindA (pyA (subscript body ''peer_manifest_url'')) (\<lambda>url_json.
     bindA (pyA (json_get body ''requested_grants'')) (\<lambda>requested.
     bindA (as_text url_json) (\<lambda>url.
     bindA (fetch_text env url) (\<lambda>peer_manifest_json.
     bindA (verify_peer_manifest env peer_manifest_json url) (\<lambda>peer_manifest.
     bindA (pyA (subscript (JObj peer_manifest) ''aid'')) (\<lambda>aid_json.
     bindA (as_text aid_json) (\<lambda>aid.
     bindA (pyA (new_session env aid)) (\<lambda>session.
     bindA (pyA (grants_for requested peer_manifest)) (\<lambda>grants.
     bindA (exchange_hello_commit env peer_manifest_json peer_manifest grants session) (\<lambda>(session_id, ack, session2).
     bindA (complete_session env session2 ack) (\<lambda>completed.
     bindA (pyA (subscript completed ''tct'')) (\<lambda>tct_token.
     bindA (pyA (decode_claims_of tct_token)) (\<lambda>claims.
     bindA (pyA (subscript (JObj peer_manifest) ''handshake_endpoint'')) (\<lambda>ep. bindA (as_text ep) (\<lambda>hello_ep.
     bindA (pyA (port_from_url hello_ep)) (\<lambda>peer_port.
     thenA (store_tct peer_port tct_token)
     (bindA (as_obj completed) (\<lambda>done.
      thenA (store_voucher peer_port done)
     (thenA (emitA ''handshake.complete''
               [(''session_id'', JStr session_id), (''tct'', tct_event (json_text tct_token)),
                (''grants'', grants_of claims), (''peer_aid'', get_json claims ''iss''), (''role'', JStr ''initiator'')])
       (retA (json_response 200
          (JObj [(''grants'', grants_of claims), (''session_id'', JStr session_id), (''peer_aid'', get_json claims ''iss''),
                 (''peer_port'', JInt peer_port), (''jti'', get_json claims ''jti'')])))))))))))))))))))))))"

section \<open>Invoking a capability\<close>

definition held_token :: "int \<Rightarrow> json adm" where
  "held_token peer_port =
     bindA (getA (\<lambda>s. case dict_get (ad_held_tcts s) peer_port of Some t \<Rightarrow> t | None \<Rightarrow> JNull)) (\<lambda>token.
       if truthy token then retA token
       else http_raise 412 (''No TCT held for port '' @ str_int peer_port @ '' '' @ [CHR 0xE2, CHR 0x80, CHR 0x94] @ '' run handshake first''))"

definition payload_text :: "('a, 'h, 'r, 's) admin_env \<Rightarrow> json \<Rightarrow> string" where
  "payload_text env payload =
     (case payload of
        JObj _ \<Rightarrow> ae_dumps env payload
      | JArr _ \<Rightarrow> ae_dumps env payload
      | JNull \<Rightarrow> []
      | _ \<Rightarrow> py_str (ae_float_text env) payload)"

text \<open>A challenge is answered once: the call is made again with the proof.\<close>

definition answer_challenge ::
  "('a, 'h, 'r, 's) admin_env \<Rightarrow> string \<Rightarrow> string \<Rightarrow> (string \<times> string) list \<Rightarrow> int \<times> (string, string) dict \<times> string \<Rightarrow>
    (pyexc + (int \<times> (string, string) dict \<times> string)) adm" where
  "answer_challenge env url content headers r =
     (case dict_get (fst (snd r)) ''x-aitp-pop-challenge'' of
        Some ch \<Rightarrow>
          if fst r = 401 \<and> ch \<noteq> [] then
            (case (case decode_header ch of
                     None \<Rightarrow> Inl (PyExc ValueError None ''undecodable header'')
                   | Some c \<Rightarrow> hs_sign_pop_response (ae_holder env) (ae_agent env) c) of
               Inl e \<Rightarrow>
                 if exc_kind e \<in> {RuntimeError, ValueError} then retA (Inl e) else raiseA (ServerError e)
             | Inr resp \<Rightarrow>
                 bindA (requestA env ''POST'' url (headers @ [(''x-aitp-pop-response'', encode_header resp)]) content)
                   (\<lambda>r2. retA (Inr r2)))
          else retA (Inr r)
      | None \<Rightarrow> retA (Inr r))"

definition invoke_error :: "int \<Rightarrow> json \<Rightarrow> json" where
  "invoke_error st b = JObj [(''error'', JBool True), (''status_code'', JInt st), (''body'', b)]"

definition invoke_capability :: "('a, 'h, 'r, 's) admin_env \<Rightarrow> string \<Rightarrow> response adm" where
  "invoke_capability env content =
     bindA (pyA (request_json content)) (\<lambda>body.
     bindA (pyA (bindE (subscript body ''peer_port'') py_int)) (\<lambda>peer_port.
     bindA (pyA (subscript body ''capability'')) (\<lambda>capability.
     bindA (pyA (json_get body ''payload'')) (\<lambda>payload.
     bindA (pyA (json_get body ''peer_base_url'')) (\<lambda>given.
     bindA (case py_or given (JStr (loopback_origin (ae_bootstrap env) peer_port)) of
              JStr u \<Rightarrow> retA (rstrip_slash u)
            | _ \<Rightarrow> raiseA (ServerError (PyExc AttributeError None ''object has no attribute rstrip''))) (\<lambda>base.
     bindA (held_token peer_port) (\<lambda>token.
     bindA (as_text token) (\<lambda>tct_json.
     (let url = base @ ''/capabilities/'' @ py_str (ae_float_text env) capability;
          text = payload_text env payload;
          headers = json_headers @ [(''X-AITP-TCT'', tct_json)]
      in bindA (requestA env ''POST'' url headers text) (\<lambda>r0.
         bindA (answer_challenge env url text headers r0) (\<lambda>res.
         case res of
           Inl e \<Rightarrow> retA (json_response 200 (invoke_error 401
                      (JObj [(''detail'', JStr (''cannot answer PoP challenge: '' @ exc_msg e))])))
         | Inr r \<Rightarrow>
             (let inner = (case loads_bytes (snd (snd r)) of Some v \<Rightarrow> v | None \<Rightarrow> JStr (ae_text env (snd (snd r))))
              in retA (json_response 200 (if is_success (fst r) then inner else invoke_error (fst r) inner))))))))))))))"

definition get_held_tct :: "('a, 'h, 'r, 's) admin_env \<Rightarrow> int \<Rightarrow> response adm" where
  "get_held_tct env peer_port =
     bindA (held_token peer_port) (\<lambda>token.
       retA (json_response 200
         (JObj [(''aid'', JStr (sdk_aid (ae_sdk env) (ae_agent env))), (''peer_port'', JInt peer_port), (''tct_token'', token)])))"

section \<open>Renewal\<close>

definition is_sdk_feature_refusal :: "int \<times> (string, string) dict \<times> string \<Rightarrow> bool" where
  "is_sdk_feature_refusal r =
     (fst r = 501 \<and>
      (case loads_bytes (snd (snd r)) of Some (JObj d) \<Rightarrow> get_json d ''code'' = JStr UNAVAILABLE_CODE | _ \<Rightarrow> False))"

text \<open>\<open>sdk_features.unavailable\<close> as the route's response.\<close>

definition feature_or_501 :: "('a, 'h, 'r, 's) admin_env \<Rightarrow> string \<Rightarrow> response adm \<Rightarrow> response adm" where
  "feature_or_501 env feature k =
     bindA (pyA (sdk_has (ae_module env) feature)) (\<lambda>ok.
       if ok then k
       else bindA (pyA (unavailable (ae_module env) feature)) (\<lambda>(st, d). retA (json_response st (JObj d))))"

definition renew_tct :: "('a, 'h, 'r, 's) admin_env \<Rightarrow> string \<Rightarrow> response adm" where
  "renew_tct env content =
     bindA (pyA (request_json content)) (\<lambda>body.
     bindA (pyA (bindE (subscript body ''peer_port'') py_int)) (\<lambda>peer_port.
     bindA (held_token peer_port) (\<lambda>current.
     feature_or_501 env TCT_RENEWAL
      (bindA (nowA env) (\<lambda>now.
       bindA (pyA (hs_build_renewal_request (ae_holder env) (ae_agent env) current now)) (\<lambda>payload.
       bindA (requestA env ''POST'' (loopback_origin (ae_bootstrap env) peer_port @ ''/admin/process-renewal'') json_headers payload) (\<lambda>r.
       if is_sdk_feature_refusal r then retA \<lparr>rs_status = 501, rs_body = TextBody (snd (snd r)), rs_headers = []\<rparr>
       else
         thenA (raise_for_statusA r)
         (bindA (pyA (loads_or_raise (ae_text env (snd (snd r))))) (\<lambda>renewed.
          bindA (pyA (subscript renewed ''tct'')) (\<lambda>new_token.
          thenA (store_tct peer_port new_token)
         (bindA (as_obj renewed) (\<lambda>d.
          thenA (store_voucher peer_port d)
         (bindA (pyA (decode_claims_of new_token)) (\<lambda>claims.
          thenA (emitA ''tct.renewal.requested''
                   [(''tct'', tct_event (json_text new_token)), (''jti'', get_json claims ''jti''), (''peer_port'', JInt peer_port)])
            (retA (json_response 200
               (JObj [(''jti'', get_json claims ''jti''), (''expires_at'', get_json claims ''exp''),
                      (''issuer'', get_json claims ''iss''), (''subject'', get_json claims ''sub'')])))))))))))))))))"

text \<open>The expiry bound of a renewed token: that of the manifest served now.\<close>

definition served_expiry :: "('a, 'h, 'r, 's) admin_env \<Rightarrow> int \<Rightarrow> int adm" where
  "served_expiry env fallback =
     (case ae_manifest env of
        None \<Rightarrow> retA fallback
      | Some m \<Rightarrow>
          bindA (pyA m) (\<lambda>t. bindA (pyA (loads_or_raise t)) (\<lambda>v. bindA (as_obj v) (\<lambda>d.
          bindA (as_obj (case dict_get d ''manifest'' of Some x \<Rightarrow> x | None \<Rightarrow> JObj [])) (\<lambda>served.
            retA (case get_json served ''expires_at'' of JInt n \<Rightarrow> n | JBool b \<Rightarrow> (if b then 1 else 0) | _ \<Rightarrow> fallback))))))"

definition process_renewal :: "('a, 'h, 'r, 's) admin_env \<Rightarrow> string \<Rightarrow> response adm" where
  "process_renewal env content =
     feature_or_501 env TCT_RENEWAL
      (bindA (pyA (request_text content)) (\<lambda>payload.
       bindA (as_obj (case dict_get (ae_bootstrap env) ''aitp'' of Some c \<Rightarrow> c | None \<Rightarrow> JObj [])) (\<lambda>cfg.
       bindA (pyA (py_int (case dict_get cfg ''ttl_secs'' of Some v \<Rightarrow> v | None \<Rightarrow> JInt 3600))) (\<lambda>ttl_secs.
       bindA (nowA env) (\<lambda>now.
       bindA (served_expiry env (trunc now + ttl_secs)) (\<lambda>manifest_exp.
       bindA (nowA env) (\<lambda>now2. bindA (getA (\<lambda>s. effective_jtis (ad_revocation s))) (\<lambda>deny.
       case hs_process_renewal_request (ae_holder env) (ae_agent env) payload manifest_exp ttl_secs deny now2 of
         Inl e \<Rightarrow>
           if exc_kind e \<in> {RuntimeError, ValueError}
           then thenA (emitA ''tct.renewal.rejected'' [(''error'', JStr (exc_msg e))])
                  (http_raise (if exc_kind e = RuntimeError then 409 else 400) (''renewal rejected: '' @ exc_msg e))
           else raiseA (ServerError e)
       | Inr envelope \<Rightarrow>
           bindA (pyA (bindE (loads_or_raise envelope) (\<lambda>v. subscript v ''tct''))) (\<lambda>new_token.
           bindA (pyA (decode_claims_of new_token)) (\<lambda>claims.
           thenA (emitA ''tct.renewal.issued''
                    [(''tct'', tct_event (json_text new_token)), (''jti'', get_json claims ''jti''), (''subject'', get_json claims ''sub'')])
             (retA \<lparr>rs_status = 200, rs_body = TextBody envelope, rs_headers = []\<rparr>)))))))))))"

section \<open>Session bundles\<close>

definition participants_of :: "('a, 'h, 'r, 's) admin_env \<Rightarrow> json \<Rightarrow> pyexc + json list" where
  "participants_of env given =
     bindE (if truthy given then json_iter given else Inr []) (\<lambda>provided.
       Inr (if provided = []
            then map (\<lambda>(aid, t). JObj [(''aid'', JStr aid), (''tct_token'', JStr t)]) (ae_issued_tcts env)
            else provided))"

text \<open>\<open>p["aid"]\<close> and \<open>p.get("tct_token") or p["tct_envelope"]\<close> of a participant.\<close>

definition participant_of :: "json \<Rightarrow> pyexc + (json \<times> json)" where
  "participant_of p =
     bindE (subscript p ''aid'') (\<lambda>aid.
     bindE (json_get p ''tct_token'') (\<lambda>tok.
     if truthy tok then Inr (aid, tok) else bindE (subscript p ''tct_envelope'') (\<lambda>env. Inr (aid, env))))"

fun participants :: "json list \<Rightarrow> pyexc + (json \<times> json) list" where
  "participants [] = Inr []"
| "participants (p # ps) = bindE (participant_of p) (\<lambda>x. bindE (participants ps) (\<lambda>xs. Inr (x # xs)))"

definition export_session_bundle :: "('a, 'h, 'r, 's) admin_env \<Rightarrow> string \<Rightarrow> response adm" where
  "export_session_bundle env content =
     bindA (pyA (request_json content)) (\<lambda>body.
     bindA (pyA (json_get body ''participant_tcts'')) (\<lambda>given.
     bindA (pyA (participants_of env given)) (\<lambda>provided.
     if provided = []
     then http_raise 412 (''no participants '' @ [CHR 0xE2, CHR 0x80, CHR 0x94] @ '' handshake first or pass participant_tcts'')
     else
       feature_or_501 env SESSION_BUNDLE
        (bindA (nowA env) (\<lambda>now.
         bindA (pyA (participants provided)) (\<lambda>ps.
         bindA (pyA (hs_build_bundle (ae_holder env) (ae_agent env) (ae_uuid env) (trunc now) ps)) (\<lambda>bundle.
         thenA (emitA ''session.bundle.exported''
                  [(''session_id'', JStr (ae_uuid env)), (''participant_count'', JInt (int (length ps)))])
           (retA (json_response 200
              (JObj [(''bundle_envelope'', JStr bundle), (''session_id'', JStr (ae_uuid env)),
                     (''participant_aids'', JArr (map fst ps))]))))))))))"

definition verify_session_bundle_endpoint :: "('a, 'h, 'r, 's) admin_env \<Rightarrow> string \<Rightarrow> response adm" where
  "verify_session_bundle_endpoint env content =
     bindA (pyA (request_json content)) (\<lambda>body.
     bindA (pyA (subscript body ''bundle_envelope'')) (\<lambda>envelope.
     bindA (pyA (json_get body ''coordinator_manifest_url'')) (\<lambda>given.
     if \<not> truthy given then http_raise 400 ''coordinator_manifest_url is required to verify a session bundle''
     else
       feature_or_501 env SESSION_BUNDLE
        (bindA (as_text given) (\<lambda>url.
         bindA (fetch_text env url) (\<lambda>manifest.
         thenA (verify_peer_manifest env manifest url)
         (bindA (nowA env) (\<lambda>now.
          case hs_verify_session_bundle (ae_holder env) envelope (sdk_aid (ae_sdk env) (ae_agent env)) manifest (insecureA env) now of
            Inl e \<Rightarrow>
              if exc_kind e \<in> {RuntimeError, ValueError}
              then thenA (emitA ''session.bundle.rejected'' [(''error'', JStr (exc_msg e))])
                     (http_raise (if exc_kind e = RuntimeError then 403 else 400) (''session bundle rejected: '' @ exc_msg e))
              else raiseA (ServerError e)
          | Inr outcome \<Rightarrow>
              bindA (pyA (py_len (case dict_get outcome ''active_aids'' of Some v \<Rightarrow> v | None \<Rightarrow> JArr []))) (\<lambda>n.
              thenA (emitA ''session.bundle.verified'' [(''kind'', get_json outcome ''kind''), (''active_count'', JInt (int n))])
                (retA (json_response 200 (JObj outcome))))))))))))"

section \<open>Delegation\<close>

definition issue_delegation :: "('a, 'h, 'r, 's) admin_env \<Rightarrow> string \<Rightarrow> response adm" where
  "issue_delegation env content =
     bindA (pyA (request_json content)) (\<lambda>body.
     bindA (pyA (bindE (subscript body ''held_tct_peer_port'') py_int)) (\<lambda>held_port.
     bindA (pyA (subscript body ''delegatee_manifest_url'')) (\<lambda>url_json.
     bindA (pyA (bindE (subscript body ''scope'') json_iter)) (\<lambda>scope.
     bindA (pyA (json_get body ''ttl_secs'')) (\<lambda>ttl_secs.
     bindA (getA (\<lambda>s. case dict_get (ad_held_vouchers s) held_port of Some v \<Rightarrow> v | None \<Rightarrow> JNull)) (\<lambda>voucher.
     if \<not> truthy voucher
     then http_raise 412 (''No grant voucher held for port '' @ str_int held_port @ '' '' @ [CHR 0xE2, CHR 0x80, CHR 0x94]
                          @ '' run handshake first'')
     else
       bindA (as_text url_json) (\<lambda>url.
       bindA (fetch_text env url) (\<lambda>manifest_json.
       bindA (verify_peer_manifest env manifest_json url) (\<lambda>manifest.
       bindA (pyA (subscript (JObj manifest) ''aid'')) (\<lambda>delegatee_aid.
       bindA (nowA env) (\<lambda>now.
       bindA (pyA (hs_build_delegation (ae_holder env) (ae_agent env) voucher delegatee_aid scope ttl_secs now)) (\<lambda>token.
       thenA (emitA ''delegation.issued''
                [(''tct'', tct_event token), (''delegatee_aid'', delegatee_aid), (''scope'', JArr scope)])
         (retA (json_response 200
            (JObj [(''delegation_token'', JStr token), (''delegatee_aid'', delegatee_aid), (''scope'', JArr scope)])))))))))))))))"

definition fetch_issuer_manifest :: "('a, 'h, 'r, 's) admin_env \<Rightarrow> json \<Rightarrow> string adm" where
  "fetch_issuer_manifest env u =
     bindA (as_text u) (\<lambda>url.
     bindA (fetch_text env url) (\<lambda>m.
     thenA (verify_peer_manifest env m url) (retA m)))"

text \<open>The grantor's reason: \<open>r.json().get("error") or r.text\<close>.\<close>

definition refusal_reason :: "('a, 'h, 'r, 's) admin_env \<Rightarrow> string \<Rightarrow> json" where
  "refusal_reason env content =
     (case loads_bytes content of
        Some (JObj d) \<Rightarrow> py_or (get_json d ''error'') (JStr (ae_text env content))
      | _ \<Rightarrow> JStr (ae_text env content))"

text \<open>
  What the grantor sent is kept: the token and the voucher of its answer, or the whole text when
  it is not such an object. The token is kept before its claims are read.
\<close>

definition store_redeemed :: "('a, 'h, 'r, 's) admin_env \<Rightarrow> int \<Rightarrow> string \<Rightarrow> unit adm" where
  "store_redeemed env peer_port text =
     (let fallback = thenA (store_tct peer_port (JStr text)) (emitA ''delegation.redeemed'' [(''peer_port'', JInt peer_port)]);
          handle = (\<lambda>e. if exc_kind e \<in> {ValueError, KeyError} then fallback else raiseA (ServerError e))
      in case bindE (loads_or_raise text) (\<lambda>v. bindE (subscript v ''tct'') (\<lambda>t. Inr (v, t))) of
           Inl e \<Rightarrow> handle e
         | Inr (redeemed, token) \<Rightarrow>
             thenA (store_tct peer_port token)
             (bindA (as_obj redeemed) (\<lambda>d.
              thenA (store_voucher peer_port d)
             (case decode_claims_of token of
                Inl e \<Rightarrow> handle e
              | Inr claims \<Rightarrow>
                  emitA ''delegation.redeemed''
                    [(''tct'', tct_event (json_text token)), (''peer_aid'', get_json claims ''iss''),
                     (''grants'', get_json claims ''grants''), (''jti'', get_json claims ''jti'')]))))"

definition redeem_delegation_admin :: "('a, 'h, 'r, 's) admin_env \<Rightarrow> string \<Rightarrow> response adm" where
  "redeem_delegation_admin env content =
     bindA (pyA (request_json content)) (\<lambda>body.
     bindA (pyA (subscript body ''redeem_url'')) (\<lambda>redeem_url.
     bindA (pyA (subscript body ''delegation_token'')) (\<lambda>token.
     bindA (pyA (bindE (subscript body ''peer_port'') py_int)) (\<lambda>peer_port.
     bindA (pyA (json_get body ''issuer_manifest_urls'')) (\<lambda>urls.
     if \<not> truthy urls then http_raise 400 ''issuer_manifest_urls is required to redeem a delegation''
     else
       bindA (pyA (json_iter urls)) (\<lambda>us.
       bindA (forA (fetch_issuer_manifest env) us) (\<lambda>manifests.
       bindA (as_text redeem_url) (\<lambda>url.
       bindA (requestA env ''POST'' url json_headers
                (ae_dumps env (JObj [(''delegation_token'', token), (''issuer_manifests'', JArr (map JStr manifests))]))) (\<lambda>r.
       if fst r \<in> {401, 403} then raiseA (HTTPException (fst r) (refusal_reason env (snd (snd r))) [])
       else
         thenA (raise_for_statusA r)
         (thenA (store_redeemed env peer_port (ae_text env (snd (snd r))))
           (retA (json_response 200 (JObj [(''ok'', JBool True), (''peer_port'', JInt peer_port)])))))))))))))"

section \<open>Revoking\<close>

text \<open>\<open>str(uuid.UUID(body["jti"]))\<close> with its four exceptions caught; another value of the body raises inside too.\<close>

definition revoke_tct :: "string \<Rightarrow> response adm" where
  "revoke_tct content =
     bindA (pyA (request_json content)) (\<lambda>body.
     case bindE (subscript body ''jti'') py_uuid of
       Inl e \<Rightarrow>
         if exc_kind e \<in> {KeyError, TypeError, ValueError, AttributeError} then http_raise 400 ''jti must be a UUID''
         else raiseA (ServerError e)
     | Inr jti \<Rightarrow>
         thenA (updA (\<lambda>s. s\<lparr>ad_revocation := revoke_local jti (ad_revocation s)\<rparr>))
         (thenA (emitA ''tct.revoked'' [(''jti'', JStr jti)])
         (bindA (getA (\<lambda>s. revocation_len (ad_revocation s))) (\<lambda>n.
            retA (json_response 200 (JObj [(''revoked'', JStr jti), (''total_revoked'', JInt (int n))]))))))"

section \<open>Enrolment\<close>

definition post_to_cp_or_502 ::
  "('a, 'h, 'r, 's) admin_env \<Rightarrow> string \<Rightarrow> string \<Rightarrow> (string \<times> string) list \<Rightarrow> string \<Rightarrow>
    (int \<times> (string, string) dict \<times> string) adm" where
  "post_to_cp_or_502 env url content headers stage =
     bindA (exchange env ''POST'' url headers content) (\<lambda>r.
       case r of
         Inr a \<Rightarrow> retA a
       | Inl msg \<Rightarrow>
           thenA (emitA ''cp.enroll_failed'' [(''stage'', JStr stage), (''transport'', JStr msg)])
             (http_raise 502 (''CP '' @ stage @ '' request failed: '' @ msg)))"

text \<open>The checks both steps make: a success status and a JSON body.\<close>

definition cp_json_or_502 ::
  "('a, 'h, 'r, 's) admin_env \<Rightarrow> string \<Rightarrow> string \<Rightarrow> int \<times> (string, string) dict \<times> string \<Rightarrow> json adm" where
  "cp_json_or_502 env stage path r =
     (let text = ae_text env (snd (snd r))
      in if \<not> is_success (fst r) then
           thenA (emitA ''cp.enroll_failed''
                    [(''stage'', JStr stage), (''status_code'', JInt (fst r)), (''body'', JStr text)])
             (http_raise 502 (''CP '' @ path @ '' returned '' @ str_int (fst r) @ '': '' @ text))
         else
           (case loads_bytes (snd (snd r)) of
              Some v \<Rightarrow>
                if v = JNull then
                  thenA (emitA ''cp.enroll_failed'' [(''stage'', JStr stage), (''decode'', JStr text)])
                    (http_raise 502 (''CP '' @ path @ '' returned a non-JSON 2xx body: '' @ repr_str text))
                else retA v
            | None \<Rightarrow>
                thenA (emitA ''cp.enroll_failed'' [(''stage'', JStr stage), (''decode'', JStr text)])
                  (http_raise 502 (''CP '' @ path @ '' returned a non-JSON 2xx body: '' @ repr_str text))))"

definition cp_base_of :: "('a, 'h, 'r, 's) admin_env \<Rightarrow> json \<Rightarrow> json" where
  "cp_base_of env given =
     py_or given (case dict_get (ae_bootstrap env) ''cp'' of Some (JObj d) \<Rightarrow> get_json d ''base_url'' | _ \<Rightarrow> JNull)"

definition enroll_with_cp :: "('a, 'h, 'r, 's) admin_env \<Rightarrow> string \<Rightarrow> response adm" where
  "enroll_with_cp env content =
     bindA (if content = [] then retA (JObj []) else pyA (request_json content)) (\<lambda>body.
     bindA (pyA (json_get body ''cp_base_url'')) (\<lambda>given.
     if \<not> truthy (cp_base_of env given)
     then http_raise 412 ''No CP base_url available (set CP_BASE_URL or pass cp_base_url in body)''
     else
       (case ae_manifest env of
          None \<Rightarrow> http_raise 500 ''agent worker did not wire manifest_provider into build_admin_router''
        | Some mr \<Rightarrow>
            bindA (pyA mr) (\<lambda>manifest_json.
            bindA (case cp_base_of env given of
                     JStr u \<Rightarrow> retA (rstrip_slash u)
                   | _ \<Rightarrow> raiseA (ServerError (PyExc AttributeError None ''object has no attribute rstrip''))) (\<lambda>base.
            bindA (post_to_cp_or_502 env (base @ ''/api/registry/enroll'') manifest_json json_headers ''enroll'') (\<lambda>r1.
            bindA (cp_json_or_502 env ''enroll'' ''/enroll'' r1) (\<lambda>v1. bindA (as_obj v1) (\<lambda>enrolled.
            if \<not> truthy (get_json enrolled ''token'')
            then http_raise 502 (''CP /enroll returned no token: '' @ py_str (ae_float_text env) v1)
            else
              bindA (post_to_cp_or_502 env (base @ ''/api/registry/agents'') manifest_json
                       (json_headers @ [(''Authorization'', ''Bearer '' @ py_str (ae_float_text env) (get_json enrolled ''token''))])
                       ''register'') (\<lambda>r2.
              bindA (cp_json_or_502 env ''register'' ''/agents'' r2) (\<lambda>v2. bindA (as_obj v2) (\<lambda>registered.
              thenA (emitA ''cp.enroll_succeeded''
                       [(''aid'', get_json registered ''aid''), (''registered_at'', get_json registered ''registeredAt'')])
                (retA (json_response 200
                   (JObj [(''enrolled'', JBool True), (''aid'', get_json registered ''aid''),
                          (''registered_at'', get_json registered ''registeredAt''),
                          (''token_expires_in'', get_json enrolled ''expiresIn'')]))))))))))))))"

section \<open>Self-execution\<close>

definition self_execute :: "('a, 'h, 'r, 's) admin_env \<Rightarrow> string \<Rightarrow> response adm" where
  "self_execute env content =
     bindA (pyA (request_json content)) (\<lambda>body.
     bindA (pyA (subscript body ''capability'')) (\<lambda>cap.
     bindA (pyA (json_get body ''payload'')) (\<lambda>payload.
     if \<not> hashable cap then raiseA (ServerError (PyExc TypeError None ''unhashable type''))
     else
       (case (case cap of JStr c \<Rightarrow> ae_capabilities env c | _ \<Rightarrow> None) of
          None \<Rightarrow> http_raise 404 (''capability '' @ py_str (ae_float_text env) cap @ '' not registered on this agent'')
        | Some handler \<Rightarrow>
            thenA (emitA ''capability.self_execute'' [(''capability'', cap)])
              (case handler payload of Inl e \<Rightarrow> raiseA e | Inr v \<Rightarrow> retA (json_response 200 v))))))"

section \<open>Telemetry\<close>

text \<open>\<open>emit_event\<close>: the post it makes, if any; whatever becomes of it is ignored.\<close>

definition telemetry_payload :: "json_dict \<Rightarrow> event \<Rightarrow> rat \<Rightarrow> json_dict" where
  "telemetry_payload bootstrap ev ts =
     fold (\<lambda>(k, v) d. dict_set k v d) (snd ev)
       [(''type'', JStr (fst ev)), (''run_id'', get_json bootstrap ''run_id''), (''agent_id'', get_json bootstrap ''agent_id''),
        (''ts'', JFloat (Fin ts))]"

definition telemetry_request ::
  "(pyfloat \<Rightarrow> string) \<Rightarrow> json_dict \<Rightarrow> event \<Rightarrow> rat \<Rightarrow> (json \<times> (string \<times> string) list \<times> json_dict) option" where
  "telemetry_request fl bootstrap ev ts =
     (let pg = get_obj bootstrap ''playground''; token = get_json pg ''telemetry_token''
      in if truthy (get_json pg ''telemetry_url'')
         then Some (get_json pg ''telemetry_url'',
                    if truthy token then [(''Authorization'', ''Bearer '' @ py_str fl token)] else [],
                    telemetry_payload bootstrap ev ts)
         else None)"

end
