(* ===== verification/Admin_Safety.thy ===== *)
theory Admin_Safety
  imports Agent_Admin Demo_Sdk
begin

text \<open>
  What the admin routes of an agent guarantee, whatever its peers answer: it dials and pins only
  the peer whose manifest the SDK verified, delegates only to the holder of a verified manifest,
  presents the token it holds for a peer and proves its possession at most once per call, renews
  within the life of the manifest it serves, and an operator's revocation takes effect on the
  capability path at once and for good.
\<close>

section \<open>The requests a computation sends\<close>

definition sends :: "(peer_call \<Rightarrow> bool) \<Rightarrow> admin_state \<Rightarrow> 'x adm \<Rightarrow> bool" where
  "sends P s m \<longleftrightarrow> (\<forall>r s'. m s = (r, s') \<longrightarrow> (\<exists>new. ad_calls s' = ad_calls s @ new \<and> list_all P new))"

lemma sends_quiet: "(\<And>r s'. m s = (r, s') \<Longrightarrow> ad_calls s' = ad_calls s) \<Longrightarrow> sends P s m"
  by (auto simp: sends_def)

lemma sends_bind:
  assumes "sends P s m" "\<And>x s1. m s = (Inr x, s1) \<Longrightarrow> sends P s1 (f x)"
  shows "sends P s (bindA m f)"
  unfolding sends_def
proof (intro allI impI)
  fix r s' assume run: "bindA m f s = (r, s')"
  obtain r1 s1 where m: "m s = (r1, s1)" by (cases "m s")
  with assms(1) obtain new where new: "ad_calls s1 = ad_calls s @ new" "list_all P new" unfolding sends_def by blast
  show "\<exists>new. ad_calls s' = ad_calls s @ new \<and> list_all P new"
  proof (cases r1)
    case (Inl e)
    with run m new show ?thesis by (auto simp: bindA_def)
  next
    case (Inr x)
    with run m have "f x s1 = (r, s')" by (simp add: bindA_def)
    with assms(2) [of x s1] m Inr obtain new2 where "ad_calls s' = ad_calls s1 @ new2" "list_all P new2"
      unfolding sends_def by blast
    with new show ?thesis by auto
  qed
qed

lemma sends_basic [intro!, simp]:
  "sends P s (retA x)" "sends P s (raiseA e)" "sends P s (getA g)" "sends P s (emitA ty flds)" "sends P s (nowA env)"
  "sends P s (pyA r)" "sends P s (as_text v)" "sends P s (as_obj v)" "sends P s (store_tct i t)" "sends P s (store_voucher i d)"
  by (auto intro!: sends_quiet simp: emitA_def nowA_def pyA_def as_text_def as_obj_def store_tct_def store_voucher_def
      split: sum.splits json.splits if_splits)

lemma sends_exchange:
  "P \<lparr>pc_method = meth, pc_url = url, pc_headers = hs, pc_content = c\<rparr> \<Longrightarrow> sends P s (exchange env meth url hs c)"
  by (auto simp: sends_def exchange_def)

lemma sends_requestA:
  "P \<lparr>pc_method = meth, pc_url = url, pc_headers = hs, pc_content = c\<rparr> \<Longrightarrow> sends P s (requestA env meth url hs c)"
  unfolding requestA_def by (rule sends_bind [OF sends_exchange]) (auto split: sum.splits)

lemma sends_raise_for_status [intro!, simp]: "sends P s (raise_for_statusA r)"
  by (simp add: raise_for_statusA_def)

lemma sends_fetch:
  "P \<lparr>pc_method = ''GET'', pc_url = url, pc_headers = [], pc_content = []\<rparr> \<Longrightarrow> sends P s (fetch_text env url)"
  unfolding fetch_text_def by (intro sends_bind sends_requestA) auto

lemma sends_reject [intro!, simp]: "sends P s (reject_manifest u c d)"
  unfolding reject_manifest_def by (intro sends_bind) auto

lemma sends_verify [intro!, simp]: "sends P s (verify_peer_manifest env t u)"
  unfolding verify_peer_manifest_def by (intro sends_bind) (auto simp: Let_def split: option.splits json.splits)

lemma sends_refused [intro!, simp]: "sends P s (raise_if_peer_refused env r step)"
  unfolding raise_if_peer_refused_def Let_def by (auto intro!: sends_bind)

lemma sends_complete [intro!, simp]: "sends P s (complete_session env h ack)"
  unfolding complete_session_def by (intro sends_bind) (auto intro!: sends_bind split: sum.splits)

lemmas quiet_sends = sends_basic sends_raise_for_status sends_reject sends_verify sends_refused sends_complete

section \<open>Computations that leave the holder's tokens alone\<close>

definition tokens :: "admin_state \<Rightarrow> (int, json) dict \<times> (int, json) dict \<times> revocation_state" where
  "tokens s = (ad_held_tcts s, ad_held_vouchers s, ad_revocation s)"

definition holds :: "'x adm \<Rightarrow> bool" where
  "holds m \<longleftrightarrow> (\<forall>s r s'. m s = (r, s') \<longrightarrow> tokens s' = tokens s)"

lemma holds_bind:
  assumes "holds m" "\<And>x. holds (f x)"
  shows "holds (bindA m f)"
  using assms unfolding holds_def bindA_def by (auto split: prod.splits sum.splits)

lemma holds_basic:
  "holds (retA x)" "holds (raiseA e)" "holds (getA g)" "holds (emitA ty flds)" "holds (nowA env)"
  "holds (pyA r)" "holds (as_text v)" "holds (as_obj v)" "holds (exchange env meth url hs c)"
  by (auto simp: holds_def tokens_def emitA_def nowA_def pyA_def as_text_def as_obj_def exchange_def
      split: sum.splits json.splits)

lemma holds_cases:
  "holds a \<Longrightarrow> holds b \<Longrightarrow> holds (if c then a else b)"
  "(\<And>e. holds (f e)) \<Longrightarrow> (\<And>x. holds (g x)) \<Longrightarrow> holds (case r of Inl e \<Rightarrow> f e | Inr x \<Rightarrow> g x)"
  "holds a \<Longrightarrow> (\<And>x. holds (g x)) \<Longrightarrow> holds (case o' of None \<Rightarrow> a | Some x \<Rightarrow> g x)"
  "(\<And>x y. holds (h x y)) \<Longrightarrow> holds (case p of (x, y) \<Rightarrow> h x y)"
  by (auto split: sum.splits option.splits prod.splits)

lemmas holds_rules = holds_bind holds_basic holds_cases

lemma holds_requests:
  "holds (requestA env meth url hs c)" "holds (raise_for_statusA r)" "holds (fetch_text env url)"
  "holds (reject_manifest u c d)" "holds (raise_if_peer_refused env r step)"
proof -
  show r: "holds (requestA env meth url hs c)" for env :: "('a, 'h, 'r, 's) admin_env" and meth url hs c
    unfolding requestA_def by (intro holds_rules)
  show "holds (raise_for_statusA r)" "holds (reject_manifest u c d)" "holds (raise_if_peer_refused env r step)"
    unfolding raise_for_statusA_def reject_manifest_def raise_if_peer_refused_def Let_def by (intro holds_rules)+
  show "holds (fetch_text env url)"
    unfolding fetch_text_def raise_for_statusA_def by (intro holds_rules r)
qed

lemma holds_verify: "holds (verify_peer_manifest env t u)"
proof -
  have "holds (case v of JObj m \<Rightarrow> retA m | _ \<Rightarrow> reject_manifest u a b)" for v a b by (cases v) (simp_all add: holds_basic holds_requests)
  then show ?thesis unfolding verify_peer_manifest_def Let_def by (intro holds_rules holds_requests)
qed

lemma holds_handshake:
  "holds (exchange_hello_commit env t pm grants session)" "holds (complete_session env h ack)"
  unfolding exchange_hello_commit_def complete_session_def by (intro holds_rules holds_requests)+

lemma holds_helpers:
  "holds (held_token port)" "holds (answer_challenge env url c hs r)" "holds (served_expiry env n)"
  "holds (post_to_cp_or_502 env url c hs stage)" "holds (cp_json_or_502 env stage path r)"
  unfolding held_token_def answer_challenge_def served_expiry_def post_to_cp_or_502_def cp_json_or_502_def Let_def
  by (intro holds_rules holds_requests)+

lemma holds_feature: "holds k \<Longrightarrow> holds (feature_or_501 env f k)"
  unfolding feature_or_501_def by (intro holds_rules) auto

section \<open>Peers the SDK verified\<close>

text \<open>The \<open>i\<close>-th request of the agent was answered with an envelope the SDK verified, of manifest \<open>m\<close>.\<close>

definition manifest_at :: "('a, 'h, 'r, 's) admin_env \<Rightarrow> nat \<Rightarrow> json_dict \<Rightarrow> bool" where
  "manifest_at env i m \<longleftrightarrow>
     (\<exists>st hs c d now. ae_answers env i = Inr (st, hs, c) \<and> is_success st \<and>
        hs_verify_manifest (ae_holder env) (ae_text env c) (insecureA env) now = None \<and>
        loads (ae_text env c) = Some (JObj d) \<and> dict_get d ''manifest'' = Some (JObj m))"

lemma fetch_text_ok:
  assumes "fetch_text env url s = (Inr t, s')"
  obtains st hs c where "ae_answers env (length (ad_calls s)) = Inr (st, hs, c)" "is_success st" "t = ae_text env c"
    "ad_calls s' = ad_calls s @ [\<lparr>pc_method = ''GET'', pc_url = url, pc_headers = [], pc_content = []\<rparr>]"
    "ad_held_tcts s' = ad_held_tcts s" "ad_held_vouchers s' = ad_held_vouchers s" "ad_revocation s' = ad_revocation s"
  using assms that
  by (auto simp: fetch_text_def requestA_def exchange_def bindA_Inr_iff raise_for_statusA_def split: sum.splits if_splits)

lemma verify_peer_manifest_ok:
  assumes "verify_peer_manifest env t url s = (Inr m, s')"
  obtains d where "hs_verify_manifest (ae_holder env) t (insecureA env) (ae_clk env (ad_ticks s)) = None"
    "loads t = Some (JObj d)" "dict_get d ''manifest'' = Some (JObj m)" "s' = s\<lparr>ad_ticks := ad_ticks s + 1\<rparr>"
  using assms that
  by (auto simp: verify_peer_manifest_def nowA_def bindA_def reject_manifest_def emitA_def get_json_def Let_def
      split: option.splits json.splits)

lemma fetched_manifest:
  assumes "fetch_text env url s = (Inr t, s1)" "verify_peer_manifest env t url' s1 = (Inr m, s2)"
  shows "manifest_at env (length (ad_calls s)) m"
  using fetch_text_ok [OF assms(1)] verify_peer_manifest_ok [OF assms(2)] unfolding manifest_at_def by metis

lemma subscript_obj: "subscript (JObj d) k = Inr v \<longleftrightarrow> dict_get d k = Some v"
  by (auto split: option.splits)

lemma as_text_ok: "as_text v s = (Inr t, s') \<longleftrightarrow> v = JStr t \<and> s' = s"
  by (auto simp: as_text_def split: json.splits)

lemma as_obj_ok: "as_obj v s = (Inr d, s') \<longleftrightarrow> v = JObj d \<and> s' = s"
  by (auto simp: as_obj_def split: json.splits)

lemma sends_hello_commit:
  assumes "\<And>ep hs c. dict_get pm ''handshake_endpoint'' = Some (JStr ep) \<Longrightarrow>
      P \<lparr>pc_method = ''POST'', pc_url = ep, pc_headers = hs, pc_content = c\<rparr> \<and>
      P \<lparr>pc_method = ''POST'', pc_url = py_replace ''/hello'' ''/commit'' 0 ep, pc_headers = hs, pc_content = c\<rparr>"
  shows "sends P s (exchange_hello_commit env t pm grants session)"
  unfolding exchange_hello_commit_def case_prod_unfold
  apply (rule sends_bind)
   apply (auto intro!: sends_bind) [1]
  apply (rule sends_bind, rule quiet_sends)+
  apply (rule sends_bind)
   apply (rule sends_requestA)
   apply (use assms in \<open>auto simp: pyA_Inr_iff subscript_obj as_text_ok simp del: subscript.simps\<close>) [1]
  apply (rule sends_bind, rule quiet_sends)+
  apply (rule sends_bind)
   apply (rule sends_requestA)
   apply (use assms in \<open>auto simp: pyA_Inr_iff subscript_obj as_text_ok simp del: subscript.simps\<close>) [1]
  apply (rule sends_bind, rule quiet_sends)+
  apply simp
  done

text \<open>
  On a handshake an agent sends nothing but the request for the peer's manifest until the SDK
  has verified the envelope that answered it, and then only to the handshake endpoint (and its
  commit counterpart) that this manifest names.
\<close>

theorem handshake_dials_verified_peer:
  assumes "initiate_handshake env content s = (r, s')"
  shows "\<exists>new. ad_calls s' = ad_calls s @ new \<and>
    list_all (\<lambda>c. pc_method c = ''GET'' \<or>
      (\<exists>m ep. manifest_at env (length (ad_calls s)) m \<and> dict_get m ''handshake_endpoint'' = Some (JStr ep) \<and>
         pc_url c \<in> {ep, py_replace ''/hello'' ''/commit'' 0 ep})) new"
proof -
  let ?P = "\<lambda>c. pc_method c = ''GET'' \<or>
      (\<exists>m ep. manifest_at env (length (ad_calls s)) m \<and> dict_get m ''handshake_endpoint'' = Some (JStr ep) \<and>
         pc_url c \<in> {ep, py_replace ''/hello'' ''/commit'' 0 ep})"
  have post: "?P \<lparr>pc_method = ''POST'', pc_url = ep, pc_headers = hs, pc_content = c\<rparr> \<and>
      ?P \<lparr>pc_method = ''POST'', pc_url = py_replace ''/hello'' ''/commit'' 0 ep, pc_headers = hs, pc_content = c\<rparr>"
    if "manifest_at env (length (ad_calls s)) m" "dict_get m ''handshake_endpoint'' = Some (JStr ep)" for m ep hs c
    using that by auto
  have "sends ?P s (initiate_handshake env content)"
    unfolding initiate_handshake_def case_prod_unfold
    apply (rule sends_bind, rule quiet_sends)+
    apply (rule sends_bind)
     apply (rule sends_fetch, simp)
    apply (rule sends_bind, rule quiet_sends)
    apply (rule sends_bind, rule quiet_sends)+
    apply (rule sends_bind)
     apply (rule sends_hello_commit)
     apply (rule post)
      apply (auto simp: pyA_Inr_iff as_text_ok intro: fetched_manifest) [1]
     apply assumption
    apply (rule sends_bind, rule quiet_sends)+
    apply simp
    done
  with assms show ?thesis unfolding sends_def by blast
qed

text \<open>
  C7: a delegation is issued only from the voucher this agent holds for the named peer and only to
  the AID of a manifest that answered at the delegatee's URL and that the SDK verified; nothing but
  that one request is sent and no token is stored.
\<close>

theorem delegation_recipient_verified:
  assumes "issue_delegation env content s = (Inr resp, s')"
  shows "\<exists>m aid voucher scope ttl now token port. rs_status resp = 200 \<and>
    manifest_at env (length (ad_calls s)) m \<and> dict_get m ''aid'' = Some aid \<and>
    dict_get (ad_held_vouchers s) port = Some voucher \<and> truthy voucher \<and>
    hs_build_delegation (ae_holder env) (ae_agent env) voucher aid scope ttl now = Inr token \<and>
    rs_body resp = JsonBody (JObj [(''delegation_token'', JStr token), (''delegatee_aid'', aid), (''scope'', JArr scope)]) \<and>
    length (ad_calls s') = Suc (length (ad_calls s)) \<and> ad_held_tcts s' = ad_held_tcts s"
proof -
  note run = assms [unfolded issue_delegation_def bindA_Inr_iff pyA_Inr_iff as_text_ok subscript_obj adm_ok]
  from run show ?thesis
    apply clarify
    apply (frule (1) fetched_manifest)
    apply (erule fetch_text_ok)
    apply (erule verify_peer_manifest_ok)
    apply (simp del: subscript.simps split: option.splits)
    apply fastforce
    done
qed

lemma holds_tokens: "holds m \<Longrightarrow> m s = (r, s') \<Longrightarrow> tokens s' = tokens s"
  unfolding holds_def by blast

lemma complete_session_ok:
  "complete_session env h ack s = (Inr v, s') \<Longrightarrow>
     \<exists>t now. hs_complete (ae_holder env) h ack (effective_jtis (ad_revocation s)) ''fail_closed'' now = Inr t \<and> loads t = Some v"
  by (auto simp: complete_session_def nowA_def bindA_def pyA_def loads_or_raise_def emitA_def
      split: sum.splits option.splits if_splits)

text \<open>The SDK session goes through the hello and the acknowledgement.\<close>

definition session_path :: "('a, 'h, 'r, 's) admin_env \<Rightarrow> string \<Rightarrow> 'h \<Rightarrow> 'h \<Rightarrow> bool" where
  "session_path env manifest_json session session2 \<longleftrightarrow>
     (\<exists>grants mint t1 hello session1 ack sid t2 commit.
        hs_build_hello (ae_holder env) session manifest_json grants mint t1 = Inr (hello, session1) \<and>
        hs_process_hello_ack (ae_holder env) session1 ack sid t2 = Inr (commit, session2))"

lemma exchange_hello_commit_ok:
  assumes "exchange_hello_commit env t pm grants session s = (Inr (sid, ack, session2), s')"
  shows "session_path env t session session2"
  using assms
  unfolding exchange_hello_commit_def session_path_def case_prod_unfold bindA_Inr_iff pyA_Inr_iff adm_ok
  by (metis prod.collapse prod.inject)

lemma handshake_chain:
  assumes "initiate_handshake env content s = (Inr resp, s')"
  shows "\<exists>m aid session session' ack now t d token ep port.
    manifest_at env (length (ad_calls s)) m \<and> dict_get m ''aid'' = Some (JStr aid) \<and> new_session env aid = Inr session \<and>
    (\<exists>manifest_json. session_path env manifest_json session session') \<and>
    hs_complete (ae_holder env) session' ack (effective_jtis (ad_revocation s)) ''fail_closed'' now = Inr t \<and>
    loads t = Some (JObj d) \<and> dict_get d ''tct'' = Some token \<and>
    dict_get m ''handshake_endpoint'' = Some (JStr ep) \<and> port_from_url ep = Inr port \<and>
    ad_held_tcts s' = dict_set port token (ad_held_tcts s) \<and> ad_revocation s' = ad_revocation s"
proof -
  note run = assms [unfolded initiate_handshake_def case_prod_unfold bindA_Inr_iff pyA_Inr_iff as_text_ok as_obj_ok subscript_obj adm_ok
      store_tct_def store_voucher_def]
  from run show ?thesis
    apply clarify
    apply (frule (1) fetched_manifest)
    apply (erule fetch_text_ok)
    apply (erule verify_peer_manifest_ok)
    apply (frule holds_tokens [OF holds_handshake(1)])
    apply (frule holds_tokens [OF holds_handshake(2)])
    apply (drule complete_session_ok)
    apply (drule exchange_hello_commit_ok)
    apply (simp only: tokens_def prod.inject subscript_obj)
    apply clarsimp
    apply (intro exI conjI)
              apply assumption+
    apply (rule refl)
    done
qed

text \<open>
  C6: the token a handshake leaves with the agent comes out of an SDK session that was opened for
  the AID of the verified manifest alone (it is the only pinned key), completed fail-closed under the
  agent's deny set, and is kept under the port of that manifest's handshake endpoint; no other held
  token and no revocation changes.
\<close>

theorem handshake_token_provenance:
  assumes "initiate_handshake env content s = (Inr resp, s')"
  shows "\<exists>m aid session session' ack now t d token ep port.
    manifest_at env (length (ad_calls s)) m \<and> dict_get m ''aid'' = Some (JStr aid) \<and> (\<exists>oidc. hs_new_session (ae_holder env) (ae_agent env) oidc [aid] (insecureA env) = Inr session) \<and>
    (\<exists>manifest_json. session_path env manifest_json session session') \<and>
    hs_complete (ae_holder env) session' ack (effective_jtis (ad_revocation s)) ''fail_closed'' now = Inr t \<and>
    loads t = Some (JObj d) \<and> dict_get d ''tct'' = Some token \<and>
    dict_get m ''handshake_endpoint'' = Some (JStr ep) \<and> port_from_url ep = Inr port \<and>
    ad_held_tcts s' = dict_set port token (ad_held_tcts s) \<and> ad_revocation s' = ad_revocation s"
  using handshake_chain [OF assms] unfolding new_session_def Let_def by blast

section \<open>Invoking\<close>

text \<open>The sequence of requests of a computation, as a whole.\<close>

definition sequence :: "(peer_call list \<Rightarrow> bool) \<Rightarrow> admin_state \<Rightarrow> 'x adm \<Rightarrow> bool" where
  "sequence Q s m \<longleftrightarrow> (\<forall>r s'. m s = (r, s') \<longrightarrow> (\<exists>new. ad_calls s' = ad_calls s @ new \<and> Q new))"

lemma sequence_pure:
  assumes "Q []" "\<And>r s1. m s = (r, s1) \<Longrightarrow> s1 = s" "\<And>x. m s = (Inr x, s) \<Longrightarrow> sequence Q s (f x)"
  shows "sequence Q s (bindA m f)"
  unfolding sequence_def
proof (intro allI impI)
  fix r s' assume run: "bindA m f s = (r, s')"
  obtain r1 where m: "m s = (r1, s)" using assms(2) by (cases "m s") auto
  with run assms(1,3) show "\<exists>new. ad_calls s' = ad_calls s @ new \<and> Q new"
    unfolding sequence_def by (cases r1) (auto simp: bindA_def)
qed

lemma pure_steps:
  "pyA p s = (r, s1) \<Longrightarrow> s1 = s" "as_text v s = (r2, s1) \<Longrightarrow> s1 = s" "held_token port s = (r3, s1) \<Longrightarrow> s1 = s"
  by (auto simp: pyA_def as_text_def held_token_def split: sum.splits json.splits if_splits)

text \<open>The second request of a call: the same one, with the answer to the peer's challenge.\<close>

definition pop_retry :: "('a, 'h, 'r, 's) admin_env \<Rightarrow> nat \<Rightarrow> peer_call \<Rightarrow> peer_call \<Rightarrow> bool" where
  "pop_retry env i c1 c2 \<longleftrightarrow>
     (\<exists>hs c ch challenge proof. ae_answers env i = Inr (401, hs, c) \<and> dict_get hs ''x-aitp-pop-challenge'' = Some ch \<and>
        decode_header ch = Some challenge \<and> hs_sign_pop_response (ae_holder env) (ae_agent env) challenge = Inr proof \<and>
        c2 = c1\<lparr>pc_headers := pc_headers c1 @ [(''x-aitp-pop-response'', encode_header proof)]\<rparr>)"

definition presents :: "admin_state \<Rightarrow> peer_call \<Rightarrow> bool" where
  "presents s c \<longleftrightarrow> (\<exists>port tct. dict_get (ad_held_tcts s) port = Some (JStr tct) \<and> pc_method c = ''POST'' \<and>
     pc_headers c = [(''Content-Type'', ''application/json''), (''X-AITP-TCT'', tct)])"

lemma answer_challenge_calls:
  assumes "answer_challenge env url c hs r s = (res, s')"
  shows "ad_calls s' = ad_calls s \<or>
    (\<exists>ch challenge proof. fst r = 401 \<and> dict_get (fst (snd r)) ''x-aitp-pop-challenge'' = Some ch \<and>
       decode_header ch = Some challenge \<and> hs_sign_pop_response (ae_holder env) (ae_agent env) challenge = Inr proof \<and>
       ad_calls s' = ad_calls s @ [\<lparr>pc_method = ''POST'', pc_url = url,
         pc_headers = hs @ [(''x-aitp-pop-response'', encode_header proof)], pc_content = c\<rparr>])"
  using assms unfolding answer_challenge_def
  by (auto simp: requestA_def exchange_def bindA_def split: option.splits if_splits sum.splits)

lemma invoke_sequence:
  assumes "Q []" "\<And>c. presents s c \<Longrightarrow> Q [c]" "\<And>c c2. presents s c \<Longrightarrow> pop_retry env (length (ad_calls s)) c c2 \<Longrightarrow> Q [c, c2]"
  shows "sequence Q s (invoke_capability env content)"
proof -
  have base: "sequence Q s (bindA (case v of JStr u \<Rightarrow> retA (rstrip_slash u) | _ \<Rightarrow> raiseA e) f)"
    if "\<And>u. sequence Q s (f u)" for v e and f :: "string \<Rightarrow> response adm"
    by (rule sequence_pure [where Q = Q, OF assms(1)]) (auto split: json.splits intro: that)
  have fire: "sequence Q s
      (bindA (requestA env ''POST'' url hs c) (\<lambda>r0. bindA (answer_challenge env url c hs r0) k))"
    if p: "presents s \<lparr>pc_method = ''POST'', pc_url = url, pc_headers = hs, pc_content = c\<rparr>"
      and k: "\<And>res s1 r s2. k res s1 = (r, s2) \<Longrightarrow> ad_calls s2 = ad_calls s1"
    for url hs c and k :: "pyexc + (int \<times> (string, string) dict \<times> string) \<Rightarrow> response adm"
    unfolding sequence_def
  proof (intro allI impI)
    fix r s' assume run: "bindA (requestA env ''POST'' url hs c) (\<lambda>r0. bindA (answer_challenge env url c hs r0) k) s = (r, s')"
    let ?c = "\<lparr>pc_method = ''POST'', pc_url = url, pc_headers = hs, pc_content = c\<rparr>"
    let ?s1 = "s\<lparr>ad_calls := ad_calls s @ [?c]\<rparr>"
    show "\<exists>new. ad_calls s' = ad_calls s @ new \<and> Q new"
    proof (cases "ae_answers env (length (ad_calls s))")
      case (Inl msg)
      with run have "s' = ?s1" by (simp add: requestA_def exchange_def bindA_def)
      with assms(2) [OF p] show ?thesis by simp
    next
      case (Inr r0)
      with run have run2: "bindA (answer_challenge env url c hs r0) k ?s1 = (r, s')"
        by (simp add: requestA_def exchange_def bindA_def)
      obtain res s2 where ans: "answer_challenge env url c hs r0 ?s1 = (res, s2)" by (cases "answer_challenge env url c hs r0 ?s1")
      from run2 ans k have s': "ad_calls s' = ad_calls s2" by (cases res) (auto simp: bindA_def)
      from answer_challenge_calls [OF ans] consider "ad_calls s' = ad_calls s @ [?c]"
        | c2 where "ad_calls s' = ad_calls s @ [?c, c2]" "pop_retry env (length (ad_calls s)) ?c c2"
        using Inr s' unfolding pop_retry_def by (cases r0) fastforce
      then show ?thesis using assms(2,3) p by cases auto
    qed
  qed
  show ?thesis
    unfolding invoke_capability_def Let_def
    apply (rule sequence_pure [where Q = Q, OF assms(1)], erule pure_steps)+
    apply (rule base)
    apply (rule sequence_pure [where Q = Q, OF assms(1)], erule pure_steps)+
    apply (rule fire)
     apply (auto simp: presents_def json_headers_def as_text_ok held_token_def split: if_splits option.splits sum.splits) [1]
    apply (auto split: sum.splits simp: Let_def)
    done
qed

text \<open>
  A capability call presents the token held for the named peer and nothing else. It sends at most
  two requests: a second one only when the first was answered 401 with a challenge that the SDK
  signed, and that request is the first with the proof added. No held token changes.
\<close>

theorem invoke_proves_possession_once:
  assumes "invoke_capability env content s = (r, s')"
  shows "tokens s' = tokens s \<and>
    (\<exists>new. ad_calls s' = ad_calls s @ new \<and>
       (new = [] \<or> (\<exists>c. new = [c] \<and> presents s c) \<or>
        (\<exists>c c2. new = [c, c2] \<and> presents s c \<and> pop_retry env (length (ad_calls s)) c c2)))"
proof
  have rs: "holds (case v of JStr u \<Rightarrow> retA (rstrip_slash u) | _ \<Rightarrow> raiseA e)" for v e
    by (cases v) (simp_all add: holds_basic)
  have "holds (invoke_capability env content)"
    unfolding invoke_capability_def Let_def by (intro holds_rules holds_requests holds_helpers rs)
  from holds_tokens [OF this assms] show "tokens s' = tokens s" .
  let ?Q = "\<lambda>new. new = [] \<or> (\<exists>c. new = [c] \<and> presents s c) \<or>
        (\<exists>c c2. new = [c, c2] \<and> presents s c \<and> pop_retry env (length (ad_calls s)) c c2)"
  have "sequence ?Q s (invoke_capability env content)" by (rule invoke_sequence) auto
  with assms show "\<exists>new. ad_calls s' = ad_calls s @ new \<and> ?Q new" unfolding sequence_def by blast
qed

section \<open>Renewing and revoking\<close>

lemma feature_ok:
  "feature_or_501 env f k s = (Inr resp, s') \<Longrightarrow> rs_status resp = 200 \<Longrightarrow> k s = (Inr resp, s')"
  by (auto simp: feature_or_501_def bindA_Inr_iff pyA_Inr_iff unavailable_def split: if_splits option.splits)

lemma served_expiry_ok:
  "served_expiry env n s = (Inr b, s') \<Longrightarrow> s' = s \<and>
     (\<forall>m d served e. ae_manifest env = Some (Inr m) \<and> loads m = Some (JObj d) \<and> dict_get d ''manifest'' = Some (JObj served) \<and>
        dict_get served ''expires_at'' = Some (JInt e) \<longrightarrow> b = e)"
  by (auto simp: served_expiry_def bindA_Inr_iff pyA_Inr_iff as_obj_ok loads_or_raise_def get_json_def split: option.splits)

lemma renewal_answer_ok:
  "(case r of
      Inl e \<Rightarrow> if c e then thenA (emitA ty (flds e)) (raiseA (err e)) else raiseA (err2 e)
    | Inr x \<Rightarrow> g x) s = (Inr y, s') \<longleftrightarrow> (\<exists>x. r = Inr x \<and> g x s = (Inr y, s'))"
  by (auto simp: emitA_def split: sum.splits)

text \<open>
  A renewed token comes from the SDK's check of the request under this agent's deny set, with
  the expiry of the manifest it serves at that moment as the bound; the tokens it holds do not change.
\<close>

theorem renewal_bounded_by_manifest:
  assumes "process_renewal env content s = (Inr resp, s')" "rs_status resp = 200"
  shows "\<exists>payload bound ttl now envelope.
    hs_process_renewal_request (ae_holder env) (ae_agent env) payload bound ttl (effective_jtis (ad_revocation s)) now = Inr envelope \<and>
    rs_body resp = TextBody envelope \<and> tokens s' = tokens s \<and>
    (\<forall>m d served e. ae_manifest env = Some (Inr m) \<and> loads m = Some (JObj d) \<and> dict_get d ''manifest'' = Some (JObj served) \<and>
       dict_get served ''expires_at'' = Some (JInt e) \<longrightarrow> bound = e)"
proof -
  note run = feature_ok [OF assms(1) [unfolded process_renewal_def] assms(2),
      unfolded bindA_Inr_iff pyA_Inr_iff as_obj_ok adm_ok renewal_answer_ok]
  from run show ?thesis
    apply clarify
    apply (drule served_expiry_ok)
    apply (clarsimp simp: tokens_def)
    apply (intro exI conjI)
     apply assumption
    apply blast
    done
qed

lemma py_uuid_canonical: "py_uuid v = Inr j \<Longrightarrow> \<exists>u. j = uuid_str u"
  by (cases v) (auto split: option.splits)

text \<open>
  C8: a revocation an operator makes through the admin route takes effect on the capability path: the
  identifier is stored in canonical form, and from then on, whatever revocations and snapshots
  follow, every call with a token of that identifier is refused with 403 before the SDK is asked.
\<close>

theorem revoked_token_refused:
  assumes "revoke_tct content s = (Inr resp, s')" "rs_body resp = JsonBody (JObj [(''revoked'', JStr jti), (''total_revoked'', n)])"
    "decode_claims tok = Inr claims" "dict_get claims ''jti'' = Some (JStr jti)"
    "sv_revocation sv = fold revocation_step ops (ad_revocation s')"
  shows "(\<exists>u. jti = uuid_str u) \<and>
    (\<exists>detail. verify_capability_tct sdk clk tok grant pop sv = (Inl (HTTPException 403 detail []), sv))"
proof -
  from assms(1) obtain body where body: "request_json content = Inr body" by (auto simp: revoke_tct_def bindA_Inr_iff pyA_Inr_iff)
  have j: "bindE (subscript body ''jti'') py_uuid = Inr jti" and rv: "ad_revocation s' = revoke_local jti (ad_revocation s)"
    using assms(1,2) body
    by (cases "bindE (subscript body ''jti'') py_uuid"; auto simp: revoke_tct_def emitA_def split: if_splits)+
  from j obtain u where u: "jti = uuid_str u"
    using py_uuid_canonical by (auto simp: bindE_def split: sum.splits)
  have "jti \<in> rv_local (sv_revocation sv)"
    using local_kept [of "ad_revocation s'" ops] rv by (auto simp: assms(5) revoke_local_def)
  then have "is_revoked (sv_revocation sv) jti" by (simp add: is_revoked_def)
  moreover have "jti \<noteq> []" by (simp add: u uuid_str_def Let_def)
  moreover have "tok \<noteq> []" using assms(3) by (auto simp: decode_claims_def)
  ultimately show ?thesis using assms(3,4) u by (auto simp: verify_capability_tct_def jti_revoked_def Let_def)
qed

section \<open>A concrete agent, for the witnesses\<close>

definition demo_holder :: "(string, unit) holder_sdk" where
  "demo_holder =
     \<lparr>hs_verify_manifest = (\<lambda>t insecure now. if starts_with ''{'' t then None else Some (PyExc ValueError None ''bad'')),
      hs_new_session = (\<lambda>a oidc pinned insecure. Inr ()),
      hs_build_hello = (\<lambda>h m grants mint now. Inr (''hello'', h)),
      hs_process_hello_ack = (\<lambda>h ack sid now. Inr (''commit'', h)),
      hs_complete = (\<lambda>h ack deny mode now. Inr ''{\"tct\":\"a.e30.c\"}''),
      hs_sign_pop_response = (\<lambda>a ch. Inr ''proof''),
      hs_build_renewal_request = (\<lambda>a t now. Inr ''renew''),
      hs_process_renewal_request = (\<lambda>a p bound ttl deny now. Inr ''{\"tct\":\"a.e30.c\"}''),
      hs_build_delegation = (\<lambda>a v aid scope ttl now. Inr ''a.e30.c''),
      hs_build_bundle = (\<lambda>a sid t ps. Inr ''bundle''),
      hs_verify_session_bundle = (\<lambda>b aid m insecure now. Inr [])\<rparr>"

definition demo_peer_manifest :: string where
  "demo_peer_manifest = ''{\"manifest\":{\"aid\":\"peer\",\"handshake_endpoint\":\"http://localhost:9/aitp/handshake/hello\"}}''"

definition demo_admin :: "(nat \<Rightarrow> peer_answer) \<Rightarrow> (string, unit, string, nat) admin_env" where
  "demo_admin answers =
     \<lparr>ae_sdk = demo_sdk, ae_holder = demo_holder, ae_agent = ''me'', ae_bootstrap = [],
      ae_module = \<lparr>am_importable = True, am_attrs = [''AitpAgent''],
        am_agent_attrs = [''build_renewal_request'', ''process_renewal_request''], am_dunder_version = None, am_dist_version = (\<lambda>_. None)\<rparr>,
      ae_answers = answers, ae_text = (\<lambda>c. c), ae_float_text = (\<lambda>_. []), ae_dumps = (\<lambda>_. []), ae_clk = (\<lambda>_. 0), ae_uuid = ''u'',
      ae_manifest = Some (Inr ''{\"manifest\":{\"expires_at\":77}}''), ae_capabilities = (\<lambda>_. None), ae_issued_tcts = []\<rparr>"

definition demo_holder_state :: admin_state where
  "demo_holder_state =
     \<lparr>ad_held_tcts = [(9, JStr ''a.e30.c'')], ad_held_vouchers = [(9, JStr ''v'')],
      ad_revocation = \<lparr>rv_local = {}, rv_snapshot = None\<rparr>, ad_events = [], ad_calls = [], ad_ticks = 0\<rparr>"

definition demo_answers :: "nat \<Rightarrow> peer_answer" where
  "demo_answers i =
     (if i = 0 then Inr (200, [], demo_peer_manifest)
      else if i = 1 then Inr (200, [(''x-aitp-session-id'', ''s1'')], ''ack'') else Inr (200, [], ''done''))"

definition demo_handshake_run :: "(http_error + response) \<times> admin_state" where
  "demo_handshake_run = initiate_handshake (demo_admin demo_answers) ''{\"peer_manifest_url\":\"http://localhost:9/m\"}'' demo_holder_state"

lemma demo_handshake_done: "isl (fst demo_handshake_run) = False" "length (ad_calls (snd demo_handshake_run)) = 3"
  by code_simp+

lemma demo_handshake_eq:
  "\<exists>resp. initiate_handshake (demo_admin demo_answers) ''{\"peer_manifest_url\":\"http://localhost:9/m\"}'' demo_holder_state =
     (Inr resp, snd demo_handshake_run)"
  using demo_handshake_done(1) unfolding demo_handshake_run_def by (metis isl_def prod.collapse sum.exhaust)

theorem handshake_dials_verified_peer_witness:
  "\<exists>new. ad_calls (snd demo_handshake_run) = new \<and> length new = 3 \<and>
    list_all (\<lambda>c. pc_method c = ''GET'' \<or>
      (\<exists>m ep. manifest_at (demo_admin demo_answers) 0 m \<and> dict_get m ''handshake_endpoint'' = Some (JStr ep) \<and>
         pc_url c \<in> {ep, py_replace ''/hello'' ''/commit'' 0 ep})) new"
proof -
  from demo_handshake_eq obtain resp where
    "initiate_handshake (demo_admin demo_answers) ''{\"peer_manifest_url\":\"http://localhost:9/m\"}'' demo_holder_state =
     (Inr resp, snd demo_handshake_run)" ..
  from handshake_dials_verified_peer [OF this] demo_handshake_done(2) show ?thesis
    by (simp add: demo_holder_state_def)
qed

theorem handshake_token_provenance_witness:
  "\<exists>m aid. manifest_at (demo_admin demo_answers) 0 m \<and> dict_get m ''aid'' = Some (JStr aid) \<and>
     (\<exists>oidc. hs_new_session demo_holder ''me'' oidc [aid] (insecureA (demo_admin demo_answers)) = Inr ())"
proof -
  from demo_handshake_eq obtain resp where
    "initiate_handshake (demo_admin demo_answers) ''{\"peer_manifest_url\":\"http://localhost:9/m\"}'' demo_holder_state =
     (Inr resp, snd demo_handshake_run)" ..
  from handshake_token_provenance [OF this] show ?thesis by (auto simp: demo_holder_state_def demo_admin_def)
qed

definition demo_delegation_run :: "(http_error + response) \<times> admin_state" where
  "demo_delegation_run = issue_delegation (demo_admin demo_answers)
     ''{\"held_tct_peer_port\":9,\"delegatee_manifest_url\":\"http://localhost:9/m\",\"scope\":[\"a\"]}'' demo_holder_state"

theorem delegation_recipient_verified_witness:
  "\<exists>m aid token. manifest_at (demo_admin demo_answers) 0 m \<and> dict_get m ''aid'' = Some aid \<and>
     hs_build_delegation demo_holder ''me'' (JStr ''v'') aid [JStr ''a''] JNull 0 = Inr token"
proof -
  have "isl (fst demo_delegation_run) = False" by code_simp
  then obtain resp s' where "issue_delegation (demo_admin demo_answers)
     ''{\"held_tct_peer_port\":9,\"delegatee_manifest_url\":\"http://localhost:9/m\",\"scope\":[\"a\"]}'' demo_holder_state = (Inr resp, s')"
    unfolding demo_delegation_run_def by (metis isl_def prod.collapse sum.exhaust)
  from delegation_recipient_verified [OF this] show ?thesis
    by (auto simp: demo_holder_state_def demo_holder_def)
qed

definition demo_challenge :: "nat \<Rightarrow> peer_answer" where
  "demo_challenge i = (if i = 0 then Inr (401, [(''x-aitp-pop-challenge'', ''YQ'')], []) else Inr (200, [], ''{}''))"

definition demo_invoke_run :: "(http_error + response) \<times> admin_state" where
  "demo_invoke_run = invoke_capability (demo_admin demo_challenge) ''{\"peer_port\":9,\"capability\":\"c\"}'' demo_holder_state"

theorem invoke_proves_possession_once_witness:
  "\<exists>c c2. ad_calls (snd demo_invoke_run) = [c, c2] \<and> presents demo_holder_state c \<and> pop_retry (demo_admin demo_challenge) 0 c c2"
proof -
  have n: "length (ad_calls (snd demo_invoke_run)) = 2" by code_simp
  have "invoke_capability (demo_admin demo_challenge) ''{\"peer_port\":9,\"capability\":\"c\"}'' demo_holder_state =
      (fst demo_invoke_run, snd demo_invoke_run)" by (simp add: demo_invoke_run_def)
  from invoke_proves_possession_once [OF this] n show ?thesis by (auto simp: demo_holder_state_def)
qed

definition demo_revoke_run :: "(http_error + response) \<times> admin_state" where
  "demo_revoke_run = revoke_tct ''{\"jti\":\"00000000-0000-0000-0000-00000000000A\"}'' demo_holder_state"

text \<open>The payload of the token is \<open>{"jti":"00000000-0000-0000-0000-00000000000a"}\<close>.\<close>

definition demo_revoked_tct :: string where
  "demo_revoked_tct = ''a.eyJqdGkiOiIwMDAwMDAwMC0wMDAwLTAwMDAtMDAwMC0wMDAwMDAwMDAwMGEifQ.c''"

definition demo_revoking_server :: "(string, string, nat) server" where
  "demo_revoking_server =
     demo_server\<lparr>sv_revocation := fold revocation_step [ApplySnapshot [] 0 9] (ad_revocation (snd demo_revoke_run))\<rparr>"

theorem revoked_token_refused_witness:
  "\<exists>detail. verify_capability_tct demo_sdk (\<lambda>_. 0) demo_revoked_tct ''c'' [] demo_revoking_server =
     (Inl (HTTPException 403 detail []), demo_revoking_server)"
proof -
  let ?j = "''00000000-0000-0000-0000-00000000000a''"
  have "fst demo_revoke_run = Inr (json_response 200 (JObj [(''revoked'', JStr ?j), (''total_revoked'', JInt 1)]))" by code_simp
  then have run: "revoke_tct ''{\"jti\":\"00000000-0000-0000-0000-00000000000A\"}'' demo_holder_state =
      (Inr (json_response 200 (JObj [(''revoked'', JStr ?j), (''total_revoked'', JInt 1)])), snd demo_revoke_run)"
    unfolding demo_revoke_run_def by (metis prod.collapse)
  have claims: "decode_claims demo_revoked_tct = Inr [(''jti'', JStr ?j)]" by code_simp
  have sv: "sv_revocation demo_revoking_server = fold revocation_step [ApplySnapshot [] 0 9] (ad_revocation (snd demo_revoke_run))"
    by (simp add: demo_revoking_server_def)
  show ?thesis using revoked_token_refused [OF run _ claims _ sv] by simp
qed

definition demo_renewal_run :: "(http_error + response) \<times> admin_state" where
  "demo_renewal_run = process_renewal (demo_admin demo_answers) ''r'' demo_holder_state"

theorem renewal_bounded_by_manifest_witness:
  "\<exists>payload bound ttl now envelope.
     hs_process_renewal_request demo_holder ''me'' payload bound ttl (effective_jtis (ad_revocation demo_holder_state)) now = Inr envelope \<and>
     bound = 77 \<and> tokens (snd demo_renewal_run) = tokens demo_holder_state"
proof -
  have "fst demo_renewal_run = Inr \<lparr>rs_status = 200, rs_body = TextBody ''{\"tct\":\"a.e30.c\"}'', rs_headers = []\<rparr>" by code_simp
  then have run: "process_renewal (demo_admin demo_answers) ''r'' demo_holder_state =
      (Inr \<lparr>rs_status = 200, rs_body = TextBody ''{\"tct\":\"a.e30.c\"}'', rs_headers = []\<rparr>, snd demo_renewal_run)"
    unfolding demo_renewal_run_def by (metis prod.collapse)
  have m: "loads ''{\"manifest\":{\"expires_at\":77}}'' = Some (JObj [(''manifest'', JObj [(''expires_at'', JInt 77)])])" by code_simp
  from renewal_bounded_by_manifest [OF run] m show ?thesis by (auto simp: demo_admin_def)
qed

text \<open>
  The renewed token is kept before it is looked at: an issuer whose answer has no token in it takes
  the held one away, and the route fails.
\<close>

theorem renewal_drops_held_token:
  "let run = renew_tct (demo_admin (\<lambda>_. Inr (200, [], ''{\"tct\":null}''))) ''{\"peer_port\":9}'' demo_holder_state
   in isl (fst run) \<and> dict_get (ad_held_tcts (snd run)) 9 = Some JNull"
  by code_simp

end
