(* ===== verification/Hosted_Agents.thy ===== *)
theory Hosted_Agents
  imports Run_Logic Agent_Handover Agent_Routes
begin

text \<open>
  \<open>src/aitp_playground/hosting/hosted.py\<close> and \<open>api/hosted.py\<close>: agents kept alive at the
  service's public origin, and the routes that let them trust and call agents of another service.
  Hosting uses the registry, the bootstrap builder, the adapters and the supervisor of the runs
  with an allocator of its own; \<open>None\<close> is a launch that has not returned. The federation
  routes are computations of the engine's monad whose exceptions are turned into responses.

  What is shown: a peer is trusted only with the AID of a manifest the SDK verified at the origin
  its DID names; the ports of the hosted agents stay apart as long as no caller chooses one
  (and not otherwise); the DID of a hosted agent leads back to it.
\<close>

section \<open>The manager\<close>

record hosted_agent =
  ha_hosted_id :: string
  ha_agent_id :: string
  ha_ref :: string
  ha_port :: int
  ha_aid :: string
  ha_did :: "string option"
  ha_origin :: string
  ha_manifest_url :: string
  ha_handshake_url :: string
  ha_did_document_url :: "string option"

definition hosted_asdict :: "hosted_agent \<Rightarrow> json_dict" where
  "hosted_asdict h =
     [(''hosted_id'', JStr (ha_hosted_id h)), (''agent_id'', JStr (ha_agent_id h)), (''ref'', JStr (ha_ref h)),
      (''port'', JInt (ha_port h)), (''aid'', JStr (ha_aid h)), (''did'', jstr_opt (ha_did h)),
      (''origin'', JStr (ha_origin h)), (''manifest_url'', JStr (ha_manifest_url h)),
      (''handshake_url'', JStr (ha_handshake_url h)), (''did_document_url'', jstr_opt (ha_did_document_url h))]"

record hosted_mgr =
  hm_ports :: port_allocator
  hm_sup :: supervisor
  hm_files :: "(string, json_dict) dict"
  hm_hosted :: "(string, hosted_agent) dict"

definition hosted_init :: "settings \<Rightarrow> port_allocator option \<Rightarrow> supervisor \<Rightarrow> (string, json_dict) dict \<Rightarrow> hosted_mgr" where
  "hosted_init se pa sv files =
     \<lparr>hm_ports = (case pa of Some a \<Rightarrow> a | None \<Rightarrow> port_allocator_init (se_agent_base_port se + 1000)),
      hm_sup = sv, hm_files = files, hm_hosted = []\<rparr>"

definition hosted_run_id :: "string \<Rightarrow> string" where
  "hosted_run_id hosted_id = ''hosted-'' @ hosted_id"

record host_request =
  hq_ref :: string
  hq_public_host :: "string option"
  hq_public_scheme :: "string option"
  hq_signing_suite :: "string option"
  hq_inputs :: "json_dict option"
  hq_port :: "int option"

section \<open>Hosting an agent\<close>

text \<open>What is decided before a port is taken.\<close>

record host_plan =
  hp_hosted_id :: string
  hp_ref :: string
  hp_agent :: agent_spec
  hp_manifest :: agent_manifest
  hp_origin :: string
  hp_did :: string

definition find_manifest :: "run_env \<Rightarrow> string \<Rightarrow> eng_exc + agent_manifest" where
  "find_manifest re ref =
     (case re_registry re of
        Inl (Playground e) \<Rightarrow> Inl (EPlayground e)
      | Inl (Unhandled e) \<Rightarrow> Inl (EPy e)
      | Inl (HttpExc _) \<Rightarrow> Inl (EPy (PyExc OtherError None []))
      | Inr reg \<Rightarrow> (case get_agent_manifest (re_by_ref re) reg ref of Inl e \<Rightarrow> Inl (EPlayground e) | Inr am \<Rightarrow> Inr am))"

text \<open>\<open>ref.rsplit("/", 1)[-1]\<close>.\<close>

definition after_last_slash :: "string \<Rightarrow> string" where
  "after_last_slash s = rev (takeWhile (\<lambda>c. c \<noteq> CHR ''/'') (rev s))"

definition plan_host :: "run_env \<Rightarrow> string \<Rightarrow> host_request \<Rightarrow> eng_exc + host_plan" where
  "plan_host re hosted_id rq =
     (let host = or_text (hq_public_host rq) (se_public_host (re_settings re));
          scheme = or_text (hq_public_scheme rq) (se_public_scheme (re_settings re))
      in if on_railway (ho_environ (re_host re))
         then Inl (EPy (PyExc ValueError None ''hosted agents are not available on Railway''))
         else if host = []
         then Inl (EPy (PyExc ValueError None (''no public host configured '' @ [CHR 0xE2, CHR 0x80, CHR 0x94]
                @ '' set PUBLIC_HOST or pass public_host'')))
         else bindE (find_manifest re (hq_ref rq)) (\<lambda>am.
           if hq_signing_suite rq \<notin> {None, Some ''ed25519'', Some ''p256''}
           then Inl (EPy (PyExc ValueError None ''signing_suite''))
           else Inr \<lparr>hp_hosted_id = hosted_id, hp_ref = hq_ref rq,
                hp_agent = \<lparr>as_id = after_last_slash (hq_ref rq), as_ref = hq_ref rq, as_port_offset = 0, as_org = ''external'',
                   as_cloud = None, as_did_web_host = Some host, as_signing_suite = hq_signing_suite rq,
                   as_accepted_identity_types = None\<rparr>,
                hp_manifest = am, hp_origin = rstrip_slash (scheme @ ''://'' @ host), hp_did = ''did:web:'' @ quote_dot host\<rparr>))"

definition host_port :: "host_request \<Rightarrow> port_allocator \<Rightarrow> int \<times> port_allocator" where
  "host_port rq a = (case hq_port rq of Some p \<Rightarrow> (p, a) | None \<Rightarrow> allocate 0 a)"

text \<open>The \<open>try\<close> block: the document, its file, the adapter's checks and the launch.\<close>

definition host_document :: "run_env \<Rightarrow> host_plan \<Rightarrow> host_request \<Rightarrow> int \<Rightarrow> json_dict" where
  "host_document re pl rq port =
     build (re_build re (as_id (hp_agent pl))) (re_settings re) (hosted_run_id (hp_hosted_id pl)) (hp_agent pl) (hp_manifest pl)
       port [] (case hq_inputs rq of Some i \<Rightarrow> i | None \<Rightarrow> []) None (Some (hp_origin pl)) None"

definition prepare_host :: "run_env \<Rightarrow> host_plan \<Rightarrow> string \<Rightarrow> int \<Rightarrow> eng_exc + int" where
  "prepare_host re pl path port =
     (case get_adapter (re_adapters re) (am_framework (hp_manifest pl)) of
        Inl e \<Rightarrow> Inl (EPy e)
      | Inr ad \<Rightarrow>
          (let errors = adapter_validate ad (hp_manifest pl)
           in if errors \<noteq> []
              then Inl (EPy (PyExc ValueError None (''manifest invalid for '' @ hp_ref pl @ '': ''
                     @ py_repr_json (ho_float_text (re_host re)) (JArr (map JStr errors)))))
              else
                (case bindE (prepare_launch (re_host re) (re_settings re) (hp_manifest pl) path port) (\<lambda>_.
                        case dict_get (am_host (hp_manifest pl)) ''startupTimeoutMs'' of Some v \<Rightarrow> py_int v | None \<Rightarrow> Inr 30000) of
                   Inl e \<Rightarrow> Inl (EPy e) | Inr ms \<Rightarrow> Inr ms)))"

definition host_launch ::
  "run_env \<Rightarrow> host_plan \<Rightarrow> host_request \<Rightarrow> int \<Rightarrow> hosted_mgr \<Rightarrow> ((eng_exc + running_agent) \<times> hosted_mgr) option" where
  "host_launch re pl rq port m =
     (let run_id = hosted_run_id (hp_hosted_id pl); agent_id = as_id (hp_agent pl);
          path = bootstrap_path (re_tmpdir re) run_id agent_id;
          m1 = m\<lparr>hm_files := dict_set path (host_document re pl rq port) (hm_files m)\<rparr>
      in case re_write re path of
           WriteFailed left e \<Rightarrow> Some (Inl e, if left then m1 else m)
         | Written \<Rightarrow>
             (case prepare_host re pl path port of
                Inl e \<Rightarrow> Some (Inl e, m1)
              | Inr ms \<Rightarrow>
                  (case launch (se_insecure_localhost_dangerous (re_settings re)) run_id agent_id port
                          (Some (be_admin_token (re_build re agent_id))) ms (Some (''http://localhost:'' @ str_int port))
                          (re_spawn re agent_id) (hm_sup m1) of
                     None \<Rightarrow> None
                   | Some (Inl e, sup1) \<Rightarrow> Some (Inl (EPy e), m1\<lparr>hm_sup := sup1\<rparr>)
                   | Some (Inr ra, sup1) \<Rightarrow> Some (Inr ra, m1\<lparr>hm_sup := sup1\<rparr>))))"

definition hosted_of :: "host_plan \<Rightarrow> int \<Rightarrow> running_agent \<Rightarrow> hosted_agent" where
  "hosted_of pl port ra =
     \<lparr>ha_hosted_id = hp_hosted_id pl, ha_agent_id = as_id (hp_agent pl), ha_ref = hp_ref pl, ha_port = port, ha_aid = ra_aid ra,
      ha_did = Some (hp_did pl), ha_origin = hp_origin pl, ha_manifest_url = hp_origin pl @ well_known_manifest,
      ha_handshake_url = hp_origin pl @ ''/aitp/handshake/hello'',
      ha_did_document_url = Some (hp_origin pl @ ''/.well-known/did.json'')\<rparr>"

text \<open>What follows the \<open>try\<close> block, and its handler.\<close>

definition settle_host :: "host_plan \<Rightarrow> int \<Rightarrow> eng_exc + running_agent \<Rightarrow> hosted_mgr \<Rightarrow> (eng_exc + hosted_agent) \<times> hosted_mgr" where
  "settle_host pl port r m =
     (case r of
        Inl e \<Rightarrow> (Inl e, m\<lparr>hm_ports := release port (hm_ports m)\<rparr>)
      | Inr ra \<Rightarrow>
          (let h = hosted_of pl port ra in (Inr h, m\<lparr>hm_hosted := dict_set (hp_hosted_id pl) h (hm_hosted m)\<rparr>)))"

definition host :: "run_env \<Rightarrow> string \<Rightarrow> host_request \<Rightarrow> hosted_mgr \<Rightarrow> ((eng_exc + hosted_agent) \<times> hosted_mgr) option" where
  "host re hosted_id rq m =
     (case plan_host re hosted_id rq of
        Inl e \<Rightarrow> Some (Inl e, m)
      | Inr pl \<Rightarrow>
          (case host_port rq (hm_ports m) of
             (port, pa) \<Rightarrow> map_option (\<lambda>(r, m1). settle_host pl port r m1) (host_launch re pl rq port (m\<lparr>hm_ports := pa\<rparr>))))"

definition get_hosted :: "string \<Rightarrow> hosted_mgr \<Rightarrow> hosted_agent option" where
  "get_hosted hosted_id m = dict_get (hm_hosted m) hosted_id"

definition local_port :: "string \<Rightarrow> hosted_mgr \<Rightarrow> int option" where
  "local_port hosted_id m = map_option ha_port (dict_get (hm_hosted m) hosted_id)"

definition list_hosted :: "hosted_mgr \<Rightarrow> json list" where
  "list_hosted m = map (\<lambda>(_, h). JObj (hosted_asdict h)) (hm_hosted m)"

definition stop_hosted :: "os \<Rightarrow> string \<Rightarrow> hosted_mgr \<Rightarrow> bool \<times> hosted_mgr" where
  "stop_hosted sys hosted_id m =
     (case dict_get (hm_hosted m) hosted_id of
        None \<Rightarrow> (False, m)
      | Some h \<Rightarrow>
          (True, m\<lparr>hm_hosted := dict_del hosted_id (hm_hosted m),
                   hm_sup := kill_agent sys (hosted_run_id hosted_id) (ha_agent_id h) (hm_sup m),
                   hm_ports := release (ha_port h) (hm_ports m)\<rparr>))"

definition stop_all :: "os \<Rightarrow> hosted_mgr \<Rightarrow> hosted_mgr" where
  "stop_all sys m = fold (\<lambda>hosted_id m. snd (stop_hosted sys hosted_id m)) (dict_keys (hm_hosted m)) m"

section \<open>Routes of the manager\<close>

definition host_failure :: "run_env \<Rightarrow> eng_exc \<Rightarrow> api_exc" where
  "host_failure re e =
     (let text0 = en_exc_text (re_eng re) e
      in case e of
           EPy p \<Rightarrow> if exc_kind p = ValueError then http_exc 400 text0 else http_exc 502 (''failed to host agent: '' @ text0)
         | _ \<Rightarrow> http_exc 502 (''failed to host agent: '' @ text0))"

definition host_agent :: "run_env \<Rightarrow> string \<Rightarrow> host_request \<Rightarrow> hosted_mgr \<Rightarrow> ((api_exc + json) \<times> hosted_mgr) option" where
  "host_agent re hosted_id rq m =
     map_option (\<lambda>(r, m1). (case r of Inl e \<Rightarrow> Inl (host_failure re e) | Inr h \<Rightarrow> Inr (JObj (hosted_asdict h)), m1))
       (host re hosted_id rq m)"

definition list_agents :: "hosted_mgr \<Rightarrow> json" where
  "list_agents m = JObj [(''hosted'', JArr (list_hosted m))]"

definition no_hosted :: "string \<Rightarrow> api_exc" where
  "no_hosted hosted_id = http_exc 404 (''no hosted agent '' @ hosted_id)"

definition get_agent_route :: "string \<Rightarrow> hosted_mgr \<Rightarrow> api_exc + json" where
  "get_agent_route hosted_id m =
     (case get_hosted hosted_id m of None \<Rightarrow> Inl (no_hosted hosted_id) | Some h \<Rightarrow> Inr (JObj (hosted_asdict h)))"

definition stop_agent :: "os \<Rightarrow> string \<Rightarrow> hosted_mgr \<Rightarrow> (api_exc + json) \<times> hosted_mgr" where
  "stop_agent sys hosted_id m =
     (case stop_hosted sys hosted_id m of
        (False, m1) \<Rightarrow> (Inl (no_hosted hosted_id), m1)
      | (True, m1) \<Rightarrow> (Inr (JObj [(''stopped'', JStr hosted_id)]), m1))"

section \<open>Federation routes\<close>

type_synonym 'x route = "eng_state \<Rightarrow> (api_exc + 'x) \<times> eng_state"

definition bindP :: "'x route \<Rightarrow> ('x \<Rightarrow> 'y route) \<Rightarrow> 'y route" where
  "bindP m f s = (case m s of (Inl e, s1) \<Rightarrow> (Inl e, s1) | (Inr x, s1) \<Rightarrow> f x s1)"

definition retP :: "'x \<Rightarrow> 'x route" where
  "retP x s = (Inr x, s)"

definition raiseP :: "api_exc \<Rightarrow> 'x route" where
  "raiseP e s = (Inl e, s)"

text \<open>\<open>try ... except\<close> around engine computations.\<close>

definition guardP :: "(eng_exc \<Rightarrow> api_exc) \<Rightarrow> 'x eng \<Rightarrow> 'x route" where
  "guardP h m s = (case m s of (Inl e, s1) \<Rightarrow> (Inl (h e), s1) | (Inr x, s1) \<Rightarrow> (Inr x, s1))"

definition origin_of :: "string \<Rightarrow> string" where
  "origin_of manifest_url = rstrip_slash (rsplit_once ''/.well-known/'' manifest_url)"

text \<open>\<open>url.split("://", 1)[-1]\<close>.\<close>

definition after_scheme :: "string \<Rightarrow> string" where
  "after_scheme url = (case split_once ''://'' url of (_, Some r) \<Rightarrow> r | (u, None) \<Rightarrow> u)"

definition is_loopback :: "string \<Rightarrow> bool" where
  "is_loopback url =
     (let h = fst (split_once '':'' (fst (split_once ''/'' (after_scheme url)))) in h = ''localhost'' \<or> starts_with ''127.'' h)"

definition allow_loopback :: "(string, string) dict \<Rightarrow> bool" where
  "allow_loopback environ \<longleftrightarrow>
     map ascii_lower (case dict_get environ ''AITP_FEDERATION_ALLOW_LOOPBACK'' of Some v \<Rightarrow> v | None \<Rightarrow> [])
       \<in> {''1'', ''true'', ''yes''}"

definition resolve_peer_did :: "eng_env \<Rightarrow> (string, string) dict \<Rightarrow> string \<Rightarrow> (string \<times> string) route" where
  "resolve_peer_did env environ peer_did =
     (if \<not> starts_with ''did:web:'' peer_did
      then raiseP (http_exc 400 (''only did:web peers supported, got '' @ peer_did))
      else
        bindP (guardP (\<lambda>e. http_exc 502 (''did:web resolution failed for '' @ peer_did @ '': '' @ en_exc_text env e))
                 (resolve_did_web env peer_did)) (\<lambda>manifest_url.
          let peer_origin = origin_of manifest_url; expected_host = did_host peer_did; resolved_host = after_scheme peer_origin
          in if is_loopback manifest_url \<and> \<not> allow_loopback environ
             then raiseP (http_exc 409 (''refusing cross-domain handshake: '' @ peer_did @ '' resolved to a loopback origin (''
                    @ peer_origin @ ''); expected a real remote origin''))
             else if resolved_host \<noteq> expected_host
             then raiseP (http_exc 409 (''did:web origin mismatch: '' @ peer_did @ '' resolved to '' @ repr_str resolved_host
                    @ '', expected '' @ repr_str expected_host))
             else retP (manifest_url, peer_origin)))"

text \<open>\<open>except httpx.HTTPError\<close>; what it does not catch leaves the route.\<close>

definition trust_failure :: "eng_env \<Rightarrow> eng_exc \<Rightarrow> api_exc" where
  "trust_failure env e =
     (case e of
        EPy p \<Rightarrow> Unhandled p
      | EPlayground p \<Rightarrow> Playground p
      | ERunCancelled \<Rightarrow> Unhandled (PyExc OtherError None [])
      | _ \<Rightarrow> http_exc 502 (''trust-peer failed: '' @ en_exc_text env e))"

definition pin_peer :: "eng_env \<Rightarrow> int \<Rightarrow> string \<Rightarrow> json eng" where
  "pin_peer env port content =
     bindM (resp_json content) (\<lambda>v. bindM (lift_exc (bindE (subscript v ''manifest'') (\<lambda>m. subscript m ''aid''))) (\<lambda>aid.
       let url = ''http://localhost:'' @ str_int port @ ''/admin/trust-peers''
       in bindM (http_call env ''POST'' url [] (Some (JObj [(''aids'', JArr [aid])]))) (\<lambda>r.
          bindM (raise_for_status url r) (\<lambda>_. ret aid))))"

definition verify_and_pin :: "eng_env \<Rightarrow> string \<Rightarrow> int \<Rightarrow> string \<Rightarrow> json route" where
  "verify_and_pin env peer_did port content =
     (case en_verify_manifest env content (en_insecure env) of
        Inl e \<Rightarrow> raiseP (http_exc 502 (''peer manifest for '' @ peer_did @ '' failed verification: '' @ exc_msg e))
      | Inr _ \<Rightarrow>
          bindP (guardP (trust_failure env) (pin_peer env port content)) (\<lambda>aid.
            retP (JObj [(''peer_did'', JStr peer_did), (''peer_aid'', aid), (''trusted'', JBool True)])))"

definition trust_peer :: "eng_env \<Rightarrow> (string, string) dict \<Rightarrow> hosted_mgr \<Rightarrow> string \<Rightarrow> string \<Rightarrow> json route" where
  "trust_peer env environ m hosted_id peer_did =
     (case get_hosted hosted_id m of
        None \<Rightarrow> raiseP (no_hosted hosted_id)
      | Some h \<Rightarrow>
          bindP (resolve_peer_did env environ peer_did) (\<lambda>(manifest_url, _).
          bindP (guardP (trust_failure env) (bindM (http_call env ''GET'' manifest_url [] None) (raise_for_status manifest_url)))
            (verify_and_pin env peer_did (ha_port h))))"

text \<open>
  A request to the hosted agent whose response is relayed: a refused status and every other
  exception are answered with 502.
\<close>

definition relay :: "eng_env \<Rightarrow> string \<Rightarrow> string \<Rightarrow> json \<Rightarrow> json route" where
  "relay env what url body =
     bindP (guardP (\<lambda>e. http_exc 502 (what @ '' failed: '' @ en_exc_text env e)) (http_call env ''POST'' url [] (Some body))) (\<lambda>(st, content).
       if success_status st then guardP (\<lambda>e. http_exc 502 (what @ '' failed: '' @ en_exc_text env e)) (resp_json content)
       else raiseP (http_exc 502 (what @ '' failed ('' @ str_int st @ ''): '' @ content)))"

definition resolve_and_handshake ::
  "eng_env \<Rightarrow> (string, string) dict \<Rightarrow> hosted_mgr \<Rightarrow> string \<Rightarrow> string \<Rightarrow> json \<Rightarrow> json route" where
  "resolve_and_handshake env environ m hosted_id peer_did requested_grants =
     (case get_hosted hosted_id m of
        None \<Rightarrow> raiseP (no_hosted hosted_id)
      | Some h \<Rightarrow>
          bindP (resolve_peer_did env environ peer_did) (\<lambda>(manifest_url, peer_origin).
          bindP (relay env ''handshake'' (''http://localhost:'' @ str_int (ha_port h) @ ''/admin/initiate-handshake'')
                   (JObj [(''peer_manifest_url'', JStr manifest_url), (''requested_grants'', requested_grants)])) (\<lambda>result.
          case result of
            JObj d \<Rightarrow>
              retP (JObj (set_all d [(''trust'', JStr ''established''), (''peer_did'', JStr peer_did),
                 (''resolved_manifest_url'', JStr manifest_url), (''peer_origin'', JStr peer_origin), (''peer_base_url'', JStr peer_origin)]))
          | _ \<Rightarrow> raiseP (Unhandled (PyExc TypeError None ''not a mapping'')))))"

definition invoke_hosted :: "eng_env \<Rightarrow> hosted_mgr \<Rightarrow> string \<Rightarrow> int \<Rightarrow> string option \<Rightarrow> string \<Rightarrow> json \<Rightarrow> json route" where
  "invoke_hosted env m hosted_id peer_port peer_base_url capability payload =
     (case get_hosted hosted_id m of
        None \<Rightarrow> raiseP (no_hosted hosted_id)
      | Some h \<Rightarrow>
          bindP (relay env ''invoke'' (''http://localhost:'' @ str_int (ha_port h) @ ''/admin/invoke'')
                   (JObj [(''peer_port'', JInt peer_port), (''peer_base_url'', jstr_opt peer_base_url), (''capability'', JStr capability),
                          (''payload'', payload)])) (\<lambda>result.
            retP (JObj [(''result'', result)])))"

section \<open>Laws of the computations\<close>

lemma route_simps [simp]:
  "retP x s = (Inr x, s)" "raiseP e s = (Inl e, s)"
  "bindP (retP x) f s = f x s" "bindP (raiseP e) f s = (Inl e, s)"
  by (simp_all add: retP_def raiseP_def bindP_def)

lemma bindP_eq_iff:
  "bindP m f s = (r, s') \<longleftrightarrow>
     (\<exists>e. m s = (Inl e, s') \<and> r = Inl e) \<or> (\<exists>x s1. m s = (Inr x, s1) \<and> f x s1 = (r, s'))"
  by (auto simp: bindP_def split: sum.splits prod.splits)

lemma guardP_eq_iff:
  "guardP h m s = (r, s') \<longleftrightarrow>
     (\<exists>e. m s = (Inl e, s') \<and> r = Inl (h e)) \<or> (\<exists>x. m s = (Inr x, s') \<and> r = Inr x)"
  by (auto simp: guardP_def split: sum.splits prod.splits)

lemma bindM_eq_iff:
  "bindM m f s = (r, s') \<longleftrightarrow>
     (\<exists>e. m s = (Inl e, s') \<and> r = Inl e) \<or> (\<exists>x s1. m s = (Inr x, s1) \<and> f x s1 = (r, s'))"
  by (auto simp: bindM_def split: sum.splits prod.splits)

text \<open>One request: the next answer, and one more call on record.\<close>

lemma http_call_eq_iff:
  "http_call env meth url ps b s = (r, s') \<longleftrightarrow>
     s' = s\<lparr>es_calls := es_calls s @ [\<lparr>cl_method = meth, cl_url = url, cl_params = ps, cl_body = b\<rparr>]\<rparr> \<and>
     r = (case en_answers env (length (es_calls s)) of Inl e \<Rightarrow> Inl (ETransport e) | Inr a \<Rightarrow> Inr a)"
  by (auto simp: http_call_def send_def bindM_def split: sum.splits)

lemma raise_for_status_eq_iff:
  "raise_for_status url a s = (r, s') \<longleftrightarrow>
     s' = s \<and> r = (if success_status (fst a) then Inr (snd a) else Inl (EHttpStatus (fst a) url))"
  by (auto simp: raise_for_status_def split: prod.splits)

lemma pure_eq_iff:
  "resp_json content s = (r, s') \<longleftrightarrow>
     s' = s \<and> r = (case loads_bytes content of Some v \<Rightarrow> Inr v | None \<Rightarrow> Inl (EPy (PyExc ValueError None ''not JSON'')))"
  "lift_exc q s = (t, s') \<longleftrightarrow> s' = s \<and> t = (case q of Inl e \<Rightarrow> Inl (EPy e) | Inr x \<Rightarrow> Inr x)"
  "as_dict k v s = (u, s') \<longleftrightarrow> s' = s \<and> u = (case v of JObj d \<Rightarrow> Inr d | _ \<Rightarrow> Inl (EPy (PyExc k None ''not a dict'')))"
  by (auto simp: resp_json_def lift_exc_def as_dict_def split: option.splits sum.splits json.splits)

lemmas exchange_iffs = bindP_eq_iff guardP_eq_iff bindM_eq_iff http_call_eq_iff raise_for_status_eq_iff pure_eq_iff

section \<open>Trusting a peer\<close>

text \<open>A manifest address the DID of a peer may resolve to.\<close>

definition at_did_origin :: "(string, string) dict \<Rightarrow> string \<Rightarrow> string \<Rightarrow> bool" where
  "at_did_origin environ did url \<longleftrightarrow>
     after_scheme (origin_of url) = did_host did \<and> (is_loopback url \<longrightarrow> allow_loopback environ)"

abbreviation is_get :: "call \<Rightarrow> bool" where
  "is_get c \<equiv> cl_method c = ''GET''"

lemma resolve_did_web_gets:
  "resolve_did_web env did s = (r, s') \<Longrightarrow> \<exists>new. es_calls s' = es_calls s @ new \<and> list_all is_get new"
  by (auto simp: resolve_did_web_def exchange_iffs Let_def split: if_splits)

lemma resolve_peer_did_gets:
  "resolve_peer_did env environ did s = (r, s') \<Longrightarrow> \<exists>new. es_calls s' = es_calls s @ new \<and> list_all is_get new"
  by (auto simp: resolve_peer_did_def bindP_eq_iff guardP_eq_iff Let_def dest!: resolve_did_web_gets split: if_splits)

lemma resolve_peer_did_ok:
  "resolve_peer_did env environ did s = (Inr (url, peer_origin), s') \<Longrightarrow>
     at_did_origin environ did url \<and> peer_origin = origin_of url \<and> starts_with ''did:web:'' did"
  by (auto simp: resolve_peer_did_def bindP_eq_iff at_did_origin_def Let_def split: if_splits)

text \<open>The AID in a verified manifest that was fetched from \<open>url\<close> by the request number \<open>i\<close>.\<close>

definition aid_served :: "eng_env \<Rightarrow> call list \<Rightarrow> nat \<Rightarrow> string \<Rightarrow> json \<Rightarrow> bool" where
  "aid_served env calls i url aid \<longleftrightarrow>
     i < length calls \<and> calls ! i = \<lparr>cl_method = ''GET'', cl_url = url, cl_params = [], cl_body = None\<rparr> \<and>
     (\<exists>st content d m. en_answers env i = Inr (st, content) \<and> success_status st \<and>
        en_verify_manifest env content (en_insecure env) = Inr () \<and>
        loads_bytes content = Some (JObj d) \<and> dict_get d ''manifest'' = Some (JObj m) \<and> dict_get m ''aid'' = Some aid)"

lemma aid_served_later: "aid_served env calls i url aid \<Longrightarrow> aid_served env (calls @ rest) i url aid"
  by (auto simp: aid_served_def nth_append)

lemma subscript_ok: "subscript v k = Inr x \<Longrightarrow> \<exists>d. v = JObj d \<and> dict_get d k = Some x"
  by (cases v) (auto split: option.splits)

lemma pin_peer_calls:
  assumes "pin_peer env port content s = (r, s')"
  shows "(es_calls s' = es_calls s \<and> isl r) \<or> (\<exists>d m aid. loads_bytes content = Some (JObj d) \<and> dict_get d ''manifest'' = Some (JObj m) \<and>
      dict_get m ''aid'' = Some aid \<and>
      es_calls s' = es_calls s @ [\<lparr>cl_method = ''POST'', cl_url = ''http://localhost:'' @ str_int port @ ''/admin/trust-peers'',
        cl_params = [], cl_body = Some (JObj [(''aids'', JArr [aid])])\<rparr>])"
proof (cases "\<exists>d m aid. loads_bytes content = Some (JObj d) \<and> dict_get d ''manifest'' = Some (JObj m) \<and> dict_get m ''aid'' = Some aid")
  case True
  then obtain d m aid where j: "loads_bytes content = Some (JObj d)" "dict_get d ''manifest'' = Some (JObj m)" "dict_get m ''aid'' = Some aid"
    by blast
  with assms show ?thesis by (auto simp: pin_peer_def exchange_iffs Let_def)
next
  case False
  then have "es_calls s' = es_calls s \<and> isl r"
    using assms
    by (auto simp: pin_peer_def exchange_iffs Let_def bindE_def split: option.splits sum.splits dest!: subscript_ok)
  then show ?thesis ..
qed

lemma fetch_and_pin:
  fixes s1 :: eng_state
  defines "s2 \<equiv> \<lambda>url. s1\<lparr>es_calls := es_calls s1 @ [\<lparr>cl_method = ''GET'', cl_url = url, cl_params = [], cl_body = None\<rparr>]\<rparr>"
  assumes "bindP (guardP (trust_failure env) (bindM (http_call env ''GET'' url [] None) (raise_for_status url)))
    (verify_and_pin env peer_did port) s1 = (r, s')"
  obtains (refused) "es_calls s' = es_calls (s2 url)" "isl r"
  | (pinned) st content q where "en_answers env (length (es_calls s1)) = Inr (st, content)" "success_status st"
      "en_verify_manifest env content (en_insecure env) = Inr ()" "pin_peer env port content (s2 url) = (q, s')" "isl q \<longrightarrow> isl r"
proof (cases "en_answers env (length (es_calls s1))")
  case (Inl e)
  with assms that(1) show thesis by (simp add: exchange_iffs)
next
  case (Inr a)
  obtain st content where a: "a = (st, content)" by (cases a)
  show thesis
  proof (cases "success_status st")
    case False
    with assms Inr a that(1) show thesis by (simp add: exchange_iffs)
  next
    case ok: True
    with assms Inr a have run: "verify_and_pin env peer_did port content (s2 url) = (r, s')" by (simp add: exchange_iffs)
    show thesis
    proof (cases "en_verify_manifest env content (en_insecure env)")
      case (Inl e)
      with run have "s2 url = s' \<and> isl r" by (auto simp: verify_and_pin_def)
      with that(1) show thesis by simp
    next
      case v: (Inr u)
      obtain q s3 where q: "pin_peer env port content (s2 url) = (q, s3)" by (cases "pin_peer env port content (s2 url)")
      with run v have "s3 = s' \<and> (isl q \<longrightarrow> isl r)" by (auto simp: verify_and_pin_def bindP_eq_iff guardP_eq_iff)
      with that(2) [of st content q] Inr a ok v q show thesis by simp
    qed
  qed
qed

definition pin_call :: "hosted_agent \<Rightarrow> json \<Rightarrow> call" where
  "pin_call h aid =
     \<lparr>cl_method = ''POST'', cl_url = ''http://localhost:'' @ str_int (ha_port h) @ ''/admin/trust-peers'',
      cl_params = [], cl_body = Some (JObj [(''aids'', JArr [aid])])\<rparr>"

lemma fetch_and_pin_calls:
  assumes "bindP (guardP (trust_failure env) (bindM (http_call env ''GET'' url [] None) (raise_for_status url)))
    (verify_and_pin env peer_did (ha_port h)) s1 = (r, s')"
  shows "\<exists>more. es_calls s' = es_calls s1 @ more \<and>
    (list_all is_get more \<and> isl r \<or>
     (\<exists>get aid. more = [get, pin_call h aid] \<and> is_get get \<and> aid_served env (es_calls s') (length (es_calls s1)) url aid))"
  using assms
proof (cases rule: fetch_and_pin)
  case (pinned st content q)
  let ?s2 = "s1\<lparr>es_calls := es_calls s1 @ [\<lparr>cl_method = ''GET'', cl_url = url, cl_params = [], cl_body = None\<rparr>]\<rparr>"
  from pin_peer_calls [OF pinned(4)] show ?thesis
  proof (elim disjE exE conjE)
    fix d mf aid
    assume j: "loads_bytes content = Some (JObj d)" "dict_get d ''manifest'' = Some (JObj mf)" "dict_get mf ''aid'' = Some aid"
      and calls: "es_calls s' = es_calls ?s2 @ [\<lparr>cl_method = ''POST'', cl_url = ''http://localhost:'' @ str_int (ha_port h) @ ''/admin/trust-peers'',
        cl_params = [], cl_body = Some (JObj [(''aids'', JArr [aid])])\<rparr>]"
    have "aid_served env (es_calls ?s2) (length (es_calls s1)) url aid"
      using pinned(1-3) j by (auto simp: aid_served_def)
    then have "aid_served env (es_calls s') (length (es_calls s1)) url aid"
      unfolding calls by (rule aid_served_later)
    with calls show ?thesis by (auto simp: pin_call_def)
  qed (use pinned(5) in auto)
qed auto

text \<open>
  C11: a hosted agent is told to trust a peer only with the AID of a manifest that the SDK
  verified and that was fetched from the origin the peer's DID names, which is a loopback origin
  only where the environment allows it. Whatever the network answers, every request of the route
  other than a GET is the one that pins this AID at the agent's own admin route, and the route
  reports success only after it.
\<close>

theorem trust_peer_pins_did_origin:
  assumes "trust_peer env environ m hosted_id peer_did s = (r, s')"
  shows "\<exists>new. es_calls s' = es_calls s @ new \<and>
    list_all (\<lambda>c. is_get c \<or> (\<exists>h url i aid. get_hosted hosted_id m = Some h \<and> at_did_origin environ peer_did url \<and>
      aid_served env (es_calls s') i url aid \<and> c = pin_call h aid)) new \<and>
    (\<forall>v. r = Inr v \<longrightarrow> \<not> list_all is_get new)"
proof (cases "get_hosted hosted_id m")
  case None
  with assms show ?thesis by (auto simp: trust_peer_def)
next
  case (Some h)
  with assms obtain r1 s1 where res: "resolve_peer_did env environ peer_did s = (r1, s1)"
    and rest: "case r1 of Inl e \<Rightarrow> r = Inl e \<and> s' = s1
      | Inr (url, u) \<Rightarrow> bindP (guardP (trust_failure env) (bindM (http_call env ''GET'' url [] None) (raise_for_status url)))
          (verify_and_pin env peer_did (ha_port h)) s1 = (r, s')"
    by (cases "resolve_peer_did env environ peer_did s") (auto simp: trust_peer_def bindP_def split: sum.splits)
  from resolve_peer_did_gets [OF res] obtain new where new: "es_calls s1 = es_calls s @ new" "list_all is_get new" by blast
  show ?thesis
  proof (cases r1)
    case (Inl e)
    with rest new show ?thesis by (auto simp: list_all_iff)
  next
    case (Inr p)
    obtain url u where p: "p = (url, u)" by (cases p)
    from resolve_peer_did_ok res Inr p have did: "at_did_origin environ peer_did url" by blast
    from rest Inr p have "bindP (guardP (trust_failure env) (bindM (http_call env ''GET'' url [] None) (raise_for_status url)))
        (verify_and_pin env peer_did (ha_port h)) s1 = (r, s')" by simp
    from fetch_and_pin_calls [OF this] obtain more where more: "es_calls s' = es_calls s1 @ more"
      and kinds: "list_all is_get more \<and> isl r \<or> (\<exists>get aid. more = [get, pin_call h aid] \<and> is_get get \<and>
        aid_served env (es_calls s') (length (es_calls s1)) url aid)" by blast
    from kinds new(2) did Some show ?thesis unfolding more new(1)
      by (intro exI [of _ "new @ more"]) (fastforce simp: list_all_iff pin_call_def)
  qed
qed

section \<open>Ports\<close>

text \<open>
  The manager on the event loop. A hosting request takes its port before it waits for the launch
  and is settled later, with any outcome; in between other requests run. The launches under way
  are kept with their ports.
\<close>

inductive hosting_step :: "hosted_mgr \<times> (host_plan \<times> int) list \<Rightarrow> hosted_mgr \<times> (host_plan \<times> int) list \<Rightarrow> bool" where
  Begin: "plan_host re hosted_id rq = Inr pl \<Longrightarrow> hq_port rq = None \<Longrightarrow> host_port rq (hm_ports m) = (port, pa) \<Longrightarrow>
    hosting_step (m, waiting) (m\<lparr>hm_ports := pa, hm_files := files, hm_sup := sv\<rparr>, (pl, port) # waiting)"
| Settle: "hosting_step (m, before @ (pl, port) # rest)
    (snd (settle_host pl port r (m\<lparr>hm_files := files, hm_sup := sv\<rparr>)), before @ rest)"
| Stop: "hosting_step (m, waiting) (snd (stop_hosted sys hosted_id m), waiting)"

definition hosting_inv :: "hosted_mgr \<times> (host_plan \<times> int) list \<Rightarrow> bool" where
  "hosting_inv mw \<longleftrightarrow>
     (let m = fst mw; ws = map snd (snd mw)
      in ports_inv (hm_ports m) \<and> distinct ws \<and> set ws \<subseteq> pa_in_use (hm_ports m) \<and>
         (\<forall>id h. dict_get (hm_hosted m) id = Some h \<longrightarrow> ha_port h \<in> pa_in_use (hm_ports m) \<and> ha_port h \<notin> set ws) \<and>
         (\<forall>id h id' h'. dict_get (hm_hosted m) id = Some h \<longrightarrow> dict_get (hm_hosted m) id' = Some h' \<longrightarrow>
            ha_port h = ha_port h' \<longrightarrow> id = id'))"

lemma allocate_fresh:
  assumes "ports_inv a" "allocate off a = (p, a')"
  shows "p \<notin> pa_in_use a" "pa_in_use a' = insert p (pa_in_use a)" "ports_inv a'"
  using assms allocate_inv [OF assms(1), of off] by (cases rule: allocate_cases; auto simp: ports_inv_def)+

lemma release_in_use: "pa_in_use (release p a) = pa_in_use a - {p}"
  by (auto simp: release_def)

lemma hosting_inv_init: "hosting_inv (hosted_init se None sv files, [])"
  by (simp add: hosting_inv_def hosted_init_def ports_inv_init)

lemma hosting_step_inv: "hosting_step mw mw' \<Longrightarrow> hosting_inv mw \<Longrightarrow> hosting_inv mw'"
proof (induction rule: hosting_step.induct)
  case (Begin re hosted_id rq pl m port pa waiting files sv)
  then have alloc: "ports_inv (hm_ports m)" "allocate 0 (hm_ports m) = (port, pa)"
    by (auto simp: hosting_inv_def host_port_def Let_def)
  from Begin.prems allocate_fresh [OF alloc] show ?case by (auto simp: hosting_inv_def Let_def)
next
  case (Settle m before pl port rest r files sv)
  then show ?case
    by (cases r) (auto simp: hosting_inv_def settle_host_def hosted_of_def Let_def release_inv release_in_use)
next
  case (Stop m waiting sys hosted_id)
  show ?case
  proof (cases "dict_get (hm_hosted m) hosted_id")
    case (Some h)
    note inv = Stop.prems [unfolded hosting_inv_def Let_def fst_conv snd_conv]
    from inv Some have "ha_port h \<notin> set (map snd waiting)" by blast
    moreover from inv Some have "dict_get (hm_hosted m) id = Some h' \<Longrightarrow> id \<noteq> hosted_id \<Longrightarrow> ha_port h' \<noteq> ha_port h" for id h' by blast
    ultimately show ?thesis using inv Some
      unfolding hosting_inv_def stop_hosted_def Let_def by (simp add: release_inv release_in_use subset_Diff_insert)
  qed (use Stop in \<open>simp add: stop_hosted_def\<close>)
qed

text \<open>
  C39: as long as no request chooses a port of its own, the hosted agents and the launches under way
  have ports of their own, all of them marked as in use, and the next request gets a port that none
  of them has, in whatever order requests begin, succeed, fail and stop agents.
\<close>

theorem hosted_ports_apart:
  assumes "hosting_step\<^sup>*\<^sup>* (hosted_init se None sv files, []) (m, waiting)" "allocate 0 (hm_ports m) = (p, pa)"
  shows "distinct (map snd waiting) \<and> p \<notin> snd ` set waiting \<and>
    (\<forall>id h. get_hosted id m = Some h \<longrightarrow>
       ha_port h \<in> pa_in_use (hm_ports m) \<and> ha_port h \<noteq> p \<and> ha_port h \<notin> snd ` set waiting \<and>
       (\<forall>id' h'. get_hosted id' m = Some h' \<and> id' \<noteq> id \<longrightarrow> ha_port h' \<noteq> ha_port h))"
proof -
  have inv: "hosting_inv (m, waiting)"
    using assms(1) by (induction rule: rtranclp_induct) (auto intro: hosting_inv_init hosting_step_inv)
  then have "p \<notin> pa_in_use (hm_ports m)"
    using allocate_fresh(1) [OF _ assms(2)] by (simp add: hosting_inv_def Let_def)
  with inv show ?thesis by (auto simp: hosting_inv_def get_hosted_def Let_def)
qed

text \<open>
  A chosen port is not checked: when hosting fails on the port of another hosted agent, that
  agent's port is given back although it is still running.
\<close>

theorem chosen_port_freed:
  assumes "plan_host re hosted_id rq = Inr pl" "hq_port rq = Some (ha_port h)" "get_hosted other m = Some h"
    and "host_launch re pl rq (ha_port h) m = Some (Inl e, m\<lparr>hm_files := files, hm_sup := sv\<rparr>)"
  shows "\<exists>m'. host re hosted_id rq m = Some (Inl e, m') \<and> get_hosted other m' = Some h \<and> ha_port h \<notin> pa_in_use (hm_ports m')"
  using assms by (simp add: host_def host_port_def settle_host_def get_hosted_def release_in_use)

section \<open>The DID of a hosted agent\<close>

lemma scheme_split:
  assumes "CHR '':'' \<notin> set scheme"
  shows "split_once ''://'' (scheme @ ''://'' @ r) = (scheme, Some r)" "before_scheme (scheme @ ''://'' @ r) = scheme"
  using assms by (induction scheme) (auto simp: starts_with_iff)

lemma rstrip_no_slash: "CHR ''/'' \<notin> set h \<Longrightarrow> h \<noteq> [] \<Longrightarrow> rstrip_slash (a @ h) = a @ h"
  by (cases h rule: rev_cases) (auto simp: rstrip_slash_def)

lemma origin_of_manifest: "origin_of (a @ well_known_manifest) = rstrip_slash a"
  by (simp add: origin_of_def rsplit_once_def well_known_manifest_def)

lemma split_once_none: "sep = [c] \<Longrightarrow> c \<notin> set s \<Longrightarrow> split_once sep s = (s, None)"
  by (induction s) (auto simp: starts_with_iff)

lemma host_plan_parts:
  assumes "plan_host re hosted_id rq = Inr pl"
  obtains hst scheme where "hst \<noteq> []" "as_did_web_host (hp_agent pl) = Some hst" "hp_did pl = ''did:web:'' @ quote_dot hst"
    "hp_origin pl = rstrip_slash (scheme @ ''://'' @ hst)" "scheme = or_text (hq_public_scheme rq) (se_public_scheme (re_settings re))"
  using assms by (auto simp: plan_host_def bindE_def Let_def split: if_splits sum.splits)

lemma loopback_by_host:
  assumes "CHR ''/'' \<notin> set hst" "CHR '':'' \<notin> set scheme"
  shows "is_loopback (scheme @ ''://'' @ hst @ well_known_manifest) \<longleftrightarrow>
    (let h = fst (split_once '':'' hst) in h = ''localhost'' \<or> starts_with ''127.'' h)"
proof -
  have "split_once ''/'' (hst @ well_known_manifest) = (hst, Some ''.well-known/aitp-manifest'')"
    using assms(1) by (induction hst) (auto simp: starts_with_iff well_known_manifest_def)
  with scheme_split(1) [OF assms(2)] show ?thesis by (simp add: is_loopback_def after_scheme_def)
qed

lemma split_once_colon: "fst (split_once '':'' h) = fst (partition_on (CHR '':'') h)"
  by (induction h) (auto simp: starts_with_iff partition_on_def split: prod.splits)

text \<open>What the agent of a hosting request reads as its did:web host and scheme.\<close>

lemma host_document_did:
  "get_json (get_obj (host_document re pl rq port) ''aitp'') ''did_web_host'' = jstr_opt (as_did_web_host (hp_agent pl))"
  "hp_origin pl \<noteq> [] \<Longrightarrow>
   get_json (get_obj (host_document re pl rq port) ''aitp'') ''did_web_scheme'' = JStr (before_scheme (rstrip_slash (hp_origin pl)))"
  by (auto simp: host_document_def get_obj_build aitp_block_def get_json_def base_origin_def Let_def neq_Nil_conv)

text \<open>
  The DID of a hosted agent leads back to it. When an agent was hosted under a public name that
  is no loopback name, and its server runs with the did:web host and scheme of its bootstrap
  document, then another service that fetches the DID document this server serves resolves the
  agent's DID to exactly the manifest address and the origin that hosting it reported.
\<close>

theorem hosted_did_resolves:
  fixes sv :: "('a, 'r, 's) server"
  assumes plan: "plan_host re hosted_id rq = Inr pl" and h: "h = hosted_of pl port ra"
    and did: "ha_did h = Some did"
    and name: "as_did_web_host (hp_agent pl) = Some hst" "CHR ''/'' \<notin> set hst" "\<not> is_loopback_host hst"
    and scheme: "scheme = or_text (hq_public_scheme rq) (se_public_scheme (re_settings re))" "scheme \<noteq> []" "CHR '':'' \<notin> set scheme"
    and doc: "aitp = get_obj (host_document re pl rq port) ''aitp''"
    and sv: "jstr_opt (sv_did_web_host sv) = get_json aitp ''did_web_host''" "JStr (sv_did_web_scheme sv) = get_json aitp ''did_web_scheme''"
    and served: "get_did_document sv = Some resp" "rs_body resp = JsonBody body" "loads_bytes content = Some body"
    and fetched: "en_answers env (length (es_calls s)) = Inr (200, content)"
  shows "fst (resolve_peer_did env environ did s) = Inr (ha_manifest_url h, ha_origin h)"
proof -
  have origin: "hp_origin pl = scheme @ ''://'' @ hst" and hp: "hp_did pl = ''did:web:'' @ quote_dot hst" and ne: "hst \<noteq> []"
    using plan name scheme(1) rstrip_no_slash [of hst "scheme @ ''://''"] by (auto elim!: host_plan_parts)
  have strip: "rstrip_slash (scheme @ ''://'' @ hst) = scheme @ ''://'' @ hst"
    using rstrip_no_slash [OF name(2) ne, of "scheme @ ''://''"] by simp
  have "sv_did_web_host sv = Some hst" "sv_did_web_scheme sv = scheme"
    using sv name(1) strip scheme_split(2) [OF scheme(3), of hst] unfolding doc
    by (auto simp: host_document_did origin split: option.splits)
  with served(1,2) ne scheme(2) have body:
    "body = JObj [(''@context'', JArr [JStr ''https://www.w3.org/ns/did/v1'']), (''id'', JStr (''did:web:'' @ hst)),
       (''service'', JArr [JObj [(''id'', JStr (''did:web:'' @ hst @ ''#aitp'')), (''type'', JStr ''AitpManifest''),
          (''serviceEndpoint'', JStr (scheme @ ''://'' @ hst))]])]"
    by (auto simp: get_did_document_def Let_def)
  have "did = ''did:web:'' @ quote_dot hst" using did hp by (simp add: h hosted_of_def)
  moreover have "did_host (''did:web:'' @ quote_dot hst) = hst" by (simp add: did_host_def unquote_quote)
  moreover have "\<not> is_loopback (scheme @ ''://'' @ hst @ well_known_manifest)"
    using name(3) loopback_by_host [OF name(2) scheme(3)] by (simp add: is_loopback_host_def split_once_colon)
  moreover have "origin_of (scheme @ ''://'' @ hst @ well_known_manifest) = scheme @ ''://'' @ hst"
    using origin_of_manifest [of "scheme @ ''://'' @ hst"] strip by simp
  moreover have "after_scheme (scheme @ ''://'' @ hst) = hst" using scheme_split(1) [OF scheme(3)] by (simp add: after_scheme_def)
  moreover have "fst (resolve_did_web env (''did:web:'' @ quote_dot hst) s) = Inr (scheme @ ''://'' @ hst @ well_known_manifest)"
    using calculation(2) fetched served(3) strip
    by (simp add: resolve_did_web_def Let_def body bindM_def http_call_def send_def raise_for_status_def resp_json_def as_dict_def
        endpoint_of_def get_json_def success_status_def starts_with_iff)
  ultimately show ?thesis
    by (cases "resolve_did_web env (''did:web:'' @ quote_dot hst) s")
      (simp add: resolve_peer_did_def bindP_def guardP_def h hosted_of_def origin Let_def starts_with_iff)
qed

section \<open>Witnesses\<close>

definition demo_did_document :: string where
  "demo_did_document = ''{\"@context\":[\"https://www.w3.org/ns/did/v1\"],\"id\":\"did:web:b.org\",\"service\":[{\"id\":\"did:web:b.org#aitp\",\"type\":\"AitpManifest\",\"serviceEndpoint\":\"https://b.org\"}]}''"

definition demo_federation :: eng_env where
  "demo_federation = demo_env [demo_did_document, ''{\"manifest\":{\"aid\":\"x\"}}'']"

definition demo_hosting :: run_env where
  "demo_hosting = demo_run_env\<lparr>re_by_ref := (\<lambda>_. Inr \<lparr>am_id = ''i'', am_name = ''n'', am_framework = ''custom'', am_entrypoint = [],
     am_host = [], am_aitp = \<lparr>aa_offered_caps = [], aa_display_name = ''d'', aa_identity_type = ''pinned_key'', aa_accepted_identity_types = None,
       aa_oidc_issuer = None, aa_oidc_subject = None, aa_signing_suite = ''ed25519'', aa_ttl_secs = 60\<rparr>, am_did_web = True\<rparr>)\<rparr>"

definition demo_host_request :: host_request where
  "demo_host_request = \<lparr>hq_ref = ''agents/x'', hq_public_host = Some ''b.org'', hq_public_scheme = None, hq_signing_suite = None,
     hq_inputs = None, hq_port = None\<rparr>"

definition demo_plan :: host_plan where
  "demo_plan = projr (plan_host demo_hosting ''h'' demo_host_request)"

definition demo_hosted :: hosted_agent where
  "demo_hosted = hosted_of demo_plan 9100 (demo_running ''x'' ''aid'')"

lemma demo_plan_ok: "plan_host demo_hosting ''h'' demo_host_request = Inr demo_plan"
  unfolding demo_plan_def
  by (simp add: plan_host_def demo_hosting_def demo_run_env_def demo_host_def demo_host_request_def on_railway_def RAILWAY_PLATFORM_VARS_def
      or_text_def find_manifest_def get_agent_manifest_def demo_registry_def Let_def)

definition demo_mgr :: hosted_mgr where
  "demo_mgr = (hosted_init demo_settings None supervisor_init [])\<lparr>hm_hosted := [(''h'', demo_hosted)]\<rparr>"

definition demo_trust_run :: "(api_exc + json) \<times> eng_state" where
  "demo_trust_run = trust_peer demo_federation [] demo_mgr ''h'' ''did:web:b.org'' demo_state"

abbreviation demo_url :: string where
  "demo_url \<equiv> ''https://b.org/.well-known/aitp-manifest''"

lemma demo_pure:
  "(case loads_bytes demo_did_document of Some (JObj d) \<Rightarrow> endpoint_of ''did:web:b.org'' d | _ \<Rightarrow> Inl (PyExc ValueError None [])) = Inr demo_url"
  "loads_bytes ''{\"manifest\":{\"aid\":\"x\"}}'' = Some (JObj [(''manifest'', JObj [(''aid'', JStr ''x'')])])"
  "is_loopback demo_url = False" "after_scheme (origin_of demo_url) = did_host ''did:web:b.org''" "starts_with ''did:web:'' ''did:web:b.org''"
  by code_simp+

lemma demo_answers_of:
  "en_answers demo_federation 0 = Inr (200, demo_did_document)" "en_answers demo_federation (Suc 0) = Inr (200, ''{\"manifest\":{\"aid\":\"x\"}}'')"
  "en_answers demo_federation (Suc (Suc 0)) = Inr (200, ''{}'')" "en_verify_manifest demo_federation t b = Inr ()" "es_calls demo_state = []"
  "get_hosted ''h'' demo_mgr = Some demo_hosted"
  by (simp_all add: demo_federation_def demo_env_def demo_state_def demo_mgr_def get_hosted_def)

lemma demo_resolved:
  "\<exists>s. resolve_did_web demo_federation ''did:web:b.org'' demo_state = (Inr demo_url, s) \<and> length (es_calls s) = 1"
  using demo_pure(1)
  by (auto simp: resolve_did_web_def Let_def demo_pure(5) demo_answers_of bindM_def http_call_def send_def raise_for_status_def
      resp_json_def as_dict_def lift_exc_def success_status_def split: option.splits json.splits sum.splits)

lemma demo_trusted: "\<exists>v. fst demo_trust_run = Inr v"
proof -
  obtain s where "resolve_did_web demo_federation ''did:web:b.org'' demo_state = (Inr demo_url, s)" "length (es_calls s) = 1"
    using demo_resolved by blast
  then show ?thesis
    by (auto simp: demo_trust_run_def trust_peer_def demo_answers_of resolve_peer_did_def demo_pure bindP_def guardP_def Let_def
        bindM_def http_call_def send_def raise_for_status_def success_status_def verify_and_pin_def pin_peer_def resp_json_def lift_exc_def)
qed

theorem trust_peer_pins_did_origin_witness:
  "\<exists>url i aid. at_did_origin [] ''did:web:b.org'' url \<and> aid_served demo_federation (es_calls (snd demo_trust_run)) i url aid"
proof -
  have run: "trust_peer demo_federation [] demo_mgr ''h'' ''did:web:b.org'' demo_state = (fst demo_trust_run, snd demo_trust_run)"
    by (simp add: demo_trust_run_def)
  from trust_peer_pins_did_origin [OF run] demo_trusted show ?thesis by (simp only: list_all_iff) blast
qed

theorem hosted_ports_apart_witness:
  "\<exists>p pa. hosting_step\<^sup>*\<^sup>* (hosted_init demo_settings None supervisor_init [], [])
      (hosted_init demo_settings None supervisor_init []\<lparr>hm_ports := pa\<rparr>, [(demo_plan, p)])
    \<and> fst (allocate 0 pa) \<noteq> p"
proof -
  let ?m = "hosted_init demo_settings None supervisor_init []"
  obtain p pa where pa: "host_port demo_host_request (hm_ports ?m) = (p, pa)" by (cases "host_port demo_host_request (hm_ports ?m)")
  have "hosting_step (?m, []) (?m\<lparr>hm_ports := pa, hm_files := [], hm_sup := supervisor_init\<rparr>, [(demo_plan, p)])"
    by (rule hosting_step.Begin [OF demo_plan_ok _ pa]) (simp add: demo_host_request_def)
  then have reach: "hosting_step\<^sup>*\<^sup>* (?m, []) (?m\<lparr>hm_ports := pa\<rparr>, [(demo_plan, p)])" by (simp add: hosted_init_def)
  obtain q pb where q: "allocate 0 (hm_ports (?m\<lparr>hm_ports := pa\<rparr>)) = (q, pb)" by (cases "allocate 0 (hm_ports (?m\<lparr>hm_ports := pa\<rparr>))")
  from hosted_ports_apart [OF reach q] have "q \<noteq> p" by simp
  with reach q show ?thesis by (intro exI [of _ p] exI [of _ pa]) simp
qed

definition demo_did_server :: "(string, string, nat) server" where
  "demo_did_server = demo_server\<lparr>sv_did_web_host := Some ''b.org'', sv_did_web_scheme := ''https''\<rparr>"

theorem hosted_did_resolves_witness:
  "fst (resolve_peer_did demo_federation [] ''did:web:b.org'' demo_state) = Inr (''https://b.org/.well-known/aitp-manifest'', ''https://b.org'')"
proof -
  have parts: "ha_did demo_hosted = Some ''did:web:b.org''" "as_did_web_host (hp_agent demo_plan) = Some ''b.org''"
    "ha_manifest_url demo_hosted = ''https://b.org/.well-known/aitp-manifest''" "ha_origin demo_hosted = ''https://b.org''"
    by code_simp+
  show ?thesis
    apply (rule hosted_did_resolves [OF demo_plan_ok demo_hosted_def parts(1,2) _ _ refl _ _ refl, where sv = demo_did_server and env = demo_federation
        and content = demo_did_document, unfolded parts])
    apply code_simp+
    done
qed

end
