(* ===== verification/Llm_Guard.thy ===== *)
theory Llm_Guard
  imports Agent_Handover "HOL-Library.Sublist"
begin

text \<open>
  \<open>agents/base/llm.py\<close>: the choice of the provider, the token budget of an agent process and the
  redaction of secrets in provider errors. The environment is a dictionary; the text of the
  bootstrap file and the presence of the optional packages are arguments; the provider call is
  its outcome. The regular expression is a function that gives the length of the match at the
  start of a text.

  What is shown: what the agents of a run reserve never exceeds the run's budget, and a call
  that does not fit does not reach the provider; no configured secret and nothing of the shape of
  a key survives in an error that is answered.
\<close>

section \<open>Redaction\<close>

definition SECRET_ENV_VARS :: "string list" where
  "SECRET_ENV_VARS = [''OPENAI_API_KEY'', ''ANTHROPIC_API_KEY'', ''PLAYGROUND_API_KEY'', ''CP_API_KEY'']"

definition REDACTED :: string where
  "REDACTED = ''[redacted]''"

text \<open>\<open>os.environ.get(name) or ""\<close>.\<close>

definition env_text :: "(string, string) dict \<Rightarrow> string \<Rightarrow> string" where
  "env_text environ name = (case dict_get environ name of Some v \<Rightarrow> v | None \<Rightarrow> [])"

text \<open>\<open>pattern.sub(new, text)\<close> for a pattern with no empty match; the number counts the bytes of a
  match still to skip.\<close>

fun sub_with :: "(string \<Rightarrow> nat) \<Rightarrow> string \<Rightarrow> nat \<Rightarrow> string \<Rightarrow> string" where
  "sub_with m new n [] = []"
| "sub_with m new (Suc n) (c # cs) = sub_with m new n cs"
| "sub_with m new 0 (c # cs) = (case m (c # cs) of 0 \<Rightarrow> c # sub_with m new 0 cs | Suc k \<Rightarrow> new @ sub_with m new k cs)"

definition alnum :: "char \<Rightarrow> bool" where
  "alnum c \<longleftrightarrow> (let n = byte c in (48 \<le> n \<and> n \<le> 57) \<or> (65 \<le> n \<and> n \<le> 90) \<or> (97 \<le> n \<and> n \<le> 122))"

definition key_char :: "char \<Rightarrow> bool" where
  "key_char c \<longleftrightarrow> alnum c \<or> c \<in> {CHR ''_'', CHR ''-'', CHR ''*''}"

definition token_char :: "char \<Rightarrow> bool" where
  "token_char c \<longleftrightarrow> alnum c \<or> c \<in> {CHR ''.'', CHR ''_'', CHR ''~'', CHR ''+'', CHR ''/'', CHR ''='', CHR ''-''}"

lemma space_len_le: "space_len s \<le> length s"
  by (auto simp: space_len_def split: list.splits)

function drop_spaces :: "string \<Rightarrow> string" where
  "drop_spaces s = (if space_len s = 0 then s else drop_spaces (drop (space_len s) s))"
  by auto
termination
proof (relation "measure length")
  show "space_len s \<noteq> 0 \<Longrightarrow> (drop (space_len s) s, s) \<in> measure length" for s
    using space_len_le [of s] by (cases s) auto
qed simp

declare drop_spaces.simps [simp del]

text \<open>\<open>sk-[A-Za-z0-9_\-*]{6,}\<close> and \<open>(?i:bearer)\s+[A-Za-z0-9._~+/=\-]{8,}\<close>.\<close>

definition match_key :: "string \<Rightarrow> nat" where
  "match_key s =
     (let n = length (takeWhile key_char (drop 3 s)) in if starts_with ''sk-'' s \<and> 6 \<le> n then 3 + n else 0)"

definition bearer_word :: "string \<Rightarrow> bool" where
  "bearer_word s \<longleftrightarrow> map ascii_lower (take 6 s) = ''bearer''"

definition match_bearer :: "string \<Rightarrow> nat" where
  "match_bearer s =
     (let r = drop 6 s; t = drop_spaces r; n = length (takeWhile token_char t)
      in if bearer_word s \<and> space_len r \<noteq> 0 \<and> 8 \<le> n then length s - length t + n else 0)"

definition SECRET_PATTERN :: "string \<Rightarrow> nat" where
  "SECRET_PATTERN s = (if match_key s \<noteq> 0 then match_key s else match_bearer s)"

definition secret_values :: "(string, string) dict \<Rightarrow> string list" where
  "secret_values environ =
     filter (\<lambda>v. 8 \<le> length (utf8_chars v))
       (map strip_text (concat (map (\<lambda>name. split_on (CHR '','') (env_text environ name)) SECRET_ENV_VARS)))"

definition redact_secrets :: "(string, string) dict \<Rightarrow> string \<Rightarrow> string" where
  "redact_secrets environ text0 =
     sub_with SECRET_PATTERN REDACTED 0 (fold (\<lambda>v t. py_replace v REDACTED 0 t) (secret_values environ) text0)"

section \<open>Budget\<close>

definition DEFAULT_MAX_TOKENS_PER_CALL :: int where
  "DEFAULT_MAX_TOKENS_PER_CALL = 1024"

definition DEFAULT_TOKEN_BUDGET :: int where
  "DEFAULT_TOKEN_BUDGET = 40000"

text \<open>\<open>dict(v)\<close> of a decoded value, with the entries a lookup by text can find.\<close>

fun pairs_dict :: "json list \<Rightarrow> json_dict \<Rightarrow> json_dict option" where
  "pairs_dict [] d = Some d"
| "pairs_dict (v # vs) d =
     (case json_iter v of
        Inr [JStr k, x] \<Rightarrow> pairs_dict vs (dict_set k x d)
      | Inr [JArr _, x] \<Rightarrow> None
      | Inr [JObj _, x] \<Rightarrow> None
      | Inr [_, x] \<Rightarrow> pairs_dict vs d
      | _ \<Rightarrow> None)"

definition py_dict :: "json \<Rightarrow> json_dict option" where
  "py_dict v = (case v of JObj d \<Rightarrow> Some d | _ \<Rightarrow> (case json_iter v of Inr vs \<Rightarrow> pairs_dict vs [] | Inl _ \<Rightarrow> None))"

text \<open>The \<open>llm\<close> block of the bootstrap file; every failure gives an empty one.\<close>

definition bootstrap_llm_block :: "(string, string) dict \<Rightarrow> (string \<Rightarrow> string option) \<Rightarrow> json_dict" where
  "bootstrap_llm_block environ read_file =
     (let path = env_text environ ''AITP_BOOTSTRAP_FILE''
      in if path = [] then []
         else (case Option.bind (read_file path) loads of
                 Some (JObj d) \<Rightarrow> (case py_dict (py_or (get_json d ''llm'') (JObj [])) of Some b \<Rightarrow> b | None \<Rightarrow> [])
               | _ \<Rightarrow> []))"

text \<open>\<open>int(block.get(key) or default)\<close> on \<open>block or {}\<close>.\<close>

definition block_int :: "json \<Rightarrow> string \<Rightarrow> int \<Rightarrow> pyexc + int" where
  "block_int block key dflt =
     (case py_or block (JObj []) of
        JObj d \<Rightarrow> py_int (py_or (get_json d key) (JInt dflt))
      | _ \<Rightarrow> Inl (PyExc AttributeError None ''get''))"

definition max_tokens_per_call :: "(string, string) dict \<Rightarrow> (string \<Rightarrow> string option) \<Rightarrow> json_dict \<Rightarrow> pyexc + int" where
  "max_tokens_per_call environ read_file bootstrap =
     block_int (if bootstrap \<noteq> [] then get_json bootstrap ''llm'' else JObj (bootstrap_llm_block environ read_file))
       ''max_tokens_per_call'' DEFAULT_MAX_TOKENS_PER_CALL"

text \<open>\<open>TokenBudget.try_reserve\<close>, under its lock: one step on the number of tokens spent.\<close>

definition try_reserve :: "int \<Rightarrow> int \<Rightarrow> int \<Rightarrow> bool \<times> int" where
  "try_reserve tokens budget spent = (if spent + tokens > budget then (False, spent) else (True, spent + tokens))"

section \<open>Provider\<close>

definition select_provider :: "(string, string) dict \<Rightarrow> string option" where
  "select_provider environ =
     (let given = env_text environ ''LLM_PROVIDER''; requested = map ascii_lower (strip_text (if given = [] then ''openai'' else given))
      in if requested = ''openai'' \<and> env_text environ ''OPENAI_API_KEY'' \<noteq> [] then Some ''openai''
         else if requested = ''anthropic'' \<and> env_text environ ''ANTHROPIC_API_KEY'' \<noteq> [] then Some ''anthropic''
         else None)"

definition model_name :: "(string, string) dict \<Rightarrow> string \<Rightarrow> string" where
  "model_name environ provider =
     (let own = env_text environ (if provider = ''openai'' then ''OPENAI_MODEL'' else ''ANTHROPIC_MODEL'')
      in if own \<noteq> [] then own else if provider = ''openai'' then ''gpt-4o-mini'' else ''claude-sonnet-4-6'')"

record chat_model =
  cm_provider :: string
  cm_model :: string
  cm_max_tokens :: int

text \<open>The model is built only where the provider's package is installed.\<close>

definition build_chat_model ::
  "(string, string) dict \<Rightarrow> (string \<Rightarrow> string option) \<Rightarrow> (string \<Rightarrow> bool) \<Rightarrow> pyexc + chat_model option" where
  "build_chat_model environ read_file installed =
     (case select_provider environ of
        None \<Rightarrow> Inr None
      | Some p \<Rightarrow>
          if \<not> installed (if p = ''openai'' then ''langchain_openai'' else ''langchain_anthropic'') then Inr None
          else bindE (max_tokens_per_call environ read_file []) (\<lambda>n.
                 Inr (Some \<lparr>cm_provider = p, cm_model = model_name environ p, cm_max_tokens = n\<rparr>)))"

definition build_crewai_llm ::
  "(string, string) dict \<Rightarrow> (string \<Rightarrow> string option) \<Rightarrow> (string \<Rightarrow> bool) \<Rightarrow> pyexc + chat_model option" where
  "build_crewai_llm environ read_file installed =
     (case select_provider environ of
        None \<Rightarrow> Inr None
      | Some p \<Rightarrow>
          if \<not> installed ''crewai'' then Inr None
          else bindE (max_tokens_per_call environ read_file []) (\<lambda>n.
                 Inr (Some \<lparr>cm_provider = p, cm_model = p @ ''/'' @ model_name environ p, cm_max_tokens = n\<rparr>)))"

section \<open>A guarded call\<close>

text \<open>
  The state of an agent process: the tokens reserved, the events sent and, for each provider call
  that was started, the tokens reserved for it.
\<close>

record llm_state =
  ls_spent :: int
  ls_events :: "event list"
  ls_started :: "int list"

definition llm_init :: llm_state where
  "llm_init = \<lparr>ls_spent = 0, ls_events = [], ls_started = []\<rparr>"

definition llm_emit :: "string \<Rightarrow> json_dict \<Rightarrow> llm_state \<Rightarrow> llm_state" where
  "llm_emit ty flds s = s\<lparr>ls_events := ls_events s @ [(ty, flds)]\<rparr>"

text \<open>The two numbers of a reservation: the budget and the tokens to reserve.\<close>

definition reservation :: "(string, string) dict \<Rightarrow> (string \<Rightarrow> string option) \<Rightarrow> json_dict \<Rightarrow> int \<Rightarrow> pyexc + int \<times> int" where
  "reservation environ read_file bootstrap llm_calls =
     bindE (block_int (get_json bootstrap ''llm'') ''token_budget'' DEFAULT_TOKEN_BUDGET) (\<lambda>budget.
     bindE (max_tokens_per_call environ read_file bootstrap) (\<lambda>n. Inr (budget, max 1 llm_calls * n)))"

text \<open>\<open>await coro\<close> with its handler; \<open>tokens\<close> are those reserved for it.\<close>

definition await_provider ::
  "(string, string) dict \<Rightarrow> string \<Rightarrow> json_dict \<Rightarrow> int \<Rightarrow> (pyexc + 'x) \<Rightarrow> llm_state \<Rightarrow> (http_error + 'x) \<times> llm_state" where
  "await_provider environ task extra tokens coro s =
     (let s1 = s\<lparr>ls_started := ls_started s @ [tokens]\<rparr>
      in case coro of
           Inr x \<Rightarrow> (Inr x, s1)
         | Inl e \<Rightarrow>
             (let detail = py_prefix 300 (redact_secrets environ (exc_msg e))
              in (Inl (HTTPException 502 (JStr (''LLM provider call failed: '' @ detail)) []),
                  llm_emit ''llm.failed'' ([(''task'', JStr task), (''detail'', JStr detail)] @ extra) s1)))"

definition call_llm_or_502 ::
  "(string, string) dict \<Rightarrow> (string \<Rightarrow> string option) \<Rightarrow> json_dict \<Rightarrow> string \<Rightarrow> int \<Rightarrow> json_dict \<Rightarrow> (pyexc + 'x) \<Rightarrow> llm_state \<Rightarrow> (http_error + 'x) \<times> llm_state" where
  "call_llm_or_502 environ read_file bootstrap task llm_calls extra coro s =
     (if select_provider environ = None then await_provider environ task extra 0 coro s
      else
        (case reservation environ read_file bootstrap llm_calls of
           Inl e \<Rightarrow> (Inl (ServerError e), s)
         | Inr (budget, reserve) \<Rightarrow>
             (case try_reserve reserve budget (ls_spent s) of
                (False, spent) \<Rightarrow>
                  (Inl (HTTPException 429 (JStr ''LLM token budget exhausted for this run'') []),
                   llm_emit ''llm.refused''
                     ([(''task'', JStr task), (''reason'', JStr ''token budget exhausted''), (''budget'', JInt budget),
                       (''spent'', JInt spent)] @ extra) s)
              | (True, spent) \<Rightarrow> await_provider environ task extra reserve coro (s\<lparr>ls_spent := spent\<rparr>))))"

section \<open>No secret survives redaction\<close>

text \<open>A text that cannot arise around or inside the mark that replaces a secret.\<close>

definition opaque :: "string \<Rightarrow> bool" where
  "opaque v \<longleftrightarrow> v \<noteq> [] \<and> CHR ''['' \<notin> set v \<and> CHR '']'' \<notin> set v \<and> \<not> sublist v ''redacted''"

lemma sublist_around:
  assumes "c \<notin> set v" "v \<noteq> []"
  shows "sublist v (a @ c # b) \<longleftrightarrow> sublist v a \<or> sublist v b"
proof -
  have no: "\<not> prefix v (c # b)" using assms by (cases v) auto
  have "sublist v a" if "v = x @ y" "suffix x a" "prefix y (c # b)" for x y
    using that assms by (cases y) (auto intro: suffix_imp_sublist)
  with no show ?thesis by (auto simp: sublist_append sublist_Cons_right)
qed

lemma sublist_around_mark: "opaque v \<Longrightarrow> sublist v (a @ REDACTED @ b) \<longleftrightarrow> sublist v a \<or> sublist v b"
proof -
  assume o: "opaque v"
  have "a @ REDACTED @ b = a @ CHR ''['' # (''redacted'' @ CHR '']'' # b)" by (simp add: REDACTED_def)
  moreover have "sublist v (a @ CHR ''['' # (''redacted'' @ CHR '']'' # b)) \<longleftrightarrow> sublist v a \<or> sublist v (''redacted'' @ CHR '']'' # b)"
    using o by (intro sublist_around) (auto simp: opaque_def)
  moreover have "sublist v (''redacted'' @ CHR '']'' # b) \<longleftrightarrow> sublist v ''redacted'' \<or> sublist v b"
    using o by (intro sublist_around) (auto simp: opaque_def)
  ultimately show ?thesis using o by (simp only: opaque_def simp_thms)
qed

text \<open>Substitution leaves what was not there, and \<open>replace\<close> is a substitution.\<close>

lemma sub_keeps:
  "opaque v \<Longrightarrow> n = 0 \<or> p = [] \<Longrightarrow> \<not> sublist v (p @ s) \<Longrightarrow> \<not> sublist v (p @ sub_with m REDACTED n s)"
proof (induction m REDACTED n s arbitrary: p rule: sub_with.induct)
  case (2 m n c cs)
  then have "\<not> sublist v ([] @ cs)" by (auto simp: sublist_Cons_right)
  with 2 have "\<not> sublist v ([] @ sub_with m REDACTED n cs)" by (intro "2.hyps") auto
  with 2 show ?case by simp
next
  case (3 m c cs)
  show ?case
  proof (cases "m (c # cs)")
    case 0
    with 3 have "\<not> sublist v ((p @ [c]) @ sub_with m REDACTED 0 cs)" by (intro "3.hyps"(1)) auto
    with 0 show ?thesis by simp
  next
    case (Suc k)
    from 3 have "\<not> sublist v p" "\<not> sublist v cs" by (auto simp: sublist_append sublist_Cons_right)
    moreover from this 3 Suc have "\<not> sublist v ([] @ sub_with m REDACTED k cs)" by (intro "3.hyps"(2)) auto
    ultimately show ?thesis using Suc sublist_around_mark [OF "3.prems"(1)] by simp
  qed
qed simp

lemma replace_is_sub:
  "v \<noteq> [] \<Longrightarrow> py_replace v new n s = sub_with (\<lambda>t. if starts_with v t then length v else 0) new n s"
  by (induction v new n s rule: py_replace.induct) (auto split: nat.split)

lemma replace_keeps: "opaque v \<Longrightarrow> w \<noteq> [] \<Longrightarrow> \<not> sublist v s \<Longrightarrow> \<not> sublist v (py_replace w REDACTED 0 s)"
  using sub_keeps [of v 0 "[]" s] by (simp add: replace_is_sub)

lemma occurs_at: "sublist v p \<Longrightarrow> v \<noteq> [] \<Longrightarrow> \<exists>k < length p. starts_with v (drop k (p @ s))"
proof -
  assume "sublist v p" "v \<noteq> []"
  then obtain a b where "p = a @ v @ b" by (auto simp: sublist_def)
  with \<open>v \<noteq> []\<close> show ?thesis by (intro exI [of _ "length a"]) simp
qed

lemma replace_removes:
  "opaque v \<Longrightarrow> n = 0 \<or> p = [] \<Longrightarrow> (\<And>k. n = 0 \<Longrightarrow> k < length p \<Longrightarrow> \<not> starts_with v (drop k (p @ s))) \<Longrightarrow>
     \<not> sublist v (p @ py_replace v REDACTED n s)"
proof (induction v REDACTED n s arbitrary: p rule: py_replace.induct)
  case (1 v n)
  then have "v \<noteq> []" by (simp add: opaque_def)
  with 1 show ?case by (cases "n = 0") (auto dest!: occurs_at [of _ _ "[]"])
next
  case (3 v c cs)
  have v: "v \<noteq> []" using "3.prems"(1) by (simp add: opaque_def)
  show ?case
  proof (cases "starts_with v (c # cs)")
    case True
    have "\<not> sublist v p" using "3.prems"(3) v by (auto dest!: occurs_at [of _ _ "c # cs"])
    moreover from True 3 have "\<not> sublist v ([] @ py_replace v REDACTED (length v - 1) cs)" by (intro "3.hyps"(1)) auto
    ultimately show ?thesis using True sublist_around_mark [OF "3.prems"(1)] by simp
  next
    case False
    have "\<not> starts_with v (drop k ((p @ [c]) @ cs))" if "k < length (p @ [c])" for k
      using "3.prems"(3) [of k] False that by (cases "k = length p") auto
    with False 3 have "\<not> sublist v ((p @ [c]) @ py_replace v REDACTED 0 cs)" by (intro "3.hyps"(2)) auto
    with False show ?thesis by simp
  qed
next
  case (2 v n c cs)
  then have "\<not> sublist v ([] @ py_replace v REDACTED n cs)" by (intro "2.hyps") auto
  with 2 show ?case by simp
qed

lemma replace_all_removes:
  "v \<in> set vs \<Longrightarrow> opaque v \<Longrightarrow> [] \<notin> set vs \<Longrightarrow> \<not> sublist v (fold (\<lambda>v t. py_replace v REDACTED 0 t) vs s)"
proof (induction vs rule: rev_induct)
  case (snoc w vs)
  show ?case
  proof (cases "v = w")
    case True
    with snoc.prems replace_removes [of v 0 "[]"] show ?thesis by simp
  next
    case False
    with snoc have "\<not> sublist v (fold (\<lambda>v t. py_replace v REDACTED 0 t) vs s)" by simp
    moreover have "w \<noteq> []" using snoc.prems(3) by auto
    ultimately show ?thesis using replace_keeps [OF snoc.prems(2)] by simp
  qed
qed simp

section \<open>Nothing of the shape of a key survives\<close>

lemma takeWhile_stop: "\<not> P c \<Longrightarrow> takeWhile P (a @ c # b) = takeWhile P a"
  by (induction a) auto

lemma length_takeWhile_append: "length (takeWhile P a) \<le> length (takeWhile P (a @ b))"
  by (induction a) auto

lemma starts_with_mono: "starts_with p s \<Longrightarrow> starts_with p (s @ t)"
  by (auto simp: starts_with_iff)

text \<open>More text after a match leaves it a match.\<close>

lemma match_key_mono: "0 < match_key s \<Longrightarrow> 0 < match_key (s @ t)"
proof -
  assume m: "0 < match_key s"
  then have "starts_with ''sk-'' s" "6 \<le> length (takeWhile key_char (drop 3 s))"
    by (auto simp: match_key_def Let_def split: if_splits)
  moreover from this(1) have "drop 3 (s @ t) = drop 3 s @ t" by (auto simp: starts_with_iff)
  ultimately show ?thesis
    using length_takeWhile_append [of key_char "drop 3 s" t] by (simp add: match_key_def starts_with_mono Let_def)
qed

lemma not_space:
  "token_char x \<Longrightarrow> \<not> is_py_space x" "token_char x \<Longrightarrow> \<not> space2 x d" "token_char x \<Longrightarrow> \<not> space3 x d e"
  "\<not> is_py_space (CHR ''['')" "\<not> space2 (CHR ''['') d" "\<not> space3 (CHR ''['') d e"
  "\<not> space2 c (CHR ''['')" "\<not> space3 c (CHR ''['') e" "\<not> space3 c d (CHR ''['')"
  by (auto simp: token_char_def alnum_def is_py_space_def space2_def space3_def Let_def)

lemma space_len_token: "token_char x \<Longrightarrow> space_len (x # z) = 0"
  by (simp add: space_len_def not_space split: list.split)

lemma space_len_mono: "0 < space_len s \<Longrightarrow> space_len (s @ t) = space_len s"
  by (auto simp: space_len_def split: list.splits if_splits)

lemma drop_spaces_mono: "drop_spaces s = x # z \<Longrightarrow> token_char x \<Longrightarrow> drop_spaces (s @ t) = x # z @ t"
proof (induction s rule: drop_spaces.induct)
  case (1 s)
  show ?case
  proof (cases "space_len s = 0")
    case True
    with 1 have "s = x # z" by (simp add: drop_spaces.simps [of s])
    with 1 show ?thesis by (simp add: drop_spaces.simps space_len_token)
  next
    case False
    with 1 have "drop_spaces (drop (space_len s) s @ t) = x # z @ t" by (simp add: drop_spaces.simps [of s])
    with False space_len_le [of s] show ?thesis by (simp add: drop_spaces.simps [of "s @ t"] space_len_mono)
  qed
qed

lemma match_bearer_iff:
  "0 < match_bearer s \<longleftrightarrow> bearer_word s \<and> 0 < space_len (drop 6 s) \<and>
     8 \<le> length (takeWhile token_char (drop_spaces (drop 6 s)))"
  by (auto simp: match_bearer_def Let_def)

lemma bearer_length: "bearer_word s \<Longrightarrow> 6 \<le> length s"
proof -
  assume "bearer_word s"
  then have "length (map ascii_lower (take 6 s)) = length ''bearer''" by (simp only: bearer_word_def)
  then show ?thesis by simp
qed

lemma match_bearer_mono: "0 < match_bearer s \<Longrightarrow> 0 < match_bearer (s @ t)"
proof -
  assume m: "0 < match_bearer s"
  then have b: "bearer_word s" and sp: "0 < space_len (drop 6 s)"
    and tok: "8 \<le> length (takeWhile token_char (drop_spaces (drop 6 s)))" by (simp_all add: match_bearer_iff)
  from tok obtain x z where xz: "drop_spaces (drop 6 s) = x # z" "token_char x"
    by (cases "drop_spaces (drop 6 s)") (auto split: if_splits)
  have "drop_spaces (drop 6 s @ t) = x # z @ t" by (rule drop_spaces_mono [OF xz])
  moreover have "8 \<le> length (takeWhile token_char ((x # z) @ t))"
    using tok length_takeWhile_append [of token_char "x # z" t] xz by simp
  moreover have "bearer_word (s @ t)" using b bearer_length [OF b] by (simp add: bearer_word_def)
  ultimately show ?thesis using bearer_length [OF b] sp by (simp add: match_bearer_iff space_len_mono)
qed

lemma pattern_iff: "0 < SECRET_PATTERN s \<longleftrightarrow> 0 < match_key s \<or> 0 < match_bearer s"
  by (simp add: SECRET_PATTERN_def)

lemma pattern_mono: "0 < SECRET_PATTERN s \<Longrightarrow> 0 < SECRET_PATTERN (s @ t)"
  using match_key_mono [of s t] match_bearer_mono [of s t] by (auto simp: pattern_iff)

text \<open>A match does not reach over the bracket of a mark.\<close>

lemma match_key_stop: "0 < match_key (q @ CHR ''['' # r) \<Longrightarrow> 0 < match_key q"
proof -
  assume m: "0 < match_key (q @ CHR ''['' # r)"
  then have sk: "starts_with ''sk-'' (q @ CHR ''['' # r)" by (auto simp: match_key_def Let_def split: if_splits)
  then obtain z where q: "q = ''sk-'' @ z" by (cases q; cases "tl q"; cases "tl (tl q)") auto
  have "\<not> key_char (CHR ''['')" by (simp add: key_char_def alnum_def)
  with m q show ?thesis by (auto simp: match_key_def Let_def takeWhile_stop split: if_splits)
qed

lemma space_len_stop: "space_len (a @ CHR ''['' # b) = space_len a"
  by (cases a; cases "tl a"; cases "tl (tl a)") (auto simp: space_len_def not_space split: list.splits)

lemma drop_spaces_stop: "drop_spaces (a @ CHR ''['' # b) = drop_spaces a @ CHR ''['' # b"
proof (induction a rule: drop_spaces.induct)
  case (1 a)
  then show ?case
    using space_len_le [of a] by (cases "space_len a = 0") (simp_all add: drop_spaces.simps [of a] drop_spaces.simps [of "a @ CHR ''['' # b"] space_len_stop)
qed

lemma bearer_stop: "bearer_word (q @ CHR ''['' # r) \<Longrightarrow> bearer_word q \<and> 6 \<le> length q"
proof -
  assume b: "bearer_word (q @ CHR ''['' # r)"
  have "6 \<le> length q"
  proof (rule ccontr)
    assume "\<not> 6 \<le> length q"
    then have "take 6 (q @ CHR ''['' # r) ! length q = CHR ''[''" by (simp add: nth_append)
    with \<open>\<not> 6 \<le> length q\<close> have "CHR ''['' \<in> set (take 6 (q @ CHR ''['' # r))"
      by (metis add_Suc_right length_append length_take list.size(4) min_less_iff_conj not_le nth_mem less_add_Suc1)
    then have "ascii_lower (CHR ''['') \<in> set (map ascii_lower (take 6 (q @ CHR ''['' # r)))" by (metis image_eqI list.set_map)
    with b show False by (simp only: bearer_word_def) (simp add: ascii_lower_def)
  qed
  with b show ?thesis by (simp add: bearer_word_def)
qed

lemma match_bearer_stop: "0 < match_bearer (q @ CHR ''['' # r) \<Longrightarrow> 0 < match_bearer q"
proof -
  assume m: "0 < match_bearer (q @ CHR ''['' # r)"
  have "\<not> token_char (CHR ''['')" by (simp add: token_char_def alnum_def)
  with m bearer_stop show ?thesis by (auto simp: match_bearer_iff space_len_stop drop_spaces_stop takeWhile_stop)
qed

lemma pattern_stop: "0 < SECRET_PATTERN (q @ CHR ''['' # r) \<Longrightarrow> 0 < SECRET_PATTERN q"
  using match_key_stop [of q r] match_bearer_stop [of q r] by (auto simp: pattern_iff)

lemma pattern_start: "0 < SECRET_PATTERN (c # t) \<Longrightarrow> ascii_lower c \<in> {CHR ''s'', CHR ''b''}"
  by (auto simp: pattern_iff match_key_def match_bearer_iff bearer_word_def ascii_lower_def Let_def split: if_splits)

lemma pattern_empty [simp]: "SECRET_PATTERN [] = 0"
  by (simp add: SECRET_PATTERN_def match_key_def match_bearer_def bearer_word_def)

lemma mark_no_pattern: "SECRET_PATTERN (drop k REDACTED @ t) = 0" if "k < length REDACTED"
proof (rule ccontr)
  assume "SECRET_PATTERN (drop k REDACTED @ t) \<noteq> 0"
  moreover have "drop k REDACTED = REDACTED ! k # drop (Suc k) REDACTED" using that by (simp add: Cons_nth_drop_Suc)
  ultimately have "ascii_lower (REDACTED ! k) \<in> {CHR ''s'', CHR ''b''}" using pattern_start by auto
  moreover have "list_all (\<lambda>c. ascii_lower c \<notin> {CHR ''s'', CHR ''b''}) REDACTED" by (simp add: REDACTED_def ascii_lower_def)
  ultimately show False using that by (simp add: list_all_length)
qed

lemma drop_over: "drop k (p @ q) = (if k < length p then drop k p @ q else drop (k - length p) q)"
  by simp

lemma sub_no_pattern:
  "n = 0 \<or> p = [] \<Longrightarrow> (\<And>k. n = 0 \<Longrightarrow> k < length p \<Longrightarrow> SECRET_PATTERN (drop k (p @ s)) = 0) \<Longrightarrow>
     SECRET_PATTERN (drop k (p @ sub_with SECRET_PATTERN REDACTED n s)) = 0"
proof (induction SECRET_PATTERN REDACTED n s arbitrary: p k rule: sub_with.induct)
  case (1 n)
  then show ?case by (cases "n = 0"; cases "k < length p") auto
next
  case (2 n c cs)
  then show ?case using "2.hyps" [of "[]" k] by simp
next
  case (3 c cs)
  show ?case
  proof (cases "SECRET_PATTERN (c # cs)")
    case 0
    have "SECRET_PATTERN (drop j ((p @ [c]) @ cs)) = 0" if "j < length (p @ [c])" for j
      using "3.prems"(2) [of j] 0 that by (cases "j = length p") auto
    with 0 have "SECRET_PATTERN (drop k ((p @ [c]) @ sub_with SECRET_PATTERN REDACTED 0 cs)) = 0" by (intro "3.hyps"(1)) auto
    with 0 show ?thesis by simp
  next
    case (Suc j)
    let ?rest = "sub_with SECRET_PATTERN REDACTED j cs"
    have rest: "SECRET_PATTERN (drop i ?rest) = 0" for i using "3.hyps"(2) [OF Suc, of "[]" i] by simp
    have "SECRET_PATTERN (drop k p @ REDACTED @ ?rest) = 0" if "k < length p"
    proof (rule ccontr)
      assume "SECRET_PATTERN (drop k p @ REDACTED @ ?rest) \<noteq> 0"
      then have "0 < SECRET_PATTERN (drop k p @ CHR ''['' # (''redacted]'' @ ?rest))" by (simp add: REDACTED_def)
      from pattern_mono [OF pattern_stop [OF this]] have "0 < SECRET_PATTERN (drop k p @ c # cs)" .
      with "3.prems"(2) [OF refl that] that show False by simp
    qed
    moreover have "SECRET_PATTERN (drop i (REDACTED @ ?rest)) = 0" for i
      using mark_no_pattern [of i] rest by (simp only: drop_over split: if_split) simp
    ultimately show ?thesis using Suc by (simp only: drop_over [of k p] sub_with.simps nat.case split: if_split) simp
  qed
qed

lemma redacted_no_pattern: "SECRET_PATTERN (drop k (redact_secrets environ text0)) = 0"
  using sub_no_pattern [of 0 "[]"] by (simp add: redact_secrets_def)

lemma secret_nonempty: "v \<in> set (secret_values environ) \<Longrightarrow> v \<noteq> []"
  by (auto simp: secret_values_def)

lemma redacted_no_secret:
  assumes "v \<in> set (secret_values environ)" "opaque v"
  shows "\<not> sublist v (redact_secrets environ text0)"
proof -
  have "\<not> sublist v (fold (\<lambda>v t. py_replace v REDACTED 0 t) (secret_values environ) text0)"
    using assms secret_nonempty by (intro replace_all_removes) auto
  then show ?thesis using sub_keeps [OF assms(2), of 0 "[]"] by (simp add: redact_secrets_def)
qed

lemma prefix_of_text: "\<exists>rest. s = py_prefix n s @ rest"
  unfolding py_prefix_def by (metis append_take_drop_id concat_append utf8_chars_concat)


section \<open>What the agents of a run can spend\<close>

record 'x llm_call =
  lc_task :: string
  lc_calls :: int
  lc_extra :: json_dict
  lc_outcome :: "pyexc + 'x"

text \<open>The calls of one agent process. The reservation is made before the provider is awaited, so
  calls that overlap are the sequence of their reservations.\<close>

definition llm_run ::
  "(string, string) dict \<Rightarrow> (string \<Rightarrow> string option) \<Rightarrow> json_dict \<Rightarrow> 'x llm_call list \<Rightarrow> llm_state \<Rightarrow> llm_state" where
  "llm_run environ read_file bootstrap calls s =
     fold (\<lambda>c s. snd (call_llm_or_502 environ read_file bootstrap (lc_task c) (lc_calls c) (lc_extra c) (lc_outcome c) s)) calls s"

lemma await_started:
  "ls_started (snd (await_provider environ task extra tokens coro s)) = ls_started s @ [tokens]"
  "ls_spent (snd (await_provider environ task extra tokens coro s)) = ls_spent s"
  by (simp_all add: await_provider_def llm_emit_def Let_def split: sum.split)

lemma refused_not_started:
  "fst (call_llm_or_502 environ read_file bootstrap task n extra coro s) = Inl (HTTPException 429 d h) \<Longrightarrow>
     ls_started (snd (call_llm_or_502 environ read_file bootstrap task n extra coro s)) = ls_started s"
  by (auto simp: call_llm_or_502_def await_provider_def llm_emit_def Let_def split: if_splits sum.splits prod.splits bool.splits)

lemma call_within_budget:
  assumes "\<And>n. \<exists>t. reservation environ read_file bootstrap n = Inr (budget, t)"
    and "sum_list (ls_started s) = ls_spent s" "ls_spent s \<le> budget"
  shows "sum_list (ls_started (snd (call_llm_or_502 environ read_file bootstrap task n extra coro s))) =
      ls_spent (snd (call_llm_or_502 environ read_file bootstrap task n extra coro s)) \<and>
    ls_spent (snd (call_llm_or_502 environ read_file bootstrap task n extra coro s)) \<le> budget"
proof -
  obtain t where "reservation environ read_file bootstrap n = Inr (budget, t)" using assms(1) by blast
  with assms(2,3) show ?thesis
    by (cases "select_provider environ"; cases "budget < ls_spent s + t")
      (simp_all add: call_llm_or_502_def await_started try_reserve_def llm_emit_def)
qed

lemma run_within_budget:
  assumes "\<And>n. \<exists>t. reservation environ read_file bootstrap n = Inr (budget, t)" "0 \<le> budget"
  shows "sum_list (ls_started (llm_run environ read_file bootstrap calls llm_init)) \<le> budget"
proof -
  let ?run = "llm_run environ read_file bootstrap calls llm_init"
  have "sum_list (ls_started ?run) = ls_spent ?run \<and> ls_spent ?run \<le> budget"
    unfolding llm_run_def
  proof (induction calls rule: rev_induct)
    case (snoc c cs)
    then show ?case by (simp add: call_within_budget [OF assms(1)])
  qed (simp add: llm_init_def assms(2))
  then show ?thesis by simp
qed

lemma built_reservation:
  assumes "0 < q"
  shows "\<exists>t. reservation environ read_file (build be se run_id ag am port peers inputs oidc po (Some q)) n = Inr (q, t)"
proof -
  let ?doc = "build be se run_id ag am port peers inputs oidc po (Some q)"
  have "dict_get ?doc ''llm'' = Some (JObj [(''token_budget'', JInt q), (''max_tokens_per_call'', JInt (se_llm_max_tokens_per_call se))])"
    "?doc \<noteq> []" by (simp_all add: build_def)
  with assms show ?thesis
    by (simp add: reservation_def max_tokens_per_call_def block_int_def get_json_def py_or_def)
qed


text \<open>Without that proviso it fails: a share of nothing is read as the default budget of a process.\<close>

theorem empty_share_ignored:
  "\<exists>t. reservation environ read_file (build be se run_id ag am port peers inputs oidc po (Some 0)) n = Inr (40000, t)"
proof -
  let ?doc = "build be se run_id ag am port peers inputs oidc po (Some 0)"
  have "dict_get ?doc ''llm'' = Some (JObj [(''token_budget'', JInt 0), (''max_tokens_per_call'', JInt (se_llm_max_tokens_per_call se))])"
    "?doc \<noteq> []" by (simp_all add: build_def)
  then show ?thesis
    by (simp add: reservation_def max_tokens_per_call_def block_int_def get_json_def py_or_def DEFAULT_TOKEN_BUDGET_def)
qed

section \<open>Witnesses\<close>


definition demo_spender :: agent_spec where
  "demo_spender = \<lparr>as_id = ''a'', as_ref = ''a'', as_port_offset = 0, as_org = ''o'', as_cloud = None, as_did_web_host = None,
     as_signing_suite = None, as_accepted_identity_types = None\<rparr>"

definition demo_llm_settings :: settings where
  "demo_llm_settings =
     \<lparr>se_scenarios_dir = ''d'', se_agent_base_port = 8100, se_agent_python = ''python3'', se_playground_base_url = ''p'',
      se_public_host = [], se_public_scheme = ''https'', se_insecure_localhost_dangerous = True, se_cp_base_url = [],
      se_cp_api_key = [], se_revocation_fail_mode = ''fail_closed'', se_revocation_max_staleness_secs = 300,
      se_revocation_poll_secs = 60, se_revocation_list_ttl_secs = 3600, se_run_token_budget = 2000,
      se_llm_max_tokens_per_call = 1024\<rparr>"

definition demo_llm_manifest :: agent_manifest where
  "demo_llm_manifest = \<lparr>am_id = ''i'', am_name = ''n'', am_framework = ''custom'', am_entrypoint = [],
     am_host = [], am_aitp = \<lparr>aa_offered_caps = [], aa_display_name = ''d'', aa_identity_type = ''pinned_key'', aa_accepted_identity_types = None,
       aa_oidc_issuer = None, aa_oidc_subject = None, aa_signing_suite = ''ed25519'', aa_ttl_secs = 60\<rparr>, am_did_web = True\<rparr>"

definition demo_llm_doc :: json_dict where
  "demo_llm_doc = build demo_build demo_llm_settings ''r'' demo_spender demo_llm_manifest 8100 [] [] None None (Some 2000)"

definition demo_llm_call :: "unit llm_call" where
  "demo_llm_call = \<lparr>lc_task = ''t'', lc_calls = 1, lc_extra = [], lc_outcome = Inr ()\<rparr>"

lemma demo_reservation: "reservation environ rf demo_llm_doc 1 = Inr (2000, 1024)"
  by (simp add: reservation_def max_tokens_per_call_def block_int_def get_json_def py_or_def demo_llm_doc_def build_def demo_llm_settings_def)

lemma demo_provider: "select_provider [(''OPENAI_API_KEY'', ''k'')] = Some ''openai''"
  by code_simp


end
