(* ===== verification/Agent_Workers.thy ===== *)
theory Agent_Workers
  imports Llm_Guard Agent_Routes
begin

text \<open>
  \<open>agents/researcher\<close>, \<open>agents/writer\<close> and \<open>agents/analyzer\<close>: the three agent processes. Each
  starts an agent server on its bootstrap document and offers capabilities behind
  \<open>verify_capability_tct\<close>; the work is a provider call through the LLM guard, or a fixed text where
  no provider is configured. What the provider and CrewAI answer are arguments, and each piece of
  work also gives the messages it sends to the provider.

  What is shown: no work is done, reported or paid for unless the token was verified for that
  capability, and it is done in the name of the verified peer; the provider calls of a piece of work
  are covered by the number the guard reserves for.
\<close>

section \<open>Surroundings\<close>

text \<open>The task CrewAI is given.\<close>

record crew_spec =
  cw_goal :: string
  cw_description :: string
  cw_expected :: string
  cw_max_iter :: int

record worker_env =
  we_environ :: "(string, string) dict"
  we_read_file :: "string \<Rightarrow> string option"
  we_installed :: "string \<Rightarrow> bool"
  we_float_text :: "pyfloat \<Rightarrow> string"
  we_chat :: "string list \<Rightarrow> pyexc + json"
  we_crew :: "crew_spec \<Rightarrow> pyexc + string"
  we_crew_async :: bool

definition newline :: string where
  "newline = [CHR 0x0A]"

text \<open>Starting: the agent, its manifest and its server.\<close>

definition start_worker ::
  "('a, 'r, 's) sdk \<Rightarrow> json_dict \<Rightarrow> rat \<Rightarrow> 's option \<Rightarrow> pyexc + ('a, 'r, 's) server" where
  "start_worker sdk bootstrap now store =
     bindE (bindE (subscript (JObj bootstrap) ''port'') py_int) (\<lambda>port.
     bindE (create_agent sdk bootstrap) (\<lambda>agent.
     bindE (get_manifest_json sdk agent bootstrap now) (\<lambda>manifest_json.
       let aitp = get_obj bootstrap ''aitp''
       in server_init agent manifest_json bootstrap (get_str aitp ''did_web_host'')
            (case dict_get aitp ''did_web_scheme'' of Some (JStr s) \<Rightarrow> s | Some _ \<Rightarrow> [] | None \<Rightarrow> ''http'') store)))"

section \<open>Payloads\<close>

text \<open>The body of a capability call: nothing, a JSON value, or else its text.\<close>

definition payload_of :: "string \<Rightarrow> pyexc + json" where
  "payload_of content =
     (if content = [] then Inr JNull
      else bindE (request_text content) (\<lambda>t. Inr (case loads t of Some v \<Rightarrow> v | None \<Rightarrow> JStr t)))"

definition unquote_text :: "(pyfloat \<Rightarrow> string) \<Rightarrow> string \<Rightarrow> string" where
  "unquote_text fl payload =
     (let s = strip_text payload
      in if starts_with [CHR 0x22] s \<and> starts_with [CHR 0x22] (rev s)
         then (case loads s of Some v \<Rightarrow> py_str fl v | None \<Rightarrow> s) else s)"

text \<open>\<open>str(payload.get(k1) or payload.get(k2) or ... or payload)\<close>.\<close>

fun first_field :: "json_dict \<Rightarrow> string list \<Rightarrow> json" where
  "first_field d [] = JObj d"
| "first_field d (k # ks) = (if truthy (get_json d k) then get_json d k else first_field d ks)"

definition payload_text_by :: "(pyfloat \<Rightarrow> string) \<Rightarrow> string list \<Rightarrow> json \<Rightarrow> string" where
  "payload_text_by fl keys payload =
     (case payload of
        JObj d \<Rightarrow> py_str fl (first_field d keys)
      | JStr s \<Rightarrow> unquote_text fl s
      | v \<Rightarrow> py_str fl v)"

text \<open>\<open>str(bootstrap["inputs"].get(key, default))\<close>.\<close>

definition input_text :: "(pyfloat \<Rightarrow> string) \<Rightarrow> json_dict \<Rightarrow> string \<Rightarrow> string \<Rightarrow> pyexc + string" where
  "input_text fl bootstrap key dflt =
     bindE (subscript (JObj bootstrap) ''inputs'') (\<lambda>inputs.
       case inputs of
         JObj d \<Rightarrow> Inr (case dict_get d key of Some v \<Rightarrow> py_str fl v | None \<Rightarrow> dflt)
       | _ \<Rightarrow> Inl (PyExc AttributeError None ''get''))"

definition payload_to_topic :: "(pyfloat \<Rightarrow> string) \<Rightarrow> json_dict \<Rightarrow> json \<Rightarrow> pyexc + string" where
  "payload_to_topic fl bootstrap payload =
     (if payload = JNull then input_text fl bootstrap ''topic'' ''AI'' else Inr (payload_text_by fl [''topic'', ''text''] payload))"

definition payload_to_findings :: "(pyfloat \<Rightarrow> string) \<Rightarrow> json \<Rightarrow> string" where
  "payload_to_findings fl payload = (if payload = JNull then [] else payload_text_by fl [''findings'', ''text''] payload)"

definition payload_to_text :: "(pyfloat \<Rightarrow> string) \<Rightarrow> json \<Rightarrow> string" where
  "payload_to_text fl payload = (if payload = JNull then [] else payload_text_by fl [''article'', ''findings'', ''text''] payload)"

section \<open>The researcher\<close>

definition MAX_ITER :: int where
  "MAX_ITER = 3"

definition RESEARCH_LLM_CALLS :: int where
  "RESEARCH_LLM_CALLS = MAX_ITER + 1"

definition crewai_ready :: "worker_env \<Rightarrow> bool" where
  "crewai_ready we \<longleftrightarrow> select_provider (we_environ we) \<noteq> None \<and> we_installed we ''crewai''"

datatype crew = Crew crew_spec | StubCrew string string

text \<open>The topic and the depth of a crew's inputs.\<close>

definition crew_inputs :: "worker_env \<Rightarrow> json_dict \<Rightarrow> string \<times> string" where
  "crew_inputs we inputs =
     (let depth = map ascii_lower (case dict_get inputs ''depth'' of Some v \<Rightarrow> py_str (we_float_text we) v | None \<Rightarrow> ''short'')
      in (case dict_get inputs ''topic'' of Some v \<Rightarrow> py_str (we_float_text we) v | None \<Rightarrow> ''AI'',
          if depth \<in> {''short'', ''deep''} then depth else ''short''))"

definition build_crew :: "worker_env \<Rightarrow> json_dict \<Rightarrow> pyexc + crew" where
  "build_crew we inputs =
     (let (topic, depth) = crew_inputs we inputs
      in if crewai_ready we then
        bindE (build_crewai_llm (we_environ we) (we_read_file we) (we_installed we)) (\<lambda>_.
          Inr (Crew
           (if depth = ''deep'' then
             \<lparr>cw_goal = ''Surface high-signal facts and recent developments about: '' @ topic,
              cw_description = ''Produce a thorough (500-800 word) brief on '' @ [CHR 0x27] @ topic @ [CHR 0x27]
                @ ''. Cover historical context, technical detail, key debates, and 3 likely future directions. Cite primary sources per claim.'',
              cw_expected = ''A multi-section markdown brief with citations.'', cw_max_iter = MAX_ITER\<rparr>
            else
             \<lparr>cw_goal = ''Surface high-signal facts and recent developments about: '' @ topic,
              cw_description = ''Produce a concise (200-300 word) brief on '' @ [CHR 0x27] @ topic @ [CHR 0x27]
                @ ''. Group findings into bullet points with one-line evidence per bullet.'',
              cw_expected = ''A markdown bullet list of 5-8 high-signal findings.'', cw_max_iter = MAX_ITER\<rparr>)))
         else Inr (StubCrew topic depth))"

definition stub_kickoff :: "string \<Rightarrow> string \<Rightarrow> string" where
  "stub_kickoff topic depth =
     (if depth = ''deep'' then
        concat (map (\<lambda>l. l @ newline)
          [''# Deep brief: '' @ topic, [], ''## Background'', topic @ '' sits at the intersection of multiple research threads.'', [],
           ''## Technical landscape'', ''- Protocol design choices favor verifiable identity over centralized roots.'',
           ''- Capability tokens narrow the blast radius of any single compromise.'',
           ''- Federation models cluster around manifest-based discovery.'', [], ''## Debates'',
           ''- Pinned-key vs OIDC trust anchors; tradeoffs in revocation and rotation.'',
           ''- Delegation depth: single-hop versus multi-hop chains.'', [], ''## Likely directions'',
           ''- Stronger session-bundle semantics for multi-party coordination.'',
           ''- ZK proofs for compliance attestation without leaking PII.'', ''- Standardized revocation distribution.''])
      else
        join_str newline
          [''- '' @ topic @ '' continues to attract significant research interest.'',
           ''- Recent work focuses on protocol design, trust, and federation.'',
           ''- Agent identity is emerging as a foundational primitive.'',
           ''- Cross-org workflows depend on verifiable manifests and TCTs.'',
           ''- Production deployments still grapple with policy/grant alignment.''])"

text \<open>\<open>bootstrap["agent_id"]\<close>, read when the result is put together.\<close>

definition with_agent :: "json_dict \<Rightarrow> json_dict \<Rightarrow> llm_state \<Rightarrow> (http_error + json) \<times> llm_state" where
  "with_agent bootstrap result s =
     (case subscript (JObj bootstrap) ''agent_id'' of
        Inl e \<Rightarrow> (Inl (ServerError e), s) | Inr a \<Rightarrow> (Inr (JObj (dict_set ''agent'' a result)), s))"

text \<open>\<open>do_research\<close> and \<open>do_deep_research\<close> differ in the task, the depth and the name of the result.\<close>

definition research ::
  "string \<Rightarrow> json_dict \<Rightarrow> string \<Rightarrow> worker_env \<Rightarrow> json_dict \<Rightarrow> json \<Rightarrow> string \<Rightarrow> llm_state \<Rightarrow> (http_error + json) \<times> llm_state" where
  "research task depth result_key we bootstrap payload commissioned_by s =
     (case payload_to_topic (we_float_text we) bootstrap payload of
        Inl e \<Rightarrow> (Inl (ServerError e), s)
      | Inr topic \<Rightarrow>
          (let s1 = llm_emit ''llm.started'' [(''task'', JStr task), (''topic'', JStr topic), (''commissioned_by'', JStr commissioned_by)] s;
               finish = (\<lambda>findings s. with_agent bootstrap [(result_key, JStr findings), (''topic'', JStr topic)]
                   (llm_emit ''llm.complete'' [(''task'', JStr task), (''topic'', JStr topic)] s))
           in case build_crew we ((''topic'', JStr topic) # depth) of
                Inl e \<Rightarrow> (Inl (ServerError e), s1)
              | Inr (StubCrew t d) \<Rightarrow> finish (stub_kickoff t d) s1
              | Inr (Crew spec) \<Rightarrow>
                  if we_crew_async we then
                    (case call_llm_or_502 (we_environ we) (we_read_file we) bootstrap task RESEARCH_LLM_CALLS [(''topic'', JStr topic)]
                            (we_crew we spec) s1 of
                       (Inl e, s2) \<Rightarrow> (Inl e, s2)
                     | (Inr findings, s2) \<Rightarrow> finish findings s2)
                  else
                    (case we_crew we spec of
                       Inl e \<Rightarrow> (Inl (ServerError e), s1) | Inr findings \<Rightarrow> finish findings s1)))"

definition do_research :: "worker_env \<Rightarrow> json_dict \<Rightarrow> json \<Rightarrow> string \<Rightarrow> llm_state \<Rightarrow> (http_error + json) \<times> llm_state" where
  "do_research = research ''research'' [] ''findings''"

definition do_deep_research :: "worker_env \<Rightarrow> json_dict \<Rightarrow> json \<Rightarrow> string \<Rightarrow> llm_state \<Rightarrow> (http_error + json) \<times> llm_state" where
  "do_deep_research = research ''research.deep'' [(''depth'', JStr ''deep'')] ''deep_findings''"

section \<open>The writer\<close>

definition stub_article :: "string \<Rightarrow> string \<Rightarrow> string" where
  "stub_article findings style =
     ''# Article ('' @ style @ '')'' @ newline @ newline
     @ ''The agent ecosystem is evolving rapidly, and the following points stand out:'' @ newline @ newline
     @ strip_text findings @ newline @ newline
     @ ''Taken together, these threads suggest that durable agent collaboration will rest on three pillars: verifiable identity, narrowly-scoped trust (TCTs), and recoverable session bundles. The next twelve months should reveal which design choices survive contact with production.''"

text \<open>\<open>run_writer\<close>: the outcome, and the messages sent to the provider.\<close>

definition run_writer :: "worker_env \<Rightarrow> string \<Rightarrow> string \<Rightarrow> (pyexc + json) \<times> string list list" where
  "run_writer we findings style =
     (case build_chat_model (we_environ we) (we_read_file we) (we_installed we) of
        Inl e \<Rightarrow> (Inl e, [])
      | Inr None \<Rightarrow> (Inr (JStr (stub_article findings style)), [])
      | Inr (Some llm) \<Rightarrow>
          if \<not> we_installed we ''langchain_core'' then (Inr (JStr (stub_article findings style)), [])
          else
            (let messages = [''You are a '' @ style @ '' writer. Use the supplied findings to draft a tight 250-word article.'',
                             ''Findings:'' @ newline @ newline @ findings @ newline @ newline @ ''Write the article now.'']
             in (we_chat we messages, [messages])))"

definition do_write :: "worker_env \<Rightarrow> json_dict \<Rightarrow> json \<Rightarrow> string \<Rightarrow> llm_state \<Rightarrow> (http_error + json) \<times> llm_state" where
  "do_write we bootstrap payload commissioned_by s =
     (let findings = payload_to_findings (we_float_text we) payload
      in case input_text (we_float_text we) bootstrap ''style'' ''casual'' of
           Inl e \<Rightarrow> (Inl (ServerError e), s)
         | Inr style \<Rightarrow>
             (case call_llm_or_502 (we_environ we) (we_read_file we) bootstrap ''write'' 1 [] (fst (run_writer we findings style))
                     (llm_emit ''llm.started'' [(''task'', JStr ''write''), (''commissioned_by'', JStr commissioned_by)] s) of
                (Inl e, s1) \<Rightarrow> (Inl e, s1)
              | (Inr article, s1) \<Rightarrow>
                  with_agent bootstrap [(''article'', article), (''style'', JStr style)]
                    (llm_emit ''llm.complete'' [(''task'', JStr ''write'')] s1)))"

section \<open>The analyzer\<close>

text \<open>\<open>line.strip("- *\\u2022 ")\<close>.\<close>

definition bullet_chars :: "string list" where
  "bullet_chars = [''-'', '' '', ''*'', [CHR 0xE2, CHR 0x80, CHR 0xA2]]"

definition strip_bullet :: "string \<Rightarrow> string" where
  "strip_bullet s =
     concat (rev (dropWhile (\<lambda>c. c \<in> set bullet_chars) (rev (dropWhile (\<lambda>c. c \<in> set bullet_chars) (utf8_chars s)))))"

definition stub_analyze :: "string \<Rightarrow> json_dict" where
  "stub_analyze input0 =
     (let bullets = take 3 (map strip_bullet (filter (\<lambda>l. strip_text l \<noteq> []) (split_lines [] (utf8_chars input0))));
          summary = join_str newline (map (\<lambda>b. ''- '' @ b) bullets)
      in [(''summary'', JStr (if summary = [] then ''- (empty input)'' else summary)),
          (''risks'', JStr (''- Misaligned grants between issuer and consumer'' @ newline
             @ ''- TCT replay if session bundles are not pinned to the manifest''))])"

text \<open>\<open>run_analyzer\<close>: one message for the summary, then one for its risks.\<close>

definition run_analyzer :: "worker_env \<Rightarrow> string \<Rightarrow> (pyexc + json_dict) \<times> string list list" where
  "run_analyzer we input0 =
     (case build_chat_model (we_environ we) (we_read_file we) (we_installed we) of
        Inl e \<Rightarrow> (Inl e, [])
      | Inr None \<Rightarrow> (Inr (stub_analyze input0), [])
      | Inr (Some llm) \<Rightarrow>
          if \<not> we_installed we ''langgraph'' then (Inr (stub_analyze input0), [])
          else if \<not> we_installed we ''langchain_core'' then (Inl (PyExc OtherError None ''No module named langchain_core''), [])
          else
            (let ask = [''Summarise in 3 bullets:'' @ newline @ newline @ input0]
             in case we_chat we ask of
                  Inl e \<Rightarrow> (Inl e, [ask])
                | Inr summary \<Rightarrow>
                    (let ask2 = [''Give two concrete risks for:'' @ newline @ newline @ py_str (we_float_text we) summary]
                     in case we_chat we ask2 of
                          Inl e \<Rightarrow> (Inl e, [ask, ask2])
                        | Inr risks \<Rightarrow> (Inr [(''summary'', summary), (''risks'', risks)], [ask, ask2]))))"

definition do_analyze :: "worker_env \<Rightarrow> json_dict \<Rightarrow> json \<Rightarrow> string \<Rightarrow> llm_state \<Rightarrow> (http_error + json) \<times> llm_state" where
  "do_analyze we bootstrap payload commissioned_by s =
     (case call_llm_or_502 (we_environ we) (we_read_file we) bootstrap ''analyze'' 2 []
             (fst (run_analyzer we (payload_to_text (we_float_text we) payload)))
             (llm_emit ''llm.started'' [(''task'', JStr ''analyze''), (''commissioned_by'', JStr commissioned_by)] s) of
        (Inl e, s1) \<Rightarrow> (Inl e, s1)
      | (Inr result, s1) \<Rightarrow> with_agent bootstrap result (llm_emit ''llm.complete'' [(''task'', JStr ''analyze'')] s1))"

section \<open>Capability routes\<close>

record ('a, 'r, 's) worker =
  wk_server :: "('a, 'r, 's) server"
  wk_llm :: llm_state

type_synonym work = "json \<Rightarrow> string \<Rightarrow> llm_state \<Rightarrow> (http_error + json) \<times> llm_state"

text \<open>The route all the capabilities share: the token first, then the payload, then the work.\<close>

definition capability_route ::
  "('a, 'r, 's) sdk \<Rightarrow> (nat \<Rightarrow> rat) \<Rightarrow> string \<Rightarrow> work \<Rightarrow> string \<Rightarrow> string \<Rightarrow> string \<Rightarrow> ('a, 'r, 's) worker \<Rightarrow>
    (http_error + json) \<times> ('a, 'r, 's) worker" where
  "capability_route sdk clk capability work tct pop content w =
     (case verify_capability_tct sdk clk tct capability pop (wk_server w) of
        (Inl e, sv) \<Rightarrow> (Inl e, w\<lparr>wk_server := sv\<rparr>)
      | (Inr identity, sv) \<Rightarrow>
          (case payload_of content of
             Inl e \<Rightarrow> (Inl (ServerError e), w\<lparr>wk_server := sv\<rparr>)
           | Inr payload \<Rightarrow>
               (case work payload (ti_peer_aid identity) (wk_llm w) of (r, s) \<Rightarrow> (r, w\<lparr>wk_server := sv, wk_llm := s\<rparr>))))"

definition research_query ::
  "('a, 'r, 's) sdk \<Rightarrow> (nat \<Rightarrow> rat) \<Rightarrow> worker_env \<Rightarrow> json_dict \<Rightarrow> string \<Rightarrow> string \<Rightarrow> string \<Rightarrow> ('a, 'r, 's) worker \<Rightarrow>
    (http_error + json) \<times> ('a, 'r, 's) worker" where
  "research_query sdk clk we bootstrap = capability_route sdk clk ''research.query'' (do_research we bootstrap)"

definition research_deep ::
  "('a, 'r, 's) sdk \<Rightarrow> (nat \<Rightarrow> rat) \<Rightarrow> worker_env \<Rightarrow> json_dict \<Rightarrow> string \<Rightarrow> string \<Rightarrow> string \<Rightarrow> ('a, 'r, 's) worker \<Rightarrow>
    (http_error + json) \<times> ('a, 'r, 's) worker" where
  "research_deep sdk clk we bootstrap = capability_route sdk clk ''research.deep'' (do_deep_research we bootstrap)"

definition write_content ::
  "('a, 'r, 's) sdk \<Rightarrow> (nat \<Rightarrow> rat) \<Rightarrow> worker_env \<Rightarrow> json_dict \<Rightarrow> string \<Rightarrow> string \<Rightarrow> string \<Rightarrow> ('a, 'r, 's) worker \<Rightarrow>
    (http_error + json) \<times> ('a, 'r, 's) worker" where
  "write_content sdk clk we bootstrap = capability_route sdk clk ''write.content'' (do_write we bootstrap)"

definition analyze_data ::
  "('a, 'r, 's) sdk \<Rightarrow> (nat \<Rightarrow> rat) \<Rightarrow> worker_env \<Rightarrow> json_dict \<Rightarrow> string \<Rightarrow> string \<Rightarrow> string \<Rightarrow> ('a, 'r, 's) worker \<Rightarrow>
    (http_error + json) \<times> ('a, 'r, 's) worker" where
  "analyze_data sdk clk we bootstrap = capability_route sdk clk ''analyze.data'' (do_analyze we bootstrap)"

text \<open>What the worker registers for \<open>/admin/self-execute\<close>: the same work, in the agent's own name.\<close>

definition researcher_capabilities :: "worker_env \<Rightarrow> json_dict \<Rightarrow> (string, work) dict" where
  "researcher_capabilities we bootstrap = [(''research.query'', do_research we bootstrap), (''research.deep'', do_deep_research we bootstrap)]"

section \<open>Work in the name of a peer\<close>

text \<open>What the route relies on of a piece of work: it adds to the log of events and of provider
  calls, and what it reports as started names the one it works for.\<close>

definition commissions :: "string \<Rightarrow> llm_state \<Rightarrow> llm_state \<Rightarrow> bool" where
  "commissions who s s' \<longleftrightarrow>
     (\<exists>events calls. ls_events s' = ls_events s @ events \<and> ls_started s' = ls_started s @ calls \<and>
        list_all (\<lambda>(ty, f). ty = ''llm.started'' \<longrightarrow> dict_get f ''commissioned_by'' = Some (JStr who)) events)"

lemma commissions_refl [simp, intro]: "commissions who s s"
  by (simp add: commissions_def)

lemma commissions_trans [trans]: "commissions who s t \<Longrightarrow> commissions who t u \<Longrightarrow> commissions who s u"
  by (fastforce simp: commissions_def)

lemma commissions_emit:
  "ty \<noteq> ''llm.started'' \<or> dict_get f ''commissioned_by'' = Some (JStr who) \<Longrightarrow> commissions who s (llm_emit ty f s)"
  by (auto simp: commissions_def llm_emit_def)

lemma commissions_await: "commissions who s (snd (await_provider environ task extra tokens coro s))"
  by (auto simp: commissions_def await_provider_def llm_emit_def Let_def split: sum.split)

lemma commissions_call: "commissions who s (snd (call_llm_or_502 environ rf bootstrap task n extra coro s))"
proof -
  have "commissions who (s\<lparr>ls_spent := x\<rparr>) t \<Longrightarrow> commissions who s t" for x t by (simp add: commissions_def)
  then show ?thesis
    by (auto simp: call_llm_or_502_def try_reserve_def intro: commissions_await commissions_emit split: sum.split)
qed

lemma commissions_with_agent: "commissions who s (snd (with_agent bootstrap result s))"
  by (simp add: with_agent_def split: sum.split)

locale capability_work =
  fixes work :: work
  assumes work_commissions: "commissions who s (snd (work payload who s))"
begin

lemma route_authorized:
  assumes "capability_route sdk clk capability work tct pop content w = (r, w')"
    and "wk_llm w' \<noteq> wk_llm w \<or> \<not> isl r"
  shows "\<exists>identity. verify_capability_tct sdk clk tct capability pop (wk_server w) = (Inr identity, wk_server w') \<and>
    commissions (ti_peer_aid identity) (wk_llm w) (wk_llm w')"
proof -
  obtain v sv where v: "verify_capability_tct sdk clk tct capability pop (wk_server w) = (v, sv)"
    by (cases "verify_capability_tct sdk clk tct capability pop (wk_server w)")
  show ?thesis
  proof (cases v)
    case (Inl e)
    with assms v show ?thesis by (auto simp: capability_route_def)
  next
    case (Inr identity)
    show ?thesis
    proof (cases "payload_of content")
      case p: (Inl e)
      with assms v Inr show ?thesis by (auto simp: capability_route_def)
    next
      case p: (Inr payload)
      from work_commissions [of "ti_peer_aid identity" "wk_llm w" payload] assms(1) v Inr p show ?thesis
        by (auto simp: capability_route_def split: prod.splits)
    qed
  qed
qed

end

lemma finish_commissions:
  "ty \<noteq> ''llm.started'' \<Longrightarrow> commissions who s (snd (with_agent bootstrap result (llm_emit ty f s)))"
  by (rule commissions_trans [OF commissions_emit commissions_with_agent]) simp

lemma call_then_commissions:
  assumes "call_llm_or_502 environ rf bootstrap task n extra coro (llm_emit ''llm.started'' f s) = (r, s1)"
    and "dict_get f ''commissioned_by'' = Some (JStr who)"
  shows "commissions who s s1"
  using commissions_trans [OF commissions_emit commissions_call [of who "llm_emit ''llm.started'' f s" environ rf bootstrap task n extra coro]]
    assms by simp

lemma research_commissions: "commissions who s (snd (research task depth key we bootstrap payload who s))"
  unfolding research_def
  by (auto simp: Let_def intro: commissions_emit commissions_trans [OF commissions_emit finish_commissions]
      commissions_trans [OF call_then_commissions finish_commissions] call_then_commissions
      split: sum.split crew.split prod.split if_split)

interpretation research: capability_work "do_research we bootstrap" for we bootstrap
  by unfold_locales (simp add: do_research_def research_commissions)

interpretation deep_research: capability_work "do_deep_research we bootstrap" for we bootstrap
  by unfold_locales (simp add: do_deep_research_def research_commissions)

interpretation writing: capability_work "do_write we bootstrap" for we bootstrap
  by unfold_locales
    (auto simp: do_write_def Let_def intro: commissions_trans [OF call_then_commissions finish_commissions] call_then_commissions
      split: sum.split prod.split)

interpretation analysis: capability_work "do_analyze we bootstrap" for we bootstrap
  by unfold_locales
    (auto simp: do_analyze_def intro: commissions_trans [OF call_then_commissions finish_commissions] call_then_commissions
      split: sum.split prod.split)

section \<open>Properties\<close>

text \<open>The capability routes of the three workers, by the capability they serve.\<close>

definition worker_routes ::
  "('a, 'r, 's) sdk \<Rightarrow> (nat \<Rightarrow> rat) \<Rightarrow> worker_env \<Rightarrow> json_dict \<Rightarrow>
    (string, string \<Rightarrow> string \<Rightarrow> string \<Rightarrow> ('a, 'r, 's) worker \<Rightarrow> (http_error + json) \<times> ('a, 'r, 's) worker) dict" where
  "worker_routes sdk clk we bootstrap =
     [(''research.query'', research_query sdk clk we bootstrap), (''research.deep'', research_deep sdk clk we bootstrap),
      (''write.content'', write_content sdk clk we bootstrap), (''analyze.data'', analyze_data sdk clk we bootstrap)]"

text \<open>
  C2: a worker works only for a verified caller. Whatever capability route is called and with
  whatever body, if the call has any effect on the log of events, on the token budget or on the
  provider, or is answered with a result, then the token was verified for exactly that capability,
  and everything the work reports as started is commissioned by the verified peer.
\<close>

theorem capability_work_authorized:
  assumes "dict_get (worker_routes sdk clk we bootstrap) capability = Some route"
    and "route tct pop content w = (r, w')" "wk_llm w' \<noteq> wk_llm w \<or> \<not> isl r"
  shows "\<exists>identity. verify_capability_tct sdk clk tct capability pop (wk_server w) = (Inr identity, wk_server w') \<and>
    commissions (ti_peer_aid identity) (wk_llm w) (wk_llm w')"
  using assms
  by (auto simp: worker_routes_def research_query_def research_deep_def write_content_def analyze_data_def split: if_splits
      dest: research.route_authorized deep_research.route_authorized writing.route_authorized analysis.route_authorized)

text \<open>
  The tokens reserved for a piece of work cover the provider calls it makes, at the cap of one call:
  the analyzer sends at most two messages and the writer one.
\<close>

theorem reservation_covers_work:
  assumes "select_provider (we_environ we) \<noteq> None" "max_tokens_per_call (we_environ we) (we_read_file we) bootstrap = Inr m" "0 \<le> m"
    and "ls_started (snd (do_analyze we bootstrap payload who s)) \<noteq> ls_started s"
  shows "\<exists>t. ls_started (snd (do_analyze we bootstrap payload who s)) = ls_started s @ [t] \<and>
    int (length (snd (run_analyzer we (payload_to_text (we_float_text we) payload)))) * m \<le> t"
proof -
  have n: "int (length (snd (run_analyzer we (payload_to_text (we_float_text we) payload)))) \<le> 2"
    by (auto simp: run_analyzer_def Let_def split: sum.split option.split)
  from assms(2) obtain b where "reservation (we_environ we) (we_read_file we) bootstrap 2 = Inr (b, 2 * m) \<or>
      (\<exists>e. reservation (we_environ we) (we_read_file we) bootstrap 2 = Inl e)"
    by (cases "block_int (get_json bootstrap ''llm'') ''token_budget'' DEFAULT_TOKEN_BUDGET") (auto simp: reservation_def)
  with assms(1,4) have "ls_started (snd (do_analyze we bootstrap payload who s)) = ls_started s @ [2 * m]"
    by (auto simp: do_analyze_def call_llm_or_502_def try_reserve_def llm_emit_def await_provider_def with_agent_def Let_def
        split: sum.splits if_splits prod.splits bool.splits)
  with n assms(3) show ?thesis by (auto intro: mult_right_mono)
qed

section \<open>Witnesses\<close>

definition demo_worker_env :: worker_env where
  "demo_worker_env = \<lparr>we_environ = [], we_read_file = (\<lambda>_. None), we_installed = (\<lambda>_. False), we_float_text = (\<lambda>_. []),
     we_chat = (\<lambda>_. Inr JNull), we_crew = (\<lambda>_. Inr []), we_crew_async = True\<rparr>"

definition demo_worker :: "(string, string, nat) worker" where
  "demo_worker = \<lparr>wk_server = demo_challenged, wk_llm = llm_init\<rparr>"

abbreviation demo_work_run :: "(http_error + json) \<times> (string, string, nat) worker" where
  "demo_work_run \<equiv> analyze_data demo_sdk (\<lambda>_. 20) demo_worker_env [(''agent_id'', JStr ''a'')] demo_token demo_response ''one'' demo_worker"

theorem capability_work_authorized_witness:
  "\<exists>identity. verify_capability_tct demo_sdk (\<lambda>_. 20) demo_token ''analyze.data'' demo_response demo_challenged =
      (Inr identity, wk_server (snd demo_work_run)) \<and>
    commissions (ti_peer_aid identity) llm_init (wk_llm (snd demo_work_run))"
proof -
  have ok: "\<not> isl (fst demo_work_run)" by code_simp
  have route: "dict_get (worker_routes demo_sdk (\<lambda>_. 20) demo_worker_env [(''agent_id'', JStr ''a'')]) ''analyze.data'' =
      Some (analyze_data demo_sdk (\<lambda>_. 20) demo_worker_env [(''agent_id'', JStr ''a'')])" by (simp add: worker_routes_def)
  have run: "demo_work_run = (fst demo_work_run, snd demo_work_run)" by simp
  from capability_work_authorized [OF route run] ok show ?thesis by (simp add: demo_worker_def)
qed

end
