(* ===== verification/Scenario_Lint.thy ===== *)
theory Scenario_Lint
  imports Run_Logic Json_Dumps
begin

text \<open>
  The checks of \<open>aitp-playground lint\<close> (\<open>_lint_scenario\<close> and \<open>_lint_pack_dir\<close> of
  \<open>src/aitp_playground/cli.py\<close>): the findings of a scenario, of its templates and of a pack.
  The registry is the loaded one, with the manifests it finds by path as an argument.

  What is shown: no finding is the same as the checks' conditions stated on the scenario, and on a
  scenario without findings the engine finds a holder for the capability of every step.
\<close>

section \<open>Names\<close>

definition low_alnum :: "char \<Rightarrow> bool" where
  "low_alnum c \<longleftrightarrow> (let n = byte c in (48 \<le> n \<and> n \<le> 57) \<or> (97 \<le> n \<and> n \<le> 122))"

text \<open>The end of a text in a pattern: \<open>$\<close> also matches before a final line feed.\<close>

definition before_final_newline :: "string \<Rightarrow> string" where
  "before_final_newline s = (if s \<noteq> [] \<and> last s = CHR 0x0A then butlast s else s)"

text \<open>\<open>^[a-z][a-z0-9]*(?:-[a-z0-9]+)*$\<close>.\<close>

definition KEBAB :: "string \<Rightarrow> bool" where
  "KEBAB s \<longleftrightarrow>
     (let parts = split_on (CHR ''-'') (before_final_newline s)
      in list_all (\<lambda>p. p \<noteq> [] \<and> list_all low_alnum p) parts \<and> \<not> is_digit (hd (hd parts)))"

text \<open>\<open>\d\<close> is any decimal digit of Unicode (14.0, that of Python 3.11): the ten characters from each of these zeros on.\<close>

definition DIGIT_ZEROS :: "nat list" where
  "DIGIT_ZEROS =
     [0x30, 0x660, 0x6F0, 0x7C0, 0x966, 0x9E6, 0xA66, 0xAE6, 0xB66, 0xBE6, 0xC66, 0xCE6, 0xD66, 0xDE6, 0xE50, 0xED0, 0xF20,
      0x1040, 0x1090, 0x17E0, 0x1810, 0x1946, 0x19D0, 0x1A80, 0x1A90, 0x1B50, 0x1BB0, 0x1C40, 0x1C50, 0xA620, 0xA8D0, 0xA900,
      0xA9D0, 0xA9F0, 0xAA50, 0xABF0, 0xFF10, 0x104A0, 0x10D30, 0x11066, 0x110F0, 0x11136, 0x111D0, 0x112F0, 0x11450,
      0x114D0, 0x11650, 0x116C0, 0x11730, 0x118E0, 0x11950, 0x11C50, 0x11D50, 0x11DA0, 0x16A60, 0x16AC0, 0x16B50, 0x1D7CE,
      0x1D7D8, 0x1D7E2, 0x1D7EC, 0x1D7F6, 0x1E140, 0x1E2F0, 0x1E950, 0x1FBF0]"

definition decimal_digit :: "nat \<Rightarrow> bool" where
  "decimal_digit n \<longleftrightarrow> list_ex (\<lambda>z. z \<le> n \<and> n < z + 10) DIGIT_ZEROS"

text \<open>\<open>^\d+\.\d+\.\d+$\<close>.\<close>

definition SEMVER :: "string \<Rightarrow> bool" where
  "SEMVER s \<longleftrightarrow>
     (let parts = split_on (CHR ''.'') (before_final_newline s)
      in length parts = 3 \<and> list_all (\<lambda>p. p \<noteq> [] \<and> list_all decimal_digit (utf8_points p)) parts)"

section \<open>Findings of a scenario\<close>

record lint_env =
  li_reg :: loaded_registry
  li_by_ref :: "string \<Rightarrow> pyexc + agent_manifest"
  li_validate :: "json_dict \<Rightarrow> pyexc + trust_spec"

abbreviation text_list :: "string list \<Rightarrow> string" where
  "text_list xs \<equiv> py_repr_json (\<lambda>_. []) (JArr (map JStr xs))"

definition agent_ids :: "scenario_version \<Rightarrow> string list" where
  "agent_ids sv = sort (remdups (map as_id (sp_agents (sv_spec sv))))"

fun lint_agents :: "lint_env \<Rightarrow> string \<Rightarrow> agent_spec list \<Rightarrow> (string, string list) dict \<Rightarrow> string list \<times> (string, string list) dict" where
  "lint_agents li label [] offered = ([], offered)"
| "lint_agents li label (a # as) offered =
     (case get_agent_manifest (li_by_ref li) (li_reg li) (as_ref a) of
        Inl e \<Rightarrow>
          (case lint_agents li label as offered of
             (fs, off) \<Rightarrow>
               ((label @ '': agent '' @ as_id a @ '' ref='' @ repr_str (as_ref a) @ '' does not resolve ('' @ pe_message e @ '')'') # fs, off))
      | Inr am \<Rightarrow> lint_agents li label as (dict_set (as_id a) (aa_offered_caps (am_aitp am)) offered))"

text \<open>The references of a step that must name an agent of the scenario.\<close>

definition step_refs :: "workflow_step \<Rightarrow> (string \<times> string option) list" where
  "step_refs st =
     [(''agent'', ws_agent st), (''target_agent'', ws_target_agent st), (''initiator'', ws_initiator st), (''responder'', ws_responder st),
      (''delegator'', ws_delegator st), (''delegatee'', ws_delegatee st), (''via_peer'', ws_via_peer st), (''issuer'', ws_issuer st),
      (''audience'', ws_audience st)]"

definition given_text :: "string option \<Rightarrow> bool" where
  "given_text v \<longleftrightarrow> v \<notin> {None, Some []}"

definition ref_findings :: "string \<Rightarrow> string list \<Rightarrow> workflow_step \<Rightarrow> string list" where
  "ref_findings label ids st =
     map (\<lambda>(f, v). label @ '' step '' @ ws_id st @ '': '' @ f @ ''='' @ repr_str (the v) @ '' not in agents '' @ text_list ids)
       (filter (\<lambda>(f, v). given_text v \<and> the v \<notin> set ids) (step_refs st))
     @ map (\<lambda>v. label @ '' step '' @ ws_id st @ '': refresh_agents entry '' @ repr_str v @ '' not in agents '' @ text_list ids)
       (filter (\<lambda>v. v \<notin> set ids) (case ws_refresh_agents st of Some vs \<Rightarrow> vs | None \<Rightarrow> []))"

definition revoke_findings :: "string \<Rightarrow> workflow_step \<Rightarrow> string list" where
  "revoke_findings label st =
     (if ws_local_revoke st = Some False \<and> ws_via_cp st \<noteq> Some True
      then [label @ '' step '' @ ws_id st @ '': local_revoke: false needs via_cp: true (otherwise nothing is revoked anywhere)''] else [])"

definition capability_findings :: "string \<Rightarrow> (string, string list) dict \<Rightarrow> workflow_step \<Rightarrow> string list" where
  "capability_findings label offered st =
     (if given_text (ws_capability st) \<and> \<not> list_ex (\<lambda>(a, caps). the (ws_capability st) \<in> set caps) offered
      then [label @ '' step '' @ ws_id st @ '': capability '' @ repr_str (the (ws_capability st)) @ '' not offered by any agent in this scenario'']
      else [])"

definition grant_findings :: "string \<Rightarrow> (string, string list) dict \<Rightarrow> workflow_step \<Rightarrow> string list" where
  "grant_findings label offered st =
     (let stype = (if given_text (ws_type st) then the (ws_type st)
                   else if given_text (ws_agent st) \<and> given_text (ws_capability st) then ''workflow'' else ''meta'')
      in case (ws_requested_grants st, Option.bind (ws_responder st) (dict_get offered)) of
           (Some grants, Some caps) \<Rightarrow>
             (let missing = sort (remdups (filter (\<lambda>g. g \<notin> set caps) grants))
              in if stype = ''handshake'' \<and> missing \<noteq> []
                 then [label @ '' step '' @ ws_id st @ '': requested_grants '' @ text_list missing @ '' not offered by responder ''
                       @ the (ws_responder st)] else [])
         | _ \<Rightarrow> [])"

definition order_findings :: "string \<Rightarrow> string list \<Rightarrow> workflow_step \<Rightarrow> string list" where
  "order_findings label prior st =
     (if given_text (ws_via_delegation st) \<and> the (ws_via_delegation st) \<notin> set prior
      then [label @ '' step '' @ ws_id st @ '': via_delegation='' @ repr_str (the (ws_via_delegation st)) @ '' does not reference an earlier step'']
      else [])
     @ (if given_text (ws_input_from st) \<and> the (ws_input_from st) \<notin> set prior
      then [label @ '' step '' @ ws_id st @ '': input_from='' @ repr_str (the (ws_input_from st)) @ '' does not reference an earlier step'']
      else [])"

fun lint_steps ::
  "string \<Rightarrow> string list \<Rightarrow> (string, string list) dict \<Rightarrow> string list \<Rightarrow> workflow_step list \<Rightarrow> string list" where
  "lint_steps label ids offered prior [] = []"
| "lint_steps label ids offered prior (st # sts) =
     ref_findings label ids st @ revoke_findings label st @ capability_findings label offered st @ grant_findings label offered st
     @ order_findings label prior st @ lint_steps label ids offered (ws_id st # prior) sts"

definition lint_scenario :: "lint_env \<Rightarrow> scenario_version \<Rightarrow> string \<Rightarrow> string list" where
  "lint_scenario li sv label =
     (case lint_agents li label (sp_agents (sv_spec sv)) [] of
        (fs, offered) \<Rightarrow> fs @ lint_steps label (agent_ids sv) offered [] (sp_steps (sv_spec sv)))"

section \<open>Findings of a pack\<close>

text \<open>A template whose merge fails with an error that is not the playground's leaves the linter.\<close>

fun lint_templates :: "lint_env \<Rightarrow> string \<Rightarrow> scenario_template list \<Rightarrow> pyexc + string list" where
  "lint_templates li ref [] = Inr []"
| "lint_templates li ref (t # ts) =
     (let name = tp_name t;
          here = (if KEBAB name then [] else [ref @ '' template '' @ repr_str name @ '': name not kebab-case''])
      in case get_scenario_resolved (li_validate li) (li_reg li) ref (Some name) of
           Inl (Playground e) \<Rightarrow>
             bindE (lint_templates li ref ts) (\<lambda>fs.
               Inr (here @ [ref @ '' template '' @ repr_str name @ '': failed to apply ('' @ pe_message e @ '')''] @ fs))
         | Inl (Unhandled e) \<Rightarrow> Inl e
         | Inl (HttpExc _) \<Rightarrow> Inl (PyExc OtherError None [])
         | Inr merged \<Rightarrow>
             bindE (lint_templates li ref ts) (\<lambda>fs. Inr (here @ lint_scenario li merged (ref @ '' [template:'' @ name @ '']'') @ fs)))"

fun lint_versions :: "lint_env \<Rightarrow> scenario_version list \<Rightarrow> api_exc + string list" where
  "lint_versions li [] = Inr []"
| "lint_versions li (sv # svs) =
     (let ref = scenario_key sv; md = sv_metadata sv;
          here = (if KEBAB (sm_scenario md) then [] else [ref @ '': scenario slug not kebab-case''])
            @ (if SEMVER (sm_version md) then [] else [ref @ '': version not semver MAJOR.MINOR.PATCH''])
            @ (if given_text (sm_summary md) then [] else [ref @ '': summary is empty (operators rely on it in list views)''])
            @ lint_scenario li sv ref
      in case list_templates (li_reg li) ref of
           Inl e \<Rightarrow> Inl (Playground e)
         | Inr ts \<Rightarrow>
             (case lint_templates li ref ts of
                Inl e \<Rightarrow> Inl (Unhandled e)
              | Inr fs \<Rightarrow> bindE (lint_versions li svs) (\<lambda>rest. Inr (here @ fs @ rest))))"

text \<open>A pack directory is its name and whether it holds \<open>pack.yaml\<close>. The registry is loaded when the scenarios are listed, not before.\<close>

definition lint_pack_dir :: "playground_error + loaded_registry \<Rightarrow> lint_env \<Rightarrow> string \<times> bool \<Rightarrow> api_exc + string list" where
  "lint_pack_dir load li pack_dir =
     (let (slug, has_pack_file) = pack_dir in
      if starts_with ''_'' slug then Inr []
      else
        (let here = (if KEBAB slug then [] else [slug @ '': directory name is not kebab-case''])
         in if \<not> has_pack_file then Inr (here @ [slug @ '': missing pack.yaml''])
            else
              (case load of
                 Inl e \<Rightarrow> Inl (Playground e)
               | Inr reg \<Rightarrow>
                   (let scenarios = filter (\<lambda>s. sm_pack (sv_metadata s) = slug) (map snd (lr_scenarios reg))
                    in if scenarios = [] then Inr (here @ [slug @ '': no scenarios under this pack''])
                       else bindE (lint_versions (li\<lparr>li_reg := reg\<rparr>) scenarios) (\<lambda>fs. Inr (here @ fs))))))"

section \<open>What a scenario without findings satisfies\<close>

definition manifest_of :: "lint_env \<Rightarrow> agent_spec \<Rightarrow> agent_manifest option" where
  "manifest_of li a = (case get_agent_manifest (li_by_ref li) (li_reg li) (as_ref a) of Inr am \<Rightarrow> Some am | Inl _ \<Rightarrow> None)"

text \<open>The manifest in force for an agent id: that of the last agent with the id.\<close>

definition manifests :: "lint_env \<Rightarrow> agent_spec list \<Rightarrow> string \<Rightarrow> agent_manifest option" where
  "manifests li ags i = map_of (rev (List.map_filter (\<lambda>a. map_option (Pair (as_id a)) (manifest_of li a)) ags)) i"

definition step_ok :: "lint_env \<Rightarrow> scenario_version \<Rightarrow> string set \<Rightarrow> workflow_step \<Rightarrow> bool" where
  "step_ok li sv prior st \<longleftrightarrow>
     (let ags = sp_agents (sv_spec sv); ids = as_id ` set ags
      in (\<forall>(f, v) \<in> set (step_refs st). given_text v \<longrightarrow> the v \<in> ids) \<and>
         (\<forall>vs. ws_refresh_agents st = Some vs \<longrightarrow> set vs \<subseteq> ids) \<and>
         (ws_local_revoke st = Some False \<longrightarrow> ws_via_cp st = Some True) \<and>
         (given_text (ws_capability st) \<longrightarrow> (\<exists>i am. manifests li ags i = Some am \<and> offers am (the (ws_capability st)))) \<and>
         (\<forall>grants i am. ws_type st = Some ''handshake'' \<and> ws_requested_grants st = Some grants \<and> ws_responder st = Some i \<and>
            manifests li ags i = Some am \<longrightarrow> list_all (offers am) grants) \<and>
         (given_text (ws_via_delegation st) \<longrightarrow> the (ws_via_delegation st) \<in> prior) \<and>
         (given_text (ws_input_from st) \<longrightarrow> the (ws_input_from st) \<in> prior))"

definition scenario_ok :: "lint_env \<Rightarrow> scenario_version \<Rightarrow> bool" where
  "scenario_ok li sv \<longleftrightarrow>
     (\<forall>a \<in> set (sp_agents (sv_spec sv)). manifest_of li a \<noteq> None) \<and>
     (\<forall>i < length (sp_steps (sv_spec sv)). step_ok li sv (ws_id ` set (take i (sp_steps (sv_spec sv)))) (sp_steps (sv_spec sv) ! i))"

lemma lint_agents_offered:
  "dict_get (snd (lint_agents li label ags off)) i =
     (case manifests li ags i of Some am \<Rightarrow> Some (aa_offered_caps (am_aitp am)) | None \<Rightarrow> dict_get off i)"
  by (induction li label ags off rule: lint_agents.induct)
    (auto simp: manifests_def manifest_of_def List.map_filter_def map_add_def map_of_append split: sum.splits prod.splits option.splits)

lemma lint_agents_none: "fst (lint_agents li label ags off) = [] \<longleftrightarrow> (\<forall>a \<in> set ags. manifest_of li a \<noteq> None)"
  by (induction li label ags off rule: lint_agents.induct) (auto simp: manifest_of_def split: sum.splits prod.splits)

lemma lint_agents_wf: "wf_dict off \<Longrightarrow> wf_dict (snd (lint_agents li label ags off))"
  by (induction li label ags off rule: lint_agents.induct) (auto split: sum.splits prod.splits)

lemma offered_ex:
  assumes "wf_dict offered" "\<And>i. dict_get offered i = map_option (\<lambda>am. aa_offered_caps (am_aitp am)) (m i)"
  shows "list_ex (\<lambda>(a, caps). c \<in> set caps) offered \<longleftrightarrow> (\<exists>i am. m i = Some am \<and> offers am c)"
proof -
  have "list_ex (\<lambda>(a, caps). c \<in> set caps) offered \<longleftrightarrow> (\<exists>i caps. dict_get offered i = Some caps \<and> c \<in> set caps)"
    using mem_dict_get [OF assms(1)] by (auto simp: list_ex_iff)
  then show ?thesis by (auto simp: assms(2) offers_def)
qed


text \<open>The offered capabilities the steps are checked against are those of the manifests in force.\<close>

definition offers_of :: "lint_env \<Rightarrow> agent_spec list \<Rightarrow> (string, string list) dict \<Rightarrow> bool" where
  "offers_of li ags offered \<longleftrightarrow>
     wf_dict offered \<and> (\<forall>i. dict_get offered i = map_option (\<lambda>am. aa_offered_caps (am_aitp am)) (manifests li ags i))"

lemma offers_of_lint_agents: "offers_of li ags (snd (lint_agents li label ags []))"
  unfolding offers_of_def by (auto simp: lint_agents_wf lint_agents_offered split: option.splits)

lemma ref_findings_none:
  "ref_findings label ids st = [] \<longleftrightarrow>
     (\<forall>(f, v) \<in> set (step_refs st). given_text v \<longrightarrow> the v \<in> set ids) \<and> (\<forall>vs. ws_refresh_agents st = Some vs \<longrightarrow> set vs \<subseteq> set ids)"
  unfolding ref_findings_def by (cases "ws_refresh_agents st") (auto simp: filter_empty_conv)

lemma capability_findings_none:
  assumes "offers_of li ags offered"
  shows "capability_findings label offered st = [] \<longleftrightarrow>
     (given_text (ws_capability st) \<longrightarrow> (\<exists>i am. manifests li ags i = Some am \<and> offers am (the (ws_capability st))))"
  using assms offered_ex [of offered "manifests li ags" "the (ws_capability st)"]
  by (auto simp: capability_findings_def offers_of_def)

lemma sort_Nil: "sort xs = [] \<longleftrightarrow> xs = []"
  by (metis length_0_conv length_sort)

lemma grant_findings_none:
  assumes "offers_of li ags offered"
  shows "grant_findings label offered st = [] \<longleftrightarrow>
     (\<forall>grants i am. ws_type st = Some ''handshake'' \<and> ws_requested_grants st = Some grants \<and> ws_responder st = Some i \<and>
        manifests li ags i = Some am \<longrightarrow> list_all (offers am) grants)"
proof -
  have "dict_get offered i = map_option (\<lambda>am. aa_offered_caps (am_aitp am)) (manifests li ags i)" for i
    using assms by (simp add: offers_of_def)
  then show ?thesis
    by (cases "ws_responder st")
      (auto simp: grant_findings_def Let_def given_text_def offers_def list_all_iff sort_Nil filter_empty_conv split: option.splits)
qed

lemma lint_steps_none:
  assumes "offers_of li (sp_agents (sv_spec sv)) offered"
  shows "lint_steps label (agent_ids sv) offered prior sts = [] \<longleftrightarrow>
     (\<forall>i < length sts. step_ok li sv (set prior \<union> ws_id ` set (take i sts)) (sts ! i))"
proof (induction sts arbitrary: prior)
  case (Cons st sts)
  have ids: "set (agent_ids sv) = as_id ` set (sp_agents (sv_spec sv))" by (simp add: agent_ids_def)
  have here: "ref_findings label (agent_ids sv) st @ revoke_findings label st @ capability_findings label offered st
      @ grant_findings label offered st @ order_findings label prior st = [] \<longleftrightarrow> step_ok li sv (set prior) st"
    unfolding append_is_Nil_conv ref_findings_none capability_findings_none [OF assms] grant_findings_none [OF assms] step_ok_def ids Let_def
    by (auto simp: revoke_findings_def order_findings_def)
  have "lint_steps label (agent_ids sv) offered prior (st # sts) = [] \<longleftrightarrow>
      step_ok li sv (set prior) st \<and> lint_steps label (agent_ids sv) offered (ws_id st # prior) sts = []"
    using here by auto
  then show ?case unfolding Cons.IH by (simp add: All_less_Suc2)
qed simp

lemma lint_none: "lint_scenario li sv label = [] \<longleftrightarrow> scenario_ok li sv"
proof -
  obtain fs offered where la: "lint_agents li label (sp_agents (sv_spec sv)) [] = (fs, offered)" by (cases "lint_agents li label (sp_agents (sv_spec sv)) []")
  have "offers_of li (sp_agents (sv_spec sv)) offered" using offers_of_lint_agents [of li _ label] la by (metis snd_conv)
  note steps = lint_steps_none [OF this, where prior = "[]"]
  show ?thesis using lint_agents_none [of li label "sp_agents (sv_spec sv)" "[]"]
    by (simp add: lint_scenario_def la steps scenario_ok_def)
qed


lemma dict_get_Some_of: "dict_get (map (\<lambda>(k, m). (k, Some m)) ms) i = map_option Some (dict_get ms i)"
  by (induction ms) auto

lemma resolve_manifests_total:
  assumes "re_registry re = Inr (li_reg li)" "re_by_ref re = li_by_ref li" "\<forall>a \<in> set ags. manifest_of li a \<noteq> None"
  shows "\<exists>ms. resolve_manifests re ags acc w = Some (Inr ms, w) \<and>
    (\<forall>i. dict_get ms i = (case manifests li ags i of Some am \<Rightarrow> Some am | None \<Rightarrow> dict_get acc i))"
  using assms(3)
proof (induction ags arbitrary: acc)
  case Nil
  then show ?case by (simp add: retR_def manifests_def List.map_filter_def)
next
  case (Cons a ags)
  obtain am where am: "get_agent_manifest (li_by_ref li) (li_reg li) (as_ref a) = Inr am"
    using Cons.prems by (auto simp: manifest_of_def split: sum.splits)
  obtain ms where ms: "resolve_manifests re ags (dict_set (as_id a) am acc) w = Some (Inr ms, w)"
    "\<And>i. dict_get ms i = (case manifests li ags i of Some am \<Rightarrow> Some am | None \<Rightarrow> dict_get (dict_set (as_id a) am acc) i)"
    using Cons by (metis list.set_intros(2))
  have "manifests li (a # ags) i = (case manifests li ags i of Some b \<Rightarrow> Some b | None \<Rightarrow> if i = as_id a then Some am else None)" for i
    by (simp add: manifests_def manifest_of_def am List.map_filter_def map_of_append map_add_def split: option.split)
  then show ?case using ms by (auto simp: am assms(1,2) split: option.split)
qed

lemma scan_holders_finds:
  assumes "\<forall>a \<in> set ags. \<exists>am. dict_get ms (as_id a) = Some (Some am)"
    "\<exists>a \<in> set ags. \<exists>am. dict_get ms (as_id a) = Some (Some am) \<and> offers am cap"
  shows "\<exists>a \<in> set ags. \<exists>am. scan_holders cap ms ags s = (Inr (Some (as_id a)), s) \<and> dict_get ms (as_id a) = Some (Some am) \<and> offers am cap"
  using assms
proof (induction ags)
  case (Cons a ags)
  obtain am where am: "dict_get ms (as_id a) = Some (Some am)" using Cons.prems(1) by auto
  show ?case
  proof (cases "offers am cap")
    case True
    then show ?thesis by (simp add: am ret_def)
  next
    case False
    have "\<exists>b \<in> set ags. \<exists>am. dict_get ms (as_id b) = Some (Some am) \<and> offers am cap"
      using Cons.prems(2) False am by auto
    then show ?thesis using Cons.IH Cons.prems(1) False by (simp add: am)
  qed
qed simp

lemma manifests_agent: "manifests li ags i = Some am \<Longrightarrow> \<exists>a \<in> set ags. as_id a = i"
  unfolding manifests_def by (drule map_of_SomeD) (auto simp: List.map_filter_def)

lemma manifests_some: "a \<in> set ags \<Longrightarrow> manifest_of li a \<noteq> None \<Longrightarrow> \<exists>am. manifests li ags (as_id a) = Some am"
  unfolding manifests_def by (auto simp: List.map_filter_def map_of_eq_None_iff image_iff not_None_eq [symmetric] simp del: not_None_eq)

lemma holder_found:
  assumes clean: "scenario_ok li sv" and st: "st \<in> set (sp_steps (sv_spec sv))" "given_text (ws_capability st)"
    and ms: "\<And>i. dict_get ms i = manifests li (sp_agents (sv_spec sv)) i"
  shows "\<exists>a \<in> set (sp_agents (sv_spec sv)). \<exists>am.
    find_capability_holder (the (ws_capability st)) sv (map (\<lambda>(k, m). (k, Some m)) ms) prefer s = (Inr (Some (as_id a)), s)
    \<and> dict_get ms (as_id a) = Some am \<and> offers am (the (ws_capability st))"
proof -
  let ?ags = "sp_agents (sv_spec sv)" and ?ms = "map (\<lambda>(k, m). (k, Some m)) ms" and ?cap = "the (ws_capability st)"
  have get: "dict_get ?ms i = map_option Some (manifests li ?ags i)" for i by (simp add: dict_get_Some_of ms)
  have all: "\<forall>a \<in> set ?ags. \<exists>am. dict_get ?ms (as_id a) = Some (Some am)"
    using clean manifests_some by (fastforce simp: scenario_ok_def get)
  obtain n where "n < length (sp_steps (sv_spec sv))" "sp_steps (sv_spec sv) ! n = st" using st by (auto simp: in_set_conv_nth)
  then have "step_ok li sv (ws_id ` set (take n (sp_steps (sv_spec sv)))) st" using clean unfolding scenario_ok_def by blast
  then obtain i am where i: "manifests li ?ags i = Some am" "offers am ?cap"
    using st(2) unfolding step_ok_def Let_def by blast
  then obtain a where "a \<in> set ?ags" "as_id a = i" using manifests_agent by blast
  then have "\<exists>a \<in> set ?ags. \<exists>am. dict_get ?ms (as_id a) = Some (Some am) \<and> offers am ?cap" using i get by fastforce
  from scan_holders_finds [OF all this, of s] obtain a am where scan: "a \<in> set ?ags"
    "scan_holders ?cap ?ms ?ags s = (Inr (Some (as_id a)), s)" "manifests li ?ags (as_id a) = Some am" "offers am ?cap"
    unfolding get by auto
  show ?thesis
  proof (cases "\<exists>p pm. prefer = Some p \<and> manifests li ?ags p = Some pm \<and> offers pm ?cap")
    case True
    then obtain p pm where p: "prefer = Some p" "manifests li ?ags p = Some pm" "offers pm ?cap" by blast
    then obtain b where "b \<in> set ?ags" "as_id b = p" using manifests_agent by blast
    then show ?thesis using p by (auto simp: find_capability_holder_def get ms ret_def)
  next
    case False
    then have "find_capability_holder ?cap sv ?ms prefer s = scan_holders ?cap ?ms ?ags s"
      by (auto simp: find_capability_holder_def get split: option.split)
    then show ?thesis using scan ms by auto
  qed
qed

text \<open>C18: A scenario the linter finds nothing against is one the engine can set up: with the registry the linter
  read, the manifests of its agents resolve without a change to the run, and for the capability of any
  step, whatever agent is preferred, the engine finds an agent of the scenario that offers it.\<close>

theorem lint_clean_resolves:
  assumes "lint_scenario li sv label = []" "re_registry re = Inr (li_reg li)" "re_by_ref re = li_by_ref li"
  shows "\<exists>ms. resolve_manifests re (sp_agents (sv_spec sv)) [] w = Some (Inr ms, w) \<and>
    (\<forall>st \<in> set (sp_steps (sv_spec sv)). given_text (ws_capability st) \<longrightarrow>
      (\<forall>prefer s. \<exists>a \<in> set (sp_agents (sv_spec sv)). \<exists>am.
        find_capability_holder (the (ws_capability st)) sv (map (\<lambda>(k, m). (k, Some m)) ms) prefer s = (Inr (Some (as_id a)), s)
        \<and> dict_get ms (as_id a) = Some am \<and> offers am (the (ws_capability st))))"
proof -
  have ok: "scenario_ok li sv" using assms(1) by (simp add: lint_none)
  then obtain ms where "resolve_manifests re (sp_agents (sv_spec sv)) [] w = Some (Inr ms, w)"
    "\<And>i. dict_get ms i = manifests li (sp_agents (sv_spec sv)) i"
    using resolve_manifests_total [OF assms(2,3), of "sp_agents (sv_spec sv)" "[]" w]
    by (auto simp: scenario_ok_def option.case_eq_if)
  then show ?thesis using holder_found [OF ok] by blast
qed


section \<open>Witnesses\<close>

definition demo_manifest :: agent_manifest where
  "demo_manifest = \<lparr>am_id = ''i'', am_name = ''n'', am_framework = ''custom'', am_entrypoint = [], am_host = [],
     am_aitp = \<lparr>aa_offered_caps = [''write''], aa_display_name = ''d'', aa_identity_type = ''pinned_key'', aa_accepted_identity_types = None,
       aa_oidc_issuer = None, aa_oidc_subject = None, aa_signing_suite = ''ed25519'', aa_ttl_secs = 60\<rparr>, am_did_web = False\<rparr>"

definition demo_lint :: lint_env where
  "demo_lint = \<lparr>li_reg = \<lparr>lr_packs = [], lr_scenarios = [], lr_agents = [(''a'', demo_manifest)], lr_templates = []\<rparr>,
     li_by_ref = (\<lambda>_. Inl (PyExc OtherError None [])), li_validate = (\<lambda>_. Inl (PyExc ValueError None []))\<rparr>"

definition demo_linted :: "workflow_step \<Rightarrow> scenario_version" where
  "demo_linted st = demo_scenario\<lparr>sv_spec := (sv_spec demo_scenario)\<lparr>sp_steps := [st]\<rparr>\<rparr>"

definition demo_lint_run :: run_env where
  "demo_lint_run = demo_run_env\<lparr>re_registry := Inr (li_reg demo_lint), re_by_ref := li_by_ref demo_lint\<rparr>"

definition demo_write :: workflow_step where
  "demo_write = (blank_step ''w'')\<lparr>ws_agent := Some ''a'', ws_capability := Some ''write''\<rparr>"

lemmas demo_lint_defs = demo_lint_def demo_linted_def demo_scenario_def demo_agent_def demo_manifest_def blank_step_def get_agent_manifest_def

lemma demo_lint_clean: "lint_scenario demo_lint (demo_linted demo_write) ''p/s@1'' = []"
  by (simp add: lint_none scenario_ok_def manifest_of_def manifests_def List.map_filter_def step_ok_def step_refs_def given_text_def offers_def
      demo_write_def demo_lint_defs)

theorem lint_clean_resolves_witness:
  "lint_scenario demo_lint (demo_linted demo_write) ''p/s@1'' = [] \<and>
   (\<forall>w prefer s. \<exists>ms. resolve_manifests demo_lint_run (sp_agents (sv_spec (demo_linted demo_write))) [] w = Some (Inr ms, w) \<and>
      find_capability_holder ''write'' (demo_linted demo_write) (map (\<lambda>(k, m). (k, Some m)) ms) prefer s = (Inr (Some ''a''), s))"
proof -
  have "demo_write \<in> set (sp_steps (sv_spec (demo_linted demo_write)))" "given_text (ws_capability demo_write)"
    "the (ws_capability demo_write) = ''write''" "sp_agents (sv_spec (demo_linted demo_write)) = [demo_agent ''a'']"
    by (simp_all add: demo_linted_def demo_write_def given_text_def demo_scenario_def)
  then show ?thesis
    using lint_clean_resolves [OF demo_lint_clean, of demo_lint_run] demo_lint_clean
    by (fastforce simp: demo_lint_run_def demo_agent_def)
qed

text \<open>The references the checks leave out: a step that names an unknown agent as the target of its work, as
  coordinator, participant or verifier, or an unknown step in \<open>via_step\<close>, lints clean.\<close>

lemma unchecked_refs:
  "lint_scenario demo_lint (demo_linted ((blank_step ''x'')\<lparr>ws_target := Some ''nobody'', ws_coordinator := Some ''nobody'',
     ws_participants := Some [''nobody''], ws_verifier := Some ''nobody'', ws_via_step := Some ''nothing''\<rparr>)) label = []"
  by (simp add: lint_none scenario_ok_def manifest_of_def manifests_def List.map_filter_def step_ok_def step_refs_def given_text_def offers_def
      demo_lint_defs)

lemma newline_names: "KEBAB (''pack'' @ [CHR 0x0A])" "SEMVER (''1.0.0'' @ [CHR 0x0A])"
  by code_simp (simp add: SEMVER_def before_final_newline_def decimal_digit_def DIGIT_ZEROS_def)

end
