(* ===== verification/Conformance.thy ===== *)
theory Conformance
  imports Registry Sdk_Features Run_Context
begin

text \<open>
  The catalogue of the RFC conformance fixtures (\<open>src/aitp_playground/conformance.py\<close>): loading a
  directory of fixtures, the contract their metadata must meet, and the report that counts them and
  says which the installed SDK could run. A directory is its entries with what reading each gives;
  it does not change between the two reads of a file.

  What is shown: when every file is a JSON text, the report is made, its counts by RFC, by tier and by
  readiness each add up to the number of fixtures, and it is valid exactly when every fixture meets
  the contract; a file that is not JSON makes the report raise.
\<close>

section \<open>Fixtures\<close>

definition FEATURE_TO_CAPABILITY :: "(string, string) dict" where
  "FEATURE_TO_CAPABILITY =
     [(''experimental-multihop-delegation'', MULTIHOP_DELEGATION), (''experimental-session-bundle'', SESSION_BUNDLE)]"

definition REQUIRED_META :: "string list" where
  "REQUIRED_META = [''id'', ''rfc'', ''status'', ''required_for_v0_1'', ''feature'']"

definition VALID_TIERS :: "string list" where
  "VALID_TIERS = [''core'', ''draft'', ''extension'', ''reserved'']"

text \<open>An entry of the directory: its name, whether the path exists (a dangling link does not), and its bytes
  unless reading raises \<open>OSError\<close>.\<close>

record fixture_file =
  ff_name :: string
  ff_exists :: bool
  ff_bytes :: "string option"

record fixture =
  fx_id :: string
  fx_rfc :: string
  fx_status :: string
  fx_required :: bool
  fx_feature :: "string option"
  fx_dynamic :: bool
  fx_operation :: "string option"
  fx_path :: fixture_file

definition DEFAULT_FIXTURE_CANDIDATES :: "string list" where
  "DEFAULT_FIXTURE_CANDIDATES =
     [''../agentidentitytrustprotocol/schemas/conformance'', ''../../agentidentitytrustprotocol/schemas/conformance'']"

text \<open>\<open>resolve root cand\<close> is the absolute path and whether it is a directory.\<close>

fun first_dir :: "(string \<Rightarrow> string \<times> bool) \<Rightarrow> string list \<Rightarrow> string option" where
  "first_dir resolve [] = None"
| "first_dir resolve (cand # cands) = (case resolve cand of (p, d) \<Rightarrow> if d then Some p else first_dir resolve cands)"

definition default_fixtures_dir :: "(string \<Rightarrow> string \<times> bool) \<Rightarrow> string option" where
  "default_fixtures_dir resolve = first_dir resolve DEFAULT_FIXTURE_CANDIDATES"

text \<open>\<open>json.loads(path.read_text())\<close>: the value, an error that is an \<open>OSError\<close> or a \<open>JSONDecodeError\<close>, or one
  that is neither (text that is not UTF-8).\<close>

datatype json_read = ReadValue json | ReadTolerated pyexc | ReadRaised pyexc

definition read_json :: "fixture_file \<Rightarrow> json_read" where
  "read_json f =
     (case ff_bytes f of
        None \<Rightarrow> ReadTolerated (PyExc OtherError None ''OSError'')
      | Some t \<Rightarrow>
          if \<not> utf8_valid t then ReadRaised (PyExc ValueError None ''UnicodeDecodeError'')
          else (case loads t of Some v \<Rightarrow> ReadValue v | None \<Rightarrow> ReadTolerated (PyExc ValueError None ''JSONDecodeError'')))"

definition object_or_empty :: "json \<Rightarrow> json_dict" where
  "object_or_empty v = (case v of JObj d \<Rightarrow> d | _ \<Rightarrow> [])"

definition path_stem :: "string \<Rightarrow> string" where
  "path_stem name = (if name = ''.json'' then name else take (length name - 5) name)"

definition fixture_of :: "(pyfloat \<Rightarrow> string) \<Rightarrow> fixture_file \<Rightarrow> json_dict \<Rightarrow> fixture" where
  "fixture_of fl path raw =
     \<lparr>fx_id = py_str fl (py_or (get_json raw ''id'') (JStr (path_stem (ff_name path)))),
      fx_rfc = py_str fl (py_or (get_json raw ''rfc'') (JStr [])),
      fx_status = py_str fl (py_or (get_json raw ''status'') (JStr [])),
      fx_required = truthy (get_json raw ''required_for_v0_1''),
      fx_feature = (case get_json raw ''feature'' of JStr s \<Rightarrow> Some s | _ \<Rightarrow> None),
      fx_dynamic = truthy (get_json raw ''dynamic''),
      fx_operation = (case get_json raw ''input'' of
          JObj inp \<Rightarrow> (case get_json inp ''operation'' of JStr s \<Rightarrow> Some s | _ \<Rightarrow> None)
        | _ \<Rightarrow> None),
      fx_path = path\<rparr>"

fun load_each :: "(pyfloat \<Rightarrow> string) \<Rightarrow> fixture_file list \<Rightarrow> pyexc + fixture list" where
  "load_each fl [] = Inr []"
| "load_each fl (f # fs) =
     (case read_json f of
        ReadRaised e \<Rightarrow> Inl e
      | ReadTolerated _ \<Rightarrow> bindE (load_each fl fs) (\<lambda>xs. Inr (fixture_of fl f [] # xs))
      | ReadValue v \<Rightarrow> bindE (load_each fl fs) (\<lambda>xs. Inr (fixture_of fl f (object_or_empty v) # xs)))"

definition json_files :: "fixture_file list \<Rightarrow> fixture_file list" where
  "json_files entries = sort_key ff_name (filter (\<lambda>f. ends_with ''.json'' (ff_name f)) entries)"

definition load_fixtures :: "(pyfloat \<Rightarrow> string) \<Rightarrow> fixture_file list \<Rightarrow> pyexc + fixture list" where
  "load_fixtures fl entries = load_each fl (json_files entries)"

section \<open>The contract\<close>

definition validate_metadata :: "fixture \<Rightarrow> json_dict \<Rightarrow> string list" where
  "validate_metadata fx raw =
     (let name = ff_name (fx_path fx)
      in map (\<lambda>key. name @ '': missing required metadata '' @ [CHR 0x27] @ key @ [CHR 0x27]) (filter (\<lambda>key. dict_get raw key = None) REQUIRED_META)
         @ (if fx_status fx \<noteq> [] \<and> fx_status fx \<notin> set VALID_TIERS
            then [name @ '': status '' @ [CHR 0x27] @ fx_status fx @ [CHR 0x27] @ '' not in '' @ py_repr_json (\<lambda>_. []) (JArr (map JStr (sort VALID_TIERS)))]
            else [])
         @ (if fx_rfc fx \<noteq> [] \<and> \<not> starts_with ''RFC-AITP-'' (fx_rfc fx)
            then [name @ '': rfc '' @ [CHR 0x27] @ fx_rfc fx @ [CHR 0x27] @ '' is not an RFC-AITP-#### id''] else [])
         @ (if fx_status fx \<noteq> [] \<and> fx_status fx \<noteq> ''core'' \<and> fx_required fx
            then [name @ '': required_for_v0_1 must be false when status != core''] else []))"

definition readiness :: "fixture \<Rightarrow> capability_report \<Rightarrow> string" where
  "readiness fx caps =
     (case fx_feature fx of
        None \<Rightarrow> ''core''
      | Some feature \<Rightarrow>
          (case dict_get FEATURE_TO_CAPABILITY feature of
             None \<Rightarrow> ''unknown-feature''
           | Some cap_key \<Rightarrow> if dict_get (cap_features caps) cap_key = Some True then ''available'' else ''skipped''))"

section \<open>The report\<close>

definition bump :: "string \<Rightarrow> (string, nat) dict \<Rightarrow> (string, nat) dict" where
  "bump k d = dict_set k (Suc (case dict_get d k of Some n \<Rightarrow> n | None \<Rightarrow> 0)) d"

record tally =
  ty_errors :: "string list"
  ty_by_rfc :: "(string, nat) dict"
  ty_by_tier :: "(string, nat) dict"
  ty_by_readiness :: "(string, nat) dict"
  ty_required :: nat

definition or_mark :: "string \<Rightarrow> string" where
  "or_mark s = (if s = [] then ''?'' else s)"

text \<open>The metadata is read again here, with no handler around it.\<close>

definition reread :: "fixture_file \<Rightarrow> pyexc + json_dict" where
  "reread f =
     (if ff_exists f then (case read_json f of ReadValue v \<Rightarrow> Inr (object_or_empty v) | ReadTolerated e \<Rightarrow> Inl e | ReadRaised e \<Rightarrow> Inl e)
      else Inr [])"

definition tally_fixture :: "capability_report \<Rightarrow> fixture \<Rightarrow> tally \<Rightarrow> pyexc + tally" where
  "tally_fixture caps fx t =
     bindE (reread (fx_path fx)) (\<lambda>raw.
       Inr \<lparr>ty_errors = ty_errors t @ validate_metadata fx raw,
            ty_by_rfc = bump (or_mark (fx_rfc fx)) (ty_by_rfc t),
            ty_by_tier = bump (or_mark (fx_status fx)) (ty_by_tier t),
            ty_by_readiness = bump (readiness fx caps) (ty_by_readiness t),
            ty_required = (if fx_required fx then Suc (ty_required t) else ty_required t)\<rparr>)"

fun tally_all :: "capability_report \<Rightarrow> fixture list \<Rightarrow> tally \<Rightarrow> pyexc + tally" where
  "tally_all caps [] t = Inr t"
| "tally_all caps (fx # fxs) t = bindE (tally_fixture caps fx t) (tally_all caps fxs)"

definition tally_init :: tally where
  "tally_init = \<lparr>ty_errors = [], ty_by_rfc = [], ty_by_tier = [], ty_by_readiness = [], ty_required = 0\<rparr>"

record report =
  rp_fixtures_dir :: string
  rp_sdk_available :: bool
  rp_sdk_version :: "string option"
  rp_total :: nat
  rp_required :: nat
  rp_by_rfc :: "(string, nat) dict"
  rp_by_tier :: "(string, nat) dict"
  rp_by_readiness :: "(string, nat) dict"
  rp_errors :: "string list"
  rp_valid :: bool

definition build_report :: "(pyfloat \<Rightarrow> string) \<Rightarrow> string \<Rightarrow> fixture_file list \<Rightarrow> capability_report \<Rightarrow> pyexc + report" where
  "build_report fl dir entries caps =
     bindE (load_fixtures fl entries) (\<lambda>fixtures.
     bindE (tally_all caps fixtures tally_init) (\<lambda>t.
       Inr \<lparr>rp_fixtures_dir = dir, rp_sdk_available = cap_sdk_available caps, rp_sdk_version = cap_version caps,
            rp_total = length fixtures, rp_required = ty_required t,
            rp_by_rfc = sort_key fst (ty_by_rfc t), rp_by_tier = sort_key fst (ty_by_tier t), rp_by_readiness = sort_key fst (ty_by_readiness t),
            rp_errors = ty_errors t, rp_valid = (ty_errors t = [])\<rparr>))"


section \<open>When the report is made\<close>

text \<open>What a second read of a file gives, where it does not raise.\<close>

definition metadata :: "fixture_file \<Rightarrow> json_dict" where
  "metadata f = (case read_json f of ReadValue v \<Rightarrow> object_or_empty v | _ \<Rightarrow> [])"

definition reads_back :: "fixture_file \<Rightarrow> bool" where
  "reads_back f \<longleftrightarrow> (case read_json f of ReadValue _ \<Rightarrow> True | ReadTolerated _ \<Rightarrow> \<not> ff_exists f | ReadRaised _ \<Rightarrow> False)"

definition decodable :: "fixture_file \<Rightarrow> bool" where
  "decodable f \<longleftrightarrow> (\<forall>t. ff_bytes f = Some t \<longrightarrow> utf8_valid t)"

lemma load_each_iff: "load_each fl fs = Inr xs \<longleftrightarrow> list_all decodable fs \<and> xs = map (\<lambda>f. fixture_of fl f (metadata f)) fs"
  by (induction fs arbitrary: xs)
    (auto simp: read_json_def metadata_def decodable_def bindE_Inr_iff split: option.splits if_splits json_read.splits)

lemma fx_path_fixture_of [simp]: "fx_path (fixture_of fl f raw) = f"
  by (simp add: fixture_of_def)

text \<open>The metadata the contract is checked against: none for an entry whose path does not exist.\<close>

definition contract_metadata :: "fixture_file \<Rightarrow> json_dict" where
  "contract_metadata f = (if ff_exists f then metadata f else [])"

lemma reread_iff: "decodable f \<Longrightarrow> reread f = Inr raw \<longleftrightarrow> reads_back f \<and> raw = contract_metadata f"
  by (auto simp: reread_def reads_back_def contract_metadata_def metadata_def read_json_def decodable_def split: option.splits if_splits json_read.splits)


definition violations :: "fixture list \<Rightarrow> string list" where
  "violations fxs = concat (map (\<lambda>fx. validate_metadata fx (contract_metadata (fx_path fx))) fxs)"

lemma tally_all_iff:
  assumes "\<forall>fx \<in> set fxs. decodable (fx_path fx)"
  shows "tally_all caps fxs t = Inr t' \<longleftrightarrow>
    (\<forall>fx \<in> set fxs. reads_back (fx_path fx)) \<and>
    t' = \<lparr>ty_errors = ty_errors t @ violations fxs,
          ty_by_rfc = fold bump (map (or_mark \<circ> fx_rfc) fxs) (ty_by_rfc t),
          ty_by_tier = fold bump (map (or_mark \<circ> fx_status) fxs) (ty_by_tier t),
          ty_by_readiness = fold bump (map (\<lambda>fx. readiness fx caps) fxs) (ty_by_readiness t),
          ty_required = ty_required t + length (filter fx_required fxs)\<rparr>"
  using assms
proof (induction fxs arbitrary: t)
  case Nil
  then show ?case by (auto simp: violations_def)
next
  case (Cons fx fxs)
  then show ?case by (auto simp: tally_fixture_def bindE_Inr_iff reread_iff violations_def)
qed

text \<open>Counting by a key.\<close>

lemma get_fold_bump:
  "(case dict_get (fold bump ks d) k of Some n \<Rightarrow> n | None \<Rightarrow> 0) = (case dict_get d k of Some n \<Rightarrow> n | None \<Rightarrow> 0) + List.count_list ks k"
  by (induction ks arbitrary: d) (auto simp: bump_def)

lemma get_fold_bump_None: "dict_get (fold bump ks d) k = None \<longleftrightarrow> dict_get d k = None \<and> k \<notin> set ks"
  by (induction ks arbitrary: d) (auto simp: bump_def)

lemma wf_fold_bump: "wf_dict d \<Longrightarrow> wf_dict (fold bump ks d)"
  by (induction ks arbitrary: d) (auto simp: bump_def)

definition counts_of :: "string list \<Rightarrow> (string, nat) dict \<Rightarrow> bool" where
  "counts_of ks d \<longleftrightarrow> sorted (dict_keys d) \<and> distinct (dict_keys d) \<and> set (dict_keys d) = set ks \<and> (\<forall>(k, n) \<in> set d. n = List.count_list ks k)"

lemma counts_fold_bump: "counts_of ks (sort_key fst (fold bump ks []))"
proof -
  let ?d = "fold bump ks []"
  have wf: "wf_dict ?d" by (rule wf_fold_bump) simp
  have get: "dict_get ?d k = (if k \<in> set ks then Some (List.count_list ks k) else None)" for k
    using get_fold_bump [of ks "[]" k] get_fold_bump_None [of ks "[]" k] by (auto split: option.splits)
  have "distinct (map fst (sort_key fst ?d))" using wf by (metis distinct_map distinct_sort map_sorted_distinct_set_unique set_sort)
  moreover have "k \<in> set (dict_keys ?d) \<longleftrightarrow> k \<in> set ks" for k unfolding in_keys_iff by (simp add: get)
  moreover have "\<forall>(k, n) \<in> set ?d. n = List.count_list ks k" using mem_dict_get [OF wf] get by (auto split: if_splits)
  ultimately show ?thesis by (auto simp: counts_of_def)
qed


lemma tally_init_simps [simp]:
  "ty_errors tally_init = []" "ty_by_rfc tally_init = []" "ty_by_tier tally_init = []" "ty_by_readiness tally_init = []" "ty_required tally_init = 0"
  by (simp_all add: tally_init_def)

lemma build_report_iff:
  "build_report fl dir entries caps = Inr rp \<longleftrightarrow>
     (let files = json_files entries; fxs = map (\<lambda>f. fixture_of fl f (metadata f)) files
      in list_all reads_back files \<and>
         rp = \<lparr>rp_fixtures_dir = dir, rp_sdk_available = cap_sdk_available caps, rp_sdk_version = cap_version caps,
               rp_total = length files, rp_required = length (filter fx_required fxs),
               rp_by_rfc = sort_key fst (fold bump (map (or_mark \<circ> fx_rfc) fxs) []),
               rp_by_tier = sort_key fst (fold bump (map (or_mark \<circ> fx_status) fxs) []),
               rp_by_readiness = sort_key fst (fold bump (map (\<lambda>fx. readiness fx caps) fxs) []),
               rp_errors = violations fxs, rp_valid = (violations fxs = [])\<rparr>)"
proof -
  let ?files = "json_files entries"
  let ?fxs = "map (\<lambda>f. fixture_of fl f (metadata f)) ?files"
  have dec: "reads_back f \<Longrightarrow> decodable f" for f
    by (auto simp: reads_back_def decodable_def read_json_def split: option.splits if_splits)
  show ?thesis
  proof (cases "list_all decodable ?files")
    case True
    then have "\<forall>fx \<in> set ?fxs. decodable (fx_path fx)" by (auto simp: list_all_iff)
    note tally = tally_all_iff [OF this, of caps tally_init]
    have "load_fixtures fl entries = Inr ?fxs" using True by (simp add: load_fixtures_def load_each_iff)
    then show ?thesis
      by (auto simp: build_report_def bindE_Inr_iff tally Let_def list_all_iff)
  next
    case False
    then have "load_fixtures fl entries \<noteq> Inr xs" for xs by (simp add: load_fixtures_def load_each_iff)
    moreover have "\<not> list_all reads_back ?files" using False dec by (auto simp: list_all_iff)
    ultimately show ?thesis by (auto simp: build_report_def bindE_Inr_iff Let_def)
  qed
qed

text \<open>What the contract asks of the metadata of a fixture.\<close>

definition meets_contract :: "fixture \<Rightarrow> json_dict \<Rightarrow> bool" where
  "meets_contract fx raw \<longleftrightarrow>
     set REQUIRED_META \<subseteq> set (dict_keys raw) \<and>
     (fx_status fx = [] \<or> fx_status fx \<in> set VALID_TIERS) \<and>
     (fx_rfc fx = [] \<or> (\<exists>n. fx_rfc fx = ''RFC-AITP-'' @ n)) \<and>
     (fx_required fx \<longrightarrow> fx_status fx \<in> {[], ''core''})"

lemma validate_metadata_none: "validate_metadata fx raw = [] \<longleftrightarrow> meets_contract fx raw"
proof -
  have "filter (\<lambda>key. dict_get raw key = None) REQUIRED_META = [] \<longleftrightarrow> set REQUIRED_META \<subseteq> set (dict_keys raw)"
    unfolding filter_empty_conv subset_iff in_keys_iff by auto
  then show ?thesis by (auto simp: validate_metadata_def meets_contract_def Let_def starts_with_iff)
qed

text \<open>The report counts every fixture once: its total is the number of JSON files of the directory, the
  counts by RFC, by tier and by readiness are the exact numbers of fixtures of each, sorted by key,
  the required ones are counted, and the report is valid exactly when every fixture meets the metadata contract.\<close>

theorem report_exact:
  assumes "build_report fl dir entries caps = Inr rp"
  shows "let fxs = map (\<lambda>f. fixture_of fl f (metadata f)) (json_files entries)
    in rp_total rp = length (filter (\<lambda>f. ends_with ''.json'' (ff_name f)) entries) \<and>
       counts_of (map (or_mark \<circ> fx_rfc) fxs) (rp_by_rfc rp) \<and>
       counts_of (map (or_mark \<circ> fx_status) fxs) (rp_by_tier rp) \<and>
       counts_of (map (\<lambda>fx. readiness fx caps) fxs) (rp_by_readiness rp) \<and>
       rp_required rp = length (filter fx_required fxs) \<and>
       (rp_valid rp \<longleftrightarrow> (\<forall>fx \<in> set fxs. meets_contract fx (contract_metadata (fx_path fx))))"
  using assms unfolding build_report_iff Let_def
  by (auto simp: json_files_def counts_fold_bump violations_def validate_metadata_none)

text \<open>The report is made exactly when every JSON file of the directory that exists reads back as JSON: a
  file that does not parse makes it raise, where the loader before it takes the file for one without metadata.\<close>

theorem report_made_iff:
  "(\<exists>rp. build_report fl dir entries caps = Inr rp) \<longleftrightarrow>
     (\<forall>f \<in> set entries. ends_with ''.json'' (ff_name f) \<longrightarrow> reads_back f)"
  unfolding build_report_iff Let_def by (auto simp: json_files_def list_all_iff)


section \<open>Witnesses\<close>

definition demo_fixture :: fixture_file where
  "demo_fixture = \<lparr>ff_name = ''a.json'', ff_exists = True,
     ff_bytes = Some ''{\"id\":\"A\",\"rfc\":\"RFC-AITP-0001\",\"status\":\"core\",\"required_for_v0_1\":true,\"feature\":null}''\<rparr>"

definition demo_broken :: fixture_file where
  "demo_broken = \<lparr>ff_name = ''b.json'', ff_exists = True, ff_bytes = Some ''{''\<rparr>"

definition demo_caps :: capability_report where
  "demo_caps = \<lparr>cap_sdk_available = False, cap_version = None, cap_features = []\<rparr>"

definition demo_report :: report where
  "demo_report = \<lparr>rp_fixtures_dir = ''d'', rp_sdk_available = False, rp_sdk_version = None, rp_total = 1, rp_required = 1,
     rp_by_rfc = [(''RFC-AITP-0001'', 1)], rp_by_tier = [(''core'', 1)], rp_by_readiness = [(''core'', 1)], rp_errors = [], rp_valid = True\<rparr>"

lemma demo_report_built: "build_report (\<lambda>_. []) ''d'' [demo_fixture] demo_caps = Inr demo_report"
  by code_simp

theorem report_exact_witness:
  "build_report (\<lambda>_. []) ''d'' [demo_fixture] demo_caps = Inr demo_report \<and> rp_total demo_report = 1 \<and>
   counts_of [''core''] (rp_by_tier demo_report) \<and>
   meets_contract (fixture_of (\<lambda>_. []) demo_fixture (metadata demo_fixture)) (contract_metadata demo_fixture)"
proof -
  have "json_files [demo_fixture] = [demo_fixture]" "(or_mark \<circ> fx_status) (fixture_of (\<lambda>_. []) demo_fixture (metadata demo_fixture)) = ''core''"
    "rp_valid demo_report" "ends_with ''.json'' (ff_name demo_fixture)"
    by code_simp+
  then show ?thesis using report_exact [OF demo_report_built] demo_report_built by (simp add: Let_def)
qed

theorem report_made_iff_witness:
  "(\<exists>rp. build_report (\<lambda>_. []) ''d'' [demo_fixture] demo_caps = Inr rp) \<and>
   \<not> (\<exists>rp. build_report (\<lambda>_. []) ''d'' [demo_fixture, demo_broken] demo_caps = Inr rp) \<and>
   (\<exists>xs. load_fixtures (\<lambda>_. []) [demo_fixture, demo_broken] = Inr xs \<and> map fx_id xs = [''A'', ''b''])"
proof -
  have "reads_back demo_fixture" "\<not> reads_back demo_broken" "ends_with ''.json'' (ff_name demo_broken)" by code_simp+
  moreover have "map fx_id (projr (load_fixtures (\<lambda>_. []) [demo_fixture, demo_broken])) = [''A'', ''b'']"
    "isl (load_fixtures (\<lambda>_. []) [demo_fixture, demo_broken]) = False" by code_simp+
  then have "\<exists>xs. load_fixtures (\<lambda>_. []) [demo_fixture, demo_broken] = Inr xs \<and> map fx_id xs = [''A'', ''b'']"
    by (metis sum.collapse(2))
  ultimately show ?thesis unfolding report_made_iff by simp
qed

end
