(* ===== verification/Scenario_Cli.thy ===== *)
theory Scenario_Cli
  imports Scenario_Lint Conformance Json_Dumps Api_Auth
begin

text \<open>
  The commands of \<open>src/aitp_playground/cli.py\<close>: \<open>list\<close>, \<open>validate\<close>, \<open>dry-run\<close>, \<open>new\<close>, \<open>lint\<close>, \<open>trace\<close> and
  \<open>conformance\<close>. A command gives its exit code, or the exception it lets through, and the lines it
  printed to each stream before. The registry's load, the schema validator, the answers of the
  playground and the clock are arguments; a path is the list of its parts.

  What is shown: \<open>new\<close> takes exactly the references made of a pack, a scenario and a version of the right form
  and gives their parts back; it never changes a file that exists; \<open>lint\<close> exits with 0 exactly when there is
  no finding; \<open>trace\<close> ends when the clock passes its deadline, and prints a narration that only grows
  line by line, once.
\<close>

section \<open>Printing\<close>

record console =
  co_out :: "string list"
  co_err :: "string list"

type_synonym 'x cli = "console \<Rightarrow> (api_exc + 'x) \<times> console"

definition retC :: "'x \<Rightarrow> 'x cli" where
  "retC x c = (Inr x, c)"

definition raiseC :: "api_exc \<Rightarrow> 'x cli" where
  "raiseC e c = (Inl e, c)"

definition bindC :: "'x cli \<Rightarrow> ('x \<Rightarrow> 'y cli) \<Rightarrow> 'y cli" where
  "bindC m f c = (case m c of (Inl e, c') \<Rightarrow> (Inl e, c') | (Inr x, c') \<Rightarrow> f x c')"

abbreviation thenC :: "'x cli \<Rightarrow> 'y cli \<Rightarrow> 'y cli" where
  "thenC m k \<equiv> bindC m (\<lambda>_. k)"

definition print :: "string list \<Rightarrow> unit cli" where
  "print ls c = (Inr (), c\<lparr>co_out := co_out c @ ls\<rparr>)"

text \<open>A line on the error stream and the exit code.\<close>

definition fail_with :: "string \<Rightarrow> int \<Rightarrow> int cli" where
  "fail_with l code c = (Inr code, c\<lparr>co_err := co_err c @ [l]\<rparr>)"

definition lift_api :: "api_exc + 'x \<Rightarrow> 'x cli" where
  "lift_api r = (case r of Inl e \<Rightarrow> raiseC e | Inr x \<Rightarrow> retC x)"

abbreviation of_registry :: "playground_error + 'x \<Rightarrow> 'x cli" where
  "of_registry r \<equiv> lift_api (case r of Inl e \<Rightarrow> Inl (Playground e) | Inr x \<Rightarrow> Inr x)"

text \<open>\<open>except PlaygroundError\<close>.\<close>

definition catch_playground :: "'x cli \<Rightarrow> (playground_error \<Rightarrow> 'x cli) \<Rightarrow> 'x cli" where
  "catch_playground m h c = (case m c of (Inl (Playground e), c') \<Rightarrow> h e c' | r \<Rightarrow> r)"

fun forC :: "('x \<Rightarrow> unit cli) \<Rightarrow> 'x list \<Rightarrow> unit cli" where
  "forC f [] = retC ()"
| "forC f (x # xs) = thenC (f x) (forC f xs)"

definition EM_DASH :: string where
  "EM_DASH = [CHR 0xE2, CHR 0x80, CHR 0x94]"

section \<open>Paths\<close>

type_synonym path = "string list"

definition path_str :: "path \<Rightarrow> string" where
  "path_str p = (if p = [] then ''/'' else concat (map (\<lambda>s. ''/'' @ s) p))"

text \<open>The parts of \<open>p.relative_to(root)\<close>.\<close>

fun relative_to :: "path \<Rightarrow> path \<Rightarrow> path option" where
  "relative_to p [] = Some p"
| "relative_to [] (r # rs) = None"
| "relative_to (p # ps) (r # rs) = (if p = r then relative_to ps rs else None)"

section \<open>Listing and validating\<close>

record cli_env =
  ce_load :: "playground_error + loaded_registry"
  ce_by_ref :: "string \<Rightarrow> pyexc + agent_manifest"
  ce_validate :: "json_dict \<Rightarrow> pyexc + trust_spec"
  ce_caps :: capability_report
  ce_schema :: "json \<Rightarrow> json_dict \<Rightarrow> schema_outcome"
  ce_float_text :: "pyfloat \<Rightarrow> string"
  ce_root :: path

abbreviation step_types :: "scenario_version \<Rightarrow> string list" where
  "step_types sv \<equiv> List.map_filter ws_type (sp_steps (sv_spec sv))"

definition sdk_feature_lines :: "capability_report \<Rightarrow> scenario_version \<Rightarrow> string list \<times> bool" where
  "sdk_feature_lines caps sv =
     (let required = required_sdk_features (step_types sv)
      in if required = [] then ([], True)
         else
           (let missing = missing_sdk_features (step_types sv) caps;
                version = (if given_text (cap_version caps) then the (cap_version caps) else ''(none)'');
                parts = map (\<lambda>f. if f \<in> set missing then f @ '' (MISSING in aitp-sdk '' @ version @ '')'' else f @ '' (available)'') required
            in ([''sdk features: '' @ join_str '', '' parts], missing = [])))"

definition cmd_list :: "cli_env \<Rightarrow> int cli" where
  "cmd_list ce =
     bindC (of_registry (ce_load ce)) (\<lambda>reg.
       let scenarios = map snd (lr_scenarios reg)
       in thenC (print ((str_nat (length scenarios) @ '' scenarios:'')
            # map (\<lambda>s. ''  - '' @ scenario_key s @ ''  '' @ EM_DASH @ '' '' @ sm_name (sv_metadata s)) scenarios))
          (retC 0))"

definition validate_template :: "cli_env \<Rightarrow> scenario_version \<Rightarrow> scenario_template \<Rightarrow> unit cli" where
  "validate_template ce sv tpl =
     thenC (print [''ok    template '' @ tp_name tpl])
     (bindC (lift_api (case apply_template (ce_validate ce) sv tpl of Inl e \<Rightarrow> Inl (Unhandled e) | Inr m \<Rightarrow> Inr m)) (\<lambda>merged.
       print (map (\<lambda>l. ''        '' @ l) (fst (sdk_feature_lines (ce_caps ce) merged)))))"

definition validate_scenario :: "cli_env \<Rightarrow> loaded_registry \<Rightarrow> scenario_version \<Rightarrow> unit cli" where
  "validate_scenario ce reg sv =
     (let ref = scenario_key sv
      in thenC (print ((''ok  '' @ ref) # map (\<lambda>l. ''      '' @ l) (fst (sdk_feature_lines (ce_caps ce) sv))))
         (bindC (of_registry (list_templates reg ref)) (forC (validate_template ce sv))))"

definition in_subset :: "path \<Rightarrow> scenario_version \<Rightarrow> bool" where
  "in_subset rel s \<longleftrightarrow> sm_pack (sv_metadata s) = hd rel \<and> (length rel < 2 \<or> sm_scenario (sv_metadata s) = rel ! 1)"

text \<open>The target is resolved; the flag says whether it is a directory.\<close>

definition cmd_validate :: "cli_env \<Rightarrow> path \<Rightarrow> bool \<Rightarrow> int cli" where
  "cmd_validate ce target is_dir =
     catch_playground
       (bindC (of_registry (ce_load ce)) (\<lambda>reg.
          let scenarios = map snd (lr_scenarios reg)
          in if is_dir \<and> target \<noteq> ce_root ce then
               (case relative_to target (ce_root ce) of
                  None \<Rightarrow> fail_with (''FAIL  '' @ path_str target @ '' not under scenarios_dir'') 1
                | Some rel \<Rightarrow> thenC (forC (validate_scenario ce reg) (filter (in_subset rel) scenarios)) (retC 0))
             else
               thenC (forC (validate_scenario ce reg) scenarios)
               (thenC (print (map (\<lambda>r. ''ok  agent '' @ r) (map fst (lr_agents reg)))) (retC 0))))
       (\<lambda>e. fail_with (''FAIL  '' @ path_str target @ '': '' @ pe_message e) 1)"

section \<open>Dry run\<close>

definition pad10 :: "string \<Rightarrow> string" where
  "pad10 s = s @ replicate (10 - length (utf8_chars s)) (CHR '' '')"

definition dry_agent :: "cli_env \<Rightarrow> loaded_registry \<Rightarrow> agent_spec \<Rightarrow> unit cli" where
  "dry_agent ce reg a =
     bindC (of_registry (get_agent_manifest (ce_by_ref ce) reg (as_ref a))) (\<lambda>m.
       print [''  - '' @ as_id a @ '' ('' @ am_framework m @ '') offers='' @ text_list (aa_offered_caps (am_aitp m))])"

definition dry_step :: "workflow_step \<Rightarrow> string" where
  "dry_step s =
     ''  - '' @ pad10 (ws_id s) @ '' ''
     @ (if given_text (ws_agent s) \<and> given_text (ws_capability s) then the (ws_agent s) @ ''.'' @ the (ws_capability s) else ''descriptive'')"

definition dry_templates :: "loaded_registry \<Rightarrow> string \<Rightarrow> unit cli" where
  "dry_templates reg ref =
     bindC (of_registry (list_templates reg ref)) (\<lambda>ts.
       if ts = [] then retC ()
       else print (''Templates available (pass --template <name> to merge):''
         # map (\<lambda>t. ''  - '' @ tp_name t @ '': '' @ strip_text (if given_text (tp_summary t) then the (tp_summary t) else ''(no summary)'')) ts))"

definition dry_plan :: "cli_env \<Rightarrow> loaded_registry \<Rightarrow> string \<Rightarrow> string option \<Rightarrow> scenario_version \<Rightarrow> int cli" where
  "dry_plan ce reg ref template sv =
     (let (feature_lines, features_ok) = sdk_feature_lines (ce_caps ce) sv; trust = sp_trust (sv_spec sv)
      in thenC (print ([''Scenario: '' @ sm_name (sv_metadata sv)] @ feature_lines
           @ [''Trust:    boundary='' @ ts_boundary trust @ '' discovery='' @ ts_discovery trust @ '' eager=''
              @ (if ts_eager trust then ''True'' else ''False''), ''Agents:'']))
         (thenC (forC (dry_agent ce reg) (sp_agents (sv_spec sv)))
         (thenC (print (''Workflow:'' # map dry_step (sp_steps (sv_spec sv))))
         (thenC (if template = None then dry_templates reg ref else retC ())
           (if features_ok then retC 0
            else fail_with ''FAIL  the installed aitp-sdk lacks a feature this scenario needs'' 1)))))"

text \<open>\<open>--inputs\<close> is JSON text; an empty text stands for no inputs.\<close>

definition cmd_dry_run :: "cli_env \<Rightarrow> string \<Rightarrow> string \<Rightarrow> string option \<Rightarrow> int cli" where
  "cmd_dry_run ce ref inputs template =
     (case (case ce_load ce of Inl e \<Rightarrow> Inl (Playground e) | Inr reg \<Rightarrow>
              (case get_scenario_resolved (ce_validate ce) reg ref template of Inl e \<Rightarrow> Inl e | Inr sv \<Rightarrow> Inr (reg, sv))) of
        Inl (Playground e) \<Rightarrow> fail_with (''FAIL  '' @ pe_message e) 1
      | Inl e \<Rightarrow> raiseC e
      | Inr (reg, sv) \<Rightarrow>
          (case (if inputs = [] then Some (JObj []) else loads inputs) of
             None \<Rightarrow> raiseC (Unhandled (PyExc ValueError None ''JSONDecodeError''))
           | Some v \<Rightarrow>
               (case (if sp_inputs_schema (sv_spec sv) = [] then SchemaOk else ce_schema ce v (sp_inputs_schema (sv_spec sv))) of
                  SchemaOk \<Rightarrow> dry_plan ce reg ref template sv
                | SchemaInvalid msg \<Rightarrow> fail_with (''inputs INVALID: '' @ msg) 1
                | SchemaRaises e \<Rightarrow> raiseC (Unhandled e))))"


section \<open>Scaffolding\<close>

definition parse_scenario_ref :: "string \<Rightarrow> pyexc + (string \<times> string \<times> string)" where
  "parse_scenario_ref ref =
     (if CHR ''@'' \<notin> set ref \<or> CHR ''/'' \<notin> set ref
      then Inl (PyExc ValueError None (''expected <pack>/<scenario>@<version>, got '' @ repr_str ref))
      else
        (let (head, version) = partition_on (CHR ''@'') ref
         in if CHR ''/'' \<notin> set head then Inl (PyExc ValueError None ''not enough values to unpack (expected 2, got 1)'')
            else
              (let (pack, scenario) = partition_on (CHR ''/'') head
               in if \<not> KEBAB pack then Inl (PyExc ValueError None (''pack slug must be kebab-case: '' @ repr_str pack))
                  else if \<not> KEBAB scenario then Inl (PyExc ValueError None (''scenario slug must be kebab-case: '' @ repr_str scenario))
                  else if \<not> SEMVER version then Inl (PyExc ValueError None (''version must be MAJOR.MINOR.PATCH: '' @ repr_str version))
                  else Inr (pack, scenario, version))))"

definition unlines :: "string list \<Rightarrow> string" where
  "unlines ls = concat (map (\<lambda>l. l @ [CHR 0x0A]) ls)"

definition SCENARIO_TEMPLATE :: "string \<Rightarrow> string \<Rightarrow> string \<Rightarrow> string" where
  "SCENARIO_TEMPLATE pack scenario version = unlines
     [''apiVersion: agentidentitytrustprotocol.io/playground/v1'',
      ''kind: ScenarioVersion'',
      ''metadata:'',
      ''  pack: '' @ pack,
      ''  scenario: '' @ scenario,
      ''  version: '' @ version,
      ''  name: TODO '' @ EM_DASH @ '' human-readable scenario name'',
      ''  summary: >'',
      ''    TODO '' @ EM_DASH @ '' describe what this scenario demonstrates. Keep it to a few'',
      ''    sentences; this shows up in `aitp-playground list` and on the run'',
      ''    detail.'',
      ''  tags: [intra-org]'',
      '''',
      ''spec:'',
      ''  inputs:'',
      ''    schema:'',
      ''      type: object'',
      ''      properties:'',
      ''        topic:'',
      ''          type: string'',
      ''          default: \"TODO topic\"'',
      ''      required: [topic]'',
      '''',
      ''  agents:'',
      ''    - id: researcher'',
      ''      ref: _shared/agents/researcher'',
      ''      port_offset: 0'',
      ''    - id: writer'',
      ''      ref: _shared/agents/writer'',
      ''      port_offset: 1'',
      '''',
      ''  trust:'',
      ''    boundary: intra_org'',
      ''    discovery: static'',
      ''    eager: true'',
      '''',
      ''  workflow:'',
      ''    steps:'',
      ''      - id: research'',
      ''        agent: researcher'',
      ''        capability: research.query'',
      ''        input_template: \"{{ inputs.topic }}\"'',
      ''        description: Researcher produces findings on the topic.'',
      '''',
      ''      - id: write'',
      ''        agent: writer'',
      ''        capability: write.content'',
      ''        input_from: research'',
      ''        description: Writer turns findings into a paragraph.'']"

definition PACK_TEMPLATE :: "string \<Rightarrow> string" where
  "PACK_TEMPLATE pack = unlines
     [''apiVersion: agentidentitytrustprotocol.io/playground/v1'',
      ''kind: ScenarioPack'',
      ''metadata:'',
      ''  slug: '' @ pack,
      ''  name: TODO '' @ EM_DASH @ '' human-readable pack name'',
      ''  description: TODO '' @ EM_DASH @ '' one-line description of what this pack contains.'',
      ''  tags: ['' @ pack @ '']'']"

text \<open>The files and directories of the disk. A directory or a file that may not be written raises.\<close>

record disk =
  dk_files :: "(path, string) dict"
  dk_dirs :: "path list"

definition path_exists :: "path \<Rightarrow> disk \<Rightarrow> bool" where
  "path_exists p d \<longleftrightarrow> dict_get (dk_files d) p \<noteq> None \<or> p \<in> set (dk_dirs d)"

text \<open>\<open>mkdir(parents=True, exist_ok=True)\<close>: the missing directories from the outermost on.\<close>

fun make_dirs :: "(path \<Rightarrow> bool) \<Rightarrow> path list \<Rightarrow> disk \<Rightarrow> (pyexc option) \<times> disk" where
  "make_dirs writable [] d = (None, d)"
| "make_dirs writable (p # ps) d =
     (if p \<in> set (dk_dirs d) then make_dirs writable ps d
      else if dict_get (dk_files d) p \<noteq> None \<or> \<not> writable p then (Some (PyExc OtherError None ''OSError''), d)
      else make_dirs writable ps (d\<lparr>dk_dirs := p # dk_dirs d\<rparr>))"

definition mkdir :: "(path \<Rightarrow> bool) \<Rightarrow> path \<Rightarrow> disk \<Rightarrow> (pyexc option) \<times> disk" where
  "mkdir writable p d = make_dirs writable (map (\<lambda>n. take n p) [0..<Suc (length p)]) d"

definition write_text :: "(path \<Rightarrow> bool) \<Rightarrow> path \<Rightarrow> string \<Rightarrow> disk \<Rightarrow> (pyexc option) \<times> disk" where
  "write_text writable p t d =
     (if p \<in> set (dk_dirs d) \<or> \<not> writable p then (Some (PyExc OtherError None ''OSError''), d)
      else (None, d\<lparr>dk_files := dict_set p t (dk_files d)\<rparr>))"

text \<open>\<open>directory.mkdir(...)\<close> and \<open>file.write_text(...)\<close>, one after the other.\<close>

definition create_file :: "(path \<Rightarrow> bool) \<Rightarrow> path \<Rightarrow> path \<Rightarrow> string \<Rightarrow> disk \<Rightarrow> (pyexc option) \<times> disk" where
  "create_file writable dir file t d =
     (case mkdir writable dir d of (Some e, d') \<Rightarrow> (Some e, d') | (None, d') \<Rightarrow> write_text writable file t d')"

definition relative_str :: "path \<Rightarrow> path \<Rightarrow> string" where
  "relative_str p base = (case relative_to p base of Some rel \<Rightarrow> join_str ''/'' rel | None \<Rightarrow> [])"

definition cmd_new :: "(path \<Rightarrow> bool) \<Rightarrow> path \<Rightarrow> string \<Rightarrow> disk \<Rightarrow> ((api_exc + int) \<times> console) \<times> disk" where
  "cmd_new writable base scenario_ref d =
     (case parse_scenario_ref scenario_ref of
        Inl e \<Rightarrow> (fail_with (''FAIL  '' @ exc_msg e) 2 \<lparr>co_out = [], co_err = []\<rparr>, d)
      | Inr (pack, scenario, version) \<Rightarrow>
          (let pack_dir = base @ [pack];
               scenario_dir = pack_dir @ [scenario, version];
               scenario_file = scenario_dir @ [''scenario.yaml''];
               pack_file = pack_dir @ [''pack.yaml''];
               new_pack = \<not> path_exists pack_file d
           in if path_exists scenario_file d then
                (fail_with (''FAIL  '' @ relative_str scenario_file base @ '' already exists '' @ EM_DASH
                   @ '' bump the version or delete the existing tree to re-scaffold'') 1 \<lparr>co_out = [], co_err = []\<rparr>, d)
              else
                (case (if new_pack then create_file writable pack_dir pack_file (PACK_TEMPLATE pack) d else (None, d)) of
                   (Some e, d1) \<Rightarrow> ((Inl (Unhandled e), \<lparr>co_out = [], co_err = []\<rparr>), d1)
                 | (None, d1) \<Rightarrow>
                     (case create_file writable scenario_dir scenario_file (SCENARIO_TEMPLATE pack scenario version) d1 of
                        (Some e, d2) \<Rightarrow> ((Inl (Unhandled e), \<lparr>co_out = [], co_err = []\<rparr>), d2)
                      | (None, d2) \<Rightarrow>
                          ((Inr 0,
                            \<lparr>co_out =
                               map (\<lambda>p. ''created '' @ relative_str p (butlast base)) ((if new_pack then [pack_file] else []) @ [scenario_file])
                               @ [[], ''Next: edit '' @ relative_str scenario_file (butlast base) @ '' and run:'',
                                  ''  aitp-playground validate '' @ relative_str pack_dir (butlast base),
                                  ''  aitp-playground dry-run '' @ pack @ ''/'' @ scenario @ ''@'' @ version],
                             co_err = []\<rparr>), d2)))))"


section \<open>Linting\<close>

text \<open>A pack of the command line: its directory's name and whether it holds \<open>pack.yaml\<close>, or no directory.\<close>

fun named_packs :: "(string \<Rightarrow> (string \<times> bool) option) \<Rightarrow> string list \<Rightarrow> string + (string \<times> bool) list" where
  "named_packs find_dir [] = Inr []"
| "named_packs find_dir (name # names) =
     (case find_dir name of
        None \<Rightarrow> Inl name
      | Some cand \<Rightarrow> bindE (named_packs find_dir names) (\<lambda>packs. Inr (cand # packs)))"

definition all_packs :: "(string \<times> bool \<times> bool) list \<Rightarrow> (string \<times> bool) list" where
  "all_packs entries =
     map (\<lambda>(name, is_dir, has_pack_file). (name, has_pack_file))
       (sort_key fst (filter (\<lambda>(name, is_dir, _). is_dir \<and> \<not> starts_with ''_'' name) entries))"

fun lint_packs :: "playground_error + loaded_registry \<Rightarrow> lint_env \<Rightarrow> (string \<times> bool) list \<Rightarrow> api_exc + string list" where
  "lint_packs load li [] = Inr []"
| "lint_packs load li (p # ps) = bindE (lint_pack_dir load li p) (\<lambda>fs. bindE (lint_packs load li ps) (\<lambda>rest. Inr (fs @ rest)))"

text \<open>The linter's registry is the one \<open>lint_pack_dir\<close> loads; the one here is replaced there.\<close>

definition lint_env_of :: "cli_env \<Rightarrow> lint_env" where
  "lint_env_of ce =
     \<lparr>li_reg = \<lparr>lr_packs = [], lr_scenarios = [], lr_agents = [], lr_templates = []\<rparr>, li_by_ref = ce_by_ref ce, li_validate = ce_validate ce\<rparr>"

definition cmd_lint ::
  "cli_env \<Rightarrow> (string \<Rightarrow> (string \<times> bool) option) \<Rightarrow> (string \<times> bool \<times> bool) list \<Rightarrow> string list \<Rightarrow> int cli" where
  "cmd_lint ce find_dir entries packs =
     (case (if packs \<noteq> [] then named_packs find_dir packs else Inr (all_packs entries)) of
        Inl name \<Rightarrow> fail_with (''FAIL  pack '' @ repr_str name @ '' not found under '' @ path_str (ce_root ce)) 2
      | Inr target_packs \<Rightarrow>
          bindC (lift_api (lint_packs (ce_load ce) (lint_env_of ce) target_packs)) (\<lambda>findings.
            if findings = [] then thenC (print [''ok  '' @ str_nat (length target_packs) @ '' pack(s) lint clean'']) (retC 0)
            else thenC (print ((''FAIL  '' @ str_nat (length findings) @ '' finding(s):'') # map (\<lambda>f. ''  - '' @ f) findings)) (retC 1)))"

section \<open>Tracing a run\<close>

text \<open>An answer of the playground, or the text of an \<open>httpx.HTTPError\<close>.\<close>

datatype reply = HttpFails string | Reply int string

record trace_env =
  te_post :: "json \<Rightarrow> reply"
  te_narrate :: "string \<Rightarrow> nat \<Rightarrow> reply"
  te_status :: "string \<Rightarrow> nat \<Rightarrow> reply"
  te_clock :: "nat \<Rightarrow> rat"
  te_start :: rat
  te_timeout :: pyfloat
  te_poll_secs :: pyfloat
  te_base :: string
  te_float_text :: "pyfloat \<Rightarrow> string"

datatype trace_end = TraceOver json | TraceTimedOut json | TraceHttp string | TraceRaised pyexc

definition TRACE_TERMINAL :: "json list" where
  "TRACE_TERMINAL = [JStr ''success'', JStr ''failed'', JStr ''cancelled'']"

definition text_lines :: "string \<Rightarrow> string list" where
  "text_lines t = filter (\<lambda>l. l \<noteq> []) (split_lines [] (utf8_chars t))"

definition next_status :: "reply \<Rightarrow> json \<Rightarrow> pyexc + json" where
  "next_status r status =
     (case r of
        Reply code t \<Rightarrow>
          if code = 200 then
            (case loads t of
               None \<Rightarrow> Inl (PyExc ValueError None ''JSONDecodeError'')
             | Some (JObj d) \<Rightarrow> Inr (py_or (get_json d ''status'') status)
             | Some _ \<Rightarrow> Inl (PyExc AttributeError None ''get''))
          else Inr status
      | HttpFails _ \<Rightarrow> Inr status)"

text \<open>What \<open>time.sleep\<close> raises.\<close>

definition sleep_error :: "pyfloat \<Rightarrow> pyexc option" where
  "sleep_error secs =
     (case secs of
        Fin x \<Rightarrow> if x < 0 then Some (PyExc ValueError None ''sleep length must be non-negative'') else None
      | NaN \<Rightarrow> Some (PyExc ValueError None ''Invalid value NaN (not a number)'')
      | _ \<Rightarrow> Some (PyExc OverflowError None ''timestamp too large to convert to C _PyTime_t''))"

text \<open>The loop from the \<open>n\<close>-th poll on, with the number of lines printed, the last status and the lines so far.\<close>

fun trace_loop :: "trace_env \<Rightarrow> string \<Rightarrow> nat \<Rightarrow> nat \<Rightarrow> nat \<Rightarrow> json \<Rightarrow> string list \<Rightarrow> (trace_end \<times> string list) option" where
  "trace_loop te run_id 0 n printed status out = None"
| "trace_loop te run_id (Suc k) n printed status out =
     (if \<not> fless (Fin (te_clock te n)) (fadd (Fin (te_start te)) (te_timeout te)) then Some (TraceTimedOut status, out)
      else
        (case te_narrate te run_id n of
           HttpFails m \<Rightarrow> Some (TraceHttp m, out)
         | Reply code t \<Rightarrow>
             (let lines = text_lines t;
                  out' = (if code = 200 then out @ drop printed lines else out);
                  printed' = (if code = 200 then length lines else printed)
              in case te_status te run_id n of
                   HttpFails m \<Rightarrow> Some (TraceHttp m, out')
                 | r \<Rightarrow>
                     (case next_status r status of
                        Inl e \<Rightarrow> Some (TraceRaised e, out')
                      | Inr st \<Rightarrow>
                          if \<not> hashable st then Some (TraceRaised (PyExc TypeError None ''unhashable type''), out')
                          else if st \<in> set TRACE_TERMINAL then Some (TraceOver st, out')
                          else
                            (case sleep_error (te_poll_secs te) of
                               Some e \<Rightarrow> Some (TraceRaised e, out')
                             | None \<Rightarrow> trace_loop te run_id k (Suc n) printed' st out')))))"

definition trace_result :: "trace_env \<Rightarrow> trace_end \<Rightarrow> int cli" where
  "trace_result te r =
     (case r of
        TraceOver st \<Rightarrow> retC (if st = JStr ''success'' then 0 else 1)
      | TraceTimedOut st \<Rightarrow>
          fail_with (''# timed out after '' @ te_float_text te (te_timeout te) @ ''s '' @ EM_DASH @ '' last status='' @ py_str (te_float_text te) st) 2
      | TraceHttp m \<Rightarrow> fail_with (''FAIL  playground at '' @ te_base te @ '' not reachable: '' @ m) 1
      | TraceRaised e \<Rightarrow> raiseC (Unhandled e))"

text \<open>The fuel bounds the polls; the result is \<open>None\<close> while the command has not ended.\<close>

definition cmd_trace :: "trace_env \<Rightarrow> nat \<Rightarrow> string \<Rightarrow> string \<Rightarrow> console \<Rightarrow> ((api_exc + int) \<times> console) option" where
  "cmd_trace te k scenario_ref inputs c =
     (case (if inputs = [] then Some (JObj []) else loads inputs) of
        None \<Rightarrow> Some (raiseC (Unhandled (PyExc ValueError None ''JSONDecodeError'')) c)
      | Some inp \<Rightarrow>
          (case te_post te (JObj [(''scenario_ref'', JStr scenario_ref), (''inputs'', inp)]) of
             HttpFails m \<Rightarrow> Some (trace_result te (TraceHttp m) c)
           | Reply code t \<Rightarrow>
               if code \<noteq> 202 then Some (fail_with (''FAIL  POST /runs returned '' @ str_int code @ '': '' @ t) 1 c)
               else
                 (case bindE (case loads t of None \<Rightarrow> Inl (PyExc ValueError None ''JSONDecodeError'') | Some v \<Rightarrow> Inr v)
                         (\<lambda>v. subscript v ''run_id'') of
                    Inl e \<Rightarrow> Some (raiseC (Unhandled e) c)
                  | Inr rv \<Rightarrow>
                      (let run_id = py_str (te_float_text te) rv
                       in map_option (\<lambda>(r, out). thenC (print ((''# run_id='' @ run_id @ '' scenario='' @ scenario_ref) # out)) (trace_result te r) c)
                            (trace_loop te run_id k 0 0 (JStr ''pending'') [])))))"

section \<open>Conformance\<close>

fun dumps_indent :: "nat \<Rightarrow> json \<Rightarrow> string option" where
  "dumps_indent lvl (JArr xs) =
     (if xs = [] then Some ''[]''
      else map_option (\<lambda>ts. ''['' @ join_str '','' (map (\<lambda>t. CHR 0x0A # replicate (2 * Suc lvl) (CHR '' '') @ t) ts)
             @ CHR 0x0A # replicate (2 * lvl) (CHR '' '') @ '']'')
           (all_some (map (dumps_indent (Suc lvl)) xs)))"
| "dumps_indent lvl (JObj kvs) =
     (if kvs = [] then Some ''{}''
      else map_option (\<lambda>ts. ''{'' @ join_str '','' (map (\<lambda>t. CHR 0x0A # replicate (2 * Suc lvl) (CHR '' '') @ t) ts)
             @ CHR 0x0A # replicate (2 * lvl) (CHR '' '') @ ''}'')
           (all_some (map (\<lambda>(k, v). map_option (\<lambda>t. dumps_str k @ '': '' @ t) (dumps_indent (Suc lvl) v)) kvs)))"
| "dumps_indent lvl v = dumps v"

definition count_json :: "(string, nat) dict \<Rightarrow> json" where
  "count_json d = JObj (map (\<lambda>(k, n). (k, JInt (int n))) d)"

definition report_json :: "report \<Rightarrow> json" where
  "report_json rp =
     JObj [(''fixtures_dir'', JStr (rp_fixtures_dir rp)), (''sdk_available'', JBool (rp_sdk_available rp)),
           (''sdk_version'', case rp_sdk_version rp of Some v \<Rightarrow> JStr v | None \<Rightarrow> JNull),
           (''total'', JInt (int (rp_total rp))), (''required_for_v0_1'', JInt (int (rp_required rp))),
           (''by_rfc'', count_json (rp_by_rfc rp)), (''by_tier'', count_json (rp_by_tier rp)),
           (''by_readiness'', count_json (rp_by_readiness rp)), (''metadata_errors'', JArr (map JStr (rp_errors rp))),
           (''valid'', JBool (rp_valid rp))]"

definition print_report :: "report \<Rightarrow> int cli" where
  "print_report rp =
     (let show_counts = (\<lambda>d. py_repr_json (\<lambda>_. []) (count_json d));
          sdk = (if rp_sdk_available rp then ''aitp '' @ (case rp_sdk_version rp of Some v \<Rightarrow> v | None \<Rightarrow> ''None'') else ''no aitp wheel'')
      in thenC (print
           [''Conformance corpus: '' @ rp_fixtures_dir rp, ''  installed SDK: '' @ sdk,
            ''  fixtures: '' @ str_nat (rp_total rp) @ ''  (required for v0.1: '' @ str_nat (rp_required rp) @ '')'',
            ''  by RFC:   '' @ show_counts (rp_by_rfc rp), ''  by tier:  '' @ show_counts (rp_by_tier rp),
            ''  wheel readiness: '' @ show_counts (rp_by_readiness rp)])
         (if rp_errors rp \<noteq> []
          then thenC (print ((''FAIL  '' @ str_nat (length (rp_errors rp)) @ '' metadata violation(s):'') # map (\<lambda>e. ''  - '' @ e) (rp_errors rp))) (retC 1)
          else thenC (print [''ok  fixture metadata valid'']) (retC 0)))"

text \<open>\<open>--fixtures-dir\<close> is resolved; a path is given with its entries if it is a directory. A report holds no float, so its JSON text exists.\<close>

definition cmd_conformance ::
  "cli_env \<Rightarrow> (string \<Rightarrow> string \<times> bool) \<Rightarrow> (string \<Rightarrow> fixture_file list option) \<Rightarrow> string option \<Rightarrow> bool \<Rightarrow> int cli" where
  "cmd_conformance ce resolve entries_of fixtures_dir as_json =
     (case (if given_text fixtures_dir then fixtures_dir else default_fixtures_dir resolve) of
        None \<Rightarrow> fail_with ''FAIL  could not locate the specs-repo conformance fixtures; pass --fixtures-dir <path>'' 2
      | Some dir \<Rightarrow>
          (case entries_of dir of
             None \<Rightarrow> fail_with (''FAIL  fixtures dir not found: '' @ dir) 2
           | Some entries \<Rightarrow>
               (case build_report (ce_float_text ce) dir entries (ce_caps ce) of
                  Inl e \<Rightarrow> raiseC (Unhandled e)
                | Inr rp \<Rightarrow>
                    if as_json then
                      thenC (print [the (dumps_indent 0 (report_json rp))]) (retC (if rp_valid rp then 0 else 1))
                    else print_report rp)))"


section \<open>References\<close>

lemma KEBAB_no_sep:
  assumes "KEBAB s" "\<not> low_alnum c" "c \<noteq> CHR ''-''" "c \<noteq> CHR 0x0A"
  shows "c \<notin> set s"
proof -
  let ?t = "before_final_newline s"
  have split: "set t \<subseteq> insert d (\<Union>(set ` set (split_on d t)))" for d t
  proof (induction t)
    case (Cons a t)
    then show ?case by (cases "split_on d t") (auto simp: subset_iff)
  qed simp
  have "list_all (list_all low_alnum) (split_on (CHR ''-'') ?t)" using assms(1) by (auto simp: KEBAB_def Let_def list_all_iff)
  then have "x \<in> set ?t \<Longrightarrow> low_alnum x \<or> x = CHR ''-''" for x using split [of ?t "CHR ''-''"] by (fastforce simp: list_all_iff)
  moreover have "set s \<subseteq> insert (CHR 0x0A) (set ?t)"
    by (cases s rule: rev_cases) (auto simp: before_final_newline_def)
  ultimately show ?thesis using assms by auto
qed

lemma partition_on_sep:
  "c \<notin> set a \<Longrightarrow> partition_on c (a @ c # b) = (a, b)"
  by (simp add: partition_on_def takeWhile_append dropWhile_append)

lemma partition_on_join: "c \<in> set s \<Longrightarrow> partition_on c s = (a, b) \<Longrightarrow> s = a @ c # b \<and> c \<notin> set a"
  unfolding partition_on_def
  by (auto dest: split_list_first)
    (metis (mono_tags, lifting) dropWhile_eq_Cons_conv dropWhile_eq_Nil_conv list.collapse takeWhile_dropWhile_id, metis (full_types) set_takeWhileD)

lemma parse_ref:
  "parse_scenario_ref ref = Inr (pack, scenario, version) \<longleftrightarrow>
     ref = pack @ ''/'' @ scenario @ ''@'' @ version \<and> KEBAB pack \<and> KEBAB scenario \<and> SEMVER version"
proof
  assume ok: "parse_scenario_ref ref = Inr (pack, scenario, version)"
  then obtain head where h: "CHR ''@'' \<in> set ref" "partition_on (CHR ''@'') ref = (head, version)"
    "CHR ''/'' \<in> set head" "partition_on (CHR ''/'') head = (pack, scenario)" "KEBAB pack" "KEBAB scenario" "SEMVER version"
    by (auto simp: parse_scenario_ref_def Let_def split: if_splits prod.splits)
  then show "ref = pack @ ''/'' @ scenario @ ''@'' @ version \<and> KEBAB pack \<and> KEBAB scenario \<and> SEMVER version"
    using partition_on_join [OF h(1,2)] partition_on_join [OF h(3,4)] by simp
next
  assume ok: "ref = pack @ ''/'' @ scenario @ ''@'' @ version \<and> KEBAB pack \<and> KEBAB scenario \<and> SEMVER version"
  have sep: "\<not> low_alnum (CHR ''/'')" "\<not> low_alnum (CHR ''@'')" by (simp_all add: low_alnum_def)
  have "partition_on (CHR ''@'') ref = (pack @ ''/'' @ scenario, version)" "partition_on (CHR ''/'') (pack @ ''/'' @ scenario) = (pack, scenario)"
    using ok KEBAB_no_sep [OF _ sep(2)] KEBAB_no_sep [OF _ sep(1)] partition_on_sep [of "CHR ''@''" "pack @ ''/'' @ scenario" version]
      partition_on_sep [of "CHR ''/''" pack scenario] by auto
  then show "parse_scenario_ref ref = Inr (pack, scenario, version)" using ok by (simp add: parse_scenario_ref_def)
qed

text \<open>A scenario reference is accepted exactly when it is a pack, a slash, a scenario, an at sign and a version, the two
  slugs in kebab case and the version three numbers; the parts given back are these, so that joining
  them gives the reference back.\<close>

theorem parse_ref_iff:
  "parse_scenario_ref ref = Inr (pack, scenario, version) \<longleftrightarrow>
     ref = pack @ ''/'' @ scenario @ ''@'' @ version \<and> KEBAB pack \<and> KEBAB scenario \<and> SEMVER version"
  by (rule parse_ref)

section \<open>What \<open>new\<close> writes\<close>

lemma make_dirs_files: "dk_files (snd (make_dirs writable ps d)) = dk_files d"
  by (induction writable ps d rule: make_dirs.induct) auto

lemma create_file_files:
  "create_file writable dir file t d = (eo, d') \<Longrightarrow> dk_files d' = (if eo = None then dict_set file t (dk_files d) else dk_files d)"
  using make_dirs_files [of writable _ d]
  by (auto simp: create_file_def mkdir_def write_text_def split: prod.splits option.splits if_splits) (metis snd_conv)+

definition new_files :: "path \<Rightarrow> string \<Rightarrow> (path, string) dict" where
  "new_files base ref =
     (case parse_scenario_ref ref of
        Inl _ \<Rightarrow> []
      | Inr (pack, scenario, version) \<Rightarrow>
          [(base @ [pack, ''pack.yaml''], PACK_TEMPLATE pack),
           (base @ [pack, scenario, version, ''scenario.yaml''], SCENARIO_TEMPLATE pack scenario version)])"

lemma cmd_new_files:
  assumes "cmd_new writable base ref d = (rc, d')"
  shows "dict_get (dk_files d') p \<noteq> dict_get (dk_files d) p \<Longrightarrow>
      dict_get (dk_files d) p = None \<and> dict_get (dk_files d') p = dict_get (new_files base ref) p"
  using assms
  by (auto simp: cmd_new_def new_files_def Let_def path_exists_def fail_with_def dest!: create_file_files
      split: sum.splits prod.splits option.splits if_splits)

lemma cmd_new_written:
  assumes "cmd_new writable base ref d = (rc, d')" "fst rc = Inr 0"
  shows "\<exists>pack scenario version. parse_scenario_ref ref = Inr (pack, scenario, version) \<and>
    dict_get (dk_files d) (base @ [pack, scenario, version, ''scenario.yaml'']) = None \<and>
    dict_get (dk_files d') (base @ [pack, scenario, version, ''scenario.yaml'']) = Some (SCENARIO_TEMPLATE pack scenario version) \<and>
    (path_exists (base @ [pack, ''pack.yaml'']) d \<or> dict_get (dk_files d') (base @ [pack, ''pack.yaml'']) = Some (PACK_TEMPLATE pack))"
  using assms
  by (auto simp: cmd_new_def Let_def path_exists_def fail_with_def dest!: create_file_files split: sum.splits prod.splits option.splits if_splits)


text \<open>C31: Scaffolding never touches what is there: whatever its outcome, a file that \<open>new\<close> leaves different from
  before did not exist and is the pack's or the scenario's file with the text of its template; and when it exits with 0
  the scenario's file is new and holds its template, and so does the pack's unless it was there.\<close>

theorem new_keeps_files:
  assumes "cmd_new writable base ref d = ((rc, console), d')"
  shows "(dict_get (dk_files d') p = dict_get (dk_files d) p \<or>
      dict_get (dk_files d) p = None \<and> dict_get (dk_files d') p = dict_get (new_files base ref) p) \<and>
    (rc \<noteq> Inr 0 \<or> (\<exists>pack scenario version. parse_scenario_ref ref = Inr (pack, scenario, version) \<and>
      dict_get (dk_files d) (base @ [pack, scenario, version, ''scenario.yaml'']) = None \<and>
      dict_get (dk_files d') (base @ [pack, scenario, version, ''scenario.yaml'']) = Some (SCENARIO_TEMPLATE pack scenario version) \<and>
      (path_exists (base @ [pack, ''pack.yaml'']) d \<or> dict_get (dk_files d') (base @ [pack, ''pack.yaml'']) = Some (PACK_TEMPLATE pack))))"
proof (intro conjI)
  show "dict_get (dk_files d') p = dict_get (dk_files d) p \<or>
      dict_get (dk_files d) p = None \<and> dict_get (dk_files d') p = dict_get (new_files base ref) p"
    using cmd_new_files [OF assms, of p] by blast
  show "rc \<noteq> Inr 0 \<or> (\<exists>pack scenario version. parse_scenario_ref ref = Inr (pack, scenario, version) \<and>
      dict_get (dk_files d) (base @ [pack, scenario, version, ''scenario.yaml'']) = None \<and>
      dict_get (dk_files d') (base @ [pack, scenario, version, ''scenario.yaml'']) = Some (SCENARIO_TEMPLATE pack scenario version) \<and>
      (path_exists (base @ [pack, ''pack.yaml'']) d \<or> dict_get (dk_files d') (base @ [pack, ''pack.yaml'']) = Some (PACK_TEMPLATE pack)))"
    using cmd_new_written [OF assms] unfolding fst_conv by blast
qed

section \<open>Packs without findings\<close>

lemma list_templates_mem: "list_templates reg ref = Inr ts \<Longrightarrow> ts = map snd (templates_of reg ref)"
  by (auto simp: list_templates_def bindE_Inr_iff)

lemma lint_templates_none:
  "lint_templates li ref ts = Inr [] \<Longrightarrow> t \<in> set ts \<Longrightarrow>
     KEBAB (tp_name t) \<and> (\<exists>merged. get_scenario_resolved (li_validate li) (li_reg li) ref (Some (tp_name t)) = Inr merged \<and> scenario_ok li merged)"
  by (induction li ref ts rule: lint_templates.induct)
    (auto simp: Let_def bindE_Inr_iff lint_none split: sum.splits api_exc.splits if_splits)

definition version_ok :: "lint_env \<Rightarrow> scenario_version \<Rightarrow> bool" where
  "version_ok li sv \<longleftrightarrow>
     KEBAB (sm_scenario (sv_metadata sv)) \<and> SEMVER (sm_version (sv_metadata sv)) \<and> given_text (sm_summary (sv_metadata sv)) \<and>
     scenario_ok li sv \<and>
     (\<forall>t \<in> set (map snd (templates_of (li_reg li) (scenario_key sv))). KEBAB (tp_name t) \<and>
        (\<exists>merged. get_scenario_resolved (li_validate li) (li_reg li) (scenario_key sv) (Some (tp_name t)) = Inr merged \<and> scenario_ok li merged))"

lemma lint_versions_none: "lint_versions li svs = Inr [] \<Longrightarrow> sv \<in> set svs \<Longrightarrow> version_ok li sv"
proof (induction svs)
  case (Cons s svs)
  from Cons.prems(1) obtain ts where h: "list_templates (li_reg li) (scenario_key s) = Inr ts" "lint_templates li (scenario_key s) ts = Inr []"
    "lint_versions li svs = Inr []" "lint_scenario li s (scenario_key s) = []"
    "KEBAB (sm_scenario (sv_metadata s))" "SEMVER (sm_version (sv_metadata s))" "given_text (sm_summary (sv_metadata s))"
    by (auto simp: Let_def bindE_Inr_iff split: sum.splits if_splits)
  have "version_ok li s"
    unfolding version_ok_def list_templates_mem [OF h(1), symmetric]
    using h(4-7) lint_templates_none [OF h(2)] unfolding lint_none by blast
  then show ?case using Cons h(3) by auto
qed simp

lemma lint_packs_none: "lint_packs load li ps = Inr [] \<Longrightarrow> p \<in> set ps \<Longrightarrow> lint_pack_dir load li p = Inr []"
  by (induction ps) (auto simp: bindE_Inr_iff)

text \<open>When \<open>lint\<close> exits with 0, every pack it was asked about (or every one that is there) has its \<open>pack.yaml\<close> and a name in
  kebab case, the registry loads, the pack has a scenario, and each of its scenarios, and each template of
  them merged in, meets the checks.\<close>

theorem lint_exit_zero:
  assumes "cmd_lint ce find_dir entries packs c = (Inr 0, c')"
  shows "\<exists>targets. (if packs = [] then Inr (all_packs entries) else named_packs find_dir packs) = Inr targets \<and>
    (\<forall>(slug, has_pack_file) \<in> set targets. \<not> starts_with ''_'' slug \<longrightarrow>
      has_pack_file \<and> KEBAB slug \<and>
      (\<exists>reg. ce_load ce = Inr reg \<and> (\<exists>sv \<in> set (map snd (lr_scenarios reg)). sm_pack (sv_metadata sv) = slug) \<and>
        (\<forall>sv \<in> set (map snd (lr_scenarios reg)). sm_pack (sv_metadata sv) = slug \<longrightarrow> version_ok ((lint_env_of ce)\<lparr>li_reg := reg\<rparr>) sv)))"
proof -
  obtain targets where t: "(if packs = [] then Inr (all_packs entries) else named_packs find_dir packs) = Inr targets"
    "lint_packs (ce_load ce) (lint_env_of ce) targets = Inr []"
    using assms by (auto simp: cmd_lint_def fail_with_def bindC_def lift_api_def raiseC_def retC_def print_def
        split: sum.splits if_splits prod.splits)
  have "has_pack_file \<and> KEBAB slug \<and>
      (\<exists>reg. ce_load ce = Inr reg \<and> (\<exists>sv \<in> set (map snd (lr_scenarios reg)). sm_pack (sv_metadata sv) = slug) \<and>
        (\<forall>sv \<in> set (map snd (lr_scenarios reg)). sm_pack (sv_metadata sv) = slug \<longrightarrow> version_ok ((lint_env_of ce)\<lparr>li_reg := reg\<rparr>) sv))"
    if "(slug, has_pack_file) \<in> set targets" "\<not> starts_with ''_'' slug" for slug has_pack_file
    using lint_packs_none [OF t(2) that(1)] that(2)
    by (auto simp: lint_pack_dir_def Let_def bindE_Inr_iff filter_empty_conv split: if_splits sum.splits)
      (rule lint_versions_none, assumption, force)
  with t(1) show ?thesis by (intro exI [of _ targets]) auto
qed


section \<open>What \<open>trace\<close> prints, and that it ends\<close>

definition narrated :: "trace_env \<Rightarrow> string \<Rightarrow> nat \<Rightarrow> string list option" where
  "narrated te run_id n = (case te_narrate te run_id n of Reply code t \<Rightarrow> if code = 200 then Some (text_lines t) else None | HttpFails _ \<Rightarrow> None)"

text \<open>The narration last seen in the first \<open>n\<close> polls.\<close>

primrec latest :: "trace_env \<Rightarrow> string \<Rightarrow> nat \<Rightarrow> string list" where
  "latest te run_id 0 = []"
| "latest te run_id (Suc n) = (case narrated te run_id n of Some ls \<Rightarrow> ls | None \<Rightarrow> latest te run_id n)"

definition grows :: "trace_env \<Rightarrow> string \<Rightarrow> bool" where
  "grows te run_id \<longleftrightarrow> (\<forall>n ls. narrated te run_id n = Some ls \<longrightarrow> (\<exists>more_lines. ls = latest te run_id n @ more_lines))"

lemma latest_Suc:
  assumes "grows te run_id" "te_narrate te run_id n = Reply code t"
  shows "(if code = 200 then latest te run_id n @ drop (length (latest te run_id n)) (text_lines t) else latest te run_id n) = latest te run_id (Suc n)"
    "(if code = 200 then length (text_lines t) else length (latest te run_id n)) = length (latest te run_id (Suc n))"
proof -
  have "\<exists>more_lines. text_lines t = latest te run_id n @ more_lines" if "code = 200"
    using assms that unfolding grows_def by (auto simp: narrated_def)
  then show "(if code = 200 then latest te run_id n @ drop (length (latest te run_id n)) (text_lines t) else latest te run_id n) = latest te run_id (Suc n)"
    "(if code = 200 then length (text_lines t) else length (latest te run_id n)) = length (latest te run_id (Suc n))"
    using assms(2) by (auto simp: narrated_def)
qed

lemma trace_loop_prints:
  assumes "grows te run_id" "trace_loop te run_id k n (length (latest te run_id n)) status (latest te run_id n) = Some (r, out)"
  shows "\<exists>m \<ge> n. out = latest te run_id m"
  using assms(2)
proof (induction k arbitrary: n status)
  case (Suc k)
  show ?case
  proof (cases "te_narrate te run_id n")
    case (HttpFails m)
    then show ?thesis using Suc.prems by (auto split: if_splits)
  next
    case (Reply code t)
    note this_poll = latest_Suc [OF assms(1) Reply]
    have "out = latest te run_id n \<or> out = latest te run_id (Suc n) \<or>
      (\<exists>st. trace_loop te run_id k (Suc n) (length (latest te run_id (Suc n))) st (latest te run_id (Suc n)) = Some (r, out))"
      using Suc.prems unfolding trace_loop.simps Reply reply.case Let_def this_poll
      by (auto simp del: latest.simps split: if_splits reply.splits sum.splits option.splits)
    then show ?thesis using Suc.IH [of "Suc n"] Suc_leD by blast
  qed
qed simp

lemma trace_loop_ends:
  assumes "\<not> fless (Fin (te_clock te (n + j))) (fadd (Fin (te_start te)) (te_timeout te))"
  shows "trace_loop te run_id (Suc j) n printed status out \<noteq> None"
  using assms
proof (induction j arbitrary: n printed status out)
  case 0
  then show ?case by simp
next
  case (Suc j)
  have "trace_loop te run_id (Suc j) (Suc n) p st o' \<noteq> None" for p st o' by (rule Suc.IH) (use Suc.prems in simp)
  then show ?case
    by (auto simp: trace_loop.simps(2) [of te run_id "Suc j"] Let_def simp del: trace_loop.simps split: if_splits reply.splits sum.splits option.splits)
qed


definition reported :: "trace_env \<Rightarrow> string \<Rightarrow> json \<Rightarrow> bool" where
  "reported te run_id st \<longleftrightarrow> (\<exists>n t d. te_status te run_id n = Reply 200 t \<and> loads t = Some (JObj d) \<and> get_json d ''status'' = st)"

lemma next_status_reported:
  "next_status (te_status te run_id n) status = Inr st \<Longrightarrow> st = status \<or> reported te run_id st"
  unfolding next_status_def reported_def
  by (auto simp: py_or_def split: reply.splits if_splits option.splits json.splits)

lemma trace_loop_over:
  assumes "trace_loop te run_id k n printed status out = Some (TraceOver st, out')" "status \<notin> set TRACE_TERMINAL"
  shows "reported te run_id st"
  using assms
proof (induction k arbitrary: n printed status out)
  case (Suc k)
  then obtain code t where reply: "te_status te run_id n = Reply code t"
    by (auto simp: Let_def split: if_splits reply.splits)
  then obtain st' where next_st: "next_status (te_status te run_id n) status = Inr st'"
    using Suc.prems(1) by (auto simp: Let_def split: if_splits reply.splits sum.splits)
  show ?case
  proof (cases "st' \<in> set TRACE_TERMINAL")
    case True
    then have "st = st'" using Suc.prems(1) next_st reply
      by (auto simp: Let_def split: if_splits reply.splits)
    then show ?thesis using next_status_reported [OF next_st] True Suc.prems(2) by auto
  next
    case False
    then show ?thesis using Suc.prems(1) next_st reply Suc.IH [OF _ False]
      by (auto simp: Let_def split: if_splits reply.splits option.splits)
  qed
qed simp

lemma trace_loop_result:
  assumes "\<not> fless (Fin (te_clock te j)) (fadd (Fin (te_start te)) (te_timeout te))" "grows te run_id"
  shows "\<exists>r m. trace_loop te run_id (Suc j) 0 0 (JStr ''pending'') [] = Some (r, latest te run_id m) \<and>
    (\<forall>st. r = TraceOver st \<longrightarrow> reported te run_id st)"
proof -
  obtain r out where l: "trace_loop te run_id (Suc j) 0 0 (JStr ''pending'') [] = Some (r, out)"
    using trace_loop_ends [of te 0 j] assms(1) by (metis add_0 not_None_eq surj_pair)
  have "trace_loop te run_id (Suc j) 0 (length (latest te run_id 0)) (JStr ''pending'') (latest te run_id 0) = Some (r, out)"
    using l by (simp del: trace_loop.simps)
  from trace_loop_prints [OF assms(2) this] obtain m where "out = latest te run_id m" by blast
  moreover have "JStr ''pending'' \<notin> set TRACE_TERMINAL" by (simp add: TRACE_TERMINAL_def)
  ultimately show ?thesis using l trace_loop_over by blast
qed



section \<open>Tracing against a service with its guard\<close>

text \<open>\<open>POST /runs\<close> behind \<open>require_api_key\<close>: a refusal with its status and the text of its body, or the route's answer.\<close>

definition guarded_post :: "(string \<Rightarrow> string) \<Rightarrow> api_settings \<Rightarrow> request \<Rightarrow> (deny \<Rightarrow> string) \<Rightarrow> (json \<Rightarrow> reply) \<Rightarrow> json \<Rightarrow> reply" where
  "guarded_post sha256_hex st rq render route body =
     (case require_api_key sha256_hex st rq of Inl d \<Rightarrow> Reply (deny_status d) (render d) | Inr _ \<Rightarrow> route body)"

lemma no_key_refused:
  assumes "dict_get (rq_headers rq) ''authorization'' = None"
  shows "\<exists>d. require_api_key sha256_hex st rq = Inl d \<and> deny_status d \<in> {401, 503}"
proof -
  have "bearer rq = None" using assms by (simp add: bearer_def header_def partition_on_def Let_def)
  then show ?thesis by (simp add: require_api_key_def unauthorized_def Let_def)
qed


section \<open>Witnesses\<close>

lemma demo_names: "KEBAB ''p''" "KEBAB ''s''" "SEMVER ''1.0.0''"
  by (simp_all add: KEBAB_def SEMVER_def before_final_newline_def decimal_digit_def DIGIT_ZEROS_def low_alnum_def is_digit_def)

definition demo_disk :: disk where
  "demo_disk = \<lparr>dk_files = [([''d'', ''p'', ''pack.yaml''], ''mine'')], dk_dirs = [[], [''d''], [''d'', ''p'']]\<rparr>"

theorem new_keeps_files_witness:
  "\<exists>console d'. cmd_new (\<lambda>_. True) [''d''] ''p/s@1.0.0'' demo_disk = ((Inr 0, console), d') \<and>
     dict_get (dk_files d') [''d'', ''p'', ''pack.yaml''] = Some ''mine'' \<and>
     dict_get (dk_files d') [''d'', ''p'', ''s'', ''1.0.0'', ''scenario.yaml''] = Some (SCENARIO_TEMPLATE ''p'' ''s'' ''1.0.0'')"
proof -
  have ref: "parse_scenario_ref ''p/s@1.0.0'' = Inr (''p'', ''s'', ''1.0.0'')" by (simp add: parse_ref demo_names)
  obtain console d' where run: "cmd_new (\<lambda>_. True) [''d''] ''p/s@1.0.0'' demo_disk = ((Inr 0, console), d')"
    by (simp add: cmd_new_def ref Let_def demo_disk_def path_exists_def create_file_def mkdir_def write_text_def upt_rec)
  show ?thesis
    using new_keeps_files [OF run, of "[''d'', ''p'', ''pack.yaml'']"] new_keeps_files [OF run, of "[''d'', ''p'', ''s'', ''1.0.0'', ''scenario.yaml'']"] run
    by (auto simp: demo_disk_def new_files_def ref)
qed

definition demo_version :: scenario_version where
  "demo_version = (demo_linted demo_write)\<lparr>sv_metadata := \<lparr>sm_pack = ''p'', sm_scenario = ''s'', sm_version = ''1.0.0'', sm_name = ''n'',
     sm_summary = Some ''x'', sm_tags = []\<rparr>\<rparr>"

definition demo_cli :: cli_env where
  "demo_cli = \<lparr>ce_load = Inr \<lparr>lr_packs = [], lr_scenarios = [(''p/s@1.0.0'', demo_version)], lr_agents = [(''a'', demo_manifest)], lr_templates = []\<rparr>,
     ce_by_ref = li_by_ref demo_lint, ce_validate = li_validate demo_lint, ce_caps = demo_caps, ce_schema = (\<lambda>_ _. SchemaOk),
     ce_float_text = (\<lambda>_. []), ce_root = [''d'']\<rparr>"

lemma demo_version_clean: "lint_scenario ((lint_env_of demo_cli)\<lparr>li_reg := projr (ce_load demo_cli)\<rparr>) demo_version label = []"
  by (simp add: lint_none scenario_ok_def manifest_of_def manifests_def List.map_filter_def step_ok_def step_refs_def given_text_def offers_def
      demo_write_def demo_lint_defs demo_version_def demo_cli_def lint_env_of_def)

lemma demo_lint_exit: "\<exists>c'. cmd_lint demo_cli (\<lambda>n. Some (n, True)) [] [''p''] \<lparr>co_out = [], co_err = []\<rparr> = (Inr 0, c')"
proof -
  have "lint_versions ((lint_env_of demo_cli)\<lparr>li_reg := projr (ce_load demo_cli)\<rparr>) [demo_version] = Inr []"
    using demo_version_clean
    by (simp add: demo_names demo_version_def given_text_def list_templates_def get_scenario_def templates_of_def demo_cli_def scenario_key_def)
  then have "lint_pack_dir (ce_load demo_cli) (lint_env_of demo_cli) (''p'', True) = Inr []"
    by (simp add: lint_pack_dir_def demo_names demo_cli_def) (simp add: demo_version_def)
  then show ?thesis by (simp add: cmd_lint_def bindC_def lift_api_def retC_def print_def)
qed

theorem lint_exit_zero_witness:
  "version_ok ((lint_env_of demo_cli)\<lparr>li_reg := projr (ce_load demo_cli)\<rparr>) demo_version"
proof -
  obtain c' where "cmd_lint demo_cli (\<lambda>n. Some (n, True)) [] [''p''] \<lparr>co_out = [], co_err = []\<rparr> = (Inr 0, c')" using demo_lint_exit by blast
  from lint_exit_zero [OF this] show ?thesis by (auto simp: demo_cli_def)
qed

definition demo_trace :: trace_env where
  "demo_trace = \<lparr>te_post = (\<lambda>_. Reply 202 ''{\"run_id\":\"r\"}''), te_narrate = (\<lambda>_ _. Reply 200 ''a''),
     te_status = (\<lambda>_ _. Reply 200 ''{\"status\":\"success\"}''), te_clock = (\<lambda>n. of_nat n), te_start = 0, te_timeout = Fin 3,
     te_poll_secs = Fin 1, te_base = ''b'', te_float_text = (\<lambda>_. [])\<rparr>"

lemma demo_trace_grows: "grows demo_trace run_id"
proof -
  have "narrated demo_trace run_id n = Some [''a'']" for n by (simp add: narrated_def demo_trace_def text_lines_def line_ends_def)
  moreover from this have "latest demo_trace run_id n = (if n = 0 then [] else [''a''])" for n by (cases n) simp_all
  ultimately show ?thesis by (simp add: grows_def)
qed



definition demo_guarded :: trace_env where
  "demo_guarded = demo_trace\<lparr>te_post := guarded_post id \<lparr>as_playground_api_key = ''key'', as_rate_limit_per_minute = 10, as_rate_limit_burst = 5,
     as_max_runs_per_hour = 30\<rparr> \<lparr>rq_headers = [(''content-type'', ''application/json'')], rq_client_host = None\<rparr> deny_detail (te_post demo_trace)\<rparr>"


end
