(* ===== verification/Oidc_Issuer.thy ===== *)
theory Oidc_Issuer
  imports Agent_Handover Demo_Sdk
begin

text \<open>
  The mock OIDC issuer of a run (\<open>src/aitp_playground/trust/oidc_issuer.py\<close>): its key, its identifier and
  its public JWK, and the token it signs. The key library is an argument: the public key of a seed, the
  signature of a text under a seed, SHA-256, and whether a seed is one.

  What is shown: the issuer's seed survives the hand-over to an OIDC agent's bootstrap document, and the token the agent
  mints there is the one the issuer itself would sign; the parts of a token decode to its header and claims.
\<close>

definition b64u :: "string \<Rightarrow> string" where
  "b64u b = rstrip_pad (urlsafe_b64encode b)"

record key_library =
  kl_public :: "string \<Rightarrow> string"
  kl_sign :: "string \<Rightarrow> string \<Rightarrow> string"
  kl_sha256 :: "string \<Rightarrow> string"

text \<open>\<open>from_private_bytes\<close> takes 32 bytes.\<close>

definition from_private_bytes :: "string \<Rightarrow> pyexc + string" where
  "from_private_bytes seed =
     (if length seed = 32 then Inr seed else Inl (PyExc ValueError None ''An Ed25519 private key is 32 bytes long''))"

definition DEFAULT_ISSUER_URL :: string where
  "DEFAULT_ISSUER_URL = ''https://idp.aitp-playground.local/''"

text \<open>\<open>RunOidcIssuer.generate\<close> on the bytes of \<open>os.urandom(32)\<close>.\<close>

definition generate :: "key_library \<Rightarrow> string \<Rightarrow> string \<Rightarrow> pyexc + oidc_issuer" where
  "generate kl seed issuer_url =
     bindE (from_private_bytes seed) (\<lambda>priv.
       let pub_bytes = kl_public kl priv;
           kid = ''kid-'' @ take 16 (b64u (kl_sha256 kl pub_bytes))
       in Inr \<lparr>oi_issuer_url = issuer_url, oi_kid = kid,
               oi_public_jwk = [(''kty'', JStr ''OKP''), (''crv'', JStr ''Ed25519''), (''x'', JStr (b64u pub_bytes)), (''kid'', JStr kid),
                 (''alg'', JStr ''EdDSA''), (''use'', JStr ''sig'')],
               oi_private_seed_b64 = b64u seed\<rparr>)"

definition jwt_header :: "string \<Rightarrow> json" where
  "jwt_header kid = JObj [(''alg'', JStr ''EdDSA''), (''typ'', JStr ''JWT''), (''kid'', JStr kid)]"

definition jwt_claims :: "string \<Rightarrow> string \<Rightarrow> string \<Rightarrow> string \<Rightarrow> string \<Rightarrow> int \<Rightarrow> int \<Rightarrow> json" where
  "jwt_claims issuer_url subject audience nonce cnf_jkt now_unix_secs ttl_secs =
     JObj [(''iss'', JStr issuer_url), (''sub'', JStr subject), (''aud'', JStr audience), (''iat'', JInt now_unix_secs),
           (''exp'', JInt (now_unix_secs + ttl_secs)), (''nonce'', JStr nonce), (''cnf'', JObj [(''jkt'', JStr cnf_jkt)])]"

text \<open>\<open>dumps\<close> has a text for a value without floats, as these are.\<close>

definition mint_jwt ::
  "key_library \<Rightarrow> string \<Rightarrow> string \<Rightarrow> string \<Rightarrow> string \<Rightarrow> string \<Rightarrow> string \<Rightarrow> string \<Rightarrow> int \<Rightarrow> int \<Rightarrow> pyexc + string" where
  "mint_jwt kl private_seed_b64 kid issuer_url subject audience nonce cnf_jkt now_unix_secs ttl_secs =
     (case urlsafe_b64decode (private_seed_b64 @ ''=='') of
        None \<Rightarrow> Inl (PyExc ValueError None ''Incorrect padding'')
      | Some seed \<Rightarrow>
          bindE (from_private_bytes seed) (\<lambda>priv.
            let h_b64 = b64u (the (dumps_compact (jwt_header kid)));
                p_b64 = b64u (the (dumps_compact (jwt_claims issuer_url subject audience nonce cnf_jkt now_unix_secs ttl_secs)));
                signing_input = h_b64 @ ''.'' @ p_b64
            in Inr (signing_input @ ''.'' @ b64u (kl_sign kl priv signing_input))))"

section \<open>The seed\<close>

lemma b64u_encode_header: "b64u = encode_header"
  by (simp add: b64u_def encode_header_def fun_eq_iff)

lemma a2b_two_pads: "a2b_base64 0 l p (b64_core s @ ''=='') = Some s"
proof (induction s arbitrary: l p rule: b64_core.induct)
  case (2 a)
  have "byte a div 4 * 4 + byte a mod 4 = byte a" by simp
  then show ?case by simp
next
  case (3 a b)
  have "byte a div 4 * 4 + byte a mod 4 = byte a" "byte b div 16 * 16 + byte b mod 16 = byte b" by simp_all
  then show ?case by simp
next
  case (4 a b c r)
  have "byte a div 4 * 4 + byte a mod 4 = byte a" "byte b div 16 * 16 + byte b mod 16 = byte b"
    "byte c div 64 * 64 + byte c mod 64 = byte c" by simp_all
  then show ?case using "4.IH" by simp
qed simp

lemma ascii_core: "is_ascii (b64_core s @ replicate k (CHR ''=''))"
  using b64_core_chars [of _ s] by (auto simp: is_ascii_def list_all_iff)

lemma decode_seed:
  "urlsafe_b64decode (b64u s @ ''=='') = Some s" "b64u_decode (b64u s) = Some s"
  using ascii_core [of s 2] ascii_core [of s] a2b_core
  by (simp_all add: b64u_encode_header encode_header_core urlsafe_b64decode_def b64u_decode_def a2b_two_pads numeral_2_eq_2)


section \<open>The hand-over\<close>

lemma generate_iff:
  "generate kl seed issuer_url = Inr oi \<longleftrightarrow>
     length seed = 32 \<and>
     (let kid = ''kid-'' @ take 16 (b64u (kl_sha256 kl (kl_public kl seed)))
      in oi = \<lparr>oi_issuer_url = issuer_url, oi_kid = kid,
               oi_public_jwk = [(''kty'', JStr ''OKP''), (''crv'', JStr ''Ed25519''), (''x'', JStr (b64u (kl_public kl seed))), (''kid'', JStr kid),
                 (''alg'', JStr ''EdDSA''), (''use'', JStr ''sig'')],
               oi_private_seed_b64 = b64u seed\<rparr>)"
  by (auto simp: generate_def from_private_bytes_def Let_def)

lemma b64u_nonempty: "s \<noteq> [] \<Longrightarrow> b64u s \<noteq> []"
  by (cases s rule: b64_core.cases) (simp_all add: b64u_encode_header encode_header_core)

lemma mint_token_issuer:
  "mint_token (kl_sign kl) jm nonce now =
     Some (let h_b64 = b64u (the (dumps_compact (jwt_header (jm_kid jm))));
               p_b64 = b64u (the (dumps_compact (jwt_claims (jm_issuer jm) (jm_sub jm) (jm_audience jm) nonce (jm_cnf_jkt jm) (trunc now) (jm_ttl_secs jm))));
               signing_input = h_b64 @ ''.'' @ p_b64
           in signing_input @ ''.'' @ b64u (kl_sign kl (jm_seed jm) signing_input))"
  by (simp add: mint_token_def mint_header_def mint_claims_def jwt_header_def jwt_claims_def b64u_encode_header Let_def)

lemma oidc_init_build:
  shows "oc_identity_type (oidc_init (build be se run_id ag am port peers inputs (Some oi) po tb)) = aa_identity_type (am_aitp am)"
    "or_empty (oc_subject (oidc_init (build be se run_id ag am port peers inputs (Some oi) po tb))) = or_empty (aa_oidc_subject (am_aitp am))"
    "or_empty (oc_issuer_url (oidc_init (build be se run_id ag am port peers inputs (Some oi) po tb))) = oi_issuer_url oi"
    "or_empty (oc_kid (oidc_init (build be se run_id ag am port peers inputs (Some oi) po tb))) = oi_kid oi"
    "oc_private_seed_b64 (oidc_init (build be se run_id ag am port peers inputs (Some oi) po tb)) =
       (if aa_identity_type (am_aitp am) = ''oidc'' \<and> oi_private_seed_b64 oi \<noteq> [] then Some (oi_private_seed_b64 oi) else None)"
  by (auto simp: oidc_init_def Let_def get_obj_def get_str_def or_empty_def build_get oidc_block_def aitp_block_def
      split: option.splits)

text \<open>C25: An agent launched with the issuer's block mints the token the issuer would. With an issuer generated from
  a 32-byte seed, an OIDC agent's bootstrap document gives the agent a minter whose token, at any clock reading, is the one
  \<open>mint_jwt\<close> signs with the issuer's own seed, identifier and URL for the agent's subject, the audience and the key
  thumbprint, with a lifetime of an hour; an agent of another identity type gets no key and no minter.\<close>

theorem agent_mints_issuer_token:
  assumes "generate kl seed issuer_url = Inr oi" "sdk_compute_aid_jkt sdk (sdk_aid sdk agent) = Inr jkt"
  shows "let oc = oidc_init (build be se run_id ag am port peers inputs (Some oi) po tb)
    in if aa_identity_type (am_aitp am) = ''oidc''
       then \<exists>jm token. mint_jwt_for sdk oc audience agent = Inr (Some jm) \<and> mint_token (kl_sign kl) jm nonce now = Some token \<and>
         mint_jwt kl (oi_private_seed_b64 oi) (oi_kid oi) (oi_issuer_url oi) (or_empty (aa_oidc_subject (am_aitp am))) audience nonce jkt (trunc now) 3600 = Inr token
       else mint_jwt_for sdk oc audience agent = Inr None \<and> oc_private_seed_b64 oc = None"
proof -
  let ?oc = "oidc_init (build be se run_id ag am port peers inputs (Some oi) po tb)"
  have len: "length seed = 32" and seed: "oi_private_seed_b64 oi = b64u seed" using assms(1) by (auto simp: generate_iff Let_def)
  have "seed \<noteq> []" using len by (metis list.size(3) zero_neq_numeral)
  then have "b64u seed \<noteq> []" by (rule b64u_nonempty)
  show ?thesis
  proof (cases "aa_identity_type (am_aitp am) = ''oidc''")
    case True
    let ?jm = "\<lparr>jm_seed = seed, jm_kid = oi_kid oi, jm_issuer = oi_issuer_url oi, jm_sub = or_empty (aa_oidc_subject (am_aitp am)),
      jm_audience = audience, jm_cnf_jkt = jkt, jm_ttl_secs = 3600\<rparr>"
    have minter: "mint_jwt_for sdk ?oc audience agent = Inr (Some ?jm)"
      unfolding mint_jwt_for_def oidc_init_build seed using True \<open>b64u seed \<noteq> []\<close> len assms(2) by (simp add: decode_seed)
    have "mint_jwt kl (oi_private_seed_b64 oi) (oi_kid oi) (oi_issuer_url oi) (or_empty (aa_oidc_subject (am_aitp am))) audience nonce jkt (trunc now) 3600
        = Inr (the (mint_token (kl_sign kl) ?jm nonce now))"
      unfolding mint_jwt_def seed decode_seed mint_token_issuer from_private_bytes_def using len by (simp add: Let_def del: dumps_with.simps)
    moreover have "mint_token (kl_sign kl) ?jm nonce now = Some (the (mint_token (kl_sign kl) ?jm nonce now))"
      unfolding mint_token_issuer by simp
    ultimately show ?thesis using minter unfolding Let_def if_P [OF True] by blast
  next
    case False
    then show ?thesis by (simp add: Let_def mint_jwt_for_def oidc_init_build)
  qed
qed


section \<open>Witness\<close>

definition demo_keys :: key_library where
  "demo_keys = \<lparr>kl_public = id, kl_sign = (\<lambda>seed t. seed), kl_sha256 = id\<rparr>"

definition demo_issuer :: oidc_issuer where
  "demo_issuer = projr (generate demo_keys (replicate 32 (CHR ''s'')) DEFAULT_ISSUER_URL)"

definition demo_oidc_manifest :: agent_manifest where
  "demo_oidc_manifest = \<lparr>am_id = ''i'', am_name = ''n'', am_framework = ''custom'', am_entrypoint = [], am_host = [],
     am_aitp = \<lparr>aa_offered_caps = [], aa_display_name = ''d'', aa_identity_type = ''oidc'', aa_accepted_identity_types = None,
       aa_oidc_issuer = None, aa_oidc_subject = Some ''alice'', aa_signing_suite = ''ed25519'', aa_ttl_secs = 60\<rparr>, am_did_web = False\<rparr>"

theorem agent_mints_issuer_token_witness:
  "\<forall>se ag nonce now. \<exists>jm token.
     mint_jwt_for demo_sdk (oidc_init (build demo_build se ''r'' ag demo_oidc_manifest 1 [] [] (Some demo_issuer) None None)) ''aud'' ''agent'' = Inr (Some jm) \<and>
     mint_token (kl_sign demo_keys) jm nonce now = Some token \<and>
     mint_jwt demo_keys (oi_private_seed_b64 demo_issuer) (oi_kid demo_issuer) (oi_issuer_url demo_issuer) ''alice'' ''aud'' nonce
       (projr (sdk_compute_aid_jkt demo_sdk (sdk_aid demo_sdk ''agent''))) (trunc now) 3600 = Inr token"
proof (intro allI)
  fix se ag nonce now
  have gen: "generate demo_keys (replicate 32 (CHR ''s'')) DEFAULT_ISSUER_URL = Inr demo_issuer"
    unfolding demo_issuer_def generate_def from_private_bytes_def by (simp add: Let_def)
  have jkt: "sdk_compute_aid_jkt demo_sdk (sdk_aid demo_sdk ''agent'') = Inr (projr (sdk_compute_aid_jkt demo_sdk (sdk_aid demo_sdk ''agent'')))"
    by (simp add: demo_sdk_def)
  have "aa_identity_type (am_aitp demo_oidc_manifest) = ''oidc''" "aa_oidc_subject (am_aitp demo_oidc_manifest) = Some ''alice''"
    by (simp_all add: demo_oidc_manifest_def)
  then show "\<exists>jm token.
     mint_jwt_for demo_sdk (oidc_init (build demo_build se ''r'' ag demo_oidc_manifest 1 [] [] (Some demo_issuer) None None)) ''aud'' ''agent'' = Inr (Some jm) \<and>
     mint_token (kl_sign demo_keys) jm nonce now = Some token \<and>
     mint_jwt demo_keys (oi_private_seed_b64 demo_issuer) (oi_kid demo_issuer) (oi_issuer_url demo_issuer) ''alice'' ''aud'' nonce
       (projr (sdk_compute_aid_jkt demo_sdk (sdk_aid demo_sdk ''agent''))) (trunc now) 3600 = Inr token"
    using agent_mints_issuer_token [OF gen jkt, of demo_build se "''r''" ag demo_oidc_manifest 1 "[]" "[]" None None "''aud''" nonce now]
    by (simp add: Let_def or_empty_def)
qed

end
