(* ===== verification/App_Lifecycle.thy ===== *)
theory App_Lifecycle
  imports Hosted_Agents Run_Routes
begin

text \<open>
  What the service does around its runs (\<open>src/aitp_playground/main.py\<close>): the sweep of the control plane's webhooks at startup,
  the stop of every agent process at shutdown; and the deletion of a run's webhook after its end
  (\<open>_teardown_webhook\<close> of \<open>runner/engine.py\<close>). The answers of the control plane are arguments, and so are the
  identifiers the runner holds each time the sweep looks at a webhook: runs start while it waits.

  What is shown: the sweep deletes only webhooks under the service's own receiver that the runner does not hold, and counts those the
  control plane let go; a run's teardown deletes exactly the webhook its record names; the shutdown leaves no process of a stored run
  or of a hosted agent, and leaves every other process alone.
\<close>

section \<open>The sweep\<close>

definition receiver_prefix :: "string \<Rightarrow> string" where
  "receiver_prefix playground_base_url = rstrip_slash playground_base_url @ ''/webhooks/cp/''"

text \<open>The webhooks from the \<open>n\<close>-th on: the number deleted and the requests sent.\<close>

fun sweep_hooks ::
  "cp_settings \<Rightarrow> string \<Rightarrow> (nat \<Rightarrow> string set) \<Rightarrow> (nat \<Rightarrow> http_result) \<Rightarrow> nat \<Rightarrow> json_dict list \<Rightarrow> nat \<times> cp_request list" where
  "sweep_hooks cs prefix0 holding answer n [] = (0, [])"
| "sweep_hooks cs prefix0 holding answer n (hook # hooks) =
     (let rest = sweep_hooks cs prefix0 holding answer (Suc n) hooks
      in case (get_json hook ''id'', get_json hook ''url'') of
           (JStr hook_id, JStr url) \<Rightarrow>
             if \<not> starts_with prefix0 url \<or> hook_id \<in> holding n then rest
             else
               (case delete_webhook_request cs hook_id of
                  None \<Rightarrow> rest
                | Some q \<Rightarrow> (if delete_webhook (answer n) then Suc (fst rest) else fst rest, q # snd rest))
         | _ \<Rightarrow> rest)"

definition sweep_cp_webhooks ::
  "cp_settings \<Rightarrow> string \<Rightarrow> http_result \<Rightarrow> (nat \<Rightarrow> string set) \<Rightarrow> (nat \<Rightarrow> http_result) \<Rightarrow> nat \<times> cp_request list" where
  "sweep_cp_webhooks cs playground_base_url listing holding answer =
     (case list_webhooks_request cs of
        None \<Rightarrow> (0, [])
      | Some q \<Rightarrow>
          (case list_webhooks listing of
             None \<Rightarrow> (0, [q])
           | Some hooks \<Rightarrow>
               (case sweep_hooks cs (receiver_prefix playground_base_url) holding answer 0 hooks of
                  (deleted, qs) \<Rightarrow> (deleted, q # qs))))"

section \<open>The webhook of a run\<close>

text \<open>The request a teardown sends, if any, once the ingest and the grace period are over.\<close>

definition teardown_webhook :: "cp_settings \<Rightarrow> (pyfloat \<Rightarrow> string) \<Rightarrow> run_store \<Rightarrow> string \<Rightarrow> pyexc + cp_request option" where
  "teardown_webhook cs fl st run_id =
     (case py_or (get_json (case get_run_record run_id st of Some r \<Rightarrow> r | None \<Rightarrow> []) ''cp_webhook'') (JObj []) of
        JObj d \<Rightarrow>
          (let webhook_id = get_json d ''id''
           in if truthy webhook_id then Inr (delete_webhook_request cs (py_str fl webhook_id)) else Inr None)
      | _ \<Rightarrow> Inl (PyExc AttributeError None ''get''))"

section \<open>Shutdown\<close>

definition shutdown :: "os \<Rightarrow> run_store \<Rightarrow> hosted_mgr \<Rightarrow> hosted_mgr" where
  "shutdown sys st m = stop_all sys (m\<lparr>hm_sup := fold (kill_run sys) (list_ids st) (hm_sup m)\<rparr>)"

section \<open>What the sweep deletes\<close>

definition stale :: "cp_settings \<Rightarrow> string \<Rightarrow> string set \<Rightarrow> json_dict \<Rightarrow> cp_request option" where
  "stale cs prefix0 holding hook =
     (case (get_json hook ''id'', get_json hook ''url'') of
        (JStr hook_id, JStr url) \<Rightarrow>
          if starts_with prefix0 url \<and> hook_id \<notin> holding then delete_webhook_request cs hook_id else None
      | _ \<Rightarrow> None)"


definition sent :: "cp_settings \<Rightarrow> string \<Rightarrow> (nat \<Rightarrow> string set) \<Rightarrow> (nat \<times> json_dict) list \<Rightarrow> (nat \<times> cp_request) list" where
  "sent cs prefix0 holding ihs = List.map_filter (\<lambda>(i, h). map_option (Pair i) (stale cs prefix0 (holding i) h)) ihs"

lemma sent_simps:
  "sent cs prefix0 holding [] = []"
  "sent cs prefix0 holding ((i, h) # ihs) =
     (case stale cs prefix0 (holding i) h of None \<Rightarrow> [] | Some q \<Rightarrow> [(i, q)]) @ sent cs prefix0 holding ihs"
  by (simp_all add: sent_def List.map_filter_def split: option.split)

lemma sweep_hooks_exact:
  "sweep_hooks cs prefix0 holding answer n hooks =
     (length (filter (\<lambda>(i, q). delete_webhook (answer i)) (sent cs prefix0 holding (List.enumerate n hooks))),
      map snd (sent cs prefix0 holding (List.enumerate n hooks)))"
  by (induction hooks arbitrary: n) (auto simp: sent_simps stale_def Let_def split: json.split option.split)

lemma stale_iff:
  "stale cs prefix0 holding h = Some q \<longleftrightarrow>
     (\<exists>hook_id url. get_json h ''id'' = JStr hook_id \<and> get_json h ''url'' = JStr url \<and> starts_with prefix0 url \<and> hook_id \<notin> holding \<and>
       delete_webhook_request cs hook_id = Some q)"
  by (auto simp: stale_def split: json.splits if_splits)

text \<open>C34: The sweep touches only the service's own leftovers. Besides the listing it sends only deletions of a webhook the control plane
  listed, whose URL is under this service's receiver and whose identifier the runner did not hold when the sweep
  came to it, each such webhook once and in the order of the listing; it reports the number the control plane
  let go; and without a control plane, or when the listing fails, it deletes nothing.\<close>

theorem sweep_only_stale:
  assumes "sweep_cp_webhooks cs base listing holding answer = (deleted, requests)"
  shows "(case (cp_enabled cs, list_webhooks listing) of
      (True, Some hooks) \<Rightarrow>
        (\<exists>doomed. requests = cp_req cs ''GET'' ''/api/webhooks'' [] None # map snd doomed \<and>
          deleted = length (filter (\<lambda>(n, q). delete_webhook (answer n)) doomed) \<and> sorted_wrt (<) (map fst doomed) \<and>
          (\<forall>n q. (n, q) \<in> set doomed \<longleftrightarrow> n < length hooks \<and>
            (\<exists>hook_id url. get_json (hooks ! n) ''id'' = JStr hook_id \<and> get_json (hooks ! n) ''url'' = JStr url \<and>
              starts_with (receiver_prefix base) url \<and> hook_id \<notin> holding n \<and> delete_webhook_request cs hook_id = Some q)))
    | (True, None) \<Rightarrow> deleted = 0 \<and> requests = [cp_req cs ''GET'' ''/api/webhooks'' [] None]
    | (False, _) \<Rightarrow> deleted = 0 \<and> requests = [])"
proof (cases "cp_enabled cs \<and> list_webhooks listing \<noteq> None")
  case True
  then obtain hooks where hooks: "list_webhooks listing = Some hooks" by blast
  let ?doomed = "sent cs (receiver_prefix base) holding (List.enumerate 0 hooks)"
  have mem: "(n, q) \<in> set ?doomed \<longleftrightarrow> n < length hooks \<and> stale cs (receiver_prefix base) (holding n) (hooks ! n) = Some q" for n q
    by (auto simp: sent_def List.map_filter_def in_set_enumerate_eq image_iff)
  have "sorted_wrt (<) (map fst (sent cs p holding (List.enumerate k hs))) \<and> (\<forall>x \<in> fst ` set (sent cs p holding (List.enumerate k hs)). k \<le> x)" for p k hs
    by (induction hs arbitrary: k) (force simp: sent_simps split: option.split)+
  then have "sorted_wrt (<) (map fst ?doomed)" by blast
  moreover have "deleted = length (filter (\<lambda>(n, q). delete_webhook (answer n)) ?doomed)"
    "requests = cp_req cs ''GET'' ''/api/webhooks'' [] None # map snd ?doomed"
    using assms True hooks by (auto simp: sweep_cp_webhooks_def list_webhooks_request_def sweep_hooks_exact)
  ultimately show ?thesis using True hooks mem unfolding stale_iff by auto
next
  case False
  then show ?thesis using assms
    by (auto simp: sweep_cp_webhooks_def list_webhooks_request_def split: option.splits bool.splits)
qed


section \<open>What the shutdown stops\<close>

definition stopped_key :: "run_store \<Rightarrow> hosted_mgr \<Rightarrow> string \<Rightarrow> bool" where
  "stopped_key st m key \<longleftrightarrow>
     (\<exists>run_id \<in> set (list_ids st). of_run run_id key) \<or>
     (\<exists>hosted_id h. get_hosted hosted_id m = Some h \<and> key = agent_key (hosted_run_id hosted_id) (ha_agent_id h))"

text \<open>A live process is in the table or was signalled.\<close>

definition accounted :: "string \<Rightarrow> int \<Rightarrow> supervisor \<Rightarrow> bool" where
  "accounted key pid s \<longleftrightarrow> dict_get (sv_processes s) key = Some pid \<or> pid \<in> set (sv_signalled s)"

lemma accounted_kill_agent: "os_poll sys pid = None \<Longrightarrow> accounted key pid s \<Longrightarrow> accounted key pid (kill_agent sys run_id a s)"
  by (auto simp: accounted_def kill_agent_processes kill_agent_signalled)

lemma accounted_kill_run:
  assumes "os_poll sys pid = None" "accounted key pid s"
  shows "accounted key pid (kill_run sys run_id s)"
proof -
  have "accounted key pid (fold (kill_key sys run_id) ks s)" for ks
    using assms(2) by (induction ks arbitrary: s) (auto simp: kill_key_def accounted_kill_agent [OF assms(1)])
  then show ?thesis by (simp add: kill_run_def)
qed

lemma kill_runs:
  assumes "\<forall>run_id \<in> set ids. CHR '':'' \<notin> set run_id"
  shows "dict_get (sv_processes (fold (kill_run sys) ids s)) key =
      (if \<exists>run_id \<in> set ids. of_run run_id key then None else dict_get (sv_processes s) key)"
    "os_poll sys pid = None \<Longrightarrow> accounted key pid s \<Longrightarrow> accounted key pid (fold (kill_run sys) ids s)"
  using assms by (induction ids arbitrary: s) (auto simp: kill_run_processes accounted_kill_run)

lemma stop_each:
  fixes m :: hosted_mgr
  defines "each \<equiv> \<lambda>sys ids (m :: hosted_mgr). fold (\<lambda>hosted_id m. snd (stop_hosted sys hosted_id m)) ids m"
  shows "dict_get (sv_processes (hm_sup (each sys ids m))) key =
      (if \<exists>hosted_id \<in> set ids. \<exists>h. get_hosted hosted_id m = Some h \<and> key = agent_key (hosted_run_id hosted_id) (ha_agent_id h) then None
       else dict_get (sv_processes (hm_sup m)) key)"
    "os_poll sys pid = None \<Longrightarrow> accounted key pid (hm_sup m) \<Longrightarrow> accounted key pid (hm_sup (each sys ids m))"
    "get_hosted i (each sys ids m) = (if i \<in> set ids then None else get_hosted i m)"
  unfolding each_def
  by (induction ids arbitrary: m)
    (auto simp: stop_hosted_def get_hosted_def kill_agent_processes accounted_kill_agent split: option.splits)


text \<open>C35: The shutdown stops every agent of the service and nothing else. With run identifiers free of colons (they are UUIDs), after it the table
  of processes has lost exactly those of the stored runs and of the hosted agents; each of these that was alive was
  signalled; and no agent is hosted any more.\<close>

theorem shutdown_stops_agents:
  assumes "\<forall>run_id \<in> set (list_ids st). CHR '':'' \<notin> set run_id"
  shows "dict_get (sv_processes (hm_sup (shutdown sys st m))) key =
      (if stopped_key st m key then None else dict_get (sv_processes (hm_sup m)) key) \<and>
    (\<forall>pid. dict_get (sv_processes (hm_sup m)) key = Some pid \<and> os_poll sys pid = None \<and> stopped_key st m key \<longrightarrow>
      pid \<in> set (sv_signalled (hm_sup (shutdown sys st m)))) \<and>
    get_hosted hosted_id (shutdown sys st m) = None"
proof -
  let ?m = "m\<lparr>hm_sup := fold (kill_run sys) (list_ids st) (hm_sup m)\<rparr>"
  have same: "get_hosted i ?m = get_hosted i m" "hm_hosted ?m = hm_hosted m" "hm_sup ?m = fold (kill_run sys) (list_ids st) (hm_sup m)" for i
    by (simp_all add: get_hosted_def)
  have keys: "i \<in> set (dict_keys (hm_hosted m)) \<longleftrightarrow> get_hosted i m \<noteq> None" for i unfolding in_keys_iff get_hosted_def ..
  have hosted: "(\<exists>i \<in> set (dict_keys (hm_hosted m)). \<exists>h. get_hosted i m = Some h \<and> key = agent_key (hosted_run_id i) (ha_agent_id h)) \<longleftrightarrow>
      (\<exists>i h. get_hosted i m = Some h \<and> key = agent_key (hosted_run_id i) (ha_agent_id h))" using keys by blast
  have procs: "dict_get (sv_processes (hm_sup (shutdown sys st m))) key = (if stopped_key st m key then None else dict_get (sv_processes (hm_sup m)) key)"
    unfolding shutdown_def stop_all_def stop_each(1) same kill_runs(1) [OF assms] stopped_key_def hosted by auto
  have "pid \<in> set (sv_signalled (hm_sup (shutdown sys st m)))"
    if "dict_get (sv_processes (hm_sup m)) key = Some pid" "os_poll sys pid = None" "stopped_key st m key" for pid
  proof -
    have "accounted key pid (hm_sup ?m)" unfolding same using kill_runs(2) [OF assms that(2)] that(1) by (simp add: accounted_def)
    then have "accounted key pid (hm_sup (shutdown sys st m))" unfolding shutdown_def stop_all_def by (rule stop_each(2) [OF that(2)])
    then show ?thesis using procs that(3) by (simp add: accounted_def)
  qed
  moreover have "get_hosted hosted_id (shutdown sys st m) = None"
    unfolding shutdown_def stop_all_def stop_each(3) same using keys [of hosted_id] by auto
  ultimately show ?thesis using procs by blast
qed

text \<open>The teardown of a run sends the deletion of the webhook its record names, and nothing for a run that never subscribed.\<close>

lemma teardown_exact:
  assumes "get_run_record run_id st = Some r" "get_json r ''cp_webhook'' = JObj d" "get_json d ''id'' = JStr w" "w \<noteq> []" "cp_enabled cs"
  shows "teardown_webhook cs fl st run_id = Inr (Some (cp_req cs ''DELETE'' (''/api/webhooks/'' @ w) [] None))"
  using assms by (cases d) (auto simp: teardown_webhook_def py_or_def py_str_def delete_webhook_request_def get_json_def)

lemma teardown_nothing:
  "get_run_record run_id st = None \<or> (\<exists>r. get_run_record run_id st = Some r \<and> get_json r ''cp_webhook'' = JNull) \<Longrightarrow>
   teardown_webhook cs fl st run_id = Inr None"
  by (auto simp: teardown_webhook_def py_or_def get_json_def)

section \<open>Witnesses\<close>

definition demo_cp :: cp_settings where
  "demo_cp = \<lparr>cs_base_url = ''c'', cs_api_key = ''k''\<rparr>"

definition demo_listing :: http_result where
  "demo_listing = Inr (200, ''{\"webhooks\":[{\"id\":\"a\",\"url\":\"p/webhooks/cp/r1\"},{\"id\":\"b\",\"url\":\"p/webhooks/cp/r2\"},{\"id\":\"c\",\"url\":\"q/webhooks/cp/r3\"}]}'')"

definition demo_deletion :: cp_request where
  "demo_deletion = cp_req demo_cp ''DELETE'' ''/api/webhooks/a'' [] None"

text \<open>Of three webhooks one is held by the runner and one belongs to another service.\<close>

theorem sweep_only_stale_witness:
  "sweep_cp_webhooks demo_cp ''p'' demo_listing (\<lambda>_. {''b''}) (\<lambda>_. Inr (204, [])) =
     (1, [cp_req demo_cp ''GET'' ''/api/webhooks'' [] None, demo_deletion]) \<and>
   (\<exists>hooks n url. list_webhooks demo_listing = Some hooks \<and> n < length hooks \<and> get_json (hooks ! n) ''url'' = JStr url \<and>
     starts_with (receiver_prefix ''p'') url)"
proof -
  have run: "sweep_cp_webhooks demo_cp ''p'' demo_listing (\<lambda>_. {''b''}) (\<lambda>_. Inr (204, [])) =
     (1, [cp_req demo_cp ''GET'' ''/api/webhooks'' [] None, demo_deletion])"
    "list_webhooks demo_listing \<noteq> None" "cp_enabled demo_cp" by code_simp+
  then obtain hooks where hooks: "list_webhooks demo_listing = Some hooks" by blast
  have "cp_enabled demo_cp = True" using run(3) by simp
  note sweep_only_stale [OF run(1), unfolded hooks this prod.case bool.case option.case]
  then show ?thesis
  proof (elim exE conjE)
    fix doomed
    assume d: "[cp_req demo_cp ''GET'' ''/api/webhooks'' [] None, demo_deletion] = cp_req demo_cp ''GET'' ''/api/webhooks'' [] None # map snd doomed" and
      mem: "\<forall>n q. (n, q) \<in> set doomed \<longleftrightarrow> n < length hooks \<and>
        (\<exists>hook_id url. get_json (hooks ! n) ''id'' = JStr hook_id \<and> get_json (hooks ! n) ''url'' = JStr url \<and>
          starts_with (receiver_prefix ''p'') url \<and> hook_id \<notin> {''b''} \<and> delete_webhook_request demo_cp hook_id = Some q)"
    from d obtain n q where "(n, q) \<in> set doomed" by (cases doomed) auto
    then have "n < length hooks" "\<exists>url. get_json (hooks ! n) ''url'' = JStr url \<and> starts_with (receiver_prefix ''p'') url"
      using mem by metis+
    then show ?thesis using run(1) hooks by metis
  qed
qed

definition demo_hosting_mgr :: hosted_mgr where
  "demo_hosting_mgr = demo_mgr\<lparr>hm_sup := supervisor_init\<lparr>sv_processes := [(agent_key (hosted_run_id ''h'') (ha_agent_id demo_hosted), 7)]\<rparr>\<rparr>"

theorem shutdown_stops_agents_witness:
  "\<forall>key. dict_get (sv_processes (hm_sup (shutdown \<lparr>os_poll = (\<lambda>_. None), os_reap = (\<lambda>_. None)\<rparr> run_store_init demo_hosting_mgr))) key = None"
proof
  fix key
  show "dict_get (sv_processes (hm_sup (shutdown \<lparr>os_poll = (\<lambda>_. None), os_reap = (\<lambda>_. None)\<rparr> run_store_init demo_hosting_mgr))) key = None"
    using shutdown_stops_agents [of run_store_init "\<lparr>os_poll = (\<lambda>_. None), os_reap = (\<lambda>_. None)\<rparr>" demo_hosting_mgr key]
    by (auto simp: stopped_key_def get_hosted_def demo_hosting_mgr_def demo_mgr_def list_ids_def run_store_init_def split: if_splits)
qed

end
