(* ===== verification/Console_Routes.thy ===== *)
theory Console_Routes
  imports Hosted_Agents Run_Routes
begin

text \<open>
  The read-only routes: the scenario registry (\<open>api/registry.py\<close>), the views of the control plane (\<open>api/cp.py\<close>),
  the running agents, the health check and the capability report, and the metrics (\<open>api/agents.py\<close>, \<open>api/health.py\<close>, \<open>api/metrics.py\<close>).
  A route is a function of the loaded registry, the supervisor or the control plane's answer. What pydantic
  dumps a model to is an argument.

  What is shown: the availability a listing shows for a scenario, or for a template of it, is the one the runner's
  preflight decides by, so an available one is never refused for a feature and an unavailable one always is; a view
  of the control plane sends nothing without one, degrades to an empty list on a failed answer, and counts what it shows;
  the list of running agents holds no admin token.
\<close>

section \<open>Registry\<close>

record dumps_env =
  du_pack :: "pack \<Rightarrow> json"
  du_meta :: "scenario_meta \<Rightarrow> json"
  du_scenario :: "scenario_version \<Rightarrow> json_dict"

definition sdk_requirements :: "capability_report \<Rightarrow> scenario_version \<Rightarrow> json_dict" where
  "sdk_requirements caps sv =
     (let types = List.map_filter ws_type (sp_steps (sv_spec sv))
      in [(''sdk_features_required'', JArr (map JStr (required_sdk_features types))),
          (''sdk_available'', JBool (missing_sdk_features types caps = []))])"

definition list_packs :: "dumps_env \<Rightarrow> loaded_registry \<Rightarrow> json_dict" where
  "list_packs du reg = [(''packs'', JArr (map (du_pack du) (map snd (lr_packs reg))))]"

definition list_scenarios :: "dumps_env \<Rightarrow> capability_report \<Rightarrow> loaded_registry \<Rightarrow> json_dict" where
  "list_scenarios du caps reg =
     [(''scenarios'', JArr (map (\<lambda>s. JObj (dict_merge [(''ref'', JStr (scenario_key s)), (''metadata'', du_meta du (sv_metadata s))] (sdk_requirements caps s)))
         (map snd (lr_scenarios reg))))]"

text \<open>The entry of a template; merging it may raise pydantic's \<open>ValidationError\<close>.\<close>

definition template_entry :: "(json_dict \<Rightarrow> pyexc + trust_spec) \<Rightarrow> capability_report \<Rightarrow> scenario_version \<Rightarrow> scenario_template \<Rightarrow> pyexc + json" where
  "template_entry validate caps base t =
     bindE (apply_template validate base t) (\<lambda>merged.
       Inr (JObj (dict_merge [(''name'', JStr (tp_name t)), (''summary'', jstr_opt (tp_summary t))] (sdk_requirements caps merged))))"

fun template_entries :: "(json_dict \<Rightarrow> pyexc + trust_spec) \<Rightarrow> capability_report \<Rightarrow> scenario_version \<Rightarrow> scenario_template list \<Rightarrow> pyexc + json list" where
  "template_entries validate caps base [] = Inr []"
| "template_entries validate caps base (t # ts) =
     bindE (template_entry validate caps base t) (\<lambda>x. bindE (template_entries validate caps base ts) (\<lambda>xs. Inr (x # xs)))"

definition scenario_ref :: "string \<Rightarrow> string \<Rightarrow> string \<Rightarrow> string" where
  "scenario_ref pack scenario version = pack @ ''/'' @ scenario @ ''@'' @ version"

abbreviation of_lookup :: "playground_error + 'x \<Rightarrow> api_exc + 'x" where
  "of_lookup r \<equiv> (case r of Inl e \<Rightarrow> Inl (Playground e) | Inr x \<Rightarrow> Inr x)"

definition get_scenario_view ::
  "dumps_env \<Rightarrow> (json_dict \<Rightarrow> pyexc + trust_spec) \<Rightarrow> capability_report \<Rightarrow> loaded_registry \<Rightarrow> string \<Rightarrow> string \<Rightarrow> string \<Rightarrow> api_exc + json_dict" where
  "get_scenario_view du validate caps reg pack scenario version =
     (let ref = scenario_ref pack scenario version
      in bindE (of_lookup (get_scenario reg ref)) (\<lambda>sv.
         bindE (of_lookup (list_templates reg ref)) (\<lambda>ts.
         bindE (unhandled (template_entries validate caps sv ts)) (\<lambda>entries.
           Inr (dict_set ''templates'' (JArr entries) (dict_merge (du_scenario du sv) (sdk_requirements caps sv)))))))"

definition list_scenario_templates ::
  "(json_dict \<Rightarrow> pyexc + trust_spec) \<Rightarrow> capability_report \<Rightarrow> loaded_registry \<Rightarrow> string \<Rightarrow> string \<Rightarrow> string \<Rightarrow> api_exc + json_dict" where
  "list_scenario_templates validate caps reg pack scenario version =
     (let ref = scenario_ref pack scenario version
      in bindE (of_lookup (get_scenario reg ref)) (\<lambda>base.
         bindE (of_lookup (list_templates reg ref)) (\<lambda>ts.
         bindE (unhandled (template_entries validate caps base ts)) (\<lambda>entries.
           Inr [(''ref'', JStr ref), (''templates'', JArr entries)]))))"

definition get_scenario_template ::
  "dumps_env \<Rightarrow> (json_dict \<Rightarrow> pyexc + trust_spec) \<Rightarrow> capability_report \<Rightarrow> loaded_registry \<Rightarrow> string \<Rightarrow> string \<Rightarrow> string \<Rightarrow> string \<Rightarrow> api_exc + json_dict" where
  "get_scenario_template du validate caps reg pack scenario version name =
     bindE (get_scenario_resolved validate reg (scenario_ref pack scenario version) (Some name)) (\<lambda>resolved.
       Inr (dict_merge (du_scenario du resolved) (sdk_requirements caps resolved)))"

section \<open>Views of the control plane\<close>

definition list_view :: "bool \<Rightarrow> json list \<Rightarrow> json_dict" where
  "list_view enabled items = [(''cp_enabled'', JBool enabled), (''items'', JArr items), (''count'', JInt (int (length items)))]"

text \<open>The request of a view, if one is sent, and its response; the response model refuses an item that is no object.\<close>

definition cp_list :: "cp_settings \<Rightarrow> cp_request option \<Rightarrow> string \<Rightarrow> http_result \<Rightarrow> cp_request option \<times> (api_exc + json_dict)" where
  "cp_list cs request key answer =
     (if \<not> cp_enabled cs then (None, Inr (list_view False []))
      else
        (case request of
           None \<Rightarrow> (None, Inr (list_view True []))
         | Some q \<Rightarrow>
             (Some q, unhandled (bindE (read_list key answer) (\<lambda>items.
                if \<not> list_all is_dict items then Inl (PyExc ValueError None ''CpListResponse'') else Inr (list_view True items))))))"

datatype cp_view =
  TctsView "string option" "string option" "string option" "string option" "string option" "bool option" int
  | DelegationsView "string option" "string option" "string option" "string option" "bool option" int
  | ReplayView string "string option" "string option" int
  | AgentsView
  | AnchorsView "string option"
  | KeysView "string option"

fun view_request :: "cp_settings \<Rightarrow> cp_view \<Rightarrow> cp_request option" where
  "view_request cs (TctsView issuer subject audience capability session_id active limit) =
     tcts_request cs issuer subject audience capability session_id active limit"
| "view_request cs (DelegationsView root_jti parent_jti delegator delegatee active limit) =
     delegations_request cs root_jti parent_jti delegator delegatee active limit"
| "view_request cs (ReplayView session_id since until limit) = replay_request cs session_id since until limit"
| "view_request cs AgentsView = get_list_request cs ''/api/dashboard/agents'' []"
| "view_request cs (AnchorsView namespace) = trust_anchors_request cs namespace"
| "view_request cs (KeysView namespace) = pinned_keys_request cs namespace"

fun view_key :: "cp_view \<Rightarrow> string" where
  "view_key (TctsView _ _ _ _ _ _ _) = ''tcts''"
| "view_key (DelegationsView _ _ _ _ _ _) = ''delegations''"
| "view_key (ReplayView _ _ _ _) = ''events''"
| "view_key AgentsView = ''agents''"
| "view_key (AnchorsView _) = ''trustAnchors''"
| "view_key (KeysView _) = ''pinnedKeys''"

definition list_tcts where
  "list_tcts cs issuer subject audience capability session_id active limit answer =
     cp_list cs (view_request cs (TctsView issuer subject audience capability session_id active limit)) ''tcts'' answer"

definition list_delegations where
  "list_delegations cs root_jti parent_jti delegator delegatee active limit answer =
     cp_list cs (view_request cs (DelegationsView root_jti parent_jti delegator delegatee active limit)) ''delegations'' answer"

definition replay_session where
  "replay_session cs session_id since until limit answer = cp_list cs (view_request cs (ReplayView session_id since until limit)) ''events'' answer"

definition dashboard_overview :: "cp_settings \<Rightarrow> string \<Rightarrow> http_result \<Rightarrow> cp_request option \<times> json_dict" where
  "dashboard_overview cs window answer =
     (if \<not> cp_enabled cs then (None, [(''cp_enabled'', JBool False), (''data'', JObj [])])
      else (overview_request cs window, [(''cp_enabled'', JBool True), (''data'', JObj (fetch_dashboard_overview answer))]))"

definition dashboard_agents where
  "dashboard_agents cs answer = cp_list cs (view_request cs AgentsView) ''agents'' answer"

definition list_trust_anchors where
  "list_trust_anchors cs namespace answer = cp_list cs (view_request cs (AnchorsView namespace)) ''trustAnchors'' answer"

definition list_pinned_keys where
  "list_pinned_keys cs namespace answer = cp_list cs (view_request cs (KeysView namespace)) ''pinnedKeys'' answer"

section \<open>Agents, health and metrics\<close>

definition running_asdict :: "running_agent \<Rightarrow> json_dict" where
  "running_asdict a =
     [(''run_id'', JStr (ra_run_id a)), (''agent_id'', JStr (ra_agent_id a)), (''port'', JInt (ra_port a)),
      (''pid'', case ra_pid a of Some p \<Rightarrow> JInt p | None \<Rightarrow> JNull), (''aid'', JStr (ra_aid a)), (''manifest_url'', JStr (ra_manifest_url a)),
      (''status'', JStr (ra_status a)), (''exit_code'', case ra_exit_code a of Some c \<Rightarrow> JInt c | None \<Rightarrow> JNull)]"

definition list_running_agents :: "supervisor \<Rightarrow> json_dict" where
  "list_running_agents s = [(''agents'', JArr (map (\<lambda>a. JObj (running_asdict a)) (list_running s)))]"

definition healthz :: json_dict where
  "healthz = [(''status'', JStr ''ok'')]"

definition capabilities :: "aitp_module \<Rightarrow> json_dict" where
  "capabilities m =
     (let caps = probe m
      in [(''sdk_available'', JBool (cap_sdk_available caps)), (''version'', jstr_opt (cap_version caps)),
          (''features'', JObj (map (\<lambda>(k, b). (k, JBool b)) (cap_features caps)))])"

definition metrics_endpoint :: "metrics \<Rightarrow> string \<times> string" where
  "metrics_endpoint m = (format_prometheus m, ''text/plain; version=0.0.4; charset=utf-8'')"


section \<open>Availability\<close>

abbreviation runner_types :: "scenario_version \<Rightarrow> string list" where
  "runner_types sc \<equiv> map (\<lambda>st. case ws_type st of Some t \<Rightarrow> t | None \<Rightarrow> []) (sp_steps (sv_spec sc))"

text \<open>A step without a type needs no feature, whether it is left out or read as the empty type.\<close>

lemma required_runner_types: "required_sdk_features (runner_types sc) = required_sdk_features (List.map_filter ws_type (sp_steps (sv_spec sc)))"
proof -
  have "set (List.map_filter (dict_get STEP_SDK_FEATURES) (map (\<lambda>st. case ws_type st of Some t \<Rightarrow> t | None \<Rightarrow> []) sts)) =
      set (List.map_filter (dict_get STEP_SDK_FEATURES) (List.map_filter ws_type sts))" for sts
    by (induction sts) (auto simp: List.map_filter_simps STEP_SDK_FEATURES_def split: option.splits)
  from this [of "sp_steps (sv_spec sc)"] show ?thesis unfolding required_sdk_features_def by (rule arg_cong)
qed

lemma missing_runner_types: "missing_sdk_features (runner_types sc) caps = missing_sdk_features (List.map_filter ws_type (sp_steps (sv_spec sc))) caps"
  unfolding missing_sdk_features_def required_runner_types ..

lemma get_requirements:
  "dict_get (dict_merge d (sdk_requirements caps sv)) ''sdk_available'' = Some (JBool (missing_sdk_features (runner_types sv) caps = []))"
  by (simp add: dict_merge_def sdk_requirements_def Let_def missing_runner_types)

text \<open>C26: The availability of a template is the preflight's decision. When the view of a merged template answers, and the runner has the
  same registry and capabilities, then the view says available exactly when the runner, asked to run the scenario with that template, gets past
  its preflight: an unavailable one is refused with the missing features and nothing is launched, an available one
  starts unless it was cancelled.\<close>

theorem available_iff_preflight:
  assumes "get_scenario_template du (re_trust_validate re) (re_capabilities re) reg pack scenario version name = Inr body"
    "re_registry re = Inr reg" "ar_scenario_ref ar = scenario_ref pack scenario version" "ar_template ar = Some name"
  shows "\<exists>sc. load_scenario re ar = Inr sc \<and>
    (if dict_get body ''sdk_available'' = Some (JBool True)
     then execute_run re ar w = (if is_cancelled (rid re) (es_store (rw_eng w)) then finalize_failure re ''cancelled before start'' w else started_run re ar sc w)
     else dict_get body ''sdk_available'' = Some (JBool False) \<and>
       (\<exists>missing. missing \<noteq> [] \<and> set missing \<subseteq> set (required_sdk_features (List.map_filter ws_type (sp_steps (sv_spec sc)))) \<and>
         execute_run re ar w = refuse_run re (sdk_feature_unavailable_error (ar_scenario_ref ar) missing (cap_version (re_capabilities re))) w))"
proof -
  obtain sc where sc: "load_scenario re ar = Inr sc" "body = dict_merge (du_scenario du sc) (sdk_requirements (re_capabilities re) sc)"
    using assms by (auto simp: get_scenario_template_def load_scenario_def bindE_Inr_iff)
  let ?missing = "missing_sdk_features (runner_types sc) (re_capabilities re)"
  have "set ?missing \<subseteq> set (required_sdk_features (List.map_filter ws_type (sp_steps (sv_spec sc))))"
    unfolding missing_runner_types by (auto simp: missing_sdk_features_def Let_def)
  then show ?thesis
    using sc(1) by (cases "?missing = []") (auto simp: sc(2) get_requirements execute_run_def Let_def)
qed

section \<open>Degrading\<close>

abbreviation view :: "cp_settings \<Rightarrow> cp_view \<Rightarrow> http_result \<Rightarrow> cp_request option \<times> (api_exc + json_dict)" where
  "view cs v answer \<equiv> cp_list cs (view_request cs v) (view_key v) answer"

lemma view_routes:
  "list_tcts cs a b c d e f l answer = view cs (TctsView a b c d e f l) answer"
  "list_delegations cs a b c d f l answer = view cs (DelegationsView a b c d f l) answer"
  "replay_session cs i s u l answer = view cs (ReplayView i s u l) answer"
  "dashboard_agents cs answer = view cs AgentsView answer"
  "list_trust_anchors cs n answer = view cs (AnchorsView n) answer"
  "list_pinned_keys cs n answer = view cs (KeysView n) answer"
  by (simp_all add: list_tcts_def list_delegations_def replay_session_def dashboard_agents_def list_trust_anchors_def list_pinned_keys_def)

text \<open>Every list view of the control plane degrades. Without a control plane it sends nothing and answers \<open>cp_enabled=false\<close> with no items;
  with one whose answer fails or is not JSON it answers no items; and whatever it answers, the request carries the control plane's
  headers and the count is the number of items.\<close>

theorem cp_views_degrade:
  assumes "view cs v answer = (request, response)"
  shows "(cp_enabled cs \<or> request = None \<and> response = Inr (list_view False [])) \<and>
    (\<not> cp_enabled cs \<or> answer_json answer \<noteq> None \<or> response = Inr (list_view True [])) \<and>
    (case response of Inl e \<Rightarrow> api_status e = 500 | Inr body \<Rightarrow> \<exists>items. body = list_view (cp_enabled cs) items \<and> list_all is_dict items) \<and>
    (case request of None \<Rightarrow> True | Some q \<Rightarrow> cq_headers q = cp_headers cs \<and> cq_method q = ''GET'')"
proof -
  have get: "view_request cs v = Some q \<Longrightarrow> cq_headers q = cp_headers cs \<and> cq_method q = ''GET''" for q
    by (cases v) (auto simp: tcts_request_def delegations_request_def replay_request_def trust_anchors_request_def pinned_keys_request_def
        get_list_request_def cp_req_def split: if_splits)
  have nil: "\<exists>items. list_view b [] = list_view b items \<and> list_all is_dict items" for b by (rule exI [of _ "[]"]) simp
  show ?thesis
  proof (cases "cp_enabled cs")
    case False
    then show ?thesis using assms nil by (auto simp: cp_list_def)
  next
    case True
    have fails: "answer_json answer = None \<Longrightarrow> read_list (view_key v) answer = Inr []" by (simp add: read_list_def)
    show ?thesis
    proof (cases "view_request cs v")
      case None
      then show ?thesis using assms True nil by (auto simp: cp_list_def)
    next
      case (Some q)
      then have "request = Some q" "response = unhandled (bindE (read_list (view_key v) answer) (\<lambda>items.
          if \<not> list_all is_dict items then Inl (PyExc ValueError None ''CpListResponse'') else Inr (list_view True items)))"
        using assms True by (simp_all add: cp_list_def)
      then show ?thesis using True get [OF Some] fails by (cases "read_list (view_key v) answer"; cases "answer_json answer") (auto simp: unhandled_def)
    qed
  qed
qed

text \<open>The filter \<open>active=false\<close> is not sent: the view is that without the filter.\<close>

lemma inactive_filter_dropped:
  "list_tcts cs a b c d e (Some False) l answer = list_tcts cs a b c d e None l answer"
  by (simp add: list_tcts_def tcts_request_def)

lemma running_agents_without_tokens: "list_running_agents (s\<lparr>sv_admin_tokens := tokens\<rparr>) = list_running_agents s"
  by (simp add: list_running_agents_def list_running_def)


section \<open>Witnesses\<close>

definition demo_dumps :: dumps_env where
  "demo_dumps = \<lparr>du_pack = (\<lambda>_. JNull), du_meta = (\<lambda>_. JNull), du_scenario = (\<lambda>_. [])\<rparr>"

definition demo_gated :: scenario_template where
  "demo_gated = \<lparr>tp_name = ''t'', tp_summary = None, tp_trust = None, tp_agents = None, tp_steps = Some [(blank_step ''x'')\<lparr>ws_type := Some ''renew_tct''\<rparr>]\<rparr>"

definition demo_gated_run :: run_env where
  "demo_gated_run = demo_run_env\<lparr>re_registry := Inr \<lparr>lr_packs = [], lr_scenarios = [(''p/s@1'', demo_scenario)], lr_agents = [],
     lr_templates = [(''p/s@1'', [(''t'', demo_gated)])]\<rparr>\<rparr>"

abbreviation demo_body :: json_dict where
  "demo_body \<equiv> [(''sdk_features_required'', JArr [JStr ''tct_renewal'']), (''sdk_available'', JBool False)]"

lemma demo_required: "required_sdk_features [''renew_tct''] = [''tct_renewal'']"
  by code_simp

lemma demo_gated_view:
  "get_scenario_template demo_dumps (re_trust_validate demo_gated_run) (re_capabilities demo_gated_run) (projr (re_registry demo_gated_run)) ''p'' ''s'' ''1'' ''t''
     = Inr demo_body"
  by (simp add: get_scenario_template_def get_scenario_resolved_def get_scenario_def get_template_def templates_of_def scenario_ref_def apply_template_def
      demo_gated_run_def demo_run_env_def demo_gated_def demo_scenario_def demo_dumps_def dict_merge_def sdk_requirements_def List.map_filter_simps
      missing_sdk_features_def demo_required blank_step_def Let_def)

text \<open>A template that renews a token, with an SDK that cannot.\<close>

theorem available_iff_preflight_witness:
  "\<forall>w. \<exists>missing. missing \<noteq> [] \<and>
     execute_run demo_gated_run \<lparr>ar_scenario_ref = ''p/s@1'', ar_inputs = [], ar_run_label = None, ar_template = Some ''t''\<rparr> w =
     refuse_run demo_gated_run (sdk_feature_unavailable_error ''p/s@1'' missing (cap_version (re_capabilities demo_gated_run))) w"
proof
  fix w
  have reg: "re_registry demo_gated_run = Inr (projr (re_registry demo_gated_run))" by (simp add: demo_gated_run_def)
  show "\<exists>missing. missing \<noteq> [] \<and>
     execute_run demo_gated_run \<lparr>ar_scenario_ref = ''p/s@1'', ar_inputs = [], ar_run_label = None, ar_template = Some ''t''\<rparr> w =
     refuse_run demo_gated_run (sdk_feature_unavailable_error ''p/s@1'' missing (cap_version (re_capabilities demo_gated_run))) w"
    using available_iff_preflight [OF demo_gated_view reg,
        of "\<lparr>ar_scenario_ref = ''p/s@1'', ar_inputs = [], ar_run_label = None, ar_template = Some ''t''\<rparr>" w]
    by (auto simp: scenario_ref_def)
qed

end
