(* ===== verification/Agent_Startup.thy ===== *)
theory Agent_Startup
  imports Agent_Handover Agent_Workers
begin

text \<open>
  The start of an agent process and the service that waits for it: \<open>load_bootstrap\<close> of \<open>agents/base/bootstrap.py\<close>,
  \<open>run_agent\<close>, \<open>ready_lifespan\<close> and the poll task of \<open>agents/base/aitp_server.py\<close>, against the supervisor's wait for
  the ready line. The environment, the file and the control plane's answers are arguments. The web server
  is what it is given and what is done with its socket.

  What is shown: the agent a launch returns carries the AID of the key its process started with; the process serves behind the admin guard on a socket that
  listens already; the snapshot is fetched before the ready line is printed; the poll task runs exactly where a control plane is configured, and ends with the lifespan.
\<close>

section \<open>Reading the bootstrap document\<close>

definition load_bootstrap :: "(string, string) dict \<Rightarrow> (string \<Rightarrow> pyexc + string) \<Rightarrow> pyexc + json" where
  "load_bootstrap environ read_file =
     (case env_text environ ''AITP_BOOTSTRAP_FILE'' of
        [] \<Rightarrow> Inl (PyExc RuntimeError None ''AITP_BOOTSTRAP_FILE not set'')
      | path \<Rightarrow>
          bindE (read_file path) (\<lambda>content.
            case loads content of Some v \<Rightarrow> Inr v | None \<Rightarrow> Inl (PyExc ValueError None ''bootstrap is not JSON'')))"

text \<open>The URL patterns for which the agent's HTTP clients trust the loopback certificate.\<close>

definition mounts :: "json_dict \<Rightarrow> string list" where
  "mounts bootstrap = (if loopback_trust bootstrap then [''all://localhost'', ''all://127.0.0.1''] else [])"

text \<open>The module of an agent up to its server.\<close>

definition worker_main ::
  "('a, 'r, 's) sdk \<Rightarrow> (string, string) dict \<Rightarrow> (string \<Rightarrow> pyexc + string) \<Rightarrow> rat \<Rightarrow> 's option \<Rightarrow>
    pyexc + ('a, 'r, 's) server" where
  "worker_main sdk environ read_file now store =
     bindE (load_bootstrap environ read_file) (\<lambda>v.
       case v of
         JObj bootstrap \<Rightarrow> start_worker sdk bootstrap now store
       | _ \<Rightarrow> Inl (PyExc TypeError None ''indices must be integers''))"

section \<open>Serving\<close>

text \<open>What uvicorn is given: the guarded application, the address and the certificate; and what is done with the
  socket, in order. The lifespan runs inside \<open>Serve\<close>.\<close>

datatype socket_action = BindSocket | Listen | Serve

record 'w serving =
  sg_app :: "scope \<Rightarrow> 'w \<Rightarrow> (int \<times> string) \<times> 'w"
  sg_host :: json
  sg_port :: int
  sg_certfile :: "json option"
  sg_keyfile :: "json option"
  sg_actions :: "socket_action list"

definition run_agent ::
  "(scope \<Rightarrow> 'w \<Rightarrow> (int \<times> string) \<times> 'w) \<Rightarrow> json \<Rightarrow> int \<Rightarrow> string option \<Rightarrow> json \<Rightarrow> pyexc + 'w serving" where
  "run_agent app host port admin_token tls =
     (if truthy tls
      then bindE (subscript tls ''certfile'') (\<lambda>cert. bindE (subscript tls ''keyfile'') (\<lambda>key.
             Inr \<lparr>sg_app = admin_auth app admin_token, sg_host = host, sg_port = port,
                  sg_certfile = Some cert, sg_keyfile = Some key, sg_actions = [BindSocket, Listen, Serve]\<rparr>))
      else Inr \<lparr>sg_app = admin_auth app admin_token, sg_host = host, sg_port = port,
                sg_certfile = None, sg_keyfile = None, sg_actions = [BindSocket, Listen, Serve]\<rparr>)"

text \<open>The agent process inside its lifespan: what it printed, and the poll task with what it remembers.\<close>

record ('a, 'r, 's) agent_process =
  pr_server :: "('a, 'r, 's) server"
  pr_stdout :: "string list"
  pr_poll :: "(bool option \<times> nat) option"

definition ready_line :: "string \<Rightarrow> int \<Rightarrow> string" where
  "ready_line aid port = ''AITP_AGENT_READY aid='' @ aid @ '' port='' @ str_int port @ newline"

definition start_revocation_poll :: "('a, 'r, 's) agent_process \<Rightarrow> ('a, 'r, 's) agent_process" where
  "start_revocation_poll p = (if sv_cp_configured (pr_server p) then p\<lparr>pr_poll := Some (None, 0)\<rparr> else p)"

definition stop_revocation_poll :: "('a, 'r, 's) agent_process \<Rightarrow> ('a, 'r, 's) agent_process" where
  "stop_revocation_poll p = p\<lparr>pr_poll := None\<rparr>"

text \<open>One wake-up of the poll task, if there is one.\<close>

definition poll_wake ::
  "('a, 'r, 's) sdk \<Rightarrow> http_result \<Rightarrow> (nat \<Rightarrow> rat) \<Rightarrow> ('a, 'r, 's) agent_process \<Rightarrow> ('a, 'r, 's) agent_process" where
  "poll_wake sdk answer clk p =
     (case pr_poll p of
        None \<Rightarrow> p
      | Some st \<Rightarrow>
          (case poll_tick sdk answer clk st (pr_server p) of
             (st', sv') \<Rightarrow> p\<lparr>pr_server := sv', pr_poll := Some st'\<rparr>))"

text \<open>The lifespan up to its \<open>yield\<close>; \<open>aid\<close> is the one the process was built with.\<close>

definition lifespan_enter ::
  "('a, 'r, 's) sdk \<Rightarrow> http_result \<Rightarrow> (nat \<Rightarrow> rat) \<Rightarrow> string \<Rightarrow> int \<Rightarrow> ('a, 'r, 's) server \<Rightarrow> ('a, 'r, 's) agent_process" where
  "lifespan_enter sdk answer clk aid port sv =
     (case refresh_revocations_now sdk answer False clk sv of
        (_, sv1) \<Rightarrow> start_revocation_poll \<lparr>pr_server = sv1, pr_stdout = [ready_line aid port], pr_poll = None\<rparr>)"

definition lifespan_exit :: "('a, 'r, 's) agent_process \<Rightarrow> ('a, 'r, 's) agent_process" where
  "lifespan_exit p = (if pr_poll p = None then p else stop_revocation_poll p)"

section \<open>The ready line\<close>

lemma split_space_word:
  "\<forall>c\<in>set w. \<not> is_py_space c \<Longrightarrow> split_space acc (w @ s) = split_space (acc @ w) s"
  by (induction w arbitrary: acc) auto

lemma str_nat_aux_no_space: "\<forall>c\<in>set (str_nat_aux f n). \<not> is_py_space c"
proof (induction f n rule: str_nat_aux.induct)
  case (2 f n)
  have digit: "\<not> is_py_space (char_of (48 + d :: nat))" if "d < 10" for d
    using that by (simp add: is_py_space_def)
  show ?case using 2 digit [of n] digit [of "n mod 10"] by auto
qed simp

lemma str_int_no_space: "\<forall>c\<in>set (str_int n). \<not> is_py_space c"
  using str_nat_aux_no_space by (simp add: str_int_def str_nat_def is_py_space_def)

lemma str_int_nonempty: "str_int n \<noteq> []"
  by (simp add: str_int_def str_nat_def)

lemma py_rstrip_newline:
  assumes "w \<noteq> []" "\<forall>c\<in>set w. \<not> is_py_space c"
  shows "py_rstrip (s @ w @ newline) = s @ w"
proof -
  obtain v x where "w = v @ [x]" using assms(1) by (cases w rule: rev_cases) auto
  then show ?thesis using assms(2) by (simp add: py_rstrip_def newline_def is_py_space_def)
qed

lemma ready_line_stripped:
  "py_rstrip (ready_line aid port) = READY @ '' '' @ (''aid='' @ aid) @ '' '' @ (''port='' @ str_int port)"
  using py_rstrip_newline [OF str_int_nonempty str_int_no_space, of "''AITP_AGENT_READY aid='' @ aid @ '' port=''" port]
  by (simp add: ready_line_def READY_def)

lemma ready_line_words:
  assumes "\<forall>c\<in>set aid. \<not> is_py_space c"
  shows "split_space [] (py_rstrip (ready_line aid port)) = [READY, ''aid='' @ aid, ''port='' @ str_int port]"
proof -
  have words: "\<forall>c\<in>set READY. \<not> is_py_space c" "\<forall>c\<in>set (''aid='' @ aid). \<not> is_py_space c"
    "\<forall>c\<in>set (''port='' @ str_int port). \<not> is_py_space c"
    using assms str_int_no_space by (auto simp: READY_def is_py_space_def)
  show ?thesis
    unfolding ready_line_stripped
    using split_space_word [OF words(1), of "[]"] split_space_word [OF words(2), of "[]"]
      split_space_word [OF words(3), of "[]" "[]"]
    by (simp add: is_py_space_def READY_def)
qed

lemma ready_line_fields:
  assumes "\<forall>c\<in>set aid. \<not> is_py_space c"
  shows "dict_get (ready_fields (py_rstrip (ready_line aid port))) ''aid'' = Some aid"
  unfolding ready_fields_def ready_line_words [OF assms]
  by (simp add: partition_on_def)

lemma await_ready_line:
  assumes "\<forall>c\<in>set aid. \<not> is_py_space c" "t \<le> deadline"
    and "\<forall>(u, l) \<in> set before. u \<le> deadline \<and> l \<noteq> [] \<and> \<not> starts_with READY (py_rstrip l)"
  shows "await_ready deadline (before @ (t, ready_line aid port) # rest) = Some (Ready aid)"
  using assms(3)
proof (induction before)
  case Nil
  have "starts_with READY (py_rstrip (ready_line aid port))" unfolding ready_line_stripped by simp
  moreover have "ready_line aid port \<noteq> []" by (simp add: ready_line_def)
  ultimately show ?case using assms(1,2) ready_line_fields by simp
qed auto

section \<open>Properties\<close>

lemma start_worker_agent:
  "start_worker sdk bootstrap now store = Inr sv \<Longrightarrow> create_agent sdk bootstrap = Inr (sv_agent sv)"
  by (auto simp: start_worker_def server_init_def bindE_Inr_iff Let_def)

lemma lifespan_ready_line: "pr_stdout (lifespan_enter sdk answer clk aid port sv) = [ready_line aid port]"
  by (simp add: lifespan_enter_def start_revocation_poll_def split: prod.splits)

text \<open>The snapshot is in force when the ready line is printed, if the control plane's answer verified.\<close>

lemma snapshot_before_ready:
  assumes "il_cp_base_url (sv_issued sv) = Some u"
    and "dict_get (fst (refresh_revocations_now sdk answer False clk sv)) ''verified'' \<noteq> None"
  shows "rv_snapshot (sv_revocation (pr_server (lifespan_enter sdk answer clk aid port sv))) \<noteq> None"
proof -
  obtain res rv il evs where r: "refresh_revocations sdk (sv_agent sv) answer False (clk 0) (clk 1) (clk 2) (clk 3)
      (sv_revocation sv) (sv_issued sv) = (res, rv, il, evs)" by (metis prod_cases4)
  have now: "refresh_revocations_now sdk answer False clk sv =
      ((case res of Inr d \<Rightarrow> d
        | Inl _ \<Rightarrow> [(''revoked_count'', JInt (int (revocation_len rv))), (''error'', JStr ''internal_error'')]),
       sv\<lparr>sv_revocation := rv, sv_issued := il, sv_events := sv_events sv @ evs\<rparr>)"
    unfolding refresh_revocations_now_def r Let_def by simp
  have "rv_snapshot rv \<noteq> None"
    using assms(1) r
  proof (cases rule: refresh_cases)
    case kept
    then show ?thesis using assms(2) by (cases res) (auto simp: now)
  qed (simp add: apply_snapshot_def)
  then show ?thesis
    by (simp add: lifespan_enter_def start_revocation_poll_def now)
qed

lemma run_agent_guarded:
  assumes "run_agent app host port admin_token tls = Inr sg"
  shows "sg_app sg = admin_auth app admin_token \<and> takeWhile ((\<noteq>) Serve) (sg_actions sg) = [BindSocket, Listen]
    \<and> (sg_certfile sg \<noteq> None \<longleftrightarrow> truthy tls) \<and> (sg_keyfile sg \<noteq> None \<longleftrightarrow> truthy tls)"
  using assms by (auto simp: run_agent_def bindE_Inr_iff split: if_splits)

lemma poll_runs_iff:
  "pr_poll (lifespan_enter sdk answer clk aid port sv) \<noteq> None \<longleftrightarrow> sv_cp_configured sv"
  by (auto simp: lifespan_enter_def start_revocation_poll_def refresh_revocations_now_def Let_def split: prod.splits)

lemma poll_ends: "poll_wake sdk answer clk (lifespan_exit p) = lifespan_exit p"
  by (simp add: poll_wake_def lifespan_exit_def stop_revocation_poll_def)

text \<open>
  C30: the service knows the agent it launched. When a process starts its server on a bootstrap
  document and prints what its lifespan prints, after other lines that do not look like it and before the deadline, the
  launch that waits for it returns, and the agent it returns (the one in the supervisor's table) is ready on the port of the launch under
  the AID of the key in the document. The SDK's AIDs contain no white space.
\<close>

theorem ready_agent_known:
  assumes "start_worker sdk bootstrap now store = Inr sv"
    and "\<forall>c\<in>set (sdk_aid sdk (sv_agent sv)). \<not> is_py_space c"
    and "pr_stdout (lifespan_enter sdk answer clk (sdk_aid sdk (sv_agent sv)) p sv) = [line]"
    and "sp_popen sp = Inr pid" and "sp_lines sp = before @ (t, line) # rest"
    and "deadline = sp_start sp + of_int timeout_ms / 1000" and "t \<le> deadline"
    and "\<forall>(u, l) \<in> set before. u \<le> deadline \<and> l \<noteq> [] \<and> \<not> starts_with READY (py_rstrip l)"
  shows "\<exists>a ag s'. create_agent sdk bootstrap = Inr a
    \<and> launch insecure run_id agent_id port tok timeout_ms lo sp s = Some (Inr ag, s')
    \<and> ra_aid ag = sdk_aid sdk a \<and> ra_port ag = port \<and> ra_pid ag = Some pid \<and> ra_status ag = ''ready''
    \<and> dict_get (sv_agents s') (agent_key run_id agent_id) = Some ag"
proof -
  have "line = ready_line (sdk_aid sdk (sv_agent sv)) p" using assms(3) by (simp add: lifespan_ready_line)
  then have "await_ready (sp_start sp + of_int timeout_ms / 1000) (sp_lines sp) = Some (Ready (sdk_aid sdk (sv_agent sv)))"
    using await_ready_line [OF assms(2,7,8)] assms(5,6) by simp
  then show ?thesis
    using assms(4) start_worker_agent [OF assms(1)] by (simp add: launch_def start_process_def Let_def)
qed

definition demo_document :: json_dict where
  "demo_document =
     [(''port'', JInt 9001),
      (''aitp'', JObj [(''seed_hex'', JStr ''6d65''), (''display_name'', JStr ''n''),
         (''handshake_endpoint'', JStr ''http://h/x''), (''offered_caps'', JArr [])])]"

definition demo_started :: "(string, string, nat) server" where
  "demo_started = projr (start_worker demo_sdk demo_document 5 None)"

definition demo_launch :: spawn where
  "demo_launch =
     \<lparr>sp_popen = Inr 7, sp_start = 0, sp_lines = [(0, ''INFO start''), (1, ready_line (sdk_aid demo_sdk (sv_agent demo_started)) 9001)],
      sp_rc = None, sp_stderr = []\<rparr>"

theorem ready_agent_known_witness:
  "\<exists>a ag s'. create_agent demo_sdk demo_document = Inr a
    \<and> launch True ''r'' ''a'' 9001 None 5000 None demo_launch supervisor_init = Some (Inr ag, s')
    \<and> ra_aid ag = sdk_aid demo_sdk a \<and> ra_port ag = 9001 \<and> ra_pid ag = Some 7 \<and> ra_status ag = ''ready''
    \<and> dict_get (sv_agents s') (agent_key ''r'' ''a'') = Some ag"
proof -
  have started: "start_worker demo_sdk demo_document 5 None = Inr demo_started"
  proof -
    have "\<not> isl (start_worker demo_sdk demo_document 5 None)" by code_simp
    then show ?thesis by (simp add: demo_started_def)
  qed
  have "\<forall>c\<in>set (sdk_aid demo_sdk (sv_agent demo_started)). \<not> is_py_space c" by code_simp
  from ready_agent_known [OF started this lifespan_ready_line [of demo_sdk "Inl ''down''" "\<lambda>_. 5"],
      where sp = demo_launch and pid = 7 and before = "[(0, ''INFO start'')]" and t = 1 and rest = "[]" and timeout_ms = 5000]
  show ?thesis by (simp add: demo_launch_def READY_def py_rstrip_def is_py_space_def)
qed

end
