(* ===== verification/Registry_Files.thy ===== *)
theory Registry_Files
  imports Registry Py_Text
begin

text \<open>
  How a file of the registry is read: \<open>!include\<close> of \<open>src/aitp_playground/registry/include_resolver.py\<close>,
  and the manifests found by path (\<open>load_agent_by_ref\<close> of \<open>registry/loader.py\<close>). Resolving a path on this
  host, reading a file and \<open>yaml.load\<close> are arguments; \<open>yaml.load\<close> takes what the \<open>!include\<close>
  constructor answers. The number is the depth of nested loads the interpreter's stack has room for; what is
  below it raises \<open>RecursionError\<close>, a \<open>RuntimeError\<close>.

  What is shown: where the files include each other without a cycle, every large enough depth gives the
  same result; files that include each other in a circle are refused with the interpreter's \<open>RecursionError\<close>, which
  the loader does not turn into a \<open>RegistryValidationError\<close>; the reference of a shared manifest leads back to its
  file; an absolute reference leaves the scenarios directory.
\<close>

section \<open>Paths\<close>

text \<open>\<open>a / b\<close> of two paths.\<close>

definition join_path :: "string \<Rightarrow> string \<Rightarrow> string" where
  "join_path a b =
     (if starts_with ''/'' b then b
      else if b = [] then a
      else if ends_with ''/'' a then a @ b
      else a @ ''/'' @ b)"

text \<open>\<open>Path(p).parent\<close> of the path of a file, and its name.\<close>

definition parent_of :: "string \<Rightarrow> string" where
  "parent_of p =
     (if CHR ''/'' \<notin> set p then ''.''
      else (case rsplit_once ''/'' p of [] \<Rightarrow> ''/'' | d \<Rightarrow> d))"

definition name_of :: "string \<Rightarrow> string" where
  "name_of p = rev (takeWhile (\<lambda>c. c \<noteq> CHR ''/'') (rev p))"

text \<open>\<open>with_suffix("")\<close>: a leading or a final dot starts no suffix.\<close>

definition without_suffix :: "string \<Rightarrow> string" where
  "without_suffix p =
     (let name = name_of p; b = rsplit_once ''.'' name
      in if b = [] \<or> name = b @ ''.'' then p else take (length p - (length name - length b)) p)"

section \<open>Loading\<close>

record 'v yaml_env =
  ye_resolve :: "string \<Rightarrow> pyexc + string"
  ye_exists :: "string \<Rightarrow> bool"
  ye_read :: "string \<Rightarrow> pyexc + string"
  ye_load :: "(string \<Rightarrow> pyexc + 'v) \<Rightarrow> string \<Rightarrow> pyexc + 'v"

definition recursion_error :: pyexc where
  "recursion_error = PyExc RuntimeError None ''maximum recursion depth exceeded''"

text \<open>\<open>nested\<close> loads the file at a path.\<close>

definition construct_include :: "'v yaml_env \<Rightarrow> (string \<Rightarrow> pyexc + 'v) \<Rightarrow> string \<Rightarrow> string \<Rightarrow> pyexc + 'v" where
  "construct_include env nested path rel =
     bindE (ye_resolve env (join_path (parent_of path) rel)) nested"

fun load_yaml :: "nat \<Rightarrow> 'v yaml_env \<Rightarrow> string \<Rightarrow> pyexc + 'v" where
  "load_yaml 0 env path = Inl recursion_error"
| "load_yaml (Suc n) env path =
     bindE (ye_read env path) (ye_load env (construct_include env (\<lambda>p. load_yaml n env p) path))"

text \<open>The document of a file; \<open>validate\<close> is the model's \<open>model_validate\<close>.\<close>

definition load_document :: "nat \<Rightarrow> 'v yaml_env \<Rightarrow> ('v \<Rightarrow> string + 'm) \<Rightarrow> string \<Rightarrow> api_exc + 'm" where
  "load_document n env validate path =
     (case load_yaml n env path of
        Inl e \<Rightarrow> Inl (Unhandled e)
      | Inr data \<Rightarrow>
          (case validate data of
             Inl msg \<Rightarrow> Inl (Playground (registry_validation_error (path @ '': '' @ msg)))
           | Inr m \<Rightarrow> Inr m))"

definition ref_for_agent_file :: "string \<Rightarrow> string \<Rightarrow> pyexc + string" where
  "ref_for_agent_file dir path =
     (if starts_with (dir @ ''/'') path
      then Inr (map (\<lambda>c. if c = CHR 0x5C then CHR ''/'' else c)
                  (without_suffix (drop (length dir + 1) path)))
      else Inl (PyExc ValueError None ''not in the subpath''))"

definition load_agent_by_ref ::
  "nat \<Rightarrow> 'v yaml_env \<Rightarrow> ('v \<Rightarrow> string + agent_manifest) \<Rightarrow> string \<Rightarrow> string \<Rightarrow> api_exc + agent_manifest" where
  "load_agent_by_ref n env validate dir ref =
     (let rel = (if ends_with ''.yaml'' ref then ref else ref @ ''.yaml'')
      in case ye_resolve env (join_path dir rel) of
           Inl e \<Rightarrow> Inl (Unhandled e)
         | Inr target \<Rightarrow>
             if \<not> ye_exists env target
             then Inl (Playground (registry_validation_error (''agent manifest not found for ref: '' @ ref)))
             else load_document n env validate target)"

section \<open>Includes\<close>

text \<open>
  What PyYAML's documentation says of a constructor: it is called on the nodes that carry its tag, here the
  scalars \<open>incs doc\<close>, and its exception ends the load.
\<close>

definition calls_tagged :: "'v yaml_env \<Rightarrow> (string \<Rightarrow> string list) \<Rightarrow> bool" where
  "calls_tagged env incs \<longleftrightarrow>
     (\<forall>h h' doc. (\<forall>rel\<in>set (incs doc). h rel = h' rel) \<longrightarrow> ye_load env h doc = ye_load env h' doc)"

definition raises_through :: "'v yaml_env \<Rightarrow> (string \<Rightarrow> string list) \<Rightarrow> bool" where
  "raises_through env incs \<longleftrightarrow>
     (\<forall>h doc e. incs doc \<noteq> [] \<and> (\<forall>rel\<in>set (incs doc). h rel = Inl e) \<longrightarrow> ye_load env h doc = Inl e)"

text \<open>The file at \<open>path\<close> includes the one at \<open>target\<close>.\<close>

definition file_includes :: "'v yaml_env \<Rightarrow> (string \<Rightarrow> string list) \<Rightarrow> string \<Rightarrow> string \<Rightarrow> bool" where
  "file_includes env incs path target \<longleftrightarrow>
     (\<exists>doc rel. ye_read env path = Inr doc \<and> rel \<in> set (incs doc) \<and>
        ye_resolve env (join_path (parent_of path) rel) = Inr target)"

text \<open>The file at \<open>p\<close> includes files of \<open>C\<close> only, and at least one.\<close>

definition circular :: "'v yaml_env \<Rightarrow> (string \<Rightarrow> string list) \<Rightarrow> string set \<Rightarrow> string \<Rightarrow> bool" where
  "circular env incs C p \<longleftrightarrow>
     (\<exists>doc. ye_read env p = Inr doc \<and> incs doc \<noteq> [] \<and>
        (\<forall>rel\<in>set (incs doc). \<exists>q\<in>C. ye_resolve env (join_path (parent_of p) rel) = Inr q))"

lemma load_yaml_agrees:
  assumes "calls_tagged env incs" and "\<And>p q. file_includes env incs p q \<Longrightarrow> rk q < rk p"
  shows "rk path < n \<Longrightarrow> rk path < m \<Longrightarrow> load_yaml n env path = load_yaml m env path"
proof (induction n arbitrary: m path)
  case (Suc n)
  then obtain m' where m: "m = Suc m'" by (cases m) auto
  show ?case
  proof (cases "ye_read env path")
    case (Inr doc)
    have "construct_include env (load_yaml n env) path rel = construct_include env (load_yaml m' env) path rel"
      if "rel \<in> set (incs doc)" for rel
    proof (cases "ye_resolve env (join_path (parent_of path) rel)")
      case (Inr q)
      then have "rk q < rk path"
        using that \<open>ye_read env path = Inr doc\<close> assms(2) by (auto simp: file_includes_def)
      then have "load_yaml n env q = load_yaml m' env q"
        using Suc.prems m by (intro Suc.IH) auto
      then show ?thesis using Inr by (simp add: construct_include_def)
    qed (simp add: construct_include_def)
    then have "ye_load env (construct_include env (load_yaml n env) path) doc =
        ye_load env (construct_include env (load_yaml m' env) path) doc"
      using assms(1) by (simp add: calls_tagged_def)
    then show ?thesis using Inr m by simp
  qed (simp add: m)
qed simp

lemma load_yaml_circle:
  assumes "raises_through env incs" and "\<And>p. p \<in> C \<Longrightarrow> circular env incs C p"
  shows "p \<in> C \<Longrightarrow> load_yaml n env p = Inl recursion_error"
proof (induction n arbitrary: p)
  case (Suc n)
  from assms(2) [OF Suc.prems] obtain doc where
    doc: "ye_read env p = Inr doc" "incs doc \<noteq> []" and
    inc: "\<forall>rel\<in>set (incs doc). \<exists>q\<in>C. ye_resolve env (join_path (parent_of p) rel) = Inr q"
    by (auto simp: circular_def)
  have "construct_include env (load_yaml n env) p rel = Inl recursion_error" if "rel \<in> set (incs doc)" for rel
    using inc that Suc.IH by (fastforce simp: construct_include_def)
  then show ?case using assms(1) doc by (simp add: raises_through_def)
qed simp

text \<open>
  Includes end. Where the included file always ranks below the including one (so the files
  include each other in no circle), every depth above the rank of a file loads it to the same result; files that include
  only each other, and something, raise \<open>RecursionError\<close> at every depth, and the loader passes that on as it is.
\<close>

lemma includes_end:
  assumes "calls_tagged env incs" and "raises_through env incs"
  shows "((\<forall>p q. file_includes env incs p q \<longrightarrow> rk q < rk p) \<longrightarrow>
        (\<forall>path n. rk path < n \<longrightarrow> load_yaml n env path = load_yaml (Suc (rk path)) env path)) \<and>
      ((\<forall>p\<in>C. circular env incs C p) \<longrightarrow>
        (\<forall>p\<in>C. \<forall>n. load_document n env validate p = Inl (Unhandled recursion_error)))"
proof (intro conjI impI allI ballI)
  fix path n assume "\<forall>p q. file_includes env incs p q \<longrightarrow> rk q < rk p" "rk path < n"
  then show "load_yaml n env path = load_yaml (Suc (rk path)) env path"
    using load_yaml_agrees [OF assms(1), of rk path n "Suc (rk path)"] by simp
next
  fix p n assume "\<forall>p\<in>C. circular env incs C p" "p \<in> C"
  then show "load_document n env validate p = Inl (Unhandled recursion_error)"
    using load_yaml_circle [OF assms(2), of C p n] by (simp add: load_document_def)
qed

text \<open>A library that meets both: a text that starts with \<open>!\<close> includes the file named after it.\<close>

definition demo_yaml :: "string yaml_env" where
  "demo_yaml =
     \<lparr>ye_resolve = Inr, ye_exists = (\<lambda>_. True),
      ye_read = (\<lambda>p. Inr (if p = ''/s/a.yaml'' then ''!b.yaml'' else if p = ''/s/c.yaml'' then ''!c.yaml'' else ''text'')),
      ye_load = (\<lambda>h doc. if starts_with ''!'' doc then h (tl doc) else Inr doc)\<rparr>"

definition demo_incs :: "string \<Rightarrow> string list" where
  "demo_incs doc = (if starts_with ''!'' doc then [tl doc] else [])"

lemma demo_yaml_library: "calls_tagged demo_yaml demo_incs" "raises_through demo_yaml demo_incs"
  by (simp_all add: calls_tagged_def raises_through_def demo_yaml_def demo_incs_def)

lemma demo_include: "load_yaml 2 demo_yaml ''/s/a.yaml'' = Inr ''text''"
  by code_simp

lemma demo_circle: "load_document n demo_yaml validate ''/s/c.yaml'' = Inl (Unhandled recursion_error)"
proof -
  have "circular demo_yaml demo_incs {''/s/c.yaml''} ''/s/c.yaml''"
    by (simp add: circular_def demo_yaml_def demo_incs_def join_path_def parent_of_def rsplit_once_def ends_with_def)
  then show ?thesis using includes_end [OF demo_yaml_library] by blast
qed

section \<open>References\<close>

text \<open>The reference the loader files a shared manifest under leads back to it, unless the name has a second \<open>.yaml\<close>.\<close>

lemma rsplit_once_char: "c \<notin> set y \<Longrightarrow> rsplit_once [c] (x @ c # y) = x"
proof -
  have "split_once [c] (z @ c # w) = (z, Some w)" if "c \<notin> set z" for z w
    using that by (induction z) auto
  then show "c \<notin> set y \<Longrightarrow> ?thesis" by (simp add: rsplit_once_def)
qed

lemma name_of_append: "CHR ''/'' \<notin> set name \<Longrightarrow> name_of (d @ ''/'' @ name) = name"
  by (simp add: name_of_def takeWhile_append)

lemma without_suffix_yaml:
  assumes "CHR ''/'' \<notin> set stem" "stem \<noteq> []"
  shows "without_suffix (d @ ''/'' @ stem @ ''.yaml'') = d @ ''/'' @ stem"
proof -
  have "name_of (d @ ''/'' @ stem @ ''.yaml'') = stem @ ''.yaml''"
    using assms name_of_append [of "stem @ ''.yaml''" d] by simp
  moreover have "rsplit_once ''.'' (stem @ ''.yaml'') = stem"
    using rsplit_once_char [of "CHR ''.''" "''yaml''" stem] by simp
  ultimately show ?thesis using assms by (simp add: without_suffix_def)
qed

lemma ends_with_iff: "ends_with sfx s \<longleftrightarrow> (\<exists>r. s = r @ sfx)"
  by (auto simp: ends_with_def starts_with_iff rev_swap) (metis rev_rev_ident)

lemma ends_with_past_slash:
  assumes "CHR ''/'' \<notin> set sfx"
  shows "ends_with sfx (d @ CHR ''/'' # name) \<longleftrightarrow> ends_with sfx name"
proof
  assume "ends_with sfx (d @ CHR ''/'' # name)"
  then obtain r where "d @ CHR ''/'' # name = r @ sfx" by (auto simp: ends_with_iff)
  then obtain u where "d = r @ u \<and> u @ CHR ''/'' # name = sfx \<or> d @ u = r \<and> CHR ''/'' # name = u @ sfx"
    by (auto simp: append_eq_append_conv2)
  then show "ends_with sfx name" using assms by (cases u) (auto simp: ends_with_iff)
next
  assume "ends_with sfx name"
  then obtain r where "name = r @ sfx" by (auto simp: ends_with_iff)
  then have "d @ CHR ''/'' # name = (d @ CHR ''/'' # r) @ sfx" by simp
  then show "ends_with sfx (d @ CHR ''/'' # name)" unfolding ends_with_iff by blast
qed

lemma map_no_backslash: "CHR 0x5C \<notin> set s \<Longrightarrow> map (\<lambda>c. if c = CHR 0x5C then CHR ''/'' else c) s = s"
  by (induction s) auto

definition shared_ref :: "string \<Rightarrow> string" where
  "shared_ref stem = ''_shared/agents/'' @ stem"

definition shared_file :: "string \<Rightarrow> string \<Rightarrow> string" where
  "shared_file dir stem = dir @ ''/'' @ shared_ref stem @ ''.yaml''"

lemma ref_for_shared_file:
  assumes "CHR ''/'' \<notin> set stem" "CHR 0x5C \<notin> set stem" "stem \<noteq> []"
  shows "ref_for_agent_file dir (shared_file dir stem) = Inr (shared_ref stem)"
proof -
  have "without_suffix (shared_ref stem @ ''.yaml'') = shared_ref stem"
    using without_suffix_yaml [OF assms(1,3), of "''_shared/agents''"] by (simp add: shared_ref_def)
  moreover have "starts_with (dir @ ''/'') (shared_file dir stem)"
    using starts_with_append [of "dir @ ''/''" "shared_ref stem @ ''.yaml''"] by (simp add: shared_file_def)
  moreover have "CHR 0x5C \<notin> set (shared_ref stem)" using assms(2) by (simp add: shared_ref_def)
  ultimately show ?thesis
    by (simp add: ref_for_agent_file_def map_no_backslash shared_file_def)
qed

lemma by_ref_shared_file:
  assumes "\<not> ends_with ''.yaml'' stem" "stem \<noteq> []" "\<not> ends_with ''/'' dir"
    and "ye_resolve env (shared_file dir stem) = Inr (shared_file dir stem)"
    and "ye_exists env (shared_file dir stem)"
  shows "load_agent_by_ref n env validate dir (shared_ref stem) = load_document n env validate (shared_file dir stem)"
proof -
  have "\<not> ends_with ''.yaml'' (shared_ref stem)"
    using assms(1) ends_with_past_slash [of "''.yaml''" "''_shared/agents''" stem] by (simp add: shared_ref_def)
  moreover have "join_path dir (shared_ref stem @ ''.yaml'') = shared_file dir stem"
    using assms(3) by (simp add: join_path_def shared_file_def shared_ref_def)
  ultimately show ?thesis using assms by (simp add: load_agent_by_ref_def Let_def)
qed

text \<open>An absolute reference is taken as it is, whatever the scenarios directory.\<close>

lemma absolute_ref_ignores_dir:
  "load_agent_by_ref n env validate dir (CHR ''/'' # ref) = load_agent_by_ref n env validate dir' (CHR ''/'' # ref)"
  by (simp add: load_agent_by_ref_def join_path_def Let_def)

end
